(* ===== verification/Go_Prelude.thy ===== *)
theory Go_Prelude
  imports Main "HOL-Library.Char_ord" "HOL-Library.List_Lexorder" "HOL-Library.AList"
    "HOL-Library.Multiset"
begin

text \<open>
  The part of Go that the modelled packages rely on: the \<^verbatim>\<open>error\<close> interface value, 64-bit
  integers and \<^verbatim>\<open>time.Duration\<close>, \<^verbatim>\<open>time.Time\<close>, and the operations of \<^verbatim>\<open>strings\<close>,
  \<^verbatim>\<open>sort\<close> and \<^verbatim>\<open>strconv\<close> that occur in them; together with the collections and generic
  lemmas the component theories share.

  Conventions. A Go \<^verbatim>\<open>error\<close> is \<open>goerror\<close>, an optional message whose \<open>None\<close> is
  \<^verbatim>\<open>nil\<close>; messages carry the constant text of the source's format string, the values the
  source interpolates are left out.  A pointer to a value is an \<open>option\<close>.  A Go string is
  a list of bytes, compared bytewise.  A Go map is an association list with distinct keys; where
  the source ranges over a map the result does not depend on the order of that list.
\<close>

section \<open>Errors\<close>

type_synonym goerror = "string option"

named_theorems validate_simps \<open>equations that turn a validator's success into its conditions\<close>

text \<open>
  A chain of \<^verbatim>\<open>if err := ...; err != nil { return err }\<close> statements returns the first error.
\<close>

fun firstErr :: "goerror list \<Rightarrow> goerror" where
  "firstErr [] = None"
| "firstErr (e # es) = (case e of None \<Rightarrow> firstErr es | Some m \<Rightarrow> Some m)"

definition errWhen :: "bool \<Rightarrow> string \<Rightarrow> goerror" where
  "errWhen b m = (if b then Some m else None)"

text \<open>\<^verbatim>\<open>fmt.Errorf("prefix: %w", err)\<close>.\<close>

definition wrapErr :: "string \<Rightarrow> goerror \<Rightarrow> goerror" where
  "wrapErr p e = map_option (\<lambda>m. p @ m) e"

text \<open>A check of a pointer field that is skipped when the pointer is nil.\<close>

definition whenSome :: "'a option \<Rightarrow> ('a \<Rightarrow> goerror) \<Rightarrow> goerror" where
  "whenSome x f = (case x of None \<Rightarrow> None | Some v \<Rightarrow> f v)"

lemma firstErr_Cons_None [simp, validate_simps]:
  "firstErr (e # es) = None \<longleftrightarrow> e = None \<and> firstErr es = None"
  by (simp split: option.splits)

declare firstErr.simps(2) [simp del]

lemma firstErr_None_iff:
  "firstErr es = None \<longleftrightarrow> list_all (\<lambda>e. e = None) es"
  by (induction es) auto

lemma firstErr_map_None [simp, validate_simps]:
  "firstErr (map f xs) = None \<longleftrightarrow> list_all (\<lambda>x. f x = None) xs"
  by (induction xs) auto

lemma firstErr_Some_iff:
  "firstErr es = Some m \<longleftrightarrow>
    (\<exists>as bs. es = as @ Some m # bs \<and> list_all (\<lambda>e. e = None) as)"
proof (induction es)
  case Nil
  then show ?case by simp
next
  case (Cons e es)
  show ?case
  proof (cases e)
    case None
    have "(\<exists>as bs. e # es = as @ Some m # bs \<and> list_all (\<lambda>e. e = None) as) \<longleftrightarrow>
          (\<exists>as bs. es = as @ Some m # bs \<and> list_all (\<lambda>e. e = None) as)" (is "?l \<longleftrightarrow> ?r")
    proof
      assume ?l
      then obtain as bs where "e # es = as @ Some m # bs" "list_all (\<lambda>e. e = None) as" by blast
      with None show ?r by (cases as) auto
    next
      assume ?r
      then obtain as bs where "es = as @ Some m # bs" "list_all (\<lambda>e. e = None) as" by blast
      then have "e # es = (e # as) @ Some m # bs \<and> list_all (\<lambda>e. e = None) (e # as)"
        using None by simp
      then show ?l by blast
    qed
    with Cons.IH None show ?thesis by (simp add: firstErr.simps)
  next
    case (Some k)
    then show ?thesis
      by (auto simp: firstErr.simps Cons_eq_append_conv intro: exI [of _ "[]"])
  qed
qed

lemma errWhen_None_iff [validate_simps]: "errWhen b m = None \<longleftrightarrow> \<not> b"
  by (simp add: errWhen_def)

lemma wrapErr_None_iff [validate_simps]: "wrapErr p e = None \<longleftrightarrow> e = None"
  by (simp add: wrapErr_def)

lemma whenSome_None_iff [validate_simps]:
  "whenSome x f = None \<longleftrightarrow> (\<forall>v. x = Some v \<longrightarrow> f v = None)"
  by (auto simp: whenSome_def split: option.splits)

lemma whenSome_simps [simp]:
  "whenSome None f = None" "whenSome (Some v) f = f v"
  by (simp_all add: whenSome_def)

section \<open>Integers and durations\<close>

text \<open>
  A Go \<^verbatim>\<open>int\<close>, \<^verbatim>\<open>int64\<close> or \<^verbatim>\<open>time.Duration\<close> is an \<open>int\<close>; where a product or a
  sum can leave the 64-bit range the model wraps it as two's complement does.
\<close>

type_synonym duration = int

definition wrap64 :: "int \<Rightarrow> int" where
  "wrap64 x = (x + 2 ^ 63) mod 2 ^ 64 - 2 ^ 63"

definition minInt64 :: int where "minInt64 = - (2 ^ 63)"

definition maxInt64 :: int where "maxInt64 = 2 ^ 63 - 1"

definition second :: duration where "second = 1000000000"

definition minute :: duration where "minute = 60 * second"

definition hour :: duration where "hour = 60 * minute"

lemmas duration_defs = second_def minute_def hour_def

lemma wrap64_range: "minInt64 \<le> wrap64 x \<and> wrap64 x \<le> maxInt64"
proof -
  have "0 \<le> (x + 2 ^ 63) mod 2 ^ 64" "(x + 2 ^ 63) mod 2 ^ 64 < (2::int) ^ 64"
    by simp_all
  then show ?thesis by (simp add: wrap64_def minInt64_def maxInt64_def)
qed

lemma wrap64_id: "minInt64 \<le> x \<Longrightarrow> x \<le> maxInt64 \<Longrightarrow> wrap64 x = x"
  by (simp add: wrap64_def minInt64_def maxInt64_def)

section \<open>Instants\<close>

text \<open>
  A \<^verbatim>\<open>time.Time\<close> is an instant, in nanoseconds since the zero time (January 1, year 1 UTC),
  and a location: \<open>None\<close> is \<^verbatim>\<open>time.UTC\<close>, \<open>Some z\<close> any other location, \<open>z\<close> seconds
  east of UTC.  Comparisons read the instant only.
\<close>

record gtime =
  tns :: int
  tloc :: "int option"

definition tutc :: "gtime \<Rightarrow> bool" where "tutc t \<longleftrightarrow> tloc t = None"

definition zeroTime :: gtime where "zeroTime = \<lparr>tns = 0, tloc = None\<rparr>"

definition tIsZero :: "gtime \<Rightarrow> bool" where "tIsZero t \<longleftrightarrow> tns t = 0"

definition tBefore :: "gtime \<Rightarrow> gtime \<Rightarrow> bool" where "tBefore a b \<longleftrightarrow> tns a < tns b"

definition tAfter :: "gtime \<Rightarrow> gtime \<Rightarrow> bool" where "tAfter a b \<longleftrightarrow> tns b < tns a"

definition tEqual :: "gtime \<Rightarrow> gtime \<Rightarrow> bool" where "tEqual a b \<longleftrightarrow> tns a = tns b"

definition tAdd :: "gtime \<Rightarrow> duration \<Rightarrow> gtime" where "tAdd t d = t\<lparr>tns := tns t + d\<rparr>"

text \<open>\<^verbatim>\<open>Time.Sub\<close> saturates at the bounds of a duration.\<close>

definition tSub :: "gtime \<Rightarrow> gtime \<Rightarrow> duration" where
  "tSub a b = max minInt64 (min maxInt64 (tns a - tns b))"

definition tUTC :: "gtime \<Rightarrow> gtime" where "tUTC t = t\<lparr>tloc := None\<rparr>"

definition utcAt :: "int \<Rightarrow> gtime" where "utcAt n = \<lparr>tns = n, tloc = None\<rparr>"

lemma tutc_simps [simp]: "tutc (tUTC t)" "tutc (utcAt n)" "tutc zeroTime" "tutc (tAdd t d) = tutc t"
  by (simp_all add: tutc_def tUTC_def utcAt_def zeroTime_def tAdd_def)

lemma tns_simps [simp]: "tns (tUTC t) = tns t" "tns (utcAt n) = n" "tns zeroTime = 0"
    "tns (tAdd t d) = tns t + d"
  by (simp_all add: tUTC_def utcAt_def zeroTime_def tAdd_def)

lemmas time_defs = tIsZero_def tBefore_def tAfter_def tEqual_def tAdd_def tUTC_def utcAt_def
  zeroTime_def

section \<open>Strings\<close>

definition byte :: "char \<Rightarrow> nat" where "byte c = of_char c"

definition asciiSpace :: "char \<Rightarrow> bool" where
  "asciiSpace c \<longleftrightarrow> byte c \<in> {9, 10, 11, 12, 13, 32}"

definition space2 :: "char \<Rightarrow> char \<Rightarrow> bool" where
  "space2 a b \<longleftrightarrow> byte a = 0xC2 \<and> byte b \<in> {0x85, 0xA0}"

definition space3 :: "char \<Rightarrow> char \<Rightarrow> char \<Rightarrow> bool" where
  "space3 a b c \<longleftrightarrow>
     (byte a, byte b, byte c) \<in> {(0xE1, 0x9A, 0x80), (0xE2, 0x81, 0x9F), (0xE3, 0x80, 0x80)} \<or>
     byte a = 0xE2 \<and> byte b = 0x80 \<and>
       (byte c \<in> {0xA8, 0xA9, 0xAF} \<or> 0x80 \<le> byte c \<and> byte c \<le> 0x8A)"

fun spacePrefix :: "string \<Rightarrow> nat" where
  "spacePrefix (a # b # c # s) =
     (if asciiSpace a then 1 else if space2 a b then 2 else if space3 a b c then 3 else 0)"
| "spacePrefix [a, b] = (if asciiSpace a then 1 else if space2 a b then 2 else 0)"
| "spacePrefix [a] = (if asciiSpace a then 1 else 0)"
| "spacePrefix [] = 0"

text \<open>
  \<open>spacePrefix\<close> is the number of bytes of the Unicode white space character
  (\<^verbatim>\<open>unicode.IsSpace\<close>) that a string starts with in UTF-8, or 0.
\<close>

function trimLeft :: "string \<Rightarrow> string" where
  "trimLeft s = (if spacePrefix s = 0 \<or> s = [] then s else trimLeft (drop (spacePrefix s) s))"
  by pat_completeness auto
termination
  by (relation "measure length") auto

declare trimLeft.simps [simp del]

text \<open>The same test at the end of a string: the white space character a string ends with.\<close>

definition spaceSuffix :: "string \<Rightarrow> nat" where
  "spaceSuffix s =
     (if s \<noteq> [] \<and> spacePrefix [last s] = 1 then 1
      else if 2 \<le> length s \<and> spacePrefix (drop (length s - 2) s) = 2 then 2
      else if 3 \<le> length s \<and> spacePrefix (drop (length s - 3) s) = 3 then 3
      else 0)"

function trimRight :: "string \<Rightarrow> string" where
  "trimRight s = (if spaceSuffix s = 0 \<or> s = [] then s
     else trimRight (take (length s - spaceSuffix s) s))"
  by pat_completeness auto
termination
  by (relation "measure length") auto

declare trimRight.simps [simp del]

definition trimSpace :: "string \<Rightarrow> string" where
  "trimSpace s = trimRight (trimLeft s)"

text \<open>\<^verbatim>\<open>strings.TrimSpace(s) == ""\<close>, the test every validator makes.\<close>

definition blank :: "string \<Rightarrow> bool" where
  "blank s \<longleftrightarrow> trimSpace s = []"

text \<open>
  \<^verbatim>\<open>strings.ToLower\<close>: ASCII letters, and the two characters outside ASCII that Unicode maps
  to an ASCII letter (U+0130 and U+212A, in UTF-8).  Every other byte is kept, which does not
  change whether the result equals an ASCII string.
\<close>

definition lowerChar :: "char \<Rightarrow> char" where
  "lowerChar c = (if 65 \<le> byte c \<and> byte c \<le> 90 then char_of (byte c + 32) else c)"

fun toLower :: "string \<Rightarrow> string" where
  "toLower [] = []"
| "toLower [a] = [lowerChar a]"
| "toLower [a, b] =
     (if byte a = 0xC4 \<and> byte b = 0xB0 then ''i'' else lowerChar a # toLower [b])"
| "toLower (a # b # c # s) =
     (if byte a = 0xC4 \<and> byte b = 0xB0 then CHR ''i'' # toLower (c # s)
      else if byte a = 0xE2 \<and> byte b = 0x84 \<and> byte c = 0xAA then CHR ''k'' # toLower s
      else lowerChar a # toLower (b # c # s))"

definition hasPrefix :: "string \<Rightarrow> string \<Rightarrow> bool" where
  "hasPrefix s p \<longleftrightarrow> take (length p) s = p"

text \<open>\<^verbatim>\<open>strings.Join\<close>.\<close>

fun joinStrings :: "string list \<Rightarrow> string \<Rightarrow> string" where
  "joinStrings [] sep = []"
| "joinStrings [x] sep = x"
| "joinStrings (x # y # zs) sep = x @ sep @ joinStrings (y # zs) sep"

text \<open>Decimal rendering, as \<^verbatim>\<open>strconv.Itoa\<close> and the verb \<^verbatim>\<open>%d\<close> give it.\<close>

definition digitChar :: "int \<Rightarrow> char" where
  "digitChar d = char_of (48 + d)"

function posDigits :: "int \<Rightarrow> string" where
  "posDigits n = (if n < 10 then [digitChar n] else posDigits (n div 10) @ [digitChar (n mod 10)])"
  by pat_completeness auto
termination
  by (relation "measure nat") auto

declare posDigits.simps [simp del]

definition itoa :: "int \<Rightarrow> string" where
  "itoa i = (if i < 0 then CHR ''-'' # posDigits (- i) else posDigits i)"

text \<open>\<^verbatim>\<open>sort.Strings\<close> sorts bytewise.\<close>

definition sortStrings :: "string list \<Rightarrow> string list" where
  "sortStrings xs = sort xs"

lemma spacePrefix_le: "spacePrefix s \<le> length s"
  by (induction s rule: spacePrefix.induct) auto

lemma trimLeft_not_space: "spacePrefix (trimLeft s) = 0 \<or> trimLeft s = []"
proof (induction s rule: trimLeft.induct)
  case (1 s)
  then show ?case by (cases "spacePrefix s = 0 \<or> s = []") (auto simp: trimLeft.simps [of s])
qed

lemma trimLeft_suffix: "\<exists>p. s = p @ trimLeft s"
proof (induction s rule: trimLeft.induct)
  case (1 s)
  show ?case
  proof (cases "spacePrefix s = 0 \<or> s = []")
    case True
    then show ?thesis by (auto simp: trimLeft.simps [of s])
  next
    case False
    with 1 obtain p where "drop (spacePrefix s) s = p @ trimLeft (drop (spacePrefix s) s)"
      by blast
    with False have "s = (take (spacePrefix s) s @ p) @ trimLeft s"
      by (subst trimLeft.simps) (simp flip: append_assoc, metis append_take_drop_id append_assoc)
    then show ?thesis by blast
  qed
qed

lemma trimSpace_Nil [simp]: "trimSpace [] = []"
  by (simp add: trimSpace_def trimLeft.simps [of "[]"] trimRight.simps [of "[]"])

lemma blank_Nil [simp]: "blank []"
  by (simp add: blank_def)

lemma trimSpace_noop:
  assumes "spacePrefix s = 0" and "spaceSuffix s = 0"
  shows "trimSpace s = s"
  using assms by (simp add: trimSpace_def trimLeft.simps [of s] trimRight.simps [of s])

lemma spacePrefix_ascii: "byte c < 0x80 \<Longrightarrow> \<not> asciiSpace c \<Longrightarrow> spacePrefix (c # s) = 0"
  by (cases s; cases "tl s") (auto simp: space2_def space3_def)

lemma spaceSuffix_whole:
  assumes "s \<noteq> []" and "spaceSuffix s \<noteq> 0" and "length s \<le> spaceSuffix s"
  shows "spacePrefix s \<noteq> 0"
  using assms by (cases s) (auto simp: spaceSuffix_def split: if_splits)

lemma trimRight_keeps_head:
  "s \<noteq> [] \<Longrightarrow> (\<forall>r. spacePrefix (hd s # r) = 0) \<Longrightarrow> trimRight s \<noteq> []"
proof (induction s rule: trimRight.induct)
  case (1 s)
  show ?case
  proof (cases "spaceSuffix s = 0")
    case True
    with 1 show ?thesis by (simp add: trimRight.simps [of s])
  next
    case False
    let ?t = "take (length s - spaceSuffix s) s"
    have "spaceSuffix s < length s"
      using spaceSuffix_whole [of s] False 1 by (metis list.collapse not_less)
    then have "?t \<noteq> []" "hd ?t = hd s" using 1 by (auto simp: hd_take)
    with 1 False have "trimRight ?t \<noteq> []" by metis
    with False 1 show ?thesis by (simp add: trimRight.simps [of s])
  qed
qed

text \<open>A string that starts with an ASCII character other than white space is not blank.\<close>

lemma not_blank_ascii:
  assumes "byte c < 0x80" and "\<not> asciiSpace c"
  shows "\<not> blank (c # s)"
proof -
  have "trimLeft (c # s) = c # s"
    using spacePrefix_ascii [OF assms] by (simp add: trimLeft.simps [of "c # s"])
  moreover have "trimRight (c # s) \<noteq> []"
    using spacePrefix_ascii [OF assms] by (intro trimRight_keeps_head) auto
  ultimately show ?thesis by (simp add: blank_def trimSpace_def)
qed

text \<open>Decimal rendering is injective, so the identifiers built from it keep numbers apart.\<close>

lemma of_digitChar: "0 \<le> d \<Longrightarrow> d < 10 \<Longrightarrow> (of_char (digitChar d) :: int) = 48 + d"
  by (simp add: digitChar_def)

lemma digitChar_inj:
  "0 \<le> d \<Longrightarrow> d < 10 \<Longrightarrow> 0 \<le> e \<Longrightarrow> e < 10 \<Longrightarrow> digitChar d = digitChar e \<Longrightarrow> d = e"
  by (metis add_left_cancel of_digitChar)

lemma posDigits_nonempty: "posDigits n \<noteq> []"
  by (subst posDigits.simps) simp

lemma posDigits_single: "posDigits n = [c] \<Longrightarrow> n < 10"
proof (rule ccontr)
  assume "posDigits n = [c]" "\<not> n < 10"
  then have "posDigits (n div 10) @ [digitChar (n mod 10)] = [c]" by (simp add: posDigits.simps [of n])
  with posDigits_nonempty [of "n div 10"] show False by (cases "posDigits (n div 10)") auto
qed

lemma posDigits_inj: "0 \<le> m \<Longrightarrow> 0 \<le> n \<Longrightarrow> posDigits m = posDigits n \<Longrightarrow> m = n"
proof (induction m arbitrary: n rule: posDigits.induct)
  case (1 m)
  show ?case
  proof (cases "m < 10")
    case True
    with "1.prems" have eq: "posDigits n = [digitChar m]" by (simp add: posDigits.simps [of m])
    then have "n < 10" by (rule posDigits_single)
    with eq True "1.prems" show ?thesis
      by (auto simp: posDigits.simps [of n] dest: digitChar_inj)
  next
    case False
    then have m: "posDigits m = posDigits (m div 10) @ [digitChar (m mod 10)]"
      by (simp add: posDigits.simps [of m])
    have "\<not> n < 10"
    proof
      assume "n < 10"
      then have "posDigits m = [digitChar n]" using "1.prems" by (simp add: posDigits.simps [of n])
      with False show False using posDigits_single by blast
    qed
    then have n: "posDigits n = posDigits (n div 10) @ [digitChar (n mod 10)]"
      by (simp add: posDigits.simps [of n])
    from m n "1.prems" have "posDigits (m div 10) = posDigits (n div 10)"
      and "digitChar (m mod 10) = digitChar (n mod 10)" by simp_all
    with "1.IH" [OF False, of "n div 10"] "1.prems" have "m div 10 = n div 10" "m mod 10 = n mod 10"
      by (auto dest: digitChar_inj [rotated 4])
    then show ?thesis by (metis mult_div_mod_eq)
  qed
qed

lemma posDigits_no_minus: "0 \<le> n \<Longrightarrow> CHR ''-'' \<notin> set (posDigits n)"
proof (induction n rule: posDigits.induct)
  case (1 n)
  have d: "CHR ''-'' \<noteq> digitChar k" if "0 \<le> k" "k < 10" for k
  proof
    assume "CHR ''-'' = digitChar k"
    then have "(of_char (CHR ''-'') :: int) = 48 + k" using of_digitChar [OF that] by simp
    with that show False by simp
  qed
  from 1 d show ?case by (cases "n < 10") (simp_all add: posDigits.simps [of n])
qed

lemma itoa_inj: "itoa i = itoa j \<Longrightarrow> i = j"
proof -
  assume a: "itoa i = itoa j"
  have hd: "posDigits k \<noteq> CHR ''-'' # s" if "0 \<le> k" for k s
    using posDigits_no_minus [OF that] by (metis list.set_intros(1))
  show "i = j"
  proof (cases "i < 0"; cases "j < 0")
    assume "i < 0" "j < 0"
    with a have "- i = - j" by (intro posDigits_inj) (auto simp: itoa_def)
    then show ?thesis by simp
  next
    assume "\<not> i < 0" "\<not> j < 0"
    with a show ?thesis by (intro posDigits_inj) (auto simp: itoa_def)
  next
    assume "i < 0" "\<not> j < 0"
    with a hd [of j] show ?thesis by (simp add: itoa_def) metis
  next
    assume "\<not> i < 0" "j < 0"
    with a hd [of i] show ?thesis by (simp add: itoa_def)
  qed
qed

section \<open>Sorted lists of strings\<close>

lemma sortStrings_set [simp]: "set (sortStrings xs) = set xs"
  by (simp add: sortStrings_def)

lemma sortStrings_perm: "mset xs = mset ys \<Longrightarrow> sortStrings xs = sortStrings ys"
  by (metis sortStrings_def sorted_list_of_multiset_mset)

lemma sortStrings_sorted: "sorted (sortStrings xs)"
  by (simp add: sortStrings_def)

lemma sortStrings_length [simp]: "length (sortStrings xs) = length xs"
  by (simp add: sortStrings_def)

text \<open>Sorting by a key that tells the elements apart forgets the order of the input.\<close>

lemma sort_key_perm:
  assumes "mset xs = mset ys" and "inj_on f (set xs)"
  shows "sort_key f xs = sort_key f ys"
proof (rule properties_for_sort_key)
  show "mset (sort_key f ys) = mset xs" using assms(1) by simp
  show "sorted (map f (sort_key f ys))" by simp
  fix k
  assume "k \<in> set (sort_key f ys)"
  with assms have k: "k \<in> set xs" by (metis mset_eq_setD set_sort)
  have "x = k" if "x \<in> set xs" "f x = f k" for x
    using that k assms(2) by (auto simp: inj_on_def)
  moreover have "set (sort_key f ys) = set xs" using assms(1) by (metis mset_eq_setD set_sort)
  ultimately have "filter (\<lambda>x. f k = f x) (sort_key f ys) = filter ((=) k) (sort_key f ys)"
    and "filter (\<lambda>x. f k = f x) xs = filter ((=) k) xs"
    by (auto intro!: filter_cong)
  moreover have "filter ((=) k) (sort_key f ys) = filter ((=) k) xs"
    using assms(1) by (simp flip: replicate_count_mset_eq_filter_eq)
  ultimately show "filter (\<lambda>x. f k = f x) (sort_key f ys) = filter (\<lambda>x. f k = f x) xs" by simp
qed

end
