(* ===== verification/Severity.thy ===== *)
theory Severity
  imports Go_Prelude
begin

text \<open>
  Package \<^verbatim>\<open>internal/severity\<close>: the shared severity ladder \<open>Rank\<close> and the narrower
  vocabulary \<open>GateRank\<close> of the Slack minimum-severity gate.
\<close>

definition Rank :: "string \<Rightarrow> int" where
  "Rank s =
     (let v = toLower (trimSpace s) in
      if v \<in> {''debug'', ''trace'', ''info'', ''low'', ''information''} then 1
      else if v \<in> {''notice'', ''warn'', ''warning'', ''medium'', ''average''} then 2
      else if v \<in> {''error'', ''high''} then 3
      else if v \<in> {''critical'', ''crit''} then 4
      else if v \<in> {''alert'', ''emergency'', ''fatal'', ''page'', ''disaster''} then 5
      else 0)"

definition GateRank :: "string \<Rightarrow> int" where
  "GateRank s =
     (let v = toLower (trimSpace s) in
      if v = ''low'' then 1 else if v = ''medium'' then 2 else if v = ''high'' then 3 else 0)"

lemma Rank_range: "0 \<le> Rank s \<and> Rank s \<le> 5"
  by (simp add: Rank_def Let_def)

lemma Rank_normalised: "toLower (trimSpace s) = toLower (trimSpace t) \<Longrightarrow> Rank s = Rank t"
  by (simp add: Rank_def)

text \<open>
  The rank of a string that has no white space at its ends is decided by its lower-case form.
\<close>

lemma Rank_literal:
  assumes "spacePrefix s = 0" and "spaceSuffix s = 0"
  shows "Rank s = (let v = toLower s in
      if v \<in> {''debug'', ''trace'', ''info'', ''low'', ''information''} then 1
      else if v \<in> {''notice'', ''warn'', ''warning'', ''medium'', ''average''} then 2
      else if v \<in> {''error'', ''high''} then 3
      else if v \<in> {''critical'', ''crit''} then 4
      else if v \<in> {''alert'', ''emergency'', ''fatal'', ''page'', ''disaster''} then 5
      else 0)"
  using trimSpace_noop [OF assms] by (simp add: Rank_def)

lemma Rank_empty: "Rank [] = 0"
  by (simp add: Rank_def)

lemma Rank_critical: "Rank ''critical'' = 4"
  by (subst Rank_literal) (simp_all add: spaceSuffix_def asciiSpace_def space2_def space3_def
      byte_def lowerChar_def)

lemma Rank_warning: "Rank ''warning'' = 2"
  by (subst Rank_literal) (simp_all add: spaceSuffix_def asciiSpace_def space2_def space3_def
      byte_def lowerChar_def)

text \<open>
  \<^bold>\<open>Severity ladder and gate agree.\<close>  Wherever the gate vocabulary recognises a severity, it
  gives it the same rank as the full ladder, and what the gate ranks 0 it lets pass.
\<close>

lemma GateRank_agrees_Rank: "GateRank s = 0 \<or> GateRank s = Rank s"
  by (simp add: GateRank_def Rank_def Let_def)

end
