(* ===== verification/Grouping.thy ===== *)
theory Grouping
  imports Go_Prelude
begin

text \<open>
  Package \<^verbatim>\<open>internal/grouping\<close>: the readable identity an Incident is grouped by, rendered
  from alert labels.  A label set is an association list with distinct keys.
\<close>

type_synonym labels = "(string \<times> string) list"

text \<open>Go's \<^verbatim>\<open>labels[key]\<close>: the empty string for a missing key.\<close>

definition labelAt :: "labels \<Rightarrow> string \<Rightarrow> string" where
  "labelAt ls k = (case map_of ls k of None \<Rightarrow> [] | Some v \<Rightarrow> v)"

definition render :: "labels \<Rightarrow> string list \<Rightarrow> string" where
  "render ls keys =
     joinStrings (map (\<lambda>key. key @ ''='' @ labelAt ls key) (sortStrings keys)) '',''"

definition RenderLabels :: "labels \<Rightarrow> string" where
  "RenderLabels ls = render ls (map fst ls)"

definition RenderSelectedLabels :: "labels \<Rightarrow> string list \<Rightarrow> string" where
  "RenderSelectedLabels ls selected =
     render ls (filter (\<lambda>key. map_of ls key \<noteq> None) selected)"

definition Ensure :: "string \<Rightarrow> labels \<Rightarrow> string \<Rightarrow> string" where
  "Ensure identity ls fingerprint =
     (if identity \<noteq> [] then identity
      else if labelAt ls ''alertname'' \<noteq> [] then ''alertname='' @ labelAt ls ''alertname''
      else ''fingerprint='' @ fingerprint)"

section \<open>Joining and splitting at commas\<close>

lemma split_at_sep:
  assumes "a @ x # r = b @ x # s" and "x \<notin> set a" and "x \<notin> set b"
  shows "a = b \<and> r = s"
proof -
  have "takeWhile (\<lambda>c. c \<noteq> x) (a @ x # r) = a" using assms(2)
    by (metis (mono_tags, lifting) append_Nil2 takeWhile.simps(2) takeWhile_append2)
  moreover have "takeWhile (\<lambda>c. c \<noteq> x) (b @ x # s) = b" using assms(3)
    by (metis (mono_tags, lifting) append_Nil2 takeWhile.simps(2) takeWhile_append2)
  ultimately have "a = b" using assms(1) by simp
  with assms(1) show ?thesis by simp
qed

lemma joinStrings_Cons:
  "joinStrings (x # ys) sep = (if ys = [] then x else x @ sep @ joinStrings ys sep)"
  by (cases ys) auto

lemma joinStrings_inj:
  assumes "joinStrings xs [c] = joinStrings ys [c]"
    and "\<forall>x \<in> set xs. c \<notin> set x \<and> x \<noteq> []" and "\<forall>y \<in> set ys. c \<notin> set y \<and> y \<noteq> []"
  shows "xs = ys"
  using assms
proof (induction xs arbitrary: ys)
  case Nil
  then show ?case by (cases ys) (auto simp: joinStrings_Cons split: if_splits)
next
  case (Cons x xs)
  show ?case
  proof (cases ys)
    case Nil
    with Cons.prems show ?thesis by (auto simp: joinStrings_Cons split: if_splits)
  next
    case (Cons y zs)
    show ?thesis
    proof (cases "xs = []"; cases "zs = []")
      assume "xs = []" "zs = []"
      with Cons Cons.prems(1) show ?thesis by simp
    next
      assume "xs \<noteq> []" "zs \<noteq> []"
      with Cons Cons.prems(1) have "x @ c # joinStrings xs [c] = y @ c # joinStrings zs [c]"
        by (simp add: joinStrings_Cons)
      moreover have "c \<notin> set x" "c \<notin> set y" using Cons Cons.prems(2,3) by simp_all
      ultimately have "x = y \<and> joinStrings xs [c] = joinStrings zs [c]" by (rule split_at_sep)
      with Cons.IH [of zs] Cons Cons.prems(2,3) show ?thesis by simp
    next
      assume "xs = []" "zs \<noteq> []"
      with Cons Cons.prems(1) have "x = y @ c # joinStrings zs [c]" by (simp add: joinStrings_Cons)
      with Cons.prems(2) show ?thesis by simp
    next
      assume "xs \<noteq> []" "zs = []"
      with Cons Cons.prems(1) have "y = x @ c # joinStrings xs [c]" by (simp add: joinStrings_Cons)
      with Cons Cons.prems(3) show ?thesis by simp
    qed
  qed
qed

section \<open>Properties of the identity\<close>

lemma labelAt_perm:
  assumes "distinct (map fst ls)" and "mset ls = mset ms"
  shows "labelAt ls = labelAt ms"
proof -
  have "map_of ls = map_of ms"
    using assms by (metis map_of_eqI map_of_inject_set mset_eq_imp_distinct_iff mset_eq_setD mset_map
        set_map)
  then show ?thesis by (simp add: labelAt_def fun_eq_iff)
qed

lemma RenderLabels_perm:
  assumes "distinct (map fst ls)" and "mset ls = mset ms"
  shows "RenderLabels ls = RenderLabels ms"
proof -
  have "mset (map fst ls) = mset (map fst ms)" using assms(2) by simp
  then have "sortStrings (map fst ls) = sortStrings (map fst ms)" by (rule sortStrings_perm)
  with labelAt_perm [OF assms] show ?thesis by (simp add: RenderLabels_def render_def)
qed

text \<open>A label set whose keys and values cannot be confused with the rendering's separators.\<close>

definition separatorFree :: "labels \<Rightarrow> bool" where
  "separatorFree ls \<longleftrightarrow>
     (\<forall>(k, v) \<in> set ls. CHR '','' \<notin> set k \<and> CHR ''='' \<notin> set k \<and> CHR '','' \<notin> set v)"

lemma map_of_labelAt:
  "map_of ls k = (if k \<in> fst ` set ls then Some (labelAt ls k) else None)"
  by (auto simp: labelAt_def map_of_eq_None_iff split: option.splits)

lemma separatorFree_part:
  assumes "separatorFree ls" and "k \<in> fst ` set ls"
  shows "CHR '','' \<notin> set (k @ ''='' @ labelAt ls k) \<and> CHR ''='' \<notin> set k"
proof -
  from assms(2) have "map_of ls k = Some (labelAt ls k)" by (simp add: map_of_labelAt)
  then have "(k, labelAt ls k) \<in> set ls" by (rule map_of_SomeD)
  with assms(1) show ?thesis by (auto simp: separatorFree_def)
qed

lemma RenderLabels_inj:
  assumes "separatorFree ls" and "separatorFree ms" and "RenderLabels ls = RenderLabels ms"
  shows "map_of ls = map_of ms"
proof -
  let ?p = "\<lambda>ls k. k @ ''='' @ labelAt ls k"
  have ok: "\<forall>x \<in> set (map (?p ns) (sortStrings (map fst ns))). CHR '','' \<notin> set x \<and> x \<noteq> []"
    if "separatorFree ns" for ns
    using separatorFree_part [OF that] by simp
  have "joinStrings (map (?p ls) (sortStrings (map fst ls))) '','' =
        joinStrings (map (?p ms) (sortStrings (map fst ms))) '',''"
    using assms(3) by (simp add: RenderLabels_def render_def)
  from joinStrings_inj [OF this ok ok] assms(1,2)
  have "map (?p ls) (sortStrings (map fst ls)) = map (?p ms) (sortStrings (map fst ms))" by blast
  then have eq: "?p ls ` fst ` set ls = ?p ms ` fst ` set ms"
    by (metis (no_types, lifting) list.set_map sortStrings_set)
  have sub: "map_of ns k = map_of ns' k" if "separatorFree ns" "separatorFree ns'"
      "?p ns ` fst ` set ns = ?p ns' ` fst ` set ns'" "k \<in> fst ` set ns" for ns ns' k
  proof -
    from that(3,4) obtain k' where k': "k' \<in> fst ` set ns'" "?p ns k = ?p ns' k'" by blast
    then have "k @ CHR ''='' # labelAt ns k = k' @ CHR ''='' # labelAt ns' k'" by simp
    moreover have "CHR ''='' \<notin> set k" "CHR ''='' \<notin> set k'"
      using separatorFree_part that(1,2,4) k'(1) by blast+
    ultimately have "k = k' \<and> labelAt ns k = labelAt ns' k'" by (rule split_at_sep)
    with k' that(4) show ?thesis by (simp add: map_of_labelAt)
  qed
  show ?thesis
  proof
    fix k
    show "map_of ls k = map_of ms k"
    proof (cases "k \<in> fst ` set ls \<or> k \<in> fst ` set ms")
      case True
      then show ?thesis using sub [OF assms(1,2) eq] sub [OF assms(2,1) eq [symmetric]] by metis
    next
      case False
      then show ?thesis by (simp add: map_of_labelAt)
    qed
  qed
qed

lemma Ensure_nonempty: "Ensure identity ls fp \<noteq> []"
  by (simp add: Ensure_def)

end
