(* ===== verification/Situation_Model.thy ===== *)
theory Situation_Model
  imports Go_Prelude Grouping
begin

text \<open>
  Package \<^verbatim>\<open>internal/situation/model\<close>, the files \<^verbatim>\<open>model.go\<close>, \<^verbatim>\<open>fact.go\<close> and
  \<^verbatim>\<open>observation_coverage.go\<close>: the closed vocabulary of a Situation and the aggregate
  itself.  A Go string enumeration is a datatype with the source's constants as constructors and
  one more constructor for the strings that are none of them, so that the validators have
  something to reject.
\<close>

section \<open>Closed enumerations\<close>

definition validateEnum :: "string \<Rightarrow> 'a \<Rightarrow> 'a list \<Rightarrow> goerror" where
  "validateEnum kind v allowed =
     (if v \<in> set allowed then None else Some (''model: '' @ kind @ '': unknown value''))"

lemma validateEnum_None_iff [validate_simps]:
  "validateEnum kind v allowed = None \<longleftrightarrow> v \<in> set allowed"
  by (simp add: validateEnum_def)

datatype lifecycle =
    LifecycleActive | LifecycleRecoveryPending | LifecycleRecovered | LifecycleClosedUnknown |
    LifecycleOther string

definition Lifecycle_Validate :: "lifecycle \<Rightarrow> goerror" where
  "Lifecycle_Validate v = validateEnum ''lifecycle'' v
      [LifecycleActive, LifecycleRecoveryPending, LifecycleRecovered,
       LifecycleClosedUnknown]"

definition Terminal :: "lifecycle \<Rightarrow> bool" where
  "Terminal l \<longleftrightarrow> l = LifecycleRecovered \<or> l = LifecycleClosedUnknown"

datatype attention =
    AttentionObserve | AttentionInvestigate | AttentionUrgent | AttentionOther string

definition Attention_Validate :: "attention \<Rightarrow> goerror" where
  "Attention_Validate v = validateEnum ''attention'' v
      [AttentionObserve, AttentionInvestigate, AttentionUrgent]"

datatype sourceTimeBasis =
    SourceTimeBasisSourcePayload | SourceTimeBasisSourceAPI | SourceTimeBasisReceiptFallback |
    SourceTimeBasisMissing | SourceTimeBasisMixed | SourceTimeBasisOther string

datatype deliveryStatus =
    DeliveryStatusFiring | DeliveryStatusResolved | DeliveryStatusOther string

datatype dueReason =
    DueIncidentCreated | DueMembershipChanged | DueNewSymptom | DueAlertResolved |
    DueAlertRefired | DueDurationMilestone | DueConnectorHealthChanged |
    DueSourceProvenanceChanged | DueSemanticProfileChanged | DueTriageChanged |
    DueOperatorJudgment | DueEnvelopeChanged | DueEnvelopeBoundary | DueJudgmentBoundary |
    DueManualReassessment | DueRecoveryGraceExpired | DueObservationDeadline | DueRetry |
    DueUpgradeReconstruction | DueOperatorArtifactRecorded | DueReasonOther string

definition DueReason_Validate :: "dueReason \<Rightarrow> goerror" where
  "DueReason_Validate v = validateEnum ''due_reason'' v
      [DueIncidentCreated, DueMembershipChanged, DueNewSymptom, DueAlertResolved,
       DueAlertRefired, DueDurationMilestone, DueConnectorHealthChanged,
       DueSourceProvenanceChanged, DueSemanticProfileChanged, DueTriageChanged,
       DueOperatorJudgment, DueEnvelopeChanged, DueEnvelopeBoundary,
       DueJudgmentBoundary, DueManualReassessment, DueRecoveryGraceExpired,
       DueObservationDeadline, DueRetry, DueUpgradeReconstruction,
       DueOperatorArtifactRecorded]"

datatype terminalReason =
    TerminalReasonObservationDeadline | TerminalReasonResolutionMissing |
    TerminalReasonSourceUnavailable | TerminalReasonBudgetExhausted | TerminalReasonOther string

section \<open>The Situation aggregate\<close>

record situation =
  si_ID :: string
  si_PreviousSituationID :: "string option"
  si_GroupKey :: string
  si_PublicHandle :: "string option"
  si_Lifecycle :: lifecycle
  si_Attention :: attention
  si_InputVersion :: int
  si_OpenedAt :: gtime
  si_EffectiveStartedAt :: gtime
  si_EffectiveStartedAtBasis :: sourceTimeBasis
  si_FirstReceivedAt :: gtime
  si_LastLifecycleObservedAt :: gtime
  si_RecoveryObservedAt :: "gtime option"
  si_GraceUntil :: "gtime option"
  si_TerminalAt :: "gtime option"
  si_TerminalReason :: "terminalReason option"
  si_NextAssessmentAt :: gtime
  si_DueReasons :: "dueReason list"
  si_LeaseOwner :: "string option"
  si_LeaseExpiresAt :: "gtime option"
  si_ClaimToken :: int
  si_AttemptCount :: int
  si_SupersedeStreak :: int
  si_LeaseProtected :: bool
  si_LastErrorClass :: "string option"
  si_RetryAt :: "gtime option"
  si_CreatedAt :: gtime
  si_UpdatedAt :: gtime

section \<open>Facts, reason candidates and coverage limitations\<close>

datatype factResultStatus =
    FactConfirmedValue | FactConfirmedEmpty | FactUnavailable | FactFailed | FactStale |
    FactResultStatusOther string

definition FactResultStatus_Validate :: "factResultStatus \<Rightarrow> goerror" where
  "FactResultStatus_Validate v = validateEnum ''fact_result_status'' v
      [FactConfirmedValue, FactConfirmedEmpty, FactUnavailable, FactFailed, FactStale]"

record fact =
  fa_ID :: string
  fa_SituationID :: string
  fa_Kind :: string
  fa_Subject :: string
  fa_Digest :: string
  fa_InputVersion :: int
  fa_Value :: string
  fa_ResultStatus :: factResultStatus
  fa_EvidenceRefs :: "string list"
  fa_Material :: bool
  fa_ObservedAt :: gtime

record reasonCandidate =
  rc_ID :: string
  rc_Code :: string
  rc_Summary :: string
  rc_CatalogVersion :: int
  rc_PredicateVersion :: int
  rc_EvidenceRefs :: "string list"
  rc_DeterministicFloor :: bool

definition maxIdentifierLength :: nat where "maxIdentifierLength = 200"

record coverageLimitation =
  cl_RunID :: string
  cl_Capability :: string
  cl_Codes :: "string list"
  cl_Returned :: int
  cl_Omitted :: int
  cl_OmittedAtLeast :: bool

definition CoverageLimitation_Validate :: "coverageLimitation \<Rightarrow> goerror" where
  "CoverageLimitation_Validate l =
     (if cl_RunID l = [] \<or> length (cl_RunID l) > maxIdentifierLength \<or>
         cl_Capability l \<noteq> ''prometheus_query'' \<or> cl_Codes l = [] \<or> length (cl_Codes l) > 16 \<or>
         cl_Returned l < 0 \<or> cl_Omitted l < 0
      then Some ''coverage_limitation: invalid source-run metadata''
      else if list_ex (\<lambda>code. code = [] \<or> length code > 128) (cl_Codes l)
      then Some ''coverage_limitation: invalid code''
      else None)"

section \<open>Vocabulary lemmas\<close>

lemma Lifecycle_Validate_iff [validate_simps]:
  "Lifecycle_Validate l = None \<longleftrightarrow> (\<forall>s. l \<noteq> LifecycleOther s)"
  by (cases l) (auto simp: Lifecycle_Validate_def validate_simps)

lemma Attention_Validate_iff [validate_simps]:
  "Attention_Validate a = None \<longleftrightarrow> (\<forall>s. a \<noteq> AttentionOther s)"
  by (cases a) (auto simp: Attention_Validate_def validate_simps)

lemma Terminal_simps [simp]:
  "Terminal LifecycleRecovered" "Terminal LifecycleClosedUnknown"
  "\<not> Terminal LifecycleActive" "\<not> Terminal LifecycleRecoveryPending"
  by (simp_all add: Terminal_def)

end
