(* ===== verification/Assessment_Model.thy ===== *)
theory Assessment_Model
  imports Situation_Model
begin

text \<open>
  Package \<^verbatim>\<open>internal/situation/model\<close>, file \<^verbatim>\<open>assessment.go\<close>: the Assessment contract, that
  is the closed judgment codes, the Operator contract, the authoritative Assessment and the
  proposal an L2 model may author, each with its validator.  \<open>ActionContract_validate_iff\<close> and
  \<open>Assessment_validateShape_iff\<close> state what a validator accepts as one well-formedness
  predicate, and the locale \<open>validator\<close> is the interface through which other components use a
  validated type.
\<close>

section \<open>Closed codes\<close>

datatype persistence =
    PersistenceTransient | PersistenceSustained | PersistenceUnknown | PersistenceOther string

definition Persistence_Validate :: "persistence \<Rightarrow> goerror" where
  "Persistence_Validate v = validateEnum ''persistence'' v
      [PersistenceTransient, PersistenceSustained, PersistenceUnknown]"

datatype impact =
    ImpactNoneObserved | ImpactSuspected | ImpactConfirmed | ImpactUnknown | ImpactOther string

definition Impact_Validate :: "impact \<Rightarrow> goerror" where
  "Impact_Validate v = validateEnum ''impact'' v
      [ImpactNoneObserved, ImpactSuspected, ImpactConfirmed, ImpactUnknown]"

datatype novelty =
    NoveltyFamiliar | NoveltyChanged | NoveltyNew | NoveltyInsufficientHistory |
    NoveltyOther string

definition Novelty_Validate :: "novelty \<Rightarrow> goerror" where
  "Novelty_Validate v = validateEnum ''novelty'' v
      [NoveltyFamiliar, NoveltyChanged, NoveltyNew, NoveltyInsufficientHistory]"

datatype causality =
    CausalitySupported | CausalityCorrelated | CausalityContradicted | CausalityUnknown |
    CausalityOperatorConfirmed | CausalityOther string

definition Causality_Validate :: "causality \<Rightarrow> goerror" where
  "Causality_Validate v = validateEnum ''causality'' v
      [CausalitySupported, CausalityCorrelated, CausalityContradicted, CausalityUnknown,
       CausalityOperatorConfirmed]"

datatype evidenceQuality =
    EvidenceQualityComplete | EvidenceQualityDegraded | EvidenceQualityInsufficient |
    EvidenceQualityOther string

definition EvidenceQuality_Validate :: "evidenceQuality \<Rightarrow> goerror" where
  "EvidenceQuality_Validate v = validateEnum ''evidence_quality'' v
      [EvidenceQualityComplete, EvidenceQualityDegraded, EvidenceQualityInsufficient]"

datatype nextActor =
    NextActorAlertINT | NextActorOperator | NextActorNone | NextActorOther string

definition NextActor_Validate :: "nextActor \<Rightarrow> goerror" where
  "NextActor_Validate v = validateEnum ''next_actor'' v
      [NextActorAlertINT, NextActorOperator, NextActorNone]"

datatype alertINTAction =
    AlertINTActionRunAcuteTriage | AlertINTActionRetrySituationAssessment |
    AlertINTActionMonitorSituation | AlertINTActionVerifyRecovery | AlertINTActionOther string

definition AlertINTAction_Validate :: "alertINTAction \<Rightarrow> goerror" where
  "AlertINTAction_Validate v = validateEnum ''alertint_action'' v
      [AlertINTActionRunAcuteTriage, AlertINTActionRetrySituationAssessment,
       AlertINTActionMonitorSituation, AlertINTActionVerifyRecovery]"

datatype alertINTStatus =
    AlertINTStatusPlanned | AlertINTStatusRunning | AlertINTStatusWaiting |
    AlertINTStatusBlocked | AlertINTStatusExhausted | AlertINTStatusComplete |
    AlertINTStatusOther string

definition AlertINTStatus_Validate :: "alertINTStatus \<Rightarrow> goerror" where
  "AlertINTStatus_Validate v = validateEnum ''alertint_status'' v
      [AlertINTStatusPlanned, AlertINTStatusRunning, AlertINTStatusWaiting,
       AlertINTStatusBlocked, AlertINTStatusExhausted, AlertINTStatusComplete]"

datatype operatorAction =
    OperatorActionInvestigateSituation | OperatorActionOther string

definition OperatorAction_Validate :: "operatorAction \<Rightarrow> goerror" where
  "OperatorAction_Validate v = validateEnum ''operator_action_required'' v
      [OperatorActionInvestigateSituation]"

datatype nextUpdateOn =
    NextUpdateOnMaterialInput | NextUpdateOnTriageOutcome | NextUpdateOnSourceResolution |
    NextUpdateOnSourceRefire | NextUpdateOnDependencyRecovery | NextUpdateOnAssessmentRetryDue |
    NextUpdateOnRecoveryGraceExpired | NextUpdateOnLifecycleObservationDeadline |
    NextUpdateOnOther string

definition NextUpdateOn_Validate :: "nextUpdateOn \<Rightarrow> goerror" where
  "NextUpdateOn_Validate v = validateEnum ''next_update_on'' v
      [NextUpdateOnMaterialInput, NextUpdateOnTriageOutcome,
       NextUpdateOnSourceResolution, NextUpdateOnSourceRefire,
       NextUpdateOnDependencyRecovery, NextUpdateOnAssessmentRetryDue,
       NextUpdateOnRecoveryGraceExpired, NextUpdateOnLifecycleObservationDeadline]"

datatype waitReason =
    WaitReasonAcuteTriageDecision | WaitReasonAcuteTriageBackoff | WaitReasonAssessmentRetry |
    WaitReasonAssessmentParked | WaitReasonSourceChange | WaitReasonRecoveryGrace |
    WaitReasonOther string

definition WaitReason_Validate :: "waitReason \<Rightarrow> goerror" where
  "WaitReason_Validate v = validateEnum ''wait_reason'' v
      [WaitReasonAcuteTriageDecision, WaitReasonAcuteTriageBackoff,
       WaitReasonAssessmentRetry, WaitReasonAssessmentParked, WaitReasonSourceChange,
       WaitReasonRecoveryGrace]"

text \<open>The empty cadence, legal for a terminal Assessment only, is \<open>CadenceNone\<close>.\<close>

datatype cadence =
    CadenceNone | CadenceFast | CadenceNormal | CadenceSlow | CadenceOther string

definition Cadence_Validate :: "cadence \<Rightarrow> goerror" where
  "Cadence_Validate v = validateEnum ''cadence'' v
      [CadenceNone, CadenceFast, CadenceNormal, CadenceSlow]"

datatype assessmentDerivation =
    DerivationModelValidated | DerivationDeterministic | DerivationDeterministicFallback |
    DerivationRevalidatedReuse | AssessmentDerivationOther string

definition AssessmentDerivation_Validate :: "assessmentDerivation \<Rightarrow> goerror" where
  "AssessmentDerivation_Validate v = validateEnum ''assessment_derivation'' v
      [DerivationModelValidated, DerivationDeterministic,
       DerivationDeterministicFallback, DerivationRevalidatedReuse]"

datatype providerRequestStarted =
    ProviderRequestStartedTrue | ProviderRequestStartedFalse | ProviderRequestStartedUnknown |
    ProviderRequestStartedOther string

definition ProviderRequestStarted_Validate :: "providerRequestStarted \<Rightarrow> goerror" where
  "ProviderRequestStarted_Validate v = validateEnum ''provider_request_started'' v
      [ProviderRequestStartedTrue, ProviderRequestStartedFalse,
       ProviderRequestStartedUnknown]"

section \<open>Contract, Assessment and proposal\<close>

definition AssessmentSchemaVersion :: int where "AssessmentSchemaVersion = 1"

record sufficientReason =
  sr_Code :: string
  sr_CandidateID :: string
  sr_Summary :: string
  sr_EvidenceRefs :: "string list"

record limitation =
  li_Code :: string
  li_Detail :: string

record actionContract =
  ac_NextActor :: nextActor
  ac_AlertINTAction :: "alertINTAction option"
  ac_AlertINTStatus :: "alertINTStatus option"
  ac_OperatorActionRequired :: "operatorAction option"
  ac_NextUpdateAt :: "gtime option"
  ac_NextUpdateOn :: "nextUpdateOn list"
  ac_WaitReason :: "waitReason option"

record assessment =
  as_SchemaVersion :: int
  as_Persistence :: persistence
  as_Impact :: impact
  as_Novelty :: novelty
  as_Causality :: causality
  as_Attention :: attention
  as_Lifecycle :: lifecycle
  as_EvidenceQuality :: evidenceQuality
  as_SufficientReason :: "sufficientReason option"
  as_ActionContract :: actionContract
  as_Limitations :: "limitation list"
  as_Cadence :: cadence

record assessmentProposal =
  ap_SchemaVersion :: int
  ap_Persistence :: persistence
  ap_Impact :: impact
  ap_Novelty :: novelty
  ap_Causality :: causality
  ap_Attention :: attention
  ap_SufficientReason :: "sufficientReason option"
  ap_Limitations :: "limitation list"

record incidentCoverage =
  ic_IncidentID :: string
  ic_MembershipDigest :: string
  ic_IncidentInputDigest :: string

section \<open>Validators\<close>

definition SufficientReason_Validate :: "sufficientReason \<Rightarrow> goerror" where
  "SufficientReason_Validate r = firstErr
     [errWhen (sr_Code r = []) ''model: sufficient_reason: code is required'',
      errWhen (sr_CandidateID r = []) ''model: sufficient_reason: candidate_id is required'']"

definition Limitation_Validate :: "limitation \<Rightarrow> goerror" where
  "Limitation_Validate l = errWhen (li_Code l = []) ''model: limitation: code is required''"

text \<open>
  \<^verbatim>\<open>ActionContract.validate\<close>: the closed codes, then the next-actor rule, then the shape of
  the update promise.
\<close>

definition ActionContract_validate :: "bool \<Rightarrow> actionContract \<Rightarrow> goerror" where
  "ActionContract_validate terminal c = firstErr
     [wrapErr ''action_contract: '' (NextActor_Validate (ac_NextActor c)),
      whenSome (ac_AlertINTAction c) (\<lambda>a. wrapErr ''action_contract: '' (AlertINTAction_Validate a)),
      whenSome (ac_AlertINTStatus c) (\<lambda>s. wrapErr ''action_contract: '' (AlertINTStatus_Validate s)),
      whenSome (ac_OperatorActionRequired c)
        (\<lambda>a. wrapErr ''action_contract: '' (OperatorAction_Validate a)),
      whenSome (ac_WaitReason c) (\<lambda>w. wrapErr ''action_contract: '' (WaitReason_Validate w)),
      firstErr (map (\<lambda>u. wrapErr ''action_contract: next_update_on: '' (NextUpdateOn_Validate u))
        (ac_NextUpdateOn c)),
      (if ac_OperatorActionRequired c \<noteq> None \<and> ac_NextActor c \<noteq> NextActorOperator
       then Some ''action_contract: next_actor must be operator''
       else if ac_OperatorActionRequired c = None \<and> ac_AlertINTAction c \<noteq> None \<and>
         ac_NextActor c \<noteq> NextActorAlertINT
       then Some ''action_contract: next_actor must be alertint''
       else if ac_OperatorActionRequired c = None \<and> ac_AlertINTAction c = None \<and>
         ac_NextActor c \<noteq> NextActorNone
       then Some ''action_contract: next_actor must be none''
       else None),
      (if terminal then firstErr
         [errWhen (ac_NextUpdateAt c \<noteq> None)
            ''action_contract: terminal contract must not set next_update_at'',
          errWhen (ac_NextUpdateOn c \<noteq> [])
            ''action_contract: terminal contract must not set next_update_on'']
       else errWhen (ac_NextUpdateAt c = None)
         ''action_contract: nonterminal contract requires next_update_at'')]"

definition requireFreshNextUpdateAt :: "actionContract \<Rightarrow> gtime \<Rightarrow> goerror" where
  "requireFreshNextUpdateAt c now =
     (case ac_NextUpdateAt c of
        None \<Rightarrow> None
      | Some at \<Rightarrow> errWhen (\<not> tAfter at now) ''action_contract: next_update_at must be after now'')"

definition Assessment_validateShape :: "assessment \<Rightarrow> goerror" where
  "Assessment_validateShape a =
     (let terminal = Terminal (as_Lifecycle a) in firstErr
     [errWhen (as_SchemaVersion a \<noteq> AssessmentSchemaVersion) ''assessment: schema_version unsupported'',
      wrapErr ''assessment: '' (Persistence_Validate (as_Persistence a)),
      wrapErr ''assessment: '' (Impact_Validate (as_Impact a)),
      wrapErr ''assessment: '' (Novelty_Validate (as_Novelty a)),
      wrapErr ''assessment: '' (Causality_Validate (as_Causality a)),
      wrapErr ''assessment: '' (Attention_Validate (as_Attention a)),
      wrapErr ''assessment: '' (Lifecycle_Validate (as_Lifecycle a)),
      wrapErr ''assessment: '' (EvidenceQuality_Validate (as_EvidenceQuality a)),
      wrapErr ''assessment: '' (Cadence_Validate (as_Cadence a)),
      whenSome (as_SufficientReason a) (\<lambda>r. wrapErr ''assessment: '' (SufficientReason_Validate r)),
      firstErr (map (\<lambda>l. wrapErr ''assessment: limitations: '' (Limitation_Validate l))
        (as_Limitations a)),
      (if terminal \<and> as_Cadence a \<noteq> CadenceNone
       then Some ''assessment: terminal assessment must not set cadence''
       else if \<not> terminal \<and> as_Cadence a = CadenceNone
       then Some ''assessment: nonterminal assessment requires a cadence''
       else None),
      wrapErr ''assessment: '' (ActionContract_validate terminal (as_ActionContract a))])"

definition Assessment_ValidateShape :: "assessment \<Rightarrow> goerror" where
  "Assessment_ValidateShape a = Assessment_validateShape a"

definition Assessment_Validate :: "assessment \<Rightarrow> gtime \<Rightarrow> goerror" where
  "Assessment_Validate a now = firstErr
     [Assessment_validateShape a,
      wrapErr ''assessment: '' (requireFreshNextUpdateAt (as_ActionContract a) now)]"

definition AssessmentProposal_Validate :: "assessmentProposal \<Rightarrow> goerror" where
  "AssessmentProposal_Validate p = firstErr
     [errWhen (ap_SchemaVersion p \<noteq> AssessmentSchemaVersion)
        ''assessment_proposal: schema_version unsupported'',
      wrapErr ''assessment_proposal: '' (Persistence_Validate (ap_Persistence p)),
      wrapErr ''assessment_proposal: '' (Impact_Validate (ap_Impact p)),
      wrapErr ''assessment_proposal: '' (Novelty_Validate (ap_Novelty p)),
      wrapErr ''assessment_proposal: '' (Causality_Validate (ap_Causality p)),
      wrapErr ''assessment_proposal: '' (Attention_Validate (ap_Attention p)),
      whenSome (ap_SufficientReason p)
        (\<lambda>r. wrapErr ''assessment_proposal: '' (SufficientReason_Validate r)),
      firstErr (map (\<lambda>l. wrapErr ''assessment_proposal: limitations: '' (Limitation_Validate l))
        (ap_Limitations p))]"

section \<open>What a valid contract is\<close>

text \<open>The one actor the contract's two action fields determine.\<close>

definition contractActor :: "operatorAction option \<Rightarrow> alertINTAction option \<Rightarrow> nextActor" where
  "contractActor op work =
     (if op \<noteq> None then NextActorOperator else if work \<noteq> None then NextActorAlertINT
      else NextActorNone)"

definition contractCodesClosed :: "actionContract \<Rightarrow> bool" where
  "contractCodesClosed c \<longleftrightarrow>
     pred_option (\<lambda>a. AlertINTAction_Validate a = None) (ac_AlertINTAction c) \<and>
     pred_option (\<lambda>a. AlertINTStatus_Validate a = None) (ac_AlertINTStatus c) \<and>
     pred_option (\<lambda>a. OperatorAction_Validate a = None) (ac_OperatorActionRequired c) \<and>
     pred_option (\<lambda>w. WaitReason_Validate w = None) (ac_WaitReason c) \<and>
     list_all (\<lambda>u. NextUpdateOn_Validate u = None) (ac_NextUpdateOn c)"

lemma NextActor_contractActor [simp]: "NextActor_Validate (contractActor p w) = None"
  by (simp add: NextActor_Validate_def contractActor_def validateEnum_def)

lemma pred_option_iff: "pred_option P x \<longleftrightarrow> (\<forall>v. x = Some v \<longrightarrow> P v)"
  by (cases x) auto

lemma ActionContract_validate_iff [validate_simps]:
  "ActionContract_validate terminal c = None \<longleftrightarrow>
     contractCodesClosed c \<and>
     ac_NextActor c = contractActor (ac_OperatorActionRequired c) (ac_AlertINTAction c) \<and>
     (if terminal then ac_NextUpdateAt c = None \<and> ac_NextUpdateOn c = []
      else ac_NextUpdateAt c \<noteq> None)"
proof -
  have actor: "(if ac_OperatorActionRequired c \<noteq> None \<and> ac_NextActor c \<noteq> NextActorOperator
       then Some ''action_contract: next_actor must be operator''
       else if ac_OperatorActionRequired c = None \<and> ac_AlertINTAction c \<noteq> None \<and>
         ac_NextActor c \<noteq> NextActorAlertINT
       then Some ''action_contract: next_actor must be alertint''
       else if ac_OperatorActionRequired c = None \<and> ac_AlertINTAction c = None \<and>
         ac_NextActor c \<noteq> NextActorNone
       then Some ''action_contract: next_actor must be none''
       else None) = None \<longleftrightarrow>
     ac_NextActor c = contractActor (ac_OperatorActionRequired c) (ac_AlertINTAction c)"
    by (simp add: contractActor_def)
  have codes: "contractCodesClosed c \<longleftrightarrow>
     (\<forall>v. ac_AlertINTAction c = Some v \<longrightarrow> AlertINTAction_Validate v = None) \<and>
     (\<forall>v. ac_AlertINTStatus c = Some v \<longrightarrow> AlertINTStatus_Validate v = None) \<and>
     (\<forall>v. ac_OperatorActionRequired c = Some v \<longrightarrow> OperatorAction_Validate v = None) \<and>
     (\<forall>v. ac_WaitReason c = Some v \<longrightarrow> WaitReason_Validate v = None) \<and>
     list_all (\<lambda>u. NextUpdateOn_Validate u = None) (ac_NextUpdateOn c)"
    by (simp add: contractCodesClosed_def pred_option_iff)
  show ?thesis
    unfolding ActionContract_validate_def firstErr_Cons_None actor codes
    by (auto simp: validate_simps)
qed

text \<open>What \<^verbatim>\<open>Assessment.ValidateShape\<close> accepts.\<close>

definition assessmentCodesClosed :: "assessment \<Rightarrow> bool" where
  "assessmentCodesClosed a \<longleftrightarrow>
     Persistence_Validate (as_Persistence a) = None \<and> Impact_Validate (as_Impact a) = None \<and>
     Novelty_Validate (as_Novelty a) = None \<and> Causality_Validate (as_Causality a) = None \<and>
     Attention_Validate (as_Attention a) = None \<and> Lifecycle_Validate (as_Lifecycle a) = None \<and>
     EvidenceQuality_Validate (as_EvidenceQuality a) = None \<and>
     Cadence_Validate (as_Cadence a) = None \<and>
     pred_option (\<lambda>r. SufficientReason_Validate r = None) (as_SufficientReason a) \<and>
     list_all (\<lambda>l. Limitation_Validate l = None) (as_Limitations a)"

lemma Assessment_validateShape_iff [validate_simps]:
  "Assessment_validateShape a = None \<longleftrightarrow>
     as_SchemaVersion a = AssessmentSchemaVersion \<and> assessmentCodesClosed a \<and>
     (Terminal (as_Lifecycle a) \<longleftrightarrow> as_Cadence a = CadenceNone) \<and>
     ActionContract_validate (Terminal (as_Lifecycle a)) (as_ActionContract a) = None"
proof -
  have cad: "(if Terminal (as_Lifecycle a) \<and> as_Cadence a \<noteq> CadenceNone
       then Some ''assessment: terminal assessment must not set cadence''
       else if \<not> Terminal (as_Lifecycle a) \<and> as_Cadence a = CadenceNone
       then Some ''assessment: nonterminal assessment requires a cadence''
       else None) = None \<longleftrightarrow> (Terminal (as_Lifecycle a) \<longleftrightarrow> as_Cadence a = CadenceNone)"
    by auto
  show ?thesis
    unfolding Assessment_validateShape_def Let_def firstErr_Cons_None cad
      assessmentCodesClosed_def pred_option_iff wrapErr_None_iff whenSome_None_iff errWhen_None_iff
    by (auto simp: wrapErr_None_iff)
qed

lemma requireFreshNextUpdateAt_iff [validate_simps]:
  "requireFreshNextUpdateAt c now = None \<longleftrightarrow>
     (\<forall>at. ac_NextUpdateAt c = Some at \<longrightarrow> tns now < tns at)"
  by (auto simp: requireFreshNextUpdateAt_def errWhen_def tAfter_def split: option.splits)

section \<open>The interface of a validated type\<close>

text \<open>
  A component that builds values of a validated type relies on one law: the validator accepts
  exactly the well-formed values.  Validating a list value by value then accepts exactly the lists
  of well-formed values, and otherwise reports the error of the first value that is not.
\<close>

locale validator =
  fixes validate :: "'a \<Rightarrow> goerror" and wellFormed :: "'a \<Rightarrow> bool"
  assumes validate_iff: "validate x = None \<longleftrightarrow> wellFormed x"
begin

lemma validate_list_iff: "firstErr (map validate xs) = None \<longleftrightarrow> list_all wellFormed xs"
  by (simp add: validate_iff)

lemma validate_list_error:
  assumes "firstErr (map validate xs) = Some e"
  shows "\<exists>as x bs. xs = as @ x # bs \<and> list_all wellFormed as \<and> validate x = Some e"
  using assms
proof (induction xs)
  case Nil
  then show ?case by simp
next
  case (Cons x xs)
  show ?case
  proof (cases "validate x")
    case None
    with Cons.prems have "firstErr (map validate xs) = Some e" by (simp add: firstErr.simps)
    with Cons.IH obtain as y bs where "xs = as @ y # bs" "list_all wellFormed as" "validate y = Some e"
      by blast
    moreover from None have "wellFormed x" by (simp add: validate_iff)
    ultimately have "x # xs = (x # as) @ y # bs \<and> list_all wellFormed (x # as) \<and> validate y = Some e"
      by simp
    then show ?thesis by blast
  next
    case (Some m)
    with Cons.prems have "x # xs = [] @ x # xs \<and> list_all wellFormed [] \<and> validate x = Some e"
      by (simp add: firstErr.simps)
    then show ?thesis by blast
  qed
qed

end

interpretation contractValidator: validator "ActionContract_validate terminal"
    "\<lambda>c. contractCodesClosed c \<and>
       ac_NextActor c = contractActor (ac_OperatorActionRequired c) (ac_AlertINTAction c) \<and>
       (if terminal then ac_NextUpdateAt c = None \<and> ac_NextUpdateOn c = []
        else ac_NextUpdateAt c \<noteq> None)" for terminal
  by unfold_locales (rule ActionContract_validate_iff)

end
