(* ===== verification/Briefing_Model.thy ===== *)
theory Briefing_Model
  imports Assessment_Model
begin

text \<open>
  Package \<^verbatim>\<open>internal/situation/model\<close>: the operator briefing and its material candidates
  (\<^verbatim>\<open>briefing.go\<close>), attributed judgments (\<^verbatim>\<open>judgment.go\<close>) and the projections of expected
  behavior (\<^verbatim>\<open>expected_behavior.go\<close>).  The bounding functions that keep a briefing within
  Slack's size are modelled byte by byte; \<open>BoundIncidentAnalysis_bounded\<close> is what they give.
\<close>

section \<open>Judgments\<close>

datatype judgmentOperation =
    JudgmentOperationRecord | JudgmentOperationReplace | JudgmentOperationRevoke |
    JudgmentOperationRestore | JudgmentOperationOther string

datatype judgmentState =
    JudgmentStateExpected | JudgmentStateRevoked | JudgmentStateOther string

datatype judgmentTrustDomain =
    JudgmentTrustAuthenticatedMCP | JudgmentTrustDomainOther string

record expectedJudgmentSymptom =
  js_AlertID :: string
  js_Source :: string
  js_EpisodeKey :: string
  js_SourceSignalID :: "string option"
  js_SourceSignalVersion :: "string option"
  js_SourceInstanceID :: "string option"
  js_ObservedSourceInstanceID :: "string option"
  js_ObservedSourceConfigVersion :: "string option"
  js_Severity :: string
  js_IdentityLabels :: labels

record expectedJudgmentCoverage =
  jc_Scope :: string
  jc_Impact :: impact
  jc_Symptoms :: "expectedJudgmentSymptom list"
  jc_EvidenceRefs :: "string list"

record situationJudgment =
  sj_ID :: string
  sj_SituationID :: string
  sj_Revision :: int
  sj_Operation :: judgmentOperation
  sj_State :: judgmentState
  sj_AssertedOperator :: string
  sj_TrustDomain :: judgmentTrustDomain
  sj_RequestID :: string
  sj_ValidUntil :: gtime
  sj_Coverage :: expectedJudgmentCoverage
  sj_CreatedAt :: gtime

datatype judgmentApplicabilityReason =
    JudgmentApplicable | JudgmentExpired | JudgmentRevoked | JudgmentSituationTerminal |
    JudgmentScopeChanged | JudgmentSymptomsChanged | JudgmentSeverityChanged |
    JudgmentImpactChanged | JudgmentSourceSignatureChanged | JudgmentSourceDefinitionUnavailable
    | JudgmentEvidenceMissing | JudgmentUrgent | JudgmentApplicabilityReasonOther string

record judgmentApplicability =
  ja_Applicable :: bool
  ja_Reason :: judgmentApplicabilityReason

record expectedJudgmentProjection =
  jp_Revision :: int
  jp_AssertedOperator :: string
  jp_ValidUntil :: gtime

text \<open>The empty change, which a journal entry without a judgment carries, is \<open>JudgmentChangeNone\<close>.\<close>

datatype judgmentChange =
    JudgmentChangeNone | JudgmentChangeRecorded | JudgmentChangeReplaced | JudgmentChangeRevoked |
    JudgmentChangeRestored | JudgmentChangeExpired | JudgmentChangeInvalidated |
    JudgmentChangeOther string

section \<open>Expected behavior projections\<close>

datatype expectedBehaviorReason =
    ExpectedBehaviorReasonMatched | ExpectedBehaviorReasonRevoked |
    ExpectedBehaviorReasonInvalidated | ExpectedBehaviorReasonScopeMismatch |
    ExpectedBehaviorReasonPrimaryDefinitionChanged |
    ExpectedBehaviorReasonBindingDefinitionChanged | ExpectedBehaviorReasonDefinitionUnavailable
    | ExpectedBehaviorReasonScheduleUnavailable | ExpectedBehaviorReasonOutsideSchedule |
    ExpectedBehaviorReasonStartOutsideTolerance | ExpectedBehaviorReasonDurationExceeded |
    ExpectedBehaviorReasonRequiredMissing | ExpectedBehaviorReasonPrimaryMissing |
    ExpectedBehaviorReasonObservationUnavailable | ExpectedBehaviorReasonUnexpectedSymptom |
    ExpectedBehaviorReasonForbiddenPresent | ExpectedBehaviorReasonUrgent |
    ExpectedBehaviorReasonBudgetDeferred | ExpectedBehaviorReasonOther string

datatype expectedBehaviorDisposition =
    ExpectedBehaviorDispositionMatched | ExpectedBehaviorDispositionAuthorityUnavailable |
    ExpectedBehaviorDispositionViolated | ExpectedBehaviorDispositionNotApplicable |
    ExpectedBehaviorDispositionOther string

record expectedBehaviorProjection =
  xp_EnvelopeID :: string
  xp_Version :: int
  xp_AssertedOperator :: string
  xp_Workload :: string
  xp_Disposition :: expectedBehaviorDisposition
  xp_Reason :: expectedBehaviorReason
  xp_Boundary :: "gtime option"
  xp_Source :: string

datatype expectedBehaviorChange =
    ExpectedBehaviorChangeNone | ExpectedBehaviorChangeApplied | ExpectedBehaviorChangeUpdated |
    ExpectedBehaviorChangeWithdrawn | ExpectedBehaviorChangeRestored |
    ExpectedBehaviorChangeStopped | ExpectedBehaviorChangeOther string

section \<open>The operator briefing\<close>

record incidentAnalysis =
  ia_EvidenceSummary :: string
  ia_IncidentID :: string
  ia_Title :: string
  ia_Summary :: string
  ia_Observations :: "string list"
  ia_Findings :: "string list"
  ia_Verification :: string
  ia_VerificationLimit :: string
  ia_VerificationNotes :: "string list"
  ia_VerificationGaps :: int
  ia_AnalyzedAt :: "gtime option"
  ia_Stale :: bool
  ia_EvidenceFingerprint :: string

record briefingAlert =
  ba_ID :: string
  ba_Name :: string
  ba_Service :: string
  ba_Context :: string
  ba_State :: string
  ba_SourceSummary :: string

record analysisUsage =
  au_Calls :: int
  au_CallsKnown :: bool
  au_InputTokens :: int
  au_InputTokensKnown :: bool
  au_OutputTokens :: int
  au_OutputTokensKnown :: bool

datatype sourceCheckOutcome =
    SourceCheckConfigured | SourceCheckReturned | SourceCheckEmpty | SourceCheckFailed |
    SourceCheckSkipped | SourceCheckOutcomeOther string

record sourceCheck =
  sc_Kind :: string
  sc_QueryScope :: string
  sc_QueryExpr :: string
  sc_Source :: string
  sc_Check :: string
  sc_Unit :: string
  sc_Outcome :: sourceCheckOutcome
  sc_Calls :: int
  sc_CallsKnown :: bool
  sc_Records :: int
  sc_RecordsKnown :: bool
  sc_Detail :: string

record operatorFlow =
  of_FirstReceivedAt :: gtime
  of_CorrelationOpenedAt :: gtime
  of_CorrelationClosesAt :: "gtime option"
  of_GroupKey :: string
  of_GroupingRule :: string
  of_InvestigationStartedAt :: "gtime option"
  of_InvestigationCompletedAt :: "gtime option"
  of_InvestigationRuntimeSeconds :: "int option"
  of_AnalysisUsage :: analysisUsage
  of_SourceChecks :: "sourceCheck list"

datatype workPhase =
    WorkPhaseCollecting | WorkPhaseAwaitingDecision | WorkPhaseQueued | WorkPhaseExecuting |
    WorkPhaseRetryWait | WorkPhaseSettled | WorkPhaseExhausted | WorkPhaseNone |
    WorkPhaseOther string

record findingFacts =
  ff_IncidentID :: string
  ff_Hypothesis :: string
  ff_Observations :: "string list"
  ff_Unknowns :: "string list"
  ff_AnalyzedAt :: "gtime option"
  ff_EvidenceFingerprint :: string

record incidentWorkOutcome =
  wo_IncidentID :: string
  wo_AttemptID :: string
  wo_Phase :: workPhase
  wo_SkipReason :: string
  wo_ResultCode :: string
  wo_CompletedAt :: "gtime option"
  wo_EvidenceKnown :: bool
  wo_Finding :: "findingFacts option"

record workProjection =
  wp_Phase :: workPhase
  wp_ExecutionStarted :: bool
  wp_InvestigatedAlertIDs :: "string list"
  wp_InvestigatedNames :: "string list"
  wp_InvestigatedCount :: int
  wp_InvestigatedCountKnown :: bool
  wp_EndedWork :: "incidentWorkOutcome list"
  wp_EndedWorkKnown :: bool
  wp_RemainingIncidents :: int
  wp_SkipReason :: string
  wp_QueuedEligibleAt :: "gtime option"
  wp_QueuedEligibilityKnown :: bool
  wp_RetryEligibleAt :: "gtime option"
  wp_SourceGraceUntil :: "gtime option"
  wp_StatusCheckpointAt :: "gtime option"

record operatorBriefing =
  ob_Flow :: "operatorFlow option"
  ob_BlockedReason :: string
  ob_AssessmentRetryAt :: "gtime option"
  ob_Scope :: string
  ob_DisplayScope :: string
  ob_Alerts :: "briefingAlert list"
  ob_AlertsOmitted :: int
  ob_RetryAt :: "gtime option"
  ob_Symptoms :: "string list"
  ob_Firing :: int
  ob_Resolved :: int
  ob_Unknown :: int
  ob_Total :: int
  ob_Critical :: int
  ob_AnalysisCount :: int
  ob_Failed :: int
  ob_Pending :: int
  ob_Unavailable :: int
  ob_Analyses :: "incidentAnalysis list"
  ob_Historical :: bool
  ob_ExpectedJudgment :: "expectedJudgmentProjection option"
  ob_ExpectedBehavior :: "expectedBehaviorProjection option"
  ob_Work :: workProjection

section \<open>Material candidates\<close>

datatype candidateKind =
    CandidateFirstExecutionAssurance | CandidateUsefulFinding | CandidateInconclusiveCompletion
    | CandidateMembersChanged | CandidateAbilityChanged | CandidateActionChanged |
    CandidateAllClear | CandidateRefire | CandidateTerminalEnd | CandidateKindOther string

datatype nextStepKind =
    NextStepStatusCheck | NextStepRetryEligible | NextStepGraceDeadline | NextStepWorkEnded |
    NextStepTrackingEnded | NextStepKindOther string

record memberFacts =
  mf_Cleared :: "string list"
  mf_NowFiring :: "string list"
  mf_StillFiring :: "string list"
  mf_FiringCount :: int
  mf_Total :: int
  mf_CountKnown :: bool
  mf_PreviousScope :: string
  mf_Scope :: string
  mf_PreviousUrgency :: string
  mf_Urgency :: string

record limitationFacts =
  lf_Code :: string
  lf_Cleared :: bool

record actionFacts =
  af_Introduced :: bool
  af_Revised :: bool
  af_Withdrawn :: bool
  af_Action :: operatorAction

record nextStepFacts =
  ns_Kind :: nextStepKind
  ns_At :: "gtime option"

record materialCandidate =
  mc_Kind :: candidateKind
  mc_Finding :: "findingFacts option"
  mc_Members :: "memberFacts option"
  mc_Limitation :: "limitationFacts option"
  mc_Action :: "actionFacts option"
  mc_Next :: nextStepFacts
  mc_Outcome :: "incidentWorkOutcome option"

record operatorDelta =
  od_StateChanged :: bool
  od_PreviousFiring :: int
  od_PreviousTotal :: int
  od_ScopeChanged :: bool
  od_PreviousScope :: string
  od_SymptomsChanged :: bool
  od_PreviousSymptoms :: "string list"
  od_ClearedAlerts :: "string list"
  od_NewFiringAlerts :: "string list"
  od_Analyses :: "incidentAnalysis list"
  od_AnalysisFailed :: bool
  od_AttentionIncreased :: bool
  od_HumanRequestChanged :: bool
  od_AbilityLost :: bool
  od_Candidates :: "materialCandidate list"

definition LimitationInvestigationUnavailable :: string where
  "LimitationInvestigationUnavailable = ''investigation_unavailable''"

section \<open>Bounded text\<close>

text \<open>\<^verbatim>\<open>strings.Fields\<close>: the maximal runs without white space.\<close>

definition flushField :: "string \<Rightarrow> string list" where
  "flushField cur = (if cur = [] then [] else [cur])"

function fieldsAux :: "string \<Rightarrow> string \<Rightarrow> string list" where
  "fieldsAux cur [] = flushField cur"
| "fieldsAux cur (c # s) =
     (if spacePrefix (c # s) = 0 then fieldsAux (cur @ [c]) s
      else flushField cur @ fieldsAux [] (drop (spacePrefix (c # s) - 1) s))"
  by pat_completeness auto
termination
  by (relation "measure (\<lambda>(cur, s). length s)") auto

definition stringFields :: "string \<Rightarrow> string list" where
  "stringFields s = fieldsAux [] s"

definition normalizeEvidenceText :: "string \<Rightarrow> string" where
  "normalizeEvidenceText s = joinStrings (stringFields s) '' ''"

text \<open>\<^verbatim>\<open>utf8.ValidString\<close>: the byte sequences of the Unicode standard's table 3-7.\<close>

definition contByte :: "char \<Rightarrow> bool" where
  "contByte c \<longleftrightarrow> 0x80 \<le> byte c \<and> byte c \<le> 0xBF"

fun utf8Step :: "string \<Rightarrow> nat" where
  "utf8Step [] = 0"
| "utf8Step (a # s) =
     (if byte a < 0x80 then 1
      else if 0xC2 \<le> byte a \<and> byte a \<le> 0xDF then
        (case s of b # _ \<Rightarrow> if contByte b then 2 else 0 | _ \<Rightarrow> 0)
      else if 0xE0 \<le> byte a \<and> byte a \<le> 0xEF then
        (case s of b # c # _ \<Rightarrow>
            if contByte b \<and> contByte c \<and> (byte a = 0xE0 \<longrightarrow> 0xA0 \<le> byte b) \<and>
               (byte a = 0xED \<longrightarrow> byte b \<le> 0x9F) then 3 else 0
         | _ \<Rightarrow> 0)
      else if 0xF0 \<le> byte a \<and> byte a \<le> 0xF4 then
        (case s of b # c # d # _ \<Rightarrow>
            if contByte b \<and> contByte c \<and> contByte d \<and> (byte a = 0xF0 \<longrightarrow> 0x90 \<le> byte b) \<and>
               (byte a = 0xF4 \<longrightarrow> byte b \<le> 0x8F) then 4 else 0
         | _ \<Rightarrow> 0)
      else 0)"

function utf8Valid :: "string \<Rightarrow> bool" where
  "utf8Valid s =
     (if s = [] then True else if utf8Step s = 0 then False else utf8Valid (drop (utf8Step s) s))"
  by pat_completeness auto
termination
  by (relation "measure length") auto

declare utf8Valid.simps [simp del] utf8Step.simps [simp del]

text \<open>The loop \<^verbatim>\<open>for !utf8.ValidString(cut) { cut = cut[:len(cut)-1] }\<close>.\<close>

function cutValid :: "string \<Rightarrow> string" where
  "cutValid w = (if utf8Valid w then w else cutValid (butlast w))"
  by pat_completeness auto
termination
proof (relation "measure length")
  fix w :: string
  assume "\<not> utf8Valid w"
  then have "w \<noteq> []" by (auto simp: utf8Valid.simps [of "[]"])
  then show "(butlast w, w) \<in> measure length" by simp
qed simp

declare cutValid.simps [simp del]

text \<open>The three bytes of the ellipsis character.\<close>

definition ellipsis :: string where
  "ellipsis = [char_of (0xE2 :: nat), char_of (0x80 :: nat), char_of (0xA6 :: nat)]"

definition briefingBound :: "string \<Rightarrow> nat \<Rightarrow> string" where
  "briefingBound s0 limit =
     (let s = normalizeEvidenceText s0 in
      if length s \<le> limit then s else cutValid (take (limit - 3) s) @ ellipsis)"

definition completeBriefingText :: "string \<Rightarrow> nat \<Rightarrow> string" where
  "completeBriefingText s0 limit =
     (let s = normalizeEvidenceText s0 in
      if length s > limit
      then ''This evidence detail exceeds the Slack briefing size; the complete text is available via MCP.''
      else s)"

definition AnalysisFindingsBound :: nat where "AnalysisFindingsBound = 3"

definition CompletionObservationsBound :: nat where "CompletionObservationsBound = 6"

definition moreNotes :: string where
  "moreNotes = ''Additional verification results are available via MCP.''"

text \<open>The verification-note loop: notes are kept while they fit the remaining 6000 bytes.\<close>

fun boundNotes :: "int \<Rightarrow> string list \<Rightarrow> string list" where
  "boundNotes remaining [] = []"
| "boundNotes remaining (n0 # ns) =
     (let n = completeBriefingText n0 2000 in
      if int (length n) > remaining then [moreNotes]
      else n # boundNotes (remaining - int (length n)) ns)"

definition BoundIncidentAnalysis :: "incidentAnalysis \<Rightarrow> incidentAnalysis" where
  "BoundIncidentAnalysis a = a\<lparr>
     ia_IncidentID := briefingBound (ia_IncidentID a) 200,
     ia_Title := briefingBound (ia_Title a) 180,
     ia_Summary := completeBriefingText (ia_Summary a) 1500,
     ia_Verification := briefingBound (ia_Verification a) 40,
     ia_VerificationLimit := briefingBound (ia_VerificationLimit a) 100,
     ia_Observations := map (\<lambda>x. completeBriefingText x 1500) (take 2 (ia_Observations a)),
     ia_VerificationNotes := boundNotes 6000 (ia_VerificationNotes a),
     ia_EvidenceFingerprint := briefingBound (ia_EvidenceFingerprint a) 80,
     ia_Findings := map (\<lambda>f. completeBriefingText f 1500)
       (filter (\<lambda>f. \<not> blank f) (take AnalysisFindingsBound (ia_Findings a))),
     ia_AnalyzedAt := map_option tUTC (ia_AnalyzedAt a)\<rparr>"

section \<open>Bounds\<close>

lemma cutValid_length: "length (cutValid s) \<le> length s"
proof (induction s rule: cutValid.induct)
  case (1 s)
  then show ?case by (cases "utf8Valid s") (auto simp: cutValid.simps [of s])
qed

lemma cutValid_valid: "utf8Valid (cutValid s)"
proof (induction s rule: cutValid.induct)
  case (1 s)
  then show ?case by (cases "utf8Valid s") (auto simp: cutValid.simps [of s])
qed

lemma briefingBound_length: "3 \<le> limit \<Longrightarrow> length (briefingBound s limit) \<le> limit"
  using cutValid_length [of "take (limit - 3) (normalizeEvidenceText s)"]
  by (auto simp: briefingBound_def Let_def ellipsis_def)

lemma completeBriefingText_length: "93 \<le> limit \<Longrightarrow> length (completeBriefingText s limit) \<le> limit"
  by (simp add: completeBriefingText_def Let_def)

lemma boundNotes_total:
  "0 \<le> remaining \<Longrightarrow>
     int (sum_list (map length (boundNotes remaining ns))) \<le> remaining + int (length moreNotes)"
proof (induction remaining ns rule: boundNotes.induct)
  case (1 remaining)
  then show ?case by (simp add: moreNotes_def)
next
  case (2 remaining n0 ns)
  let ?n = "completeBriefingText n0 2000"
  show ?case
  proof (cases "int (length ?n) > remaining")
    case True
    with "2.prems" show ?thesis by (simp add: Let_def)
  next
    case False
    with "2.IH" [OF refl False] show ?thesis by (simp add: Let_def)
  qed
qed

lemma BoundIncidentAnalysis_bounded:
  "length (ia_Title (BoundIncidentAnalysis a)) \<le> 180 \<and>
   length (ia_Summary (BoundIncidentAnalysis a)) \<le> 1500 \<and>
   length (ia_Observations (BoundIncidentAnalysis a)) \<le> 2 \<and>
   list_all (\<lambda>x. length x \<le> 1500) (ia_Observations (BoundIncidentAnalysis a)) \<and>
   sum_list (map length (ia_VerificationNotes (BoundIncidentAnalysis a))) \<le> 6000 + length moreNotes \<and>
   length (ia_Findings (BoundIncidentAnalysis a)) \<le> AnalysisFindingsBound \<and>
   list_all (\<lambda>f. length f \<le> 1500) (ia_Findings (BoundIncidentAnalysis a))"
proof -
  have "length (filter (\<lambda>f. \<not> blank f) (take AnalysisFindingsBound (ia_Findings a))) \<le>
        AnalysisFindingsBound"
    by (rule order.trans [OF length_filter_le]) simp
  moreover have "sum_list (map length (boundNotes 6000 (ia_VerificationNotes a))) \<le>
      6000 + length moreNotes"
    using boundNotes_total [of 6000 "ia_VerificationNotes a"] by simp
  ultimately show ?thesis
    by (simp add: BoundIncidentAnalysis_def briefingBound_length completeBriefingText_length
        list.pred_map comp_def list.pred_set)
qed

end
