(* ===== verification/Encoding.thy ===== *)
theory Encoding
  imports Briefing_Model "HOL-Library.Word"
begin

unbundle bit_operations_syntax

text \<open>
  The canonical encoding behind every content digest: Go's compact \<^verbatim>\<open>json.Marshal\<close>,
  \<^verbatim>\<open>time.RFC3339\<close> rendering, SHA-256 and hexadecimal rendering, from which \<^verbatim>\<open>facts.go\<close>
  builds \<open>canonicalDigest\<close>.  Everything is executable; no theorem of the development assumes that
  the hash is free of collisions, and one that the few pairs of values it compares do not collide (\<open>digestsTellApart\<close>).
\<close>

section \<open>Calendar time\<close>

definition leapYear :: "int \<Rightarrow> bool" where
  "leapYear y \<longleftrightarrow> y mod 4 = 0 \<and> (y mod 100 \<noteq> 0 \<or> y mod 400 = 0)"

definition monthLengths :: "int \<Rightarrow> int list" where
  "monthLengths y = [31, if leapYear y then 29 else 28, 31, 30, 31, 30, 31, 31, 30, 31, 30, 31]"

fun monthOf :: "int \<Rightarrow> int \<Rightarrow> int list \<Rightarrow> int \<times> int" where
  "monthOf m d [] = (m, d + 1)"
| "monthOf m d (n # ns) = (if d < n then (m, d + 1) else monthOf (m + 1) (d - n) ns)"

text \<open>The Gregorian date of a day number, day 0 being January 1 of year 1.\<close>

definition civilDate :: "int \<Rightarrow> int \<times> int \<times> int" where
  "civilDate days =
     (let c400 = days div 146097; d1 = days mod 146097;
          c100 = min 3 (d1 div 36524); d2 = d1 - 36524 * c100;
          c4 = d2 div 1461; d3 = d2 - 1461 * c4;
          c1 = min 3 (d3 div 365); yday = d3 - 365 * c1;
          y = 400 * c400 + 100 * c100 + 4 * c4 + c1 + 1;
          md = monthOf 1 yday (monthLengths y)
      in (y, fst md, snd md))"

definition pad :: "nat \<Rightarrow> string \<Rightarrow> string" where
  "pad n s = replicate (n - length s) (CHR ''0'') @ s"

definition zoneSuffix :: "int \<Rightarrow> string" where
  "zoneSuffix z =
     (if z = 0 then ''Z''
      else (if z < 0 then ''-'' else ''+'') @ pad 2 (itoa (\<bar>z\<bar> div 3600)) @ '':'' @
           pad 2 (itoa (\<bar>z\<bar> div 60 mod 60)))"

definition zoneOffset :: "gtime \<Rightarrow> int" where
  "zoneOffset t = (case tloc t of None \<Rightarrow> 0 | Some z \<Rightarrow> z)"

definition dropTrailingZeros :: "string \<Rightarrow> string" where
  "dropTrailingZeros s = rev (dropWhile (\<lambda>c. c = CHR ''0'') (rev s))"

definition formatTime :: "bool \<Rightarrow> gtime \<Rightarrow> string" where
  "formatTime nano t =
     (let z = zoneOffset t; ns = tns t + z * second; secs = ns div second; frac = ns mod second;
          date = civilDate (secs div 86400); s = secs mod 86400;
          fracText = dropTrailingZeros (pad 9 (itoa frac))
      in pad 4 (itoa (fst date)) @ ''-'' @ pad 2 (itoa (fst (snd date))) @ ''-'' @
         pad 2 (itoa (snd (snd date))) @ ''T'' @ pad 2 (itoa (s div 3600)) @ '':'' @
         pad 2 (itoa (s div 60 mod 60)) @ '':'' @ pad 2 (itoa (s mod 60)) @
         (if nano \<and> fracText \<noteq> [] then ''.'' @ fracText else []) @ zoneSuffix z)"

definition formatRFC3339 :: "gtime \<Rightarrow> string" where
  "formatRFC3339 t = formatTime False t"

section \<open>JSON\<close>

datatype json =
    JNull | JBool bool | JInt int | JString string | JArray "json list"
  | JObject "(string \<times> json) list" | JRaw string

definition hexDigit :: "nat \<Rightarrow> char" where
  "hexDigit d = (if d < 10 then char_of (48 + d) else char_of (87 + d))"

definition hexByte :: "nat \<Rightarrow> string" where
  "hexByte b = [hexDigit (b div 16), hexDigit (b mod 16)]"

definition bsl :: char where "bsl = char_of (92 :: nat)"

definition dquote :: char where "dquote = char_of (34 :: nat)"

definition unicodeEscape :: "string \<Rightarrow> string" where
  "unicodeEscape h = bsl # CHR ''u'' # h"

text \<open>One step of the string encoder: the text written and the bytes consumed.\<close>

definition escapeStep :: "string \<Rightarrow> string \<times> nat" where
  "escapeStep s =
     (let b = byte (hd s); n = utf8Step s in
      if b < 0x80 then
        (if b = 34 \<or> b = 92 then [bsl, hd s]
         else if b = 8 then [bsl, CHR ''b''] else if b = 12 then [bsl, CHR ''f'']
         else if b = 10 then [bsl, CHR ''n''] else if b = 13 then [bsl, CHR ''r'']
         else if b = 9 then [bsl, CHR ''t'']
         else if b < 32 \<or> b \<in> {60, 62, 38} then unicodeEscape (''00'' @ hexByte b)
         else [hd s], 1)
      else if n = 0 then (unicodeEscape ''fffd'', 1)
      else if map byte (take 3 s) \<in> {[0xE2, 0x80, 0xA8], [0xE2, 0x80, 0xA9]}
        then (unicodeEscape (''202'' @ [hexDigit (byte (s ! 2) mod 16)]), 3)
      else (take n s, n))"

lemma escapeStep_pos: "s \<noteq> [] \<Longrightarrow> 0 < snd (escapeStep s)"
  by (simp add: escapeStep_def Let_def)

function escapeString :: "string \<Rightarrow> string" where
  "escapeString s =
     (if s = [] then [] else fst (escapeStep s) @ escapeString (drop (snd (escapeStep s)) s))"
  by pat_completeness auto
termination
  by (relation "measure length") (use escapeStep_pos in \<open>auto simp: diff_less\<close>)

declare escapeString.simps [simp del]

definition jsonString :: "string \<Rightarrow> string" where
  "jsonString s = dquote # escapeString s @ [dquote]"

fun marshal :: "json \<Rightarrow> string" where
  "marshal JNull = ''null''"
| "marshal (JBool b) = (if b then ''true'' else ''false'')"
| "marshal (JInt i) = itoa i"
| "marshal (JString s) = jsonString s"
| "marshal (JArray js) = ''['' @ joinStrings (map marshal js) '','' @ '']''"
| "marshal (JObject fs) =
     ''{'' @ joinStrings (map (\<lambda>(k, v). jsonString k @ '':'' @ marshal v) fs) '','' @ ''}''"
| "marshal (JRaw s) = s"

definition jStrings :: "string list \<Rightarrow> json" where
  "jStrings xs = JArray (map JString xs)"

definition jTime :: "gtime \<Rightarrow> json" where
  "jTime t = JString (formatTime True t)"

definition jOpt :: "('a \<Rightarrow> json) \<Rightarrow> 'a option \<Rightarrow> json" where
  "jOpt f x = (case x of None \<Rightarrow> JNull | Some v \<Rightarrow> f v)"

section \<open>SHA-256\<close>

type_synonym u32 = "32 word"

text \<open>
  The round constants and the initial state are the first 32 fractional bits of the cube and square
  roots of the first primes; \<open>rootFrom k n b r\<close> adds to \<open>r\<close> the bits below \<open>b\<close> of the \<open>k\<close>-th root of \<open>n\<close>.
\<close>

primrec rootFrom :: "nat \<Rightarrow> int \<Rightarrow> nat \<Rightarrow> int \<Rightarrow> int" where
  "rootFrom k n 0 r = r"
| "rootFrom k n (Suc b) r = rootFrom k n b (if (r + 2 ^ b) ^ k \<le> n then r + 2 ^ b else r)"

definition firstPrimes :: "int list" where
  "firstPrimes = filter (\<lambda>n. list_all (\<lambda>d. n mod d \<noteq> 0) [2..n - 1]) [2..311]"

definition shaK :: "u32 list" where
  "shaK = map (\<lambda>p. of_int (rootFrom 3 (p * 2 ^ 96) 36 0)) firstPrimes"

definition shaInit :: "u32 list" where
  "shaInit = map (\<lambda>p. of_int (rootFrom 2 (p * 2 ^ 64) 36 0)) (take 8 firstPrimes)"

definition rotr :: "nat \<Rightarrow> u32 \<Rightarrow> u32" where
  "rotr n x = drop_bit n x OR push_bit (32 - n) x"

definition shaPad :: "int list \<Rightarrow> int list" where
  "shaPad bs =
     (let l = length bs; z = (119 - l mod 64) mod 64; bits = 8 * int l
      in bs @ [0x80] @ replicate z 0 @ map (\<lambda>i. bits div 256 ^ (7 - i) mod 256) [0..<8])"

fun wordsOf :: "int list \<Rightarrow> u32 list" where
  "wordsOf (a # b # c # d # bs) =
     of_int (a * 16777216 + b * 65536 + c * 256 + d) # wordsOf bs"
| "wordsOf _ = []"

definition shaExpand :: "u32 list \<Rightarrow> u32 list" where
  "shaExpand w0 = foldl (\<lambda>w i.
     (let a = w ! (i - 15); b = w ! (i - 2);
          s0 = rotr 7 a XOR rotr 18 a XOR drop_bit 3 a;
          s1 = rotr 17 b XOR rotr 19 b XOR drop_bit 10 b
      in w @ [w ! (i - 16) + s0 + w ! (i - 7) + s1])) w0 [16..<64]"

fun shaRound :: "u32 list \<Rightarrow> u32 \<times> u32 \<Rightarrow> u32 list" where
  "shaRound [a, b, c, d, e, f, g, h] (k, w) =
     (let s1 = rotr 6 e XOR rotr 11 e XOR rotr 25 e; ch = (e AND f) XOR (NOT e AND g);
          t1 = h + s1 + ch + k + w;
          s0 = rotr 2 a XOR rotr 13 a XOR rotr 22 a;
          maj = (a AND b) XOR (a AND c) XOR (b AND c)
      in [t1 + s0 + maj, a, b, c, d + t1, e, f, g])"
| "shaRound st _ = st"

definition shaBlock :: "u32 list \<Rightarrow> u32 list \<Rightarrow> u32 list" where
  "shaBlock st block = map2 (+) st (foldl shaRound st (zip shaK (shaExpand block)))"

function shaBlocks :: "u32 list \<Rightarrow> u32 list \<Rightarrow> u32 list" where
  "shaBlocks st ws = (if ws = [] then st else shaBlocks (shaBlock st (take 16 ws)) (drop 16 ws))"
  by pat_completeness auto
termination
  by (relation "measure (\<lambda>(st, ws). length ws)") auto

declare shaBlocks.simps [simp del]

definition wordHex :: "u32 \<Rightarrow> string" where
  "wordHex w = concat (map (\<lambda>i. hexByte (nat (uint w div 256 ^ (3 - i) mod 256))) [0..<4])"

text \<open>\<^verbatim>\<open>hex.EncodeToString\<close> of the SHA-256 sum of a string.\<close>

definition sha256hex :: "string \<Rightarrow> string" where
  "sha256hex s = concat (map wordHex (shaBlocks shaInit (wordsOf (shaPad (map (\<lambda>c. int (byte c)) s)))))"

text \<open>\<^verbatim>\<open>canonicalDigest\<close> of \<^verbatim>\<open>facts.go\<close>.\<close>

definition canonicalDigest :: "json \<Rightarrow> string" where
  "canonicalDigest v = ''sha256:'' @ sha256hex (marshal v)"

text \<open>
  \<^verbatim>\<open>EvidenceFingerprint\<close>: a length-prefixed rendering of the evidence that is hashed before any
  display truncation.
\<close>

definition fpObservation :: "string \<Rightarrow> string" where
  "fpObservation t = ''o'' @ itoa (int (length t)) @ '':'' @ t @ [char_of (0x1E :: nat)]"

definition fpSource :: "string \<Rightarrow> string" where
  "fpSource t = char_of (0x1E :: nat) # ''s:'' @ itoa (int (length t)) @ '':'' @ t"

definition fingerprintText :: "string list \<Rightarrow> string \<Rightarrow> int \<Rightarrow> string list \<Rightarrow> string" where
  "fingerprintText observations verificationLimit verificationGaps sourceEvidence =
     (let limit = normalizeEvidenceText verificationLimit in
      concat (map fpObservation (filter (\<lambda>t. t \<noteq> []) (map normalizeEvidenceText observations))) @
      ''l'' @ itoa (int (length limit)) @ '':'' @ limit @ char_of (0x1E :: nat) # ''g:'' @
      itoa verificationGaps @
      concat (map fpSource (filter (\<lambda>t. t \<noteq> []) (map normalizeEvidenceText sourceEvidence))))"

definition EvidenceFingerprint :: "string list \<Rightarrow> string \<Rightarrow> int \<Rightarrow> string list \<Rightarrow> string" where
  "EvidenceFingerprint observations verificationLimit verificationGaps sourceEvidence =
     ''sha256:'' @ sha256hex
       (fingerprintText observations verificationLimit verificationGaps sourceEvidence)"

end
