(* ===== verification/Delivery.thy ===== *)
theory Delivery
  imports Severity Encoding "HOL-Library.Product_Lexorder"
begin

text \<open>
  The source fold of \<^verbatim>\<open>internal/situation\<close>: immutable deliveries (\<^verbatim>\<open>snapshot.go\<close>), their
  canonical order and the per-Incident coverage digests (\<^verbatim>\<open>incident_digest.go\<close>), the one
  authoritative latest-delivery-per-Alert fold and the symptoms derived from it, and the duration
  classes.  The fold \<open>keepBest\<close> keeps the best element of every key; the locale
  \<open>best_per_key\<close> is its contract for a strict weak order, interpreted for the latest delivery
  (\<open>latest\<close>) and the earliest one (\<open>earliest\<close>).
\<close>

section \<open>Deliveries and symptoms\<close>

record delivery =
  de_ID :: string
  de_IncidentID :: string
  de_Status :: deliveryStatus
  de_PayloadDigest :: string
  de_SourceStartedAt :: "gtime option"
  de_StartedAtBasis :: sourceTimeBasis
  de_SourceResolvedAt :: "gtime option"
  de_ResolvedAtBasis :: sourceTimeBasis
  de_ReceivedAt :: gtime
  de_AlertID :: string
  de_Severity :: string
  de_Drill :: bool
  de_Labels :: labels
  de_SourceSummary :: string
  de_Source :: string
  de_EpisodeKey :: string
  de_SourceSignalID :: "string option"
  de_SourceSignalVersion :: "string option"
  de_SourceInstanceID :: "string option"
  de_AcquisitionMode :: string
  de_PollIntervalSeconds :: int

record symptom =
  sy_Key :: string
  sy_Status :: deliveryStatus
  sy_FirstObservedAt :: gtime

section \<open>Canonical order\<close>

definition sourceTimeKey :: "delivery \<Rightarrow> gtime" where
  "sourceTimeKey d = (case de_SourceStartedAt d of Some t \<Rightarrow> t | None \<Rightarrow> zeroTime)"

definition deliveryLess :: "delivery \<Rightarrow> delivery \<Rightarrow> bool" where
  "deliveryLess a b =
     (let at = sourceTimeKey a; bt = sourceTimeKey b in
      if \<not> tEqual at bt then tBefore at bt
      else if \<not> tEqual (de_ReceivedAt a) (de_ReceivedAt b)
      then tBefore (de_ReceivedAt a) (de_ReceivedAt b)
      else de_ID a < de_ID b)"

text \<open>The key behind the order: source time, receipt time, delivery ID.\<close>

definition deliveryKey :: "delivery \<Rightarrow> int \<times> int \<times> string" where
  "deliveryKey d = (tns (sourceTimeKey d), tns (de_ReceivedAt d), de_ID d)"

lemma deliveryLess_iff_key: "deliveryLess a b \<longleftrightarrow> deliveryKey a < deliveryKey b"
  by (auto simp: deliveryLess_def deliveryKey_def Let_def tEqual_def tBefore_def less_prod_simp)

section \<open>Keeping the best element of every key\<close>

text \<open>
  The loop \<^verbatim>\<open>cur, ok := m[k]; if !ok || worse(cur, x) { m[k] = x }\<close> over a slice.
\<close>

definition keepStep :: "('a \<Rightarrow> 'k) \<Rightarrow> ('a \<Rightarrow> 'a \<Rightarrow> bool) \<Rightarrow> ('k \<times> 'a) list \<Rightarrow> 'a \<Rightarrow> ('k \<times> 'a) list" where
  "keepStep key worse m x =
     (case map_of m (key x) of
        None \<Rightarrow> AList.update (key x) x m
      | Some cur \<Rightarrow> if worse cur x then AList.update (key x) x m else m)"

fun keepBest :: "('a \<Rightarrow> 'k) \<Rightarrow> ('a \<Rightarrow> 'a \<Rightarrow> bool) \<Rightarrow> ('k \<times> 'a) list \<Rightarrow> 'a list \<Rightarrow> ('k \<times> 'a) list" where
  "keepBest key worse m [] = m"
| "keepBest key worse m (x # xs) = keepBest key worse (keepStep key worse m x) xs"

lemma map_of_keepStep:
  "map_of (keepStep key worse m x) k =
     (if key x = k \<and> (\<forall>c. map_of m k = Some c \<longrightarrow> worse c x) then Some x else map_of m k)"
  by (auto simp: keepStep_def update_conv' split: option.splits)

locale keyed_fold =
  fixes key :: "'a \<Rightarrow> 'k" and worse :: "'a \<Rightarrow> 'a \<Rightarrow> bool"
begin

lemma keepBest_dom: "dom (map_of (keepBest key worse m xs)) = dom (map_of m) \<union> key ` set xs"
proof (induction xs arbitrary: m)
  case (Cons x xs)
  have "dom (map_of (keepStep key worse m x)) = insert (key x) (dom (map_of m))"
    by (auto simp: map_of_keepStep dom_def)
  with Cons show ?case by simp
qed simp

lemma keepBest_append:
  "keepBest key worse m (xs @ ys) = keepBest key worse (keepBest key worse m xs) ys"
  by (induction xs arbitrary: m) auto

lemma keepBest_source:
  assumes "\<And>k x. map_of m k = Some x \<Longrightarrow> P k x" and "\<And>x. x \<in> set xs \<Longrightarrow> P (key x) x"
    and "map_of (keepBest key worse m xs) k = Some x"
  shows "P k x"
  using assms
proof (induction xs arbitrary: m)
  case (Cons y ys)
  have "P k' x'" if "map_of (keepStep key worse m y) k' = Some x'" for k' x'
    using that Cons.prems(1,2) by (auto simp: map_of_keepStep split: if_splits)
  with Cons show ?case by auto
qed auto

lemma keepBest_member:
  assumes "map_of (keepBest key worse [] xs) k = Some x"
  shows "x \<in> set xs \<and> key x = k"
  using keepBest_source [of "[]" "\<lambda>k x. x \<in> set xs \<and> key x = k" xs k x] assms by auto

lemma keepBest_distinct:
  "distinct (map fst m) \<Longrightarrow> distinct (map fst (keepBest key worse m xs))"
  by (induction xs arbitrary: m) (auto simp: keepStep_def distinct_update split: option.splits)

end

text \<open>
  The contract the callers rely on: the comparison is a strict weak order, so what the fold keeps
  is a best element of its key, whatever the order of the slice.
\<close>

locale best_per_key = keyed_fold +
  assumes worse_asym: "worse a b \<Longrightarrow> \<not> worse b a"
    and worse_negtrans: "worse a c \<Longrightarrow> worse a b \<or> worse b c"
begin

lemma keepBest_keeps_better:
  "map_of m k = Some x \<Longrightarrow> \<exists>y. map_of (keepBest key worse m xs) k = Some y \<and> \<not> worse y x"
proof (induction xs arbitrary: m x)
  case Nil
  then show ?case using worse_asym by auto
next
  case (Cons z zs)
  define w where "w = (if key z = k \<and> worse x z then z else x)"
  have w: "map_of (keepStep key worse m z) k = Some w"
    using Cons.prems by (auto simp: w_def map_of_keepStep)
  have "\<not> worse w x" using worse_asym by (auto simp: w_def)
  moreover from Cons.IH [OF w] obtain y
    where "map_of (keepBest key worse (keepStep key worse m z) zs) k = Some y" "\<not> worse y w" by blast
  ultimately show ?case using worse_negtrans by auto
qed

lemma keepBest_max:
  assumes "map_of (keepBest key worse m xs) k = Some x" and "y \<in> set xs" and "key y = k"
  shows "\<not> worse x y"
  using assms
proof (induction xs arbitrary: m)
  case Nil
  then show ?case by simp
next
  case (Cons z zs)
  show ?case
  proof (cases "y \<in> set zs")
    case True
    with Cons show ?thesis by auto
  next
    case False
    with Cons.prems have zy: "z = y" by simp
    obtain w where w: "map_of (keepStep key worse m y) k = Some w" "\<not> worse w y"
    proof (cases "\<forall>c. map_of m k = Some c \<longrightarrow> worse c y")
      case True
      with Cons.prems(3) that [of y] worse_asym show ?thesis by (auto simp: map_of_keepStep)
    next
      case False
      with that show ?thesis by (auto simp: map_of_keepStep)
    qed
    from keepBest_keeps_better [OF w(1), of zs] Cons.prems(1) zy
    have "\<not> worse x w" by auto
    with w(2) worse_negtrans show ?thesis by blast
  qed
qed

text \<open>Among equals the fold keeps the first.\<close>

lemma keepBest_first:
  assumes "map_of (keepBest key worse [] xs) k = Some x"
  shows "\<exists>as bs. xs = as @ x # bs \<and> (\<forall>y \<in> set as. key y = k \<longrightarrow> worse y x)"
  using assms
proof (induction xs rule: rev_induct)
  case Nil
  then show ?case by simp
next
  case (snoc z zs)
  have step: "keepBest key worse [] (zs @ [z]) = keepStep key worse (keepBest key worse [] zs) z"
    by (simp add: keepBest_append)
  show ?case
  proof (cases "key z = k \<and> (\<forall>c. map_of (keepBest key worse [] zs) k = Some c \<longrightarrow> worse c z)")
    case True
    with snoc.prems step have x: "x = z" by (simp add: map_of_keepStep)
    have "worse y z" if "y \<in> set zs" "key y = k" for y
    proof -
      from that have "k \<in> dom (map_of (keepBest key worse [] zs))" by (auto simp: keepBest_dom)
      then obtain c where c: "map_of (keepBest key worse [] zs) k = Some c" by blast
      with True have "worse c z" by blast
      moreover have "\<not> worse c y" using keepBest_max [OF c] that by blast
      ultimately show ?thesis using worse_negtrans by blast
    qed
    with x show ?thesis by (intro exI [of _ zs] exI [of _ "[]"]) auto
  next
    case False
    with snoc.prems step have "map_of (keepBest key worse [] zs) k = Some x"
      by (auto simp: map_of_keepStep)
    with snoc.IH obtain as bs where "zs = as @ x # bs" "\<forall>y \<in> set as. key y = k \<longrightarrow> worse y x" by blast
    then show ?thesis by (intro exI [of _ as] exI [of _ "bs @ [z]"]) auto
  qed
qed

lemma keepBest_perm:
  assumes "mset xs = mset ys"
    and uniq: "\<And>x y. x \<in> set xs \<Longrightarrow> y \<in> set xs \<Longrightarrow> key x = key y \<Longrightarrow>
       \<not> worse x y \<Longrightarrow> \<not> worse y x \<Longrightarrow> x = y"
  shows "map_of (keepBest key worse [] xs) = map_of (keepBest key worse [] ys)"
proof
  fix k
  from assms(1) have eq: "set xs = set ys" by (rule mset_eq_setD)
  have dom: "dom (map_of (keepBest key worse [] zs)) = key ` set zs" for zs
    by (simp add: keepBest_dom)
  show "map_of (keepBest key worse [] xs) k = map_of (keepBest key worse [] ys) k"
  proof (cases "k \<in> key ` set xs")
    case False
    then have "map_of (keepBest key worse [] xs) k = None" "map_of (keepBest key worse [] ys) k = None"
      using dom [of xs] dom [of ys] unfolding eq by (metis domIff)+
    then show ?thesis by simp
  next
    case True
    then have "k \<in> dom (map_of (keepBest key worse [] xs))" "k \<in> dom (map_of (keepBest key worse [] ys))"
      using dom [of xs] dom [of ys] unfolding eq by simp_all
    then obtain x y
      where x: "map_of (keepBest key worse [] xs) k = Some x"
        and y: "map_of (keepBest key worse [] ys) k = Some y" by blast
    from keepBest_member [OF x] keepBest_member [OF y] eq have
      m: "x \<in> set xs" "y \<in> set xs" "key x = k" "key y = k" by auto
    have "\<not> worse x y" using keepBest_max [OF x] m by blast
    moreover have "\<not> worse y x" using keepBest_max [OF y] m eq by blast
    ultimately have "x = y" using uniq m by blast
    with x y show ?thesis by simp
  qed
qed

end

section \<open>The latest delivery of every Alert\<close>

definition alertKeyOf :: "delivery \<Rightarrow> string" where
  "alertKeyOf d = (if de_AlertID d \<noteq> [] then de_AlertID d else ''delivery:'' @ de_ID d)"

definition latestDeliveryPerAlert :: "delivery list \<Rightarrow> (string \<times> delivery) list" where
  "latestDeliveryPerAlert ds = keepBest alertKeyOf deliveryLess [] ds"

interpretation latest: best_per_key alertKeyOf deliveryLess
  by unfold_locales (auto simp: deliveryLess_iff_key)

interpretation earliest: best_per_key de_AlertID "\<lambda>cur d. deliveryLess d cur"
  by unfold_locales (auto simp: deliveryLess_iff_key)

interpretation latestByID: best_per_key de_AlertID deliveryLess
  by unfold_locales (auto simp: deliveryLess_iff_key)

definition incidentSymptomStatus :: "delivery list \<Rightarrow> deliveryStatus" where
  "incidentSymptomStatus ds =
     (if list_ex (\<lambda>(_, d). de_Status d = DeliveryStatusFiring) (latestDeliveryPerAlert ds)
      then DeliveryStatusFiring else DeliveryStatusResolved)"

section \<open>Symptoms\<close>

text \<open>The earliest receipt time, as the loop over \<^verbatim>\<open>ds[1:]\<close> finds it.\<close>

definition firstReceived :: "delivery \<Rightarrow> delivery list \<Rightarrow> gtime" where
  "firstReceived d ds =
     foldl (\<lambda>first x. if tBefore (de_ReceivedAt x) first then de_ReceivedAt x else first)
       (de_ReceivedAt d) ds"

definition incidentKeys :: "delivery list \<Rightarrow> string list" where
  "incidentKeys ds = sortStrings (remdups (map de_IncidentID ds))"

definition symptomFor :: "delivery list \<Rightarrow> string \<Rightarrow> symptom" where
  "symptomFor ds k =
     (let own = filter (\<lambda>d. de_IncidentID d = k) ds in
      \<lparr>sy_Key = k, sy_Status = incidentSymptomStatus own,
       sy_FirstObservedAt = (case own of [] \<Rightarrow> zeroTime | d # rest \<Rightarrow> firstReceived d rest)\<rparr>)"

definition deriveSymptoms :: "delivery list \<Rightarrow> symptom list" where
  "deriveSymptoms ds = map (symptomFor ds) (incidentKeys ds)"

section \<open>Coverage digests\<close>

definition incidentMembers :: "string \<Rightarrow> delivery list \<Rightarrow> delivery list" where
  "incidentMembers incidentID ds = filter (\<lambda>d. de_IncidentID d = incidentID) ds"

definition membershipDigestSchemaVersion :: int where "membershipDigestSchemaVersion = 2"

definition earliestByAlert :: "delivery list \<Rightarrow> (string \<times> delivery) list" where
  "earliestByAlert scoped = keepBest de_AlertID (\<lambda>cur d. deliveryLess d cur) [] scoped"

text \<open>The two parallel lists of the digest: member Alert IDs, and their first delivery IDs.\<close>

definition memberAlertIDs :: "delivery list \<Rightarrow> string list" where
  "memberAlertIDs scoped = sortStrings (map fst (earliestByAlert scoped))"

definition firstDeliveryIDs :: "delivery list \<Rightarrow> string list" where
  "firstDeliveryIDs scoped =
     map (\<lambda>a. case map_of (earliestByAlert scoped) a of Some d \<Rightarrow> de_ID d | None \<Rightarrow> [])
       (memberAlertIDs scoped)"

definition membershipDigest :: "string \<Rightarrow> delivery list \<Rightarrow> string" where
  "membershipDigest incidentID scoped =
     canonicalDigest (JObject
       [(''schema_version'', JInt membershipDigestSchemaVersion),
        (''incident_id'', JString incidentID),
        (''member_ids'', jStrings (memberAlertIDs scoped)),
        (''first_delivery_ids'', jStrings (firstDeliveryIDs scoped))])"

definition MembershipDigest :: "string \<Rightarrow> delivery list \<Rightarrow> string" where
  "MembershipDigest incidentID ds = membershipDigest incidentID (incidentMembers incidentID ds)"

definition incidentDrillParity :: "delivery list \<Rightarrow> bool" where
  "incidentDrillParity scoped = list_ex de_Drill scoped"

definition statusText :: "deliveryStatus \<Rightarrow> string" where
  "statusText s = (case s of DeliveryStatusFiring \<Rightarrow> ''firing'' | DeliveryStatusResolved \<Rightarrow> ''resolved''
     | DeliveryStatusOther x \<Rightarrow> x)"

definition basisText :: "sourceTimeBasis \<Rightarrow> string" where
  "basisText b = (case b of SourceTimeBasisSourcePayload \<Rightarrow> ''source_payload''
     | SourceTimeBasisSourceAPI \<Rightarrow> ''source_api''
     | SourceTimeBasisReceiptFallback \<Rightarrow> ''receipt_fallback''
     | SourceTimeBasisMissing \<Rightarrow> ''missing'' | SourceTimeBasisMixed \<Rightarrow> ''mixed''
     | SourceTimeBasisOther x \<Rightarrow> x)"

definition incidentInputDeliveryDTO :: "delivery \<Rightarrow> json" where
  "incidentInputDeliveryDTO d = JObject
     [(''id'', JString (de_ID d)), (''payload_digest'', JString (de_PayloadDigest d)),
      (''status'', JString (statusText (de_Status d))),
      (''source_started_at'', jOpt jTime (de_SourceStartedAt d)),
      (''started_at_basis'', JString (basisText (de_StartedAtBasis d))),
      (''source_resolved_at'', jOpt jTime (de_SourceResolvedAt d)),
      (''resolved_at_basis'', JString (basisText (de_ResolvedAtBasis d)))]"

definition incidentInputDigestSchemaVersion :: int where "incidentInputDigestSchemaVersion = 2"

definition acuteInputSchemaVersion :: int where "acuteInputSchemaVersion = 1"

definition ruleCatalogVersion :: int where "ruleCatalogVersion = 1"

definition promptProfileVersion :: int where "promptProfileVersion = 1"

definition sortDeliveries :: "delivery list \<Rightarrow> delivery list" where
  "sortDeliveries ds = sort_key deliveryKey ds"

definition IncidentInputDigest :: "string \<Rightarrow> string \<Rightarrow> delivery list \<Rightarrow> string" where
  "IncidentInputDigest incidentID groupKey ds =
     (let scoped = incidentMembers incidentID ds;
          membership = membershipDigest incidentID scoped;
          sorted = sortDeliveries scoped
      in canonicalDigest (JObject
       [(''schema_version'', JInt incidentInputDigestSchemaVersion),
        (''membership_digest'', JString membership),
        (''group_key'', JString groupKey),
        (''drill_parity'', JBool (incidentDrillParity sorted)),
        (''deliveries'', JArray (map incidentInputDeliveryDTO sorted)),
        (''acute_input_schema_version'', JInt acuteInputSchemaVersion),
        (''rule_catalog_version'', JInt ruleCatalogVersion),
        (''prompt_profile_version'', JInt promptProfileVersion)]))"

section \<open>Duration classes\<close>

definition DurationClassSubminute :: string where "DurationClassSubminute = ''subminute''"

definition DurationClassShort :: string where "DurationClassShort = ''short''"

definition DurationClassMedium :: string where "DurationClassMedium = ''medium''"

definition DurationClassLong :: string where "DurationClassLong = ''long''"

lemmas durationClass_defs = DurationClassSubminute_def DurationClassShort_def
  DurationClassMedium_def DurationClassLong_def

definition DurationClass :: "duration \<Rightarrow> string" where
  "DurationClass elapsed =
     (if elapsed < minute then DurationClassSubminute
      else if elapsed < 15 * minute then DurationClassShort
      else if elapsed < hour then DurationClassMedium
      else DurationClassLong)"

definition durationClassLowerBound :: "string \<Rightarrow> duration" where
  "durationClassLowerBound class =
     (if class = DurationClassSubminute then 0 else if class = DurationClassShort then minute
      else if class = DurationClassMedium then 15 * minute
      else if class = DurationClassLong then hour else 0)"

section \<open>Properties of the fold\<close>

lemma latestDeliveryPerAlert_lookup:
  assumes "map_of (latestDeliveryPerAlert ds) k = Some d"
  shows "d \<in> set ds \<and> alertKeyOf d = k \<and>
    (\<forall>e \<in> set ds. alertKeyOf e = k \<longrightarrow> deliveryKey e \<le> deliveryKey d)"
proof -
  have "\<not> deliveryLess d e" if "e \<in> set ds" "alertKeyOf e = k" for e
    using latest.keepBest_max assms that by (auto simp: latestDeliveryPerAlert_def)
  with latest.keepBest_member [of ds k d] assms show ?thesis
    by (auto simp: latestDeliveryPerAlert_def deliveryLess_iff_key not_less)
qed

lemma latestDeliveryPerAlert_set:
  "(k, d) \<in> set (latestDeliveryPerAlert ds) \<longleftrightarrow> map_of (latestDeliveryPerAlert ds) k = Some d"
proof -
  have "distinct (map fst (latestDeliveryPerAlert ds))"
    by (simp add: latestDeliveryPerAlert_def latest.keepBest_distinct)
  then show ?thesis by (metis map_of_SomeD map_of_eq_Some_iff)
qed

lemma incidentSymptomStatus_cases:
  "incidentSymptomStatus ds = DeliveryStatusFiring \<or> incidentSymptomStatus ds = DeliveryStatusResolved"
  by (simp add: incidentSymptomStatus_def)

text \<open>
  An Incident reads as firing exactly when some Alert of it has a latest delivery that is firing
  (delivery IDs are the table's primary key).
\<close>

lemma incidentSymptomStatus_firing_iff:
  assumes inj: "inj_on de_ID (set ds)"
  shows "incidentSymptomStatus ds = DeliveryStatusFiring \<longleftrightarrow>
     (\<exists>d \<in> set ds. de_Status d = DeliveryStatusFiring \<and>
        (\<forall>e \<in> set ds. alertKeyOf e = alertKeyOf d \<longrightarrow> deliveryKey e \<le> deliveryKey d))"
  (is "?l \<longleftrightarrow> ?r")
proof
  assume ?l
  then obtain k d where "(k, d) \<in> set (latestDeliveryPerAlert ds)" "de_Status d = DeliveryStatusFiring"
    by (auto simp: incidentSymptomStatus_def list_ex_iff split: if_splits)
  with latestDeliveryPerAlert_lookup [of ds k d] show ?r
    by (auto simp: latestDeliveryPerAlert_set)
next
  assume ?r
  then obtain d where d: "d \<in> set ds" "de_Status d = DeliveryStatusFiring"
    "\<forall>e \<in> set ds. alertKeyOf e = alertKeyOf d \<longrightarrow> deliveryKey e \<le> deliveryKey d" by blast
  have "alertKeyOf d \<in> dom (map_of (latestDeliveryPerAlert ds))"
    using d(1) latest.keepBest_dom [of "[]" ds] by (simp add: latestDeliveryPerAlert_def)
  then obtain e where e: "map_of (latestDeliveryPerAlert ds) (alertKeyOf d) = Some e" by blast
  note le = latestDeliveryPerAlert_lookup [OF e]
  from d le have "deliveryKey e = deliveryKey d" by (simp add: order_antisym)
  then have "de_ID e = de_ID d" by (simp add: deliveryKey_def)
  with inj d(1) le have "e = d" by (simp add: inj_on_def)
  with e d(2) show ?l
    by (auto simp: incidentSymptomStatus_def list_ex_iff simp flip: latestDeliveryPerAlert_set)
qed

text \<open>Equal delivery keys mean equal deliveries, so the fold does not depend on row order.\<close>

lemma delivery_uniq:
  assumes "inj_on de_ID (set ds)" "x \<in> set ds" "y \<in> set ds" "\<not> deliveryLess x y" "\<not> deliveryLess y x"
  shows "x = y"
proof -
  from assms(4,5) have "deliveryKey x = deliveryKey y" by (simp add: deliveryLess_iff_key)
  then have "de_ID x = de_ID y" by (simp add: deliveryKey_def)
  with assms(1-3) show ?thesis by (simp add: inj_on_def)
qed

lemma latestDeliveryPerAlert_perm:
  assumes "mset ds = mset es" and "inj_on de_ID (set ds)"
  shows "map_of (latestDeliveryPerAlert ds) = map_of (latestDeliveryPerAlert es)"
  unfolding latestDeliveryPerAlert_def
  by (rule latest.keepBest_perm [OF assms(1)]) (use delivery_uniq [OF assms(2)] in blast)

lemma earliestByAlert_perm:
  assumes "mset ds = mset es" and "inj_on de_ID (set ds)"
  shows "map_of (earliestByAlert ds) = map_of (earliestByAlert es)"
  unfolding earliestByAlert_def
  by (rule earliest.keepBest_perm [OF assms(1)]) (use delivery_uniq [OF assms(2)] in blast)

lemma mset_incidentMembers:
  "mset ds = mset es \<Longrightarrow> mset (incidentMembers i ds) = mset (incidentMembers i es)"
  by (simp add: incidentMembers_def)

lemma memberAlertIDs_eq: "memberAlertIDs ds = sorted_list_of_set (de_AlertID ` set ds)"
proof -
  have "distinct (map fst (earliestByAlert ds))"
    by (simp add: earliestByAlert_def earliest.keepBest_distinct)
  moreover have "set (map fst (earliestByAlert ds)) = de_AlertID ` set ds"
    using earliest.keepBest_dom [of "[]" ds] by (simp add: earliestByAlert_def dom_map_of_conv_image_fst)
  ultimately show ?thesis
    unfolding memberAlertIDs_def sortStrings_def
    by (metis distinct_sort list.set_map set_sort sorted_list_of_set.idem_if_sorted_distinct sorted_sort
        set_map)
qed

lemma membershipDigest_perm:
  assumes "mset ds = mset es" and "inj_on de_ID (set ds)"
  shows "membershipDigest i ds = membershipDigest i es"
proof -
  from assms(1) have "set ds = set es" by (rule mset_eq_setD)
  then have "memberAlertIDs ds = memberAlertIDs es" by (simp add: memberAlertIDs_eq)
  with earliestByAlert_perm [OF assms] show ?thesis
    by (simp add: membershipDigest_def firstDeliveryIDs_def)
qed

lemma incidentMembers_inj:
  "inj_on de_ID (set ds) \<Longrightarrow> inj_on de_ID (set (incidentMembers i ds))"
  by (auto simp: incidentMembers_def inj_on_def)

lemma MembershipDigest_perm:
  assumes "mset ds = mset es" and "inj_on de_ID (set ds)"
  shows "MembershipDigest i ds = MembershipDigest i es"
  unfolding MembershipDigest_def
  by (rule membershipDigest_perm [OF mset_incidentMembers [OF assms(1)] incidentMembers_inj [OF assms(2)]])

lemma sortDeliveries_perm:
  assumes "mset ds = mset es" and "inj_on de_ID (set ds)"
  shows "sortDeliveries ds = sortDeliveries es"
  unfolding sortDeliveries_def
  by (rule sort_key_perm [OF assms(1)]) (use assms(2) in \<open>auto simp: deliveryKey_def inj_on_def\<close>)

lemma IncidentInputDigest_perm:
  assumes "mset ds = mset es" and "inj_on de_ID (set ds)"
  shows "IncidentInputDigest i g ds = IncidentInputDigest i g es"
proof -
  note m = mset_incidentMembers [OF assms(1), of i] and j = incidentMembers_inj [OF assms(2), of i]
  show ?thesis
    unfolding IncidentInputDigest_def Let_def
    using membershipDigest_perm [OF m j] sortDeliveries_perm [OF m j] by simp
qed

text \<open>
  A routine re-send of a known Alert, later in the canonical order than the delivery that opened
  it, changes neither the members nor their first deliveries.
\<close>

lemma membershipDigest_resend:
  assumes "e \<in> set ds" and "de_AlertID e = de_AlertID d" and "deliveryLess e d"
  shows "membershipDigest i (ds @ [d]) = membershipDigest i ds"
proof -
  have split: "earliestByAlert (ds @ [d]) =
      keepStep de_AlertID (\<lambda>cur d. deliveryLess d cur) (earliestByAlert ds) d"
    by (simp add: earliestByAlert_def earliest.keepBest_append)
  from assms(1) have "de_AlertID e \<in> dom (map_of (earliestByAlert ds))"
    by (simp add: earliestByAlert_def earliest.keepBest_dom)
  then have "de_AlertID d \<in> dom (map_of (earliestByAlert ds))" by (simp only: assms(2))
  then obtain c where c: "map_of (earliestByAlert ds) (de_AlertID d) = Some c" by blast
  from earliest.keepBest_max [OF c [unfolded earliestByAlert_def] assms(1,2)]
  have "\<not> deliveryLess e c" .
  with assms(3) have "\<not> deliveryLess d c" by (auto simp: deliveryLess_iff_key)
  with split c have "earliestByAlert (ds @ [d]) = earliestByAlert ds" by (simp add: keepStep_def)
  then show ?thesis by (simp add: membershipDigest_def memberAlertIDs_def firstDeliveryIDs_def)
qed

lemma DurationClass_lowerBound:
  "0 \<le> elapsed \<Longrightarrow> durationClassLowerBound (DurationClass elapsed) \<le> elapsed"
  by (auto simp: durationClassLowerBound_def DurationClass_def durationClass_defs duration_defs)

end
