(* ===== verification/Observation_Model.thy ===== *)
theory Observation_Model
  imports Delivery
begin

text \<open>
  Package \<^verbatim>\<open>internal/observation/model\<close> (\<^verbatim>\<open>model.go\<close>, and the validators of \<^verbatim>\<open>canonical.go\<close>):
  the closed capability, phase, result, freshness and tier vocabularies, plans, runs and facts of
  the evidence preparation path, their fixed caps, and what the plan and run validators accept.
  The vocabularies stay strings here, as capability and result names are concatenated into
  limitation codes elsewhere; a \<^verbatim>\<open>json.RawMessage\<close> is its bytes.
\<close>

section \<open>Closed vocabularies\<close>

type_synonym capability = string

definition CapabilityStoreRead :: capability where "CapabilityStoreRead = ''store_read''"
definition CapabilityPrometheusQuery :: capability where "CapabilityPrometheusQuery = ''prometheus_query''"
definition CapabilityZabbixMetricRange :: capability where "CapabilityZabbixMetricRange = ''zabbix_metric_range''"
definition CapabilityZabbixProblemHist :: capability where "CapabilityZabbixProblemHist = ''zabbix_problem_history''"
definition CapabilityZabbixProblemState :: capability where "CapabilityZabbixProblemState = ''zabbix_problem_state''"
definition CapabilityLokiQuery :: capability where "CapabilityLokiQuery = ''loki_query''"
definition CapabilitySentryIssues :: capability where "CapabilitySentryIssues = ''sentry_issues''"
definition CapabilityChangeEvents :: capability where "CapabilityChangeEvents = ''change_events''"

lemmas capability_defs = CapabilityStoreRead_def CapabilityPrometheusQuery_def
  CapabilityZabbixMetricRange_def CapabilityZabbixProblemHist_def CapabilityZabbixProblemState_def
  CapabilityLokiQuery_def CapabilitySentryIssues_def CapabilityChangeEvents_def

definition Capabilities :: "capability list" where
  "Capabilities = [CapabilityStoreRead, CapabilityPrometheusQuery, CapabilityZabbixMetricRange,
     CapabilityZabbixProblemHist, CapabilityZabbixProblemState, CapabilityLokiQuery,
     CapabilitySentryIssues, CapabilityChangeEvents]"

definition ValidCapability :: "capability \<Rightarrow> bool" where
  "ValidCapability c = list_ex (\<lambda>v. v = c) Capabilities"

definition PhaseLifecycle :: string where "PhaseLifecycle = ''lifecycle''"
definition PhaseAssessment :: string where "PhaseAssessment = ''assessment''"

definition validPhase :: "string \<Rightarrow> bool" where
  "validPhase p = (p = PhaseLifecycle \<or> p = PhaseAssessment)"

type_synonym resultStatus = string

definition ResultConfirmedValue :: resultStatus where "ResultConfirmedValue = ''confirmed_value''"
definition ResultConfirmedEmpty :: resultStatus where "ResultConfirmedEmpty = ''confirmed_empty''"
definition ResultStale :: resultStatus where "ResultStale = ''stale''"

definition ResultStatuses :: "resultStatus list" where
  "ResultStatuses = [ResultConfirmedValue, ResultConfirmedEmpty, ''unconfirmed_empty'', ''unavailable'',
     ''failed'', ResultStale, ''truncated'', ''withheld_by_budget'', ''vocabulary_unresolved'']"

definition ValidResultStatus :: "resultStatus \<Rightarrow> bool" where
  "ValidResultStatus s = list_ex (\<lambda>v. v = s) ResultStatuses"

definition FreshnessFresh :: string where "FreshnessFresh = ''fresh''"
definition FreshnessStale :: string where "FreshnessStale = ''stale''"
definition FreshnessUnknown :: string where "FreshnessUnknown = ''unknown''"

definition validFreshness :: "string \<Rightarrow> bool" where
  "validFreshness f = (f = FreshnessFresh \<or> f = FreshnessStale \<or> f = FreshnessUnknown)"

section \<open>Caps\<close>

definition MaxFactsPerRun :: int where "MaxFactsPerRun = 100"
definition MaxFactBytes :: int where "MaxFactBytes = 16 * 1024"
definition MaxEvidenceRefsPerFact :: int where "MaxEvidenceRefsPerFact = 50"
definition MaxWindowHoursMetricsLogs :: int where "MaxWindowHoursMetricsLogs = 24"
definition MaxWindowDaysHistory :: int where "MaxWindowDaysHistory = 7"
definition MaxPlanParametersBytes :: int where "MaxPlanParametersBytes = 8 * 1024"

lemmas observationCap_defs = MaxFactsPerRun_def MaxFactBytes_def MaxEvidenceRefsPerFact_def
  MaxWindowHoursMetricsLogs_def MaxWindowDaysHistory_def MaxPlanParametersBytes_def

section \<open>Plans, runs and facts\<close>

record scope =
  sp_GroupKey :: string
  sp_Source :: string
  sp_SubjectID :: string
  sp_Labels :: labels

record plan =
  pl_ID :: string
  pl_CycleID :: string
  pl_Capability :: capability
  pl_Phase :: string
  pl_Scope :: scope
  pl_Parameters :: string
  pl_Start :: gtime
  pl_End :: gtime
  pl_EligibleAt :: gtime
  pl_Limit :: int
  pl_MaxRequests :: int
  pl_Purpose :: string
  pl_ReconsiderOn :: "string list"
  pl_StopOn :: "string list"
  pl_Tier :: string
  pl_ReuseRunID :: string

definition TierReuse :: string where "TierReuse = ''reuse''"

definition ValidTier :: "string \<Rightarrow> bool" where
  "ValidTier t \<longleftrightarrow> t \<in> {[], ''time_sensitive'', ''optional'', ''routine'', ''local'', TierReuse}"

record profileGuidance =
  pg_SignatureKey :: string
  pg_VersionID :: string
  pg_HorizonTier :: string
  pg_UsefulCapabilities :: "capability list"
  pg_CandidateScope :: "string list"

record coverage =
  cv_Start :: gtime
  cv_End :: gtime
  cv_Complete :: bool
  cv_Returned :: int
  cv_Omitted :: int

record observationFact =
  xf_ID :: string
  xf_RunID :: string
  xf_Kind :: string
  xf_Subject :: string
  xf_Digest :: string
  xf_SchemaVersion :: int
  xf_Value :: string
  xf_ResultStatus :: resultStatus
  xf_Freshness :: string
  xf_ObservedAt :: gtime
  xf_ExpiresAt :: gtime
  xf_EvidenceRefs :: "string list"
  xf_Material :: bool

record sourceDefinitionObservation =
  sd_Source :: string
  sd_InstanceID :: string
  sd_RuleID :: string
  sd_Host :: string
  sd_EndpointID :: string
  sd_Available :: bool
  sd_VersionAlgorithm :: string
  sd_Version :: string
  sd_UnavailableReason :: string
  sd_ComponentDigests :: labels
  sd_TriggerIDs :: "string list"
  sd_ItemIDs :: "string list"
  sd_HistoricalProven :: bool
  sd_ProducerID :: string
  sd_RuleGroup :: string
  sd_Presence :: string
  sd_ScopeLabels :: labels
  sd_EvidenceRefs :: "string list"
  sd_ObservedAt :: gtime
  sd_ExpiresAt :: gtime

record run =
  rn_ScopeKey :: string
  rn_Capability :: capability
  rn_Scope :: "scope option"
  rn_Parameters :: string
  rn_ID :: string
  rn_CycleID :: string
  rn_PlanID :: string
  rn_Status :: resultStatus
  rn_Coverage :: coverage
  rn_Facts :: "observationFact list"
  rn_LimitationCodes :: "string list"
  rn_ObservedAt :: gtime
  rn_ExpiresAt :: gtime
  rn_CompletedAt :: gtime
  rn_ReusedFromRunID :: "string option"

section \<open>Validators\<close>

definition windowCapFor :: "capability \<Rightarrow> duration option" where
  "windowCapFor c =
     (if c \<in> {CapabilityPrometheusQuery, CapabilityLokiQuery, CapabilityZabbixMetricRange}
      then Some (MaxWindowHoursMetricsLogs * hour)
      else if c \<in> {CapabilityZabbixProblemHist, CapabilityZabbixProblemState, CapabilityChangeEvents,
                   CapabilitySentryIssues}
      then Some (MaxWindowDaysHistory * 24 * hour)
      else None)"

definition ValidatePlan :: "plan \<Rightarrow> goerror" where
  "ValidatePlan p = firstErr
     [errWhen (\<not> ValidCapability (pl_Capability p)) ''observation/model: unknown capability'',
      errWhen (\<not> validPhase (pl_Phase p)) ''observation/model: unknown phase'',
      errWhen (sp_GroupKey (pl_Scope p) = []) ''observation/model: plan scope requires a group key'',
      errWhen (sp_Source (pl_Scope p) = []) ''observation/model: plan scope requires a source'',
      errWhen (pl_Purpose p = []) ''observation/model: plan requires a purpose code'',
      errWhen (\<not> ValidTier (pl_Tier p)) ''observation/model: unknown plan tier'',
      errWhen ((pl_Tier p = TierReuse) \<noteq> (pl_ReuseRunID p \<noteq> []))
        ''observation/model: reuse tier and reuse run id must travel together'',
      errWhen (int (length (pl_Parameters p)) > MaxPlanParametersBytes)
        ''observation/model: plan parameters exceed bytes'',
      errWhen (pl_Limit p < 0) ''observation/model: plan limit must be >= 0'',
      errWhen (pl_MaxRequests p < 0) ''observation/model: plan max requests must be >= 0'',
      errWhen (tIsZero (pl_Start p) \<or> tIsZero (pl_End p) \<or> tIsZero (pl_EligibleAt p))
        ''observation/model: plan requires start, end, and eligible-at times'',
      errWhen (tBefore (pl_End p) (pl_Start p)) ''observation/model: plan end precedes start'',
      whenSome (windowCapFor (pl_Capability p))
        (\<lambda>bound. errWhen (tSub (pl_End p) (pl_Start p) > bound)
           ''observation/model: plan window exceeds the hard cap'')]"

definition validateRunFact :: "string \<Rightarrow> observationFact \<Rightarrow> goerror" where
  "validateRunFact runID f = firstErr
     [errWhen (xf_RunID f \<noteq> [] \<and> xf_RunID f \<noteq> runID) ''observation/model: fact belongs to another run'',
      errWhen (\<not> ValidResultStatus (xf_ResultStatus f)) ''observation/model: fact has unknown result status'',
      errWhen (\<not> validFreshness (xf_Freshness f)) ''observation/model: fact has unknown freshness'',
      errWhen (int (length (xf_EvidenceRefs f)) > MaxEvidenceRefsPerFact)
        ''observation/model: fact evidence refs exceed cap'',
      errWhen (int (length (xf_Value f)) > MaxFactBytes) ''observation/model: fact value exceeds bytes'']"

definition ValidateRun :: "run \<Rightarrow> goerror" where
  "ValidateRun r = firstErr
     [errWhen (rn_ID r = [] \<or> rn_CycleID r = [] \<or> rn_PlanID r = [])
        ''observation/model: run requires id, cycle id, and plan id'',
      errWhen (\<not> ValidResultStatus (rn_Status r)) ''observation/model: unknown run status'',
      errWhen (int (length (rn_Facts r)) > MaxFactsPerRun) ''observation/model: run facts exceed cap'',
      errWhen (tBefore (cv_End (rn_Coverage r)) (cv_Start (rn_Coverage r)))
        ''observation/model: run coverage end precedes start'',
      errWhen (cv_Returned (rn_Coverage r) < 0 \<or> cv_Omitted (rn_Coverage r) < 0)
        ''observation/model: run coverage counts must be >= 0'',
      firstErr (map (validateRunFact (rn_ID r)) (rn_Facts r))]"

section \<open>Lifecycle horizon\<close>

definition HorizonTierUnknown :: string where "HorizonTierUnknown = ''unknown''"
definition HorizonTierHours :: string where "HorizonTierHours = ''hours''"
definition HorizonTierDays :: string where "HorizonTierDays = ''days''"

definition DefaultLifecycleHorizon :: duration where "DefaultLifecycleHorizon = 24 * hour"

definition LifecycleHorizon :: "string \<Rightarrow> duration" where
  "LifecycleHorizon tier =
     (if tier = HorizonTierDays then MaxWindowDaysHistory * 24 * hour else DefaultLifecycleHorizon)"

fun widestTierFrom :: "string \<Rightarrow> profileGuidance list \<Rightarrow> string" where
  "widestTierFrom widest [] = widest"
| "widestTierFrom widest (g # gs) =
     (if pg_HorizonTier g = HorizonTierDays then HorizonTierDays
      else widestTierFrom (if pg_HorizonTier g = HorizonTierHours then HorizonTierHours else widest) gs)"

definition WidestHorizonTier :: "profileGuidance list \<Rightarrow> string" where
  "WidestHorizonTier guidance = widestTierFrom HorizonTierUnknown guidance"

section \<open>What the validators accept\<close>

definition planWellFormed :: "plan \<Rightarrow> bool" where
  "planWellFormed p \<longleftrightarrow>
     pl_Capability p \<in> set Capabilities \<and> validPhase (pl_Phase p) \<and>
     sp_GroupKey (pl_Scope p) \<noteq> [] \<and> sp_Source (pl_Scope p) \<noteq> [] \<and> pl_Purpose p \<noteq> [] \<and>
     ValidTier (pl_Tier p) \<and> (pl_Tier p = TierReuse \<longleftrightarrow> pl_ReuseRunID p \<noteq> []) \<and>
     int (length (pl_Parameters p)) \<le> MaxPlanParametersBytes \<and> 0 \<le> pl_Limit p \<and> 0 \<le> pl_MaxRequests p \<and>
     tns (pl_Start p) \<noteq> 0 \<and> tns (pl_End p) \<noteq> 0 \<and> tns (pl_EligibleAt p) \<noteq> 0 \<and>
     tns (pl_Start p) \<le> tns (pl_End p) \<and>
     pred_option (\<lambda>bound. tns (pl_End p) - tns (pl_Start p) \<le> bound) (windowCapFor (pl_Capability p))"

lemma windowCapFor_bounds:
  "windowCapFor c = Some b \<Longrightarrow> 24 * hour \<le> b \<and> b \<le> 7 * 24 * hour"
  by (auto simp: windowCapFor_def observationCap_defs duration_defs split: if_splits)

lemma tSub_le_iff:
  assumes "b < maxInt64" and "0 \<le> tns y - tns x"
  shows "tSub y x \<le> b \<longleftrightarrow> tns y - tns x \<le> b"
  using assms by (auto simp: tSub_def maxInt64_def minInt64_def)

lemma ValidatePlan_iff: "ValidatePlan p = None \<longleftrightarrow> planWellFormed p"
proof -
  have cap: "tSub (pl_End p) (pl_Start p) \<le> b \<longleftrightarrow> tns (pl_End p) - tns (pl_Start p) \<le> b"
    if "windowCapFor (pl_Capability p) = Some b" "tns (pl_Start p) \<le> tns (pl_End p)" for b
    using windowCapFor_bounds [OF that(1)] that(2)
    by (intro tSub_le_iff) (auto simp: maxInt64_def duration_defs)
  show ?thesis
    unfolding ValidatePlan_def firstErr_Cons_None errWhen_None_iff whenSome_None_iff planWellFormed_def
      pred_option_iff ValidCapability_def
    using cap by (auto simp: list_ex_iff tIsZero_def tBefore_def not_less)
qed

definition runWellFormed :: "run \<Rightarrow> bool" where
  "runWellFormed r \<longleftrightarrow>
     rn_ID r \<noteq> [] \<and> rn_CycleID r \<noteq> [] \<and> rn_PlanID r \<noteq> [] \<and> rn_Status r \<in> set ResultStatuses \<and>
     int (length (rn_Facts r)) \<le> MaxFactsPerRun \<and>
     tns (cv_Start (rn_Coverage r)) \<le> tns (cv_End (rn_Coverage r)) \<and>
     0 \<le> cv_Returned (rn_Coverage r) \<and> 0 \<le> cv_Omitted (rn_Coverage r) \<and>
     list_all (\<lambda>f. (xf_RunID f = [] \<or> xf_RunID f = rn_ID r) \<and> xf_ResultStatus f \<in> set ResultStatuses \<and>
       validFreshness (xf_Freshness f) \<and> int (length (xf_EvidenceRefs f)) \<le> MaxEvidenceRefsPerFact \<and>
       int (length (xf_Value f)) \<le> MaxFactBytes) (rn_Facts r)"

lemma ValidateRun_iff: "ValidateRun r = None \<longleftrightarrow> runWellFormed r"
  unfolding ValidateRun_def validateRunFact_def runWellFormed_def
  by (auto simp: firstErr_Cons_None errWhen_None_iff ValidResultStatus_def list_ex_iff tBefore_def not_less list_all_iff)

interpretation planValidator: validator ValidatePlan planWellFormed
  by unfold_locales (rule ValidatePlan_iff)

interpretation runValidator: validator ValidateRun runWellFormed
  by unfold_locales (rule ValidateRun_iff)

text \<open>A valid run never carries more than its cap of fact bytes.\<close>

lemma runWellFormed_bytes:
  assumes "runWellFormed r"
  shows "int (length (concat (map xf_Value (rn_Facts r)))) \<le> MaxFactsPerRun * MaxFactBytes"
proof -
  have "int (length (concat (map xf_Value fs))) \<le> int (length fs) * MaxFactBytes"
    if "list_all (\<lambda>f. int (length (xf_Value f)) \<le> MaxFactBytes) fs" for fs :: "observationFact list"
    using that by (induction fs) (auto simp: algebra_simps)
  moreover have "list_all (\<lambda>f. int (length (xf_Value f)) \<le> MaxFactBytes) (rn_Facts r)"
    using assms by (auto simp: runWellFormed_def list_all_iff)
  moreover have "int (length (rn_Facts r)) * MaxFactBytes \<le> MaxFactsPerRun * MaxFactBytes"
    using assms by (intro mult_right_mono) (auto simp: runWellFormed_def MaxFactBytes_def)
  ultimately show ?thesis by fastforce
qed

text \<open>Advisory guidance only widens the horizon, whatever the order of the guidance entries.\<close>

lemma widestTierFrom_days:
  "\<exists>g \<in> set gs. pg_HorizonTier g = HorizonTierDays \<Longrightarrow> widestTierFrom t gs = HorizonTierDays"
  by (induction gs arbitrary: t) auto

lemma horizonTier_distinct:
  "HorizonTierUnknown \<noteq> HorizonTierDays" "HorizonTierHours \<noteq> HorizonTierDays"
  by (simp_all add: HorizonTierUnknown_def HorizonTierHours_def HorizonTierDays_def)

lemma widestTierFrom_no_days:
  "\<not> (\<exists>g \<in> set gs. pg_HorizonTier g = HorizonTierDays) \<Longrightarrow>
     widestTierFrom t gs = t \<or> widestTierFrom t gs = HorizonTierHours"
  by (induction gs arbitrary: t) auto

lemma WidestHorizonTier_days_iff:
  "WidestHorizonTier gs = HorizonTierDays \<longleftrightarrow> (\<exists>g \<in> set gs. pg_HorizonTier g = HorizonTierDays)"
  unfolding WidestHorizonTier_def
  using widestTierFrom_days widestTierFrom_no_days [of gs HorizonTierUnknown] horizonTier_distinct by metis

lemma LifecycleHorizon_widens:
  "DefaultLifecycleHorizon \<le> LifecycleHorizon (WidestHorizonTier gs) \<and>
   LifecycleHorizon (WidestHorizonTier gs) \<le> MaxWindowDaysHistory * 24 * hour \<and>
   LifecycleHorizon (WidestHorizonTier gs) \<le> LifecycleHorizon (WidestHorizonTier (gs @ hs))"
  by (auto simp: LifecycleHorizon_def WidestHorizonTier_days_iff DefaultLifecycleHorizon_def
      observationCap_defs duration_defs)

end
