(* ===== verification/Expected_Behavior_Model.thy ===== *)
theory Expected_Behavior_Model
  imports Observation_Model
begin

text \<open>
  Package \<^verbatim>\<open>internal/situation/model\<close>, file \<^verbatim>\<open>expected_behavior.go\<close>: the reusable
  expected-behaviour envelopes, that is their scope, schedule, companion bindings, revisions, heads,
  and the evaluation of one Situation against them.
\<close>

section \<open>Closed codes\<close>

datatype expectedBehaviorOperation =
    ExpectedBehaviorOperationConfirm | ExpectedBehaviorOperationReplace |
    ExpectedBehaviorOperationRevoke | ExpectedBehaviorOperationRestore |
    ExpectedBehaviorOperationOther string

datatype expectedBehaviorState =
    ExpectedBehaviorStateActive | ExpectedBehaviorStateRevoked |
    ExpectedBehaviorStateOther string

datatype expectedBehaviorInvalidationReason =
    ExpectedBehaviorSourceInstanceChanged | ExpectedBehaviorPrimaryDefinitionChanged |
    ExpectedBehaviorBindingDefinitionChanged | ExpectedBehaviorInvalidationReasonOther string

datatype expectedBehaviorWeekday =
    ExpectedBehaviorMonday | ExpectedBehaviorTuesday | ExpectedBehaviorWednesday |
    ExpectedBehaviorThursday | ExpectedBehaviorFriday | ExpectedBehaviorSaturday |
    ExpectedBehaviorSunday | ExpectedBehaviorWeekdayOther string

datatype expectedBehaviorCandidateStatus =
    ExpectedBehaviorMatched | ExpectedBehaviorAuthorityUnavailable | ExpectedBehaviorViolated |
    ExpectedBehaviorNotCandidate | ExpectedBehaviorCandidateStatusOther string

datatype expectedBehaviorValidationStatus =
    ExpectedBehaviorValidationPending | ExpectedBehaviorValidationReady |
    ExpectedBehaviorValidationStale | ExpectedBehaviorValidationUnavailable |
    ExpectedBehaviorValidationStatusOther string

section \<open>Envelopes\<close>

record expectedBehaviorScope =
  ebs_GroupKey :: string
  ebs_Source :: string
  ebs_SourceInstanceID :: string
  ebs_Host :: string
  ebs_PrimaryTriggerID :: string
  ebs_PrimaryTriggerVersion :: string
  ebs_ProducerID :: string
  ebs_ScopeLabels :: labels
  ebs_PrimaryRuleID :: string
  ebs_PrimaryRuleVersion :: string
  ebs_RuleGroup :: string
  ebs_RuleName :: string

record expectedBehaviorBinding =
  ebb_Role :: string
  ebb_Source :: string
  ebb_SourceInstanceID :: string
  ebb_Host :: string
  ebb_TriggerID :: string
  ebb_TriggerVersion :: string
  ebb_ProducerID :: string
  ebb_ScopeLabels :: labels
  ebb_RuleID :: string
  ebb_RuleVersion :: string
  ebb_RuleGroup :: string
  ebb_RuleName :: string

record expectedBehaviorSchedule =
  ebd_Days :: "expectedBehaviorWeekday list"
  ebd_LocalStart :: string
  ebd_LocalEnd :: string
  ebd_Timezone :: string
  ebd_StartToleranceMinutes :: int

record expectedBehaviorConditions =
  ebc_Workload :: string
  ebc_Schedule :: expectedBehaviorSchedule
  ebc_MaxDurationMinutes :: int
  ebc_RequiredCompanions :: "expectedBehaviorBinding list"
  ebc_AllowedCompanions :: "expectedBehaviorBinding list"
  ebc_ForbiddenSignals :: "expectedBehaviorBinding list"

record expectedBehaviorPolicy =
  ebp_Scope :: expectedBehaviorScope
  ebp_Conditions :: expectedBehaviorConditions
  ebp_ReviewDueAt :: gtime

record expectedBehaviorRevision =
  ebr_ID :: string
  ebr_EnvelopeID :: string
  ebr_Version :: int
  ebr_Operation :: expectedBehaviorOperation
  ebr_State :: expectedBehaviorState
  ebr_Policy :: "expectedBehaviorPolicy option"
  ebr_SourceJudgmentID :: string
  ebr_SourceSituationID :: string
  ebr_AssertedOperator :: string
  ebr_TrustDomain :: judgmentTrustDomain
  ebr_RequestID :: string
  ebr_ExpectedPreviousVersion :: int
  ebr_CreatedAt :: gtime

record expectedBehaviorHead =
  ebh_EnvelopeID :: string
  ebh_RevisionID :: string
  ebh_Version :: int
  ebh_State :: expectedBehaviorState
  ebh_Scope :: expectedBehaviorScope
  ebh_Policy :: "expectedBehaviorPolicy option"
  ebh_AssertedOperator :: string
  ebh_InvalidatedAt :: "gtime option"
  ebh_InvalidationReason :: expectedBehaviorInvalidationReason
  ebh_UpdatedAt :: gtime

record expectedBehaviorOccurrence =
  ebo_OwningLocalDate :: string
  ebo_Timezone :: string
  ebo_Start :: gtime
  ebo_End :: gtime
  ebo_PrimaryStartedAt :: gtime
  ebo_Boundary :: gtime
  ebo_ResolverVersion :: int

record expectedBehaviorCandidate =
  eca_EnvelopeID :: string
  eca_Version :: int
  eca_Status :: expectedBehaviorCandidateStatus
  eca_Reason :: expectedBehaviorReason
  eca_Occurrence :: "expectedBehaviorOccurrence option"
  eca_EvidenceRefs :: "string list"
  eca_EvidenceExpiresAt :: "gtime option"

record expectedBehaviorEvaluation =
  eev_ID :: string
  eev_SituationID :: string
  eev_SituationVersion :: int
  eev_Disposition :: expectedBehaviorDisposition
  eev_Reason :: expectedBehaviorReason
  eev_ChosenEnvelopeID :: string
  eev_ChosenVersion :: int
  eev_Occurrence :: "expectedBehaviorOccurrence option"
  eev_EvidenceExpiresAt :: "gtime option"
  eev_Candidates :: "expectedBehaviorCandidate list"
  eev_BasisHash :: string
  eev_EvaluatedAt :: gtime

record expectedBehaviorBindingObservation =
  ebn_Binding :: expectedBehaviorBinding
  ebn_Presence :: string
  ebn_EvidenceRefs :: "string list"
  ebn_ObservedAt :: gtime
  ebn_ExpiresAt :: gtime

record expectedBehaviorValidation =
  evl_ID :: string
  evl_SituationID :: string
  evl_SituationInputVersion :: int
  evl_BindingDigest :: string
  evl_Bindings :: "expectedBehaviorBinding list"
  evl_Status :: expectedBehaviorValidationStatus
  evl_Observations :: "expectedBehaviorBindingObservation list"
  evl_UnavailableReason :: string
  evl_ExpiresAt :: gtime
  evl_CreatedAt :: gtime
  evl_UpdatedAt :: gtime

end
