(* ===== verification/Lifecycle.thy ===== *)
theory Lifecycle
  imports Delivery
begin

text \<open>
  \<^verbatim>\<open>internal/situation/lifecycle.go\<close>: the controller-owned lifecycle machine of a Situation and
  the source-aware timing rules (recovery grace, observation deadline, terminal reason) that decide
  when its events are raised.
\<close>

section \<open>The lifecycle machine\<close>

datatype event =
    EventRecoveryObserved | EventRefired | EventGraceExpired | EventLifecycleUnobservable
  | EventOther string

fun AdvanceLifecycle :: "lifecycle \<Rightarrow> event \<Rightarrow> lifecycle \<times> goerror" where
  "AdvanceLifecycle LifecycleActive EventRecoveryObserved = (LifecycleRecoveryPending, None)"
| "AdvanceLifecycle LifecycleActive EventLifecycleUnobservable = (LifecycleClosedUnknown, None)"
| "AdvanceLifecycle LifecycleActive EventRefired = (LifecycleActive, None)"
| "AdvanceLifecycle LifecycleRecoveryPending EventRefired = (LifecycleActive, None)"
| "AdvanceLifecycle LifecycleRecoveryPending EventGraceExpired = (LifecycleRecovered, None)"
| "AdvanceLifecycle LifecycleRecoveryPending EventLifecycleUnobservable = (LifecycleClosedUnknown, None)"
| "AdvanceLifecycle LifecycleRecoveryPending EventRecoveryObserved = (LifecycleRecoveryPending, None)"
| "AdvanceLifecycle l _ = (l, Some ''situation: invalid lifecycle transition'')"

text \<open>The accepted transitions as a step relation, and the runs of the machine.\<close>

inductive lifecycle_step :: "lifecycle \<Rightarrow> event \<Rightarrow> lifecycle \<Rightarrow> bool" where
  advance: "AdvanceLifecycle l e = (l', None) \<Longrightarrow> lifecycle_step l e l'"

inductive_cases lifecycle_stepE: "lifecycle_step l e l'"

inductive_simps lifecycle_step_simps: "lifecycle_step l e l'"

inductive lifecycle_run :: "lifecycle \<Rightarrow> event list \<Rightarrow> lifecycle \<Rightarrow> bool" where
  run_nil: "lifecycle_run l [] l"
| run_step: "lifecycle_run l es l' \<Longrightarrow> lifecycle_step l' e l'' \<Longrightarrow> lifecycle_run l (es @ [e]) l''"

lemma AdvanceLifecycle_error_iff:
  "snd (AdvanceLifecycle l e) = None \<longleftrightarrow>
     l = LifecycleActive \<and>
       e \<in> {EventRecoveryObserved, EventLifecycleUnobservable, EventRefired} \<or>
     l = LifecycleRecoveryPending \<and>
       e \<in> {EventRefired, EventGraceExpired, EventLifecycleUnobservable, EventRecoveryObserved}"
  by (cases "(l, e)" rule: AdvanceLifecycle.cases) auto

lemma AdvanceLifecycle_error_keeps:
  "snd (AdvanceLifecycle l e) \<noteq> None \<Longrightarrow> fst (AdvanceLifecycle l e) = l"
  by (cases "(l, e)" rule: AdvanceLifecycle.cases) auto

lemma lifecycle_step_from_terminal: "lifecycle_step l e l' \<Longrightarrow> \<not> Terminal l"
  by (erule lifecycle_stepE, cases "(l, e)" rule: AdvanceLifecycle.cases) auto

lemma lifecycle_step_to_recovered:
  "lifecycle_step l e LifecycleRecovered \<Longrightarrow> l = LifecycleRecoveryPending \<and> e = EventGraceExpired"
  by (erule lifecycle_stepE, cases "(l, e)" rule: AdvanceLifecycle.cases) auto

lemma lifecycle_step_to_pending:
  "lifecycle_step l e LifecycleRecoveryPending \<Longrightarrow>
     e = EventRecoveryObserved \<and> (l = LifecycleActive \<or> l = LifecycleRecoveryPending)"
  by (erule lifecycle_stepE, cases "(l, e)" rule: AdvanceLifecycle.cases) auto

lemma lifecycle_step_validates:
  "lifecycle_step l e l' \<Longrightarrow> Lifecycle_Validate l = None \<and> Lifecycle_Validate l' = None"
  by (erule lifecycle_stepE, cases "(l, e)" rule: AdvanceLifecycle.cases)
     (auto simp: Lifecycle_Validate_iff)

inductive_cases lifecycle_run_snocE: "lifecycle_run l (es @ [e]) l''"

lemma lifecycle_run_terminal_stays:
  "lifecycle_run l es l' \<Longrightarrow> Terminal l \<Longrightarrow> es = [] \<and> l' = l"
  by (induction rule: lifecycle_run.induct) (auto dest: lifecycle_step_from_terminal)

text \<open>
  A pending recovery is the result of an observed recovery that no refire has undone, so a
  recovered Situation saw a recovery, then no refire, then the end of the grace period.
\<close>

lemma lifecycle_run_pending:
  "lifecycle_run l es l' \<Longrightarrow> l = LifecycleActive \<Longrightarrow> l' = LifecycleRecoveryPending \<Longrightarrow>
     \<exists>as bs. es = as @ EventRecoveryObserved # bs \<and> EventRefired \<notin> set bs"
proof (induction rule: lifecycle_run.induct)
  case (run_nil l)
  then show ?case by simp
next
  case (run_step l es l' e l'')
  from run_step lifecycle_step_to_pending have e: "e = EventRecoveryObserved" by blast
  then have "es @ [e] = es @ EventRecoveryObserved # [] \<and> EventRefired \<notin> set []" by simp
  then show ?case by blast
qed

lemma lifecycle_run_recovered:
  assumes "lifecycle_run LifecycleActive es LifecycleRecovered"
  shows "\<exists>as bs. es = as @ EventRecoveryObserved # bs @ [EventGraceExpired] \<and> EventRefired \<notin> set bs"
proof -
  from assms have "es \<noteq> []" by (auto elim: lifecycle_run.cases)
  then obtain fs e where es: "es = fs @ [e]" by (metis rev_exhaust)
  with assms obtain l where l: "lifecycle_run LifecycleActive fs l" "lifecycle_step l e LifecycleRecovered"
    by (metis lifecycle_run_snocE)
  from l(2) have e: "l = LifecycleRecoveryPending" "e = EventGraceExpired"
    using lifecycle_step_to_recovered by blast+
  with l(1) lifecycle_run_pending obtain as bs
    where "fs = as @ EventRecoveryObserved # bs" "EventRefired \<notin> set bs" by blast
  with es e show ?thesis by auto
qed

section \<open>Recovery grace\<close>

definition pollingRecoveryGraceFloor :: duration where "pollingRecoveryGraceFloor = 120 * second"

definition pollingRecoveryGraceCeiling :: duration where "pollingRecoveryGraceCeiling = 600 * second"

definition observationDeadlineShort :: duration where "observationDeadlineShort = 2 * hour"

definition observationDeadlineMedium :: duration where "observationDeadlineMedium = 24 * hour"

definition observationDeadlineLong :: duration where "observationDeadlineLong = 7 * 24 * hour"

lemmas grace_defs = pollingRecoveryGraceFloor_def pollingRecoveryGraceCeiling_def

definition basisGrace :: "sourceTimeBasis \<Rightarrow> duration \<Rightarrow> int \<Rightarrow> duration" where
  "basisGrace basis webhookGrace pollIntervalSeconds =
     (if basis \<noteq> SourceTimeBasisSourceAPI then webhookGrace
      else let g = wrap64 (wrap64 (2 * pollIntervalSeconds) * second) in
        if g < pollingRecoveryGraceFloor then pollingRecoveryGraceFloor
        else if g > pollingRecoveryGraceCeiling then pollingRecoveryGraceCeiling
        else g)"

text \<open>The loop keeps the first candidate, then every longer one.\<close>

fun longestGrace :: "(delivery \<Rightarrow> duration) \<Rightarrow> duration \<Rightarrow> delivery list \<Rightarrow> duration" where
  "longestGrace g longest [] = longest"
| "longestGrace g longest (d # ds) = longestGrace g (if g d > longest then g d else longest) ds"

definition RecoveryGraceDuration :: "delivery list \<Rightarrow> duration \<Rightarrow> int \<Rightarrow> duration" where
  "RecoveryGraceDuration deliveries webhookGrace pollIntervalSeconds =
     (let g = \<lambda>d. basisGrace (de_StartedAtBasis d) webhookGrace pollIntervalSeconds in
      case deliveries of [] \<Rightarrow> webhookGrace | d # ds \<Rightarrow> longestGrace g (g d) ds)"

definition RecoveryGraceUntil :: "gtime \<Rightarrow> delivery list \<Rightarrow> duration \<Rightarrow> int \<Rightarrow> gtime" where
  "RecoveryGraceUntil recoveryObservedAt deliveries webhookGrace pollIntervalSeconds =
     tAdd recoveryObservedAt (RecoveryGraceDuration deliveries webhookGrace pollIntervalSeconds)"

lemma basisGrace_polling_range:
  "pollingRecoveryGraceFloor \<le> basisGrace SourceTimeBasisSourceAPI w p \<and>
   basisGrace SourceTimeBasisSourceAPI w p \<le> pollingRecoveryGraceCeiling"
  by (auto simp: basisGrace_def Let_def grace_defs duration_defs)

lemma basisGrace_polling_exact:
  assumes "60 \<le> p" and "p \<le> 300"
  shows "basisGrace SourceTimeBasisSourceAPI w p = 2 * p * second"
proof -
  have "wrap64 (2 * p) = 2 * p" "wrap64 (2 * p * second) = 2 * p * second"
    using assms by (auto intro!: wrap64_id simp: minInt64_def maxInt64_def second_def)
  with assms show ?thesis by (simp add: basisGrace_def Let_def grace_defs second_def)
qed

lemma Max_insert_max:
  "finite S \<Longrightarrow> Max (insert (max a b) S) = Max (insert a (insert b (S :: duration set)))"
  by (cases "S = {}") (simp_all add: max.assoc)

lemma Min_insert_min:
  "finite S \<Longrightarrow> Min (insert (min a b) S) = Min (insert a (insert b (S :: int set)))"
  by (cases "S = {}") (simp_all add: min.assoc)

lemma longestGrace_Max: "longestGrace g l ds = Max (insert l (g ` set ds))"
proof (induction ds arbitrary: l)
  case (Cons d ds)
  have "longestGrace g l (d # ds) = Max (insert (max l (g d)) (g ` set ds))"
    using Cons by (simp add: max_def)
  then show ?case by (simp only: Max_insert_max finite_imageI finite_set list.set image_insert)
qed simp

text \<open>The grace is the longest candidate of any member delivery, so row order cannot change it.\<close>

lemma RecoveryGraceDuration_Max:
  "ds \<noteq> [] \<Longrightarrow> RecoveryGraceDuration ds w p = Max ((\<lambda>d. basisGrace (de_StartedAtBasis d) w p) ` set ds)"
  by (cases ds) (simp_all add: RecoveryGraceDuration_def longestGrace_Max Let_def)

lemma RecoveryGraceDuration_perm:
  assumes "set ds = set es"
  shows "RecoveryGraceDuration ds w p = RecoveryGraceDuration es w p"
proof (cases "ds = []")
  case True
  with assms show ?thesis by simp
next
  case False
  moreover from False assms have "es \<noteq> []" by auto
  ultimately show ?thesis using assms by (simp add: RecoveryGraceDuration_Max)
qed

section \<open>Observation deadline and terminal reason\<close>

definition ObservationDeadlineDuration :: "string \<Rightarrow> duration" where
  "ObservationDeadlineDuration durationClass =
     (if durationClass = DurationClassSubminute \<or> durationClass = DurationClassShort
      then observationDeadlineShort
      else if durationClass = DurationClassLong then observationDeadlineLong
      else observationDeadlineMedium)"

definition ObservationDeadlineAt :: "gtime \<Rightarrow> string \<Rightarrow> gtime" where
  "ObservationDeadlineAt effectiveStartedAt durationClass =
     tAdd effectiveStartedAt (ObservationDeadlineDuration durationClass)"

definition ClosedUnknownReason :: "sourceTimeBasis \<Rightarrow> bool \<Rightarrow> terminalReason" where
  "ClosedUnknownReason basis anyDeliveryResolved =
     (let preciseProvenance = basis = SourceTimeBasisSourcePayload \<or> basis = SourceTimeBasisSourceAPI in
      if preciseProvenance \<and> \<not> anyDeliveryResolved then TerminalReasonResolutionMissing
      else TerminalReasonObservationDeadline)"

definition AnyFiring :: "symptom list \<Rightarrow> bool" where
  "AnyFiring symptoms = list_ex (\<lambda>s. sy_Status s = DeliveryStatusFiring) symptoms"

text \<open>
  The deadline of a Situation widens with its duration class: a longer-running Situation never gets
  an earlier deadline.
\<close>

lemma ObservationDeadlineDuration_mono:
  assumes "a \<le> b"
  shows "ObservationDeadlineDuration (DurationClass a) \<le> ObservationDeadlineDuration (DurationClass b)"
  using assms
  by (auto simp: ObservationDeadlineDuration_def DurationClass_def durationClass_defs duration_defs
      observationDeadlineShort_def observationDeadlineMedium_def observationDeadlineLong_def)

lemma ClosedUnknownReason_reserved:
  "ClosedUnknownReason b r \<noteq> TerminalReasonSourceUnavailable \<and>
   ClosedUnknownReason b r \<noteq> TerminalReasonBudgetExhausted"
  by (simp add: ClosedUnknownReason_def Let_def)

lemma set_incidentKeys: "set (incidentKeys ds) = de_IncidentID ` set ds"
  by (simp add: incidentKeys_def)

text \<open>
  A Situation whose derived symptoms are all quiet has no Alert whose latest delivery still fires;
  the closing paths test exactly this.
\<close>

lemma AnyFiring_deriveSymptoms:
  assumes inj: "inj_on de_ID (set ds)"
  shows "AnyFiring (deriveSymptoms ds) \<longleftrightarrow>
    (\<exists>d \<in> set ds. de_Status d = DeliveryStatusFiring \<and>
       (\<forall>e \<in> set ds. de_IncidentID e = de_IncidentID d \<longrightarrow> alertKeyOf e = alertKeyOf d \<longrightarrow>
          deliveryKey e \<le> deliveryKey d))"
proof -
  have sub: "inj_on de_ID (set (filter (\<lambda>d. de_IncidentID d = k) ds))" for k
    using inj by (auto simp: inj_on_def)
  have "AnyFiring (deriveSymptoms ds) \<longleftrightarrow> (\<exists>k \<in> de_IncidentID ` set ds.
      incidentSymptomStatus (filter (\<lambda>d. de_IncidentID d = k) ds) = DeliveryStatusFiring)"
    by (simp add: AnyFiring_def deriveSymptoms_def list_ex_iff symptomFor_def Let_def set_incidentKeys)
  then show ?thesis by (auto simp: incidentSymptomStatus_firing_iff [OF sub]) blast
qed

end
