(* ===== verification/Source_Lifecycle.thy ===== *)
theory Source_Lifecycle
  imports Lifecycle
begin

text \<open>
  \<^verbatim>\<open>internal/situation/source_lifecycle.go\<close>: the fold of the prepared source observations of a
  Situation's member Alerts into one lifecycle verdict.  A state string outside the three constants
  is handled by the \<^verbatim>\<open>default\<close> branch, so the model keeps the string; the Go map of latest observations is
  \<open>keepBest\<close> with \<^verbatim>\<open>preferObservation\<close> as the comparison.
\<close>

section \<open>Observations\<close>

definition SourceStateFiring :: string where "SourceStateFiring = ''firing''"

definition SourceStateResolved :: string where "SourceStateResolved = ''resolved''"

definition SourceStateUnobserved :: string where "SourceStateUnobserved = ''unobserved''"

lemmas sourceState_defs = SourceStateFiring_def SourceStateResolved_def SourceStateUnobserved_def

lemma sourceState_distinct [simp]:
  "SourceStateFiring \<noteq> SourceStateResolved" "SourceStateResolved \<noteq> SourceStateFiring"
  "SourceStateFiring \<noteq> SourceStateUnobserved" "SourceStateUnobserved \<noteq> SourceStateFiring"
  "SourceStateResolved \<noteq> SourceStateUnobserved" "SourceStateUnobserved \<noteq> SourceStateResolved"
  by (simp_all add: sourceState_defs)

definition minPollingGrace :: duration where "minPollingGrace = 120 * second"

definition maxPollingGrace :: duration where "maxPollingGrace = 600 * second"

record sourceObservation =
  so_AlertID :: string
  so_EpisodeKey :: string
  so_Source :: string
  so_State :: string
  so_ObservedAt :: gtime
  so_EventStartedAt :: "gtime option"
  so_EventResolvedAt :: "gtime option"
  so_TimeBasis :: sourceTimeBasis
  so_AcquisitionMode :: string
  so_PollIntervalSeconds :: int
  so_DeadlineAt :: gtime
  so_EvidenceRefs :: "string list"

record sourceLifecycle =
  sl_AnyFiring :: bool
  sl_AnyResolved :: bool
  sl_AllResolved :: bool
  sl_ClosureDue :: bool
  sl_Grace :: duration
  sl_NextDeadlineAt :: "gtime option"

text \<open>The zero value a Go map returns for a missing key.\<close>

definition zeroObservation :: sourceObservation where
  "zeroObservation = \<lparr>so_AlertID = [], so_EpisodeKey = [], so_Source = [], so_State = [],
     so_ObservedAt = zeroTime, so_EventStartedAt = None, so_EventResolvedAt = None,
     so_TimeBasis = SourceTimeBasisOther [], so_AcquisitionMode = [], so_PollIntervalSeconds = 0,
     so_DeadlineAt = zeroTime, so_EvidenceRefs = []\<rparr>"

text \<open>\<^verbatim>\<open>p != nil && !p.IsZero()\<close>\<close>

definition presentTime :: "gtime option \<Rightarrow> gtime option" where
  "presentTime t = (case t of Some x \<Rightarrow> if tIsZero x then None else Some x | None \<Rightarrow> None)"

definition resolvedBeforeEpisode :: "sourceObservation \<Rightarrow> sourceObservation \<Rightarrow> bool" where
  "resolvedBeforeEpisode resolved other =
     (so_State resolved = SourceStateResolved \<and>
      (case (presentTime (so_EventResolvedAt resolved), presentTime (so_EventStartedAt other)) of
         (Some r, Some s) \<Rightarrow> tBefore r s | _ \<Rightarrow> False))"

text \<open>The last two tests of \<^verbatim>\<open>preferObservation\<close>: the later observation, and firing on a tie.\<close>

definition observedLater :: "sourceObservation \<Rightarrow> sourceObservation \<Rightarrow> bool" where
  "observedLater candidate current =
     (tAfter (so_ObservedAt candidate) (so_ObservedAt current) \<or>
      tEqual (so_ObservedAt candidate) (so_ObservedAt current) \<and>
        so_State candidate = SourceStateFiring \<and> so_State current \<noteq> SourceStateFiring)"

definition preferObservation :: "sourceObservation \<Rightarrow> sourceObservation \<Rightarrow> bool" where
  "preferObservation candidate current =
     (let sameEpisode = so_EpisodeKey candidate \<noteq> [] \<and> so_EpisodeKey candidate = so_EpisodeKey current;
          unproven = (if resolvedBeforeEpisode candidate current then False
                      else if resolvedBeforeEpisode current candidate then True
                      else observedLater candidate current)
      in if sameEpisode then observedLater candidate current
         else case (presentTime (so_EventStartedAt candidate), presentTime (so_EventStartedAt current)) of
             (Some a, Some b) \<Rightarrow> if \<not> tEqual a b then tAfter a b else observedLater candidate current
           | _ \<Rightarrow> unproven)"

definition graceFor :: "sourceObservation \<Rightarrow> duration \<Rightarrow> duration" where
  "graceFor obs webhookGrace =
     (if so_AcquisitionMode obs \<noteq> ''poll'' then webhookGrace
      else let g = wrap64 (wrap64 (so_PollIntervalSeconds obs * second) * 2);
               g1 = if g < minPollingGrace then minPollingGrace else g
           in if g1 > maxPollingGrace then maxPollingGrace else g1)"

definition expectedAlertIDs :: "delivery list \<Rightarrow> string list" where
  "expectedAlertIDs ds = sortStrings (remdups (map alertKeyOf ds))"

section \<open>The reduction\<close>

definition latestObservations :: "sourceObservation list \<Rightarrow> (string \<times> sourceObservation) list" where
  "latestObservations obs = keepBest so_AlertID (\<lambda>cur ob. preferObservation ob cur) [] obs"

text \<open>The variables of the loop over the expected members.\<close>

record reduceAcc =
  ra_anyFiring :: bool
  ra_anyResolved :: bool
  ra_allResolved :: bool
  ra_allDeadlinePassed :: bool
  ra_nextDeadline :: "gtime option"
  ra_maxGrace :: duration

definition reduceInit :: reduceAcc where
  "reduceInit = \<lparr>ra_anyFiring = False, ra_anyResolved = False, ra_allResolved = True,
     ra_allDeadlinePassed = True, ra_nextDeadline = None, ra_maxGrace = 0\<rparr>"

text \<open>
  The observation and the state of one member: a firing observation past its own deadline counts as
  unobserved.
\<close>

definition memberObs :: "(string \<times> sourceObservation) list \<Rightarrow> string \<Rightarrow> sourceObservation" where
  "memberObs latest i = (case map_of latest i of Some ob \<Rightarrow> ob | None \<Rightarrow> zeroObservation)"

definition memberState :: "(string \<times> sourceObservation) list \<Rightarrow> gtime \<Rightarrow> string \<Rightarrow> string" where
  "memberState latest now i =
     (let obs = memberObs latest i;
          state = (case map_of latest i of Some ob \<Rightarrow> so_State ob | None \<Rightarrow> SourceStateUnobserved)
      in if state = SourceStateFiring \<and> \<not> tIsZero (so_DeadlineAt obs) \<and> \<not> tBefore now (so_DeadlineAt obs)
         then SourceStateUnobserved else state)"

definition earlierDeadline :: "gtime \<Rightarrow> gtime option \<Rightarrow> gtime option" where
  "earlierDeadline d n = (case n of None \<Rightarrow> Some d | Some x \<Rightarrow> if tBefore d x then Some d else Some x)"

definition reduceMember ::
  "(string \<times> sourceObservation) list \<Rightarrow> gtime \<Rightarrow> duration \<Rightarrow> reduceAcc \<Rightarrow> string \<Rightarrow> reduceAcc" where
  "reduceMember latest now webhookGrace acc i =
     (let obs = memberObs latest i; state = memberState latest now i in
      if state = SourceStateFiring
      then acc\<lparr>ra_anyFiring := True, ra_allResolved := False, ra_allDeadlinePassed := False\<rparr>
      else if state = SourceStateResolved
      then acc\<lparr>ra_anyResolved := True,
             ra_maxGrace := (let g = graceFor obs webhookGrace in
                             if g > ra_maxGrace acc then g else ra_maxGrace acc)\<rparr>
      else let acc1 = acc\<lparr>ra_allResolved := False\<rparr>; deadline = so_DeadlineAt obs in
        if tIsZero deadline then acc1\<lparr>ra_allDeadlinePassed := False\<rparr>
        else if tBefore now deadline
        then acc1\<lparr>ra_allDeadlinePassed := False,
               ra_nextDeadline := earlierDeadline deadline (ra_nextDeadline acc1)\<rparr>
        else acc1)"

definition ReduceSourceLifecycle ::
  "sourceObservation list \<Rightarrow> string list \<Rightarrow> gtime \<Rightarrow> duration \<Rightarrow> sourceLifecycle" where
  "ReduceSourceLifecycle observations expected now webhookGrace =
     (let latest = latestObservations observations in
      if expected = []
      then \<lparr>sl_AnyFiring = False, sl_AnyResolved = False, sl_AllResolved = False,
            sl_ClosureDue = False, sl_Grace = 0, sl_NextDeadlineAt = None\<rparr>
      else let acc = foldl (reduceMember latest now webhookGrace) reduceInit expected in
        \<lparr>sl_AnyFiring = ra_anyFiring acc, sl_AnyResolved = ra_anyResolved acc,
         sl_AllResolved = ra_allResolved acc,
         sl_ClosureDue = (\<not> ra_anyFiring acc \<and> \<not> ra_allResolved acc \<and> ra_allDeadlinePassed acc),
         sl_Grace = ra_maxGrace acc, sl_NextDeadlineAt = ra_nextDeadline acc\<rparr>)"

section \<open>What the reduction shows\<close>

interpretation observations: keyed_fold so_AlertID "\<lambda>cur ob. preferObservation ob cur" .

text \<open>A member is overdue when it is neither firing nor resolved and its deadline has passed.\<close>

definition memberOverdue :: "(string \<times> sourceObservation) list \<Rightarrow> gtime \<Rightarrow> string \<Rightarrow> bool" where
  "memberOverdue latest now i \<longleftrightarrow>
     memberState latest now i \<noteq> SourceStateFiring \<and> memberState latest now i \<noteq> SourceStateResolved \<and>
     \<not> tIsZero (so_DeadlineAt (memberObs latest i)) \<and> \<not> tBefore now (so_DeadlineAt (memberObs latest i))"

lemmas reduceMember_defs = reduceMember_def memberOverdue_def Let_def

lemma reduce_fields:
  "ra_anyFiring (foldl (reduceMember l now w) acc is) \<longleftrightarrow>
     ra_anyFiring acc \<or> (\<exists>i \<in> set is. memberState l now i = SourceStateFiring)"
  "ra_anyResolved (foldl (reduceMember l now w) acc is) \<longleftrightarrow>
     ra_anyResolved acc \<or> (\<exists>i \<in> set is. memberState l now i = SourceStateResolved)"
  "ra_allResolved (foldl (reduceMember l now w) acc is) \<longleftrightarrow>
     ra_allResolved acc \<and> (\<forall>i \<in> set is. memberState l now i = SourceStateResolved)"
  "ra_allDeadlinePassed (foldl (reduceMember l now w) acc is) \<longleftrightarrow>
     ra_allDeadlinePassed acc \<and>
     (\<forall>i \<in> set is. memberState l now i = SourceStateResolved \<or> memberOverdue l now i)"
  by (induction "is" arbitrary: acc) (auto simp: reduceMember_defs)

lemma reduce_grace:
  "ra_maxGrace (foldl (reduceMember l now w) acc is) =
     Max (insert (ra_maxGrace acc)
       ((\<lambda>i. graceFor (memberObs l i) w) ` {i \<in> set is. memberState l now i = SourceStateResolved}))"
proof (induction "is" arbitrary: acc)
  case (Cons i "is")
  let ?S = "(\<lambda>i. graceFor (memberObs l i) w) ` {i \<in> set is. memberState l now i = SourceStateResolved}"
  have fin: "finite ?S" by simp
  show ?case
  proof (cases "memberState l now i = SourceStateResolved")
    case True
    then have m: "ra_maxGrace (reduceMember l now w acc i) = max (ra_maxGrace acc) (graceFor (memberObs l i) w)"
      by (simp add: reduceMember_defs max_def)
    have s: "{j \<in> set (i # is). memberState l now j = SourceStateResolved} =
             insert i {j \<in> set is. memberState l now j = SourceStateResolved}" using True by auto
    show ?thesis unfolding foldl_Cons Cons m s image_insert by (rule Max_insert_max) (rule fin)
  next
    case False
    then have m: "ra_maxGrace (reduceMember l now w acc i) = ra_maxGrace acc"
      by (simp add: reduceMember_def Let_def)
    have s: "{j \<in> set (i # is). memberState l now j = SourceStateResolved} =
             {j \<in> set is. memberState l now j = SourceStateResolved}" using False by auto
    show ?thesis unfolding foldl_Cons Cons m s ..
  qed
qed simp

lemma graceFor_range:
  assumes "0 \<le> w"
  shows "0 \<le> graceFor obs w \<and> graceFor obs w \<le> max w maxPollingGrace"
  using assms by (auto simp: graceFor_def Let_def minPollingGrace_def maxPollingGrace_def second_def)

text \<open>
  Closing a Situation as unobservable needs every member quiet: none fires within its deadline, at least one
  is not resolved, and every one that is not resolved has a known deadline that has passed.
\<close>

lemma ReduceSourceLifecycle_ClosureDue:
  "sl_ClosureDue (ReduceSourceLifecycle obs is now w) \<longleftrightarrow>
     (\<exists>i \<in> set is. memberState (latestObservations obs) now i \<noteq> SourceStateResolved) \<and>
     (\<forall>i \<in> set is. memberState (latestObservations obs) now i = SourceStateResolved \<or>
        memberOverdue (latestObservations obs) now i)"
  by (cases "is = []")
     (auto simp: ReduceSourceLifecycle_def Let_def reduce_fields reduceInit_def memberOverdue_def)

lemma ReduceSourceLifecycle_AllResolved:
  "sl_AllResolved (ReduceSourceLifecycle obs is now w) \<longleftrightarrow>
     is \<noteq> [] \<and> (\<forall>i \<in> set is. memberState (latestObservations obs) now i = SourceStateResolved)"
  by (auto simp: ReduceSourceLifecycle_def Let_def reduce_fields reduceInit_def)

lemma ReduceSourceLifecycle_AnyFiring:
  "sl_AnyFiring (ReduceSourceLifecycle obs is now w) \<longleftrightarrow>
     (\<exists>i \<in> set is. memberState (latestObservations obs) now i = SourceStateFiring)"
  by (cases "is = []") (auto simp: ReduceSourceLifecycle_def Let_def reduce_fields reduceInit_def)

lemma ReduceSourceLifecycle_exclusive:
  "\<not> (sl_AnyFiring (ReduceSourceLifecycle obs is now w) \<and> sl_AllResolved (ReduceSourceLifecycle obs is now w))"
  "\<not> (sl_AnyFiring (ReduceSourceLifecycle obs is now w) \<and> sl_ClosureDue (ReduceSourceLifecycle obs is now w))"
  "\<not> (sl_AllResolved (ReduceSourceLifecycle obs is now w) \<and> sl_ClosureDue (ReduceSourceLifecycle obs is now w))"
  unfolding ReduceSourceLifecycle_AnyFiring ReduceSourceLifecycle_AllResolved ReduceSourceLifecycle_ClosureDue
    memberOverdue_def
  by (metis sourceState_distinct(1) hd_in_set)+

lemma ReduceSourceLifecycle_Grace:
  "sl_Grace (ReduceSourceLifecycle obs is now w) =
     Max (insert 0 ((\<lambda>i. graceFor (memberObs (latestObservations obs) i) w) `
       {i \<in> set is. memberState (latestObservations obs) now i = SourceStateResolved}))"
  by (cases "is = []") (simp_all add: ReduceSourceLifecycle_def Let_def reduce_grace reduceInit_def)

lemma ReduceSourceLifecycle_grace_range:
  assumes "0 \<le> w"
  shows "0 \<le> sl_Grace (ReduceSourceLifecycle obs is now w) \<and>
         sl_Grace (ReduceSourceLifecycle obs is now w) \<le> max w maxPollingGrace"
proof
  show "0 \<le> sl_Grace (ReduceSourceLifecycle obs is now w)"
    unfolding ReduceSourceLifecycle_Grace by (rule Max_ge) auto
  show "sl_Grace (ReduceSourceLifecycle obs is now w) \<le> max w maxPollingGrace"
    unfolding ReduceSourceLifecycle_Grace
  proof (rule Max.boundedI)
    fix g
    assume "g \<in> insert 0 ((\<lambda>i. graceFor (memberObs (latestObservations obs) i) w) `
       {i \<in> set is. memberState (latestObservations obs) now i = SourceStateResolved})"
    then consider "g = 0" | i where "g = graceFor (memberObs (latestObservations obs) i) w" by blast
    then show "g \<le> max w maxPollingGrace"
      using graceFor_range [OF assms] assms by cases auto
  qed auto
qed

lemma ReduceSourceLifecycle_grace_covers:
  assumes "i \<in> set is" and "memberState (latestObservations obs) now i = SourceStateResolved"
  shows "graceFor (memberObs (latestObservations obs) i) w \<le> sl_Grace (ReduceSourceLifecycle obs is now w)"
  unfolding ReduceSourceLifecycle_Grace using assms by (intro Max_ge) auto

text \<open>The next deadline is the earliest future deadline of a member that is neither firing nor resolved.\<close>

definition memberPending :: "(string \<times> sourceObservation) list \<Rightarrow> gtime \<Rightarrow> string \<Rightarrow> bool" where
  "memberPending l now i \<longleftrightarrow>
     memberState l now i \<noteq> SourceStateFiring \<and> memberState l now i \<noteq> SourceStateResolved \<and>
     \<not> tIsZero (so_DeadlineAt (memberObs l i)) \<and> tBefore now (so_DeadlineAt (memberObs l i))"

definition pendingDeadlines :: "(string \<times> sourceObservation) list \<Rightarrow> gtime \<Rightarrow> string list \<Rightarrow> int set" where
  "pendingDeadlines l now is =
     (\<lambda>i. tns (so_DeadlineAt (memberObs l i))) ` {i \<in> set is. memberPending l now i}"

definition minOf :: "int set \<Rightarrow> int option" where
  "minOf S = (if S = {} then None else Some (Min S))"

lemma pendingDeadlines_Cons:
  "pendingDeadlines l now (i # is) =
     (if memberPending l now i then {tns (so_DeadlineAt (memberObs l i))} else {}) \<union> pendingDeadlines l now is"
  by (auto simp: pendingDeadlines_def)

lemma finite_pendingDeadlines [simp]: "finite (pendingDeadlines l now is)"
  by (simp add: pendingDeadlines_def)

lemma reduceMember_nextDeadline:
  "map_option tns (ra_nextDeadline (reduceMember l now w acc i)) =
     (if memberPending l now i
      then Some (case ra_nextDeadline acc of None \<Rightarrow> tns (so_DeadlineAt (memberObs l i))
                 | Some x \<Rightarrow> min (tns (so_DeadlineAt (memberObs l i))) (tns x))
      else map_option tns (ra_nextDeadline acc))"
  by (simp add: reduceMember_def Let_def memberPending_def earlierDeadline_def tBefore_def
      split: option.split)

lemma reduce_nextDeadline:
  "map_option tns (ra_nextDeadline (foldl (reduceMember l now w) acc is)) =
     minOf (set_option (map_option tns (ra_nextDeadline acc)) \<union> pendingDeadlines l now is)"
proof (induction "is" arbitrary: acc)
  case Nil
  show ?case by (cases "ra_nextDeadline acc") (simp_all add: pendingDeadlines_def minOf_def)
next
  case (Cons i "is")
  show ?case
    unfolding foldl_Cons Cons reduceMember_nextDeadline pendingDeadlines_Cons
    by (cases "ra_nextDeadline acc"; cases "pendingDeadlines l now is = {}")
       (simp_all add: minOf_def Min_insert_min min.assoc min.left_commute min.commute)
qed

lemma ReduceSourceLifecycle_NextDeadlineAt:
  "map_option tns (sl_NextDeadlineAt (ReduceSourceLifecycle obs is now w)) =
     minOf (pendingDeadlines (latestObservations obs) now is)"
proof (cases "is = []")
  case True
  then show ?thesis by (simp add: ReduceSourceLifecycle_def pendingDeadlines_def minOf_def)
next
  case False
  then show ?thesis
    by (simp add: ReduceSourceLifecycle_def Let_def reduce_nextDeadline reduceInit_def)
qed

section \<open>The order of episodes\<close>

text \<open>
  Within one proven episode the latest observation wins and a tie prefers firing; across proven
  episodes the later start wins whatever the observation times, so a late delivery of an older
  episode cannot end a refire.
\<close>

lemma preferObservation_episode:
  assumes "presentTime (so_EventStartedAt a) = Some s" and "presentTime (so_EventStartedAt b) = Some t"
    and "so_EpisodeKey a \<noteq> so_EpisodeKey b" and "tBefore s t"
  shows "preferObservation b a \<and> \<not> preferObservation a b"
  using assms by (simp add: preferObservation_def Let_def time_defs)

lemma preferObservation_irrefl: "\<not> preferObservation a a"
  by (auto simp: preferObservation_def observedLater_def Let_def time_defs presentTime_def
      resolvedBeforeEpisode_def split: option.splits)

lemma observedLater_asym: "observedLater a b \<Longrightarrow> \<not> observedLater b a"
  by (auto simp: observedLater_def time_defs)

lemma preferObservation_asym: "preferObservation a b \<Longrightarrow> \<not> preferObservation b a"
  using observedLater_asym [of a b]
  by (cases "presentTime (so_EventStartedAt a)"; cases "presentTime (so_EventStartedAt b)")
     (auto simp: preferObservation_def Let_def resolvedBeforeEpisode_def time_defs
       split: if_splits option.splits)

lemma latestObservations_member:
  "map_of (latestObservations obs) i = Some x \<Longrightarrow> x \<in> set obs \<and> so_AlertID x = i"
  unfolding latestObservations_def by (rule observations.keepBest_member)

lemma latestObservations_dom: "dom (map_of (latestObservations obs)) = so_AlertID ` set obs"
  unfolding latestObservations_def by (simp add: observations.keepBest_dom)

end
