(* ===== verification/History_Model.thy ===== *)
theory History_Model
  imports Briefing_Model
begin

text \<open>
  Package \<^verbatim>\<open>internal/situation/model\<close>, file \<^verbatim>\<open>history.go\<close>: the deterministic Interruption
  priority, the immutable Transition with its journal data and projection facts, the Episode
  summary and the durable notification intent, each with its validator.
\<close>

section \<open>Interruption priority\<close>

datatype interruptionPriority =
    InterruptionLow | InterruptionMedium | InterruptionHigh | InterruptionCritical |
    InterruptionPriorityOther string

definition InterruptionPriority_Validate :: "interruptionPriority \<Rightarrow> goerror" where
  "InterruptionPriority_Validate v = validateEnum ''interruption_priority'' v
      [InterruptionLow, InterruptionMedium, InterruptionHigh, InterruptionCritical]"

definition InterruptionPriority_rank :: "interruptionPriority \<Rightarrow> int" where
  "InterruptionPriority_rank p =
     (case p of InterruptionLow \<Rightarrow> 0 | InterruptionMedium \<Rightarrow> 1 | InterruptionHigh \<Rightarrow> 2
      | InterruptionCritical \<Rightarrow> 3 | InterruptionPriorityOther _ \<Rightarrow> - 1)"

definition InterruptionPriority_Less :: "interruptionPriority \<Rightarrow> interruptionPriority \<Rightarrow> bool" where
  "InterruptionPriority_Less p other \<longleftrightarrow>
     InterruptionPriority_rank p < InterruptionPriority_rank other"

text \<open>The rank makes the priorities a preorder, so the library's order facts apply to them.\<close>

instantiation interruptionPriority :: preorder
begin

definition less_eq_interruptionPriority :: "interruptionPriority \<Rightarrow> interruptionPriority \<Rightarrow> bool" where
  "less_eq_interruptionPriority p q \<longleftrightarrow> InterruptionPriority_rank p \<le> InterruptionPriority_rank q"

definition less_interruptionPriority :: "interruptionPriority \<Rightarrow> interruptionPriority \<Rightarrow> bool" where
  "less_interruptionPriority p q \<longleftrightarrow> InterruptionPriority_Less p q"

instance
  by standard (auto simp: less_eq_interruptionPriority_def less_interruptionPriority_def
      InterruptionPriority_Less_def)

end

lemma not_Less_iff_le: "\<not> InterruptionPriority_Less p q \<longleftrightarrow> q \<le> p"
  by (auto simp: InterruptionPriority_Less_def less_eq_interruptionPriority_def)

lemma priority_le_Critical: "p \<le> InterruptionCritical"
  by (cases p) (simp_all add: less_eq_interruptionPriority_def InterruptionPriority_rank_def)

section \<open>Closed codes of a Transition and of an intent\<close>

datatype transitionReason =
    ReasonFirstAuthoritativeState | ReasonMaterialAssessmentChanged | ReasonAttentionChanged |
    ReasonOperatorContractChanged | ReasonInvestigationStarted | ReasonInvestigationConcluded |
    ReasonRecoveryObserved | ReasonRecoveryFailed | ReasonRecovered | ReasonClosedUnknown |
    ReasonRecurrenceMilestone | ReasonTriageStateChanged | ReasonOperatorArtifactRecorded |
    TransitionReasonOther string

definition TransitionReason_Validate :: "transitionReason \<Rightarrow> goerror" where
  "TransitionReason_Validate v = validateEnum ''transition_reason'' v
      [ReasonFirstAuthoritativeState, ReasonMaterialAssessmentChanged,
       ReasonAttentionChanged, ReasonOperatorContractChanged,
       ReasonInvestigationStarted, ReasonInvestigationConcluded, ReasonRecoveryObserved,
       ReasonRecoveryFailed, ReasonRecovered, ReasonClosedUnknown,
       ReasonRecurrenceMilestone, ReasonTriageStateChanged,
       ReasonOperatorArtifactRecorded]"

datatype transitionActor =
    ActorDeterministicController | ActorLLM | ActorAttributedOperator | ActorOperatorPolicy |
    TransitionActorOther string

definition TransitionActor_Validate :: "transitionActor \<Rightarrow> goerror" where
  "TransitionActor_Validate v = validateEnum ''transition_actor'' v
      [ActorDeterministicController, ActorLLM, ActorAttributedOperator]"

datatype journalKind =
    JournalNone | JournalPublication | JournalInvestigationStarted | JournalInvestigationChanged
    | JournalEvidenceConclusion | JournalOperatorContractChanged | JournalRecoveryPending |
    JournalRecoveryRefired | JournalRecurrenceMilestone | JournalRecovered |
    JournalClosedUnknown | JournalOperatorNote | JournalCapturedVerdict |
    JournalKindOther string

definition JournalKind_Validate :: "journalKind \<Rightarrow> goerror" where
  "JournalKind_Validate v = validateEnum ''journal_kind'' v
      [JournalNone, JournalPublication, JournalInvestigationStarted,
       JournalInvestigationChanged, JournalEvidenceConclusion,
       JournalOperatorContractChanged, JournalRecoveryPending, JournalRecoveryRefired,
       JournalRecurrenceMilestone, JournalRecovered, JournalClosedUnknown,
       JournalOperatorNote, JournalCapturedVerdict]"

datatype effectClass =
    EffectRootSync | EffectThreadAppend | EffectBroadcastHandoff | EffectInstallationGapRecovery
    | EffectClassOther string

definition EffectClass_Validate :: "effectClass \<Rightarrow> goerror" where
  "EffectClass_Validate v = validateEnum ''effect_class'' v
      [EffectRootSync, EffectThreadAppend, EffectBroadcastHandoff,
       EffectInstallationGapRecovery]"

datatype notificationReplyKind =
    ReplyLegacy | ReplyCorrelationStarted | ReplyInvestigationStarted | ReplyAnalysisCompleted |
    ReplyPartialClearance | ReplyRecoveryObserved | ReplyRecovered |
    NotificationReplyKindOther string

definition NotificationReplyKind_Validate :: "notificationReplyKind \<Rightarrow> goerror" where
  "NotificationReplyKind_Validate v = validateEnum ''notification_reply_kind'' v
      [ReplyLegacy, ReplyCorrelationStarted, ReplyInvestigationStarted,
       ReplyAnalysisCompleted, ReplyPartialClearance, ReplyRecoveryObserved,
       ReplyRecovered]"

datatype intentStatus =
    IntentPending | IntentDelivered | IntentBlockedConfiguration | IntentFailed | IntentWithheld
    | IntentSuperseded | IntentStatusOther string

definition IntentStatus_Validate :: "intentStatus \<Rightarrow> goerror" where
  "IntentStatus_Validate v = validateEnum ''intent_status'' v
      [IntentPending, IntentDelivered, IntentBlockedConfiguration, IntentFailed,
       IntentWithheld, IntentSuperseded]"

section \<open>Records\<close>

record journalData =
  jd_Headline :: string
  jd_Detail :: string
  jd_AttributedActor :: string
  jd_ActionStatus :: string
  jd_RecurrenceCount :: int
  jd_Delayed :: bool
  jd_NoLongerCurrent :: bool
  jd_OccurredAt :: gtime
  jd_JudgmentChange :: judgmentChange
  jd_JudgmentValidUntil :: "gtime option"
  jd_ExpectedBehaviorChange :: expectedBehaviorChange
  jd_ExpectedBehaviorReason :: expectedBehaviorReason
  jd_ExpectedBehaviorBoundary :: "gtime option"

record assessmentConclusion =
  co_Persistence :: persistence
  co_Impact :: impact
  co_Novelty :: novelty
  co_Causality :: causality
  co_EvidenceQuality :: evidenceQuality
  co_LimitationCodes :: "string list"
  co_SufficientReasonCode :: string
  co_SufficientReasonSummary :: string

record projectionFacts =
  pf_CoverageLimitations :: "coverageLimitation list"
  pf_OperatorDelta :: "operatorDelta option"
  pf_Briefing :: "operatorBriefing option"
  pf_PublicHandle :: "string option"
  pf_EffectiveStartedAt :: gtime
  pf_EffectiveStartedAtBasis :: sourceTimeBasis
  pf_RecoveryObservedAt :: "gtime option"
  pf_GraceUntil :: "gtime option"
  pf_TerminalAt :: "gtime option"
  pf_TerminalReason :: "terminalReason option"
  pf_Assessment :: "assessmentConclusion option"

record transition =
  tr_ID :: string
  tr_SituationID :: string
  tr_Sequence :: int
  tr_InputVersion :: int
  tr_MaterialFactHash :: string
  tr_AssessmentID :: "string option"
  tr_Lifecycle :: lifecycle
  tr_Attention :: attention
  tr_ActionContract :: actionContract
  tr_SufficientReasonID :: "string option"
  tr_InterruptionPriority :: "interruptionPriority option"
  tr_Reason :: transitionReason
  tr_JournalKind :: journalKind
  tr_Journal :: journalData
  tr_Projection :: projectionFacts
  tr_OperatorArtifactInputID :: "string option"
  tr_EvidenceRefs :: "string list"
  tr_Actor :: transitionActor
  tr_Drill :: bool
  tr_CreatedAt :: gtime
  tr_DetailExpired :: bool

record episodeSummary =
  es_Briefing :: "operatorBriefing option"
  es_SituationID :: string
  es_PublicHandle :: string
  es_Version :: int
  es_SourceTransitionSequence :: int
  es_Title :: string
  es_InitialPublicationReason :: string
  es_LatestMaterialReason :: string
  es_EvidenceConclusion :: string
  es_ImpactSummary :: string
  es_InvestigationWork :: "string list"
  es_InvestigationStarted :: bool
  es_CurrentAttention :: attention
  es_PeakAttention :: attention
  es_ActionContract :: actionContract
  es_RecordedOperatorContext :: "string list"
  es_EffectiveStartedAt :: gtime
  es_RecoveryObservedAt :: "gtime option"
  es_TerminalAt :: "gtime option"
  es_DurationSeconds :: "int option"
  es_RecurrenceCount :: int
  es_FinalOutcome :: string
  es_RemainingUncertainty :: string
  es_UpdatedAt :: gtime

record notificationIntent =
  ni_ID :: string
  ni_IdempotencyKey :: string
  ni_EffectClass :: effectClass
  ni_ReplyKind :: notificationReplyKind
  ni_SituationID :: "string option"
  ni_TransitionID :: "string option"
  ni_TransitionSequence :: "int option"
  ni_SummaryVersion :: "int option"
  ni_GapGeneration :: "string option"
  ni_RequiresRoot :: bool
  ni_MainChannelPoke :: bool
  ni_InterruptionPriority :: "interruptionPriority option"
  ni_ContractDeadlineAt :: "gtime option"
  ni_ClientMessageID :: string
  ni_Status :: intentStatus
  ni_ClaimOwner :: "string option"
  ni_ClaimToken :: int
  ni_LeaseExpiresAt :: "gtime option"
  ni_AttemptCount :: int
  ni_LastErrorClass :: "string option"
  ni_RetryAt :: "gtime option"
  ni_SupersessionReason :: "string option"
  ni_ReplacementIntentID :: "string option"
  ni_DeliveredAs :: "string option"
  ni_Channel :: "string option"
  ni_MessageTS :: "string option"
  ni_CreatedAt :: gtime
  ni_DeliveredAt :: "gtime option"

section \<open>Validators\<close>

definition maxJournalHeadlineLength :: nat where "maxJournalHeadlineLength = 200"

definition maxJournalDetailLength :: nat where "maxJournalDetailLength = 2000"

definition maxEvidenceRefs :: nat where "maxEvidenceRefs = 50"

definition requireUTC :: "string \<Rightarrow> gtime \<Rightarrow> goerror" where
  "requireUTC field t = errWhen (\<not> tutc t) (field @ '': must be UTC'')"

definition requireNonZeroUTC :: "string \<Rightarrow> gtime \<Rightarrow> goerror" where
  "requireNonZeroUTC field t =
     (if tIsZero t then Some (field @ '': is required'') else requireUTC field t)"

definition JournalData_Validate :: "journalData \<Rightarrow> goerror" where
  "JournalData_Validate j = firstErr
     [errWhen (length (jd_Headline j) > maxJournalHeadlineLength) ''journal_data: headline exceeds bytes'',
      errWhen (length (jd_Detail j) > maxJournalDetailLength) ''journal_data: detail exceeds bytes'',
      errWhen (length (jd_AttributedActor j) > maxIdentifierLength)
        ''journal_data: attributed_actor exceeds bytes'',
      errWhen (length (jd_ActionStatus j) > maxIdentifierLength)
        ''journal_data: action_status exceeds bytes'',
      errWhen (jd_RecurrenceCount j < 0) ''journal_data: recurrence_count must be >= 0'',
      wrapErr ''journal_data: '' (requireNonZeroUTC ''occurred_at'' (jd_OccurredAt j)),
      whenSome (jd_JudgmentValidUntil j)
        (\<lambda>t. wrapErr ''journal_data: '' (requireNonZeroUTC ''judgment_valid_until'' t)),
      whenSome (jd_ExpectedBehaviorBoundary j)
        (\<lambda>t. wrapErr ''journal_data: '' (requireNonZeroUTC ''expected_behavior_boundary'' t)),
      errWhen (jd_JudgmentChange j \<notin> {JudgmentChangeNone, JudgmentChangeRecorded,
          JudgmentChangeReplaced, JudgmentChangeRevoked, JudgmentChangeRestored,
          JudgmentChangeExpired, JudgmentChangeInvalidated})
        ''journal_data: unknown judgment_change'',
      errWhen ((jd_JudgmentChange j = JudgmentChangeRecorded \<or> jd_JudgmentChange j = JudgmentChangeReplaced \<or>
          jd_JudgmentChange j = JudgmentChangeRestored) \<and> jd_JudgmentValidUntil j = None)
        ''journal_data: active expected judgment change requires valid_until'',
      errWhen (jd_ExpectedBehaviorChange j \<notin> {ExpectedBehaviorChangeNone,
          ExpectedBehaviorChangeApplied, ExpectedBehaviorChangeUpdated,
          ExpectedBehaviorChangeWithdrawn, ExpectedBehaviorChangeRestored,
          ExpectedBehaviorChangeStopped})
        ''journal_data: unknown expected_behavior_change'']"

definition AssessmentConclusion_Validate :: "assessmentConclusion \<Rightarrow> goerror" where
  "AssessmentConclusion_Validate a = firstErr
     [wrapErr ''assessment_conclusion: '' (Persistence_Validate (co_Persistence a)),
      wrapErr ''assessment_conclusion: '' (Impact_Validate (co_Impact a)),
      wrapErr ''assessment_conclusion: '' (Novelty_Validate (co_Novelty a)),
      wrapErr ''assessment_conclusion: '' (Causality_Validate (co_Causality a)),
      wrapErr ''assessment_conclusion: '' (EvidenceQuality_Validate (co_EvidenceQuality a)),
      errWhen (length (co_SufficientReasonSummary a) > maxJournalDetailLength)
        ''assessment_conclusion: sufficient_reason_summary exceeds bytes'']"

definition ProjectionFacts_Validate :: "projectionFacts \<Rightarrow> goerror" where
  "ProjectionFacts_Validate p = firstErr
     [errWhen (length (pf_CoverageLimitations p) > 32) ''projection_facts: too many coverage limitations'',
      firstErr (map CoverageLimitation_Validate (pf_CoverageLimitations p)),
      whenSome (pf_PublicHandle p)
        (\<lambda>h. errWhen (blank h) ''projection_facts: public_handle must not be empty when set''),
      wrapErr ''projection_facts: '' (requireNonZeroUTC ''effective_started_at'' (pf_EffectiveStartedAt p)),
      wrapErr ''projection_facts: '' (validateEnum ''effective_started_at_basis''
        (pf_EffectiveStartedAtBasis p)
        [SourceTimeBasisSourcePayload, SourceTimeBasisSourceAPI, SourceTimeBasisReceiptFallback,
         SourceTimeBasisMissing, SourceTimeBasisMixed]),
      whenSome (pf_RecoveryObservedAt p)
        (\<lambda>t. wrapErr ''projection_facts: '' (requireUTC ''recovery_observed_at'' t)),
      whenSome (pf_GraceUntil p) (\<lambda>t. wrapErr ''projection_facts: '' (requireUTC ''grace_until'' t)),
      whenSome (pf_TerminalAt p) (\<lambda>t. wrapErr ''projection_facts: '' (requireUTC ''terminal_at'' t)),
      errWhen (pf_TerminalAt p = None \<and> pf_TerminalReason p \<noteq> None)
        ''projection_facts: terminal_reason requires terminal_at'',
      whenSome (pf_TerminalReason p) (\<lambda>r. wrapErr ''projection_facts: '' (validateEnum ''terminal_reason'' r
        [TerminalReasonObservationDeadline, TerminalReasonResolutionMissing,
         TerminalReasonSourceUnavailable, TerminalReasonBudgetExhausted])),
      whenSome (pf_Assessment p)
        (\<lambda>a. wrapErr ''projection_facts: '' (AssessmentConclusion_Validate a))]"

definition Transition_Validate :: "transition \<Rightarrow> goerror" where
  "Transition_Validate t = firstErr
     [errWhen (blank (tr_ID t)) ''transition: id is required'',
      errWhen (length (tr_ID t) > maxIdentifierLength) ''transition: id exceeds bytes'',
      errWhen (blank (tr_SituationID t)) ''transition: situation_id is required'',
      errWhen (tr_Sequence t < 1) ''transition: sequence must be >= 1'',
      errWhen (tr_InputVersion t < 1) ''transition: input_version must be >= 1'',
      errWhen (blank (tr_MaterialFactHash t)) ''transition: material_fact_hash is required'',
      whenSome (tr_AssessmentID t)
        (\<lambda>i. errWhen (blank i) ''transition: assessment_id must not be empty when set''),
      wrapErr ''transition: '' (Lifecycle_Validate (tr_Lifecycle t)),
      wrapErr ''transition: '' (Attention_Validate (tr_Attention t)),
      wrapErr ''transition: '' (ActionContract_validate (Terminal (tr_Lifecycle t)) (tr_ActionContract t)),
      whenSome (tr_SufficientReasonID t)
        (\<lambda>i. errWhen (blank i) ''transition: sufficient_reason_id must not be empty when set''),
      whenSome (tr_InterruptionPriority t)
        (\<lambda>p. wrapErr ''transition: '' (InterruptionPriority_Validate p)),
      wrapErr ''transition: '' (TransitionReason_Validate (tr_Reason t)),
      wrapErr ''transition: '' (JournalKind_Validate (tr_JournalKind t)),
      wrapErr ''transition: '' (JournalData_Validate (tr_Journal t)),
      wrapErr ''transition: '' (ProjectionFacts_Validate (tr_Projection t)),
      (if tr_Reason t = ReasonOperatorArtifactRecorded \<and> tr_OperatorArtifactInputID t = None
       then Some ''transition: operator_artifact_input_id is required when reason is operator_artifact_recorded''
       else if tr_Reason t \<noteq> ReasonOperatorArtifactRecorded \<and> tr_OperatorArtifactInputID t \<noteq> None
       then Some ''transition: operator_artifact_input_id must be unset unless reason is operator_artifact_recorded''
       else None),
      whenSome (tr_OperatorArtifactInputID t)
        (\<lambda>i. errWhen (blank i) ''transition: operator_artifact_input_id must not be empty when set''),
      errWhen (length (tr_EvidenceRefs t) > maxEvidenceRefs) ''transition: evidence_refs exceeds entries'',
      wrapErr ''transition: '' (TransitionActor_Validate (tr_Actor t)),
      wrapErr ''transition: '' (requireNonZeroUTC ''created_at'' (tr_CreatedAt t))]"

definition EpisodeSummary_Validate :: "episodeSummary \<Rightarrow> goerror" where
  "EpisodeSummary_Validate e = firstErr
     [errWhen (blank (es_SituationID e)) ''episode_summary: situation_id is required'',
      errWhen (es_Version e < 1) ''episode_summary: version must be >= 1'',
      errWhen (es_SourceTransitionSequence e < 1)
        ''episode_summary: source_transition_sequence must be >= 1'',
      errWhen (blank (es_Title e)) ''episode_summary: title is required'',
      wrapErr ''episode_summary: '' (Attention_Validate (es_CurrentAttention e)),
      wrapErr ''episode_summary: '' (Attention_Validate (es_PeakAttention e)),
      wrapErr ''episode_summary: ''
        (ActionContract_validate (es_TerminalAt e \<noteq> None) (es_ActionContract e)),
      wrapErr ''episode_summary: '' (requireNonZeroUTC ''effective_started_at'' (es_EffectiveStartedAt e)),
      whenSome (es_RecoveryObservedAt e)
        (\<lambda>t. wrapErr ''episode_summary: '' (requireUTC ''recovery_observed_at'' t)),
      whenSome (es_TerminalAt e) (\<lambda>t. wrapErr ''episode_summary: '' (requireUTC ''terminal_at'' t)),
      whenSome (es_DurationSeconds e)
        (\<lambda>d. errWhen (d < 0) ''episode_summary: duration_seconds must be >= 0''),
      errWhen (es_RecurrenceCount e < 0) ''episode_summary: recurrence_count must be >= 0'',
      wrapErr ''episode_summary: '' (requireNonZeroUTC ''updated_at'' (es_UpdatedAt e))]"

text \<open>\<^verbatim>\<open>validateBoundedRefs\<close>: the nullable identifiers, in the order the source lists them.\<close>

definition boundedRefs :: "notificationIntent \<Rightarrow> (string \<times> string option) list" where
  "boundedRefs n =
     [(''situation_id'', ni_SituationID n), (''transition_id'', ni_TransitionID n),
      (''gap_generation'', ni_GapGeneration n), (''claim_owner'', ni_ClaimOwner n),
      (''last_error_class'', ni_LastErrorClass n), (''supersession_reason'', ni_SupersessionReason n),
      (''replacement_intent_id'', ni_ReplacementIntentID n), (''delivered_as'', ni_DeliveredAs n),
      (''channel'', ni_Channel n), (''message_ts'', ni_MessageTS n)]"

definition checkBoundedRef :: "string \<times> string option \<Rightarrow> goerror" where
  "checkBoundedRef f =
     (case f of (name, v) \<Rightarrow> whenSome v (\<lambda>s. firstErr
        [errWhen (blank s) (''notification_intent: '' @ name @ '' must not be empty when set''),
         errWhen (length s > maxIdentifierLength) (''notification_intent: '' @ name @ '' exceeds bytes'')]))"

definition validateBoundedRefs :: "notificationIntent \<Rightarrow> goerror" where
  "validateBoundedRefs n = firstErr (map checkBoundedRef (boundedRefs n))"

definition validateEffectClassRefs :: "notificationIntent \<Rightarrow> goerror" where
  "validateEffectClassRefs n =
     (case ni_EffectClass n of
        EffectInstallationGapRecovery \<Rightarrow> firstErr
          [errWhen (ni_SituationID n \<noteq> None)
             ''notification_intent: installation_gap_recovery must not set situation_id'',
           errWhen (ni_TransitionID n \<noteq> None)
             ''notification_intent: installation_gap_recovery must not set transition_id'',
           errWhen (ni_TransitionSequence n \<noteq> None)
             ''notification_intent: installation_gap_recovery must not set transition_sequence'',
           errWhen (ni_SummaryVersion n \<noteq> None)
             ''notification_intent: installation_gap_recovery must not set summary_version'',
           errWhen (ni_GapGeneration n = None)
             ''notification_intent: installation_gap_recovery requires gap_generation'']
      | EffectClassOther _ \<Rightarrow> None
      | c \<Rightarrow> firstErr
          [errWhen (ni_SituationID n = None) ''notification_intent: requires situation_id'',
           errWhen (ni_TransitionID n = None) ''notification_intent: requires transition_id'',
           errWhen (ni_GapGeneration n \<noteq> None)
             ''notification_intent: gap_generation is accepted only on installation_gap_recovery'',
           errWhen (c = EffectRootSync \<and> ni_SummaryVersion n = None)
             ''notification_intent: root_sync requires summary_version''])"

definition NotificationIntent_Validate :: "notificationIntent \<Rightarrow> goerror" where
  "NotificationIntent_Validate n = firstErr
     [errWhen (blank (ni_ID n)) ''notification_intent: id is required'',
      errWhen (length (ni_ID n) > maxIdentifierLength) ''notification_intent: id exceeds bytes'',
      errWhen (blank (ni_IdempotencyKey n)) ''notification_intent: idempotency_key is required'',
      errWhen (length (ni_IdempotencyKey n) > maxIdentifierLength)
        ''notification_intent: idempotency_key exceeds bytes'',
      wrapErr ''notification_intent: '' (EffectClass_Validate (ni_EffectClass n)),
      wrapErr ''notification_intent: '' (NotificationReplyKind_Validate (ni_ReplyKind n)),
      errWhen (blank (ni_ClientMessageID n)) ''notification_intent: client_message_id is required'',
      errWhen (length (ni_ClientMessageID n) > maxIdentifierLength)
        ''notification_intent: client_message_id exceeds bytes'',
      wrapErr ''notification_intent: '' (IntentStatus_Validate (ni_Status n)),
      whenSome (ni_InterruptionPriority n)
        (\<lambda>p. wrapErr ''notification_intent: '' (InterruptionPriority_Validate p)),
      errWhen (ni_AttemptCount n < 0) ''notification_intent: attempt_count must be >= 0'',
      validateBoundedRefs n,
      validateEffectClassRefs n,
      whenSome (ni_ContractDeadlineAt n) (\<lambda>t. firstErr
        [errWhen (ni_EffectClass n \<noteq> EffectRootSync)
           ''notification_intent: contract_deadline_at is accepted only on root_sync'',
         wrapErr ''notification_intent: '' (requireUTC ''contract_deadline_at'' t)]),
      wrapErr ''notification_intent: '' (requireNonZeroUTC ''created_at'' (ni_CreatedAt n)),
      whenSome (ni_LeaseExpiresAt n)
        (\<lambda>t. wrapErr ''notification_intent: '' (requireUTC ''lease_expires_at'' t)),
      whenSome (ni_RetryAt n) (\<lambda>t. wrapErr ''notification_intent: '' (requireUTC ''retry_at'' t)),
      whenSome (ni_DeliveredAt n)
        (\<lambda>t. wrapErr ''notification_intent: '' (requireUTC ''delivered_at'' t))]"

section \<open>What the validators accept\<close>

lemma requireUTC_iff [validate_simps]: "requireUTC f t = None \<longleftrightarrow> tutc t"
  by (simp add: requireUTC_def errWhen_def)

lemma requireNonZeroUTC_iff [validate_simps]:
  "requireNonZeroUTC f t = None \<longleftrightarrow> \<not> tIsZero t \<and> tutc t"
  by (simp add: requireNonZeroUTC_def requireUTC_def errWhen_def)

lemma Transition_Validate_contract:
  "Transition_Validate t = None \<Longrightarrow>
     ActionContract_validate (Terminal (tr_Lifecycle t)) (tr_ActionContract t) = None"
  by (simp add: Transition_Validate_def wrapErr_None_iff)

lemma Transition_Validate_terminal:
  assumes "Transition_Validate t = None"
  shows "Terminal (tr_Lifecycle t) \<longleftrightarrow> ac_NextUpdateAt (tr_ActionContract t) = None"
  using Transition_Validate_contract [OF assms] by (auto simp: ActionContract_validate_iff split: if_splits)

text \<open>
  The reason \<^verbatim>\<open>operator_artifact_recorded\<close> and the consumed artifact input come together, and
  the reserved actor \<^verbatim>\<open>operator_policy\<close> never validates.
\<close>

lemma Transition_Validate_artifact:
  "Transition_Validate t = None \<Longrightarrow>
     (tr_Reason t = ReasonOperatorArtifactRecorded \<longleftrightarrow> tr_OperatorArtifactInputID t \<noteq> None) \<and>
     tr_Actor t \<noteq> ActorOperatorPolicy"
  by (auto simp: Transition_Validate_def wrapErr_None_iff TransitionActor_Validate_def
      validateEnum_None_iff split: if_splits)

text \<open>The well-formed notification intents, grouped as the header of the validator describes them.\<close>

definition boundedID :: "string \<Rightarrow> bool" where
  "boundedID s \<longleftrightarrow> \<not> blank s \<and> length s \<le> maxIdentifierLength"

definition intentRefsOk :: "notificationIntent \<Rightarrow> bool" where
  "intentRefsOk n \<longleftrightarrow>
     (if ni_EffectClass n = EffectInstallationGapRecovery
      then ni_SituationID n = None \<and> ni_TransitionID n = None \<and> ni_TransitionSequence n = None \<and>
           ni_SummaryVersion n = None \<and> ni_GapGeneration n \<noteq> None
      else ni_SituationID n \<noteq> None \<and> ni_TransitionID n \<noteq> None \<and> ni_GapGeneration n = None \<and>
           (ni_EffectClass n = EffectRootSync \<longrightarrow> ni_SummaryVersion n \<noteq> None))"

definition intentWellFormed :: "notificationIntent \<Rightarrow> bool" where
  "intentWellFormed n \<longleftrightarrow>
     boundedID (ni_ID n) \<and> boundedID (ni_IdempotencyKey n) \<and> boundedID (ni_ClientMessageID n) \<and>
     EffectClass_Validate (ni_EffectClass n) = None \<and>
     NotificationReplyKind_Validate (ni_ReplyKind n) = None \<and>
     IntentStatus_Validate (ni_Status n) = None \<and>
     pred_option (\<lambda>p. InterruptionPriority_Validate p = None) (ni_InterruptionPriority n) \<and>
     0 \<le> ni_AttemptCount n \<and>
     list_all (\<lambda>f. pred_option boundedID (snd f)) (boundedRefs n) \<and>
     intentRefsOk n \<and>
     pred_option (\<lambda>t. ni_EffectClass n = EffectRootSync \<and> tutc t) (ni_ContractDeadlineAt n) \<and>
     \<not> tIsZero (ni_CreatedAt n) \<and> tutc (ni_CreatedAt n) \<and>
     pred_option tutc (ni_LeaseExpiresAt n) \<and> pred_option tutc (ni_RetryAt n) \<and>
     pred_option tutc (ni_DeliveredAt n)"

lemma checkBoundedRef_iff: "checkBoundedRef f = None \<longleftrightarrow> pred_option boundedID (snd f)"
  by (cases f) (auto simp: checkBoundedRef_def pred_option_iff whenSome_None_iff errWhen_None_iff
      boundedID_def)

lemma validateEffectClassRefs_iff:
  "EffectClass_Validate (ni_EffectClass n) = None \<Longrightarrow>
     validateEffectClassRefs n = None \<longleftrightarrow> intentRefsOk n"
  by (cases "ni_EffectClass n")
     (auto simp: validateEffectClassRefs_def intentRefsOk_def errWhen_None_iff EffectClass_Validate_def
       validateEnum_None_iff)

lemma NotificationIntent_Validate_iff [validate_simps]:
  "NotificationIntent_Validate n = None \<longleftrightarrow> intentWellFormed n"
proof -
  have refs: "validateBoundedRefs n = None \<longleftrightarrow>
      list_all (\<lambda>f. pred_option boundedID (snd f)) (boundedRefs n)"
    by (simp add: validateBoundedRefs_def checkBoundedRef_iff)
  show ?thesis
    unfolding NotificationIntent_Validate_def firstErr_Cons_None refs intentWellFormed_def
      boundedID_def errWhen_None_iff wrapErr_None_iff whenSome_None_iff requireUTC_iff
      requireNonZeroUTC_iff pred_option_iff
    using validateEffectClassRefs_iff [of n] by auto
qed

interpretation intentValidator: validator NotificationIntent_Validate intentWellFormed
  by unfold_locales (rule NotificationIntent_Validate_iff)

end
