(* ===== verification/Priority.thy ===== *)
theory Priority
  imports History_Model
begin

text \<open>
  \<^verbatim>\<open>internal/situation/priority.go\<close>: the deterministic Interruption priority of a Transition, its
  publication authority, the operator's Slack floor and the classes of permitted main-channel pokes.
\<close>

section \<open>Helpers of history.go\<close>

definition attentionRank :: "attention \<Rightarrow> int" where
  "attentionRank a = (if a = AttentionUrgent then 2 else if a = AttentionInvestigate then 1 else 0)"

definition derefOperatorAction :: "operatorAction option \<Rightarrow> string" where
  "derefOperatorAction a =
     (case a of None \<Rightarrow> [] | Some OperatorActionInvestigateSituation \<Rightarrow> ''investigate_situation''
      | Some (OperatorActionOther s) \<Rightarrow> s)"

definition reasonCodeCriticalAnchor :: string where "reasonCodeCriticalAnchor = ''critical_anchor''"

section \<open>Priority and authority\<close>

definition deterministicCriticalFloor :: "transition \<Rightarrow> bool" where
  "deterministicCriticalFloor t =
     (case pf_Assessment (tr_Projection t) of None \<Rightarrow> False
      | Some c \<Rightarrow> co_SufficientReasonCode c = reasonCodeCriticalAnchor)"

definition DeriveInterruptionPriority :: "transition \<Rightarrow> interruptionPriority" where
  "DeriveInterruptionPriority t =
     (let terminal = Terminal (tr_Lifecycle t) in
      if \<not> terminal \<and> deterministicCriticalFloor t then InterruptionCritical
      else if \<not> terminal \<and> tr_Attention t = AttentionUrgent then InterruptionHigh
      else if \<not> terminal \<and> ac_OperatorActionRequired (tr_ActionContract t) \<noteq> None then InterruptionHigh
      else if tr_Lifecycle t = LifecycleClosedUnknown then InterruptionHigh
      else if \<not> terminal \<and> tr_Attention t = AttentionInvestigate \<and>
              ac_NextActor (tr_ActionContract t) = NextActorAlertINT then InterruptionMedium
      else InterruptionLow)"

definition PublicationAuthority :: "transition \<Rightarrow> bool" where
  "PublicationAuthority t =
     (if deterministicCriticalFloor t \<or> tr_Attention t = AttentionUrgent then True
      else case pf_Assessment (tr_Projection t) of None \<Rightarrow> False
           | Some c \<Rightarrow> \<not> blank (co_SufficientReasonCode c))"

definition MeetsSlackFloor :: "interruptionPriority \<Rightarrow> interruptionPriority \<Rightarrow> bool" where
  "MeetsSlackFloor priority floor = (\<not> InterruptionPriority_Less priority floor)"

section \<open>Poke classes\<close>

datatype pokeClass =
    PokeNone | PokeFirstPublication | PokeCriticalityCrossed | PokeUrgentAttention
  | PokeOperatorHandoff | PokeRequiredActionChanged

definition CooldownApplies :: "pokeClass \<Rightarrow> bool" where
  "CooldownApplies c = (c = PokeRequiredActionChanged)"

definition ClassifyPoke :: "transition option \<Rightarrow> transition \<Rightarrow> pokeClass" where
  "ClassifyPoke prior t =
     (if tr_Reason t = ReasonOperatorArtifactRecorded then PokeNone
      else if tr_Reason t = ReasonRecurrenceMilestone then PokeNone
      else case prior of
        None \<Rightarrow> PokeFirstPublication
      | Some p \<Rightarrow>
          if Terminal (tr_Lifecycle t) then PokeNone
          else if deterministicCriticalFloor t \<and> \<not> deterministicCriticalFloor p then PokeCriticalityCrossed
          else if tr_Attention t = AttentionUrgent \<and> tr_Attention p \<noteq> AttentionUrgent
          then PokeUrgentAttention
          else if ac_OperatorActionRequired (tr_ActionContract t) \<noteq> None \<and>
                  ac_OperatorActionRequired (tr_ActionContract p) = None
          then PokeOperatorHandoff
          else if ac_OperatorActionRequired (tr_ActionContract t) \<noteq> None \<and>
                  ac_OperatorActionRequired (tr_ActionContract p) \<noteq> None \<and>
                  derefOperatorAction (ac_OperatorActionRequired (tr_ActionContract t)) \<noteq>
                  derefOperatorAction (ac_OperatorActionRequired (tr_ActionContract p))
          then PokeRequiredActionChanged
          else PokeNone)"

definition HandoffStillCurrent :: "transition \<Rightarrow> episodeSummary \<Rightarrow> bool" where
  "HandoffStillCurrent handoff summary =
     (if es_SourceTransitionSequence summary < tr_Sequence handoff \<or> es_TerminalAt summary \<noteq> None then False
      else if attentionRank (es_CurrentAttention summary) < attentionRank (tr_Attention handoff) then False
      else if ac_OperatorActionRequired (tr_ActionContract handoff) = None then True
      else ac_OperatorActionRequired (es_ActionContract summary) \<noteq> None \<and>
           derefOperatorAction (ac_OperatorActionRequired (es_ActionContract summary)) =
           derefOperatorAction (ac_OperatorActionRequired (tr_ActionContract handoff)))"

section \<open>What the ranking guarantees\<close>

lemma DeriveInterruptionPriority_valid:
  "InterruptionPriority_Validate (DeriveInterruptionPriority t) = None"
  by (simp add: DeriveInterruptionPriority_def Let_def InterruptionPriority_Validate_def
      validateEnum_None_iff)

lemma DeriveInterruptionPriority_cases:
  "DeriveInterruptionPriority t \<in> {InterruptionLow, InterruptionMedium, InterruptionHigh, InterruptionCritical}"
  by (simp add: DeriveInterruptionPriority_def Let_def)

lemma DeriveInterruptionPriority_critical_iff:
  "DeriveInterruptionPriority t = InterruptionCritical \<longleftrightarrow>
     \<not> Terminal (tr_Lifecycle t) \<and> deterministicCriticalFloor t"
  by (auto simp: DeriveInterruptionPriority_def Let_def)

lemma DeriveInterruptionPriority_terminal:
  "Terminal (tr_Lifecycle t) \<Longrightarrow>
     DeriveInterruptionPriority t =
       (if tr_Lifecycle t = LifecycleClosedUnknown then InterruptionHigh else InterruptionLow)"
  by (simp add: DeriveInterruptionPriority_def Let_def)

lemma MeetsSlackFloor_iff: "MeetsSlackFloor p floor \<longleftrightarrow> floor \<le> p"
  by (simp add: MeetsSlackFloor_def not_Less_iff_le)

text \<open>Raising the priority, or lowering the floor, never withholds a poke that passed.\<close>

lemma MeetsSlackFloor_mono:
  "MeetsSlackFloor p f \<Longrightarrow> p \<le> q \<Longrightarrow> g \<le> f \<Longrightarrow> MeetsSlackFloor q g"
  unfolding MeetsSlackFloor_iff by (meson order_trans)

lemma MeetsSlackFloor_critical: "MeetsSlackFloor InterruptionCritical floor"
  by (simp add: MeetsSlackFloor_iff priority_le_Critical)

lemma MeetsSlackFloor_no_floor:
  "MeetsSlackFloor (DeriveInterruptionPriority t) (InterruptionPriorityOther [])"
  using DeriveInterruptionPriority_cases [of t]
  by (auto simp: MeetsSlackFloor_def InterruptionPriority_Less_def InterruptionPriority_rank_def)

text \<open>Every escalation class is warranted by a strictly new fact of the Transition it names.\<close>

lemma ClassifyPoke_escalation:
  assumes "ClassifyPoke (Some p) t \<noteq> PokeNone"
  shows "\<not> Terminal (tr_Lifecycle t) \<and> tr_Reason t \<noteq> ReasonOperatorArtifactRecorded \<and>
    tr_Reason t \<noteq> ReasonRecurrenceMilestone \<and>
    (deterministicCriticalFloor t \<and> \<not> deterministicCriticalFloor p \<or>
     tr_Attention t = AttentionUrgent \<and> tr_Attention p \<noteq> AttentionUrgent \<or>
     ac_OperatorActionRequired (tr_ActionContract t) \<noteq> None \<and>
       ac_OperatorActionRequired (tr_ActionContract t) \<noteq> ac_OperatorActionRequired (tr_ActionContract p))"
  using assms by (auto simp: ClassifyPoke_def split: if_splits)

text \<open>A poke of a published Situation ranks high at least, so only a critical floor withholds it.\<close>

lemma ClassifyPoke_priority:
  assumes "ClassifyPoke (Some p) t \<noteq> PokeNone"
  shows "InterruptionHigh \<le> DeriveInterruptionPriority t"
  using ClassifyPoke_escalation [OF assms]
  by (auto simp: DeriveInterruptionPriority_def Let_def less_eq_interruptionPriority_def
      InterruptionPriority_rank_def)

text \<open>A Transition never qualifies against an identical prior state: nothing repeats a poke.\<close>

lemma ClassifyPoke_unchanged:
  assumes "tr_Attention t = tr_Attention p" and "tr_ActionContract t = tr_ActionContract p"
    and "pf_Assessment (tr_Projection t) = pf_Assessment (tr_Projection p)"
  shows "ClassifyPoke (Some p) t = PokeNone"
  using assms by (auto simp: ClassifyPoke_def deterministicCriticalFloor_def)

lemma HandoffStillCurrent_monotone_basis:
  assumes "HandoffStillCurrent h s"
  shows "es_TerminalAt s = None \<and> tr_Sequence h \<le> es_SourceTransitionSequence s \<and>
    attentionRank (tr_Attention h) \<le> attentionRank (es_CurrentAttention s)"
  using assms by (auto simp: HandoffStillCurrent_def split: if_splits)

end
