(* ===== verification/Notification_Plan.thy ===== *)
theory Notification_Plan
  imports Priority Delivery
begin

text \<open>
  \<^verbatim>\<open>internal/situation/notification_plan.go\<close>: the durable Slack obligations one committed
  reconciliation creates.  The function \<open>newSHA1\<close> stands for
  \<^verbatim>\<open>uuid.NewSHA1(historyNamespace, key).String()\<close> of the package \<^verbatim>\<open>google/uuid\<close>, so every
  definition that makes an intent takes it as its first argument.  \<^verbatim>\<open>reflect.DeepEqual\<close> on the
  Symptoms of two briefings is list equality: \<^verbatim>\<open>briefingValues\<close> makes a nil slice for no values,
  as the decoder does for the omitted field.
\<close>

section \<open>Delivered history and reply eligibility\<close>

record deliveredHistory =
  dh_LastDeliveredSequence :: int
  dh_AssuranceConveyed :: bool
  dh_LiveAssuranceIntentID :: "string option"
  dh_CommunicatedLimitationCodes :: "string list"
  dh_CommunicatedAction :: "operatorAction option"
  dh_ProjectedLimitationCodes :: "string list"
  dh_ProjectedAction :: "operatorAction option"
  dh_AssuranceSuperseded :: bool

definition containsString :: "string list \<Rightarrow> string \<Rightarrow> bool" where
  "containsString xs s = list_ex (\<lambda>v. v = s) xs"

definition limitationStanding :: "deliveredHistory \<Rightarrow> string \<Rightarrow> bool" where
  "limitationStanding h code = containsString (dh_ProjectedLimitationCodes h) code"

definition requestStanding :: "deliveredHistory \<Rightarrow> bool" where
  "requestStanding h = (dh_ProjectedAction h \<noteq> None)"

definition assuranceStale :: "deliveredHistory \<Rightarrow> bool" where
  "assuranceStale h = (dh_AssuranceConveyed h \<or> dh_AssuranceSuperseded h)"

definition candidateEligible :: "deliveredHistory \<Rightarrow> materialCandidate \<Rightarrow> bool" where
  "candidateEligible h c =
     (case mc_Kind c of
        CandidateFirstExecutionAssurance \<Rightarrow> \<not> assuranceStale h
      | CandidateAbilityChanged \<Rightarrow>
          (case mc_Limitation c of None \<Rightarrow> False
           | Some l \<Rightarrow> if lf_Cleared l then limitationStanding h (lf_Code l)
                       else \<not> limitationStanding h (lf_Code l))
      | CandidateActionChanged \<Rightarrow>
          (case mc_Action c of None \<Rightarrow> False
           | Some a \<Rightarrow> \<not> (af_Withdrawn a \<and> \<not> requestStanding h))
      | _ \<Rightarrow> True)"

definition ReplyEligible :: "materialCandidate list \<Rightarrow> deliveredHistory \<Rightarrow> bool \<Rightarrow> materialCandidate list" where
  "ReplyEligible cands h rootPublished =
     (if \<not> rootPublished then [] else filter (candidateEligible h) cands)"

section \<open>The publication input\<close>

record publicationInput =
  pi_Situation :: situation
  pi_Transitions :: "transition list"
  pi_Summary :: episodeSummary
  pi_PriorTransition :: "transition option"
  pi_ContractDeadlineAt :: "gtime option"
  pi_RootPublished :: bool
  pi_LatestRootSyncVersion :: "int option"
  pi_RootPublicationOwed :: bool
  pi_LastDeliveredRootDeadlineAt :: "gtime option"
  pi_LastMainChannelPokeAt :: "gtime option"
  pi_SlackFloor :: interruptionPriority
  pi_RepageCooldown :: duration
  pi_RecurrenceRepliesOff :: bool
  pi_Drill :: bool
  pi_Now :: gtime
  pi_DeliveredHistory :: deliveredHistory

definition replyEligibleTransition :: "publicationInput \<Rightarrow> transition \<Rightarrow> bool" where
  "replyEligibleTransition inp tr =
     (if \<not> pi_RootPublished inp then False
      else if jd_JudgmentChange (tr_Journal tr) \<noteq> JudgmentChangeNone \<or>
              jd_ExpectedBehaviorChange (tr_Journal tr) \<noteq> ExpectedBehaviorChangeNone then True
      else let cands = (case pf_OperatorDelta (tr_Projection tr) of None \<Rightarrow> [] | Some d \<Rightarrow> od_Candidates d) in
        if ReplyEligible cands (pi_DeliveredHistory inp) (pi_RootPublished inp) \<noteq> [] then True
        else case (pi_PriorTransition inp, pf_Briefing (tr_Projection tr)) of
            (Some p, Some b) \<Rightarrow>
              (case pf_Briefing (tr_Projection p) of None \<Rightarrow> False
               | Some pb \<Rightarrow> ob_Symptoms pb \<noteq> ob_Symptoms b)
          | _ \<Rightarrow> False)"

text \<open>The loop over the Transitions checks the owner of each, then its sequence against the one before.\<close>

fun checkTransitions :: "string \<Rightarrow> transition option \<Rightarrow> transition list \<Rightarrow> goerror" where
  "checkTransitions sid prev [] = None"
| "checkTransitions sid prev (t # ts) = firstErr
     [errWhen (tr_SituationID t \<noteq> sid) ''situation: publication input: transition belongs to another situation'',
      whenSome prev (\<lambda>p. errWhen (tr_Sequence t \<le> tr_Sequence p)
        ''situation: publication input: transition sequence does not follow''),
      checkTransitions sid (Some t) ts]"

definition validatePublicationInput :: "publicationInput \<Rightarrow> goerror" where
  "validatePublicationInput inp = firstErr
     [errWhen (si_ID (pi_Situation inp) = []) ''situation: publication input: situation id is required'',
      errWhen (tIsZero (pi_Now inp) \<or> \<not> tutc (pi_Now inp))
        ''situation: publication input: now must be a non-zero UTC instant'',
      (if pi_SlackFloor inp \<noteq> InterruptionPriorityOther []
       then wrapErr ''situation: publication input: '' (InterruptionPriority_Validate (pi_SlackFloor inp))
       else None),
      errWhen (pi_RepageCooldown inp < 0) ''situation: publication input: repage cooldown must be >= 0'',
      errWhen (es_SituationID (pi_Summary inp) \<noteq> [] \<and>
               es_SituationID (pi_Summary inp) \<noteq> si_ID (pi_Situation inp))
        ''situation: publication input: summary belongs to another situation'',
      whenSome (pi_LatestRootSyncVersion inp) (\<lambda>v.
        errWhen (es_Version (pi_Summary inp) \<noteq> 0 \<and> es_Version (pi_Summary inp) < v)
          ''situation: publication input: summary version is older than the latest root sync version''),
      (if pi_Transitions inp = [] then None
       else firstErr
         [errWhen (es_SituationID (pi_Summary inp) = [] \<or> es_Version (pi_Summary inp) < 1)
            ''situation: publication input: a commit with transitions requires the folded episode summary'',
          checkTransitions (si_ID (pi_Situation inp)) None (pi_Transitions inp),
          errWhen (es_SourceTransitionSequence (pi_Summary inp) \<noteq> tr_Sequence (last (pi_Transitions inp)))
            ''situation: publication input: summary source sequence is not the last transition''])]"

section \<open>Identities\<close>

definition maxHistoryIdentifier :: nat where "maxHistoryIdentifier = 200"

definition boundedText :: "string \<Rightarrow> nat \<Rightarrow> string" where
  "boundedText s limit = (if length s \<le> limit then s else cutValid (take limit s))"

definition effectClassText :: "effectClass \<Rightarrow> string" where
  "effectClassText c = (case c of EffectRootSync \<Rightarrow> ''root_sync'' | EffectThreadAppend \<Rightarrow> ''thread_append''
     | EffectBroadcastHandoff \<Rightarrow> ''broadcast_handoff''
     | EffectInstallationGapRecovery \<Rightarrow> ''installation_gap_recovery'' | EffectClassOther s \<Rightarrow> s)"

definition replyKindText :: "notificationReplyKind \<Rightarrow> string" where
  "replyKindText k = (case k of ReplyLegacy \<Rightarrow> [] | ReplyCorrelationStarted \<Rightarrow> ''correlation_started''
     | ReplyInvestigationStarted \<Rightarrow> ''investigation_started'' | ReplyAnalysisCompleted \<Rightarrow> ''analysis_completed''
     | ReplyPartialClearance \<Rightarrow> ''partial_clearance'' | ReplyRecoveryObserved \<Rightarrow> ''recovery_observed''
     | ReplyRecovered \<Rightarrow> ''recovered'' | NotificationReplyKindOther s \<Rightarrow> s)"

definition rootSyncKey :: "string \<Rightarrow> int \<Rightarrow> string \<Rightarrow> gtime option \<Rightarrow> string" where
  "rootSyncKey situationID summaryVersion transitionID deadline =
     (let stamp = (case deadline of None \<Rightarrow> ''none'' | Some t \<Rightarrow> formatRFC3339 (tUTC t)) in
      boundedText (''root_sync:'' @ situationID @ '':v'' @ itoa summaryVersion @ '':'' @ transitionID @ '':'' @ stamp)
        maxHistoryIdentifier)"

definition threadKey :: "effectClass \<Rightarrow> string \<Rightarrow> int \<Rightarrow> string" where
  "threadKey cls situationID seqn =
     boundedText (effectClassText cls @ '':'' @ situationID @ '':'' @ itoa seqn) maxHistoryIdentifier"

definition intentIdentity :: "(string \<Rightarrow> string) \<Rightarrow> string \<Rightarrow> string" where
  "intentIdentity newSHA1 scopedKey = newSHA1 scopedKey"

definition newIntent ::
  "(string \<Rightarrow> string) \<Rightarrow> publicationInput \<Rightarrow> effectClass \<Rightarrow> transition \<Rightarrow> string \<Rightarrow> notificationIntent" where
  "newIntent newSHA1 inp cls subject key =
     \<lparr>ni_ID = intentIdentity newSHA1 (''intent:'' @ key), ni_IdempotencyKey = key, ni_EffectClass = cls,
      ni_ReplyKind = ReplyLegacy, ni_SituationID = Some (si_ID (pi_Situation inp)),
      ni_TransitionID = Some (tr_ID subject), ni_TransitionSequence = Some (tr_Sequence subject),
      ni_SummaryVersion = None, ni_GapGeneration = None,
      ni_RequiresRoot = (cls = EffectThreadAppend \<or> cls = EffectBroadcastHandoff),
      ni_MainChannelPoke = False, ni_InterruptionPriority = None, ni_ContractDeadlineAt = None,
      ni_ClientMessageID = intentIdentity newSHA1 (''client_message:'' @ key), ni_Status = IntentPending,
      ni_ClaimOwner = None, ni_ClaimToken = 0, ni_LeaseExpiresAt = None, ni_AttemptCount = 0,
      ni_LastErrorClass = None, ni_RetryAt = None, ni_SupersessionReason = None,
      ni_ReplacementIntentID = None, ni_DeliveredAs = None, ni_Channel = None, ni_MessageTS = None,
      ni_CreatedAt = pi_Now inp, ni_DeliveredAt = None\<rparr>"

definition newReplyIntent ::
  "(string \<Rightarrow> string) \<Rightarrow> publicationInput \<Rightarrow> effectClass \<Rightarrow> transition \<Rightarrow> notificationReplyKind
     \<Rightarrow> notificationIntent" where
  "newReplyIntent newSHA1 inp cls subject kind =
     (let key0 = threadKey cls (si_ID (pi_Situation inp)) (tr_Sequence subject);
          key = (if kind \<noteq> ReplyLegacy
                 then boundedText (key0 @ '':'' @ replyKindText kind) maxHistoryIdentifier else key0)
      in (newIntent newSHA1 inp cls subject key)\<lparr>ni_ReplyKind := kind\<rparr>)"

section \<open>Canonical replies\<close>

record canonicalReplyFacts =
  cf_assurance :: bool
  cf_analysis :: bool
  cf_allClear :: bool
  cf_terminal :: bool
  cf_canonicalCandidate :: bool

definition noReplyFacts :: canonicalReplyFacts where
  "noReplyFacts = \<lparr>cf_assurance = False, cf_analysis = False, cf_allClear = False, cf_terminal = False,
     cf_canonicalCandidate = False\<rparr>"

definition addReplyFact :: "canonicalReplyFacts \<Rightarrow> materialCandidate \<Rightarrow> canonicalReplyFacts" where
  "addReplyFact facts c =
     (case mc_Kind c of
        CandidateFirstExecutionAssurance \<Rightarrow> facts\<lparr>cf_assurance := True, cf_canonicalCandidate := True\<rparr>
      | CandidateUsefulFinding \<Rightarrow> facts\<lparr>cf_analysis := True, cf_canonicalCandidate := True\<rparr>
      | CandidateInconclusiveCompletion \<Rightarrow> facts\<lparr>cf_analysis := True, cf_canonicalCandidate := True\<rparr>
      | CandidateAllClear \<Rightarrow> facts\<lparr>cf_allClear := True, cf_canonicalCandidate := True\<rparr>
      | CandidateTerminalEnd \<Rightarrow> facts\<lparr>cf_terminal := True, cf_canonicalCandidate := True\<rparr>
      | _ \<Rightarrow> facts)"

definition canonicalReplyFactsFor :: "transition \<Rightarrow> canonicalReplyFacts" where
  "canonicalReplyFactsFor tr =
     (case pf_OperatorDelta (tr_Projection tr) of None \<Rightarrow> noReplyFacts
      | Some d \<Rightarrow> foldl addReplyFact noReplyFacts (od_Candidates d))"

definition onlyIf :: "bool \<Rightarrow> 'a \<Rightarrow> 'a list" where "onlyIf b x = (if b then [x] else [])"

definition canonicalReplyKinds :: "publicationInput \<Rightarrow> transition \<Rightarrow> notificationReplyKind list" where
  "canonicalReplyKinds inp tr =
     (case pf_Briefing (tr_Projection tr) of None \<Rightarrow> [] | Some b \<Rightarrow>
      (case ob_Flow b of None \<Rightarrow> [] | Some flow \<Rightarrow>
       if \<not> pi_RootPublished inp \<and> \<not> pi_RootPublicationOwed inp \<and> wp_Phase (ob_Work b) = WorkPhaseCollecting \<and>
          of_InvestigationStartedAt flow = None \<and> ob_Firing b > 0
       then [ReplyCorrelationStarted]
       else let facts = canonicalReplyFactsFor tr;
              out = onlyIf (pi_RootPublished inp \<and> cf_assurance facts \<and> \<not> cf_analysis facts \<and> \<not> cf_allClear facts \<and>
                      \<not> cf_terminal facts \<and> of_InvestigationStartedAt flow \<noteq> None) ReplyInvestigationStarted @
                    onlyIf (cf_analysis facts) ReplyAnalysisCompleted @
                    onlyIf (case pf_OperatorDelta (tr_Projection tr) of None \<Rightarrow> False
                      | Some d \<Rightarrow> od_StateChanged d \<and> ob_Firing b > 0 \<and> ob_Firing b < od_PreviousFiring d)
                      ReplyPartialClearance @
                    onlyIf (cf_allClear facts) ReplyRecoveryObserved @
                    onlyIf (cf_terminal facts \<and> tr_Lifecycle tr = LifecycleRecovered) ReplyRecovered @
                    onlyIf (cf_terminal facts \<and> tr_Lifecycle tr \<noteq> LifecycleRecovered) ReplyLegacy
            in if out = [] \<and> \<not> cf_canonicalCandidate facts \<and> replyEligibleTransition inp tr
               then [ReplyLegacy] else out))"

section \<open>The one poke of a commit\<close>

definition cooldownElapsed :: "publicationInput \<Rightarrow> bool" where
  "cooldownElapsed inp =
     (case pi_LastMainChannelPokeAt inp of None \<Rightarrow> True
      | Some t \<Rightarrow> \<not> tBefore (pi_Now inp) (tAdd t (pi_RepageCooldown inp)))"

text \<open>The three \<^verbatim>\<open>continue\<close> tests of the loop: whether a Transition is a candidate poke at all.\<close>

definition pokeCandidate :: "publicationInput \<Rightarrow> transition \<Rightarrow> bool" where
  "pokeCandidate inp tr =
     (if pf_Briefing (tr_Projection tr) \<noteq> None \<and> \<not> replyEligibleTransition inp tr then False
      else let cls = ClassifyPoke (pi_PriorTransition inp) tr in
        cls \<noteq> PokeNone \<and> \<not> (CooldownApplies cls \<and> \<not> cooldownElapsed inp))"

fun bestPoke :: "publicationInput \<Rightarrow> transition option \<Rightarrow> transition list \<Rightarrow> transition option" where
  "bestPoke inp best [] = best"
| "bestPoke inp best (tr # trs) =
     bestPoke inp
       (if \<not> pokeCandidate inp tr then best
        else case best of None \<Rightarrow> Some tr
             | Some b \<Rightarrow> if InterruptionPriority_Less (DeriveInterruptionPriority b) (DeriveInterruptionPriority tr)
                         then Some tr else Some b) trs"

definition selectPoke :: "publicationInput \<Rightarrow> transition option" where
  "selectPoke inp = bestPoke inp None (pi_Transitions inp)"

section \<open>Journal entries\<close>

definition pokedReply ::
  "(string \<Rightarrow> string) \<Rightarrow> publicationInput \<Rightarrow> transition \<Rightarrow> notificationReplyKind \<Rightarrow> notificationIntent list" where
  "pokedReply newSHA1 inp tr kind =
     (let priority = DeriveInterruptionPriority tr;
          broadcast = (newReplyIntent newSHA1 inp EffectBroadcastHandoff tr kind)
            \<lparr>ni_MainChannelPoke := True, ni_InterruptionPriority := Some priority\<rparr>
      in if MeetsSlackFloor priority (pi_SlackFloor inp) then [broadcast]
         else [newReplyIntent newSHA1 inp EffectThreadAppend tr kind,
               broadcast\<lparr>ni_Status := IntentWithheld\<rparr>])"

fun replyIntents ::
  "(string \<Rightarrow> string) \<Rightarrow> publicationInput \<Rightarrow> transition \<Rightarrow> bool \<Rightarrow> notificationReplyKind list
     \<Rightarrow> notificationIntent list" where
  "replyIntents newSHA1 inp tr poked [] = []"
| "replyIntents newSHA1 inp tr poked [k] =
     (if poked then pokedReply newSHA1 inp tr k else [newReplyIntent newSHA1 inp EffectThreadAppend tr k])"
| "replyIntents newSHA1 inp tr poked (k # ks) =
     newReplyIntent newSHA1 inp EffectThreadAppend tr k # replyIntents newSHA1 inp tr poked ks"

definition journalIntentsFor ::
  "(string \<Rightarrow> string) \<Rightarrow> publicationInput \<Rightarrow> int \<Rightarrow> transition \<Rightarrow> notificationIntent list" where
  "journalIntentsFor newSHA1 inp pokeSequence tr =
     (let kinds = canonicalReplyKinds inp tr;
          briefing = pf_Briefing (tr_Projection tr);
          poked = (pokeSequence \<noteq> 0 \<and> tr_Sequence tr = pokeSequence) in
      if (case briefing of None \<Rightarrow> False | Some b \<Rightarrow> ob_Flow b = None \<and> \<not> replyEligibleTransition inp tr) then []
      else if (case briefing of None \<Rightarrow> False | Some b \<Rightarrow> ob_Flow b \<noteq> None \<and> kinds = []) then []
      else if tr_JournalKind tr = JournalNone \<and> \<not> poked then []
      else if briefing = None \<and> tr_Reason tr = ReasonRecurrenceMilestone \<and> pi_RecurrenceRepliesOff inp then []
      else replyIntents newSHA1 inp tr poked (if kinds = [] then [ReplyLegacy] else kinds))"

definition planJournalIntents ::
  "(string \<Rightarrow> string) \<Rightarrow> publicationInput \<Rightarrow> int \<Rightarrow> notificationIntent list" where
  "planJournalIntents newSHA1 inp pokeSequence =
     concat (map (journalIntentsFor newSHA1 inp pokeSequence) (pi_Transitions inp))"

section \<open>The plan\<close>

definition refreshIntent :: "(string \<Rightarrow> string) \<Rightarrow> publicationInput \<Rightarrow> transition \<Rightarrow> notificationIntent" where
  "refreshIntent newSHA1 inp p =
     (newIntent newSHA1 inp EffectRootSync p
        (rootSyncKey (si_ID (pi_Situation inp)) (es_Version (pi_Summary inp)) (tr_ID p) (pi_ContractDeadlineAt inp)))
     \<lparr>ni_SummaryVersion := Some (es_Version (pi_Summary inp)), ni_ContractDeadlineAt := pi_ContractDeadlineAt inp\<rparr>"

definition planDeadlineRefresh :: "(string \<Rightarrow> string) \<Rightarrow> publicationInput \<Rightarrow> string + notificationIntent list" where
  "planDeadlineRefresh newSHA1 inp =
     (if \<not> pi_RootPublished inp then Inr []
      else case (pi_ContractDeadlineAt inp, pi_LastDeliveredRootDeadlineAt inp) of
        (Some deadline, Some delivered) \<Rightarrow>
          if tAfter delivered (pi_Now inp) then Inr []
          else if tEqual deadline delivered then Inr []
          else (case pi_PriorTransition inp of
             None \<Rightarrow> Inl ''situation: publication input: a published root requires its authority transition''
           | Some p \<Rightarrow>
               if es_Version (pi_Summary inp) < 1
               then Inl ''situation: publication input: a deadline refresh requires the current episode summary''
               else let refresh = refreshIntent newSHA1 inp p
                    in case NotificationIntent_Validate refresh of
                         Some e \<Rightarrow> Inl (''situation: planned deadline refresh: '' @ e)
                       | None \<Rightarrow> Inr [refresh])
      | _ \<Rightarrow> Inr [])"

definition planRoot :: "(string \<Rightarrow> string) \<Rightarrow> publicationInput \<Rightarrow> transition \<Rightarrow> notificationIntent" where
  "planRoot newSHA1 inp authority =
     (let key = rootSyncKey (si_ID (pi_Situation inp)) (es_Version (pi_Summary inp)) (tr_ID authority)
                  (pi_ContractDeadlineAt inp);
          root = (newIntent newSHA1 inp EffectRootSync authority key)
            \<lparr>ni_SummaryVersion := Some (es_Version (pi_Summary inp)),
             ni_ContractDeadlineAt :=
               (if \<not> Terminal (tr_Lifecycle authority) then pi_ContractDeadlineAt inp else None)\<rparr>;
          priority = DeriveInterruptionPriority authority
      in if pi_RootPublished inp then root
         else root\<lparr>ni_MainChannelPoke := True, ni_InterruptionPriority := Some priority,
                ni_Status := (if \<not> MeetsSlackFloor priority (pi_SlackFloor inp) \<and> \<not> pi_RootPublicationOwed inp
                              then IntentWithheld else IntentPending)\<rparr>)"

definition pokeSequenceOf :: "publicationInput \<Rightarrow> int" where
  "pokeSequenceOf inp =
     (if pi_RootPublished inp then (case selectPoke inp of Some p \<Rightarrow> tr_Sequence p | None \<Rightarrow> 0) else 0)"

definition PlanNotificationIntents :: "(string \<Rightarrow> string) \<Rightarrow> publicationInput \<Rightarrow> string + notificationIntent list" where
  "PlanNotificationIntents newSHA1 inp =
     (case validatePublicationInput inp of
        Some e \<Rightarrow> Inl e
      | None \<Rightarrow>
        if pi_Transitions inp = [] then planDeadlineRefresh newSHA1 inp
        else let authority = last (pi_Transitions inp) in
          if \<not> pi_RootPublished inp \<and> \<not> pi_RootPublicationOwed inp \<and> \<not> PublicationAuthority authority then Inr []
          else let out = planRoot newSHA1 inp authority # planJournalIntents newSHA1 inp (pokeSequenceOf inp)
               in case firstErr (map NotificationIntent_Validate out) of
                    Some e \<Rightarrow> Inl (''situation: planned notification intent: '' @ e)
                  | None \<Rightarrow> Inr out)"

section \<open>The input check\<close>

lemma checkTransitions_iff:
  "checkTransitions sid prev ts = None \<longleftrightarrow>
     (\<forall>t \<in> set ts. tr_SituationID t = sid) \<and>
     sorted_wrt (<) (map tr_Sequence ((case prev of None \<Rightarrow> [] | Some p \<Rightarrow> [p]) @ ts))"
proof (induction ts arbitrary: prev)
  case Nil
  then show ?case by (cases prev) simp_all
next
  case (Cons t ts)
  have "sorted_wrt (<) (map tr_Sequence (p # t # ts)) \<longleftrightarrow>
        tr_Sequence p < tr_Sequence t \<and> sorted_wrt (<) (map tr_Sequence (t # ts))" for p
    by (simp add: sorted_wrt2 transp_on_less del: sorted_wrt.simps)
  then show ?case using Cons [of "Some t"]
    by (cases prev) (auto simp: errWhen_None_iff not_le)
qed

lemma validatePublicationInput_sequences:
  assumes "validatePublicationInput inp = None"
  shows "sorted_wrt (<) (map tr_Sequence (pi_Transitions inp)) \<and>
    (\<forall>t \<in> set (pi_Transitions inp). tr_SituationID t = si_ID (pi_Situation inp))"
  using assms
  by (cases "pi_Transitions inp = []")
     (simp_all add: validatePublicationInput_def checkTransitions_iff del: checkTransitions.simps)

lemma validatePublicationInput_now:
  "validatePublicationInput inp = None \<Longrightarrow> \<not> tIsZero (pi_Now inp) \<and> tutc (pi_Now inp)"
  by (simp add: validatePublicationInput_def errWhen_None_iff)

section \<open>Pokes\<close>

text \<open>The loop keeps the first candidate of the highest priority.\<close>

definition pokeWorse :: "transition \<Rightarrow> transition \<Rightarrow> bool" where
  "pokeWorse b t = InterruptionPriority_Less (DeriveInterruptionPriority b) (DeriveInterruptionPriority t)"

interpretation poke: best_per_key "\<lambda>_ :: transition. ()" pokeWorse
  by unfold_locales (auto simp: pokeWorse_def InterruptionPriority_Less_def)

lemma bestPoke_keepBest:
  "bestPoke inp (map_of m ()) ts =
     map_of (keepBest (\<lambda>_. ()) pokeWorse m (filter (pokeCandidate inp) ts)) ()"
proof (induction ts arbitrary: m)
  case (Cons t ts)
  have "map_of (keepStep (\<lambda>_. ()) pokeWorse m t) () =
    (case map_of m () of None \<Rightarrow> Some t
     | Some b \<Rightarrow> if InterruptionPriority_Less (DeriveInterruptionPriority b) (DeriveInterruptionPriority t)
                 then Some t else Some b)"
    by (auto simp: map_of_keepStep pokeWorse_def split: option.split)
  then show ?case by (simp add: Cons [symmetric])
qed simp

lemma selectPoke_keepBest:
  "selectPoke inp =
     map_of (keepBest (\<lambda>_. ()) pokeWorse [] (filter (pokeCandidate inp) (pi_Transitions inp))) ()"
  using bestPoke_keepBest [of inp "[]"] by (simp add: selectPoke_def)

lemma selectPoke_spec:
  assumes "selectPoke inp = Some t"
  shows "t \<in> set (pi_Transitions inp) \<and> pokeCandidate inp t \<and>
    (\<forall>u \<in> set (pi_Transitions inp). pokeCandidate inp u \<longrightarrow>
       DeriveInterruptionPriority u \<le> DeriveInterruptionPriority t)"
proof -
  note m = assms [unfolded selectPoke_keepBest]
  from poke.keepBest_member [OF m] poke.keepBest_max [OF m] show ?thesis
    by (auto simp: pokeWorse_def not_Less_iff_le)
qed

lemma selectPoke_None_iff:
  "selectPoke inp = None \<longleftrightarrow> (\<forall>u \<in> set (pi_Transitions inp). \<not> pokeCandidate inp u)"
proof -
  have "selectPoke inp = None \<longleftrightarrow>
    () \<notin> dom (map_of (keepBest (\<lambda>_. ()) pokeWorse [] (filter (pokeCandidate inp) (pi_Transitions inp))))"
    by (simp add: selectPoke_keepBest domIff)
  then show ?thesis unfolding poke.keepBest_dom by auto
qed

text \<open>The replies of a Transition: their sequence, their kinds, and the one that pokes.\<close>

lemma newReplyIntent_fields [simp]:
  "ni_MainChannelPoke (newReplyIntent f inp cls tr k) = False"
  "ni_Status (newReplyIntent f inp cls tr k) = IntentPending"
  "ni_ReplyKind (newReplyIntent f inp cls tr k) = k"
  "ni_EffectClass (newReplyIntent f inp cls tr k) = cls"
  "ni_TransitionSequence (newReplyIntent f inp cls tr k) = Some (tr_Sequence tr)"
  "ni_TransitionID (newReplyIntent f inp cls tr k) = Some (tr_ID tr)"
  "ni_InterruptionPriority (newReplyIntent f inp cls tr k) = None"
  by (simp_all add: newReplyIntent_def newIntent_def Let_def)

lemma planRoot_fields [simp]:
  "ni_MainChannelPoke (planRoot f inp tr) = (\<not> pi_RootPublished inp)"
  "ni_EffectClass (planRoot f inp tr) = EffectRootSync"
  "ni_Status (planRoot f inp tr) =
     (if \<not> pi_RootPublished inp \<and> \<not> pi_RootPublicationOwed inp \<and>
         \<not> MeetsSlackFloor (DeriveInterruptionPriority tr) (pi_SlackFloor inp)
      then IntentWithheld else IntentPending)"
  "ni_InterruptionPriority (planRoot f inp tr) =
     (if pi_RootPublished inp then None else Some (DeriveInterruptionPriority tr))"
  "ni_TransitionSequence (planRoot f inp tr) = Some (tr_Sequence tr)"
  by (simp_all add: planRoot_def newIntent_def Let_def)

lemma replyIntents_pokes:
  "length (filter ni_MainChannelPoke (replyIntents f inp tr poked ks)) = (if poked \<and> ks \<noteq> [] then 1 else 0)"
  by (induction f inp tr poked ks rule: replyIntents.induct) (auto simp: pokedReply_def Let_def)

lemma replyIntents_sequence:
  "n \<in> set (replyIntents f inp tr poked ks) \<Longrightarrow> ni_TransitionSequence n = Some (tr_Sequence tr)"
  by (induction f inp tr poked ks rule: replyIntents.induct) (auto simp: pokedReply_def Let_def split: if_splits)

lemma replyIntents_delivered:
  "map ni_ReplyKind (filter (\<lambda>n. ni_Status n \<noteq> IntentWithheld) (replyIntents f inp tr poked ks)) = ks"
  by (induction f inp tr poked ks rule: replyIntents.induct) (auto simp: pokedReply_def Let_def)

lemma replyIntents_status:
  "n \<in> set (replyIntents f inp tr poked ks) \<Longrightarrow>
     ni_EffectClass n \<in> {EffectThreadAppend, EffectBroadcastHandoff} \<and>
     (ni_MainChannelPoke n \<longleftrightarrow> ni_EffectClass n = EffectBroadcastHandoff) \<and>
     (ni_MainChannelPoke n \<longrightarrow> ni_InterruptionPriority n = Some (DeriveInterruptionPriority tr)) \<and>
     ni_Status n = (if ni_MainChannelPoke n \<and>
       \<not> MeetsSlackFloor (DeriveInterruptionPriority tr) (pi_SlackFloor inp) then IntentWithheld else IntentPending)"
  by (induction f inp tr poked ks rule: replyIntents.induct) (auto simp: pokedReply_def Let_def split: if_splits)

text \<open>The replies a Transition is owed, without the effects that carry them.\<close>

definition owedReplies :: "publicationInput \<Rightarrow> int \<Rightarrow> transition \<Rightarrow> notificationReplyKind list" where
  "owedReplies inp pokeSequence tr =
     (let kinds = canonicalReplyKinds inp tr; briefing = pf_Briefing (tr_Projection tr) in
      if (case briefing of None \<Rightarrow> False | Some b \<Rightarrow> ob_Flow b = None \<and> \<not> replyEligibleTransition inp tr) \<or>
         (case briefing of None \<Rightarrow> False | Some b \<Rightarrow> ob_Flow b \<noteq> None \<and> kinds = []) \<or>
         tr_JournalKind tr = JournalNone \<and> \<not> (pokeSequence \<noteq> 0 \<and> tr_Sequence tr = pokeSequence) \<or>
         briefing = None \<and> tr_Reason tr = ReasonRecurrenceMilestone \<and> pi_RecurrenceRepliesOff inp
      then [] else if kinds = [] then [ReplyLegacy] else kinds)"

lemma journalIntentsFor_owed:
  "journalIntentsFor f inp ps tr =
     replyIntents f inp tr (ps \<noteq> 0 \<and> tr_Sequence tr = ps) (owedReplies inp ps tr)"
  by (auto simp: journalIntentsFor_def owedReplies_def Let_def)

lemma planJournalIntents_pokes:
  assumes "sorted_wrt (<) (map tr_Sequence (pi_Transitions inp))"
  shows "length (filter ni_MainChannelPoke (planJournalIntents f inp ps)) \<le> (if ps = 0 then 0 else 1)"
proof -
  have "length (filter ni_MainChannelPoke (concat (map (journalIntentsFor f inp ps) ts))) \<le>
        (if ps = 0 then 0 else length (filter (\<lambda>t. tr_Sequence t = ps) ts))" for ts
    by (induction ts) (auto simp: journalIntentsFor_owed replyIntents_pokes)
  moreover have "length (filter (\<lambda>t. tr_Sequence t = ps) ts) \<le> 1"
    if "sorted_wrt (<) (map tr_Sequence ts)" for ts
    using that by (induction ts) (auto simp: filter_empty_conv)
  note both = this calculation
  show ?thesis
    using both(1) [OF assms] both(2) [of "pi_Transitions inp"] unfolding planJournalIntents_def
    by (simp split: if_splits)
qed

section \<open>The plan of a commit\<close>

lemma PlanNotificationIntents_Inr:
  assumes "PlanNotificationIntents f inp = Inr out" and "pi_Transitions inp \<noteq> []"
  shows "validatePublicationInput inp = None \<and>
    (out = [] \<and> \<not> pi_RootPublished inp \<and> \<not> pi_RootPublicationOwed inp \<and>
       \<not> PublicationAuthority (last (pi_Transitions inp)) \<or>
     out = planRoot f inp (last (pi_Transitions inp)) # planJournalIntents f inp (pokeSequenceOf inp) \<and>
       list_all intentWellFormed out)"
proof (cases "validatePublicationInput inp")
  case (Some e)
  with assms show ?thesis by (simp add: PlanNotificationIntents_def)
next
  case valid: None
  let ?out = "planRoot f inp (last (pi_Transitions inp)) # planJournalIntents f inp (pokeSequenceOf inp)"
  show ?thesis
  proof (cases "\<not> pi_RootPublished inp \<and> \<not> pi_RootPublicationOwed inp \<and>
      \<not> PublicationAuthority (last (pi_Transitions inp))")
    case True
    with valid assms show ?thesis by (simp add: PlanNotificationIntents_def Let_def)
  next
    case False
    with valid assms have "(case firstErr (map NotificationIntent_Validate ?out) of
        Some e \<Rightarrow> Inl (''situation: planned notification intent: '' @ e) | None \<Rightarrow> Inr ?out) = Inr out"
      unfolding PlanNotificationIntents_def Let_def by (simp only: option.case if_False)
    then have "out = ?out \<and> firstErr (map NotificationIntent_Validate ?out) = None"
      by (cases "firstErr (map NotificationIntent_Validate ?out)") (simp_all only: option.case sum.inject sum.distinct)
    with valid show ?thesis by (metis intentValidator.validate_list_iff)
  qed
qed

lemma PlanNotificationIntents_one_poke:
  assumes "PlanNotificationIntents f inp = Inr out" and "pi_Transitions inp \<noteq> []"
  shows "length (filter ni_MainChannelPoke out) \<le> 1"
proof -
  note plan = PlanNotificationIntents_Inr [OF assms]
  then have "length (filter ni_MainChannelPoke (planJournalIntents f inp (pokeSequenceOf inp))) \<le>
      (if pokeSequenceOf inp = 0 then 0 else 1)"
    using planJournalIntents_pokes validatePublicationInput_sequences by blast
  moreover have "pokeSequenceOf inp = 0" if "\<not> pi_RootPublished inp"
    using that by (simp add: pokeSequenceOf_def)
  ultimately show ?thesis using plan by (auto split: if_splits)
qed

lemma planJournalIntents_member:
  "n \<in> set (planJournalIntents f inp ps) \<Longrightarrow>
     \<exists>tr \<in> set (pi_Transitions inp). n \<in> set (replyIntents f inp tr (ps \<noteq> 0 \<and> tr_Sequence tr = ps) (owedReplies inp ps tr))"
  by (auto simp: planJournalIntents_def journalIntentsFor_owed)

lemma PlanNotificationIntents_withheld:
  assumes "PlanNotificationIntents f inp = Inr out" and "pi_Transitions inp \<noteq> []" and "n \<in> set out"
  shows "ni_Status n =
    (if ni_MainChannelPoke n \<and>
        \<not> MeetsSlackFloor (the (ni_InterruptionPriority n)) (pi_SlackFloor inp) \<and>
        \<not> (ni_EffectClass n = EffectRootSync \<and> pi_RootPublicationOwed inp)
     then IntentWithheld else IntentPending)"
proof -
  from PlanNotificationIntents_Inr [OF assms(1,2)] assms(3)
  consider "n = planRoot f inp (last (pi_Transitions inp))"
    | "n \<in> set (planJournalIntents f inp (pokeSequenceOf inp))" by auto
  then show ?thesis
  proof cases
    case 1
    then show ?thesis by simp
  next
    case 2
    from planJournalIntents_member [OF this] obtain tr where
      "n \<in> set (replyIntents f inp tr (pokeSequenceOf inp \<noteq> 0 \<and> tr_Sequence tr = pokeSequenceOf inp)
         (owedReplies inp (pokeSequenceOf inp) tr))" by blast
    from replyIntents_status [OF this] show ?thesis by auto
  qed
qed

section \<open>Planning succeeds\<close>

lemma cutValid_ascii_head: "byte c < 0x80 \<Longrightarrow> \<exists>r. cutValid (c # w) = c # r"
proof (induction w rule: rev_induct)
  case Nil
  then show ?case
    by (simp add: cutValid.simps [of "[c]"] utf8Valid.simps [of "[c]"] utf8Valid.simps [of "[]"]
        utf8Step.simps)
next
  case (snoc x xs)
  then show ?case by (cases "utf8Valid (c # xs @ [x])") (simp_all add: cutValid.simps [of "c # xs @ [x]"])
qed

lemma boundedText_length: "length (boundedText s limit) \<le> limit"
  using cutValid_length [of "take limit s"] by (auto simp: boundedText_def)

lemma boundedText_boundedID:
  assumes "byte c < 0x80" and "\<not> asciiSpace c"
  shows "boundedID (boundedText (c # s) maxHistoryIdentifier)"
proof -
  obtain r where "cutValid (c # take 199 s) = c # r" using cutValid_ascii_head [OF assms(1)] by blast
  then have "\<exists>r. boundedText (c # s) maxHistoryIdentifier = c # r"
    by (auto simp: boundedText_def maxHistoryIdentifier_def take_Cons')
  then show ?thesis
    using not_blank_ascii [OF assms] boundedText_length [of "c # s" maxHistoryIdentifier]
    by (auto simp: boundedID_def maxHistoryIdentifier_def maxIdentifierLength_def)
qed

lemma rootSyncKey_boundedID: "boundedID (rootSyncKey sid v tid d)"
  unfolding rootSyncKey_def Let_def append_Cons
  by (rule boundedText_boundedID) (simp_all add: byte_def asciiSpace_def)

lemma threadKey_head:
  assumes "cls \<in> {EffectThreadAppend, EffectBroadcastHandoff}"
  obtains c r where "threadKey cls sid n = c # r" "byte c < 0x80" "\<not> asciiSpace c"
proof -
  from assms obtain c r where c: "effectClassText cls @ '':'' @ sid @ '':'' @ itoa n = c # r" "byte c < 0x80" "\<not> asciiSpace c"
    by (auto simp: effectClassText_def byte_def asciiSpace_def)
  then have "\<exists>q. threadKey cls sid n = c # q"
    using cutValid_ascii_head [of c "take 199 r"]
    by (auto simp: threadKey_def boundedText_def maxHistoryIdentifier_def take_Cons')
  with c that show ?thesis by blast
qed

definition replyKey :: "effectClass \<Rightarrow> string \<Rightarrow> int \<Rightarrow> notificationReplyKind \<Rightarrow> string" where
  "replyKey cls sid n kind =
     (if kind \<noteq> ReplyLegacy
      then boundedText (threadKey cls sid n @ '':'' @ replyKindText kind) maxHistoryIdentifier
      else threadKey cls sid n)"

lemma newReplyIntent_replyKey:
  "newReplyIntent f inp cls tr kind =
     (newIntent f inp cls tr (replyKey cls (si_ID (pi_Situation inp)) (tr_Sequence tr) kind))\<lparr>ni_ReplyKind := kind\<rparr>"
  by (simp add: newReplyIntent_def replyKey_def Let_def)

lemma replyKey_boundedID:
  assumes "cls \<in> {EffectThreadAppend, EffectBroadcastHandoff}"
  shows "boundedID (replyKey cls sid n kind)"
proof -
  obtain c r where c: "threadKey cls sid n = c # r" "byte c < 0x80" "\<not> asciiSpace c"
    using threadKey_head [OF assms] by blast
  show ?thesis
  proof (cases "kind = ReplyLegacy")
    case True
    then show ?thesis
      using c not_blank_ascii [of c r] boundedText_length [of "effectClassText cls @ '':'' @ sid @ '':'' @ itoa n" 200]
      by (simp add: replyKey_def boundedID_def threadKey_def maxHistoryIdentifier_def maxIdentifierLength_def)
  next
    case False
    then show ?thesis using c boundedText_boundedID by (simp add: replyKey_def)
  qed
qed

text \<open>What planning relies on: identifiers within their bound, and the UUID function.\<close>

definition planReady :: "(string \<Rightarrow> string) \<Rightarrow> publicationInput \<Rightarrow> bool" where
  "planReady f inp \<longleftrightarrow> (\<forall>k. boundedID (f k)) \<and> boundedID (si_ID (pi_Situation inp)) \<and>
     \<not> tIsZero (pi_Now inp) \<and> tutc (pi_Now inp) \<and> pred_option tutc (pi_ContractDeadlineAt inp)"

lemmas intent_defs = intentWellFormed_def newIntent_def boundedRefs_def intentRefsOk_def intentIdentity_def
  EffectClass_Validate_def NotificationReplyKind_Validate_def IntentStatus_Validate_def validateEnum_None_iff

lemma planRoot_wellFormed:
  assumes "planReady f inp" and "boundedID (tr_ID tr)"
  shows "intentWellFormed (planRoot f inp tr)"
  using assms DeriveInterruptionPriority_valid [of tr] rootSyncKey_boundedID
  by (simp add: planRoot_def Let_def intent_defs planReady_def)

lemma newReplyIntent_wellFormed:
  assumes "planReady f inp" and "boundedID (tr_ID tr)" and "cls \<in> {EffectThreadAppend, EffectBroadcastHandoff}"
    and "NotificationReplyKind_Validate k = None"
  shows "intentWellFormed (newReplyIntent f inp cls tr k)"
  using assms replyKey_boundedID [OF assms(3)]
  by (auto simp: newReplyIntent_replyKey intent_defs planReady_def)

lemma intentWellFormed_poke:
  "intentWellFormed n \<Longrightarrow> InterruptionPriority_Validate p = None \<Longrightarrow>
     intentWellFormed (n\<lparr>ni_MainChannelPoke := m, ni_InterruptionPriority := Some p\<rparr>)"
  by (simp add: intentWellFormed_def boundedRefs_def intentRefsOk_def)

lemma intentWellFormed_withheld:
  "intentWellFormed n \<Longrightarrow> intentWellFormed (n\<lparr>ni_Status := IntentWithheld\<rparr>)"
  by (simp add: intentWellFormed_def boundedRefs_def intentRefsOk_def IntentStatus_Validate_def
      validateEnum_None_iff)

lemma replyIntents_wellFormed:
  assumes "planReady f inp" and "boundedID (tr_ID tr)" and "list_all (\<lambda>k. NotificationReplyKind_Validate k = None) ks"
  shows "list_all intentWellFormed (replyIntents f inp tr poked ks)"
  using assms
proof (induction f inp tr poked ks rule: replyIntents.induct)
  case (2 f inp tr poked k)
  then show ?case
    by (auto simp: pokedReply_def Let_def DeriveInterruptionPriority_valid
        intro!: newReplyIntent_wellFormed intentWellFormed_poke intentWellFormed_withheld)
next
  case (3 f inp tr poked k k' ks)
  then show ?case by (auto intro!: newReplyIntent_wellFormed)
qed simp

lemma canonicalReplyKinds_valid:
  "k \<in> set (canonicalReplyKinds inp tr) \<Longrightarrow> NotificationReplyKind_Validate k = None"
  by (auto simp: canonicalReplyKinds_def Let_def onlyIf_def NotificationReplyKind_Validate_def
      validateEnum_None_iff split: option.splits if_splits)

lemma owedReplies_cases:
  "owedReplies inp ps tr = [] \<or> owedReplies inp ps tr = [ReplyLegacy] \<or>
   owedReplies inp ps tr = canonicalReplyKinds inp tr"
  by (simp add: owedReplies_def Let_def)

lemma ReplyLegacy_valid: "NotificationReplyKind_Validate ReplyLegacy = None"
  by (simp add: NotificationReplyKind_Validate_def validateEnum_None_iff)

lemma owedReplies_valid:
  "list_all (\<lambda>k. NotificationReplyKind_Validate k = None) (owedReplies inp ps tr)"
  using owedReplies_cases [of inp ps tr] ReplyLegacy_valid canonicalReplyKinds_valid
  unfolding list_all_iff by fastforce

lemma planJournalIntents_wellFormed:
  assumes "planReady f inp" and "\<forall>tr \<in> set (pi_Transitions inp). boundedID (tr_ID tr)"
  shows "list_all intentWellFormed (planJournalIntents f inp ps)"
  using replyIntents_wellFormed [OF assms(1) _ owedReplies_valid] assms(2) planJournalIntents_member
  unfolding list_all_iff by meson

lemma Transition_Validate_boundedID: "Transition_Validate t = None \<Longrightarrow> boundedID (tr_ID t)"
  by (simp add: Transition_Validate_def errWhen_None_iff boundedID_def not_less)

lemma PlanNotificationIntents_succeeds:
  assumes "validatePublicationInput inp = None" and "pi_Transitions inp \<noteq> []" and "planReady f inp"
    and "\<forall>tr \<in> set (pi_Transitions inp). Transition_Validate tr = None"
    and "pi_RootPublished inp \<or> pi_RootPublicationOwed inp \<or> PublicationAuthority (last (pi_Transitions inp))"
  shows "PlanNotificationIntents f inp =
    Inr (planRoot f inp (last (pi_Transitions inp)) # planJournalIntents f inp (pokeSequenceOf inp))"
proof -
  let ?out = "planRoot f inp (last (pi_Transitions inp)) # planJournalIntents f inp (pokeSequenceOf inp)"
  have ids: "\<forall>tr \<in> set (pi_Transitions inp). boundedID (tr_ID tr)"
    using assms(4) Transition_Validate_boundedID by blast
  have "list_all intentWellFormed ?out"
    using planJournalIntents_wellFormed [OF assms(3) ids] planRoot_wellFormed [OF assms(3)] ids assms(2)
    by simp
  then have ok: "firstErr (map NotificationIntent_Validate ?out) = None"
    by (simp only: intentValidator.validate_list_iff)
  have "\<not> (\<not> pi_RootPublished inp \<and> \<not> pi_RootPublicationOwed inp \<and>
      \<not> PublicationAuthority (last (pi_Transitions inp)))" using assms(5) by blast
  then show ?thesis
    unfolding PlanNotificationIntents_def Let_def assms(1) option.case using ok assms(2)
    by (simp only: if_False option.case)
qed

section \<open>Order and uniqueness of the replies\<close>

lemma owedReplies_distinct: "distinct (owedReplies inp ps tr)"
proof -
  have "distinct (canonicalReplyKinds inp tr)"
    by (simp add: canonicalReplyKinds_def Let_def onlyIf_def split: option.split)
  with owedReplies_cases [of inp ps tr] show ?thesis by auto
qed

text \<open>A delivered reply is identified by its Transition's sequence and its kind.\<close>

definition replyIdentity :: "notificationIntent \<Rightarrow> int \<times> notificationReplyKind" where
  "replyIdentity n = (the (ni_TransitionSequence n), ni_ReplyKind n)"

lemma replyIntents_identities:
  "map replyIdentity (filter (\<lambda>n. ni_Status n \<noteq> IntentWithheld) (replyIntents f inp tr poked ks)) =
     map (Pair (tr_Sequence tr)) ks"
  by (induction f inp tr poked ks rule: replyIntents.induct) (auto simp: pokedReply_def Let_def replyIdentity_def)

lemma planJournalIntents_identities:
  "map replyIdentity (filter (\<lambda>n. ni_Status n \<noteq> IntentWithheld) (planJournalIntents f inp ps)) =
     concat (map (\<lambda>tr. map (Pair (tr_Sequence tr)) (owedReplies inp ps tr)) (pi_Transitions inp))"
  by (simp add: planJournalIntents_def filter_concat map_concat comp_def journalIntentsFor_owed
      replyIntents_identities)

lemma replyIdentities_distinct:
  assumes "sorted_wrt (<) (map tr_Sequence ts)"
  shows "distinct (concat (map (\<lambda>tr. map (Pair (tr_Sequence tr)) (owedReplies inp ps tr)) ts))"
  using assms
proof (induction ts)
  case (Cons t ts)
  then have "\<forall>u \<in> set ts. tr_Sequence t < tr_Sequence u" by simp
  with Cons show ?case by (fastforce simp: distinct_map inj_on_def owedReplies_distinct)
qed simp

lemma replyIdentities_sorted:
  assumes "sorted_wrt (<) (map tr_Sequence ts)"
  shows "sorted (map fst (concat (map (\<lambda>tr. map (Pair (tr_Sequence tr)) (owedReplies inp ps tr)) ts)))"
  using assms
proof (induction ts)
  case (Cons t ts)
  then have "\<forall>u \<in> set ts. tr_Sequence t < tr_Sequence u" by simp
  with Cons show ?case by (auto simp: sorted_append comp_def map_replicate_const)
qed simp

text \<open>A withheld broadcast leaves its quiet thread entry.\<close>

lemma replyIntents_withheld_twin:
  "n \<in> set (replyIntents f inp tr poked ks) \<Longrightarrow> ni_Status n = IntentWithheld \<Longrightarrow>
     \<exists>m \<in> set (replyIntents f inp tr poked ks). ni_EffectClass m = EffectThreadAppend \<and>
       ni_Status m = IntentPending \<and> replyIdentity m = replyIdentity n"
  by (induction f inp tr poked ks rule: replyIntents.induct)
     (auto simp: pokedReply_def Let_def replyIdentity_def split: if_splits)

lemma PlanNotificationIntents_withheld_twin:
  assumes "PlanNotificationIntents f inp = Inr out" and "pi_Transitions inp \<noteq> []" and "n \<in> set out"
    and "ni_Status n = IntentWithheld" and "ni_EffectClass n = EffectBroadcastHandoff"
  shows "\<exists>m \<in> set out. ni_EffectClass m = EffectThreadAppend \<and> ni_Status m = IntentPending \<and>
    replyIdentity m = replyIdentity n"
proof -
  let ?ps = "pokeSequenceOf inp"
  from PlanNotificationIntents_Inr [OF assms(1,2)] assms(3,5)
  have out: "out = planRoot f inp (last (pi_Transitions inp)) # planJournalIntents f inp ?ps"
    and n: "n \<in> set (planJournalIntents f inp ?ps)" by auto
  then obtain tr where tr: "tr \<in> set (pi_Transitions inp)"
      "n \<in> set (replyIntents f inp tr (?ps \<noteq> 0 \<and> tr_Sequence tr = ?ps) (owedReplies inp ?ps tr))"
    using planJournalIntents_member by blast
  from replyIntents_withheld_twin [OF tr(2) assms(4)] obtain m where
    m: "m \<in> set (replyIntents f inp tr (?ps \<noteq> 0 \<and> tr_Sequence tr = ?ps) (owedReplies inp ?ps tr))"
       "ni_EffectClass m = EffectThreadAppend" "ni_Status m = IntentPending" "replyIdentity m = replyIdentity n"
    by blast
  from m(1) tr(1) have "m \<in> set out" unfolding out planJournalIntents_def journalIntentsFor_owed by auto
  with m show ?thesis by blast
qed

section \<open>Idempotency keys\<close>

lemma posDigits_digits: "0 \<le> n \<Longrightarrow> CHR '':'' \<notin> set (posDigits n)"
proof (induction n rule: posDigits.induct)
  case (1 n)
  have "CHR '':'' \<noteq> digitChar d" if "0 \<le> d" "d < 10" for d
  proof
    assume "CHR '':'' = digitChar d"
    then have "(of_char (CHR '':'') :: int) = 48 + d" using of_digitChar [OF that] by simp
    with that show False by simp
  qed
  with 1 show ?case by (cases "n < 10") (simp_all add: posDigits.simps [of n])
qed

lemma posDigits_length: "0 \<le> n \<Longrightarrow> n < 10 ^ Suc k \<Longrightarrow> length (posDigits n) \<le> Suc k"
proof (induction k arbitrary: n)
  case 0
  then show ?case by (simp add: posDigits.simps [of n])
next
  case (Suc k)
  show ?case
  proof (cases "n < 10")
    case True
    then show ?thesis by (simp add: posDigits.simps [of n])
  next
    case False
    have "n div 10 < 10 ^ Suc k" using Suc.prems(2) by simp
    with Suc False have "length (posDigits (n div 10)) \<le> Suc k" by simp
    with False show ?thesis by (simp add: posDigits.simps [of n])
  qed
qed

lemma itoa_length: "0 \<le> n \<Longrightarrow> n \<le> maxInt64 \<Longrightarrow> length (itoa n) \<le> 19"
  using posDigits_length [of n 18] by (simp add: itoa_def maxInt64_def)

definition replySuffix :: "notificationReplyKind \<Rightarrow> string" where
  "replySuffix k = (if k = ReplyLegacy then [] else CHR '':'' # replyKindText k)"

definition replyEffects :: "effectClass set" where
  "replyEffects = {EffectThreadAppend, EffectBroadcastHandoff}"

lemma replySuffix_inj:
  assumes "NotificationReplyKind_Validate k = None" and "NotificationReplyKind_Validate l = None"
    and "replySuffix k = replySuffix l"
  shows "k = l"
  using assms
  by (cases k; cases l)
     (simp_all add: NotificationReplyKind_Validate_def validateEnum_None_iff replySuffix_def replyKindText_def)

lemma replyKey_text:
  assumes "cls \<in> replyEffects" and "length sid \<le> 100" and "0 \<le> n" and "n \<le> maxInt64"
    and "NotificationReplyKind_Validate k = None"
  shows "replyKey cls sid n k = effectClassText cls @ '':'' @ sid @ '':'' @ itoa n @ replySuffix k"
proof -
  have c: "length (effectClassText cls) \<le> 17"
    using assms(1) by (auto simp: replyEffects_def effectClassText_def)
  have k: "length (replyKindText k) \<le> 21"
    using assms(5) by (cases k) (simp_all add: NotificationReplyKind_Validate_def validateEnum_None_iff replyKindText_def)
  have i: "length (itoa n) \<le> 19" using itoa_length assms by blast
  have t: "threadKey cls sid n = effectClassText cls @ '':'' @ sid @ '':'' @ itoa n"
    using c i assms(2) by (simp add: threadKey_def boundedText_def maxHistoryIdentifier_def)
  show ?thesis
    using c i k assms(2)
    by (simp add: replyKey_def t replySuffix_def boundedText_def maxHistoryIdentifier_def)
qed

lemma takeWhile_digits:
  "0 \<le> n \<Longrightarrow> takeWhile (\<lambda>c. c \<noteq> CHR '':'') (itoa n @ replySuffix k) = itoa n"
  using posDigits_digits [of n]
  by (subst takeWhile_append2) (auto simp: itoa_def replySuffix_def)

lemma replyKey_inj:
  assumes "cls \<in> replyEffects" "dls \<in> replyEffects" and "length sid \<le> 100"
    and "0 \<le> m" "m \<le> maxInt64" "0 \<le> n" "n \<le> maxInt64"
    and "NotificationReplyKind_Validate k = None" "NotificationReplyKind_Validate l = None"
    and "replyKey cls sid m k = replyKey dls sid n l"
  shows "cls = dls \<and> m = n \<and> k = l"
proof -
  have eq: "effectClassText cls @ '':'' @ sid @ '':'' @ itoa m @ replySuffix k =
            effectClassText dls @ '':'' @ sid @ '':'' @ itoa n @ replySuffix l"
    using assms replyKey_text by simp
  have cls: "cls = dls"
    using assms(1,2) eq by (auto simp: replyEffects_def effectClassText_def)
  with eq have tail: "itoa m @ replySuffix k = itoa n @ replySuffix l" by simp
  then have "itoa m = itoa n"
    using takeWhile_digits assms(4,6) by metis
  then have "m = n" by (rule itoa_inj)
  with tail have "replySuffix k = replySuffix l" by simp
  with assms(8,9) have "k = l" by (rule replySuffix_inj)
  with cls \<open>m = n\<close> show ?thesis by simp
qed

definition replyTriple :: "notificationIntent \<Rightarrow> effectClass \<times> int \<times> notificationReplyKind" where
  "replyTriple n = (ni_EffectClass n, replyIdentity n)"

lemma replyIntents_triple:
  "n \<in> set (replyIntents f inp tr poked ks) \<Longrightarrow>
     ni_EffectClass n \<in> replyEffects \<and> fst (replyIdentity n) = tr_Sequence tr \<and> ni_ReplyKind n \<in> set ks \<and>
     ni_IdempotencyKey n = replyKey (ni_EffectClass n) (si_ID (pi_Situation inp)) (tr_Sequence tr) (ni_ReplyKind n)"
  by (induction f inp tr poked ks rule: replyIntents.induct)
     (auto simp: pokedReply_def Let_def replyIdentity_def replyEffects_def newReplyIntent_replyKey newIntent_def
       split: if_splits)

lemma replyIntents_distinct:
  "distinct ks \<Longrightarrow> distinct (map replyTriple (replyIntents f inp tr poked ks))"
proof (induction f inp tr poked ks rule: replyIntents.induct)
  case (3 f inp tr poked k k' ks)
  then have "k \<notin> ni_ReplyKind ` set (replyIntents f inp tr poked (k' # ks))"
    using replyIntents_triple by fastforce
  with 3 show ?case by (force simp: replyTriple_def replyIdentity_def)
qed (simp_all add: pokedReply_def Let_def replyTriple_def)

lemma planJournalIntents_triples_distinct:
  assumes "sorted_wrt (<) (map tr_Sequence (pi_Transitions inp))"
  shows "distinct (map replyTriple (planJournalIntents f inp ps))"
proof -
  have "distinct (map replyTriple (concat (map (journalIntentsFor f inp ps) ts)))"
    if "sorted_wrt (<) (map tr_Sequence ts)" for ts
    using that
  proof (induction ts)
    case (Cons t ts)
    have seq: "fst (snd (replyTriple n)) = tr_Sequence u" if "n \<in> set (journalIntentsFor f inp ps u)" for n u
      using that replyIntents_triple by (fastforce simp: journalIntentsFor_owed replyTriple_def)
    have less: "\<forall>u \<in> set ts. tr_Sequence t < tr_Sequence u" using Cons.prems by simp
    have "replyTriple m \<noteq> replyTriple n"
      if "m \<in> set (journalIntentsFor f inp ps t)" "u \<in> set ts" "n \<in> set (journalIntentsFor f inp ps u)" for m n u
      using seq [OF that(1)] seq [OF that(3)] less that(2) by (metis less_irrefl)
    then have "replyTriple ` set (journalIntentsFor f inp ps t) \<inter>
        replyTriple ` set (concat (map (journalIntentsFor f inp ps) ts)) = {}" by (auto, metis)
    with Cons show ?case
      by (simp add: journalIntentsFor_owed replyIntents_distinct owedReplies_distinct)
  qed simp
  with assms show ?thesis by (simp add: planJournalIntents_def)
qed

lemma distinct_map_by:
  assumes "distinct (map f xs)" and "\<And>x y. x \<in> set xs \<Longrightarrow> y \<in> set xs \<Longrightarrow> g x = g y \<Longrightarrow> f x = f y"
  shows "distinct (map g xs)"
proof -
  from assms(1) have "distinct xs" and inj: "inj_on f (set xs)" by (simp_all add: distinct_map)
  moreover have "inj_on g (set xs)" by (rule inj_onI) (use assms(2) inj in \<open>blast dest: inj_onD\<close>)
  ultimately show ?thesis by (simp add: distinct_map)
qed

lemma planJournalIntents_keys_distinct:
  assumes seq: "sorted_wrt (<) (map tr_Sequence (pi_Transitions inp))"
    and range: "\<forall>tr \<in> set (pi_Transitions inp). 0 \<le> tr_Sequence tr \<and> tr_Sequence tr \<le> maxInt64"
    and sid: "length (si_ID (pi_Situation inp)) \<le> 100"
  shows "distinct (map ni_IdempotencyKey (planJournalIntents f inp ps))"
proof (rule distinct_map_by [OF planJournalIntents_triples_distinct [OF seq]])
  have info: "ni_EffectClass n \<in> replyEffects \<and> 0 \<le> fst (replyIdentity n) \<and> fst (replyIdentity n) \<le> maxInt64 \<and>
      NotificationReplyKind_Validate (ni_ReplyKind n) = None \<and>
      ni_IdempotencyKey n = replyKey (ni_EffectClass n) (si_ID (pi_Situation inp)) (fst (replyIdentity n)) (ni_ReplyKind n)"
    if "n \<in> set (planJournalIntents f inp ps)" for n
    using planJournalIntents_member [OF that] replyIntents_triple range owedReplies_valid
    unfolding list_all_iff by metis
  fix x y
  assume "x \<in> set (planJournalIntents f inp ps)" "y \<in> set (planJournalIntents f inp ps)"
    "ni_IdempotencyKey x = ni_IdempotencyKey y"
  with info [of x] info [of y] replyKey_inj [OF _ _ sid] show "replyTriple x = replyTriple y"
    by (metis replyTriple_def replyIdentity_def fst_conv)
qed

lemma rootSyncKey_head: "\<exists>r. rootSyncKey sid v tid d = CHR ''r'' # r"
proof -
  have "\<exists>r. cutValid (CHR ''r'' # w) = CHR ''r'' # r" for w
    by (rule cutValid_ascii_head) (simp add: byte_def)
  then show ?thesis
    by (auto simp: rootSyncKey_def Let_def boundedText_def maxHistoryIdentifier_def take_Cons')
qed

lemma PlanNotificationIntents_keys:
  assumes "PlanNotificationIntents f inp = Inr out" and "pi_Transitions inp \<noteq> []"
    and range: "\<forall>tr \<in> set (pi_Transitions inp). 0 \<le> tr_Sequence tr \<and> tr_Sequence tr \<le> maxInt64"
    and sid: "length (si_ID (pi_Situation inp)) \<le> 100"
  shows "distinct (map ni_IdempotencyKey out)"
proof -
  let ?js = "planJournalIntents f inp (pokeSequenceOf inp)"
  note plan = PlanNotificationIntents_Inr [OF assms(1,2)]
  then have seq: "sorted_wrt (<) (map tr_Sequence (pi_Transitions inp))"
    using validatePublicationInput_sequences by blast
  have "ni_IdempotencyKey n \<noteq> ni_IdempotencyKey (planRoot f inp (last (pi_Transitions inp)))"
    if n: "n \<in> set ?js" for n
  proof -
    obtain tr where tr: "tr \<in> set (pi_Transitions inp)"
        "n \<in> set (replyIntents f inp tr (pokeSequenceOf inp \<noteq> 0 \<and> tr_Sequence tr = pokeSequenceOf inp)
           (owedReplies inp (pokeSequenceOf inp) tr))"
      using planJournalIntents_member [OF n] by blast
    then have "ni_IdempotencyKey n = effectClassText (ni_EffectClass n) @ '':'' @ si_ID (pi_Situation inp) @ '':'' @
        itoa (tr_Sequence tr) @ replySuffix (ni_ReplyKind n)" "ni_EffectClass n \<in> replyEffects"
      using replyIntents_triple [OF tr(2)] owedReplies_valid replyKey_text [OF _ sid] range
      unfolding list_all_iff by metis+
    moreover obtain r where "ni_IdempotencyKey (planRoot f inp (last (pi_Transitions inp))) = CHR ''r'' # r"
      using rootSyncKey_head by (fastforce simp: planRoot_def newIntent_def Let_def)
    ultimately show ?thesis by (auto simp: replyEffects_def effectClassText_def)
  qed
  then show ?thesis using plan planJournalIntents_keys_distinct [OF seq range sid] by fastforce
qed

section \<open>The deadline refresh\<close>

lemma refreshIntent_fields [simp]:
  "ni_EffectClass (refreshIntent f inp p) = EffectRootSync" "\<not> ni_MainChannelPoke (refreshIntent f inp p)"
  "ni_Status (refreshIntent f inp p) = IntentPending"
  "ni_ContractDeadlineAt (refreshIntent f inp p) = pi_ContractDeadlineAt inp"
  by (simp_all add: refreshIntent_def newIntent_def)

lemma planDeadlineRefresh_shape:
  assumes "planDeadlineRefresh f inp = Inr out" and "out \<noteq> []"
  shows "\<exists>p d e. out = [refreshIntent f inp p] \<and> pi_PriorTransition inp = Some p \<and> pi_RootPublished inp \<and>
    pi_ContractDeadlineAt inp = Some d \<and> pi_LastDeliveredRootDeadlineAt inp = Some e \<and>
    \<not> tAfter e (pi_Now inp) \<and> \<not> tEqual d e"
proof -
  have pub: "pi_RootPublished inp"
    using assms by (cases "pi_RootPublished inp") (simp_all add: planDeadlineRefresh_def)
  moreover obtain d where d: "pi_ContractDeadlineAt inp = Some d"
    using assms pub by (cases "pi_ContractDeadlineAt inp") (auto simp: planDeadlineRefresh_def)
  moreover obtain e where e: "pi_LastDeliveredRootDeadlineAt inp = Some e"
    using assms pub d by (cases "pi_LastDeliveredRootDeadlineAt inp") (auto simp: planDeadlineRefresh_def)
  moreover have t: "\<not> tAfter e (pi_Now inp)" "\<not> tEqual d e"
    using assms pub d e by (auto simp: planDeadlineRefresh_def split: if_splits)
  moreover obtain p where p: "pi_PriorTransition inp = Some p"
    using assms pub d e t by (cases "pi_PriorTransition inp") (auto simp: planDeadlineRefresh_def)
  moreover have "out = [refreshIntent f inp p]"
    using assms pub d e t p
    by (cases "NotificationIntent_Validate (refreshIntent f inp p)")
       (auto simp: planDeadlineRefresh_def Let_def split: if_splits)
  ultimately show ?thesis by blast
qed

end
