(* ===== verification/Snapshot.thy ===== *)
theory Snapshot
  imports Expected_Behavior_Model Source_Lifecycle Notification_Plan
begin

text \<open>
  \<^verbatim>\<open>internal/situation\<close>: the input of one reconciliation (\<^verbatim>\<open>snapshot.go\<close>, \<^verbatim>\<open>preparation.go\<close>) and
  its reduction, the Snapshot; the projection of prepared observations onto it
  (\<^verbatim>\<open>observation_projection.go\<close>, \<^verbatim>\<open>observation_evidence.go\<close>).
\<close>

section \<open>The reconciliation input\<close>

record presentationFacts =
  prf_InvestigationStartedAt :: "gtime option"
  prf_InvestigationCompletedAt :: "gtime option"
  prf_InvestigationRuntimeSeconds :: "int option"
  prf_AnalysisUsage :: analysisUsage
  prf_SourceChecks :: "sourceCheck list"

record controllerParkedState =
  cps_At :: "gtime option"
  cps_Reason :: string
  cps_MaterialFactHash :: string

record triageCompletionEvidence =
  tce_SourceEvidence :: "string list"
  tce_Hypothesis :: string
  tce_Observations :: "string list"
  tce_VerificationLimit :: string
  tce_VerificationGaps :: int
  tce_JudgedAt :: "gtime option"

record triageExecution =
  tex_AttemptID :: string
  tex_AttemptNumber :: int
  tex_StartedAt :: gtime
  tex_MemberDeliveryIDs :: "string list"
  tex_ResultCode :: string
  tex_OutputDigest :: string
  tex_CompletedAt :: "gtime option"
  tex_Evidence :: "triageCompletionEvidence option"

record triageAttemptResult =
  tar_ResultCode :: string
  tar_OutputDigest :: string
  tar_FindingID :: "string option"
  tar_EvidencePackDigest :: "string option"
  tar_CompletedAt :: gtime

record triageState =
  tst_Phase :: string
  tst_Attempts :: int
  tst_NextAt :: "gtime option"
  tst_Decision :: "string option"
  tst_DecisionReason :: "string option"
  tst_DecisionInputVersion :: "int option"
  tst_MaterialFactHash :: "string option"
  tst_MembershipDigest :: "string option"
  tst_IncidentInputDigest :: "string option"
  tst_AssessmentID :: "string option"
  tst_DecidedAt :: "gtime option"
  tst_LatestAttempt :: "triageAttemptResult option"
  tst_ActiveAttempt :: "triageExecution option"
  tst_LastExecution :: "triageExecution option"
  tst_SkipReason :: string

record incidentState =
  inc_ID :: string
  inc_GroupKey :: string
  inc_Status :: string
  inc_FirstAlertAt :: gtime
  inc_LastAlertAt :: gtime
  inc_ReadyAt :: gtime
  inc_AlertCount :: int
  inc_Triage :: triageState
  inc_Occurrences :: int

record completedSituation =
  csi_ID :: string
  csi_GroupKey :: string
  csi_EffectiveStartedAt :: gtime
  csi_TerminalAt :: gtime
  csi_TerminalReason :: terminalReason

record operatorArtifactInput =
  oai_InputID :: string
  oai_Kind :: string
  oai_AnnotationID :: "string option"
  oai_VerdictID :: "string option"
  oai_AppliedInputVersion :: int
  oai_OccurredAt :: gtime
  oai_AttributedActor :: string
  oai_Headline :: string
  oai_Detail :: string

record authoritativeAssessment =
  aa_ID :: string
  aa_SituationID :: string
  aa_AssessmentBasisHash :: string
  aa_MaterialFactHash :: string
  aa_InputVersion :: int
  aa_Assessment :: assessment
  aa_Coverage :: "incidentCoverage list"
  aa_Derivation :: assessmentDerivation
  aa_ReusedFromAssessmentID :: "string option"

record preparedState =
  prs_CycleID :: string
  prs_Generation :: int
  prs_Runs :: "run list"
  prs_ProfileVersionIDs :: "string list"
  prs_ProfileGuidance :: "profileGuidance list"
  prs_NextRefreshAt :: "gtime option"
  prs_Lifecycle :: "sourceObservation list"
  prs_SourceDefinitions :: "sourceDefinitionObservation list"
  prs_Limitations :: "limitation list"
  prs_Deferred :: "string list"
  prs_PlansByID :: "(string \<times> plan) list"
  prs_LoadedAt :: gtime

record snapshotInput =
  sn_Situation :: situation
  sn_Deliveries :: "delivery list"
  sn_Incidents :: "incidentState list"
  sn_Analyses :: "incidentAnalysis list"
  sn_AnalysisCount :: int
  sn_PresentationFacts :: presentationFacts
  sn_PriorSituations :: "completedSituation list"
  sn_CurrentAssessment :: "authoritativeAssessment option"
  sn_Now :: gtime
  sn_Judgment :: "situationJudgment option"
  sn_JudgmentApplicability :: judgmentApplicability
  sn_ExpectedBehavior :: "expectedBehaviorEvaluation option"
  sn_ExpectedBehaviorHeads :: "expectedBehaviorHead list"
  sn_ControllerParked :: controllerParkedState
  sn_PriorTransition :: "transition option"
  sn_CurrentSummary :: "episodeSummary option"
  sn_RootPublished :: bool
  sn_LatestRootSyncVersion :: "int option"
  sn_RootPublicationOwed :: bool
  sn_LastDeliveredRootDeadlineAt :: "gtime option"
  sn_LastMainChannelPokeAt :: "gtime option"
  sn_PendingArtifacts :: "operatorArtifactInput list"
  sn_Prepared :: preparedState
  sn_DeliveredHistory :: deliveredHistory

section \<open>The Snapshot\<close>

record observationCheck =
  oc_Key :: string
  oc_RunID :: string
  oc_Capability :: capability
  oc_Scope :: "scope option"
  oc_Parameters :: string
  oc_Start :: gtime
  oc_End :: gtime
  oc_Status :: resultStatus

record capabilityResult =
  cr_RunID :: string
  cr_Capability :: string
  cr_Subject :: string
  cr_Status :: string
  cr_Freshness :: string
  cr_CoverageStart :: gtime
  cr_CoverageEnd :: gtime
  cr_Complete :: bool
  cr_Returned :: int
  cr_Omitted :: int
  cr_LimitationCodes :: "string list"
  cr_Reused :: bool

record snapshot =
  ss_ObservationChecks :: "observationCheck list"
  ss_SituationID :: string
  ss_InputVersion :: int
  ss_Lifecycle :: lifecycle
  ss_ElapsedSeconds :: int
  ss_DurationClass :: string
  ss_Facts :: "fact list"
  ss_Symptoms :: "symptom list"
  ss_Incidents :: "incidentState list"
  ss_EligibleReasons :: "reasonCandidate list"
  ss_PriorAssessment :: "assessment option"
  ss_MaterialFactHash :: string
  ss_AssessmentBasisHash :: string
  ss_PreparationCycleID :: string
  ss_Observations :: "observationFact list"
  ss_CapabilityResults :: "capabilityResult list"
  ss_Deferred :: "string list"

definition elapsedDuration :: "snapshotInput \<Rightarrow> duration" where
  "elapsedDuration inp =
     (let elapsed = tSub (sn_Now inp) (si_EffectiveStartedAt (sn_Situation inp)) in
      if elapsed < 0 then 0 else elapsed)"

definition sortIncidentsByID :: "incidentState list \<Rightarrow> incidentState list" where
  "sortIncidentsByID incidents = sort_key inc_ID incidents"

definition priorAssessment :: "authoritativeAssessment option \<Rightarrow> assessment option" where
  "priorAssessment current = map_option aa_Assessment current"

section \<open>Prepared observations\<close>

definition observationFactSchemaVersion :: int where "observationFactSchemaVersion = 2"

definition preparedObservationChecks :: "preparedState \<Rightarrow> observationCheck list" where
  "preparedObservationChecks prepared =
     map (\<lambda>r. \<lparr>oc_Key = rn_ScopeKey r, oc_RunID = rn_ID r, oc_Capability = rn_Capability r, oc_Scope = rn_Scope r,
            oc_Parameters = rn_Parameters r, oc_Start = cv_Start (rn_Coverage r), oc_End = cv_End (rn_Coverage r),
            oc_Status = rn_Status r\<rparr>)
       (filter (\<lambda>r. rn_Scope r \<noteq> None) (prs_Runs prepared))"

text \<open>A nil slice marshals as \<^verbatim>\<open>null\<close>; \<^verbatim>\<open>append([]string(nil), codes...)\<close> is nil when there are no codes.\<close>

definition jNilStrings :: "string list \<Rightarrow> json" where
  "jNilStrings xs = (if xs = [] then JNull else jStrings xs)"

definition runResultFact :: "run \<Rightarrow> observationFact" where
  "runResultFact r =
     \<lparr>xf_ID = ''observation-status:'' @ rn_ScopeKey r, xf_RunID = [], xf_Kind = ''capability_result'',
      xf_Subject = rn_ScopeKey r, xf_Digest = [], xf_SchemaVersion = observationFactSchemaVersion,
      xf_Value = marshal (JObject
        [(''capability'', JString (rn_Capability r)), (''complete'', JBool (cv_Complete (rn_Coverage r))),
         (''returned'', JInt (cv_Returned (rn_Coverage r))), (''omitted'', JInt (cv_Omitted (rn_Coverage r))),
         (''limitations'', jNilStrings (sortStrings (rn_LimitationCodes r)))]),
      xf_ResultStatus = rn_Status r,
      xf_Freshness = (if rn_Status r = ResultStale then FreshnessStale else FreshnessFresh),
      xf_ObservedAt = rn_ObservedAt r, xf_ExpiresAt = rn_ExpiresAt r, xf_EvidenceRefs = [], xf_Material = True\<rparr>"

definition runObservationFacts :: "run \<Rightarrow> observationFact list" where
  "runObservationFacts r =
     filter (\<lambda>f. xf_Kind f \<noteq> ''source_lifecycle'') (rn_Facts r) @
     (if rn_ScopeKey r = [] then [] else [runResultFact r])"

definition preparedObservationFacts :: "preparedState \<Rightarrow> observationFact list" where
  "preparedObservationFacts prepared = concat (map runObservationFacts (prs_Runs prepared))"

text \<open>\<^verbatim>\<open>!t.IsZero() && !now.Before(t)\<close>\<close>

definition expiredAt :: "gtime \<Rightarrow> gtime \<Rightarrow> bool" where
  "expiredAt t now \<longleftrightarrow> \<not> tIsZero t \<and> \<not> tBefore now t"

definition capabilityResultOf :: "(string \<times> plan) list \<Rightarrow> gtime \<Rightarrow> run \<Rightarrow> capabilityResult" where
  "capabilityResultOf plans now r =
     (let (capability, subject) = (case map_of plans (rn_PlanID r) of None \<Rightarrow> ([], [])
            | Some p \<Rightarrow> (pl_Capability p, sp_SubjectID (pl_Scope p)));
          freshness = (if expiredAt (rn_ExpiresAt r) now \<or> rn_Status r = ResultStale
                       then FreshnessStale else FreshnessFresh)
      in \<lparr>cr_RunID = rn_ID r, cr_Capability = capability, cr_Subject = subject, cr_Status = rn_Status r,
          cr_Freshness = freshness, cr_CoverageStart = cv_Start (rn_Coverage r),
          cr_CoverageEnd = cv_End (rn_Coverage r), cr_Complete = cv_Complete (rn_Coverage r),
          cr_Returned = cv_Returned (rn_Coverage r), cr_Omitted = cv_Omitted (rn_Coverage r),
          cr_LimitationCodes = rn_LimitationCodes r, cr_Reused = (rn_ReusedFromRunID r \<noteq> None)\<rparr>)"

definition staleIfExpired :: "gtime \<Rightarrow> observationFact \<Rightarrow> observationFact" where
  "staleIfExpired now f = (if expiredAt (xf_ExpiresAt f) now then f\<lparr>xf_Freshness := FreshnessStale\<rparr> else f)"

definition ProjectObservations ::
  "preparedState \<Rightarrow> (string \<times> plan) list \<Rightarrow> gtime \<Rightarrow> observationFact list \<times> capabilityResult list" where
  "ProjectObservations prepared plans now =
     (if prs_CycleID prepared = [] then ([], [])
      else (sort_key xf_ID (map (staleIfExpired now)
              (filter (\<lambda>f. xf_Kind f \<noteq> ''source_lifecycle'') (preparedObservationFacts prepared))),
            sort_key cr_RunID (map (capabilityResultOf plans now) (prs_Runs prepared))))"

section \<open>Limitation codes\<close>

definition LimitationInvestigationDeferred :: string where
  "LimitationInvestigationDeferred = ''investigation_deferred''"

definition DynamicLimitationCodes :: "capabilityResult list \<Rightarrow> string list \<Rightarrow> string list" where
  "DynamicLimitationCodes results deferred =
     sortStrings (remdups
       (map (\<lambda>r. cr_Capability r @ ''_'' @ cr_Status r)
          (filter (\<lambda>r. cr_Status r \<noteq> ResultConfirmedValue \<and> cr_Capability r \<noteq> []) results) @
        (if deferred \<noteq> [] then [LimitationInvestigationDeferred] else [])))"

definition dynamicLimitationCode :: "string \<Rightarrow> bool" where
  "dynamicLimitationCode code =
     (if code = LimitationInvestigationDeferred then True
      else list_ex (\<lambda>c. let pre = c @ ''_'' in
             hasPrefix code pre \<and> ValidResultStatus (drop (length pre) code)) Capabilities)"

definition observationFactExists :: "observationFact list \<Rightarrow> string \<Rightarrow> bool" where
  "observationFactExists facts i = list_ex (\<lambda>f. xf_ID f = i) facts"

text \<open>
  Every dynamic code of a cycle over known capabilities and statuses has the shape the citation
  check accepts.
\<close>

lemma DynamicLimitationCodes_wellFormed:
  assumes "\<forall>r \<in> set results. cr_Capability r = [] \<or> ValidCapability (cr_Capability r)"
    and "\<forall>r \<in> set results. ValidResultStatus (cr_Status r)"
    and "code \<in> set (DynamicLimitationCodes results deferred)"
  shows "dynamicLimitationCode code"
proof -
  from assms(3) consider "code = LimitationInvestigationDeferred"
    | r where "r \<in> set results" "cr_Capability r \<noteq> []" "code = cr_Capability r @ ''_'' @ cr_Status r"
    by (auto simp: DynamicLimitationCodes_def split: if_splits)
  then show ?thesis
  proof cases
    case 1
    then show ?thesis by (simp add: dynamicLimitationCode_def)
  next
    case (2 r)
    with assms(1,2) have r: "cr_Capability r \<in> set Capabilities" "ValidResultStatus (cr_Status r)"
      by (auto simp: ValidCapability_def list_ex_iff)
    have "let pre = cr_Capability r @ ''_'' in hasPrefix code pre \<and> ValidResultStatus (drop (length pre) code)"
      using r(2) 2(3) by (simp add: hasPrefix_def Let_def)
    with r(1) show ?thesis unfolding dynamicLimitationCode_def list_ex_iff by metis
  qed
qed

text \<open>Lifecycle evidence stays the controller's: no projected fact is a source lifecycle fact.\<close>

lemma ProjectObservations_no_lifecycle:
  "f \<in> set (fst (ProjectObservations prepared plans now)) \<Longrightarrow> xf_Kind f \<noteq> ''source_lifecycle''"
  by (auto simp: ProjectObservations_def staleIfExpired_def split: if_splits)

lemma ProjectObservations_fresh:
  "f \<in> set (fst (ProjectObservations prepared plans now)) \<Longrightarrow> xf_Freshness f = FreshnessFresh \<Longrightarrow>
     tIsZero (xf_ExpiresAt f) \<or> tBefore now (xf_ExpiresAt f)"
  by (auto simp: ProjectObservations_def staleIfExpired_def expiredAt_def FreshnessFresh_def FreshnessStale_def
      split: if_splits)

lemma elapsedDuration_nonneg: "0 \<le> elapsedDuration inp"
  by (simp add: elapsedDuration_def Let_def)

lemma sortIncidentsByID_perm:
  "mset xs = mset ys \<Longrightarrow> inj_on inc_ID (set xs) \<Longrightarrow> sortIncidentsByID xs = sortIncidentsByID ys"
  unfolding sortIncidentsByID_def by (rule sort_key_perm)

end
