(* ===== verification/Facts.thy ===== *)
theory Facts
  imports Complex_Main Snapshot
begin

text \<open>
  \<^verbatim>\<open>internal/situation/facts.go\<close> and \<^verbatim>\<open>reasons.go\<close>: the reduction of a reconciliation input into
  immutable facts, the closed Sufficient-reason catalog, the material fact hash and the Assessment
  basis hash, and \<^verbatim>\<open>BuildSnapshot\<close>, which composes them.  \<^verbatim>\<open>float64\<close> arithmetic is exact
  rational arithmetic followed by the IEEE rounding \<open>f64\<close>; the values here stay far below the overflow
  threshold.  The digest of the prepared observations (\<^verbatim>\<open>observationMaterialDigest\<close>) is the
  argument \<open>od\<close> of the definitions that hash it.
\<close>

section \<open>Floating point\<close>

definition pow2 :: "int \<Rightarrow> rat" where
  "pow2 e = (if 0 \<le> e then 2 ^ nat e else 1 / 2 ^ nat (- e))"

definition roundHalfEven :: "rat \<Rightarrow> int" where
  "roundHalfEven x =
     (let f = \<lfloor>x\<rfloor>; r = x - of_int f in
      if r < 1 / 2 then f else if r > 1 / 2 then f + 1 else if even f then f else f + 1)"

text \<open>The exponent of the last mantissa bit, searched upwards from the subnormal one.\<close>

fun f64Exponent :: "nat \<Rightarrow> rat \<Rightarrow> int \<Rightarrow> int" where
  "f64Exponent 0 x e = e"
| "f64Exponent (Suc n) x e = (if x < pow2 (e + 53) then e else f64Exponent n x (e + 1))"

definition f64 :: "rat \<Rightarrow> rat" where
  "f64 x = (let e = f64Exponent 2045 \<bar>x\<bar> (- 1074) in of_int (roundHalfEven (x / pow2 e)) * pow2 e)"

text \<open>\<^verbatim>\<open>time.Duration.Seconds\<close>; Go's integer division truncates.\<close>

definition durationSeconds :: "duration \<Rightarrow> rat" where
  "durationSeconds d =
     (let sec = sgn d * (\<bar>d\<bar> div second); nsec = sgn d * (\<bar>d\<bar> mod second) in
      f64 (f64 (of_int sec) + f64 (f64 (of_int nsec) / 1000000000)))"

text \<open>\<^verbatim>\<open>time.Duration(s * float64(time.Second))\<close> for a non-negative \<open>s\<close>.\<close>

definition secondsToDuration :: "rat \<Rightarrow> duration" where
  "secondsToDuration s = \<lfloor>f64 (s * 1000000000)\<rfloor>"

text \<open>
  The shortest decimal that rounds to a value, as \<^verbatim>\<open>strconv.AppendFloat(b, f, 'f', -1, 64)\<close> finds
  it, and the choice of the exponent form that \<^verbatim>\<open>encoding/json\<close> makes.
\<close>

definition pow10 :: "int \<Rightarrow> rat" where
  "pow10 e = (if 0 \<le> e then 10 ^ nat e else 1 / 10 ^ nat (- e))"

fun decimalExponent :: "nat \<Rightarrow> rat \<Rightarrow> int \<Rightarrow> int" where
  "decimalExponent 0 x k = k"
| "decimalExponent (Suc n) x k = (if x < pow10 (k + 1) then k else decimalExponent n x (k + 1))"

fun shortestDigits :: "nat \<Rightarrow> rat \<Rightarrow> int \<Rightarrow> int \<Rightarrow> int \<times> int" where
  "shortestDigits 0 x k p = (roundHalfEven (x / pow10 (k - p + 1)), k - p + 1)"
| "shortestDigits (Suc n) x k p =
     (let m = roundHalfEven (x / pow10 (k - p + 1)) in
      if f64 (of_int m * pow10 (k - p + 1)) = x then (m, k - p + 1) else shortestDigits n x k (p + 1))"

definition formatFloat :: "rat \<Rightarrow> string" where
  "formatFloat x =
     (if x = 0 then ''0''
      else let sgnText = (if x < 0 then ''-'' else []); a = \<bar>x\<bar>;
               k = decimalExponent 640 a (- 330); (m, q) = shortestDigits 16 a k 1;
               ds = posDigits m; n = int (length ds) in
        sgnText @
        (if a < 1 / 1000000 \<or> a \<ge> 10 ^ 21 then
           take 1 ds @ (if length ds > 1 then ''.'' @ drop 1 ds else []) @ ''e'' @
           (if n + q - 1 < 0 then ''-'' else ''+'') @ itoa \<bar>n + q - 1\<bar>
         else if 0 \<le> q then ds @ replicate (nat q) (CHR ''0'')
         else if n > - q then take (nat (n + q)) ds @ ''.'' @ drop (nat (n + q)) ds
         else ''0.'' @ replicate (nat (- q - n)) (CHR ''0'') @ ds))"

section \<open>Prior durations\<close>

definition priorDurationsSeconds :: "completedSituation list \<Rightarrow> rat list" where
  "priorDurationsSeconds prior =
     sort (map (\<lambda>p. durationSeconds (tSub (csi_TerminalAt p) (csi_EffectiveStartedAt p)))
       (filter (\<lambda>p. \<not> (tIsZero (csi_TerminalAt p) \<or> tIsZero (csi_EffectiveStartedAt p)) \<and>
                     0 \<le> tSub (csi_TerminalAt p) (csi_EffectiveStartedAt p)) prior))"

definition median :: "rat list \<Rightarrow> rat" where
  "median xs =
     (let n = length xs in
      if n = 0 then 0
      else if n mod 2 = 1 then xs ! (n div 2)
      else f64 (f64 (xs ! (n div 2 - 1) + xs ! (n div 2)) / 2))"

definition p95NearestRank :: "rat list \<Rightarrow> rat" where
  "p95NearestRank xs =
     (let n = int (length xs) in
      if n = 0 then 0
      else let rank0 = \<lceil>f64 (f64 (95 / 100) * of_int n)\<rceil>;
               rank1 = (if rank0 < 1 then 1 else rank0);
               rank = (if rank1 > n then n else rank1)
           in xs ! nat (rank - 1))"

definition priorSituationIDs :: "completedSituation list \<Rightarrow> string list" where
  "priorSituationIDs prior = map csi_ID prior"

section \<open>Fact identity\<close>

definition factIdentity :: "string \<Rightarrow> string \<Rightarrow> int \<Rightarrow> string \<Rightarrow> string" where
  "factIdentity pre situationID inputVersion subject =
     pre @ '':'' @ situationID @ '':'' @ itoa inputVersion @ '':'' @ subject"

definition factIdentityWithContent :: "string \<Rightarrow> string \<Rightarrow> int \<Rightarrow> string \<Rightarrow> string \<Rightarrow> string" where
  "factIdentityWithContent pre situationID inputVersion subject digest =
     factIdentity pre situationID inputVersion subject @ '':'' @ digest"

definition sortFacts :: "fact list \<Rightarrow> fact list" where
  "sortFacts facts = sort_key (\<lambda>f. (fa_Kind f, fa_Subject f, fa_ID f)) facts"

definition sortedRefs :: "string list \<Rightarrow> string list" where
  "sortedRefs refs = sortStrings refs"

definition factKindSourceSymptomState :: string where "factKindSourceSymptomState = ''source_symptom_state''"
definition factKindSourceLifecycleSummary :: string where "factKindSourceLifecycleSummary = ''source_lifecycle_summary''"
definition factKindCurrentDuration :: string where "factKindCurrentDuration = ''current_duration''"
definition factKindIncidentMembership :: string where "factKindIncidentMembership = ''incident_membership''"
definition factKindIncidentTriageState :: string where "factKindIncidentTriageState = ''incident_triage_state''"
definition factKindAcuteFinding :: string where "factKindAcuteFinding = ''acute_finding''"
definition factKindPriorSituationDurationDistribution :: string where
  "factKindPriorSituationDurationDistribution = ''prior_situation_duration_distribution''"
definition factKindCapabilityLimitation :: string where "factKindCapabilityLimitation = ''capability_limitation''"
definition durationFactIDPrefix :: string where "durationFactIDPrefix = ''duration''"

text \<open>The fields every fact has in common.\<close>

definition mkFact ::
  "string \<Rightarrow> string \<Rightarrow> int \<Rightarrow> gtime \<Rightarrow> string \<Rightarrow> string \<Rightarrow> json \<Rightarrow> factResultStatus \<Rightarrow> string list \<Rightarrow> bool \<Rightarrow> fact" where
  "mkFact i sid v now kind subject value status refs material =
     \<lparr>fa_ID = i, fa_SituationID = sid, fa_Kind = kind, fa_Subject = subject, fa_Digest = canonicalDigest value,
      fa_InputVersion = v, fa_Value = marshal value, fa_ResultStatus = status, fa_EvidenceRefs = refs,
      fa_Material = material, fa_ObservedAt = now\<rparr>"

section \<open>Facts per kind\<close>

definition symptomStateFactValue :: "symptom \<Rightarrow> json" where
  "symptomStateFactValue s = JObject
     [(''key'', JString (sy_Key s)), (''status'', JString (statusText (sy_Status s))),
      (''first_observed_at'', jTime (sy_FirstObservedAt s))]"

definition sourceSymptomStateFactID :: "string \<Rightarrow> int \<Rightarrow> symptom \<Rightarrow> string" where
  "sourceSymptomStateFactID sid v s =
     factIdentityWithContent factKindSourceSymptomState sid v (sy_Key s) (canonicalDigest (symptomStateFactValue s))"

definition deriveSymptomStateFacts :: "string \<Rightarrow> int \<Rightarrow> gtime \<Rightarrow> symptom list \<Rightarrow> fact list" where
  "deriveSymptomStateFacts sid v now symptoms =
     map (\<lambda>s. mkFact (sourceSymptomStateFactID sid v s) sid v now factKindSourceSymptomState (sy_Key s)
            (symptomStateFactValue s) FactConfirmedValue [] True) symptoms"

definition deriveLifecycleSummaryFact :: "string \<Rightarrow> int \<Rightarrow> gtime \<Rightarrow> symptom list \<Rightarrow> fact" where
  "deriveLifecycleSummaryFact sid v now symptoms =
     (let count = \<lambda>st. int (length (filter (\<lambda>s. sy_Status s = st) symptoms));
          value = JObject [(''firing_count'', JInt (count DeliveryStatusFiring)),
                           (''resolved_count'', JInt (count DeliveryStatusResolved)),
                           (''total_count'', JInt (int (length symptoms)))]
      in mkFact (factIdentityWithContent factKindSourceLifecycleSummary sid v ''situation'' (canonicalDigest value))
           sid v now factKindSourceLifecycleSummary ''situation'' value
           (if symptoms = [] then FactConfirmedEmpty else FactConfirmedValue) [] True)"

definition deriveDurationFact :: "snapshotInput \<Rightarrow> string \<Rightarrow> fact" where
  "deriveDurationFact inp cls =
     (let sit = sn_Situation inp;
          crossedAt = tAdd (si_EffectiveStartedAt sit) (durationClassLowerBound cls);
          value = JObject [(''class'', JString cls), (''threshold_crossed_at'', jTime crossedAt)]
      in mkFact (factIdentity durationFactIDPrefix (si_ID sit) (si_InputVersion sit) cls)
           (si_ID sit) (si_InputVersion sit) (sn_Now inp) factKindCurrentDuration cls value FactConfirmedValue [] True)"

definition incidentMembershipFactValue :: "delivery list \<Rightarrow> incidentState \<Rightarrow> json" where
  "incidentMembershipFactValue ds inc = JObject
     [(''incident_id'', JString (inc_ID inc)),
      (''membership_digest'', JString (MembershipDigest (inc_ID inc) ds)),
      (''incident_input_digest'', JString (IncidentInputDigest (inc_ID inc) (inc_GroupKey inc) ds)),
      (''member_count'', JInt (int (length (filter (\<lambda>d. de_IncidentID d = inc_ID inc) ds))))]"

definition deriveIncidentMembershipFacts :: "snapshotInput \<Rightarrow> fact list" where
  "deriveIncidentMembershipFacts inp =
     (let sid = si_ID (sn_Situation inp); v = si_InputVersion (sn_Situation inp) in
      map (\<lambda>inc. let value = incidentMembershipFactValue (sn_Deliveries inp) inc in
             mkFact (factIdentityWithContent factKindIncidentMembership sid v (inc_ID inc) (canonicalDigest value))
               sid v (sn_Now inp) factKindIncidentMembership (inc_ID inc) value FactConfirmedValue [] True)
        (sn_Incidents inp))"

definition incidentTriageStateFactValue :: "incidentState \<Rightarrow> json" where
  "incidentTriageStateFactValue inc = JObject
     [(''incident_id'', JString (inc_ID inc)), (''phase'', JString (tst_Phase (inc_Triage inc))),
      (''attempts'', JInt (tst_Attempts (inc_Triage inc))),
      (''decision'', jOpt JString (tst_Decision (inc_Triage inc))),
      (''decision_reason'', jOpt JString (tst_DecisionReason (inc_Triage inc)))]"

definition deriveIncidentTriageStateFacts :: "string \<Rightarrow> int \<Rightarrow> gtime \<Rightarrow> incidentState list \<Rightarrow> fact list" where
  "deriveIncidentTriageStateFacts sid v now incidents =
     map (\<lambda>inc. let value = incidentTriageStateFactValue inc in
            mkFact (factIdentityWithContent factKindIncidentTriageState sid v (inc_ID inc) (canonicalDigest value))
              sid v now factKindIncidentTriageState (inc_ID inc) value
              (if tst_Phase (inc_Triage inc) = [] then FactUnavailable else FactConfirmedValue) [] False)
       incidents"

definition acuteFindingFactValue :: "incidentState \<Rightarrow> json" where
  "acuteFindingFactValue inc =
     (let la = tst_LatestAttempt (inc_Triage inc) in JObject
        [(''incident_id'', JString (inc_ID inc)),
         (''result_code'', jOpt JString (map_option tar_ResultCode la)),
         (''output_digest'', jOpt JString (map_option tar_OutputDigest la)),
         (''finding_id'', jOpt JString (Option.bind la tar_FindingID)),
         (''evidence_pack_digest'', jOpt JString (Option.bind la tar_EvidencePackDigest))])"

definition deriveAcuteFindingFacts :: "string \<Rightarrow> int \<Rightarrow> gtime \<Rightarrow> incidentState list \<Rightarrow> fact list" where
  "deriveAcuteFindingFacts sid v now incidents =
     map (\<lambda>inc. let value = acuteFindingFactValue inc in
            mkFact (factIdentityWithContent factKindAcuteFinding sid v (inc_ID inc) (canonicalDigest value))
              sid v now factKindAcuteFinding (inc_ID inc) value
              (if tst_LatestAttempt (inc_Triage inc) = None then FactUnavailable else FactConfirmedValue) [] True)
       incidents"

definition derivePriorSituationDurationDistributionFact :: "snapshotInput \<Rightarrow> fact" where
  "derivePriorSituationDurationDistributionFact inp =
     (let sit = sn_Situation inp; durations = priorDurationsSeconds (sn_PriorSituations inp);
          value = JObject [(''group_key'', JString (si_GroupKey sit)), (''sample_count'', JInt (int (length durations))),
            (''median_seconds'', JRaw (formatFloat (median durations))),
            (''p95_seconds'', JRaw (formatFloat (p95NearestRank durations))),
            (''durations_seconds'', JArray (map (\<lambda>d. JRaw (formatFloat d)) durations))]
      in mkFact (factIdentity factKindPriorSituationDurationDistribution (si_ID sit) (si_InputVersion sit) (si_GroupKey sit))
           (si_ID sit) (si_InputVersion sit) (sn_Now inp) factKindPriorSituationDurationDistribution (si_GroupKey sit)
           value (if durations = [] then FactConfirmedEmpty else FactConfirmedValue)
           (sortedRefs (priorSituationIDs (sn_PriorSituations inp))) True)"

definition reservedUnsupportedCapabilities :: "limitation list" where
  "reservedUnsupportedCapabilities =
     [\<lparr>li_Code = ''semantic_profile_unavailable'',
       li_Detail = ''Semantic profile binding/correction authority is not available until Plan 5.''\<rparr>,
      \<lparr>li_Code = ''signal_binding_unavailable'', li_Detail = ''Signal bindings are not available until Plan 5.''\<rparr>,
      \<lparr>li_Code = ''envelope_unavailable'',
       li_Detail = ''Expected-behaviour envelopes are not available until Plan 5.''\<rparr>]"

definition deriveCapabilityLimitationFact :: "string \<Rightarrow> int \<Rightarrow> gtime \<Rightarrow> fact" where
  "deriveCapabilityLimitationFact sid v now =
     (let value = JObject [(''limitations'', JArray (map (\<lambda>l. JObject
            [(''code'', JString (li_Code l)), (''detail'', JString (li_Detail l))]) reservedUnsupportedCapabilities))]
      in mkFact (factIdentityWithContent factKindCapabilityLimitation sid v ''plan2'' (canonicalDigest value))
           sid v now factKindCapabilityLimitation ''plan2'' value FactUnavailable [] True)"

definition deriveStoreFactsWith :: "snapshotInput \<Rightarrow> symptom list \<Rightarrow> string \<Rightarrow> fact list" where
  "deriveStoreFactsWith inp symptoms cls =
     (let sid = si_ID (sn_Situation inp); v = si_InputVersion (sn_Situation inp) in
      sortFacts
        (deriveSymptomStateFacts sid v (sn_Now inp) symptoms @
         [deriveLifecycleSummaryFact sid v (sn_Now inp) symptoms] @
         [deriveDurationFact inp cls] @
         deriveIncidentMembershipFacts inp @
         deriveIncidentTriageStateFacts sid v (sn_Now inp) (sn_Incidents inp) @
         deriveAcuteFindingFacts sid v (sn_Now inp) (sn_Incidents inp) @
         [derivePriorSituationDurationDistributionFact inp] @
         [deriveCapabilityLimitationFact sid v (sn_Now inp)]))"

definition DeriveStoreFacts :: "snapshotInput \<Rightarrow> fact list" where
  "DeriveStoreFacts inp =
     deriveStoreFactsWith inp (deriveSymptoms (sn_Deliveries inp)) (DurationClass (elapsedDuration inp))"

section \<open>Sufficient reasons\<close>

definition reasonCatalogVersion :: int where "reasonCatalogVersion = 1"

definition reasonCodeDurationOutlier :: string where "reasonCodeDurationOutlier = ''duration_outlier''"
definition reasonCodeNovelSymptom :: string where "reasonCodeNovelSymptom = ''novel_symptom''"
definition reasonCodeTerminalUncertainty :: string where "reasonCodeTerminalUncertainty = ''terminal_uncertainty''"

definition reasonCandidateID :: "string \<Rightarrow> int \<Rightarrow> string \<Rightarrow> int \<Rightarrow> int \<Rightarrow> bool \<Rightarrow> string list \<Rightarrow> string" where
  "reasonCandidateID sid v code catalogVersion predicateVersion isFloor refs =
     canonicalDigest (JObject
       [(''schema_version'', JInt 1), (''situation_id'', JString sid), (''input_version'', JInt v),
        (''code'', JString code), (''catalog_version'', JInt catalogVersion),
        (''predicate_version'', JInt predicateVersion), (''deterministic_floor'', JBool isFloor),
        (''evidence_refs'', jStrings refs)])"

definition newReasonCandidate :: "string \<Rightarrow> int \<Rightarrow> string \<Rightarrow> string \<Rightarrow> int \<Rightarrow> bool \<Rightarrow> string list \<Rightarrow> reasonCandidate" where
  "newReasonCandidate sid v code summary predicateVersion isFloor evidenceRefs =
     (let refs = sortStrings evidenceRefs in
      \<lparr>rc_ID = reasonCandidateID sid v code reasonCatalogVersion predicateVersion isFloor refs,
       rc_Code = code, rc_Summary = summary, rc_CatalogVersion = reasonCatalogVersion,
       rc_PredicateVersion = predicateVersion, rc_EvidenceRefs = refs, rc_DeterministicFloor = isFloor\<rparr>)"

definition criticalAnchorEligible :: "delivery list \<Rightarrow> bool" where
  "criticalAnchorEligible ds =
     list_ex (\<lambda>(_, d). de_Status d = DeliveryStatusFiring \<and> 4 \<le> Rank (de_Severity d))
       (keepBest de_AlertID deliveryLess [] ds)"

definition durationOutlierEligible :: "duration \<Rightarrow> rat list \<Rightarrow> bool" where
  "durationOutlierEligible elapsed priorSeconds =
     (if length priorSeconds < 5 then False
      else let p95 = p95NearestRank priorSeconds; med = median priorSeconds;
               elapsedSeconds = durationSeconds elapsed
           in p95 < elapsedSeconds \<and> f64 (2 * med) < elapsedSeconds)"

definition novelSymptomEligible :: "symptom list \<Rightarrow> completedSituation list \<Rightarrow> bool" where
  "novelSymptomEligible symptoms prior = False"

definition terminalUncertaintyEligible :: "snapshotInput \<Rightarrow> string \<Rightarrow> bool" where
  "terminalUncertaintyEligible inp cls = False"

definition EligibleReasons :: "snapshotInput \<Rightarrow> symptom list \<Rightarrow> string \<Rightarrow> reasonCandidate list" where
  "EligibleReasons inp symptoms cls =
     (let sid = si_ID (sn_Situation inp); v = si_InputVersion (sn_Situation inp) in
      onlyIf (criticalAnchorEligible (sn_Deliveries inp))
        (newReasonCandidate sid v reasonCodeCriticalAnchor ''Confirmed active critical source severity.'' 1 True []) @
      onlyIf (durationOutlierEligible (elapsedDuration inp) (priorDurationsSeconds (sn_PriorSituations inp)))
        (newReasonCandidate sid v reasonCodeDurationOutlier
           ''Elapsed duration exceeds the p95 and twice the median of comparable completed Situations.'' 1 False
           [factIdentity durationFactIDPrefix sid v cls,
            factIdentity factKindPriorSituationDurationDistribution sid v (si_GroupKey (sn_Situation inp))]) @
      onlyIf (novelSymptomEligible symptoms (sn_PriorSituations inp))
        (newReasonCandidate sid v reasonCodeNovelSymptom ''Local history proves confirmed absence of this symptom.'' 1 False
           (map (sourceSymptomStateFactID sid v) symptoms)) @
      onlyIf (terminalUncertaintyEligible inp cls)
        (newReasonCandidate sid v reasonCodeTerminalUncertainty
           ''Source-aware lifecycle observation deadline expired with actionable uncertainty.'' 1 False
           [factIdentity durationFactIDPrefix sid v cls]))"

section \<open>Hashes\<close>

definition materialIncidentDTO :: "delivery list \<Rightarrow> incidentState \<Rightarrow> json" where
  "materialIncidentDTO ds inc =
     (let la = tst_LatestAttempt (inc_Triage inc) in JObject
        [(''incident_id'', JString (inc_ID inc)),
         (''membership_digest'', JString (MembershipDigest (inc_ID inc) ds)),
         (''triage_outcome_class'', jOpt JString (map_option tar_ResultCode la)),
         (''triage_output_digest'', jOpt JString (map_option tar_OutputDigest la)),
         (''triage_evidence_digest'', jOpt JString (Option.bind la tar_EvidencePackDigest))])"

definition priorDurationHistogram :: "rat list \<Rightarrow> json" where
  "priorDurationHistogram ds =
     (let count = \<lambda>c. int (length (filter (\<lambda>s. DurationClass (secondsToDuration s) = c) ds)) in JObject
        [(''subminute'', JInt (count DurationClassSubminute)), (''short'', JInt (count DurationClassShort)),
         (''medium'', JInt (count DurationClassMedium)), (''long'', JInt (count DurationClassLong)),
         (''sample_count'', JInt (int (length ds)))])"

definition materialFactHashSchemaVersion :: int where "materialFactHashSchemaVersion = 7"
definition factSchemaVersion :: int where "factSchemaVersion = 2"
definition assessmentBasisHashSchemaVersion :: int where "assessmentBasisHashSchemaVersion = 8"
definition assessmentValidatorVersion :: int where "assessmentValidatorVersion = 3"

definition MaterialFactHash :: "string \<Rightarrow> snapshotInput \<Rightarrow> symptom list \<Rightarrow> string \<Rightarrow> string" where
  "MaterialFactHash od inp symptoms cls =
     canonicalDigest (JObject
       ([(''schema_version'', JInt materialFactHashSchemaVersion),
         (''fact_schema_version'', JInt factSchemaVersion),
         (''situation_id'', JString (si_ID (sn_Situation inp))),
         (''duration_class'', JString cls),
         (''duration_threshold_crossed_at'',
            jTime (tAdd (si_EffectiveStartedAt (sn_Situation inp)) (durationClassLowerBound cls))),
         (''symptoms'', JArray (map (\<lambda>(k, st). JObject [(''key'', JString k), (''status'', JString st)])
            (sort_key fst (map (\<lambda>s. (sy_Key s, statusText (sy_Status s))) symptoms)))),
         (''incidents'', JArray (map (materialIncidentDTO (sn_Deliveries inp)) (sort_key inc_ID (sn_Incidents inp)))),
         (''prior_duration_histogram'', priorDurationHistogram (priorDurationsSeconds (sn_PriorSituations inp)))] @
        (if od = [] then [] else [(''observation_digest'', JString od)])))"

definition lifecycleText :: "lifecycle \<Rightarrow> string" where
  "lifecycleText l = (case l of LifecycleActive \<Rightarrow> ''active'' | LifecycleRecoveryPending \<Rightarrow> ''recovery_pending''
     | LifecycleRecovered \<Rightarrow> ''recovered'' | LifecycleClosedUnknown \<Rightarrow> ''closed_unknown'' | LifecycleOther s \<Rightarrow> s)"

definition attentionText :: "attention \<Rightarrow> string" where
  "attentionText a = (case a of AttentionObserve \<Rightarrow> ''observe'' | AttentionInvestigate \<Rightarrow> ''investigate''
     | AttentionUrgent \<Rightarrow> ''urgent'' | AttentionOther s \<Rightarrow> s)"

definition assessmentBasisReasonDTO :: "reasonCandidate \<Rightarrow> json" where
  "assessmentBasisReasonDTO r = JObject
     [(''code'', JString (rc_Code r)), (''catalog_version'', JInt (rc_CatalogVersion r)),
      (''predicate_version'', JInt (rc_PredicateVersion r)),
      (''deterministic_floor'', JBool (rc_DeterministicFloor r))]"

definition AssessmentBasisHash :: "snapshotInput \<Rightarrow> string \<Rightarrow> reasonCandidate list \<Rightarrow> string" where
  "AssessmentBasisHash inp materialFactHash eligible =
     canonicalDigest (JObject
       [(''schema_version'', JInt assessmentBasisHashSchemaVersion),
        (''material_fact_hash'', JString materialFactHash),
        (''eligible_reasons'', JArray (map assessmentBasisReasonDTO (sort_key rc_Code eligible))),
        (''lifecycle'', JString (lifecycleText (si_Lifecycle (sn_Situation inp)))),
        (''attention'', JString (attentionText (si_Attention (sn_Situation inp)))),
        (''deterministic_floor'', JBool (list_ex rc_DeterministicFloor eligible)),
        (''assessment_schema_version'', JInt AssessmentSchemaVersion),
        (''validator_version'', JInt assessmentValidatorVersion)])"

section \<open>The Snapshot\<close>

definition BuildSnapshot :: "string \<Rightarrow> snapshotInput \<Rightarrow> snapshot" where
  "BuildSnapshot od inp =
     (let symptoms = deriveSymptoms (sn_Deliveries inp);
          elapsed = elapsedDuration inp;
          cls = DurationClass elapsed;
          facts = deriveStoreFactsWith inp symptoms cls;
          eligible = EligibleReasons inp symptoms cls;
          materialHash = MaterialFactHash od inp symptoms cls;
          basisHash = AssessmentBasisHash inp materialHash eligible;
          (observations, results) = ProjectObservations (sn_Prepared inp) (prs_PlansByID (sn_Prepared inp)) (sn_Now inp)
      in \<lparr>ss_ObservationChecks = preparedObservationChecks (sn_Prepared inp),
          ss_SituationID = si_ID (sn_Situation inp), ss_InputVersion = si_InputVersion (sn_Situation inp),
          ss_Lifecycle = si_Lifecycle (sn_Situation inp), ss_ElapsedSeconds = \<lfloor>durationSeconds elapsed\<rfloor>,
          ss_DurationClass = cls, ss_Facts = facts, ss_Symptoms = symptoms,
          ss_Incidents = sortIncidentsByID (sn_Incidents inp), ss_EligibleReasons = eligible,
          ss_PriorAssessment = priorAssessment (sn_CurrentAssessment inp), ss_MaterialFactHash = materialHash,
          ss_AssessmentBasisHash = basisHash, ss_PreparationCycleID = prs_CycleID (sn_Prepared inp),
          ss_Observations = observations, ss_CapabilityResults = results,
          ss_Deferred = prs_Deferred (sn_Prepared inp)\<rparr>)"

section \<open>The reason catalog\<close>

lemma criticalAnchorEligible_iff:
  assumes "inj_on de_ID (set ds)"
  shows "criticalAnchorEligible ds \<longleftrightarrow>
    (\<exists>d \<in> set ds. de_Status d = DeliveryStatusFiring \<and> 4 \<le> Rank (de_Severity d) \<and>
       (\<forall>e \<in> set ds. de_AlertID e = de_AlertID d \<longrightarrow> deliveryKey e \<le> deliveryKey d))"
proof -
  let ?m = "keepBest de_AlertID deliveryLess [] ds"
  have look: "(k, d) \<in> set ?m \<longleftrightarrow> map_of ?m k = Some d" for k d
    using latestByID.keepBest_distinct [of "[]" ds] by (simp add: map_of_eq_Some_iff)
  have lookup: "map_of ?m k = Some d \<longleftrightarrow>
      d \<in> set ds \<and> de_AlertID d = k \<and> (\<forall>e \<in> set ds. de_AlertID e = k \<longrightarrow> deliveryKey e \<le> deliveryKey d)" for k d
  proof
    assume d: "map_of ?m k = Some d"
    from latestByID.keepBest_member [OF d] latestByID.keepBest_max [OF d]
    show "d \<in> set ds \<and> de_AlertID d = k \<and> (\<forall>e \<in> set ds. de_AlertID e = k \<longrightarrow> deliveryKey e \<le> deliveryKey d)"
      by (auto simp: deliveryLess_iff_key not_less)
  next
    assume d: "d \<in> set ds \<and> de_AlertID d = k \<and>
      (\<forall>e \<in> set ds. de_AlertID e = k \<longrightarrow> deliveryKey e \<le> deliveryKey d)"
    then have "k \<in> dom (map_of ?m)" by (auto simp: latestByID.keepBest_dom)
    then obtain e where e: "map_of ?m k = Some e" by blast
    from latestByID.keepBest_member [OF e] have mem: "e \<in> set ds" "de_AlertID e = k" by auto
    have "deliveryKey d \<le> deliveryKey e"
      using latestByID.keepBest_max [OF e, of d] d by (simp add: deliveryLess_iff_key not_less)
    moreover have "deliveryKey e \<le> deliveryKey d" using d mem by blast
    ultimately have "deliveryKey e = deliveryKey d" by (rule order_antisym [rotated])
    then have "de_ID e = de_ID d" by (simp add: deliveryKey_def)
    with d mem assms have "e = d" by (blast dest: inj_onD)
    with e show "map_of ?m k = Some d" by simp
  qed
  have "criticalAnchorEligible ds \<longleftrightarrow> (\<exists>k d. (k, d) \<in> set ?m \<and>
      de_Status d = DeliveryStatusFiring \<and> 4 \<le> Rank (de_Severity d))"
    by (auto simp: criticalAnchorEligible_def list_ex_iff)
  then show ?thesis unfolding look lookup by blast
qed

text \<open>
  Only the two reachable codes are ever emitted, in catalog order, and the deterministic floor is exactly
  the critical anchor.
\<close>

lemma EligibleReasons_codes:
  "map (\<lambda>r. (rc_Code r, rc_DeterministicFloor r)) (EligibleReasons inp symptoms cls) =
     onlyIf (criticalAnchorEligible (sn_Deliveries inp)) (reasonCodeCriticalAnchor, True) @
     onlyIf (durationOutlierEligible (elapsedDuration inp) (priorDurationsSeconds (sn_PriorSituations inp)))
       (reasonCodeDurationOutlier, False)"
  by (simp add: EligibleReasons_def Let_def onlyIf_def newReasonCandidate_def novelSymptomEligible_def
      terminalUncertaintyEligible_def)

lemma EligibleReasons_floor_iff:
  "list_ex rc_DeterministicFloor (EligibleReasons inp symptoms cls) \<longleftrightarrow> criticalAnchorEligible (sn_Deliveries inp)"
  by (simp add: EligibleReasons_def Let_def onlyIf_def newReasonCandidate_def novelSymptomEligible_def
      terminalUncertaintyEligible_def)

text \<open>Every evidence reference of an eligible reason is a fact of the same Snapshot.\<close>

lemma set_sortFacts [simp]: "set (sortFacts fs) = set fs"
  by (simp add: sortFacts_def)

lemma EligibleReasons_grounded:
  assumes "r \<in> set (EligibleReasons inp symptoms cls)" and "ref \<in> set (rc_EvidenceRefs r)"
  shows "ref \<in> fa_ID ` set (deriveStoreFactsWith inp symptoms cls)"
proof -
  let ?sid = "si_ID (sn_Situation inp)"
  let ?v = "si_InputVersion (sn_Situation inp)"
  have "ref = factIdentity durationFactIDPrefix ?sid ?v cls \<or>
        ref = factIdentity factKindPriorSituationDurationDistribution ?sid ?v (si_GroupKey (sn_Situation inp))"
    using assms by (auto simp: EligibleReasons_def Let_def onlyIf_def newReasonCandidate_def
        novelSymptomEligible_def terminalUncertaintyEligible_def split: if_splits)
  moreover have "factIdentity durationFactIDPrefix ?sid ?v cls = fa_ID (deriveDurationFact inp cls)"
    by (simp add: deriveDurationFact_def mkFact_def Let_def)
  moreover have "factIdentity factKindPriorSituationDurationDistribution ?sid ?v (si_GroupKey (sn_Situation inp)) =
      fa_ID (derivePriorSituationDurationDistributionFact inp)"
    by (simp add: derivePriorSituationDurationDistributionFact_def mkFact_def Let_def)
  ultimately show ?thesis by (auto simp: deriveStoreFactsWith_def Let_def)
qed

section \<open>Stability of the hashes\<close>

lemma incidentSymptomStatus_perm:
  assumes "set ds = set es" and "inj_on de_ID (set ds)"
  shows "incidentSymptomStatus ds = incidentSymptomStatus es"
proof -
  have "incidentSymptomStatus ds = DeliveryStatusFiring \<longleftrightarrow> incidentSymptomStatus es = DeliveryStatusFiring"
    using incidentSymptomStatus_firing_iff [OF assms(2)] incidentSymptomStatus_firing_iff [of es] assms by simp
  moreover have "incidentSymptomStatus xs \<in> {DeliveryStatusFiring, DeliveryStatusResolved}" for xs
    by (simp add: incidentSymptomStatus_def)
  ultimately show ?thesis by (metis insertE singletonD)
qed

lemma symptom_status_perm:
  assumes "set ds = set es" and "inj_on de_ID (set ds)"
  shows "map (\<lambda>s. (sy_Key s, sy_Status s)) (deriveSymptoms ds) = map (\<lambda>s. (sy_Key s, sy_Status s)) (deriveSymptoms es)"
proof -
  have keys: "incidentKeys ds = incidentKeys es"
    using assms(1) by (simp add: incidentKeys_def sortStrings_def sorted_list_of_set_sort_remdups [symmetric])
  have "incidentSymptomStatus (filter (\<lambda>d. de_IncidentID d = k) ds) =
        incidentSymptomStatus (filter (\<lambda>d. de_IncidentID d = k) es)" for k
    by (rule incidentSymptomStatus_perm) (use assms in \<open>auto simp: inj_on_def\<close>)
  then show ?thesis by (simp add: deriveSymptoms_def keys symptomFor_def Let_def)
qed

lemma priorDurationsSeconds_perm:
  "mset ps = mset qs \<Longrightarrow> priorDurationsSeconds ps = priorDurationsSeconds qs"
  unfolding priorDurationsSeconds_def
  by (rule sort_key_perm) simp_all

lemma criticalAnchorEligible_perm:
  assumes "set ds = set es" and "inj_on de_ID (set ds)"
  shows "criticalAnchorEligible ds = criticalAnchorEligible es"
  using criticalAnchorEligible_iff [of ds] criticalAnchorEligible_iff [of es] assms by simp

text \<open>
  Two inputs that agree up to the order of their rows: the deliveries, the member Incidents and the
  prior Situations.
\<close>

definition sameRows :: "snapshotInput \<Rightarrow> snapshotInput \<Rightarrow> bool" where
  "sameRows a b \<longleftrightarrow> sn_Situation a = sn_Situation b \<and> sn_Now a = sn_Now b \<and>
     mset (sn_Deliveries a) = mset (sn_Deliveries b) \<and> inj_on de_ID (set (sn_Deliveries a)) \<and>
     mset (sn_Incidents a) = mset (sn_Incidents b) \<and> inj_on inc_ID (set (sn_Incidents a)) \<and>
     mset (sn_PriorSituations a) = mset (sn_PriorSituations b)"

lemma MaterialFactHash_perm:
  assumes "sameRows a b"
  shows "MaterialFactHash od a (deriveSymptoms (sn_Deliveries a)) cls =
         MaterialFactHash od b (deriveSymptoms (sn_Deliveries b)) cls"
proof -
  have set: "set (sn_Deliveries a) = set (sn_Deliveries b)" and inj: "inj_on de_ID (set (sn_Deliveries a))"
    using assms by (auto simp: sameRows_def dest: mset_eq_setD)
  have sym: "map (\<lambda>s. (sy_Key s, statusText (sy_Status s))) (deriveSymptoms (sn_Deliveries a)) =
      map (\<lambda>s. (sy_Key s, statusText (sy_Status s))) (deriveSymptoms (sn_Deliveries b))"
    using arg_cong [OF symptom_status_perm [OF set inj], of "map (\<lambda>p. (fst p, statusText (snd p)))"]
    by (simp add: comp_def)
  have inc: "sort_key inc_ID (sn_Incidents a) = sort_key inc_ID (sn_Incidents b)"
    using assms by (intro sort_key_perm) (auto simp: sameRows_def)
  have dto: "materialIncidentDTO (sn_Deliveries a) = materialIncidentDTO (sn_Deliveries b)"
    using MembershipDigest_perm assms by (intro ext) (auto simp: materialIncidentDTO_def sameRows_def Let_def)
  have pr: "priorDurationsSeconds (sn_PriorSituations a) = priorDurationsSeconds (sn_PriorSituations b)"
    using assms by (intro priorDurationsSeconds_perm) (simp add: sameRows_def)
  show ?thesis
    unfolding MaterialFactHash_def sym inc dto pr using assms by (simp add: sameRows_def)
qed

lemma EligibleReasons_perm:
  assumes "sameRows a b"
  shows "EligibleReasons a s cls = EligibleReasons b t cls"
proof -
  have "criticalAnchorEligible (sn_Deliveries a) = criticalAnchorEligible (sn_Deliveries b)"
    using assms by (intro criticalAnchorEligible_perm) (auto simp: sameRows_def dest: mset_eq_setD)
  moreover have "priorDurationsSeconds (sn_PriorSituations a) = priorDurationsSeconds (sn_PriorSituations b)"
    using assms by (intro priorDurationsSeconds_perm) (simp add: sameRows_def)
  moreover have "elapsedDuration a = elapsedDuration b"
    using assms by (simp add: elapsedDuration_def sameRows_def)
  ultimately show ?thesis
    using assms by (simp add: EligibleReasons_def Let_def novelSymptomEligible_def terminalUncertaintyEligible_def
        onlyIf_def sameRows_def)
qed

text \<open>Raising the input version changes candidate IDs, and leaves the reuse guard alone.\<close>

definition withInputVersion :: "int \<Rightarrow> snapshotInput \<Rightarrow> snapshotInput" where
  "withInputVersion v inp = inp\<lparr>sn_Situation := (sn_Situation inp)\<lparr>si_InputVersion := v\<rparr>\<rparr>"

lemma EligibleReasons_basis:
  "map assessmentBasisReasonDTO (sort_key rc_Code (EligibleReasons (withInputVersion v inp) symptoms cls)) =
   map assessmentBasisReasonDTO (sort_key rc_Code (EligibleReasons inp symptoms cls))"
  by (simp add: EligibleReasons_def Let_def onlyIf_def newReasonCandidate_def novelSymptomEligible_def
      terminalUncertaintyEligible_def withInputVersion_def elapsedDuration_def assessmentBasisReasonDTO_def
      reasonCodeCriticalAnchor_def reasonCodeDurationOutlier_def)

lemma AssessmentBasisHash_inputVersion:
  "AssessmentBasisHash (withInputVersion v inp)
     (MaterialFactHash od (withInputVersion v inp) symptoms cls) (EligibleReasons (withInputVersion v inp) symptoms cls) =
   AssessmentBasisHash inp (MaterialFactHash od inp symptoms cls) (EligibleReasons inp symptoms cls)"
proof -
  have "list_ex rc_DeterministicFloor (EligibleReasons (withInputVersion v inp) symptoms cls) =
        list_ex rc_DeterministicFloor (EligibleReasons inp symptoms cls)"
    unfolding EligibleReasons_floor_iff by (simp add: withInputVersion_def)
  moreover have "MaterialFactHash od (withInputVersion v inp) symptoms cls = MaterialFactHash od inp symptoms cls"
    by (simp add: MaterialFactHash_def withInputVersion_def)
  ultimately show ?thesis
    unfolding AssessmentBasisHash_def EligibleReasons_basis by (simp add: withInputVersion_def)
qed

end
