(* ===== verification/Assessment.thy ===== *)
theory Assessment
  imports Facts
begin

text \<open>
  \<^verbatim>\<open>internal/situation/assessment.go\<close>: the derivation of an Assessment from a proposal and durable
  controller state (contract, cadence, evidence quality), the deterministic fallback, the reuse of a
  prior Assessment, the policy validation of a model proposal and the classification of a call's outcome.
  The two results of \<^verbatim>\<open>json.Unmarshal\<close> on a response are arguments of
  \<open>ValidateAssessmentProposal\<close>, and a transport error is the record of what \<^verbatim>\<open>errors.Is\<close> and
  \<^verbatim>\<open>errors.As\<close> find in its chain.
\<close>

section \<open>Controller state\<close>

record assessmentResult =
  ars_Assessment :: assessment
  ars_Derivation :: assessmentDerivation
  ars_AssessmentBasisHash :: string
  ars_MaterialFactHash :: string
  ars_InputVersion :: int
  ars_Coverage :: "incidentCoverage list"
  ars_ReusedFromAssessmentID :: "string option"

datatype triagePhase =
    TriagePhaseNone | TriagePhaseAwaitingDecision | TriagePhaseInFlight | TriagePhaseBackoff

datatype semanticRetryPhase =
    SemanticRetryPhaseNone | SemanticRetryPhaseDue | SemanticRetryPhaseBlocked

record cadenceTempo =
  ct_Fast :: duration
  ct_Normal :: duration
  ct_Slow :: duration

record controllerState =
  cst_Lifecycle :: lifecycle
  cst_Attention :: attention
  cst_OperatorActionRequired :: "operatorAction option"
  cst_TriagePhase :: triagePhase
  cst_SemanticRetry :: semanticRetryPhase
  cst_Tempo :: cadenceTempo
  cst_TriageDueAt :: "gtime option"
  cst_FutureTriageDueAt :: "gtime option"
  cst_SemanticRetryAt :: "gtime option"
  cst_RecoveryGraceUntil :: "gtime option"
  cst_LifecycleObservationDeadlineAt :: "gtime option"
  cst_EarliestPersistedCheckpoint :: "gtime option"

definition minNextUpdateLead :: duration where "minNextUpdateLead = second"

definition withDefaults :: "cadenceTempo \<Rightarrow> cadenceTempo" where
  "withDefaults t =
     \<lparr>ct_Fast = (if ct_Fast t \<le> 0 then 60 * second else ct_Fast t),
      ct_Normal = (if ct_Normal t \<le> 0 then 300 * second else ct_Normal t),
      ct_Slow = (if ct_Slow t \<le> 0 then 900 * second else ct_Slow t)\<rparr>"

definition Interval :: "cadenceTempo \<Rightarrow> cadence \<Rightarrow> duration" where
  "Interval t0 c =
     (let t = withDefaults t0 in
      case c of CadenceFast \<Rightarrow> ct_Fast t | CadenceNormal \<Rightarrow> ct_Normal t | CadenceSlow \<Rightarrow> ct_Slow t | _ \<Rightarrow> ct_Slow t)"

definition DeriveCadence :: "controllerState \<Rightarrow> cadence" where
  "DeriveCadence state =
     (if Terminal (cst_Lifecycle state) then CadenceNone
      else if cst_Attention state = AttentionUrgent then CadenceFast
      else if cst_Lifecycle state = LifecycleRecoveryPending then CadenceFast
      else if cst_TriagePhase state = TriagePhaseInFlight then CadenceFast
      else if cst_Attention state = AttentionInvestigate then CadenceNormal
      else CadenceSlow)"

section \<open>The Operator contract\<close>

record alertINTBranch =
  ab_action :: "alertINTAction option"
  ab_status :: "alertINTStatus option"
  ab_waitReason :: "waitReason option"

definition deriveAlertINTBranch :: "controllerState \<Rightarrow> alertINTBranch" where
  "deriveAlertINTBranch state =
     (let branch = (\<lambda>a s w. \<lparr>ab_action = Some a, ab_status = Some s, ab_waitReason = w\<rparr>) in
      if Terminal (cst_Lifecycle state) then \<lparr>ab_action = None, ab_status = None, ab_waitReason = None\<rparr>
      else if cst_TriagePhase state = TriagePhaseAwaitingDecision
      then branch AlertINTActionRunAcuteTriage AlertINTStatusPlanned None
      else if cst_TriagePhase state = TriagePhaseInFlight
      then branch AlertINTActionRunAcuteTriage AlertINTStatusRunning None
      else if cst_TriagePhase state = TriagePhaseBackoff
      then branch AlertINTActionRunAcuteTriage AlertINTStatusWaiting (Some WaitReasonAcuteTriageBackoff)
      else if cst_SemanticRetry state = SemanticRetryPhaseDue
      then branch AlertINTActionRetrySituationAssessment AlertINTStatusWaiting (Some WaitReasonAssessmentRetry)
      else if cst_SemanticRetry state = SemanticRetryPhaseBlocked
      then branch AlertINTActionRetrySituationAssessment AlertINTStatusBlocked (Some WaitReasonAssessmentParked)
      else if cst_Lifecycle state = LifecycleRecoveryPending
      then branch AlertINTActionVerifyRecovery AlertINTStatusWaiting (Some WaitReasonRecoveryGrace)
      else branch AlertINTActionMonitorSituation AlertINTStatusWaiting (Some WaitReasonSourceChange))"

definition actorFor :: "operatorAction option \<Rightarrow> alertINTAction option \<Rightarrow> nextActor" where
  "actorFor operatorRequired alertAction =
     (if operatorRequired \<noteq> None then NextActorOperator
      else if alertAction \<noteq> None then NextActorAlertINT else NextActorNone)"

fun earliestOf :: "gtime \<Rightarrow> gtime option list \<Rightarrow> gtime" where
  "earliestOf e [] = e"
| "earliestOf e (None # cs) = earliestOf e cs"
| "earliestOf e (Some t # cs) = earliestOf (if tBefore t e then t else e) cs"

definition futureOnly :: "gtime option \<Rightarrow> gtime \<Rightarrow> gtime option list" where
  "futureOnly t now = (case t of Some x \<Rightarrow> if tAfter x now then [Some x] else [] | None \<Rightarrow> [])"

definition updateCandidates :: "controllerState \<Rightarrow> gtime \<Rightarrow> gtime option list" where
  "updateCandidates state now =
     [cst_SemanticRetryAt state, cst_RecoveryGraceUntil state,
      cst_LifecycleObservationDeadlineAt state, cst_EarliestPersistedCheckpoint state] @
     futureOnly (cst_TriageDueAt state) now @ futureOnly (cst_FutureTriageDueAt state) now"

definition nextUpdateAt :: "controllerState \<Rightarrow> cadence \<Rightarrow> gtime \<Rightarrow> gtime" where
  "nextUpdateAt state cad now =
     (let earliest = earliestOf (tAdd now (Interval (cst_Tempo state) cad)) (updateCandidates state now)
      in if \<not> tAfter earliest now then tAdd now minNextUpdateLead else earliest)"

definition nextUpdateOnOf :: "controllerState \<Rightarrow> nextUpdateOn list" where
  "nextUpdateOnOf state =
     onlyIf (cst_TriageDueAt state \<noteq> None) NextUpdateOnTriageOutcome @
     onlyIf (cst_SemanticRetryAt state \<noteq> None) NextUpdateOnAssessmentRetryDue @
     onlyIf (cst_RecoveryGraceUntil state \<noteq> None) NextUpdateOnRecoveryGraceExpired @
     onlyIf (cst_LifecycleObservationDeadlineAt state \<noteq> None) NextUpdateOnLifecycleObservationDeadline @
     onlyIf (cst_EarliestPersistedCheckpoint state \<noteq> None) NextUpdateOnMaterialInput"

definition DeriveActionContract :: "controllerState \<Rightarrow> cadence \<Rightarrow> gtime \<Rightarrow> actionContract" where
  "DeriveActionContract state cad now =
     (let branch = deriveAlertINTBranch state;
          contract = \<lparr>ac_NextActor = actorFor (cst_OperatorActionRequired state) (ab_action branch),
            ac_AlertINTAction = ab_action branch, ac_AlertINTStatus = ab_status branch,
            ac_OperatorActionRequired = cst_OperatorActionRequired state, ac_NextUpdateAt = None,
            ac_NextUpdateOn = [], ac_WaitReason = ab_waitReason branch\<rparr>
      in if Terminal (cst_Lifecycle state) then contract
         else contract\<lparr>ac_NextUpdateAt := Some (nextUpdateAt state cad now),
                ac_NextUpdateOn := nextUpdateOnOf state\<rparr>)"

section \<open>Evidence quality\<close>

definition materialFactResults :: "snapshot \<Rightarrow> bool list" where
  "materialFactResults snap =
     map (\<lambda>f. fa_ResultStatus f = FactConfirmedValue \<or> fa_ResultStatus f = FactConfirmedEmpty)
       (filter fa_Material (ss_Facts snap)) @
     map (\<lambda>f. xf_Freshness f = ''fresh'' \<and>
            (xf_ResultStatus f = ''confirmed_value'' \<or> xf_ResultStatus f = ''confirmed_empty''))
       (filter xf_Material (ss_Observations snap))"

definition DeriveEvidenceQuality :: "snapshot \<Rightarrow> evidenceQuality" where
  "DeriveEvidenceQuality snap =
     (let results = materialFactResults snap;
          total = length results; confirmed = length (filter id results)
      in if total = 0 \<or> confirmed = 0 then EvidenceQualityInsufficient
         else if confirmed = total then EvidenceQualityComplete
         else EvidenceQualityDegraded)"

section \<open>Reason candidates\<close>

definition findEligibleCandidateByID :: "reasonCandidate list \<Rightarrow> string \<Rightarrow> reasonCandidate option" where
  "findEligibleCandidateByID candidates i = find (\<lambda>c. rc_ID c = i) candidates"

definition findEligibleCandidateByCode :: "reasonCandidate list \<Rightarrow> string \<Rightarrow> reasonCandidate option" where
  "findEligibleCandidateByCode candidates code = find (\<lambda>c. rc_Code c = code) candidates"

definition findFloorCandidate :: "reasonCandidate list \<Rightarrow> reasonCandidate option" where
  "findFloorCandidate candidates = find rc_DeterministicFloor candidates"

definition hasDeterministicFloor :: "reasonCandidate list \<Rightarrow> bool" where
  "hasDeterministicFloor candidates = (findFloorCandidate candidates \<noteq> None)"

definition factExists :: "fact list \<Rightarrow> string \<Rightarrow> bool" where
  "factExists facts i = list_ex (\<lambda>f. fa_ID f = i) facts"

definition operatorActionRequired ::
  "sufficientReason option \<Rightarrow> reasonCandidate list \<Rightarrow> attention \<Rightarrow> operatorAction option" where
  "operatorActionRequired reason eligible att =
     (case reason of None \<Rightarrow> None
      | Some r \<Rightarrow>
          if att \<noteq> AttentionInvestigate then None
          else case findEligibleCandidateByID eligible (sr_CandidateID r) of
            None \<Rightarrow> None
          | Some c \<Rightarrow> if rc_DeterministicFloor c then None else Some OperatorActionInvestigateSituation)"

definition DeriveIncidentCoverage :: "snapshotInput \<Rightarrow> incidentCoverage list" where
  "DeriveIncidentCoverage inp =
     map (\<lambda>inc. \<lparr>ic_IncidentID = inc_ID inc, ic_MembershipDigest = MembershipDigest (inc_ID inc) (sn_Deliveries inp),
            ic_IncidentInputDigest = IncidentInputDigest (inc_ID inc) (inc_GroupKey inc) (sn_Deliveries inp)\<rparr>)
       (sortIncidentsByID (sn_Incidents inp))"

section \<open>Deriving an Assessment\<close>

definition DeriveAssessment ::
  "assessmentProposal \<Rightarrow> snapshot \<Rightarrow> snapshotInput \<Rightarrow> controllerState \<Rightarrow> assessmentDerivation \<Rightarrow> string option
     \<Rightarrow> gtime \<Rightarrow> assessmentResult" where
  "DeriveAssessment proposal snap inp state0 derivation reusedFrom now =
     (let state = state0\<lparr>cst_Lifecycle := ss_Lifecycle snap, cst_Attention := ap_Attention proposal,
            cst_OperatorActionRequired := operatorActionRequired (ap_SufficientReason proposal)
              (ss_EligibleReasons snap) (ap_Attention proposal)\<rparr>;
          cad = DeriveCadence state;
          contract = DeriveActionContract state cad now
      in \<lparr>ars_Assessment = \<lparr>as_SchemaVersion = AssessmentSchemaVersion, as_Persistence = ap_Persistence proposal,
            as_Impact = ap_Impact proposal, as_Novelty = ap_Novelty proposal, as_Causality = ap_Causality proposal,
            as_Attention = ap_Attention proposal, as_Lifecycle = ss_Lifecycle snap,
            as_EvidenceQuality = DeriveEvidenceQuality snap, as_SufficientReason = ap_SufficientReason proposal,
            as_ActionContract = contract, as_Limitations = ap_Limitations proposal, as_Cadence = cad\<rparr>,
          ars_Derivation = derivation, ars_AssessmentBasisHash = ss_AssessmentBasisHash snap,
          ars_MaterialFactHash = ss_MaterialFactHash snap, ars_InputVersion = ss_InputVersion snap,
          ars_Coverage = DeriveIncidentCoverage inp, ars_ReusedFromAssessmentID = reusedFrom\<rparr>)"

definition limitationSemanticAssessmentUnavailable :: string where
  "limitationSemanticAssessmentUnavailable = ''semantic_assessment_unavailable''"

text \<open>The proposal \<^verbatim>\<open>DeterministicAssessment\<close> makes.\<close>

definition deterministicProposal :: "snapshot \<Rightarrow> limitation list \<Rightarrow> assessmentProposal" where
  "deterministicProposal snap limitations =
     \<lparr>ap_SchemaVersion = AssessmentSchemaVersion, ap_Persistence = PersistenceUnknown,
      ap_Impact = ImpactNoneObserved, ap_Novelty = NoveltyInsufficientHistory, ap_Causality = CausalityUnknown,
      ap_Attention = (if findFloorCandidate (ss_EligibleReasons snap) \<noteq> None then AttentionUrgent else AttentionObserve),
      ap_SufficientReason = map_option (\<lambda>c. \<lparr>sr_Code = rc_Code c, sr_CandidateID = rc_ID c, sr_Summary = rc_Summary c,
          sr_EvidenceRefs = rc_EvidenceRefs c\<rparr>) (findFloorCandidate (ss_EligibleReasons snap)),
      ap_Limitations = limitations\<rparr>"

definition DeterministicAssessment ::
  "snapshot \<Rightarrow> snapshotInput \<Rightarrow> controllerState \<Rightarrow> assessmentDerivation \<Rightarrow> limitation list \<Rightarrow> gtime \<Rightarrow> assessmentResult" where
  "DeterministicAssessment snap inp state derivation limitations now =
     DeriveAssessment (deterministicProposal snap limitations) snap inp state derivation None now"

definition fallbackLimitation :: limitation where
  "fallbackLimitation = \<lparr>li_Code = limitationSemanticAssessmentUnavailable,
     li_Detail = ''L2 failed and no trustworthy prior Assessment exists; this Assessment is controller-authored.''\<rparr>"

definition DeterministicFallback ::
  "snapshot \<Rightarrow> snapshotInput \<Rightarrow> controllerState \<Rightarrow> gtime \<Rightarrow> assessmentResult" where
  "DeterministicFallback snap inp state now =
     DeterministicAssessment snap inp state DerivationDeterministicFallback [fallbackLimitation] now"

section \<open>Validating a proposal\<close>

datatype proposalOutcome =
    ProposalOutcomeAccepted | ProposalOutcomeContradicted | ProposalOutcomeMalformed
  | ProposalOutcomePolicyRejected | ProposalOutcomeCapabilityRejected | ProposalOutcomeStaleBasis

definition accepted :: "proposalOutcome \<Rightarrow> bool" where
  "accepted x = (x = ProposalOutcomeAccepted \<or> x = ProposalOutcomeContradicted)"

datatype issueCategory =
    IssueCategoryMalformed | IssueCategoryPolicy | IssueCategoryCapability | IssueCategoryStaleBasis
  | IssueCategoryAdjustment

record validationIssue =
  vi_Category :: issueCategory
  vi_Code :: string
  vi_Field :: string
  vi_Detail :: string

text \<open>A rejected result carries the zero proposal, which is \<open>None\<close> here.\<close>

record validationResult =
  vr_Outcome :: proposalOutcome
  vr_Proposal :: "assessmentProposal option"
  vr_RejectedProposal :: "assessmentProposal option"
  vr_Errors :: "validationIssue list"
  vr_Adjustments :: "validationIssue list"

definition allowedProposalTopLevelKeys :: "string list" where
  "allowedProposalTopLevelKeys = [''schema_version'', ''persistence'', ''impact'', ''novelty'', ''causality'',
     ''attention'', ''sufficient_reason'', ''limitations'']"

definition knownLimitationCode :: "string \<Rightarrow> bool" where
  "knownLimitationCode code =
     (code = limitationSemanticAssessmentUnavailable \<or>
      list_ex (\<lambda>l. li_Code l = code) reservedUnsupportedCapabilities)"

definition allowedLimitationCode :: "snapshot \<Rightarrow> string \<Rightarrow> bool" where
  "allowedLimitationCode snap code =
     (if knownLimitationCode code then True
      else if \<not> dynamicLimitationCode code then False
      else list_ex (\<lambda>c. c = code) (DynamicLimitationCodes (ss_CapabilityResults snap) (ss_Deferred snap)))"

definition maxBoundedTextLength :: nat where "maxBoundedTextLength = 2000"

definition proposalTextBounded :: "assessmentProposal \<Rightarrow> bool" where
  "proposalTextBounded p \<longleftrightarrow>
     pred_option (\<lambda>r. length (sr_Summary r) \<le> maxBoundedTextLength) (ap_SufficientReason p) \<and>
     list_all (\<lambda>l. length (li_Detail l) \<le> maxBoundedTextLength) (ap_Limitations p)"

definition rejected :: "proposalOutcome \<Rightarrow> issueCategory \<Rightarrow> string \<Rightarrow> string \<Rightarrow> string \<Rightarrow> validationResult" where
  "rejected x cat code field detail =
     \<lparr>vr_Outcome = x, vr_Proposal = None, vr_RejectedProposal = None,
      vr_Errors = [\<lparr>vi_Category = cat, vi_Code = code, vi_Field = field, vi_Detail = detail\<rparr>], vr_Adjustments = []\<rparr>"

definition malformedResult :: "string \<Rightarrow> string \<Rightarrow> string \<Rightarrow> validationResult" where
  "malformedResult = rejected ProposalOutcomeMalformed IssueCategoryMalformed"

definition policyResult :: "string \<Rightarrow> string \<Rightarrow> string \<Rightarrow> validationResult" where
  "policyResult = rejected ProposalOutcomePolicyRejected IssueCategoryPolicy"

definition capabilityRejection :: "string \<Rightarrow> string \<Rightarrow> string \<Rightarrow> validationResult" where
  "capabilityRejection = rejected ProposalOutcomeCapabilityRejected IssueCategoryCapability"

definition staleBasisResult :: "string \<Rightarrow> string \<Rightarrow> string \<Rightarrow> validationResult" where
  "staleBasisResult = rejected ProposalOutcomeStaleBasis IssueCategoryStaleBasis"

definition materialClaim :: "assessmentProposal \<Rightarrow> bool" where
  "materialClaim p = (ap_Causality p = CausalitySupported \<or> ap_Impact p = ImpactConfirmed)"

text \<open>
  The loops over limitations and evidence references return at the first offender; the checks below
  ask whether there is one, and the field names the index.
\<close>

definition reasonRejection :: "assessmentProposal \<Rightarrow> snapshot \<Rightarrow> validationResult option" where
  "reasonRejection p snap =
     (case ap_SufficientReason p of None \<Rightarrow> None
      | Some r \<Rightarrow>
          if (case findEligibleCandidateByID (ss_EligibleReasons snap) (sr_CandidateID r) of
                None \<Rightarrow> True | Some c \<Rightarrow> rc_Code c \<noteq> sr_Code r)
          then Some (capabilityRejection ''reason_id_unknown'' ''sufficient_reason.candidate_id''
                 ''candidate ID not present in this Snapshot's eligible_reasons'')
          else if list_ex (\<lambda>ref. \<not> factExists (ss_Facts snap) ref \<and> \<not> observationFactExists (ss_Observations snap) ref)
                 (sr_EvidenceRefs r)
          then Some (policyResult ''evidence_ref_missing'' ''sufficient_reason.evidence_refs''
                 ''evidence reference not present in the claimed snapshot'')
          else None)"

definition causalityRejection :: "assessmentProposal \<Rightarrow> snapshot \<Rightarrow> validationResult option" where
  "causalityRejection p snap =
     (case ap_SufficientReason p of
        None \<Rightarrow> None
      | Some r \<Rightarrow>
          if ap_Causality p \<noteq> CausalitySupported then None
          else if sr_Code r = reasonCodeDurationOutlier
          then Some (policyResult ''temporal_overlap_as_cause'' ''causality''
                 ''duration_outlier is a temporal-coincidence predicate, not a supported cause'')
          else if (case findEligibleCandidateByID (ss_EligibleReasons snap) (sr_CandidateID r) of
                     None \<Rightarrow> True | Some c \<Rightarrow> \<not> rc_DeterministicFloor c)
          then Some (policyResult ''causality_too_strong'' ''causality''
                 ''supported causality requires a deterministic-floor Sufficient reason in Plan 2'')
          else None)"

fun firstIndex :: "('a \<Rightarrow> bool) \<Rightarrow> int \<Rightarrow> 'a list \<Rightarrow> int option" where
  "firstIndex P i [] = None"
| "firstIndex P i (x # xs) = (if P x then Some i else firstIndex P (i + 1) xs)"

definition raiseToFloor :: "bool \<Rightarrow> assessmentProposal \<Rightarrow> validationResult" where
  "raiseToFloor hasFloor p =
     (let raise = hasFloor \<and> ap_Attention p \<noteq> AttentionUrgent in
      \<lparr>vr_Outcome = (if ap_Causality p = CausalityContradicted then ProposalOutcomeContradicted else ProposalOutcomeAccepted),
       vr_Proposal = Some (if raise then p\<lparr>ap_Attention := AttentionUrgent\<rparr> else p),
       vr_RejectedProposal = None, vr_Errors = [],
       vr_Adjustments = onlyIf raise \<lparr>vi_Category = IssueCategoryAdjustment, vi_Code = ''attention_raised_to_floor'',
         vi_Field = ''attention'', vi_Detail = ''raised to urgent: a deterministic urgent anchor is active''\<rparr>\<rparr>)"

definition validateProposalContent :: "assessmentProposal \<Rightarrow> snapshot \<Rightarrow> validationResult" where
  "validateProposalContent p snap =
     (if ap_Causality p = CausalityOperatorConfirmed
      then policyResult ''operator_confirmation_unavailable'' ''causality''
             ''Plan 2 has no manual reassessment producer to ground operator_confirmed causality''
      else case firstIndex (\<lambda>l. \<not> allowedLimitationCode snap (li_Code l)) 0 (ap_Limitations p) of
        Some i \<Rightarrow> capabilityRejection ''limitation_code_unknown'' (''limitations['' @ itoa i @ ''].code'')
                    ''limitation code not present in this build's known/allowed set''
      | None \<Rightarrow>
        (case reasonRejection p snap of Some e \<Rightarrow> e | None \<Rightarrow>
           if materialClaim p \<and> ap_SufficientReason p = None
           then policyResult ''ungrounded_material_claim'' []
                  ''a confirmed-grade material claim requires a grounded Sufficient reason''
           else case causalityRejection p snap of Some e \<Rightarrow> e | None \<Rightarrow>
             let hasFloor = hasDeterministicFloor (ss_EligibleReasons snap) in
             if ap_Attention p = AttentionUrgent \<and> \<not> hasFloor
             then policyResult ''urgent_without_floor'' ''attention'' ''urgent attention requires a deterministic urgent anchor''
             else raiseToFloor hasFloor p))"

record assessmentCall =
  acl_ID :: string
  acl_SituationID :: string
  acl_MaterialFactHash :: string
  acl_ProviderProfile :: "string option"
  acl_InputVersion :: int
  acl_RetryEpoch :: int
  acl_WorkAttempt :: int
  acl_CallNumber :: int
  acl_DispatchedAt :: gtime
  acl_PreparationCycleID :: string

text \<open>
  \<open>keys\<close> is the list of top-level keys when the response decodes as a JSON object, \<open>decoded\<close> the
  proposal or the decoder's error.
\<close>

definition ValidateAssessmentProposal ::
  "string list option \<Rightarrow> (string + assessmentProposal) \<Rightarrow> snapshot \<Rightarrow> assessmentCall \<Rightarrow> gtime \<Rightarrow> validationResult" where
  "ValidateAssessmentProposal keys decoded snap call now =
     (if acl_InputVersion call \<noteq> ss_InputVersion snap \<or> acl_MaterialFactHash call \<noteq> ss_MaterialFactHash snap
      then staleBasisResult ''stale_input_version'' []
             ''call dispatched against a superseded input version or material fact hash''
      else case keys of
        None \<Rightarrow> malformedResult ''invalid_json'' [] ''response is not a JSON object''
      | Some ks \<Rightarrow>
        (case find (\<lambda>k. k \<notin> set allowedProposalTopLevelKeys) ks of
           Some k \<Rightarrow> malformedResult ''forbidden_field'' k ''top-level key is not a legitimate AssessmentProposal field''
         | None \<Rightarrow>
           (case decoded of
              Inl e \<Rightarrow> malformedResult ''invalid_shape'' [] e
            | Inr p \<Rightarrow>
              (case AssessmentProposal_Validate p of
                 Some e \<Rightarrow> malformedResult ''invalid_shape'' [] e
               | None \<Rightarrow>
                 if \<not> proposalTextBounded p
                 then malformedResult ''unbounded_text'' [] ''summary/detail text exceeds the bounded length''
                 else let result = validateProposalContent p snap in
                   if vr_Outcome result = ProposalOutcomePolicyRejected \<or>
                      vr_Outcome result = ProposalOutcomeCapabilityRejected
                   then result\<lparr>vr_RejectedProposal := Some p\<rparr> else result))))"

section \<open>Reuse\<close>

definition trustworthy :: "authoritativeAssessment \<Rightarrow> goerror" where
  "trustworthy prior =
     (if aa_Derivation prior = DerivationDeterministicFallback then Some ''fallback_not_a_semantic_reuse_source''
      else if Assessment_ValidateShape (aa_Assessment prior) \<noteq> None then Some ''fails_current_validators''
      else None)"

text \<open>\<open>Some None\<close> is a nil reason with \<^verbatim>\<open>ok = true\<close>, \<open>None\<close> a reason that no longer has a candidate.\<close>

definition rebindSufficientReason ::
  "sufficientReason option \<Rightarrow> reasonCandidate list \<Rightarrow> sufficientReason option option" where
  "rebindSufficientReason reason eligible =
     (case reason of None \<Rightarrow> Some None
      | Some r \<Rightarrow>
          (case findEligibleCandidateByCode eligible (sr_Code r) of None \<Rightarrow> None
           | Some c \<Rightarrow> Some (Some \<lparr>sr_Code = rc_Code c, sr_CandidateID = rc_ID c, sr_Summary = sr_Summary r,
                                  sr_EvidenceRefs = rc_EvidenceRefs c\<rparr>)))"

definition reuseProposal :: "assessment \<Rightarrow> sufficientReason option \<Rightarrow> assessmentProposal" where
  "reuseProposal a rebound =
     \<lparr>ap_SchemaVersion = as_SchemaVersion a, ap_Persistence = as_Persistence a, ap_Impact = as_Impact a,
      ap_Novelty = as_Novelty a, ap_Causality = as_Causality a, ap_Attention = as_Attention a,
      ap_SufficientReason = rebound, ap_Limitations = as_Limitations a\<rparr>"

text \<open>\<open>Inr\<close> is \<^verbatim>\<open>Ok\<close> with its result, \<open>Inl\<close> the reason of a refusal.\<close>

definition RevalidateReuse ::
  "authoritativeAssessment \<Rightarrow> snapshot \<Rightarrow> snapshotInput \<Rightarrow> controllerState \<Rightarrow> gtime \<Rightarrow> string + assessmentResult" where
  "RevalidateReuse prior snap inp state now =
     (case trustworthy prior of Some reason \<Rightarrow> Inl reason
      | None \<Rightarrow>
        if aa_AssessmentBasisHash prior \<noteq> ss_AssessmentBasisHash snap then Inl ''assessment_basis_changed''
        else case rebindSufficientReason (as_SufficientReason (aa_Assessment prior)) (ss_EligibleReasons snap) of
          None \<Rightarrow> Inl ''sufficient_reason_no_longer_eligible''
        | Some rebound \<Rightarrow>
          (let result = validateProposalContent (reuseProposal (aa_Assessment prior) rebound) snap in
           if \<not> accepted (vr_Outcome result)
           then Inl (case vr_Errors result of [] \<Rightarrow> ''revalidation_failed''
                     | e # _ \<Rightarrow> ''revalidation_failed:'' @ vi_Code e)
           else case vr_Proposal result of
             None \<Rightarrow> Inl ''revalidation_failed''
           | Some p \<Rightarrow> Inr (DeriveAssessment p snap inp state DerivationRevalidatedReuse (Some (aa_ID prior)) now)))"

section \<open>Outcome classification\<close>

datatype l2Outcome =
    L2OutcomeAccepted | L2OutcomeContradicted | L2OutcomeMalformed | L2OutcomeTransportFailure
  | L2OutcomeRateLimited | L2OutcomePolicyRejected | L2OutcomeCapabilityRejected | L2OutcomeStaleBasis

record l2RetryPolicy =
  rp_Outcome :: l2Outcome
  rp_ImmediateCorrection :: bool
  rp_DurableRetry :: bool

record transportErr =
  te_Malformed :: bool
  te_RetryableStatus :: "int option"
  te_APIStatus :: "int option"

definition classifyTransportErr :: "transportErr \<Rightarrow> bool \<Rightarrow> l2RetryPolicy" where
  "classifyTransportErr err correctionAlreadyUsed =
     (if te_Malformed err
      then \<lparr>rp_Outcome = L2OutcomeMalformed, rp_ImmediateCorrection = (\<not> correctionAlreadyUsed), rp_DurableRetry = True\<rparr>
      else \<lparr>rp_Outcome = (case te_RetryableStatus err of
              Some s \<Rightarrow> if s = 429 then L2OutcomeRateLimited else L2OutcomeTransportFailure
            | None \<Rightarrow> (case te_APIStatus err of
                Some s \<Rightarrow> if s = 429 then L2OutcomeRateLimited else L2OutcomeTransportFailure
              | None \<Rightarrow> L2OutcomeTransportFailure)),
            rp_ImmediateCorrection = False, rp_DurableRetry = True\<rparr>)"

definition ClassifyL2Outcome :: "validationResult option \<Rightarrow> transportErr option \<Rightarrow> bool \<Rightarrow> l2RetryPolicy" where
  "ClassifyL2Outcome vr err correctionAlreadyUsed =
     (let malformed = \<lparr>rp_Outcome = L2OutcomeMalformed, rp_ImmediateCorrection = (\<not> correctionAlreadyUsed),
            rp_DurableRetry = True\<rparr>;
          settled = (\<lambda>x. \<lparr>rp_Outcome = x, rp_ImmediateCorrection = False, rp_DurableRetry = False\<rparr>) in
      case err of Some e \<Rightarrow> classifyTransportErr e correctionAlreadyUsed
      | None \<Rightarrow>
        (case vr of None \<Rightarrow> malformed
         | Some r \<Rightarrow>
           (case vr_Outcome r of
              ProposalOutcomeAccepted \<Rightarrow> settled L2OutcomeAccepted
            | ProposalOutcomeContradicted \<Rightarrow> settled L2OutcomeContradicted
            | ProposalOutcomeMalformed \<Rightarrow> malformed
            | ProposalOutcomePolicyRejected \<Rightarrow> settled L2OutcomePolicyRejected
            | ProposalOutcomeCapabilityRejected \<Rightarrow> settled L2OutcomeCapabilityRejected
            | ProposalOutcomeStaleBasis \<Rightarrow> settled L2OutcomeStaleBasis)))"

section \<open>The contract is always valid and always promises a later update\<close>

lemma Interval_pos: "0 < Interval t c"
  by (simp add: Interval_def withDefaults_def Let_def second_def split: cadence.split)

lemma earliestOf_le: "tns (earliestOf e cs) \<le> tns e"
proof (induction e cs rule: earliestOf.induct)
  case (3 e t cs)
  then show ?case by (simp add: tBefore_def split: if_splits)
qed simp_all

lemma earliestOf_le_candidate: "Some t \<in> set cs \<Longrightarrow> tns (earliestOf e cs) \<le> tns t"
proof (induction e cs rule: earliestOf.induct)
  case (3 e u cs)
  show ?case
  proof (cases "Some t \<in> set cs")
    case True
    then show ?thesis using 3 by simp
  next
    case False
    with 3 have "u = t" by simp
    then show ?thesis using earliestOf_le [of "if tBefore u e then u else e" cs]
      by (simp add: tBefore_def split: if_splits)
  qed
qed simp_all

lemma nextUpdateAt_after: "tns now < tns (nextUpdateAt state cad now)"
  by (simp add: nextUpdateAt_def Let_def tAfter_def minNextUpdateLead_def second_def tAdd_def)

lemma nextUpdateAt_le:
  assumes "tns (earliestOf (tAdd now (Interval (cst_Tempo state) cad)) (updateCandidates state now)) \<le> b"
  shows "tns (nextUpdateAt state cad now) \<le> max b (tns now + second)"
  using assms by (simp add: nextUpdateAt_def Let_def minNextUpdateLead_def tAdd_def le_max_iff_disj)

lemma nextUpdateAt_le_interval:
  "tns (nextUpdateAt state cad now) \<le> max (tns now + Interval (cst_Tempo state) cad) (tns now + second)"
proof (rule nextUpdateAt_le)
  show "tns (earliestOf (tAdd now (Interval (cst_Tempo state) cad)) (updateCandidates state now))
      \<le> tns now + Interval (cst_Tempo state) cad"
    using earliestOf_le [of "tAdd now (Interval (cst_Tempo state) cad)"] by simp
qed

text \<open>The instants a contract may have to wake for.\<close>

definition wakeInstants :: "controllerState \<Rightarrow> gtime option list" where
  "wakeInstants state = [cst_SemanticRetryAt state, cst_RecoveryGraceUntil state,
     cst_LifecycleObservationDeadlineAt state, cst_EarliestPersistedCheckpoint state,
     cst_TriageDueAt state, cst_FutureTriageDueAt state]"

lemma updateCandidates_future:
  assumes "Some t \<in> set (wakeInstants state)" "tns now < tns t"
  shows "Some t \<in> set (updateCandidates state now)"
proof -
  have future: "x = Some t \<Longrightarrow> Some t \<in> set (futureOnly x now)" for x
    using assms(2) by (simp add: futureOnly_def tAfter_def)
  have "Some t = cst_SemanticRetryAt state \<or> Some t = cst_RecoveryGraceUntil state \<or>
     Some t = cst_LifecycleObservationDeadlineAt state \<or> Some t = cst_EarliestPersistedCheckpoint state \<or>
     cst_TriageDueAt state = Some t \<or> cst_FutureTriageDueAt state = Some t"
    using assms(1) by (auto simp: wakeInstants_def)
  then show ?thesis
    by (elim disjE) (simp_all add: updateCandidates_def future)
qed

lemma nextUpdateAt_le_wake:
  assumes "Some t \<in> set (wakeInstants state)" "tns now < tns t"
  shows "tns (nextUpdateAt state cad now) \<le> max (tns t) (tns now + second)"
  by (rule nextUpdateAt_le, rule earliestOf_le_candidate, rule updateCandidates_future [OF assms])

lemma deriveAlertINTBranch_valid:
  "pred_option (\<lambda>a. AlertINTAction_Validate a = None) (ab_action (deriveAlertINTBranch state))"
  "pred_option (\<lambda>a. AlertINTStatus_Validate a = None) (ab_status (deriveAlertINTBranch state))"
  "pred_option (\<lambda>w. WaitReason_Validate w = None) (ab_waitReason (deriveAlertINTBranch state))"
  by (simp_all add: deriveAlertINTBranch_def Let_def AlertINTAction_Validate_def AlertINTStatus_Validate_def
      WaitReason_Validate_def validateEnum_def)

lemma deriveAlertINTBranch_None_iff:
  "ab_action (deriveAlertINTBranch state) = None \<longleftrightarrow> Terminal (cst_Lifecycle state)"
  by (simp add: deriveAlertINTBranch_def Let_def)

lemma actorFor_contractActor: "actorFor = contractActor"
  by (intro ext) (simp add: actorFor_def contractActor_def)

lemma nextUpdateOnOf_valid: "list_all (\<lambda>u. NextUpdateOn_Validate u = None) (nextUpdateOnOf state)"
  by (simp add: nextUpdateOnOf_def onlyIf_def NextUpdateOn_Validate_def validateEnum_def)

lemma DeriveActionContract_simps [simp]:
  "ac_NextActor (DeriveActionContract state cad now) =
     contractActor (cst_OperatorActionRequired state) (ab_action (deriveAlertINTBranch state))"
  "ac_AlertINTAction (DeriveActionContract state cad now) = ab_action (deriveAlertINTBranch state)"
  "ac_AlertINTStatus (DeriveActionContract state cad now) = ab_status (deriveAlertINTBranch state)"
  "ac_OperatorActionRequired (DeriveActionContract state cad now) = cst_OperatorActionRequired state"
  "ac_WaitReason (DeriveActionContract state cad now) = ab_waitReason (deriveAlertINTBranch state)"
  "ac_NextUpdateAt (DeriveActionContract state cad now) =
     (if Terminal (cst_Lifecycle state) then None else Some (nextUpdateAt state cad now))"
  "ac_NextUpdateOn (DeriveActionContract state cad now) =
     (if Terminal (cst_Lifecycle state) then [] else nextUpdateOnOf state)"
  by (simp_all add: DeriveActionContract_def Let_def actorFor_contractActor)

lemma DeriveActionContract_valid:
  assumes "pred_option (\<lambda>a. OperatorAction_Validate a = None) (cst_OperatorActionRequired state)"
  shows "ActionContract_validate (Terminal (cst_Lifecycle state)) (DeriveActionContract state cad now) = None"
  unfolding ActionContract_validate_iff contractCodesClosed_def DeriveActionContract_simps
  using assms deriveAlertINTBranch_valid [of state] nextUpdateOnOf_valid [of state] by simp

lemma DeriveActionContract_fresh:
  "requireFreshNextUpdateAt (DeriveActionContract state cad now) now = None"
  by (simp add: requireFreshNextUpdateAt_iff nextUpdateAt_after)

section \<open>A derived Assessment is valid\<close>

lemma DeriveCadence_None_iff: "DeriveCadence state = CadenceNone \<longleftrightarrow> Terminal (cst_Lifecycle state)"
  by (simp add: DeriveCadence_def)

lemma DeriveCadence_valid: "Cadence_Validate (DeriveCadence state) = None"
  by (simp add: DeriveCadence_def Cadence_Validate_def validateEnum_def)

lemma DeriveEvidenceQuality_valid: "EvidenceQuality_Validate (DeriveEvidenceQuality snap) = None"
  by (simp add: DeriveEvidenceQuality_def Let_def EvidenceQuality_Validate_def validateEnum_def)

lemma length_filter_eq_iff: "length (filter P xs) = length xs \<longleftrightarrow> list_all P xs"
  by (metis filter_True length_filter_less list_all_iff nat_neq_iff)

lemma DeriveEvidenceQuality_complete_iff:
  "DeriveEvidenceQuality snap = EvidenceQualityComplete \<longleftrightarrow>
     materialFactResults snap \<noteq> [] \<and> list_all id (materialFactResults snap)"
proof -
  have "DeriveEvidenceQuality snap = EvidenceQualityComplete \<longleftrightarrow>
     length (materialFactResults snap) \<noteq> 0 \<and>
     length (filter id (materialFactResults snap)) = length (materialFactResults snap)"
    unfolding DeriveEvidenceQuality_def Let_def
    by (metis evidenceQuality.distinct(1) evidenceQuality.distinct(3))
  then show ?thesis by (simp only: length_filter_eq_iff length_0_conv)
qed

lemma DeriveEvidenceQuality_insufficient_iff:
  "DeriveEvidenceQuality snap = EvidenceQualityInsufficient \<longleftrightarrow> \<not> list_ex id (materialFactResults snap)"
proof -
  have "filter id xs = [] \<longleftrightarrow> \<not> list_ex id xs" for xs :: "bool list" by (induction xs) simp_all
  then show ?thesis by (simp add: DeriveEvidenceQuality_def Let_def)
qed

lemma operatorActionRequired_Some:
  "operatorActionRequired r cs att = Some a \<Longrightarrow> a = OperatorActionInvestigateSituation \<and> att = AttentionInvestigate"
  by (auto simp: operatorActionRequired_def split: option.splits if_splits)

lemma operatorActionRequired_valid:
  "pred_option (\<lambda>a. OperatorAction_Validate a = None) (operatorActionRequired r cs att)"
proof (cases "operatorActionRequired r cs att")
  case (Some a)
  then show ?thesis using operatorActionRequired_Some [OF Some]
    by (simp add: OperatorAction_Validate_def validateEnum_def)
qed simp

lemma AssessmentProposal_Validate_iff [validate_simps]:
  "AssessmentProposal_Validate p = None \<longleftrightarrow>
     ap_SchemaVersion p = AssessmentSchemaVersion \<and>
     Persistence_Validate (ap_Persistence p) = None \<and> Impact_Validate (ap_Impact p) = None \<and>
     Novelty_Validate (ap_Novelty p) = None \<and> Causality_Validate (ap_Causality p) = None \<and>
     Attention_Validate (ap_Attention p) = None \<and>
     pred_option (\<lambda>r. SufficientReason_Validate r = None) (ap_SufficientReason p) \<and>
     list_all (\<lambda>l. Limitation_Validate l = None) (ap_Limitations p)"
  unfolding AssessmentProposal_Validate_def firstErr_Cons_None firstErr_map_None pred_option_iff
    wrapErr_None_iff whenSome_None_iff errWhen_None_iff
  by simp

lemma DeriveAssessment_simps [simp]:
  "as_Attention (ars_Assessment (DeriveAssessment p snap inp state der ru now)) = ap_Attention p"
  "as_SufficientReason (ars_Assessment (DeriveAssessment p snap inp state der ru now)) = ap_SufficientReason p"
  "as_Limitations (ars_Assessment (DeriveAssessment p snap inp state der ru now)) = ap_Limitations p"
  "as_Lifecycle (ars_Assessment (DeriveAssessment p snap inp state der ru now)) = ss_Lifecycle snap"
  "ars_Derivation (DeriveAssessment p snap inp state der ru now) = der"
  "ars_AssessmentBasisHash (DeriveAssessment p snap inp state der ru now) = ss_AssessmentBasisHash snap"
  "ars_MaterialFactHash (DeriveAssessment p snap inp state der ru now) = ss_MaterialFactHash snap"
  "ars_InputVersion (DeriveAssessment p snap inp state der ru now) = ss_InputVersion snap"
  "ars_Coverage (DeriveAssessment p snap inp state der ru now) = DeriveIncidentCoverage inp"
  "ars_ReusedFromAssessmentID (DeriveAssessment p snap inp state der ru now) = ru"
  by (simp_all add: DeriveAssessment_def Let_def)

lemma DeriveAssessment_valid:
  assumes "AssessmentProposal_Validate p = None" and "Lifecycle_Validate (ss_Lifecycle snap) = None"
  shows "Assessment_Validate (ars_Assessment (DeriveAssessment p snap inp state der ru now)) now = None"
proof -
  define st where "st = state\<lparr>cst_Lifecycle := ss_Lifecycle snap, cst_Attention := ap_Attention p,
    cst_OperatorActionRequired := operatorActionRequired (ap_SufficientReason p) (ss_EligibleReasons snap) (ap_Attention p)\<rparr>"
  let ?a = "ars_Assessment (DeriveAssessment p snap inp state der ru now)"
  have st: "cst_Lifecycle st = ss_Lifecycle snap"
    "cst_OperatorActionRequired st = operatorActionRequired (ap_SufficientReason p) (ss_EligibleReasons snap) (ap_Attention p)"
    by (simp_all add: st_def)
  have contract: "as_ActionContract ?a = DeriveActionContract st (DeriveCadence st) now" and cad: "as_Cadence ?a = DeriveCadence st"
    by (simp_all add: DeriveAssessment_def Let_def st_def)
  have "ActionContract_validate (Terminal (ss_Lifecycle snap)) (as_ActionContract ?a) = None"
    using DeriveActionContract_valid [of st "DeriveCadence st" now] operatorActionRequired_valid
    unfolding contract st by blast
  moreover have "Terminal (ss_Lifecycle snap) \<longleftrightarrow> as_Cadence ?a = CadenceNone"
    unfolding cad DeriveCadence_None_iff st by simp
  moreover have "assessmentCodesClosed ?a"
    using assms(1) unfolding AssessmentProposal_Validate_iff assessmentCodesClosed_def
    by (simp add: DeriveAssessment_def Let_def assms(2) DeriveEvidenceQuality_valid DeriveCadence_valid)
  moreover have "as_SchemaVersion ?a = AssessmentSchemaVersion" by (simp add: DeriveAssessment_def Let_def)
  ultimately have "Assessment_validateShape ?a = None"
    unfolding Assessment_validateShape_iff by simp
  moreover have "requireFreshNextUpdateAt (as_ActionContract ?a) now = None"
    unfolding contract by (rule DeriveActionContract_fresh)
  ultimately show ?thesis by (simp add: Assessment_Validate_def wrapErr_None_iff)
qed

section \<open>What the policy accepts\<close>

text \<open>
  A proposal the policy accepts: it claims no operator confirmation, its limitations are known or
  announced by this Snapshot, its reason is a candidate of this Snapshot with evidence that exists,
  confirmed-grade claims have a reason, supported causality needs a floor reason, and urgent
  attention needs the deterministic floor.
\<close>

definition proposalPermitted :: "assessmentProposal \<Rightarrow> snapshot \<Rightarrow> bool" where
  "proposalPermitted p snap \<longleftrightarrow>
     ap_Causality p \<noteq> CausalityOperatorConfirmed \<and>
     list_all (\<lambda>l. allowedLimitationCode snap (li_Code l)) (ap_Limitations p) \<and>
     pred_option (\<lambda>r. pred_option (\<lambda>c. rc_Code c = sr_Code r) (findEligibleCandidateByID (ss_EligibleReasons snap) (sr_CandidateID r)) \<and>
         findEligibleCandidateByID (ss_EligibleReasons snap) (sr_CandidateID r) \<noteq> None \<and>
         list_all (\<lambda>ref. factExists (ss_Facts snap) ref \<or> observationFactExists (ss_Observations snap) ref) (sr_EvidenceRefs r) \<and>
         (ap_Causality p = CausalitySupported \<longrightarrow>
            sr_Code r \<noteq> reasonCodeDurationOutlier \<and>
            pred_option rc_DeterministicFloor (findEligibleCandidateByID (ss_EligibleReasons snap) (sr_CandidateID r))))
       (ap_SufficientReason p) \<and>
     (materialClaim p \<longrightarrow> ap_SufficientReason p \<noteq> None) \<and>
     (ap_Attention p = AttentionUrgent \<longrightarrow> hasDeterministicFloor (ss_EligibleReasons snap))"

lemma firstIndex_None_iff: "firstIndex P i xs = None \<longleftrightarrow> list_all (\<lambda>x. \<not> P x) xs"
  by (induction xs arbitrary: i) auto

lemma reasonRejection_None_iff:
  "reasonRejection p snap = None \<longleftrightarrow>
     pred_option (\<lambda>r. pred_option (\<lambda>c. rc_Code c = sr_Code r) (findEligibleCandidateByID (ss_EligibleReasons snap) (sr_CandidateID r)) \<and>
         findEligibleCandidateByID (ss_EligibleReasons snap) (sr_CandidateID r) \<noteq> None \<and>
         list_all (\<lambda>ref. factExists (ss_Facts snap) ref \<or> observationFactExists (ss_Observations snap) ref) (sr_EvidenceRefs r))
       (ap_SufficientReason p)"
  by (auto simp: reasonRejection_def list_ex_iff list_all_iff split: option.splits)

lemma causalityRejection_None_iff:
  "causalityRejection p snap = None \<longleftrightarrow>
     pred_option (\<lambda>r. ap_Causality p = CausalitySupported \<longrightarrow>
            sr_Code r \<noteq> reasonCodeDurationOutlier \<and>
            findEligibleCandidateByID (ss_EligibleReasons snap) (sr_CandidateID r) \<noteq> None \<and>
            pred_option rc_DeterministicFloor (findEligibleCandidateByID (ss_EligibleReasons snap) (sr_CandidateID r)))
       (ap_SufficientReason p)"
  by (auto simp: causalityRejection_def split: option.splits)

lemma validateProposalContent_permitted:
  assumes "proposalPermitted p snap"
  shows "validateProposalContent p snap = raiseToFloor (hasDeterministicFloor (ss_EligibleReasons snap)) p"
proof -
  have "firstIndex (\<lambda>l. \<not> allowedLimitationCode snap (li_Code l)) 0 (ap_Limitations p) = None"
    using assms by (simp add: firstIndex_None_iff proposalPermitted_def)
  moreover have "reasonRejection p snap = None" "causalityRejection p snap = None"
    using assms unfolding reasonRejection_None_iff causalityRejection_None_iff proposalPermitted_def
    by (cases "ap_SufficientReason p"; simp)+
  ultimately show ?thesis
    using assms by (auto simp: validateProposalContent_def proposalPermitted_def Let_def)
qed

lemma accepted_rejected [simp]:
  "\<not> accepted (vr_Outcome (policyResult c f d))" "\<not> accepted (vr_Outcome (capabilityRejection c f d))"
  by (simp_all add: accepted_def policyResult_def capabilityRejection_def rejected_def)

lemma accepted_raiseToFloor [simp]: "accepted (vr_Outcome (raiseToFloor f p))"
  by (simp add: accepted_def raiseToFloor_def Let_def)

lemma reasonRejection_not_accepted: "reasonRejection p snap = Some e \<Longrightarrow> \<not> accepted (vr_Outcome e)"
  unfolding reasonRejection_def by (auto split: option.splits if_splits)

lemma causalityRejection_not_accepted: "causalityRejection p snap = Some e \<Longrightarrow> \<not> accepted (vr_Outcome e)"
  unfolding causalityRejection_def by (auto split: option.splits if_splits)

lemma accepted_permitted:
  assumes "accepted (vr_Outcome (validateProposalContent p snap))"
  shows "proposalPermitted p snap"
proof -
  have lim: "firstIndex (\<lambda>l. \<not> allowedLimitationCode snap (li_Code l)) 0 (ap_Limitations p) = None"
    using assms by (cases "firstIndex (\<lambda>l. \<not> allowedLimitationCode snap (li_Code l)) 0 (ap_Limitations p)")
      (auto simp: validateProposalContent_def split: if_splits)
  have rr: "reasonRejection p snap = None"
    using assms lim reasonRejection_not_accepted [of p snap]
    by (cases "reasonRejection p snap") (auto simp: validateProposalContent_def split: if_splits)
  have cr: "causalityRejection p snap = None"
    using assms lim rr causalityRejection_not_accepted [of p snap]
    by (cases "causalityRejection p snap") (auto simp: validateProposalContent_def split: if_splits)
  have rest: "ap_Causality p \<noteq> CausalityOperatorConfirmed" "materialClaim p \<longrightarrow> ap_SufficientReason p \<noteq> None"
    "ap_Attention p = AttentionUrgent \<longrightarrow> hasDeterministicFloor (ss_EligibleReasons snap)"
    using assms lim rr cr by (auto simp: validateProposalContent_def Let_def split: if_splits)
  show ?thesis
    unfolding proposalPermitted_def
    using lim rr cr rest unfolding firstIndex_None_iff reasonRejection_None_iff causalityRejection_None_iff
    by (cases "ap_SufficientReason p") simp_all
qed

lemma validateProposalContent_accepted_iff:
  "accepted (vr_Outcome (validateProposalContent p snap)) \<longleftrightarrow> proposalPermitted p snap"
  using accepted_permitted validateProposalContent_permitted by (metis accepted_raiseToFloor)

text \<open>An accepted proposal is urgent exactly when the deterministic floor is active, and nothing else of it changed.\<close>

lemma validateProposalContent_result:
  assumes "accepted (vr_Outcome (validateProposalContent p snap))"
  shows "vr_Proposal (validateProposalContent p snap) =
     Some (p\<lparr>ap_Attention := if hasDeterministicFloor (ss_EligibleReasons snap) then AttentionUrgent else ap_Attention p\<rparr>)"
  using validateProposalContent_permitted [OF accepted_permitted [OF assms]]
  by (simp add: raiseToFloor_def Let_def)

lemma validateProposalContent_rejected:
  assumes "\<not> accepted (vr_Outcome (validateProposalContent p snap))"
  shows "vr_Proposal (validateProposalContent p snap) = None"
proof -
  have "reasonRejection p snap = Some e \<Longrightarrow> vr_Proposal e = None"
    "causalityRejection p snap = Some e \<Longrightarrow> vr_Proposal e = None" for e
    by (auto simp: reasonRejection_def causalityRejection_def policyResult_def capabilityRejection_def rejected_def
        split: option.splits if_splits)
  then show ?thesis
    using assms by (auto simp: validateProposalContent_def Let_def policyResult_def capabilityRejection_def rejected_def
        split: option.splits if_splits)
qed

section \<open>The deterministic fallback\<close>

lemma findFloorCandidate_iff: "findFloorCandidate cs \<noteq> None \<longleftrightarrow> list_ex rc_DeterministicFloor cs"
  by (auto simp: findFloorCandidate_def find_None_iff list_ex_iff)

lemma BuildSnapshot_simps [simp]:
  "ss_Lifecycle (BuildSnapshot od inp) = si_Lifecycle (sn_Situation inp)"
  "ss_InputVersion (BuildSnapshot od inp) = si_InputVersion (sn_Situation inp)"
  "ss_EligibleReasons (BuildSnapshot od inp) =
     EligibleReasons inp (deriveSymptoms (sn_Deliveries inp)) (DurationClass (elapsedDuration inp))"
  "ss_Facts (BuildSnapshot od inp) =
     deriveStoreFactsWith inp (deriveSymptoms (sn_Deliveries inp)) (DurationClass (elapsedDuration inp))"
  by (simp_all add: BuildSnapshot_def Let_def case_prod_beta)

lemma hasDeterministicFloor_BuildSnapshot:
  "hasDeterministicFloor (ss_EligibleReasons (BuildSnapshot od inp)) \<longleftrightarrow> criticalAnchorEligible (sn_Deliveries inp)"
  unfolding hasDeterministicFloor_def findFloorCandidate_iff BuildSnapshot_simps EligibleReasons_floor_iff ..

text \<open>When the floor is active its candidate is the first one, so its ID resolves to it.\<close>

lemma EligibleReasons_floor_head:
  assumes "findFloorCandidate (EligibleReasons inp symptoms cls) = Some c"
  shows "findEligibleCandidateByID (EligibleReasons inp symptoms cls) (rc_ID c) = Some c"
    and "rc_DeterministicFloor c" and "rc_EvidenceRefs c = []" and "rc_Code c = reasonCodeCriticalAnchor"
    and "rc_ID c \<noteq> []"
proof -
  have floor: "criticalAnchorEligible (sn_Deliveries inp)"
    unfolding EligibleReasons_floor_iff [symmetric, of inp symptoms cls] findFloorCandidate_iff [symmetric] using assms by simp
  then obtain cs where cs: "EligibleReasons inp symptoms cls =
      newReasonCandidate (si_ID (sn_Situation inp)) (si_InputVersion (sn_Situation inp)) reasonCodeCriticalAnchor
        ''Confirmed active critical source severity.'' 1 True [] # cs"
    by (simp add: EligibleReasons_def Let_def onlyIf_def)
  then have c: "c = newReasonCandidate (si_ID (sn_Situation inp)) (si_InputVersion (sn_Situation inp)) reasonCodeCriticalAnchor
        ''Confirmed active critical source severity.'' 1 True []"
    using assms by (simp add: findFloorCandidate_def newReasonCandidate_def Let_def)
  show "findEligibleCandidateByID (EligibleReasons inp symptoms cls) (rc_ID c) = Some c"
    unfolding cs by (simp add: findEligibleCandidateByID_def c)
  show "rc_DeterministicFloor c" "rc_EvidenceRefs c = []" "rc_Code c = reasonCodeCriticalAnchor"
    by (simp_all add: c newReasonCandidate_def Let_def sortStrings_def)
  show "rc_ID c \<noteq> []"
    by (simp add: c newReasonCandidate_def Let_def reasonCandidateID_def canonicalDigest_def)
qed

lemma deterministicProposal_floor:
  assumes "findFloorCandidate (ss_EligibleReasons (BuildSnapshot od inp)) = Some c"
  shows "ap_SufficientReason (deterministicProposal (BuildSnapshot od inp) ls) =
    Some \<lparr>sr_Code = reasonCodeCriticalAnchor, sr_CandidateID = rc_ID c, sr_Summary = rc_Summary c, sr_EvidenceRefs = []\<rparr>"
  using assms EligibleReasons_floor_head [OF assms [unfolded BuildSnapshot_simps]]
  by (simp add: deterministicProposal_def)

lemma deterministicProposal_no_floor:
  "findFloorCandidate (ss_EligibleReasons snap) = None \<Longrightarrow> ap_SufficientReason (deterministicProposal snap ls) = None"
  by (simp add: deterministicProposal_def)

lemma deterministicProposal_valid:
  assumes "list_all (\<lambda>l. Limitation_Validate l = None) ls"
  shows "AssessmentProposal_Validate (deterministicProposal (BuildSnapshot od inp) ls) = None"
proof -
  have "pred_option (\<lambda>r. SufficientReason_Validate r = None)
      (ap_SufficientReason (deterministicProposal (BuildSnapshot od inp) ls))"
  proof (cases "findFloorCandidate (ss_EligibleReasons (BuildSnapshot od inp))")
    case None
    then show ?thesis by (simp only: deterministicProposal_no_floor option.pred_inject)
  next
    case (Some c)
    have "rc_ID c \<noteq> []" by (rule EligibleReasons_floor_head(5) [OF Some [unfolded BuildSnapshot_simps]])
    then show ?thesis
      unfolding deterministicProposal_floor [OF Some]
      by (simp add: SufficientReason_Validate_def errWhen_def reasonCodeCriticalAnchor_def)
  qed
  then show ?thesis
    unfolding AssessmentProposal_Validate_iff
    by (simp add: deterministicProposal_def assms Persistence_Validate_def Impact_Validate_def Novelty_Validate_def
        Causality_Validate_def Attention_Validate_def validateEnum_def)
qed

lemma fallback_allowed: "allowedLimitationCode snap (li_Code fallbackLimitation)"
  by (simp add: allowedLimitationCode_def knownLimitationCode_def fallbackLimitation_def)

lemma deterministicProposal_permitted:
  assumes "list_all (\<lambda>l. allowedLimitationCode (BuildSnapshot od inp) (li_Code l)) ls"
  shows "proposalPermitted (deterministicProposal (BuildSnapshot od inp) ls) (BuildSnapshot od inp)"
proof -
  let ?s = "BuildSnapshot od inp"
  let ?p = "deterministicProposal ?s ls"
  have codes: "ap_Causality ?p = CausalityUnknown" "ap_Impact ?p = ImpactNoneObserved" "ap_Limitations ?p = ls"
    by (simp_all add: deterministicProposal_def)
  have urgent: "ap_Attention ?p = AttentionUrgent \<longrightarrow> hasDeterministicFloor (ss_EligibleReasons ?s)"
    unfolding deterministicProposal_def hasDeterministicFloor_def by simp
  show ?thesis
  proof (cases "findFloorCandidate (ss_EligibleReasons ?s)")
    case None
    show ?thesis
      unfolding proposalPermitted_def deterministicProposal_no_floor [OF None] codes materialClaim_def
      using urgent assms by simp
  next
    case (Some c)
    note head = EligibleReasons_floor_head [OF Some [unfolded BuildSnapshot_simps]]
    have "findEligibleCandidateByID (ss_EligibleReasons ?s) (rc_ID c) = Some c"
      unfolding BuildSnapshot_simps by (rule head(1))
    then show ?thesis
      unfolding proposalPermitted_def deterministicProposal_floor [OF Some] codes materialClaim_def
      using urgent assms head(4) by simp
  qed
qed

lemma deterministicProposal_urgent_iff:
  "ap_Attention (deterministicProposal (BuildSnapshot od inp) ls) = AttentionUrgent \<longleftrightarrow>
     criticalAnchorEligible (sn_Deliveries inp)"
  unfolding hasDeterministicFloor_BuildSnapshot [symmetric, of inp od] hasDeterministicFloor_def
  by (simp add: deterministicProposal_def)

lemma DeterministicFallback_valid:
  assumes "Lifecycle_Validate (si_Lifecycle (sn_Situation inp)) = None"
  shows "Assessment_Validate (ars_Assessment (DeterministicFallback (BuildSnapshot od inp) inp state now)) now = None"
  unfolding DeterministicFallback_def DeterministicAssessment_def
  by (rule DeriveAssessment_valid, rule deterministicProposal_valid)
     (simp_all add: assms Limitation_Validate_def fallbackLimitation_def limitationSemanticAssessmentUnavailable_def errWhen_def)

section \<open>Reuse\<close>

lemma trustworthy_None_iff:
  "trustworthy prior = None \<longleftrightarrow>
     aa_Derivation prior \<noteq> DerivationDeterministicFallback \<and> Assessment_ValidateShape (aa_Assessment prior) = None"
  by (simp add: trustworthy_def)

lemma RevalidateReuse_Inr:
  assumes "RevalidateReuse prior snap inp state now = Inr res"
  obtains rebound where
    "trustworthy prior = None"
    "aa_AssessmentBasisHash prior = ss_AssessmentBasisHash snap"
    "rebindSufficientReason (as_SufficientReason (aa_Assessment prior)) (ss_EligibleReasons snap) = Some rebound"
    "proposalPermitted (reuseProposal (aa_Assessment prior) rebound) snap"
    "res = DeriveAssessment
       ((reuseProposal (aa_Assessment prior) rebound)
          \<lparr>ap_Attention := if hasDeterministicFloor (ss_EligibleReasons snap) then AttentionUrgent
             else as_Attention (aa_Assessment prior)\<rparr>)
       snap inp state DerivationRevalidatedReuse (Some (aa_ID prior)) now"
proof -
  have t: "trustworthy prior = None"
    using assms by (cases "trustworthy prior") (simp_all add: RevalidateReuse_def)
  have b: "aa_AssessmentBasisHash prior = ss_AssessmentBasisHash snap"
    using assms t by (simp add: RevalidateReuse_def split: if_splits)
  obtain rebound where r: "rebindSufficientReason (as_SufficientReason (aa_Assessment prior)) (ss_EligibleReasons snap) = Some rebound"
    using assms t b by (cases "rebindSufficientReason (as_SufficientReason (aa_Assessment prior)) (ss_EligibleReasons snap)")
      (simp_all add: RevalidateReuse_def)
  let ?p = "reuseProposal (aa_Assessment prior) rebound"
  have acc: "accepted (vr_Outcome (validateProposalContent ?p snap))"
    using assms t b r by (simp add: RevalidateReuse_def Let_def split: if_splits)
  have att: "ap_Attention ?p = as_Attention (aa_Assessment prior)" by (simp add: reuseProposal_def)
  have "res = DeriveAssessment
       (?p\<lparr>ap_Attention := if hasDeterministicFloor (ss_EligibleReasons snap) then AttentionUrgent
             else as_Attention (aa_Assessment prior)\<rparr>)
       snap inp state DerivationRevalidatedReuse (Some (aa_ID prior)) now"
    using assms t b r acc validateProposalContent_result [OF acc, unfolded att] by (simp add: RevalidateReuse_def Let_def)
  with t b r accepted_permitted [OF acc] show thesis by (rule that)
qed

lemma reuse_after_fallback:
  assumes "aa_Derivation prior = DerivationDeterministicFallback"
  shows "RevalidateReuse prior snap inp state now = Inl ''fallback_not_a_semantic_reuse_source''"
  using assms by (simp add: RevalidateReuse_def trustworthy_def)

section \<open>Retry policy\<close>

lemma classifyTransportErr_outcome:
  "rp_Outcome (classifyTransportErr e used) = L2OutcomeMalformed \<longleftrightarrow> te_Malformed e"
  "rp_ImmediateCorrection (classifyTransportErr e used) \<longleftrightarrow> te_Malformed e \<and> \<not> used"
  "rp_DurableRetry (classifyTransportErr e used)"
  by (simp_all add: classifyTransportErr_def split: option.split)

lemma classifyTransportErr_settled:
  "rp_Outcome (classifyTransportErr e used) \<in> {L2OutcomeMalformed, L2OutcomeTransportFailure, L2OutcomeRateLimited}"
  by (simp add: classifyTransportErr_def split: option.split)

lemma ClassifyL2Outcome_correction_iff:
  "rp_ImmediateCorrection (ClassifyL2Outcome vr err used) \<longleftrightarrow>
     rp_Outcome (ClassifyL2Outcome vr err used) = L2OutcomeMalformed \<and> \<not> used"
  by (cases err; cases vr)
     (simp_all add: ClassifyL2Outcome_def Let_def classifyTransportErr_outcome split: proposalOutcome.split)

lemma ClassifyL2Outcome_durable_iff:
  "rp_DurableRetry (ClassifyL2Outcome vr err used) \<longleftrightarrow>
     rp_Outcome (ClassifyL2Outcome vr err used) \<in> {L2OutcomeMalformed, L2OutcomeTransportFailure, L2OutcomeRateLimited}"
proof (cases err)
  case None
  then show ?thesis
    by (cases vr) (simp_all add: ClassifyL2Outcome_def Let_def split: proposalOutcome.split)
next
  case (Some e)
  then show ?thesis
    using classifyTransportErr_outcome(3) [of e used] classifyTransportErr_settled [of e used]
    by (simp add: ClassifyL2Outcome_def Let_def)
qed

lemma ClassifyL2Outcome_accepted_iff:
  "rp_Outcome (ClassifyL2Outcome vr err used) \<in> {L2OutcomeAccepted, L2OutcomeContradicted} \<longleftrightarrow>
     err = None \<and> (\<exists>r. vr = Some r \<and> accepted (vr_Outcome r))"
proof (cases err)
  case None
  then show ?thesis
    by (cases vr) (simp_all add: ClassifyL2Outcome_def Let_def accepted_def split: proposalOutcome.split)
next
  case (Some e)
  then show ?thesis
    using classifyTransportErr_settled [of e used] by (auto simp: ClassifyL2Outcome_def Let_def)
qed

end
