(* ===== verification/Controller_Lifecycle.thy ===== *)
theory Controller_Lifecycle
  imports Assessment
begin

text \<open>
  The lifecycle resolution of one controller cycle (\<^verbatim>\<open>controller.go\<close>: \<^verbatim>\<open>resolveLifecycle\<close>,
  \<^verbatim>\<open>reduceSourceLifecycle\<close> and their helpers).  \<open>situationRowOK\<close> states the two CHECK constraints the
  \<^verbatim>\<open>situations\<close> table puts on the lifecycle columns, \<open>legalLifecycleUpdate\<close> its update
  trigger; a sequence of cycles is the relation \<open>cycle_run\<close>.
\<close>

section \<open>Configuration and result\<close>

record retryConfig =
  rtc_Min :: duration
  rtc_Max :: duration
  rtc_JitterPercent :: int

record controllerConfig =
  ccf_Cadence :: cadenceTempo
  ccf_MaxL2CallsPerAttempt :: int
  ccf_MaxWorkAttemptsPerInput :: int
  ccf_AttemptWall :: duration
  ccf_WebhookRecoveryGrace :: duration
  ccf_PollingIntervalSeconds :: int
  ccf_Retry :: retryConfig
  ccf_SlackFloor :: interruptionPriority
  ccf_RepageCooldown :: duration
  ccf_RecurrenceMode :: string
  ccf_PresentationSources :: "sourceCheck list"

definition ControllerConfig_withDefaults :: "controllerConfig \<Rightarrow> controllerConfig" where
  "ControllerConfig_withDefaults c =
     c\<lparr>ccf_MaxL2CallsPerAttempt := (if ccf_MaxL2CallsPerAttempt c \<le> 0 then 2 else ccf_MaxL2CallsPerAttempt c),
       ccf_MaxWorkAttemptsPerInput := (if ccf_MaxWorkAttemptsPerInput c \<le> 0 then 5 else ccf_MaxWorkAttemptsPerInput c),
       ccf_AttemptWall := (if ccf_AttemptWall c \<le> 0 then 180 * second else ccf_AttemptWall c),
       ccf_WebhookRecoveryGrace := (if ccf_WebhookRecoveryGrace c \<le> 0 then 120 * second else ccf_WebhookRecoveryGrace c),
       ccf_Retry := \<lparr>rtc_Min = (if rtc_Min (ccf_Retry c) \<le> 0 then 5 * second else rtc_Min (ccf_Retry c)),
         rtc_Max = (if rtc_Max (ccf_Retry c) \<le> 0 then 300 * second else rtc_Max (ccf_Retry c)),
         rtc_JitterPercent = (if rtc_JitterPercent (ccf_Retry c) \<le> 0 then 20 else rtc_JitterPercent (ccf_Retry c))\<rparr>,
       ccf_RepageCooldown := (if ccf_RepageCooldown c \<le> 0 then 900 * second else ccf_RepageCooldown c),
       ccf_Cadence := withDefaults (ccf_Cadence c)\<rparr>"

record lifecycleResolution =
  lr_Lifecycle :: lifecycle
  lr_RecoveryObservedAt :: "gtime option"
  lr_GraceUntil :: "gtime option"
  lr_TerminalAt :: "gtime option"
  lr_TerminalReason :: "terminalReason option"

section \<open>Resolving the lifecycle\<close>

definition anyDeliveryResolved :: "delivery list \<Rightarrow> bool" where
  "anyDeliveryResolved deliveries = list_ex (\<lambda>d. de_Status d = DeliveryStatusResolved) deliveries"

definition sourceSilentThrough :: "delivery list \<Rightarrow> gtime \<Rightarrow> duration \<Rightarrow> bool" where
  "sourceSilentThrough deliveries now window =
     (let cutoff = tAdd now (- window) in \<not> list_ex (\<lambda>d. tAfter (de_ReceivedAt d) cutoff) deliveries)"

text \<open>The five facts \<^verbatim>\<open>resolveLifecycle\<close> reads before its switch.\<close>

record lifecycleEvidence =
  le_firing :: bool
  le_resolved :: bool
  le_pastDeadline :: bool
  le_recoveryObserved :: bool
  le_graceDuration :: duration

definition lifecycleEvidenceOf ::
  "controllerConfig \<Rightarrow> situation \<Rightarrow> snapshotInput \<Rightarrow> snapshot \<Rightarrow> sourceLifecycle \<Rightarrow> gtime \<Rightarrow> lifecycleEvidence" where
  "lifecycleEvidenceOf cfg cur inp snap sl now =
     (if prs_CycleID (sn_Prepared inp) \<noteq> []
      then \<lparr>le_firing = sl_AnyFiring sl, le_resolved = sl_AnyResolved sl, le_pastDeadline = sl_ClosureDue sl,
            le_recoveryObserved = sl_AllResolved sl, le_graceDuration = sl_Grace sl\<rparr>
      else \<lparr>le_firing = AnyFiring (ss_Symptoms snap), le_resolved = anyDeliveryResolved (sn_Deliveries inp),
            le_pastDeadline = (\<not> tBefore now (ObservationDeadlineAt (si_EffectiveStartedAt cur) (ss_DurationClass snap))),
            le_recoveryObserved = (0 < length (ss_Symptoms snap)),
            le_graceDuration = RecoveryGraceDuration (sn_Deliveries inp) (ccf_WebhookRecoveryGrace cfg)
              (ccf_PollingIntervalSeconds cfg)\<rparr>)"

definition keepResolution :: "situation \<Rightarrow> lifecycleResolution" where
  "keepResolution cur =
     \<lparr>lr_Lifecycle = si_Lifecycle cur, lr_RecoveryObservedAt = si_RecoveryObservedAt cur, lr_GraceUntil = si_GraceUntil cur,
      lr_TerminalAt = si_TerminalAt cur, lr_TerminalReason = si_TerminalReason cur\<rparr>"

definition resolveLifecycle ::
  "controllerConfig \<Rightarrow> situation \<Rightarrow> snapshotInput \<Rightarrow> snapshot \<Rightarrow> sourceLifecycle \<Rightarrow> gtime \<Rightarrow> lifecycleResolution" where
  "resolveLifecycle cfg cur inp snap sl now =
     (let ev = lifecycleEvidenceOf cfg cur inp snap sl now;
          reason = ClosedUnknownReason (si_EffectiveStartedAtBasis cur) (le_resolved ev) in
      case si_Lifecycle cur of
        LifecycleActive \<Rightarrow>
          (if le_firing ev
           then \<lparr>lr_Lifecycle = LifecycleActive, lr_RecoveryObservedAt = None, lr_GraceUntil = None, lr_TerminalAt = None,
                 lr_TerminalReason = None\<rparr>
           else if le_recoveryObserved ev
           then \<lparr>lr_Lifecycle = fst (AdvanceLifecycle (si_Lifecycle cur) EventRecoveryObserved),
                 lr_RecoveryObservedAt = Some now, lr_GraceUntil = Some (tAdd now (le_graceDuration ev)),
                 lr_TerminalAt = None, lr_TerminalReason = None\<rparr>
           else if le_pastDeadline ev
           then \<lparr>lr_Lifecycle = fst (AdvanceLifecycle (si_Lifecycle cur) EventLifecycleUnobservable),
                 lr_RecoveryObservedAt = None, lr_GraceUntil = None, lr_TerminalAt = Some now,
                 lr_TerminalReason = Some reason\<rparr>
           else \<lparr>lr_Lifecycle = LifecycleActive, lr_RecoveryObservedAt = None, lr_GraceUntil = None, lr_TerminalAt = None,
                 lr_TerminalReason = None\<rparr>)
      | LifecycleRecoveryPending \<Rightarrow>
          (if le_firing ev
           then \<lparr>lr_Lifecycle = fst (AdvanceLifecycle (si_Lifecycle cur) EventRefired), lr_RecoveryObservedAt = None,
                 lr_GraceUntil = None, lr_TerminalAt = None, lr_TerminalReason = None\<rparr>
           else if le_pastDeadline ev \<and>
             sourceSilentThrough (sn_Deliveries inp) now (ObservationDeadlineDuration (ss_DurationClass snap))
           then \<lparr>lr_Lifecycle = fst (AdvanceLifecycle (si_Lifecycle cur) EventLifecycleUnobservable),
                 lr_RecoveryObservedAt = si_RecoveryObservedAt cur, lr_GraceUntil = si_GraceUntil cur,
                 lr_TerminalAt = Some now, lr_TerminalReason = Some reason\<rparr>
           else if (case si_GraceUntil cur of Some g \<Rightarrow> \<not> tBefore now g | None \<Rightarrow> False)
           then \<lparr>lr_Lifecycle = fst (AdvanceLifecycle (si_Lifecycle cur) EventGraceExpired),
                 lr_RecoveryObservedAt = si_RecoveryObservedAt cur, lr_GraceUntil = si_GraceUntil cur,
                 lr_TerminalAt = Some now, lr_TerminalReason = None\<rparr>
           else \<lparr>lr_Lifecycle = LifecycleRecoveryPending, lr_RecoveryObservedAt = si_RecoveryObservedAt cur,
                 lr_GraceUntil = si_GraceUntil cur, lr_TerminalAt = None, lr_TerminalReason = None\<rparr>)
      | _ \<Rightarrow> keepResolution cur)"

section \<open>Reducing the source lifecycle of a cycle\<close>

definition newerReceipt :: "delivery \<Rightarrow> delivery \<Rightarrow> bool" where
  "newerReceipt received d =
     (tAfter (de_ReceivedAt d) (de_ReceivedAt received) \<or>
      tEqual (de_ReceivedAt d) (de_ReceivedAt received) \<and> de_ID received < de_ID d)"

text \<open>Source order, except that of two simultaneous deliveries the firing one wins.\<close>

definition newerEpisode :: "delivery \<Rightarrow> delivery \<Rightarrow> bool" where
  "newerEpisode cur d =
     (if tEqual (sourceTimeKey d) (sourceTimeKey cur) \<and> tEqual (de_ReceivedAt d) (de_ReceivedAt cur) \<and>
         de_Status d \<noteq> de_Status cur
      then de_Status d = DeliveryStatusFiring else deliveryLess cur d)"

definition receiptDeadline :: "snapshotInput \<Rightarrow> string \<Rightarrow> delivery \<Rightarrow> gtime" where
  "receiptDeadline inp i d =
     foldl (\<lambda>deadline ob.
        if so_AlertID ob = i \<and> so_EpisodeKey ob = de_EpisodeKey d \<and> tEqual (so_ObservedAt ob) (de_ReceivedAt d) \<and>
           \<not> tIsZero (so_DeadlineAt ob)
        then so_DeadlineAt ob else deadline)
      (tAdd (de_ReceivedAt d) (LifecycleHorizon (WidestHorizonTier (prs_ProfileGuidance (sn_Prepared inp)))))
      (prs_Lifecycle (sn_Prepared inp))"

definition toObservation :: "snapshotInput \<Rightarrow> string \<Rightarrow> delivery \<Rightarrow> sourceObservation" where
  "toObservation inp i d =
     \<lparr>so_AlertID = i, so_EpisodeKey = de_EpisodeKey d, so_Source = de_Source d, so_State = statusText (de_Status d),
      so_ObservedAt = de_ReceivedAt d, so_EventStartedAt = de_SourceStartedAt d, so_EventResolvedAt = de_SourceResolvedAt d,
      so_TimeBasis = SourceTimeBasisOther [], so_AcquisitionMode = de_AcquisitionMode d,
      so_PollIntervalSeconds = de_PollIntervalSeconds d, so_DeadlineAt = receiptDeadline inp i d, so_EvidenceRefs = []\<rparr>"

definition receiptLatest :: "delivery list \<Rightarrow> (string \<times> delivery) list" where
  "receiptLatest ds = keepBest alertKeyOf newerReceipt [] ds"

definition episodeLatest :: "delivery list \<Rightarrow> (string \<times> delivery) list" where
  "episodeLatest ds = keepBest alertKeyOf newerEpisode [] ds"

definition cycleObservations :: "snapshotInput \<Rightarrow> sourceObservation list" where
  "cycleObservations inp =
     (let receipts = receiptLatest (sn_Deliveries inp) in
      prs_Lifecycle (sn_Prepared inp) @
      map (\<lambda>(i, d). toObservation inp i d) receipts @
      map (\<lambda>(i, d). toObservation inp i d)
        (filter (\<lambda>(i, d). map_option de_ID (map_of receipts i) \<noteq> Some (de_ID d)) (episodeLatest (sn_Deliveries inp))))"

definition reduceSourceLifecycle :: "controllerConfig \<Rightarrow> snapshotInput \<Rightarrow> gtime \<Rightarrow> sourceLifecycle" where
  "reduceSourceLifecycle cfg inp now =
     (if prs_CycleID (sn_Prepared inp) = []
      then \<lparr>sl_AnyFiring = False, sl_AnyResolved = False, sl_AllResolved = False,
            sl_ClosureDue = False, sl_Grace = 0, sl_NextDeadlineAt = None\<rparr>
      else ReduceSourceLifecycle (cycleObservations inp) (expectedAlertIDs (sn_Deliveries inp)) now
             (ccf_WebhookRecoveryGrace cfg))"

section \<open>The constraints of the situations table\<close>

text \<open>
  The two CHECK constraints of migration \<^verbatim>\<open>0015_situation_foundation.sql\<close> on the lifecycle
  columns, and the transitions its update trigger admits.
\<close>

definition lifecycleColumnsOK ::
  "lifecycle \<Rightarrow> gtime option \<Rightarrow> gtime option \<Rightarrow> gtime option \<Rightarrow> terminalReason option \<Rightarrow> bool" where
  "lifecycleColumnsOK lc recovery grace terminalAt terminalReason \<longleftrightarrow>
     (recovery = None \<longleftrightarrow> grace = None) \<and>
     (lc = LifecycleActive \<and> recovery = None \<and> terminalAt = None \<and> terminalReason = None \<or>
      lc = LifecycleRecoveryPending \<and> recovery \<noteq> None \<and> terminalAt = None \<and> terminalReason = None \<or>
      lc = LifecycleRecovered \<and> recovery \<noteq> None \<and> terminalAt \<noteq> None \<and> terminalReason = None \<or>
      lc = LifecycleClosedUnknown \<and> terminalAt \<noteq> None \<and> terminalReason \<noteq> None)"

definition situationRowOK :: "situation \<Rightarrow> bool" where
  "situationRowOK s = lifecycleColumnsOK (si_Lifecycle s) (si_RecoveryObservedAt s) (si_GraceUntil s)
     (si_TerminalAt s) (si_TerminalReason s)"

definition resolutionOK :: "lifecycleResolution \<Rightarrow> bool" where
  "resolutionOK r = lifecycleColumnsOK (lr_Lifecycle r) (lr_RecoveryObservedAt r) (lr_GraceUntil r)
     (lr_TerminalAt r) (lr_TerminalReason r)"

definition legalLifecycleUpdate :: "lifecycle \<Rightarrow> lifecycle \<Rightarrow> bool" where
  "legalLifecycleUpdate old new \<longleftrightarrow>
     old = LifecycleActive \<and> new \<in> {LifecycleActive, LifecycleRecoveryPending, LifecycleClosedUnknown} \<or>
     old = LifecycleRecoveryPending \<and>
       new \<in> {LifecycleRecoveryPending, LifecycleActive, LifecycleRecovered, LifecycleClosedUnknown}"

lemma resolveLifecycle_terminal:
  "Terminal (si_Lifecycle cur) \<Longrightarrow> resolveLifecycle cfg cur inp snap sl now = keepResolution cur"
  by (cases "si_Lifecycle cur") (simp_all add: resolveLifecycle_def Let_def)

lemma resolveLifecycle_columns:
  assumes "situationRowOK cur"
  shows "resolutionOK (resolveLifecycle cfg cur inp snap sl now)"
proof (cases "si_Lifecycle cur")
  case LifecycleActive
  then show ?thesis by (simp add: resolveLifecycle_def Let_def resolutionOK_def lifecycleColumnsOK_def)
next
  case LifecycleRecoveryPending
  with assms show ?thesis
    by (simp add: resolveLifecycle_def Let_def resolutionOK_def situationRowOK_def lifecycleColumnsOK_def)
qed (use assms in \<open>simp_all add: resolveLifecycle_def Let_def resolutionOK_def situationRowOK_def keepResolution_def\<close>)

lemma resolveLifecycle_legal:
  assumes "situationRowOK cur" and "\<not> Terminal (si_Lifecycle cur)"
  shows "legalLifecycleUpdate (si_Lifecycle cur) (lr_Lifecycle (resolveLifecycle cfg cur inp snap sl now))"
proof -
  from assms have "si_Lifecycle cur = LifecycleActive \<or> si_Lifecycle cur = LifecycleRecoveryPending"
    by (auto simp: situationRowOK_def lifecycleColumnsOK_def)
  then show ?thesis
    by (elim disjE) (simp_all add: resolveLifecycle_def Let_def legalLifecycleUpdate_def)
qed

section \<open>When a Situation ends\<close>

definition graceElapsed :: "situation \<Rightarrow> gtime \<Rightarrow> bool" where
  "graceElapsed cur now = (case si_GraceUntil cur of Some g \<Rightarrow> \<not> tBefore now g | None \<Rightarrow> False)"

definition sourceLost :: "lifecycleEvidence \<Rightarrow> snapshotInput \<Rightarrow> snapshot \<Rightarrow> gtime \<Rightarrow> bool" where
  "sourceLost ev inp snap now \<longleftrightarrow> le_pastDeadline ev \<and>
     sourceSilentThrough (sn_Deliveries inp) now (ObservationDeadlineDuration (ss_DurationClass snap))"

lemma resolveLifecycle_recovered_iff:
  assumes "\<not> Terminal (si_Lifecycle cur)"
  shows "lr_Lifecycle (resolveLifecycle cfg cur inp snap sl now) = LifecycleRecovered \<longleftrightarrow>
    (let ev = lifecycleEvidenceOf cfg cur inp snap sl now in
     si_Lifecycle cur = LifecycleRecoveryPending \<and> \<not> le_firing ev \<and> \<not> sourceLost ev inp snap now \<and> graceElapsed cur now)"
proof (cases "si_Lifecycle cur")
  case LifecycleActive
  then show ?thesis by (simp add: resolveLifecycle_def Let_def)
next
  case LifecycleRecoveryPending
  then show ?thesis
    unfolding resolveLifecycle_def Let_def sourceLost_def graceElapsed_def by simp
qed (use assms in \<open>simp_all add: resolveLifecycle_def keepResolution_def Let_def\<close>)

lemma resolveLifecycle_closed_iff:
  assumes "\<not> Terminal (si_Lifecycle cur)"
  shows "lr_Lifecycle (resolveLifecycle cfg cur inp snap sl now) = LifecycleClosedUnknown \<longleftrightarrow>
    (let ev = lifecycleEvidenceOf cfg cur inp snap sl now in
     \<not> le_firing ev \<and>
     (si_Lifecycle cur = LifecycleActive \<and> \<not> le_recoveryObserved ev \<and> le_pastDeadline ev \<or>
      si_Lifecycle cur = LifecycleRecoveryPending \<and> sourceLost ev inp snap now))"
proof (cases "si_Lifecycle cur")
  case LifecycleActive
  then show ?thesis by (simp add: resolveLifecycle_def Let_def)
next
  case LifecycleRecoveryPending
  then show ?thesis
    unfolding resolveLifecycle_def Let_def sourceLost_def by simp
qed (use assms in \<open>simp_all add: resolveLifecycle_def keepResolution_def Let_def\<close>)

lemma sourceSilentThrough_iff:
  "sourceSilentThrough ds now w \<longleftrightarrow> (\<forall>d \<in> set ds. tns (de_ReceivedAt d) \<le> tns now - w)"
  by (auto simp: sourceSilentThrough_def Let_def list_ex_iff tAfter_def not_less)

section \<open>Sequences of cycles\<close>

definition lifecycleColumns ::
  "situation \<Rightarrow> lifecycle \<times> gtime option \<times> gtime option \<times> gtime option \<times> terminalReason option" where
  "lifecycleColumns s = (si_Lifecycle s, si_RecoveryObservedAt s, si_GraceUntil s, si_TerminalAt s, si_TerminalReason s)"

definition applyResolution :: "situation \<Rightarrow> lifecycleResolution \<Rightarrow> situation" where
  "applyResolution s r = s\<lparr>si_Lifecycle := lr_Lifecycle r, si_RecoveryObservedAt := lr_RecoveryObservedAt r,
     si_GraceUntil := lr_GraceUntil r, si_TerminalAt := lr_TerminalAt r, si_TerminalReason := lr_TerminalReason r\<rparr>"

text \<open>
  Between two cycles every other column may change (new deliveries, versions, leases); the
  lifecycle columns are written by cycles only.
\<close>

inductive cycle_run :: "controllerConfig \<Rightarrow> situation \<Rightarrow> situation \<Rightarrow> bool" for cfg where
  start: "cycle_run cfg s s"
| cycle: "cycle_run cfg s s1 \<Longrightarrow> lifecycleColumns s2 = lifecycleColumns s1 \<Longrightarrow>
    s3 = applyResolution s2 (resolveLifecycle cfg s2 inp snap (reduceSourceLifecycle cfg inp now) now) \<Longrightarrow>
    cycle_run cfg s s3"

lemma situationRowOK_columns: "lifecycleColumns a = lifecycleColumns b \<Longrightarrow> situationRowOK a = situationRowOK b"
  by (simp add: lifecycleColumns_def situationRowOK_def)

lemma situationRowOK_apply: "situationRowOK (applyResolution s r) = resolutionOK r"
  by (simp add: situationRowOK_def resolutionOK_def applyResolution_def)

lemma cycle_run_rowOK: "cycle_run cfg s s' \<Longrightarrow> situationRowOK s \<Longrightarrow> situationRowOK s'"
proof (induction rule: cycle_run.induct)
  case (cycle s s1 s2 s3 inp snap now)
  then have "situationRowOK s2" using situationRowOK_columns by blast
  then show ?case unfolding cycle.hyps situationRowOK_apply by (rule resolveLifecycle_columns)
qed

lemma cycle_run_terminal:
  "cycle_run cfg s s' \<Longrightarrow> Terminal (si_Lifecycle s) \<Longrightarrow> lifecycleColumns s' = lifecycleColumns s"
proof (induction rule: cycle_run.induct)
  case (cycle s s1 s2 s3 inp snap now)
  then have "Terminal (si_Lifecycle s2)" by (simp add: lifecycleColumns_def)
  then show ?case
    using cycle by (simp add: resolveLifecycle_terminal applyResolution_def keepResolution_def lifecycleColumns_def)
qed simp

section \<open>Recovery takes its grace\<close>

lemma basisGrace_nonneg: "0 \<le> w \<Longrightarrow> 0 \<le> basisGrace b w p"
  by (simp add: basisGrace_def Let_def grace_defs second_def)

lemma RecoveryGraceDuration_nonneg: "0 \<le> w \<Longrightarrow> 0 \<le> RecoveryGraceDuration ds w p"
proof -
  assume w: "0 \<le> w"
  have le: "x \<le> longestGrace g x ds" for g x and ds :: "delivery list"
  proof (induction ds arbitrary: x)
    case (Cons d ds)
    show ?case using Cons [of "g d"] Cons [of x] by simp
  qed simp
  show ?thesis
  proof (cases ds)
    case Nil
    then show ?thesis using w by (simp add: RecoveryGraceDuration_def)
  next
    case (Cons d es)
    show ?thesis unfolding Cons RecoveryGraceDuration_def Let_def list.case
      by (rule order_trans [OF basisGrace_nonneg [OF w] le])
  qed
qed

lemma le_graceDuration_nonneg:
  assumes "0 \<le> ccf_WebhookRecoveryGrace cfg"
  shows "0 \<le> le_graceDuration (lifecycleEvidenceOf cfg cur inp snap (reduceSourceLifecycle cfg inp now) now)"
  using assms ReduceSourceLifecycle_grace_range [OF assms] RecoveryGraceDuration_nonneg [OF assms]
  by (simp add: lifecycleEvidenceOf_def reduceSourceLifecycle_def)

text \<open>
  Within a run from a row without recovery: grace never ends before recovery was observed, and a
  recovered row ended only after its grace.
\<close>

definition recoveryTimesOK :: "situation \<Rightarrow> bool" where
  "recoveryTimesOK s \<longleftrightarrow>
     (\<forall>r g. si_RecoveryObservedAt s = Some r \<longrightarrow> si_GraceUntil s = Some g \<longrightarrow> tns r \<le> tns g) \<and>
     (si_Lifecycle s = LifecycleRecovered \<longrightarrow>
        (\<forall>g t. si_GraceUntil s = Some g \<longrightarrow> si_TerminalAt s = Some t \<longrightarrow> tns g \<le> tns t))"

lemma recoveryTimesOK_columns: "lifecycleColumns a = lifecycleColumns b \<Longrightarrow> recoveryTimesOK a = recoveryTimesOK b"
  by (simp add: lifecycleColumns_def recoveryTimesOK_def)

lemma resolveLifecycle_times:
  assumes "recoveryTimesOK s" and "0 \<le> ccf_WebhookRecoveryGrace cfg"
  shows "recoveryTimesOK (applyResolution s (resolveLifecycle cfg s inp snap (reduceSourceLifecycle cfg inp now) now))"
proof (cases "si_Lifecycle s")
  case LifecycleActive
  then show ?thesis
    using le_graceDuration_nonneg [OF assms(2), of s inp snap now]
    by (simp add: resolveLifecycle_def Let_def applyResolution_def recoveryTimesOK_def)
next
  case LifecycleRecoveryPending
  then show ?thesis
    using assms(1) by (simp add: resolveLifecycle_def Let_def applyResolution_def recoveryTimesOK_def tBefore_def split: option.split)
qed (use assms(1) in \<open>simp_all add: resolveLifecycle_def Let_def applyResolution_def recoveryTimesOK_def keepResolution_def\<close>)

lemma cycle_run_times:
  "cycle_run cfg s s' \<Longrightarrow> 0 \<le> ccf_WebhookRecoveryGrace cfg \<Longrightarrow> recoveryTimesOK s \<Longrightarrow> recoveryTimesOK s'"
proof (induction rule: cycle_run.induct)
  case (cycle s s1 s2 s3 inp snap now)
  then have "recoveryTimesOK s2" using recoveryTimesOK_columns by blast
  then show ?case unfolding cycle.hyps(3) using cycle.prems(1) by (rule resolveLifecycle_times)
qed

end
