(* ===== verification/Lifecycle_Trace.thy ===== *)
theory Lifecycle_Trace
  imports Controller_Lifecycle
begin

text \<open>
  Sequences of cycles with what each of them saw: the row it loaded, its input and Snapshot, and its clock.  A trace raises the
  events of the lifecycle machine its evidence calls for, and a trace that recovered a Situation names the cycle that saw the
  recovery and the cycle that found its grace over.
\<close>

section \<open>Observed cycles\<close>

record observedCycle =
  oc_Row :: situation
  oc_In :: snapshotInput
  oc_Snap :: snapshot
  oc_Now :: gtime

definition cycleEvidence :: "controllerConfig \<Rightarrow> observedCycle \<Rightarrow> lifecycleEvidence" where
  "cycleEvidence cfg k = lifecycleEvidenceOf cfg (oc_Row k) (oc_In k) (oc_Snap k)
     (reduceSourceLifecycle cfg (oc_In k) (oc_Now k)) (oc_Now k)"

definition cycleResolution :: "controllerConfig \<Rightarrow> observedCycle \<Rightarrow> lifecycleResolution" where
  "cycleResolution cfg k = resolveLifecycle cfg (oc_Row k) (oc_In k) (oc_Snap k)
     (reduceSourceLifecycle cfg (oc_In k) (oc_Now k)) (oc_Now k)"

inductive cycle_trace :: "controllerConfig \<Rightarrow> situation \<Rightarrow> observedCycle list \<Rightarrow> situation \<Rightarrow> bool" for cfg s where
  start: "cycle_trace cfg s [] s"
| cycle: "cycle_trace cfg s ks s1 \<Longrightarrow> lifecycleColumns (oc_Row k) = lifecycleColumns s1 \<Longrightarrow>
    cycle_trace cfg s (ks @ [k]) (applyResolution (oc_Row k) (cycleResolution cfg k))"

text \<open>Every run of cycles is the run of a trace.\<close>

lemma cycle_run_trace: "cycle_run cfg s s' \<longleftrightarrow> (\<exists>ks. cycle_trace cfg s ks s')"
proof
  assume "cycle_run cfg s s'"
  then show "\<exists>ks. cycle_trace cfg s ks s'"
  proof (induction rule: cycle_run.induct)
    case (cycle s s1 s2 s3 inp snap now)
    then obtain ks where "cycle_trace cfg s ks s1" by blast
    from cycle_trace.cycle [OF this, of "\<lparr>oc_Row = s2, oc_In = inp, oc_Snap = snap, oc_Now = now\<rparr>"] cycle.hyps(2,3)
    show ?case by (auto simp: cycleResolution_def)
  qed (use cycle_trace.start in blast)
next
  assume "\<exists>ks. cycle_trace cfg s ks s'"
  then obtain ks where "cycle_trace cfg s ks s'" by blast
  then show "cycle_run cfg s s'"
  proof (induction rule: cycle_trace.induct)
    case (cycle ks s1 k)
    from cycle_run.cycle [OF cycle.IH cycle.hyps(2) refl] show ?case by (simp add: cycleResolution_def)
  qed (rule cycle_run.start)
qed

section \<open>The events of a cycle\<close>

text \<open>
  An all-clear starts the recovery of an active Situation, a firing symptom ends a recovery, a lost source closes either, and the
  passing of the grace completes a recovery; firing is asked first, then loss, then the grace.
\<close>

definition raisedEvents :: "controllerConfig \<Rightarrow> observedCycle \<Rightarrow> event list" where
  "raisedEvents cfg k =
     (let ev = cycleEvidence cfg k in
      if si_Lifecycle (oc_Row k) = LifecycleActive \<and> \<not> le_firing ev
      then if le_recoveryObserved ev then [EventRecoveryObserved]
           else if le_pastDeadline ev then [EventLifecycleUnobservable] else []
      else if si_Lifecycle (oc_Row k) = LifecycleRecoveryPending
      then if le_firing ev then [EventRefired]
           else if sourceLost ev (oc_In k) (oc_Snap k) (oc_Now k) then [EventLifecycleUnobservable]
           else if graceElapsed (oc_Row k) (oc_Now k) then [EventGraceExpired] else []
      else [])"

lemma lifecycle_run_single: "AdvanceLifecycle l e = (l', None) \<Longrightarrow> lifecycle_run l [e] l'"
  using run_step [OF run_nil lifecycle_step.advance] by fastforce

lemma lifecycle_run_trans:
  "lifecycle_run l' fs l'' \<Longrightarrow> lifecycle_run l es l' \<Longrightarrow> lifecycle_run l (es @ fs) l''"
proof (induction rule: lifecycle_run.induct)
  case (run_step l' fs m e m')
  then show ?case using lifecycle_run.run_step [of l "es @ fs" m e m'] by simp
qed simp

lemma raisedEvents_run: "lifecycle_run (si_Lifecycle (oc_Row k)) (raisedEvents cfg k) (lr_Lifecycle (cycleResolution cfg k))"
proof (cases "si_Lifecycle (oc_Row k)")
  case LifecycleActive
  then show ?thesis
    by (simp add: raisedEvents_def cycleResolution_def resolveLifecycle_def Let_def run_nil lifecycle_run_single
        flip: cycleEvidence_def)
next
  case LifecycleRecoveryPending
  then show ?thesis
    by (simp add: raisedEvents_def cycleResolution_def resolveLifecycle_def sourceLost_def graceElapsed_def Let_def run_nil
        lifecycle_run_single flip: cycleEvidence_def)
qed (simp_all add: raisedEvents_def cycleResolution_def resolveLifecycle_def keepResolution_def Let_def run_nil)

lemma cycle_trace_refines:
  "cycle_trace cfg s ks s' \<Longrightarrow> lifecycle_run (si_Lifecycle s) (concat (map (raisedEvents cfg) ks)) (si_Lifecycle s')"
proof (induction rule: cycle_trace.induct)
  case (cycle ks s1 k)
  from cycle.hyps(2) have "si_Lifecycle (oc_Row k) = si_Lifecycle s1" by (simp add: lifecycleColumns_def)
  with lifecycle_run_trans [OF raisedEvents_run cycle.IH [folded this]] show ?case by (simp add: applyResolution_def)
qed (simp add: run_nil)

section \<open>How a recovery came about\<close>

text \<open>The cycle \<open>p\<close> saw the recovery, the cycles \<open>bs\<close> after it saw no refire and came before the end of its grace.\<close>

definition recoveringSince :: "controllerConfig \<Rightarrow> observedCycle \<Rightarrow> observedCycle list \<Rightarrow> bool" where
  "recoveringSince cfg p bs \<longleftrightarrow>
     si_Lifecycle (oc_Row p) = LifecycleActive \<and> \<not> le_firing (cycleEvidence cfg p) \<and> le_recoveryObserved (cycleEvidence cfg p) \<and>
     list_all (\<lambda>b. si_Lifecycle (oc_Row b) = LifecycleRecoveryPending \<and> \<not> le_firing (cycleEvidence cfg b) \<and>
        tns (oc_Now b) < tns (oc_Now p) + le_graceDuration (cycleEvidence cfg p)) bs"

text \<open>What a trace from an active row left behind it.\<close>

definition pendingSince :: "controllerConfig \<Rightarrow> observedCycle list \<Rightarrow> situation \<Rightarrow> bool" where
  "pendingSince cfg ks s \<longleftrightarrow> (\<exists>as p bs. ks = as @ p # bs \<and> recoveringSince cfg p bs \<and> si_RecoveryObservedAt s = Some (oc_Now p) \<and>
     si_GraceUntil s = Some (tAdd (oc_Now p) (le_graceDuration (cycleEvidence cfg p))))"

definition recoveredBy :: "controllerConfig \<Rightarrow> observedCycle list \<Rightarrow> situation \<Rightarrow> bool" where
  "recoveredBy cfg ks s \<longleftrightarrow> (\<exists>as p bs q ds. ks = as @ p # bs @ q # ds \<and> recoveringSince cfg p bs \<and>
     si_Lifecycle (oc_Row q) = LifecycleRecoveryPending \<and> \<not> le_firing (cycleEvidence cfg q) \<and>
     tns (oc_Now p) + le_graceDuration (cycleEvidence cfg p) \<le> tns (oc_Now q) \<and>
     si_RecoveryObservedAt s = Some (oc_Now p) \<and> si_TerminalAt s = Some (oc_Now q))"

lemma cycleResolution_pending:
  assumes "lr_Lifecycle (cycleResolution cfg k) = LifecycleRecoveryPending"
  obtains (observed) "si_Lifecycle (oc_Row k) = LifecycleActive" "\<not> le_firing (cycleEvidence cfg k)"
      "le_recoveryObserved (cycleEvidence cfg k)" "lr_RecoveryObservedAt (cycleResolution cfg k) = Some (oc_Now k)"
      "lr_GraceUntil (cycleResolution cfg k) = Some (tAdd (oc_Now k) (le_graceDuration (cycleEvidence cfg k)))"
  | (waiting) "si_Lifecycle (oc_Row k) = LifecycleRecoveryPending" "\<not> le_firing (cycleEvidence cfg k)"
      "\<not> graceElapsed (oc_Row k) (oc_Now k)" "lr_RecoveryObservedAt (cycleResolution cfg k) = si_RecoveryObservedAt (oc_Row k)"
      "lr_GraceUntil (cycleResolution cfg k) = si_GraceUntil (oc_Row k)"
proof (cases "si_Lifecycle (oc_Row k)")
  case LifecycleActive
  with assms show thesis
    by (intro observed) (simp_all add: cycleResolution_def resolveLifecycle_def Let_def flip: cycleEvidence_def split: if_splits)
next
  case LifecycleRecoveryPending
  with assms show thesis
    by (intro waiting) (simp_all add: cycleResolution_def resolveLifecycle_def graceElapsed_def Let_def flip: cycleEvidence_def
        split: if_splits)
qed (use assms in \<open>simp_all add: cycleResolution_def resolveLifecycle_def keepResolution_def Let_def\<close>)

lemma cycleResolution_recovered:
  assumes "lr_Lifecycle (cycleResolution cfg k) = LifecycleRecovered"
  obtains (expired) "si_Lifecycle (oc_Row k) = LifecycleRecoveryPending" "\<not> le_firing (cycleEvidence cfg k)"
      "graceElapsed (oc_Row k) (oc_Now k)" "lr_RecoveryObservedAt (cycleResolution cfg k) = si_RecoveryObservedAt (oc_Row k)"
      "lr_TerminalAt (cycleResolution cfg k) = Some (oc_Now k)"
  | (kept) "si_Lifecycle (oc_Row k) = LifecycleRecovered" "cycleResolution cfg k = keepResolution (oc_Row k)"
proof (cases "si_Lifecycle (oc_Row k)")
  case LifecycleRecoveryPending
  with assms show thesis
    by (intro expired) (simp_all add: cycleResolution_def resolveLifecycle_def graceElapsed_def Let_def flip: cycleEvidence_def
        split: if_splits)
next
  case LifecycleRecovered
  then show thesis by (intro kept) (simp_all add: cycleResolution_def resolveLifecycle_def Let_def)
qed (use assms in \<open>simp_all add: cycleResolution_def resolveLifecycle_def keepResolution_def Let_def split: if_splits\<close>)

lemma recoveringSince_snoc:
  "recoveringSince cfg p (bs @ [b]) \<longleftrightarrow> recoveringSince cfg p bs \<and> si_Lifecycle (oc_Row b) = LifecycleRecoveryPending \<and>
     \<not> le_firing (cycleEvidence cfg b) \<and> tns (oc_Now b) < tns (oc_Now p) + le_graceDuration (cycleEvidence cfg p)"
  by (auto simp: recoveringSince_def)

lemma cycle_trace_recovery:
  "cycle_trace cfg s ks s' \<Longrightarrow> si_Lifecycle s = LifecycleActive \<Longrightarrow>
     (si_Lifecycle s' = LifecycleRecoveryPending \<longrightarrow> pendingSince cfg ks s') \<and>
     (si_Lifecycle s' = LifecycleRecovered \<longrightarrow> recoveredBy cfg ks s')"
proof (induction rule: cycle_trace.induct)
  case (cycle ks s1 k)
  let ?s = "applyResolution (oc_Row k) (cycleResolution cfg k)"
  have row: "si_Lifecycle s1 = si_Lifecycle (oc_Row k)" "si_RecoveryObservedAt s1 = si_RecoveryObservedAt (oc_Row k)"
    "si_GraceUntil s1 = si_GraceUntil (oc_Row k)" "si_TerminalAt s1 = si_TerminalAt (oc_Row k)"
    using cycle.hyps(2) by (simp_all add: lifecycleColumns_def)
  have waited: "\<exists>as p bs. ks = as @ p # bs \<and> recoveringSince cfg p bs \<and> si_RecoveryObservedAt (oc_Row k) = Some (oc_Now p) \<and>
      si_GraceUntil (oc_Row k) = Some (tAdd (oc_Now p) (le_graceDuration (cycleEvidence cfg p)))"
    if "si_Lifecycle (oc_Row k) = LifecycleRecoveryPending"
    using cycle.IH [OF cycle.prems] that by (simp add: row pendingSince_def)
  have "pendingSince cfg (ks @ [k]) ?s" if "si_Lifecycle ?s = LifecycleRecoveryPending"
  proof -
    from that have "lr_Lifecycle (cycleResolution cfg k) = LifecycleRecoveryPending" by (simp add: applyResolution_def)
    then show ?thesis
    proof (cases rule: cycleResolution_pending)
      case observed
      then have "recoveringSince cfg k []" by (simp add: recoveringSince_def)
      with observed show ?thesis unfolding pendingSince_def by (intro exI [of _ ks] exI [of _ k] exI [of _ "[]"]) (simp add: applyResolution_def)
    next
      case waiting
      with waited obtain as p bs where w: "ks = as @ p # bs" "recoveringSince cfg p bs" "si_RecoveryObservedAt (oc_Row k) = Some (oc_Now p)"
        "si_GraceUntil (oc_Row k) = Some (tAdd (oc_Now p) (le_graceDuration (cycleEvidence cfg p)))" by blast
      with waiting have "recoveringSince cfg p (bs @ [k])" by (simp add: recoveringSince_snoc graceElapsed_def tBefore_def)
      with w waiting show ?thesis
        unfolding pendingSince_def by (intro exI [of _ as] exI [of _ p] exI [of _ "bs @ [k]"]) (simp add: applyResolution_def)
    qed
  qed
  moreover have "recoveredBy cfg (ks @ [k]) ?s" if "si_Lifecycle ?s = LifecycleRecovered"
  proof -
    from that have "lr_Lifecycle (cycleResolution cfg k) = LifecycleRecovered" by (simp add: applyResolution_def)
    then show ?thesis
    proof (cases rule: cycleResolution_recovered)
      case expired
      with waited obtain as p bs where w: "ks = as @ p # bs" "recoveringSince cfg p bs" "si_RecoveryObservedAt (oc_Row k) = Some (oc_Now p)"
        "si_GraceUntil (oc_Row k) = Some (tAdd (oc_Now p) (le_graceDuration (cycleEvidence cfg p)))" by blast
      with expired have "tns (oc_Now p) + le_graceDuration (cycleEvidence cfg p) \<le> tns (oc_Now k)"
        by (simp add: graceElapsed_def tBefore_def)
      with w expired show ?thesis
        unfolding recoveredBy_def
        by (intro exI [of _ as] exI [of _ p] exI [of _ bs] exI [of _ k] exI [of _ "[]"]) (simp add: applyResolution_def)
    next
      case kept
      with cycle.IH [OF cycle.prems] have "recoveredBy cfg ks s1" by (simp add: row)
      moreover have "si_RecoveryObservedAt ?s = si_RecoveryObservedAt s1" "si_TerminalAt ?s = si_TerminalAt s1"
        by (simp_all add: kept applyResolution_def keepResolution_def row)
      ultimately show ?thesis unfolding recoveredBy_def by (metis append.assoc append_Cons)
    qed
  qed
  ultimately show ?case by blast
qed simp

end
