(* ===== verification/Triage.thy ===== *)
theory Triage
  imports Assessment
begin

text \<open>
  \<^verbatim>\<open>internal/situation/triage.go\<close>: the request/skip decision of Acute Triage, and the pieces of
  \<^verbatim>\<open>controller.go\<close> that read its result within the same cycle: the effective phase of an
  Incident after this cycle's decisions, the aggregate phase and the due times.  A skip is the decision that
  can lose work, so the lemmas characterise it exactly and show when it is reached.
\<close>

section \<open>Decisions\<close>

record triageDecision =
  td_IncidentID :: string
  td_Decision :: string
  td_DecisionReason :: string
  td_SituationID :: string
  td_SituationInputVersion :: int
  td_CoveredAssessmentID :: "string option"
  td_MaterialFactHash :: string
  td_MembershipDigest :: string
  td_IncidentInputDigest :: string
  td_DecidedAt :: gtime

definition TriageDecisionRequest :: string where "TriageDecisionRequest = ''request''"

definition TriageDecisionSkip :: string where "TriageDecisionSkip = ''skip''"

lemma triageDecision_distinct [simp]:
  "TriageDecisionRequest \<noteq> TriageDecisionSkip" "TriageDecisionSkip \<noteq> TriageDecisionRequest"
  by (simp_all add: TriageDecisionRequest_def TriageDecisionSkip_def)

definition needsTriageDecision :: "incidentState \<Rightarrow> string \<Rightarrow> string \<Rightarrow> bool \<times> bool" where
  "needsTriageDecision inc currentMembership currentInputDigest =
     (let t = inc_Triage inc in
      if tst_Phase t = ''awaiting_decision'' then (True, False)
      else if tst_Phase t = ''pending'' \<or> tst_Phase t = ''backoff''
      then (if tst_MembershipDigest t \<noteq> Some currentMembership \<or> tst_IncidentInputDigest t \<noteq> Some currentInputDigest
            then (True, True) else (False, False))
      else (False, False))"

definition findIncidentCoverage :: "incidentCoverage list \<Rightarrow> string \<Rightarrow> incidentCoverage option" where
  "findIncidentCoverage cov incidentID = find (\<lambda>c. ic_IncidentID c = incidentID) cov"

text \<open>The loop that claims the wanted deliveries of one Incident: what is claimed, and what is still wanted.\<close>

fun claimWanted :: "string \<Rightarrow> string list \<Rightarrow> delivery list \<Rightarrow> delivery list \<times> string list" where
  "claimWanted incidentID wanted [] = ([], wanted)"
| "claimWanted incidentID wanted (d # ds) =
     (if de_IncidentID d = incidentID \<and> de_ID d \<in> set wanted
      then let (claimed, rest) = claimWanted incidentID (removeAll (de_ID d) wanted) ds in (d # claimed, rest)
      else claimWanted incidentID wanted ds)"

definition usefulEvidence :: "triageCompletionEvidence \<Rightarrow> bool" where
  "usefulEvidence e = (\<not> blank (tce_Hypothesis e) \<or> list_ex (\<lambda>x. \<not> blank x) (tce_Observations e))"

definition acceptedInvestigationCovers :: "incidentState \<Rightarrow> delivery list \<Rightarrow> string \<Rightarrow> string \<Rightarrow> bool" where
  "acceptedInvestigationCovers inc deliveries membership inputDigest =
     (case tst_LastExecution (inc_Triage inc) of None \<Rightarrow> False
      | Some e \<Rightarrow>
        (case tex_Evidence e of None \<Rightarrow> False
         | Some ev \<Rightarrow>
           if tex_AttemptID e = [] \<or> tex_ResultCode e \<noteq> ''success'' \<or> tex_OutputDigest e = [] \<or>
              tex_CompletedAt e = None \<or> tex_MemberDeliveryIDs e = [] then False
           else if \<not> usefulEvidence ev then False
           else let (claimed, rest) = claimWanted (inc_ID inc) (remdups (tex_MemberDeliveryIDs e)) deliveries in
             rest = [] \<and> MembershipDigest (inc_ID inc) claimed = membership \<and>
             IncidentInputDigest (inc_ID inc) (inc_GroupKey inc) claimed = inputDigest))"

definition decideOne ::
  "incidentState \<Rightarrow> string \<Rightarrow> string \<Rightarrow> snapshot \<Rightarrow> snapshotInput \<Rightarrow> bool \<Rightarrow> string \<times> string \<times> string option" where
  "decideOne inc currentMembership currentInputDigest snap inp refresh =
     (let request = (\<lambda>reason. (TriageDecisionRequest, reason, None)) in
      if refresh then request ''membership_or_input_refresh''
      else case sn_CurrentAssessment inp of
        None \<Rightarrow> request ''no_trustworthy_assessment''
      | Some prior \<Rightarrow>
          if trustworthy prior \<noteq> None then request ''assessment_not_trustworthy''
          else if aa_MaterialFactHash prior \<noteq> ss_MaterialFactHash snap then request ''material_fact_hash_changed''
          else case findIncidentCoverage (aa_Coverage prior) (inc_ID inc) of
            None \<Rightarrow> request ''incident_not_covered_by_assessment''
          | Some cov \<Rightarrow>
              if ic_MembershipDigest cov \<noteq> currentMembership then request ''membership_digest_changed''
              else if ic_IncidentInputDigest cov \<noteq> currentInputDigest then request ''incident_input_digest_changed''
              else if \<not> acceptedInvestigationCovers inc (sn_Deliveries inp) currentMembership currentInputDigest
              then request ''no_matching_accepted_investigation''
              else (TriageDecisionSkip, ''clean_skip_unchanged_coverage'', Some (aa_ID prior)))"

definition decideIncident :: "snapshot \<Rightarrow> snapshotInput \<Rightarrow> gtime \<Rightarrow> incidentState \<Rightarrow> triageDecision list" where
  "decideIncident snap inp now inc =
     (let membership = MembershipDigest (inc_ID inc) (sn_Deliveries inp);
          inputDigest = IncidentInputDigest (inc_ID inc) (inc_GroupKey inc) (sn_Deliveries inp);
          (needs, refresh) = needsTriageDecision inc membership inputDigest
      in if \<not> needs then []
         else let (decision, reason, coveredID) = decideOne inc membership inputDigest snap inp refresh in
           [\<lparr>td_IncidentID = inc_ID inc, td_Decision = decision, td_DecisionReason = reason,
             td_SituationID = ss_SituationID snap, td_SituationInputVersion = ss_InputVersion snap,
             td_CoveredAssessmentID = coveredID, td_MaterialFactHash = ss_MaterialFactHash snap,
             td_MembershipDigest = membership, td_IncidentInputDigest = inputDigest, td_DecidedAt = now\<rparr>])"

definition DecideTriage :: "snapshot \<Rightarrow> snapshotInput \<Rightarrow> gtime \<Rightarrow> triageDecision list" where
  "DecideTriage snap inp now = concat (map (decideIncident snap inp now) (ss_Incidents snap))"

section \<open>The cycle's view of its own decisions\<close>

text \<open>\<^verbatim>\<open>decisionsByIncident\<close> overwrites, so the last decision of an Incident counts.\<close>

definition decisionsByIncident :: "triageDecision list \<Rightarrow> (string \<times> triageDecision) list" where
  "decisionsByIncident decisions = foldl (\<lambda>m d. AList.update (td_IncidentID d) d m) [] decisions"

definition effectiveTriagePhase :: "incidentState \<Rightarrow> (string \<times> triageDecision) list \<Rightarrow> string" where
  "effectiveTriagePhase inc decisions =
     (let phase = tst_Phase (inc_Triage inc) in
      if phase \<noteq> ''awaiting_decision'' then phase
      else case map_of decisions (inc_ID inc) of None \<Rightarrow> phase
        | Some d \<Rightarrow> if td_Decision d = TriageDecisionRequest then ''pending''
                    else if td_Decision d = TriageDecisionSkip then ''skipped'' else phase)"

definition incidentDueTime :: "(string \<times> triageDecision) list \<Rightarrow> gtime \<Rightarrow> incidentState \<Rightarrow> gtime option" where
  "incidentDueTime byIncident now inc =
     (if tst_Phase (inc_Triage inc) = ''awaiting_decision'' \<and>
         pred_option (\<lambda>d. td_Decision d = TriageDecisionRequest) (map_of byIncident (inc_ID inc)) \<and>
         map_of byIncident (inc_ID inc) \<noteq> None
      then Some now
      else if effectiveTriagePhase inc byIncident = ''pending'' \<or> effectiveTriagePhase inc byIncident = ''backoff''
      then Some (case tst_NextAt (inc_Triage inc) of Some t \<Rightarrow> t | None \<Rightarrow> now)
      else None)"

definition considerDue :: "gtime \<Rightarrow> gtime option \<times> gtime option \<Rightarrow> gtime \<Rightarrow> gtime option \<times> gtime option" where
  "considerDue now acc t =
     (let (earliest, future) = acc in
      (case earliest of None \<Rightarrow> Some t | Some e \<Rightarrow> if tBefore t e then Some t else Some e,
       if tAfter t now \<and> (case future of None \<Rightarrow> True | Some f \<Rightarrow> tBefore t f) then Some t else future))"

definition triageDueTimes ::
  "incidentState list \<Rightarrow> triageDecision list \<Rightarrow> gtime \<Rightarrow> gtime option \<times> gtime option" where
  "triageDueTimes incidents decisions now =
     (let byIncident = decisionsByIncident decisions in
      foldl (considerDue now) (None, None) (List.map_filter (incidentDueTime byIncident now) incidents))"

definition earliestTriageDue :: "incidentState list \<Rightarrow> triageDecision list \<Rightarrow> gtime \<Rightarrow> gtime option" where
  "earliestTriageDue incidents decisions now = fst (triageDueTimes incidents decisions now)"

definition aggregateTriagePhase :: "incidentState list \<Rightarrow> triageDecision list \<Rightarrow> triagePhase" where
  "aggregateTriagePhase incidents decisions =
     (let byIncident = decisionsByIncident decisions;
          has = (\<lambda>ps. list_ex (\<lambda>inc. effectiveTriagePhase inc byIncident \<in> set ps) incidents)
      in if has [''in_flight''] then TriagePhaseInFlight
         else if has [''awaiting_decision'', ''pending''] then TriagePhaseAwaitingDecision
         else if has [''backoff''] then TriagePhaseBackoff
         else TriagePhaseNone)"

section \<open>When work is skipped\<close>

lemma decideOne_skip_iff:
  "fst (decideOne inc mem inpd snap inp refresh) = TriageDecisionSkip \<longleftrightarrow>
     \<not> refresh \<and>
     (\<exists>prior cov. sn_CurrentAssessment inp = Some prior \<and> trustworthy prior = None \<and>
        aa_MaterialFactHash prior = ss_MaterialFactHash snap \<and>
        findIncidentCoverage (aa_Coverage prior) (inc_ID inc) = Some cov \<and>
        ic_MembershipDigest cov = mem \<and> ic_IncidentInputDigest cov = inpd) \<and>
     acceptedInvestigationCovers inc (sn_Deliveries inp) mem inpd"
  unfolding decideOne_def Let_def by (simp split: option.split)

lemma decideOne_request_or_skip:
  "fst (decideOne inc mem inpd snap inp refresh) \<in> {TriageDecisionRequest, TriageDecisionSkip}"
  unfolding decideOne_def Let_def by (simp split: option.split)

lemma decideOne_covered_iff:
  "snd (snd (decideOne inc mem inpd snap inp refresh)) \<noteq> None \<longleftrightarrow>
     fst (decideOne inc mem inpd snap inp refresh) = TriageDecisionSkip"
  unfolding decideOne_def Let_def by (simp split: option.split)

lemma DecideTriage_set:
  "d \<in> set (DecideTriage snap inp now) \<longleftrightarrow> (\<exists>inc \<in> set (ss_Incidents snap). decideIncident snap inp now inc = [d])"
proof -
  have "d \<in> set (decideIncident snap inp now inc) \<longleftrightarrow> decideIncident snap inp now inc = [d]" for inc
    by (auto simp: decideIncident_def Let_def case_prod_beta)
  then show ?thesis by (simp add: DecideTriage_def)
qed

lemma decideIncident_singleton:
  "decideIncident snap inp now inc = [d] \<longleftrightarrow>
     (let mem = MembershipDigest (inc_ID inc) (sn_Deliveries inp);
          inpd = IncidentInputDigest (inc_ID inc) (inc_GroupKey inc) (sn_Deliveries inp);
          r = decideOne inc mem inpd snap inp (snd (needsTriageDecision inc mem inpd)) in
      fst (needsTriageDecision inc mem inpd) \<and>
      d = \<lparr>td_IncidentID = inc_ID inc, td_Decision = fst r, td_DecisionReason = fst (snd r),
             td_SituationID = ss_SituationID snap, td_SituationInputVersion = ss_InputVersion snap,
             td_CoveredAssessmentID = snd (snd r), td_MaterialFactHash = ss_MaterialFactHash snap,
             td_MembershipDigest = mem, td_IncidentInputDigest = inpd, td_DecidedAt = now\<rparr>)"
  by (auto simp: decideIncident_def Let_def case_prod_beta)

lemma needsTriageDecision_phase:
  "fst (needsTriageDecision inc mem inpd) \<Longrightarrow>
     tst_Phase (inc_Triage inc) \<in> {''awaiting_decision'', ''pending'', ''backoff''}"
  by (simp add: needsTriageDecision_def Let_def split: if_splits)

lemma needsTriageDecision_awaiting:
  "tst_Phase (inc_Triage inc) = ''awaiting_decision'' \<Longrightarrow> needsTriageDecision inc mem inpd = (True, False)"
  by (simp add: needsTriageDecision_def Let_def)

lemma needsTriageDecision_first_iff:
  "needsTriageDecision inc mem inpd = (True, False) \<longleftrightarrow> tst_Phase (inc_Triage inc) = ''awaiting_decision''"
  by (simp add: needsTriageDecision_def Let_def)

text \<open>Deliveries have unique IDs; the claiming loop then selects by ID and leaves the IDs it did not see.\<close>

lemma claimWanted_distinct:
  assumes "distinct (map de_ID ds)"
  shows "claimWanted i w ds =
    (filter (\<lambda>d. de_IncidentID d = i \<and> de_ID d \<in> set w) ds,
     filter (\<lambda>x. \<forall>d \<in> set ds. de_IncidentID d = i \<longrightarrow> de_ID d \<noteq> x) w)"
  using assms
proof (induction ds arbitrary: w)
  case Nil
  then show ?case by simp
next
  case (Cons d ds)
  have fresh: "\<And>e. e \<in> set ds \<Longrightarrow> de_ID e \<noteq> de_ID d" using Cons.prems by (metis distinct.simps(2) image_eqI list.map(2) list.set_map)
  show ?case
  proof (cases "de_IncidentID d = i \<and> de_ID d \<in> set w")
    case True
    have "filter (\<lambda>e. de_IncidentID e = i \<and> de_ID e \<in> set (removeAll (de_ID d) w)) ds =
        filter (\<lambda>e. de_IncidentID e = i \<and> de_ID e \<in> set w) ds"
      by (rule filter_cong) (auto dest: fresh)
    moreover have "filter (\<lambda>x. \<forall>e \<in> set ds. de_IncidentID e = i \<longrightarrow> de_ID e \<noteq> x) (removeAll (de_ID d) w) =
        filter (\<lambda>x. \<forall>e \<in> set (d # ds). de_IncidentID e = i \<longrightarrow> de_ID e \<noteq> x) w"
      using True by (auto simp: removeAll_filter_not_eq intro!: filter_cong)
    ultimately show ?thesis using True Cons by simp
  next
    case False
    have "filter (\<lambda>x. \<forall>e \<in> set ds. de_IncidentID e = i \<longrightarrow> de_ID e \<noteq> x) w =
        filter (\<lambda>x. \<forall>e \<in> set (d # ds). de_IncidentID e = i \<longrightarrow> de_ID e \<noteq> x) w"
      using False by (intro filter_cong) auto
    with False Cons show ?thesis by auto
  qed
qed

text \<open>
  An execution that ran over exactly the current deliveries of its Incident, succeeded and left useful
  evidence covers the current input.
\<close>

definition acceptedExecution :: "triageExecution \<Rightarrow> bool" where
  "acceptedExecution e \<longleftrightarrow> tex_AttemptID e \<noteq> [] \<and> tex_ResultCode e = ''success'' \<and> tex_OutputDigest e \<noteq> [] \<and>
     tex_CompletedAt e \<noteq> None \<and> pred_option usefulEvidence (tex_Evidence e) \<and> tex_Evidence e \<noteq> None"

lemma acceptedInvestigationCovers_accepted:
  "acceptedInvestigationCovers inc ds mem inpd \<Longrightarrow>
     \<exists>e. tst_LastExecution (inc_Triage inc) = Some e \<and> acceptedExecution e \<and> tex_MemberDeliveryIDs e \<noteq> []"
  unfolding acceptedInvestigationCovers_def acceptedExecution_def
  by (simp split: option.splits if_splits)

lemma claimWanted_spec:
  "claimWanted i w ds = (claimed, rest) \<Longrightarrow>
     de_ID ` set claimed \<union> set rest = set w \<and> set claimed \<subseteq> set (incidentMembers i ds) \<and> distinct (map de_ID claimed)"
proof (induction i w ds arbitrary: claimed rest rule: claimWanted.induct)
  case (2 i w d ds)
  show ?case
  proof (cases "de_IncidentID d = i \<and> de_ID d \<in> set w")
    case True
    then obtain c where c: "claimWanted i (removeAll (de_ID d) w) ds = (c, rest)" "claimed = d # c"
      using "2.prems" by (auto split: prod.splits)
    from "2.IH"(1) [OF True c(1)] True c(2) show ?thesis by (auto simp: incidentMembers_def)
  next
    case False
    with 2 show ?thesis by (auto simp: incidentMembers_def)
  qed
qed simp

text \<open>The deliveries such an investigation ran over are all of the Incident, and their digests are the ones asked for.\<close>

lemma acceptedInvestigationCovers_claims:
  assumes "acceptedInvestigationCovers inc ds mem inpd"
  shows "\<exists>e claimed. tst_LastExecution (inc_Triage inc) = Some e \<and> acceptedExecution e \<and> tex_MemberDeliveryIDs e \<noteq> [] \<and>
     set claimed \<subseteq> set (incidentMembers (inc_ID inc) ds) \<and> distinct (map de_ID claimed) \<and>
     de_ID ` set claimed = set (tex_MemberDeliveryIDs e) \<and>
     MembershipDigest (inc_ID inc) claimed = mem \<and> IncidentInputDigest (inc_ID inc) (inc_GroupKey inc) claimed = inpd"
proof -
  from acceptedInvestigationCovers_accepted [OF assms] obtain e where
    e: "tst_LastExecution (inc_Triage inc) = Some e" "acceptedExecution e" "tex_MemberDeliveryIDs e \<noteq> []" by blast
  obtain claimed rest where c: "claimWanted (inc_ID inc) (remdups (tex_MemberDeliveryIDs e)) ds = (claimed, rest)" by fastforce
  with assms e have "rest = []" "MembershipDigest (inc_ID inc) claimed = mem"
    "IncidentInputDigest (inc_ID inc) (inc_GroupKey inc) claimed = inpd"
    unfolding acceptedInvestigationCovers_def by (simp_all split: option.splits if_splits)
  with claimWanted_spec [OF c] e show ?thesis by auto
qed

lemma acceptedInvestigationCovers_current:
  assumes e: "tst_LastExecution (inc_Triage inc) = Some e" "acceptedExecution e"
    and ids: "distinct (map de_ID ds)"
    and members: "set (tex_MemberDeliveryIDs e) = de_ID ` set (incidentMembers (inc_ID inc) ds)"
    and some: "incidentMembers (inc_ID inc) ds \<noteq> []"
  shows "acceptedInvestigationCovers inc ds (MembershipDigest (inc_ID inc) ds)
    (IncidentInputDigest (inc_ID inc) (inc_GroupKey inc) ds)"
proof -
  let ?w = "remdups (tex_MemberDeliveryIDs e)"
  have claimed: "filter (\<lambda>d. de_IncidentID d = inc_ID inc \<and> de_ID d \<in> set ?w) ds = incidentMembers (inc_ID inc) ds"
    unfolding incidentMembers_def by (rule filter_cong) (auto simp: members incidentMembers_def)
  have rest: "filter (\<lambda>x. \<forall>d \<in> set ds. de_IncidentID d = inc_ID inc \<longrightarrow> de_ID d \<noteq> x) ?w = []"
    by (auto simp: filter_empty_conv members incidentMembers_def)
  have again: "incidentMembers (inc_ID inc) (incidentMembers (inc_ID inc) ds) = incidentMembers (inc_ID inc) ds"
    by (simp add: incidentMembers_def)
  have "tex_MemberDeliveryIDs e \<noteq> []" using members some by auto
  moreover obtain ev where "tex_Evidence e = Some ev" "usefulEvidence ev"
    using e(2) by (cases "tex_Evidence e") (simp_all add: acceptedExecution_def)
  moreover have "claimWanted (inc_ID inc) ?w ds = (incidentMembers (inc_ID inc) ds, [])"
    using claimed rest by (simp only: claimWanted_distinct [OF ids])
  ultimately show ?thesis
    using e unfolding acceptedInvestigationCovers_def acceptedExecution_def
    by (simp add: MembershipDigest_def IncidentInputDigest_def Let_def again)
qed

lemma findIncidentCoverage_current:
  assumes "inc \<in> set (sn_Incidents inp)" and "inj_on inc_ID (set (sn_Incidents inp))"
  shows "findIncidentCoverage (DeriveIncidentCoverage inp) (inc_ID inc) =
    Some \<lparr>ic_IncidentID = inc_ID inc, ic_MembershipDigest = MembershipDigest (inc_ID inc) (sn_Deliveries inp),
          ic_IncidentInputDigest = IncidentInputDigest (inc_ID inc) (inc_GroupKey inc) (sn_Deliveries inp)\<rparr>"
proof -
  have find: "find (\<lambda>c. ic_IncidentID c = inc_ID inc) (map f xs) = Some (f inc)"
    if "inc \<in> set xs" "inj_on inc_ID (set xs)" "\<And>x. ic_IncidentID (f x) = inc_ID x" for f xs
    using that
  proof (induction xs)
    case (Cons x xs)
    show ?case
    proof (cases "inc_ID x = inc_ID inc")
      case True
      with Cons.prems have "x = inc" by (auto simp: inj_on_def)
      then show ?thesis using Cons.prems by simp
    next
      case False
      then show ?thesis using Cons by (auto simp: inj_on_def)
    qed
  qed simp
  have "set (sortIncidentsByID (sn_Incidents inp)) = set (sn_Incidents inp)"
    by (simp add: sortIncidentsByID_def)
  then show ?thesis
    unfolding findIncidentCoverage_def DeriveIncidentCoverage_def
    by (subst find) (simp_all add: assms)
qed

lemma decideOne_covered:
  assumes "tst_LastExecution (inc_Triage inc) = Some e" and "acceptedExecution e"
    and "distinct (map de_ID (sn_Deliveries inp))"
    and "set (tex_MemberDeliveryIDs e) = de_ID ` set (incidentMembers (inc_ID inc) (sn_Deliveries inp))"
    and "incidentMembers (inc_ID inc) (sn_Deliveries inp) \<noteq> []"
    and "inc \<in> set (sn_Incidents inp)" and "inj_on inc_ID (set (sn_Incidents inp))"
    and "sn_CurrentAssessment inp = Some prior" and "trustworthy prior = None"
    and "aa_MaterialFactHash prior = ss_MaterialFactHash snap" and "aa_Coverage prior = DeriveIncidentCoverage inp"
  shows "decideOne inc (MembershipDigest (inc_ID inc) (sn_Deliveries inp))
      (IncidentInputDigest (inc_ID inc) (inc_GroupKey inc) (sn_Deliveries inp)) snap inp False =
    (TriageDecisionSkip, ''clean_skip_unchanged_coverage'', Some (aa_ID prior))"
  using findIncidentCoverage_current [OF assms(6,7)] acceptedInvestigationCovers_current [OF assms(1-5)] assms(8-11)
  by (simp add: decideOne_def Let_def)

section \<open>The decisions as the rest of the cycle reads them\<close>

lemma map_of_decisions:
  "map_of (foldl (\<lambda>m d. AList.update (td_IncidentID d) d m) m ds) k =
     (case map_of (rev (map (\<lambda>d. (td_IncidentID d, d)) ds)) k of None \<Rightarrow> map_of m k | Some d \<Rightarrow> Some d)"
proof (induction ds arbitrary: m)
  case (Cons d ds)
  show ?case unfolding foldl_Cons Cons by (simp add: update_conv' map_add_def split: option.split)
qed simp

lemma decisionsByIncident_lookup:
  assumes "distinct (map td_IncidentID ds)" and "d \<in> set ds"
  shows "map_of (decisionsByIncident ds) (td_IncidentID d) = Some d"
proof -
  have "map_of (rev (map (\<lambda>d. (td_IncidentID d, d)) ds)) (td_IncidentID d) = Some d"
    by (rule map_of_is_SomeI) (use assms in \<open>auto simp: rev_map comp_def distinct_map\<close>)
  then show ?thesis by (simp add: decisionsByIncident_def map_of_decisions)
qed

lemma decideIncident_ids: "\<forall>d \<in> set (decideIncident snap inp now inc). td_IncidentID d = inc_ID inc"
  by (simp add: decideIncident_def Let_def case_prod_beta)

lemma decideIncident_length: "length (decideIncident snap inp now inc) \<le> 1"
  by (simp add: decideIncident_def Let_def case_prod_beta)

lemma DecideTriage_distinct:
  assumes "distinct (map inc_ID (ss_Incidents snap))"
  shows "distinct (map td_IncidentID (DecideTriage snap inp now))"
proof -
  have "distinct (map td_IncidentID (concat (map (decideIncident snap inp now) xs)))" if "distinct (map inc_ID xs)" for xs
    using that
  proof (induction xs)
    case (Cons x xs)
    have "set (map td_IncidentID (concat (map (decideIncident snap inp now) xs))) \<subseteq> inc_ID ` set xs"
      using decideIncident_ids by fastforce
    moreover have "set (map td_IncidentID (decideIncident snap inp now x)) \<subseteq> {inc_ID x}"
      using decideIncident_ids by fastforce
    moreover have "distinct (map td_IncidentID (decideIncident snap inp now x))"
      by (simp add: decideIncident_def Let_def case_prod_beta)
    moreover have "inc_ID x \<notin> inc_ID ` set xs" "distinct (map td_IncidentID (concat (map (decideIncident snap inp now) xs)))"
      using Cons by simp_all
    moreover have "set (map td_IncidentID (decideIncident snap inp now x)) \<inter>
        set (map td_IncidentID (concat (map (decideIncident snap inp now) xs))) = {}"
      using calculation by blast
    ultimately show ?case unfolding list.map(2) concat.simps(2) map_append distinct_append by blast
  qed simp
  then show ?thesis using assms by (simp add: DecideTriage_def)
qed

text \<open>
  After the decisions of a cycle no member Incident still awaits one: a request makes it pending,
  a skip settles it.
\<close>

lemma effectiveTriagePhase_decided:
  assumes inc: "inc \<in> set (ss_Incidents snap)" and ids: "distinct (map inc_ID (ss_Incidents snap))"
    and phase: "tst_Phase (inc_Triage inc) = ''awaiting_decision''"
  shows "effectiveTriagePhase inc (decisionsByIncident (DecideTriage snap inp now)) =
    (if fst (decideOne inc (MembershipDigest (inc_ID inc) (sn_Deliveries inp))
          (IncidentInputDigest (inc_ID inc) (inc_GroupKey inc) (sn_Deliveries inp)) snap inp False) = TriageDecisionSkip
     then ''skipped'' else ''pending'')"
proof -
  let ?m = "MembershipDigest (inc_ID inc) (sn_Deliveries inp)"
  let ?i = "IncidentInputDigest (inc_ID inc) (inc_GroupKey inc) (sn_Deliveries inp)"
  obtain d where d: "decideIncident snap inp now inc = [d]" "td_IncidentID d = inc_ID inc"
    "td_Decision d = fst (decideOne inc ?m ?i snap inp False)"
    using needsTriageDecision_awaiting [OF phase, of ?m ?i]
    by (simp add: decideIncident_def Let_def case_prod_beta)
  have "d \<in> set (DecideTriage snap inp now)" using inc d(1) by (auto simp: DecideTriage_set)
  from decisionsByIncident_lookup [OF DecideTriage_distinct [OF ids] this]
  have "map_of (decisionsByIncident (DecideTriage snap inp now)) (inc_ID inc) = Some d" by (simp add: d)
  with phase d(3) decideOne_request_or_skip [of inc ?m ?i snap inp False] show ?thesis
    by (auto simp: effectiveTriagePhase_def Let_def)
qed

lemma considerDue_earliest:
  "map_option tns (fst (foldl (considerDue now) acc ts)) =
     minOf (set_option (map_option tns (fst acc)) \<union> tns ` set ts)"
proof (induction ts arbitrary: acc)
  case Nil
  show ?case by (cases "fst acc") (simp_all add: minOf_def)
next
  case (Cons t ts)
  have "map_option tns (fst (considerDue now acc t)) = minOf (insert (tns t) (set_option (map_option tns (fst acc))))"
    by (cases "fst acc") (simp_all add: considerDue_def minOf_def case_prod_beta tBefore_def Let_def)
  then have "set_option (map_option tns (fst (considerDue now acc t))) =
      {Min (insert (tns t) (set_option (map_option tns (fst acc))))}" by (auto simp: minOf_def)
  then show ?case
    unfolding foldl_Cons Cons
    by (cases "fst acc"; cases "ts = []")
       (simp_all add: minOf_def Min_insert_min min.assoc min.left_commute min.commute)
qed

lemma considerDue_future:
  "map_option tns (snd (foldl (considerDue now) acc ts)) =
     minOf (set_option (map_option tns (snd acc)) \<union> tns ` {t \<in> set ts. tns now < tns t})"
proof (induction ts arbitrary: acc)
  case Nil
  show ?case by (cases "snd acc") (simp_all add: minOf_def)
next
  case (Cons t ts)
  have step: "set_option (map_option tns (snd (considerDue now acc t))) =
      (if tns now < tns t then {Min (insert (tns t) (set_option (map_option tns (snd acc))))}
       else set_option (map_option tns (snd acc)))"
    by (cases "snd acc") (auto simp: considerDue_def case_prod_beta tBefore_def tAfter_def Let_def)
  have Cset: "{u \<in> set (t # ts). tns now < tns u} =
      (if tns now < tns t then {t} else {}) \<union> {u \<in> set ts. tns now < tns u}" by auto
  show ?case
    unfolding foldl_Cons Cons step Cset
    by (cases "snd acc"; cases "{u \<in> set ts. tns now < tns u} = {}")
       (simp_all add: minOf_def Min_insert_min min.assoc min.left_commute min.commute image_Un)
qed

lemma triageDueTimes_min:
  "map_option tns (fst (triageDueTimes incs ds now)) =
     minOf (tns ` {t. \<exists>inc \<in> set incs. incidentDueTime (decisionsByIncident ds) now inc = Some t})"
  "map_option tns (snd (triageDueTimes incs ds now)) =
     minOf (tns ` {t. tns now < tns t \<and> (\<exists>inc \<in> set incs. incidentDueTime (decisionsByIncident ds) now inc = Some t)})"
proof -
  have "set (List.map_filter f xs) = {t. \<exists>x \<in> set xs. f x = Some t}" for f :: "incidentState \<Rightarrow> gtime option" and xs
    by (induction xs) (auto simp: map_filter_simps split: option.splits)
  then show "map_option tns (fst (triageDueTimes incs ds now)) =
     minOf (tns ` {t. \<exists>inc \<in> set incs. incidentDueTime (decisionsByIncident ds) now inc = Some t})"
   "map_option tns (snd (triageDueTimes incs ds now)) =
     minOf (tns ` {t. tns now < tns t \<and> (\<exists>inc \<in> set incs. incidentDueTime (decisionsByIncident ds) now inc = Some t)})"
    unfolding triageDueTimes_def Let_def considerDue_earliest considerDue_future
    by (simp_all add: conj_commute)
qed

end
