(* ===== verification/Judgment.thy ===== *)
theory Judgment
  imports Triage
begin

text \<open>
  \<^verbatim>\<open>internal/situation/judgment.go\<close>: the coverage of an operator's expected judgment, whether it
  still has authority, and the overlay it puts on a controller commit.  The commit record
  (\<^verbatim>\<open>controller.go\<close>, \<^verbatim>\<open>history.go\<close>) is declared here.  Raw JSON columns are byte strings.
\<close>

section \<open>The commit of one cycle\<close>

record assessmentAttempt =
  aat_ID :: string
  aat_SituationID :: string
  aat_AssessmentBasisHash :: string
  aat_CallID :: "string option"
  aat_InputVersion :: int
  aat_RetryEpoch :: int
  aat_WorkAttempt :: int
  aat_Sequence :: int
  aat_Derivation :: assessmentDerivation
  aat_Status :: string
  aat_Proposal :: string
  aat_Validated :: string
  aat_ValidationErrors :: string
  aat_ProviderRequestStarted :: "providerRequestStarted option"
  aat_UsageInputTokens :: "int option"
  aat_UsageOutputTokens :: "int option"
  aat_ReusedFromAssessmentID :: "string option"
  aat_CreatedAt :: gtime
  aat_CompletedAt :: gtime

record parkedState =
  pks_Touch :: bool
  pks_At :: gtime
  pks_Reason :: string

record historyCommit =
  hc_Transitions :: "transition list"
  hc_Summary :: "episodeSummary option"
  hc_Intents :: "notificationIntent list"

record controllerCommit =
  cc_Attempt :: assessmentAttempt
  cc_Assessment :: assessment
  cc_MaterialFactHash :: string
  cc_AssessmentBasisHash :: string
  cc_EligibleReasons :: "reasonCandidate list"
  cc_Coverage :: "incidentCoverage list"
  cc_TriageDecisions :: "triageDecision list"
  cc_Lifecycle :: lifecycle
  cc_Attention :: attention
  cc_RecoveryObservedAt :: "gtime option"
  cc_GraceUntil :: "gtime option"
  cc_TerminalAt :: "gtime option"
  cc_TerminalReason :: "terminalReason option"
  cc_NextAssessmentAt :: gtime
  cc_ConsumedDueReasons :: "dueReason list"
  cc_RetryAt :: "gtime option"
  cc_LastErrorClass :: "string option"
  cc_Parked :: parkedState
  cc_BudgetDeniedCallID :: "string option"
  cc_History :: "historyCommit option"
  cc_PreparationCycleID :: string
  cc_PreparationGeneration :: int
  cc_JudgmentRevision :: int
  cc_JudgmentApplicable :: bool
  cc_JudgmentApplicabilityReason :: judgmentApplicabilityReason
  cc_JudgmentCheckedAt :: gtime
  cc_ExpectedBehaviorEvaluation :: "expectedBehaviorEvaluation option"

section \<open>Coverage\<close>

definition sourceDefinitionKey :: "string \<Rightarrow> string \<Rightarrow> string" where
  "sourceDefinitionKey instanceID ruleID = instanceID @ [CHR 0x00] @ ruleID"

text \<open>The map of definitions: a later definition of the same key replaces an earlier one.\<close>

definition sourceDefinitions :: "sourceDefinitionObservation list \<Rightarrow> (string \<times> sourceDefinitionObservation) list" where
  "sourceDefinitions defs = foldl (\<lambda>m d. AList.update (sourceDefinitionKey (sd_InstanceID d) (sd_RuleID d)) d m) [] defs"

definition stringPtr :: "string \<Rightarrow> string option" where
  "stringPtr value = (if value = [] then None else Some value)"

definition identityLabels :: "labels \<Rightarrow> labels" where
  "identityLabels ls = filter (\<lambda>(k, _). \<not> (k = ''severity'' \<or> hasPrefix k ''alertint_'')) ls"

definition observedDefinition ::
  "(string \<times> sourceDefinitionObservation) list \<Rightarrow> delivery \<Rightarrow> sourceDefinitionObservation option" where
  "observedDefinition defs d =
     (if de_Source d \<noteq> ''zabbix'' then None
      else case de_SourceInstanceID d of None \<Rightarrow> None
        | Some inst \<Rightarrow>
           (case map_of defs (sourceDefinitionKey inst (labelAt (de_Labels d) ''zabbix_trigger_id'')) of
              None \<Rightarrow> None | Some def \<Rightarrow> if sd_Available def then Some def else None))"

definition coveredSymptom ::
  "(string \<times> sourceDefinitionObservation) list \<Rightarrow> delivery \<Rightarrow> expectedJudgmentSymptom" where
  "coveredSymptom defs d =
     (let def = observedDefinition defs d in
      \<lparr>js_AlertID = de_AlertID d, js_Source = de_Source d, js_EpisodeKey = de_EpisodeKey d,
       js_SourceSignalID = de_SourceSignalID d, js_SourceSignalVersion = de_SourceSignalVersion d,
       js_SourceInstanceID = de_SourceInstanceID d,
       js_ObservedSourceInstanceID = Option.bind def (\<lambda>x. stringPtr (sd_InstanceID x)),
       js_ObservedSourceConfigVersion = Option.bind def (\<lambda>x. stringPtr (sd_Version x)),
       js_Severity = de_Severity d, js_IdentityLabels = identityLabels (de_Labels d)\<rparr>)"

text \<open>\<^verbatim>\<open>sort.Slice\<close> is not stable; firing Alerts have distinct IDs, for which every sort agrees.\<close>

definition DeriveExpectedJudgmentCoverage :: "snapshotInput \<Rightarrow> string + expectedJudgmentCoverage" where
  "DeriveExpectedJudgmentCoverage inp =
     (if Terminal (si_Lifecycle (sn_Situation inp)) then Inl ''situation: expected judgment requires an open situation''
      else case sn_CurrentAssessment inp of
        None \<Rightarrow> Inl ''situation: expected judgment requires a current assessment''
      | Some current \<Rightarrow>
        (let defs = sourceDefinitions (prs_SourceDefinitions (sn_Prepared inp));
             firing = filter (\<lambda>d. de_Status d = DeliveryStatusFiring) (map snd (latestDeliveryPerAlert (sn_Deliveries inp)));
             covered = map (coveredSymptom defs) firing
         in if covered = [] then Inl ''situation: expected judgment requires at least one firing symptom''
            else Inr \<lparr>jc_Scope = si_GroupKey (sn_Situation inp), jc_Impact = as_Impact (aa_Assessment current),
                  jc_Symptoms = sort_key js_AlertID covered,
                  jc_EvidenceRefs = (case as_SufficientReason (aa_Assessment current) of
                     None \<Rightarrow> [] | Some r \<Rightarrow> sortStrings (sr_EvidenceRefs r))\<rparr>))"

section \<open>Applicability\<close>

definition hasCriticalFiring :: "delivery list \<Rightarrow> bool" where
  "hasCriticalFiring deliveries =
     list_ex (\<lambda>(_, d). de_Status d = DeliveryStatusFiring \<and> 4 \<le> Rank (de_Severity d)) (latestDeliveryPerAlert deliveries)"

definition equalLabels :: "labels \<Rightarrow> labels \<Rightarrow> bool" where
  "equalLabels a b = (length a = length b \<and> list_all (\<lambda>(k, v). labelAt b k = v) a)"

definition symptomMismatch ::
  "expectedJudgmentSymptom \<Rightarrow> expectedJudgmentSymptom \<Rightarrow> judgmentApplicabilityReason option" where
  "symptomMismatch cur covered =
     (if js_AlertID cur \<noteq> js_AlertID covered \<or> \<not> equalLabels (js_IdentityLabels cur) (js_IdentityLabels covered)
      then Some JudgmentSymptomsChanged
      else if js_Severity cur \<noteq> js_Severity covered then Some JudgmentSeverityChanged
      else if js_Source cur \<noteq> js_Source covered \<or> js_EpisodeKey cur \<noteq> js_EpisodeKey covered \<or>
        js_SourceSignalID cur \<noteq> js_SourceSignalID covered \<or>
        js_SourceSignalVersion cur \<noteq> js_SourceSignalVersion covered \<or>
        js_SourceInstanceID cur \<noteq> js_SourceInstanceID covered
      then Some JudgmentSourceSignatureChanged
      else if (js_ObservedSourceInstanceID covered \<noteq> None \<or> js_ObservedSourceConfigVersion covered \<noteq> None) \<and>
        (js_ObservedSourceInstanceID cur = None \<or> js_ObservedSourceConfigVersion cur = None)
      then Some JudgmentSourceDefinitionUnavailable
      else if js_ObservedSourceInstanceID cur \<noteq> js_ObservedSourceInstanceID covered \<or>
        js_ObservedSourceConfigVersion cur \<noteq> js_ObservedSourceConfigVersion covered
      then Some JudgmentSourceSignatureChanged
      else None)"

fun firstMismatch ::
  "expectedJudgmentSymptom list \<Rightarrow> expectedJudgmentSymptom list \<Rightarrow> judgmentApplicabilityReason option" where
  "firstMismatch (c # cs) (d # ds) =
     (case symptomMismatch c d of Some r \<Rightarrow> Some r | None \<Rightarrow> firstMismatch cs ds)"
| "firstMismatch _ _ = None"

definition judgmentReason :: "situationJudgment \<Rightarrow> snapshotInput \<Rightarrow> gtime \<Rightarrow> judgmentApplicabilityReason" where
  "judgmentReason j inp now =
     (if sj_State j \<noteq> JudgmentStateExpected then JudgmentRevoked
      else if \<not> tBefore now (sj_ValidUntil j) then JudgmentExpired
      else if Terminal (si_Lifecycle (sn_Situation inp)) then JudgmentSituationTerminal
      else if si_Attention (sn_Situation inp) = AttentionUrgent \<or> hasCriticalFiring (sn_Deliveries inp) then JudgmentUrgent
      else case DeriveExpectedJudgmentCoverage inp of
        Inl _ \<Rightarrow> JudgmentEvidenceMissing
      | Inr current \<Rightarrow>
          if jc_Scope current \<noteq> jc_Scope (sj_Coverage j) then JudgmentScopeChanged
          else if jc_Impact current \<noteq> jc_Impact (sj_Coverage j) then JudgmentImpactChanged
          else if length (jc_Symptoms current) \<noteq> length (jc_Symptoms (sj_Coverage j)) then JudgmentSymptomsChanged
          else case firstMismatch (jc_Symptoms current) (jc_Symptoms (sj_Coverage j)) of
            Some r \<Rightarrow> r
          | None \<Rightarrow> if jc_EvidenceRefs current \<noteq> jc_EvidenceRefs (sj_Coverage j) then JudgmentEvidenceMissing
                     else JudgmentApplicable)"

definition EvaluateExpectedJudgment :: "situationJudgment \<Rightarrow> snapshotInput \<Rightarrow> gtime \<Rightarrow> judgmentApplicability" where
  "EvaluateExpectedJudgment j inp now =
     (let reason = judgmentReason j inp now in \<lparr>ja_Applicable = (reason = JudgmentApplicable), ja_Reason = reason\<rparr>)"

section \<open>The overlay\<close>

text \<open>The re-evaluation of an authority against the state the commit is about to write.\<close>

definition zeroAuthoritative :: "assessment \<Rightarrow> authoritativeAssessment" where
  "zeroAuthoritative a = \<lparr>aa_ID = [], aa_SituationID = [], aa_AssessmentBasisHash = [], aa_MaterialFactHash = [],
     aa_InputVersion = 0, aa_Assessment = a, aa_Coverage = [], aa_Derivation = AssessmentDerivationOther [],
     aa_ReusedFromAssessmentID = None\<rparr>"

definition commitInput :: "controllerCommit \<Rightarrow> snapshotInput \<Rightarrow> snapshotInput" where
  "commitInput commit inp =
     inp\<lparr>sn_Situation := (sn_Situation inp)\<lparr>si_Lifecycle := cc_Lifecycle commit, si_Attention := cc_Attention commit\<rparr>,
        sn_CurrentAssessment := Some (zeroAuthoritative (cc_Assessment commit))\<rparr>"

definition judgmentApplicabilityFor ::
  "controllerCommit \<Rightarrow> situationJudgment \<Rightarrow> snapshotInput \<Rightarrow> gtime \<Rightarrow> judgmentApplicability" where
  "judgmentApplicabilityFor commit j inp now =
     (let app0 = sn_JudgmentApplicability inp;
          app = (if ja_Applicable app0 \<or> ja_Reason app0 = JudgmentApplicabilityReasonOther []
                 then EvaluateExpectedJudgment j (commitInput commit inp) now else app0)
      in if cc_Attention commit = AttentionUrgent \<or> as_Attention (cc_Assessment commit) = AttentionUrgent
         then \<lparr>ja_Applicable = False, ja_Reason = JudgmentUrgent\<rparr> else app)"

definition overlayContract :: "situationJudgment \<Rightarrow> actionContract \<Rightarrow> actionContract" where
  "overlayContract j c =
     c\<lparr>ac_OperatorActionRequired := None,
       ac_NextActor := (if ac_AlertINTAction c \<noteq> None then NextActorAlertINT else NextActorNone),
       ac_NextUpdateAt := (case ac_NextUpdateAt c of
          None \<Rightarrow> Some (tUTC (sj_ValidUntil j))
        | Some t \<Rightarrow> if tBefore (sj_ValidUntil j) t then Some (tUTC (sj_ValidUntil j)) else Some t)\<rparr>"

definition applyExpectedJudgment :: "controllerCommit \<Rightarrow> snapshotInput \<Rightarrow> gtime \<Rightarrow> controllerCommit" where
  "applyExpectedJudgment commit0 inp now =
     (let commit = commit0\<lparr>cc_JudgmentCheckedAt := tUTC now\<rparr> in
      case sn_Judgment inp of None \<Rightarrow> commit
      | Some j \<Rightarrow>
        (let app = judgmentApplicabilityFor commit j inp now;
             noted = commit\<lparr>cc_JudgmentRevision := sj_Revision j, cc_JudgmentApplicabilityReason := ja_Reason app\<rparr>
         in if \<not> ja_Applicable app then noted
            else noted\<lparr>cc_JudgmentApplicable := True,
                   cc_Assessment := (cc_Assessment noted)\<lparr>as_ActionContract := overlayContract j (as_ActionContract (cc_Assessment noted))\<rparr>,
                   cc_ConsumedDueReasons := filter (\<lambda>r. r \<noteq> DueJudgmentBoundary) (cc_ConsumedDueReasons noted)\<rparr>))"

section \<open>When a judgment has authority\<close>

definition symptomCovers :: "expectedJudgmentSymptom \<Rightarrow> expectedJudgmentSymptom \<Rightarrow> bool" where
  "symptomCovers cur covered \<longleftrightarrow>
     js_AlertID cur = js_AlertID covered \<and> equalLabels (js_IdentityLabels cur) (js_IdentityLabels covered) \<and>
     js_Severity cur = js_Severity covered \<and> js_Source cur = js_Source covered \<and>
     js_EpisodeKey cur = js_EpisodeKey covered \<and> js_SourceSignalID cur = js_SourceSignalID covered \<and>
     js_SourceSignalVersion cur = js_SourceSignalVersion covered \<and> js_SourceInstanceID cur = js_SourceInstanceID covered \<and>
     js_ObservedSourceInstanceID cur = js_ObservedSourceInstanceID covered \<and>
     js_ObservedSourceConfigVersion cur = js_ObservedSourceConfigVersion covered \<and>
     (js_ObservedSourceInstanceID covered = None \<longleftrightarrow> js_ObservedSourceConfigVersion covered = None)"

lemma symptomMismatch_None_iff: "symptomMismatch cur covered = None \<longleftrightarrow> symptomCovers cur covered"
proof (cases "js_ObservedSourceInstanceID covered = None")
  case True
  then show ?thesis
    unfolding symptomMismatch_def symptomCovers_def
    by (cases "js_ObservedSourceConfigVersion covered = None") (auto simp: not_None_eq)
next
  case False
  then show ?thesis
    unfolding symptomMismatch_def symptomCovers_def
    by (cases "js_ObservedSourceConfigVersion covered = None") (auto simp: not_None_eq)
qed

lemma symptomMismatch_not_applicable: "symptomMismatch c d \<noteq> Some JudgmentApplicable"
  by (simp add: symptomMismatch_def)

lemma firstMismatch_None_iff:
  "length cs = length ds \<Longrightarrow> firstMismatch cs ds = None \<longleftrightarrow> list_all2 symptomCovers cs ds"
proof (induction cs ds rule: list_induct2)
  case (Cons c cs d ds)
  then show ?case by (cases "symptomMismatch c d") (auto simp: symptomMismatch_None_iff [symmetric])
qed simp

lemma firstMismatch_not_applicable: "firstMismatch cs ds \<noteq> Some JudgmentApplicable"
proof (induction cs ds rule: firstMismatch.induct)
  case (1 c cs d ds)
  then show ?case using symptomMismatch_not_applicable [of c d] by (cases "symptomMismatch c d") auto
qed simp_all

definition coverageHolds :: "expectedJudgmentCoverage \<Rightarrow> expectedJudgmentCoverage \<Rightarrow> bool" where
  "coverageHolds current c \<longleftrightarrow>
     jc_Scope current = jc_Scope c \<and> jc_Impact current = jc_Impact c \<and>
     list_all2 symptomCovers (jc_Symptoms current) (jc_Symptoms c) \<and> jc_EvidenceRefs current = jc_EvidenceRefs c"

definition judgmentBlocked :: "situationJudgment \<Rightarrow> snapshotInput \<Rightarrow> gtime \<Rightarrow> bool" where
  "judgmentBlocked j inp now \<longleftrightarrow>
     sj_State j \<noteq> JudgmentStateExpected \<or> tns (sj_ValidUntil j) \<le> tns now \<or> Terminal (si_Lifecycle (sn_Situation inp)) \<or>
     si_Attention (sn_Situation inp) = AttentionUrgent \<or> hasCriticalFiring (sn_Deliveries inp)"

lemma judgmentReason_blocked: "judgmentBlocked j inp now \<Longrightarrow> judgmentReason j inp now \<noteq> JudgmentApplicable"
  by (auto simp: judgmentBlocked_def judgmentReason_def tBefore_def)

lemma judgmentReason_applicable_iff:
  "judgmentReason j inp now = JudgmentApplicable \<longleftrightarrow>
     \<not> judgmentBlocked j inp now \<and>
     (\<exists>current. DeriveExpectedJudgmentCoverage inp = Inr current \<and> coverageHolds current (sj_Coverage j))"
proof (cases "judgmentBlocked j inp now")
  case True
  then show ?thesis using judgmentReason_blocked by blast
next
  case False
  have body: "judgmentReason j inp now =
    (case DeriveExpectedJudgmentCoverage inp of
        Inl _ \<Rightarrow> JudgmentEvidenceMissing
      | Inr current \<Rightarrow>
          if jc_Scope current \<noteq> jc_Scope (sj_Coverage j) then JudgmentScopeChanged
          else if jc_Impact current \<noteq> jc_Impact (sj_Coverage j) then JudgmentImpactChanged
          else if length (jc_Symptoms current) \<noteq> length (jc_Symptoms (sj_Coverage j)) then JudgmentSymptomsChanged
          else case firstMismatch (jc_Symptoms current) (jc_Symptoms (sj_Coverage j)) of
            Some r \<Rightarrow> r
          | None \<Rightarrow> if jc_EvidenceRefs current \<noteq> jc_EvidenceRefs (sj_Coverage j) then JudgmentEvidenceMissing
                     else JudgmentApplicable)"
    using False by (simp add: judgmentReason_def judgmentBlocked_def tBefore_def)
  show ?thesis
  proof (cases "DeriveExpectedJudgmentCoverage inp")
    case (Inl e)
    then show ?thesis by (simp add: body)
  next
    case (Inr c)
    show ?thesis
    proof (cases "length (jc_Symptoms c) = length (jc_Symptoms (sj_Coverage j))")
      case True
      then show ?thesis
        using False Inr firstMismatch_not_applicable [of "jc_Symptoms c" "jc_Symptoms (sj_Coverage j)"]
          firstMismatch_None_iff [OF True]
        by (cases "firstMismatch (jc_Symptoms c) (jc_Symptoms (sj_Coverage j))") (auto simp: body coverageHolds_def)
    next
      case False
      then have "\<not> list_all2 symptomCovers (jc_Symptoms c) (jc_Symptoms (sj_Coverage j))"
        using list_all2_lengthD by blast
      then show ?thesis using Inr False by (auto simp: body coverageHolds_def)
    qed
  qed
qed

lemma EvaluateExpectedJudgment_Applicable:
  "ja_Applicable (EvaluateExpectedJudgment j inp now) \<longleftrightarrow> judgmentReason j inp now = JudgmentApplicable"
  by (simp add: EvaluateExpectedJudgment_def Let_def)

section \<open>A coverage holds for the input it was derived from\<close>

lemma equalLabels_refl: "distinct (map fst ls) \<Longrightarrow> equalLabels ls ls"
  by (auto simp: equalLabels_def list_all_iff labelAt_def)

lemma identityLabels_distinct: "distinct (map fst ls) \<Longrightarrow> distinct (map fst (identityLabels ls))"
  by (simp add: identityLabels_def distinct_map_filter)

lemma stringPtr_None_iff: "stringPtr s = None \<longleftrightarrow> s = []"
  by (simp add: stringPtr_def)

lemma sourceDefinitions_source:
  assumes "map_of (sourceDefinitions defs) k = Some d"
  shows "d \<in> set defs"
proof -
  have "map_of (foldl (\<lambda>m d. AList.update (key d) d m) m ds) k = Some d \<Longrightarrow> d \<in> set ds \<or> map_of m k = Some d"
    for key :: "sourceDefinitionObservation \<Rightarrow> string" and m ds
  proof (induction ds arbitrary: m)
    case (Cons x xs)
    then have "d \<in> set xs \<or> map_of (AList.update (key x) x m) k = Some d" by simp
    then show ?case by (auto simp: update_conv' split: if_splits)
  qed simp
  from this [OF assms [unfolded sourceDefinitions_def]] show ?thesis by simp
qed

definition definitionsNamed :: "sourceDefinitionObservation list \<Rightarrow> bool" where
  "definitionsNamed defs \<longleftrightarrow> (\<forall>d \<in> set defs. sd_Available d \<longrightarrow> sd_InstanceID d \<noteq> [] \<and> sd_Version d \<noteq> [])"

lemma coveredSymptom_refl:
  assumes "definitionsNamed defs" and "distinct (map fst (de_Labels d))"
  shows "symptomCovers (coveredSymptom (sourceDefinitions defs) d) (coveredSymptom (sourceDefinitions defs) d)"
proof -
  have "sd_Available x \<and> x \<in> set defs" if "observedDefinition (sourceDefinitions defs) d = Some x" for x
    using that unfolding observedDefinition_def
    by (auto split: if_splits option.splits dest: sourceDefinitions_source)
  then have named: "sd_InstanceID x \<noteq> [] \<and> sd_Version x \<noteq> []" if "observedDefinition (sourceDefinitions defs) d = Some x" for x
    using that assms(1) by (auto simp: definitionsNamed_def)
  then show ?thesis
    using equalLabels_refl [OF identityLabels_distinct [OF assms(2)]]
    by (cases "observedDefinition (sourceDefinitions defs) d")
       (simp_all add: symptomCovers_def coveredSymptom_def Let_def stringPtr_None_iff)
qed

lemma coverageHolds_refl:
  assumes c: "DeriveExpectedJudgmentCoverage inp = Inr c"
    and defs: "definitionsNamed (prs_SourceDefinitions (sn_Prepared inp))"
    and labels: "\<forall>d \<in> set (sn_Deliveries inp). distinct (map fst (de_Labels d))"
  shows "coverageHolds c c"
proof -
  let ?firing = "filter (\<lambda>d. de_Status d = DeliveryStatusFiring) (map snd (latestDeliveryPerAlert (sn_Deliveries inp)))"
  let ?cov = "coveredSymptom (sourceDefinitions (prs_SourceDefinitions (sn_Prepared inp)))"
  from c obtain cur where cur: "sn_CurrentAssessment inp = Some cur"
    by (cases "sn_CurrentAssessment inp") (simp_all add: DeriveExpectedJudgmentCoverage_def split: if_splits)
  have sym: "jc_Symptoms c = sort_key js_AlertID (map ?cov ?firing)"
    using c cur by (auto simp: DeriveExpectedJudgmentCoverage_def Let_def split: if_splits)
  have "symptomCovers x x" if "x \<in> set (jc_Symptoms c)" for x
  proof -
    from that obtain d where d: "d \<in> snd ` set (latestDeliveryPerAlert (sn_Deliveries inp))" "x = ?cov d"
      unfolding sym by auto
    then obtain k where "(k, d) \<in> set (latestDeliveryPerAlert (sn_Deliveries inp))" by auto
    then have "d \<in> set (sn_Deliveries inp)"
      using latestDeliveryPerAlert_set latestDeliveryPerAlert_lookup by blast
    then show ?thesis unfolding d(2) using coveredSymptom_refl [OF defs] labels by blast
  qed
  then have "list_all2 symptomCovers (jc_Symptoms c) (jc_Symptoms c)" by (auto intro: list_all2_refl simp: list_all2_same)
  then show ?thesis by (simp add: coverageHolds_def)
qed

section \<open>What the overlay changes\<close>

lemma overlayContract_valid:
  assumes "ActionContract_validate False c = None"
  shows "ActionContract_validate False (overlayContract j c) = None"
  using assms unfolding ActionContract_validate_iff
  by (cases "ac_NextUpdateAt c") (simp_all add: overlayContract_def contractCodesClosed_def contractActor_def)

lemma overlayContract_deadline:
  "\<exists>t. ac_NextUpdateAt (overlayContract j c) = Some t \<and> tns t \<le> tns (sj_ValidUntil j) \<and>
     (tns now < tns (sj_ValidUntil j) \<longrightarrow> requireFreshNextUpdateAt c now = None \<longrightarrow> tns now < tns t)"
  by (cases "ac_NextUpdateAt c")
     (simp_all add: overlayContract_def requireFreshNextUpdateAt_def errWhen_def tBefore_def tAfter_def)

lemma applyExpectedJudgment_frame:
  fixes commit inp now
  defines "c \<equiv> applyExpectedJudgment commit inp now"
  shows "cc_Lifecycle c = cc_Lifecycle commit" "cc_Attention c = cc_Attention commit"
    "cc_TriageDecisions c = cc_TriageDecisions commit" "cc_Attempt c = cc_Attempt commit"
    "cc_EligibleReasons c = cc_EligibleReasons commit" "cc_Coverage c = cc_Coverage commit"
    "cc_NextAssessmentAt c = cc_NextAssessmentAt commit" "cc_BudgetDeniedCallID c = cc_BudgetDeniedCallID commit"
    "cc_RetryAt c = cc_RetryAt commit" "cc_Parked c = cc_Parked commit"
    "(cc_Assessment c)\<lparr>as_ActionContract := as_ActionContract (cc_Assessment commit)\<rparr> = cc_Assessment commit"
    "ac_AlertINTAction (as_ActionContract (cc_Assessment c)) = ac_AlertINTAction (as_ActionContract (cc_Assessment commit))"
    "ac_AlertINTStatus (as_ActionContract (cc_Assessment c)) = ac_AlertINTStatus (as_ActionContract (cc_Assessment commit))"
  unfolding c_def applyExpectedJudgment_def Let_def overlayContract_def
  by (cases "sn_Judgment inp"; simp)+

lemma judgmentApplicabilityFor_applicable:
  assumes "ja_Applicable (judgmentApplicabilityFor commit j inp now)"
  shows "\<not> judgmentBlocked j (commitInput commit inp) now" and "as_Attention (cc_Assessment commit) \<noteq> AttentionUrgent"
proof -
  have "cc_Attention commit \<noteq> AttentionUrgent \<and> as_Attention (cc_Assessment commit) \<noteq> AttentionUrgent \<and>
      ja_Applicable (EvaluateExpectedJudgment j (commitInput commit inp) now)"
    using assms by (auto simp: judgmentApplicabilityFor_def Let_def split: if_splits)
  then show "\<not> judgmentBlocked j (commitInput commit inp) now" "as_Attention (cc_Assessment commit) \<noteq> AttentionUrgent"
    by (auto simp: EvaluateExpectedJudgment_Applicable judgmentReason_applicable_iff)
qed

lemma judgmentApplicabilityFor_covered:
  assumes "ja_Applicable (judgmentApplicabilityFor commit j inp now)"
  shows "\<exists>current. DeriveExpectedJudgmentCoverage (commitInput commit inp) = Inr current \<and> coverageHolds current (sj_Coverage j)"
proof -
  have "ja_Applicable (EvaluateExpectedJudgment j (commitInput commit inp) now)"
    using assms by (auto simp: judgmentApplicabilityFor_def Let_def split: if_splits)
  then show ?thesis by (auto simp: EvaluateExpectedJudgment_Applicable judgmentReason_applicable_iff)
qed

lemma judgmentApplicabilityFor_reason:
  "ja_Applicable (judgmentApplicabilityFor commit j inp now) \<Longrightarrow> ja_Reason (judgmentApplicabilityFor commit j inp now) = JudgmentApplicable"
  by (auto simp: judgmentApplicabilityFor_def EvaluateExpectedJudgment_def Let_def split: if_splits)

lemma applyExpectedJudgment_applied:
  assumes "cc_JudgmentApplicable (applyExpectedJudgment commit inp now)" and "\<not> cc_JudgmentApplicable commit"
  obtains j where "sn_Judgment inp = Some j"
    "ja_Applicable (judgmentApplicabilityFor (commit\<lparr>cc_JudgmentCheckedAt := tUTC now\<rparr>) j inp now)"
    "as_ActionContract (cc_Assessment (applyExpectedJudgment commit inp now)) =
       overlayContract j (as_ActionContract (cc_Assessment commit))"
proof (cases "sn_Judgment inp")
  case None
  with assms have False by (simp add: applyExpectedJudgment_def Let_def)
  then show thesis ..
next
  case (Some j)
  show thesis
  proof (cases "ja_Applicable (judgmentApplicabilityFor (commit\<lparr>cc_JudgmentCheckedAt := tUTC now\<rparr>) j inp now)")
    case True
    with Some show thesis by (intro that [of j]) (simp_all add: applyExpectedJudgment_def Let_def)
  next
    case False
    with assms Some have False by (simp add: applyExpectedJudgment_def Let_def)
    then show thesis ..
  qed
qed

end
