(* ===== verification/Samples.thy ===== *)
theory Samples
  imports Judgment Controller_Lifecycle
begin

text \<open>
  Concrete values of the model's records, at which the properties are evaluated: one group of
  Alerts, a delivery, an Incident, a Situation, an input of the controller and of the notification planner.
  Nothing here models code.
\<close>

definition sampleTime :: "int \<Rightarrow> gtime" where "sampleTime s = utcAt (s * second)"

definition sampleDelivery :: "string \<Rightarrow> string \<Rightarrow> deliveryStatus \<Rightarrow> int \<Rightarrow> delivery" where
  "sampleDelivery i a st t =
     \<lparr>de_ID = i, de_IncidentID = ''inc-1'', de_Status = st, de_PayloadDigest = ''d'',
      de_SourceStartedAt = Some (sampleTime 100), de_StartedAtBasis = SourceTimeBasisSourcePayload,
      de_SourceResolvedAt = None, de_ResolvedAtBasis = SourceTimeBasisMissing, de_ReceivedAt = sampleTime t,
      de_AlertID = a, de_Severity = ''critical'', de_Drill = False, de_Labels = [(''host'', ''db1'')],
      de_SourceSummary = [], de_Source = ''alertmanager'', de_EpisodeKey = ''ep'', de_SourceSignalID = None,
      de_SourceSignalVersion = None, de_SourceInstanceID = None, de_AcquisitionMode = ''webhook'',
      de_PollIntervalSeconds = 0\<rparr>"

definition sampleSituation :: "lifecycle \<Rightarrow> gtime option \<Rightarrow> gtime option \<Rightarrow> situation" where
  "sampleSituation lc recovery grace =
     \<lparr>si_ID = ''sit-1'', si_PreviousSituationID = None, si_GroupKey = ''g'', si_PublicHandle = None,
      si_Lifecycle = lc, si_Attention = AttentionObserve, si_InputVersion = 1, si_OpenedAt = sampleTime 100,
      si_EffectiveStartedAt = sampleTime 100, si_EffectiveStartedAtBasis = SourceTimeBasisSourcePayload,
      si_FirstReceivedAt = sampleTime 101, si_LastLifecycleObservedAt = sampleTime 101,
      si_RecoveryObservedAt = recovery, si_GraceUntil = grace, si_TerminalAt = None, si_TerminalReason = None,
      si_NextAssessmentAt = sampleTime 200, si_DueReasons = [], si_LeaseOwner = None, si_LeaseExpiresAt = None,
      si_ClaimToken = 1, si_AttemptCount = 0, si_SupersedeStreak = 0, si_LeaseProtected = False,
      si_LastErrorClass = None, si_RetryAt = None, si_CreatedAt = sampleTime 101, si_UpdatedAt = sampleTime 101\<rparr>"

definition sampleEvidence :: triageCompletionEvidence where
  "sampleEvidence = \<lparr>tce_SourceEvidence = [], tce_Hypothesis = ''disk full'', tce_Observations = [],
     tce_VerificationLimit = [], tce_VerificationGaps = 0, tce_JudgedAt = None\<rparr>"

definition sampleExecution :: "string list \<Rightarrow> triageExecution" where
  "sampleExecution ids = \<lparr>tex_AttemptID = ''a1'', tex_AttemptNumber = 1, tex_StartedAt = sampleTime 110,
     tex_MemberDeliveryIDs = ids, tex_ResultCode = ''success'', tex_OutputDigest = ''o'',
     tex_CompletedAt = Some (sampleTime 120), tex_Evidence = Some sampleEvidence\<rparr>"

definition sampleTriage :: "string \<Rightarrow> triageExecution option \<Rightarrow> triageState" where
  "sampleTriage phase exec =
     \<lparr>tst_Phase = phase, tst_Attempts = 0, tst_NextAt = None, tst_Decision = None, tst_DecisionReason = None,
      tst_DecisionInputVersion = None, tst_MaterialFactHash = None, tst_MembershipDigest = None,
      tst_IncidentInputDigest = None, tst_AssessmentID = None, tst_DecidedAt = None, tst_LatestAttempt = None,
      tst_ActiveAttempt = None, tst_LastExecution = exec, tst_SkipReason = []\<rparr>"

definition sampleIncident :: "string \<Rightarrow> triageExecution option \<Rightarrow> incidentState" where
  "sampleIncident phase exec =
     \<lparr>inc_ID = ''inc-1'', inc_GroupKey = ''g'', inc_Status = ''ready'', inc_FirstAlertAt = sampleTime 100,
      inc_LastAlertAt = sampleTime 101, inc_ReadyAt = sampleTime 105, inc_AlertCount = 1,
      inc_Triage = sampleTriage phase exec, inc_Occurrences = 1\<rparr>"

definition samplePrepared :: "string \<Rightarrow> preparedState" where
  "samplePrepared c =
     \<lparr>prs_CycleID = c, prs_Generation = 0, prs_Runs = [], prs_ProfileVersionIDs = [], prs_ProfileGuidance = [],
      prs_NextRefreshAt = None, prs_Lifecycle = [], prs_SourceDefinitions = [], prs_Limitations = [],
      prs_Deferred = [], prs_PlansByID = [], prs_LoadedAt = sampleTime 130\<rparr>"

definition sampleHistory :: deliveredHistory where
  "sampleHistory = \<lparr>dh_LastDeliveredSequence = 0, dh_AssuranceConveyed = False, dh_LiveAssuranceIntentID = None,
     dh_CommunicatedLimitationCodes = [], dh_CommunicatedAction = None, dh_ProjectedLimitationCodes = [],
     dh_ProjectedAction = None, dh_AssuranceSuperseded = False\<rparr>"

definition sampleInput ::
  "string \<Rightarrow> situation \<Rightarrow> delivery list \<Rightarrow> incidentState list \<Rightarrow> authoritativeAssessment option \<Rightarrow> snapshotInput" where
  "sampleInput c sit ds incs cur =
     \<lparr>sn_Situation = sit, sn_Deliveries = ds, sn_Incidents = incs, sn_Analyses = [], sn_AnalysisCount = 0,
      sn_PresentationFacts = \<lparr>prf_InvestigationStartedAt = None, prf_InvestigationCompletedAt = None,
        prf_InvestigationRuntimeSeconds = None, prf_AnalysisUsage = \<lparr>au_Calls = 0, au_CallsKnown = False,
          au_InputTokens = 0, au_InputTokensKnown = False, au_OutputTokens = 0, au_OutputTokensKnown = False\<rparr>,
        prf_SourceChecks = []\<rparr>,
      sn_PriorSituations = [], sn_CurrentAssessment = cur, sn_Now = sampleTime 200, sn_Judgment = None,
      sn_JudgmentApplicability = \<lparr>ja_Applicable = False, ja_Reason = JudgmentApplicabilityReasonOther []\<rparr>,
      sn_ExpectedBehavior = None, sn_ExpectedBehaviorHeads = [],
      sn_ControllerParked = \<lparr>cps_At = None, cps_Reason = [], cps_MaterialFactHash = []\<rparr>,
      sn_PriorTransition = None, sn_CurrentSummary = None, sn_RootPublished = False,
      sn_LatestRootSyncVersion = None, sn_RootPublicationOwed = False, sn_LastDeliveredRootDeadlineAt = None,
      sn_LastMainChannelPokeAt = None, sn_PendingArtifacts = [], sn_Prepared = samplePrepared c,
      sn_DeliveredHistory = sampleHistory\<rparr>"

definition sampleConfig :: controllerConfig where
  "sampleConfig = ControllerConfig_withDefaults
     \<lparr>ccf_Cadence = \<lparr>ct_Fast = 0, ct_Normal = 0, ct_Slow = 0\<rparr>, ccf_MaxL2CallsPerAttempt = 0,
      ccf_MaxWorkAttemptsPerInput = 0, ccf_AttemptWall = 0, ccf_WebhookRecoveryGrace = 0, ccf_PollingIntervalSeconds = 0,
      ccf_Retry = \<lparr>rtc_Min = 0, rtc_Max = 0, rtc_JitterPercent = 0\<rparr>, ccf_SlackFloor = InterruptionPriorityOther [],
      ccf_RepageCooldown = 0, ccf_RecurrenceMode = [], ccf_PresentationSources = []\<rparr>"

definition sampleState :: controllerState where
  "sampleState = \<lparr>cst_Lifecycle = LifecycleActive, cst_Attention = AttentionObserve, cst_OperatorActionRequired = None,
     cst_TriagePhase = TriagePhaseNone, cst_SemanticRetry = SemanticRetryPhaseNone,
     cst_Tempo = \<lparr>ct_Fast = 0, ct_Normal = 0, ct_Slow = 0\<rparr>, cst_TriageDueAt = None, cst_FutureTriageDueAt = None,
     cst_SemanticRetryAt = None, cst_RecoveryGraceUntil = None, cst_LifecycleObservationDeadlineAt = Some (sampleTime 230),
     cst_EarliestPersistedCheckpoint = None\<rparr>"

definition sampleContract :: actionContract where
  "sampleContract = \<lparr>ac_NextActor = NextActorOperator, ac_AlertINTAction = Some AlertINTActionMonitorSituation,
     ac_AlertINTStatus = Some AlertINTStatusWaiting, ac_OperatorActionRequired = Some OperatorActionInvestigateSituation,
     ac_NextUpdateAt = Some (sampleTime 500), ac_NextUpdateOn = [], ac_WaitReason = Some WaitReasonSourceChange\<rparr>"

definition sampleAssessment :: "attention \<Rightarrow> assessment" where
  "sampleAssessment att = \<lparr>as_SchemaVersion = AssessmentSchemaVersion, as_Persistence = PersistenceUnknown,
     as_Impact = ImpactNoneObserved, as_Novelty = NoveltyInsufficientHistory, as_Causality = CausalityUnknown,
     as_Attention = att, as_Lifecycle = LifecycleActive, as_EvidenceQuality = EvidenceQualityComplete,
     as_SufficientReason = None, as_ActionContract = sampleContract, as_Limitations = [], as_Cadence = CadenceSlow\<rparr>"

definition sampleProposal :: "attention \<Rightarrow> assessmentProposal" where
  "sampleProposal att = \<lparr>ap_SchemaVersion = AssessmentSchemaVersion, ap_Persistence = PersistenceUnknown,
     ap_Impact = ImpactNoneObserved, ap_Novelty = NoveltyInsufficientHistory, ap_Causality = CausalityUnknown,
     ap_Attention = att, ap_SufficientReason = None, ap_Limitations = []\<rparr>"

definition sampleAuthoritative :: "string \<Rightarrow> string \<Rightarrow> incidentCoverage list \<Rightarrow> authoritativeAssessment" where
  "sampleAuthoritative basis facts cov = \<lparr>aa_ID = ''as-1'', aa_SituationID = ''sit-1'', aa_AssessmentBasisHash = basis,
     aa_MaterialFactHash = facts, aa_InputVersion = 1, aa_Assessment = sampleAssessment AttentionObserve,
     aa_Coverage = cov, aa_Derivation = DerivationModelValidated, aa_ReusedFromAssessmentID = None\<rparr>"

definition sampleSnapshot :: "reasonCandidate list \<Rightarrow> incidentState list \<Rightarrow> symptom list \<Rightarrow> snapshot" where
  "sampleSnapshot reasons incs syms = \<lparr>ss_ObservationChecks = [], ss_SituationID = ''sit-1'', ss_InputVersion = 1,
     ss_Lifecycle = LifecycleActive, ss_ElapsedSeconds = 100, ss_DurationClass = DurationClassShort, ss_Facts = [],
     ss_Symptoms = syms, ss_Incidents = incs, ss_EligibleReasons = reasons, ss_PriorAssessment = None,
     ss_MaterialFactHash = ''facts'', ss_AssessmentBasisHash = ''basis'', ss_PreparationCycleID = [],
     ss_Observations = [], ss_CapabilityResults = [], ss_Deferred = []\<rparr>"

definition sampleFloor :: reasonCandidate where
  "sampleFloor = \<lparr>rc_ID = ''r1'', rc_Code = reasonCodeCriticalAnchor, rc_Summary = ''critical'', rc_CatalogVersion = 1,
     rc_PredicateVersion = 1, rc_EvidenceRefs = [], rc_DeterministicFloor = True\<rparr>"

definition sampleJournal :: journalData where
  "sampleJournal = \<lparr>jd_Headline = ''opened'', jd_Detail = [], jd_AttributedActor = [], jd_ActionStatus = [],
     jd_RecurrenceCount = 0, jd_Delayed = False, jd_NoLongerCurrent = False, jd_OccurredAt = sampleTime 150,
     jd_JudgmentChange = JudgmentChangeNone, jd_JudgmentValidUntil = None,
     jd_ExpectedBehaviorChange = ExpectedBehaviorChangeNone, jd_ExpectedBehaviorReason = ExpectedBehaviorReasonOther [],
     jd_ExpectedBehaviorBoundary = None\<rparr>"

definition sampleProjection :: projectionFacts where
  "sampleProjection = \<lparr>pf_CoverageLimitations = [], pf_OperatorDelta = None, pf_Briefing = None, pf_PublicHandle = None,
     pf_EffectiveStartedAt = sampleTime 100, pf_EffectiveStartedAtBasis = SourceTimeBasisSourcePayload,
     pf_RecoveryObservedAt = None, pf_GraceUntil = None, pf_TerminalAt = None, pf_TerminalReason = None,
     pf_Assessment = None\<rparr>"

definition sampleTransition :: "int \<Rightarrow> attention \<Rightarrow> transition" where
  "sampleTransition seq att = \<lparr>tr_ID = (if seq = 1 then ''t1'' else ''t2''), tr_SituationID = ''sit-1'', tr_Sequence = seq, tr_InputVersion = 1,
     tr_MaterialFactHash = ''facts'', tr_AssessmentID = None, tr_Lifecycle = LifecycleActive, tr_Attention = att,
     tr_ActionContract = sampleContract, tr_SufficientReasonID = None, tr_InterruptionPriority = None,
     tr_Reason = ReasonAttentionChanged, tr_JournalKind = JournalPublication, tr_Journal = sampleJournal,
     tr_Projection = sampleProjection, tr_OperatorArtifactInputID = None, tr_EvidenceRefs = [],
     tr_Actor = ActorDeterministicController, tr_Drill = False, tr_CreatedAt = sampleTime 150, tr_DetailExpired = False\<rparr>"

definition sampleSummary :: "int \<Rightarrow> episodeSummary" where
  "sampleSummary seq = \<lparr>es_Briefing = None, es_SituationID = ''sit-1'', es_PublicHandle = [], es_Version = 1,
     es_SourceTransitionSequence = seq, es_Title = ''t'', es_InitialPublicationReason = [], es_LatestMaterialReason = [],
     es_EvidenceConclusion = [], es_ImpactSummary = [], es_InvestigationWork = [], es_InvestigationStarted = False,
     es_CurrentAttention = AttentionUrgent, es_PeakAttention = AttentionUrgent, es_ActionContract = sampleContract,
     es_RecordedOperatorContext = [], es_EffectiveStartedAt = sampleTime 100, es_RecoveryObservedAt = None,
     es_TerminalAt = None, es_DurationSeconds = None, es_RecurrenceCount = 0, es_FinalOutcome = [],
     es_RemainingUncertainty = [], es_UpdatedAt = sampleTime 150\<rparr>"

definition samplePublication ::
  "transition list \<Rightarrow> int \<Rightarrow> transition option \<Rightarrow> bool \<Rightarrow> interruptionPriority \<Rightarrow> publicationInput" where
  "samplePublication ts seq prior published slackFloor = \<lparr>pi_Situation = sampleSituation LifecycleActive None None,
     pi_Transitions = ts, pi_Summary = sampleSummary seq, pi_PriorTransition = prior, pi_ContractDeadlineAt = Some (sampleTime 500),
     pi_RootPublished = published, pi_LatestRootSyncVersion = None, pi_RootPublicationOwed = False,
     pi_LastDeliveredRootDeadlineAt = Some (sampleTime 180), pi_LastMainChannelPokeAt = None, pi_SlackFloor = slackFloor,
     pi_RepageCooldown = 0, pi_RecurrenceRepliesOff = False, pi_Drill = False, pi_Now = sampleTime 200,
     pi_DeliveredHistory = sampleHistory\<rparr>"

lemmas sample_defs = sampleTime_def sampleDelivery_def sampleSituation_def sampleEvidence_def sampleExecution_def
  sampleTriage_def sampleIncident_def samplePrepared_def sampleHistory_def sampleInput_def sampleState_def
  sampleContract_def sampleAssessment_def sampleProposal_def sampleAuthoritative_def sampleSnapshot_def
  sampleFloor_def sampleJournal_def sampleProjection_def sampleTransition_def sampleSummary_def
  samplePublication_def

end
