(* ===== verification/Lifecycle_Properties.thy ===== *)
theory Lifecycle_Properties
  imports Lifecycle_Trace Samples
begin

text \<open>
  The properties of the lifecycle of a Situation: the machine, the source evidence it is driven by
  and the sequence of controller cycles.
\<close>

section \<open>A recovering Situation, as a concrete run\<close>

definition resolvedInput :: snapshotInput where
  "resolvedInput = sampleInput [] (sampleSituation LifecycleActive None None)
     [sampleDelivery ''d1'' ''a1'' DeliveryStatusResolved 150] [] None"

definition resolvedSnapshot :: snapshot where
  "resolvedSnapshot = sampleSnapshot [] []
     [\<lparr>sy_Key = ''inc-1'', sy_Status = DeliveryStatusResolved, sy_FirstObservedAt = sampleTime 150\<rparr>]"

definition openRow :: situation where "openRow = sampleSituation LifecycleActive None None"

text \<open>Two cycles: at 200 s the all-clear starts recovery, at 400 s its grace of 120 s is over.\<close>

definition pendingRow :: situation where
  "pendingRow = applyResolution openRow (resolveLifecycle sampleConfig openRow resolvedInput resolvedSnapshot
     (reduceSourceLifecycle sampleConfig resolvedInput (sampleTime 200)) (sampleTime 200))"

definition recoveredRow :: situation where
  "recoveredRow = applyResolution pendingRow (resolveLifecycle sampleConfig pendingRow resolvedInput resolvedSnapshot
     (reduceSourceLifecycle sampleConfig resolvedInput (sampleTime 400)) (sampleTime 400))"

lemma sampleConfig_grace [simp]: "ccf_WebhookRecoveryGrace sampleConfig = 120 * second"
  by (simp add: sampleConfig_def ControllerConfig_withDefaults_def)

lemma resolvedEvidence:
  assumes "t = 200 \<or> t = 400"
  shows "lifecycleEvidenceOf sampleConfig s resolvedInput resolvedSnapshot sl (sampleTime t) =
    \<lparr>le_firing = False, le_resolved = True,
     le_pastDeadline = (\<not> tBefore (sampleTime t) (ObservationDeadlineAt (si_EffectiveStartedAt s) DurationClassShort)),
     le_recoveryObserved = True, le_graceDuration = 120 * second\<rparr>"
  using assms
  by (auto simp: lifecycleEvidenceOf_def resolvedInput_def resolvedSnapshot_def sample_defs AnyFiring_def
      anyDeliveryResolved_def RecoveryGraceDuration_def basisGrace_def)

lemma pendingRow_columns:
  "lifecycleColumns pendingRow = (LifecycleRecoveryPending, Some (sampleTime 200), Some (sampleTime 320), None, None)"
  unfolding pendingRow_def resolveLifecycle_def resolvedEvidence [of 200, simplified]
  by (simp add: lifecycleColumns_def applyResolution_def openRow_def sampleSituation_def sampleTime_def utcAt_def tAdd_def
      second_def)

lemma recoveredRow_columns:
  "lifecycleColumns recoveredRow =
     (LifecycleRecovered, Some (sampleTime 200), Some (sampleTime 320), Some (sampleTime 400), None)"
proof -
  have p: "si_Lifecycle pendingRow = LifecycleRecoveryPending" "si_RecoveryObservedAt pendingRow = Some (sampleTime 200)"
    "si_GraceUntil pendingRow = Some (sampleTime 320)"
    using pendingRow_columns by (simp_all add: lifecycleColumns_def)
  have "si_EffectiveStartedAt pendingRow = sampleTime 100"
    by (simp add: pendingRow_def applyResolution_def openRow_def sampleSituation_def)
  then have "tBefore (sampleTime 400) (ObservationDeadlineAt (si_EffectiveStartedAt pendingRow) DurationClassShort)"
    by (simp add: ObservationDeadlineAt_def ObservationDeadlineDuration_def durationClass_defs observationDeadlineShort_def
        sampleTime_def utcAt_def tAdd_def tBefore_def second_def hour_def minute_def)
  then show ?thesis
    unfolding recoveredRow_def resolveLifecycle_def resolvedEvidence [of 400, simplified]
    by (simp add: lifecycleColumns_def applyResolution_def p sampleTime_def utcAt_def tBefore_def second_def)
qed

lemma sample_run: "cycle_run sampleConfig openRow pendingRow" "cycle_run sampleConfig openRow recoveredRow"
proof -
  show 1: "cycle_run sampleConfig openRow pendingRow"
    by (rule cycle_run.cycle [OF cycle_run.start refl pendingRow_def])
  show "cycle_run sampleConfig openRow recoveredRow"
    by (rule cycle_run.cycle [OF 1 refl recoveredRow_def])
qed

lemma openRow_ok: "situationRowOK openRow" "recoveryTimesOK openRow" "si_Lifecycle openRow = LifecycleActive"
  by (simp_all add: openRow_def sampleSituation_def situationRowOK_def lifecycleColumnsOK_def recoveryTimesOK_def)

section \<open>Sequences of cycles\<close>

text \<open>
  C1. Whatever deliveries, observations and times the cycles of the controller see, a row that satisfies the
  CHECK constraints of the situations table satisfies them after every cycle: the recovery columns
  stay paired and each lifecycle has exactly its own terminal columns.
\<close>

theorem cycles_keep_row_constraints:
  assumes "cycle_run cfg s s'" and "situationRowOK s"
  shows "situationRowOK s'"
  using assms by (rule cycle_run_rowOK)

theorem cycles_keep_row_constraints_witness: "situationRowOK recoveredRow"
  using cycles_keep_row_constraints [OF sample_run(2)] openRow_ok(1) .

text \<open>
  C21. A Situation that has ended never reopens: once a row is recovered or closed as unknown, no
  later cycle changes its lifecycle, its recovery times, its end or its terminal reason.
\<close>

theorem terminal_never_reopens:
  assumes "cycle_run cfg s s'" and "Terminal (si_Lifecycle s)"
  shows "lifecycleColumns s' = lifecycleColumns s"
  using assms by (rule cycle_run_terminal)

text \<open>The recovered row meets a new firing delivery.\<close>

definition refiredInput :: snapshotInput where
  "refiredInput = sampleInput [] recoveredRow [sampleDelivery ''d2'' ''a1'' DeliveryStatusFiring 900] [] None"

definition afterRefire :: situation where
  "afterRefire = applyResolution recoveredRow (resolveLifecycle sampleConfig recoveredRow refiredInput resolvedSnapshot
     (reduceSourceLifecycle sampleConfig refiredInput (sampleTime 1000)) (sampleTime 1000))"

theorem terminal_never_reopens_witness: "si_Lifecycle afterRefire = LifecycleRecovered"
proof -
  have "cycle_run sampleConfig recoveredRow afterRefire"
    by (rule cycle_run.cycle [OF cycle_run.start refl afterRefire_def])
  moreover have "Terminal (si_Lifecycle recoveredRow)"
    using recoveredRow_columns by (simp add: lifecycleColumns_def)
  ultimately have "lifecycleColumns afterRefire = lifecycleColumns recoveredRow" by (rule terminal_never_reopens)
  then show ?thesis using recoveredRow_columns by (simp add: lifecycleColumns_def)
qed

text \<open>
  C20. The cycles refine the lifecycle machine.  Take any sequence of cycles, with what each of them saw, that brings a Situation from
  active to recovered: the events their evidence raises, in order, drive \<open>AdvanceLifecycle\<close> from active to recovered without a
  refused transition; and the sequence contains a cycle \<open>p\<close> that saw an all-clear of the active Situation and a later cycle
  \<open>q\<close> at which the grace granted by \<open>p\<close> was over, with only cycles in between that saw no refire and came before the end of that grace.
  The row keeps the instants of these two cycles as its recovery and its end.
\<close>

theorem recovered_runs_refine_machine:
  assumes "cycle_trace cfg s ks s'" and "si_Lifecycle s = LifecycleActive" and "si_Lifecycle s' = LifecycleRecovered"
  shows "lifecycle_run LifecycleActive (concat (map (raisedEvents cfg) ks)) LifecycleRecovered \<and>
    (\<exists>as p bs q ds. ks = as @ p # bs @ q # ds \<and>
       si_Lifecycle (oc_Row p) = LifecycleActive \<and> \<not> le_firing (cycleEvidence cfg p) \<and> le_recoveryObserved (cycleEvidence cfg p) \<and>
       list_all (\<lambda>b. si_Lifecycle (oc_Row b) = LifecycleRecoveryPending \<and> \<not> le_firing (cycleEvidence cfg b) \<and>
         tns (oc_Now b) < tns (oc_Now p) + le_graceDuration (cycleEvidence cfg p)) bs \<and>
       si_Lifecycle (oc_Row q) = LifecycleRecoveryPending \<and> \<not> le_firing (cycleEvidence cfg q) \<and>
       tns (oc_Now p) + le_graceDuration (cycleEvidence cfg p) \<le> tns (oc_Now q) \<and>
       si_RecoveryObservedAt s' = Some (oc_Now p) \<and> si_TerminalAt s' = Some (oc_Now q))"
proof
  show "lifecycle_run LifecycleActive (concat (map (raisedEvents cfg) ks)) LifecycleRecovered"
    using cycle_trace_refines [OF assms(1)] by (simp only: assms(2,3))
  have "recoveredBy cfg ks s'" using cycle_trace_recovery [OF assms(1,2)] assms(3) by blast
  then show "\<exists>as p bs q ds. ks = as @ p # bs @ q # ds \<and>
       si_Lifecycle (oc_Row p) = LifecycleActive \<and> \<not> le_firing (cycleEvidence cfg p) \<and> le_recoveryObserved (cycleEvidence cfg p) \<and>
       list_all (\<lambda>b. si_Lifecycle (oc_Row b) = LifecycleRecoveryPending \<and> \<not> le_firing (cycleEvidence cfg b) \<and>
         tns (oc_Now b) < tns (oc_Now p) + le_graceDuration (cycleEvidence cfg p)) bs \<and>
       si_Lifecycle (oc_Row q) = LifecycleRecoveryPending \<and> \<not> le_firing (cycleEvidence cfg q) \<and>
       tns (oc_Now p) + le_graceDuration (cycleEvidence cfg p) \<le> tns (oc_Now q) \<and>
       si_RecoveryObservedAt s' = Some (oc_Now p) \<and> si_TerminalAt s' = Some (oc_Now q)"
    unfolding recoveredBy_def recoveringSince_def by (simp only: conj_assoc)
qed

definition sampleCycles :: "observedCycle list" where
  "sampleCycles = [\<lparr>oc_Row = openRow, oc_In = resolvedInput, oc_Snap = resolvedSnapshot, oc_Now = sampleTime 200\<rparr>,
     \<lparr>oc_Row = pendingRow, oc_In = resolvedInput, oc_Snap = resolvedSnapshot, oc_Now = sampleTime 400\<rparr>]"

lemma sample_trace: "cycle_trace sampleConfig openRow sampleCycles recoveredRow"
proof -
  have "cycle_trace sampleConfig openRow ([] @ [sampleCycles ! 0]) pendingRow"
    using cycle_trace.cycle [OF cycle_trace.start, of "sampleCycles ! 0" openRow sampleConfig]
    by (simp add: sampleCycles_def cycleResolution_def pendingRow_def)
  from cycle_trace.cycle [OF this, of "sampleCycles ! 1"] show ?thesis
    by (simp add: sampleCycles_def cycleResolution_def recoveredRow_def)
qed

theorem recovered_runs_refine_machine_witness:
  "lifecycle_run LifecycleActive (concat (map (raisedEvents sampleConfig) sampleCycles)) LifecycleRecovered \<and>
   (\<exists>p q. {p, q} \<subseteq> set sampleCycles \<and> le_recoveryObserved (cycleEvidence sampleConfig p) \<and>
     tns (oc_Now p) + le_graceDuration (cycleEvidence sampleConfig p) \<le> tns (oc_Now q) \<and> si_TerminalAt recoveredRow = Some (oc_Now q))"
proof -
  have "si_Lifecycle recoveredRow = LifecycleRecovered" using recoveredRow_columns by (simp add: lifecycleColumns_def)
  note refined = recovered_runs_refine_machine [OF sample_trace openRow_ok(3) this]
  then obtain as p bs q ds where dec: "sampleCycles = as @ p # bs @ q # ds" and ends: "le_recoveryObserved (cycleEvidence sampleConfig p)"
    "tns (oc_Now p) + le_graceDuration (cycleEvidence sampleConfig p) \<le> tns (oc_Now q)" "si_TerminalAt recoveredRow = Some (oc_Now q)"
    by blast
  have "{p, q} \<subseteq> set sampleCycles" unfolding dec by simp
  with ends show ?thesis using conjunct1 [OF refined] by blast
qed

text \<open>
  C39. Recovery takes its grace: with a configured grace that is not negative, no cycle sets a grace
  that ends before the recovery it belongs to, and a recovered row ended no earlier than its grace.
\<close>

theorem recovery_takes_its_grace:
  assumes "cycle_run cfg s s'" and "0 \<le> ccf_WebhookRecoveryGrace cfg" and "recoveryTimesOK s"
  shows "recoveryTimesOK s'"
  using assms by (rule cycle_run_times)

theorem recovery_takes_its_grace_witness: "recoveryTimesOK recoveredRow \<and> si_Lifecycle recoveredRow = LifecycleRecovered"
  using recovery_takes_its_grace [OF sample_run(2)] openRow_ok(2) recoveredRow_columns
  by (simp add: second_def lifecycleColumns_def)

section \<open>One cycle\<close>

text \<open>
  C40. A cycle recovers an open Situation exactly when it is in recovery, nothing fires, its grace
  has passed, and its source was not lost, that is, not silent for a whole observation window after the
  episode's deadline.
\<close>

theorem cycle_recovers_iff:
  assumes "\<not> Terminal (si_Lifecycle cur)"
  shows "lr_Lifecycle (resolveLifecycle cfg cur inp snap sl now) = LifecycleRecovered \<longleftrightarrow>
    (let ev = lifecycleEvidenceOf cfg cur inp snap sl now in
     si_Lifecycle cur = LifecycleRecoveryPending \<and> \<not> le_firing ev \<and>
     \<not> (le_pastDeadline ev \<and>
        sourceSilentThrough (sn_Deliveries inp) now (ObservationDeadlineDuration (ss_DurationClass snap))) \<and>
     (\<exists>g. si_GraceUntil cur = Some g \<and> tns g \<le> tns now))"
  unfolding resolveLifecycle_recovered_iff [OF assms] Let_def sourceLost_def graceElapsed_def
  by (cases "si_GraceUntil cur") (auto simp: tBefore_def not_less)

theorem cycle_recovers_iff_witness:
  "lr_Lifecycle (resolveLifecycle sampleConfig pendingRow resolvedInput resolvedSnapshot
     (reduceSourceLifecycle sampleConfig resolvedInput (sampleTime 310)) (sampleTime 310)) \<noteq> LifecycleRecovered"
proof -
  have p: "si_Lifecycle pendingRow = LifecycleRecoveryPending" "si_GraceUntil pendingRow = Some (sampleTime 320)"
    using pendingRow_columns by (simp_all add: lifecycleColumns_def)
  then have nt: "\<not> Terminal (si_Lifecycle pendingRow)" by simp
  show ?thesis
    unfolding cycle_recovers_iff [OF nt] Let_def p by (simp add: sampleTime_def utcAt_def second_def)
qed

text \<open>
  A cycle gives up on an open Situation only when nothing fires and the observation deadline has passed;
  a Situation already in recovery moreover only when no delivery of any kind was received
  within the observation window, so a clearance that is still current is never lost to age.
\<close>

theorem cycle_closes_only_when_lost:
  assumes "\<not> Terminal (si_Lifecycle cur)"
    and "lr_Lifecycle (resolveLifecycle cfg cur inp snap sl now) = LifecycleClosedUnknown"
  shows "\<not> le_firing (lifecycleEvidenceOf cfg cur inp snap sl now) \<and>
    le_pastDeadline (lifecycleEvidenceOf cfg cur inp snap sl now) \<and>
    (si_Lifecycle cur = LifecycleActive \<and> \<not> le_recoveryObserved (lifecycleEvidenceOf cfg cur inp snap sl now) \<or>
     si_Lifecycle cur = LifecycleRecoveryPending \<and>
       (\<forall>d \<in> set (sn_Deliveries inp).
          tns (de_ReceivedAt d) \<le> tns now - ObservationDeadlineDuration (ss_DurationClass snap)))"
  using assms(2) unfolding resolveLifecycle_closed_iff [OF assms(1)] Let_def sourceLost_def sourceSilentThrough_iff
  by blast

text \<open>An active Situation without symptoms, eight days after it started.\<close>

definition silentSnapshot :: snapshot where "silentSnapshot = sampleSnapshot [] [] []"

theorem cycle_closes_only_when_lost_witness:
  "le_pastDeadline (lifecycleEvidenceOf sampleConfig openRow resolvedInput silentSnapshot
     (reduceSourceLifecycle sampleConfig resolvedInput (sampleTime 691200)) (sampleTime 691200))"
proof -
  have nt: "\<not> Terminal (si_Lifecycle openRow)" by (simp add: openRow_ok)
  have "lr_Lifecycle (resolveLifecycle sampleConfig openRow resolvedInput silentSnapshot
     (reduceSourceLifecycle sampleConfig resolvedInput (sampleTime 691200)) (sampleTime 691200)) = LifecycleClosedUnknown"
    by (simp add: resolveLifecycle_def Let_def openRow_ok lifecycleEvidenceOf_def resolvedInput_def silentSnapshot_def
        sample_defs AnyFiring_def tBefore_def ObservationDeadlineAt_def ObservationDeadlineDuration_def openRow_def
        durationClass_defs observationDeadlineShort_def second_def hour_def minute_def utcAt_def tAdd_def)
  from cycle_closes_only_when_lost [OF nt this] show ?thesis by blast
qed

section \<open>The source evidence\<close>

definition sampleObservation :: "string \<Rightarrow> string \<Rightarrow> int \<Rightarrow> sourceObservation" where
  "sampleObservation a st deadline = zeroObservation\<lparr>so_AlertID := a, so_State := st, so_ObservedAt := sampleTime 100,
     so_DeadlineAt := sampleTime deadline, so_AcquisitionMode := ''poll'', so_PollIntervalSeconds := 150\<rparr>"

lemmas sampleObservation_defs = sampleObservation_def zeroObservation_def sampleTime_def utcAt_def second_def
  latestObservations_def memberState_def memberObs_def memberOverdue_def keepStep_def Let_def sourceState_defs
  tIsZero_def tBefore_def zeroTime_def

text \<open>
  The source fold declares closure due exactly when some expected Alert is not resolved and every
  expected Alert is resolved or overdue (neither firing nor resolved, its own deadline passed);
  closure, complete resolution and firing exclude each other.
\<close>

theorem source_closure_due_iff:
  "(sl_ClosureDue (ReduceSourceLifecycle obs is now w) \<longleftrightarrow>
      (\<exists>i \<in> set is. memberState (latestObservations obs) now i \<noteq> SourceStateResolved) \<and>
      (\<forall>i \<in> set is. memberState (latestObservations obs) now i = SourceStateResolved \<or>
         memberOverdue (latestObservations obs) now i)) \<and>
   \<not> (sl_AnyFiring (ReduceSourceLifecycle obs is now w) \<and> sl_AllResolved (ReduceSourceLifecycle obs is now w)) \<and>
   \<not> (sl_AnyFiring (ReduceSourceLifecycle obs is now w) \<and> sl_ClosureDue (ReduceSourceLifecycle obs is now w)) \<and>
   \<not> (sl_AllResolved (ReduceSourceLifecycle obs is now w) \<and> sl_ClosureDue (ReduceSourceLifecycle obs is now w))"
  using ReduceSourceLifecycle_ClosureDue ReduceSourceLifecycle_exclusive by blast

theorem source_closure_due_iff_witness:
  "sl_ClosureDue (ReduceSourceLifecycle [sampleObservation ''a1'' ''firing'' 150, sampleObservation ''a2'' ''resolved'' 900]
     [''a1'', ''a2''] (sampleTime 200) 0)"
  using source_closure_due_iff [of "[sampleObservation ''a1'' ''firing'' 150, sampleObservation ''a2'' ''resolved'' 900]"
      "[''a1'', ''a2'']" "sampleTime 200" 0]
  by (simp add: sampleObservation_defs)

text \<open>
  The grace of the fold covers every resolved member's own grace and stays between zero and the larger of the
  webhook grace and ten minutes, although twice the poll interval wraps at 64 bits.
\<close>

theorem source_grace_bounds:
  assumes "0 \<le> w"
  shows "0 \<le> sl_Grace (ReduceSourceLifecycle obs is now w) \<and>
    sl_Grace (ReduceSourceLifecycle obs is now w) \<le> max w maxPollingGrace \<and>
    (\<forall>i \<in> set is. memberState (latestObservations obs) now i = SourceStateResolved \<longrightarrow>
      graceFor (memberObs (latestObservations obs) i) w \<le> sl_Grace (ReduceSourceLifecycle obs is now w))"
  using ReduceSourceLifecycle_grace_range [OF assms] ReduceSourceLifecycle_grace_covers by blast

theorem source_grace_bounds_witness:
  "300 * second \<le> sl_Grace (ReduceSourceLifecycle [sampleObservation ''a2'' ''resolved'' 900] [''a2''] (sampleTime 200) 0)"
  using source_grace_bounds [of 0 "[sampleObservation ''a2'' ''resolved'' 900]" "[''a2'']" "sampleTime 200"]
  by (simp add: sampleObservation_defs graceFor_def minPollingGrace_def maxPollingGrace_def wrap64_def)

text \<open>
  The next deadline of the fold is the earliest future deadline among the expected Alerts that are
  neither resolved nor overdue, and there is none exactly when no such Alert has a deadline ahead.
\<close>

theorem source_next_deadline:
  "map_option tns (sl_NextDeadlineAt (ReduceSourceLifecycle obs is now w)) =
     minOf (pendingDeadlines (latestObservations obs) now is)"
  by (rule ReduceSourceLifecycle_NextDeadlineAt)

text \<open>
  The recovery grace of a set of deliveries is the longest grace any of them is owed, so it does not
  depend on their order.
\<close>

theorem recovery_grace_longest:
  assumes "ds \<noteq> []"
  shows "RecoveryGraceDuration ds w p = Max ((\<lambda>d. basisGrace (de_StartedAtBasis d) w p) ` set ds)"
  using assms by (rule RecoveryGraceDuration_Max)

theorem recovery_grace_longest_witness:
  "RecoveryGraceDuration [sampleDelivery ''d1'' ''a1'' DeliveryStatusResolved 150,
     (sampleDelivery ''d2'' ''a2'' DeliveryStatusResolved 150)\<lparr>de_StartedAtBasis := SourceTimeBasisSourceAPI\<rparr>] 5 100 =
   200 * second"
  using recovery_grace_longest [of "[sampleDelivery ''d1'' ''a1'' DeliveryStatusResolved 150,
     (sampleDelivery ''d2'' ''a2'' DeliveryStatusResolved 150)\<lparr>de_StartedAtBasis := SourceTimeBasisSourceAPI\<rparr>]" 5 100]
  by (simp add: sampleDelivery_def basisGrace_def Let_def grace_defs second_def wrap64_def)

text \<open>
  The symptoms derived from the deliveries fire exactly when some Incident has an Alert whose latest
  delivery, in the canonical order, is firing.
\<close>

theorem symptoms_fire_iff_latest_fires:
  assumes "inj_on de_ID (set ds)"
  shows "AnyFiring (deriveSymptoms ds) \<longleftrightarrow>
    (\<exists>d \<in> set ds. de_Status d = DeliveryStatusFiring \<and>
       (\<forall>e \<in> set ds. de_IncidentID e = de_IncidentID d \<longrightarrow> alertKeyOf e = alertKeyOf d \<longrightarrow>
          deliveryKey e \<le> deliveryKey d))"
  using assms by (rule AnyFiring_deriveSymptoms)

theorem symptoms_fire_iff_latest_fires_witness:
  "\<not> AnyFiring (deriveSymptoms [sampleDelivery ''d2'' ''a1'' DeliveryStatusResolved 150,
     sampleDelivery ''d1'' ''a1'' DeliveryStatusFiring 120])"
  using symptoms_fire_iff_latest_fires [of "[sampleDelivery ''d2'' ''a1'' DeliveryStatusResolved 150,
     sampleDelivery ''d1'' ''a1'' DeliveryStatusFiring 120]"]
  by (simp add: sampleDelivery_def alertKeyOf_def deliveryKey_def sourceTimeKey_def sampleTime_def utcAt_def second_def)

section \<open>Coverage digests\<close>

text \<open>
  The membership digest and the input digest of an Incident do not depend on the order in
  which the deliveries are read.
\<close>

theorem incident_digests_order_free:
  assumes "mset ds = mset es" and "inj_on de_ID (set ds)"
  shows "MembershipDigest i ds = MembershipDigest i es \<and> IncidentInputDigest i g ds = IncidentInputDigest i g es"
  using MembershipDigest_perm [OF assms] IncidentInputDigest_perm [OF assms] by simp

theorem incident_digests_order_free_witness:
  "MembershipDigest ''inc-1'' [sampleDelivery ''d1'' ''a1'' DeliveryStatusFiring 120, sampleDelivery ''d2'' ''a2'' DeliveryStatusFiring 130] =
   MembershipDigest ''inc-1'' [sampleDelivery ''d2'' ''a2'' DeliveryStatusFiring 130, sampleDelivery ''d1'' ''a1'' DeliveryStatusFiring 120]"
  using incident_digests_order_free [of "[sampleDelivery ''d1'' ''a1'' DeliveryStatusFiring 120, sampleDelivery ''d2'' ''a2'' DeliveryStatusFiring 130]"
      "[sampleDelivery ''d2'' ''a2'' DeliveryStatusFiring 130, sampleDelivery ''d1'' ''a1'' DeliveryStatusFiring 120]" "''inc-1''"]
  by (simp add: sampleDelivery_def)

text \<open>
  The choice of the latest observation is not transitive when only some observations of an Alert have
  an episode start: of three observations each is preferred to the one before it, the first to the last, and so
  the order in which they are read decides whether the Alert fires.
\<close>

definition datedObservation :: "string \<Rightarrow> int option \<Rightarrow> int \<Rightarrow> sourceObservation" where
  "datedObservation st start seen = (sampleObservation ''a1'' st 900)
     \<lparr>so_EventStartedAt := map_option sampleTime start, so_ObservedAt := sampleTime seen\<rparr>"

theorem source_fold_order_dependent:
  "let a = datedObservation SourceStateFiring (Some 10) 5;
       b = datedObservation SourceStateResolved None 6;
       c = datedObservation SourceStateResolved (Some 5) 7
   in sl_AnyFiring (ReduceSourceLifecycle [b, c, a] [''a1''] (sampleTime 8) 0) \<and>
     \<not> sl_AnyFiring (ReduceSourceLifecycle [c, a, b] [''a1''] (sampleTime 8) 0)"
  by code_simp

end
