(* ===== verification/Notification_Properties.thy ===== *)
theory Notification_Properties
  imports Samples
begin

text \<open>
  The properties of notification planning: what one reconciliation may post, whom it may
  interrupt, and that its intents are well-formed and idempotent.  The identity function \<open>f\<close>
  stands for the name-based UUID of the package the source imports; where a property needs anything of it,
  it is that every identity is a non-blank string of bounded length.
\<close>

section \<open>An urgent change below the operator's floor, as a concrete plan\<close>

definition sampleIdentity :: "string \<Rightarrow> string" where "sampleIdentity k = ''id''"

definition urgentPublication :: publicationInput where
  "urgentPublication = samplePublication [sampleTransition 2 AttentionUrgent] 2
     (Some (sampleTransition 1 AttentionObserve)) True InterruptionCritical"

lemma urgentPublication_simps [simp]:
  "pi_Transitions urgentPublication = [sampleTransition 2 AttentionUrgent]"
  "pi_RootPublished urgentPublication" "pi_SlackFloor urgentPublication = InterruptionCritical"
  "pi_RootPublicationOwed urgentPublication = False" "si_ID (pi_Situation urgentPublication) = ''sit-1''"
  "pi_Now urgentPublication = sampleTime 200" "pi_ContractDeadlineAt urgentPublication = Some (sampleTime 500)"
  by (simp_all add: urgentPublication_def samplePublication_def sampleSituation_def)

lemma sampleTime_utc [simp]: "tutc (sampleTime n)" by (simp add: sampleTime_def)

lemma sampleTime_nonzero [simp]: "0 < n \<Longrightarrow> \<not> tIsZero (sampleTime n)"
  by (simp add: sampleTime_def tIsZero_def utcAt_def zeroTime_def second_def)

lemma sample_not_blank [simp]: "\<not> blank ''id''" "\<not> blank ''sit-1''" "\<not> blank ''t1''" "\<not> blank ''t2''" "\<not> blank ''facts''"
  "\<not> blank ''opened''"
  by (rule not_blank_ascii; simp add: byte_def asciiSpace_def)+

lemma urgentPublication_valid: "validatePublicationInput urgentPublication = None"
  by (simp add: validatePublicationInput_def urgentPublication_def samplePublication_def sampleSituation_def
      sampleTransition_def sampleSummary_def errWhen_def wrapErr_def InterruptionPriority_Validate_def validateEnum_def)

lemma sampleIdentity_ready: "planReady sampleIdentity urgentPublication"
  by (simp add: planReady_def sampleIdentity_def boundedID_def maxIdentifierLength_def)

lemma sampleContract_valid: "ActionContract_validate False sampleContract = None"
  by (simp add: ActionContract_validate_iff sampleContract_def contractCodesClosed_def contractActor_def
      AlertINTAction_Validate_def AlertINTStatus_Validate_def OperatorAction_Validate_def WaitReason_Validate_def validateEnum_def)

lemma sampleTransition_valid: "Transition_Validate (sampleTransition 2 AttentionUrgent) = None"
  by (simp add: Transition_Validate_def sampleTransition_def sampleContract_valid errWhen_def wrapErr_def
      Lifecycle_Validate_def Attention_Validate_def TransitionReason_Validate_def JournalKind_Validate_def
      JournalData_Validate_def ProjectionFacts_Validate_def TransitionActor_Validate_def validateEnum_def requireNonZeroUTC_def
      requireUTC_def sampleJournal_def sampleProjection_def maxIdentifierLength_def
      maxJournalHeadlineLength_def)

definition urgentPlan :: "notificationIntent list" where
  "urgentPlan = planRoot sampleIdentity urgentPublication (sampleTransition 2 AttentionUrgent) #
     planJournalIntents sampleIdentity urgentPublication (pokeSequenceOf urgentPublication)"

lemma urgentPlan_planned: "PlanNotificationIntents sampleIdentity urgentPublication = Inr urgentPlan"
  using PlanNotificationIntents_succeeds [OF urgentPublication_valid _ sampleIdentity_ready] sampleTransition_valid
  by (simp add: urgentPlan_def)

section \<open>What is planned\<close>

text \<open>
  C22. Planning the notifications of a reconciliation that recorded Transitions never fails: when the input passes its own check, its
  Transitions are valid, identifiers are bounded, and clock and deadline are UTC (\<open>planReady\<close>), the planner returns the root
  followed by the journal entries if the root is published or owed or the last Transition has the authority to publish it, and no
  intent at all otherwise; every planned intent passes the check of the intents table.
\<close>

theorem planning_succeeds:
  assumes "validatePublicationInput inp = None" and "pi_Transitions inp \<noteq> []" and "planReady f inp"
    and "\<forall>tr \<in> set (pi_Transitions inp). Transition_Validate tr = None"
  shows "\<exists>out. PlanNotificationIntents f inp = Inr out \<and>
    out = (if pi_RootPublished inp \<or> pi_RootPublicationOwed inp \<or> PublicationAuthority (last (pi_Transitions inp))
           then planRoot f inp (last (pi_Transitions inp)) # planJournalIntents f inp (pokeSequenceOf inp) else []) \<and>
    list_all (\<lambda>n. NotificationIntent_Validate n = None) out"
proof (cases "pi_RootPublished inp \<or> pi_RootPublicationOwed inp \<or> PublicationAuthority (last (pi_Transitions inp))")
  case True
  from PlanNotificationIntents_succeeds [OF assms True] have
    plan: "PlanNotificationIntents f inp =
      Inr (planRoot f inp (last (pi_Transitions inp)) # planJournalIntents f inp (pokeSequenceOf inp))" .
  with PlanNotificationIntents_Inr [OF plan assms(2)] True
  show ?thesis by (auto simp: NotificationIntent_Validate_iff list_all_iff)
next
  case False
  then have "PlanNotificationIntents f inp = Inr []" using assms(1,2) by (simp add: PlanNotificationIntents_def Let_def)
  with False show ?thesis by simp
qed

theorem planning_succeeds_witness: "list_all (\<lambda>n. NotificationIntent_Validate n = None) urgentPlan"
  using planning_succeeds [OF urgentPublication_valid _ sampleIdentity_ready] sampleTransition_valid
  by (simp add: urgentPlan_def)

text \<open>
  Quiet work stays quiet: a reconciliation with Transitions whose root is neither published nor owed, and
  whose last Transition has no authority to publish, creates no notification at all.
\<close>

theorem quiet_work_posts_nothing:
  assumes "validatePublicationInput inp = None" and "pi_Transitions inp \<noteq> []"
    and "\<not> pi_RootPublished inp" and "\<not> pi_RootPublicationOwed inp"
    and "\<not> PublicationAuthority (last (pi_Transitions inp))"
  shows "PlanNotificationIntents f inp = Inr []"
  using assms by (simp add: PlanNotificationIntents_def Let_def)

theorem quiet_work_posts_nothing_witness:
  "PlanNotificationIntents sampleIdentity (samplePublication [sampleTransition 2 AttentionObserve] 2 None False InterruptionLow) = Inr []"
proof (rule quiet_work_posts_nothing)
  let ?p = "samplePublication [sampleTransition 2 AttentionObserve] 2 None False InterruptionLow"
  show "validatePublicationInput ?p = None"
    by (simp add: validatePublicationInput_def samplePublication_def sampleSituation_def
      sampleTransition_def sampleSummary_def errWhen_def wrapErr_def InterruptionPriority_Validate_def validateEnum_def)
  show "pi_Transitions ?p \<noteq> []" "\<not> pi_RootPublished ?p" "\<not> pi_RootPublicationOwed ?p"
    "\<not> PublicationAuthority (last (pi_Transitions ?p))"
    by (simp_all add: samplePublication_def PublicationAuthority_def sampleTransition_def sampleProjection_def
        deterministicCriticalFloor_def)
qed

text \<open>C23. One reconciliation interrupts the main channel at most once.\<close>

theorem at_most_one_poke:
  assumes "PlanNotificationIntents f inp = Inr out" and "pi_Transitions inp \<noteq> []"
  shows "length (filter ni_MainChannelPoke out) \<le> 1"
  using assms by (rule PlanNotificationIntents_one_poke)

theorem at_most_one_poke_witness: "length (filter ni_MainChannelPoke urgentPlan) \<le> 1"
  using at_most_one_poke [OF urgentPlan_planned] by simp

text \<open>
  C24. An intent is withheld exactly when it would interrupt the main channel below the operator's
  floor and is not a root whose publication is already owed; everything else is pending, so the floor
  never suppresses a journal entry and never drops a row.
\<close>

theorem withheld_iff_below_floor:
  assumes "PlanNotificationIntents f inp = Inr out" and "pi_Transitions inp \<noteq> []" and "n \<in> set out"
  shows "ni_Status n =
    (if ni_MainChannelPoke n \<and> \<not> MeetsSlackFloor (the (ni_InterruptionPriority n)) (pi_SlackFloor inp) \<and>
        \<not> (ni_EffectClass n = EffectRootSync \<and> pi_RootPublicationOwed inp)
     then IntentWithheld else IntentPending)"
  using assms by (rule PlanNotificationIntents_withheld)

theorem withheld_iff_below_floor_witness:
  "ni_Status (planRoot sampleIdentity urgentPublication (sampleTransition 2 AttentionUrgent)) = IntentPending"
proof -
  let ?r = "planRoot sampleIdentity urgentPublication (sampleTransition 2 AttentionUrgent)"
  have "?r \<in> set urgentPlan" by (simp add: urgentPlan_def)
  from withheld_iff_below_floor [OF urgentPlan_planned _ this] show ?thesis
    by (simp add: planRoot_def Let_def newIntent_def)
qed

text \<open>
  C25. A withheld handoff loses no information: the same Transition and reply kind is planned as a
  pending thread entry of the same reconciliation.
\<close>

theorem withheld_handoff_has_twin:
  assumes "PlanNotificationIntents f inp = Inr out" and "pi_Transitions inp \<noteq> []" and "n \<in> set out"
    and "ni_Status n = IntentWithheld" and "ni_EffectClass n = EffectBroadcastHandoff"
  shows "\<exists>m \<in> set out. ni_EffectClass m = EffectThreadAppend \<and> ni_Status m = IntentPending \<and>
    replyIdentity m = replyIdentity n"
  using assms by (rule PlanNotificationIntents_withheld_twin)

definition urgentBroadcast :: notificationIntent where
  "urgentBroadcast = (newReplyIntent sampleIdentity urgentPublication EffectBroadcastHandoff (sampleTransition 2 AttentionUrgent) ReplyLegacy)
     \<lparr>ni_MainChannelPoke := True, ni_InterruptionPriority := Some InterruptionHigh, ni_Status := IntentWithheld\<rparr>"

lemma urgentPublication_prior: "pi_PriorTransition urgentPublication = Some (sampleTransition 1 AttentionObserve)"
  by (simp add: urgentPublication_def samplePublication_def)

lemma urgentPoke: "ClassifyPoke (Some (sampleTransition 1 AttentionObserve)) (sampleTransition 2 AttentionUrgent) = PokeUrgentAttention"
  "DeriveInterruptionPriority (sampleTransition 2 AttentionUrgent) = InterruptionHigh"
  by (simp_all add: ClassifyPoke_def DeriveInterruptionPriority_def Let_def sampleTransition_def sampleProjection_def
      deterministicCriticalFloor_def)

lemma urgentPoke_selected: "selectPoke urgentPublication = Some (sampleTransition 2 AttentionUrgent)"
  by (simp add: selectPoke_def pokeCandidate_def urgentPublication_prior urgentPoke CooldownApplies_def)
     (simp add: sampleTransition_def sampleProjection_def)

lemma urgentPlan_journal:
  "planJournalIntents sampleIdentity urgentPublication (pokeSequenceOf urgentPublication) =
     [newReplyIntent sampleIdentity urgentPublication EffectThreadAppend (sampleTransition 2 AttentionUrgent) ReplyLegacy,
      urgentBroadcast]"
proof -
  have seq: "tr_Sequence (sampleTransition 2 AttentionUrgent) = 2" "pf_Briefing (tr_Projection (sampleTransition 2 AttentionUrgent)) = None"
    "tr_Reason (sampleTransition 2 AttentionUrgent) = ReasonAttentionChanged"
    by (simp_all add: sampleTransition_def sampleProjection_def)
  have floor: "\<not> MeetsSlackFloor InterruptionHigh InterruptionCritical"
    by (simp add: MeetsSlackFloor_def InterruptionPriority_Less_def InterruptionPriority_rank_def)
  show ?thesis
    by (simp add: planJournalIntents_def pokeSequenceOf_def urgentPoke_selected seq journalIntentsFor_def Let_def
        canonicalReplyKinds_def pokedReply_def urgentPoke floor urgentBroadcast_def)
qed

theorem withheld_handoff_has_twin_witness:
  "\<exists>m \<in> set urgentPlan. ni_EffectClass m = EffectThreadAppend \<and> ni_Status m = IntentPending \<and>
     replyIdentity m = replyIdentity urgentBroadcast"
proof (rule withheld_handoff_has_twin [OF urgentPlan_planned])
  show "urgentBroadcast \<in> set urgentPlan" by (simp add: urgentPlan_def urgentPlan_journal)
  show "ni_Status urgentBroadcast = IntentWithheld" "ni_EffectClass urgentBroadcast = EffectBroadcastHandoff"
    by (simp_all add: urgentBroadcast_def newReplyIntent_def newIntent_def Let_def)
qed simp

text \<open>
  The poke of a reconciliation goes to a Transition that is a candidate for one and that no other
  candidate outranks, and it is absent only when there is no candidate.
\<close>

theorem poke_is_most_important:
  "case selectPoke inp of
     Some t \<Rightarrow> t \<in> set (pi_Transitions inp) \<and> pokeCandidate inp t \<and>
       list_all (\<lambda>u. pokeCandidate inp u \<longrightarrow> DeriveInterruptionPriority u \<le> DeriveInterruptionPriority t) (pi_Transitions inp)
   | None \<Rightarrow> list_all (\<lambda>u. \<not> pokeCandidate inp u) (pi_Transitions inp)"
proof (cases "selectPoke inp")
  case None
  from None have "\<forall>u \<in> set (pi_Transitions inp). \<not> pokeCandidate inp u" by (rule iffD1 [OF selectPoke_None_iff])
  then show ?thesis unfolding None by (simp add: list_all_iff)
next
  case (Some t)
  then show ?thesis using selectPoke_spec [OF Some] by (simp add: list_all_iff)
qed

theorem poke_is_most_important_witness: "pokeCandidate urgentPublication (sampleTransition 2 AttentionUrgent)"
  using poke_is_most_important [of urgentPublication] by (simp add: urgentPoke_selected)

text \<open>
  The intents of one plan have distinct idempotency keys, so a retried commit inserts each of
  them once: with Situation IDs of at most 100 bytes and sequences of 64 bits no key is cut into another.
\<close>

theorem plan_keys_distinct:
  assumes "PlanNotificationIntents f inp = Inr out" and "pi_Transitions inp \<noteq> []"
    and "\<forall>tr \<in> set (pi_Transitions inp). 0 \<le> tr_Sequence tr \<and> tr_Sequence tr \<le> maxInt64"
    and "length (si_ID (pi_Situation inp)) \<le> 100"
  shows "distinct (map ni_IdempotencyKey out)"
  using assms by (rule PlanNotificationIntents_keys)

theorem plan_keys_distinct_witness: "distinct (map ni_IdempotencyKey urgentPlan)"
  using plan_keys_distinct [OF urgentPlan_planned] by (simp add: sampleTransition_def maxInt64_def)

text \<open>
  A reconciliation without Transitions posts at most one root refresh, and only for a published
  root whose delivered deadline has passed and differs from the contract's current deadline.
\<close>

theorem deadline_refresh_shape:
  assumes "PlanNotificationIntents f inp = Inr out" and "pi_Transitions inp = []" and "out \<noteq> []"
  shows "\<exists>p d e. out = [refreshIntent f inp p] \<and> pi_PriorTransition inp = Some p \<and> pi_RootPublished inp \<and>
    pi_ContractDeadlineAt inp = Some d \<and> pi_LastDeliveredRootDeadlineAt inp = Some e \<and>
    \<not> tAfter e (pi_Now inp) \<and> \<not> tEqual d e"
proof -
  have "planDeadlineRefresh f inp = Inr out"
    using assms(1,2) by (cases "validatePublicationInput inp") (simp_all add: PlanNotificationIntents_def)
  from planDeadlineRefresh_shape [OF this assms(3)] show ?thesis .
qed

definition stalePublication :: publicationInput where
  "stalePublication = samplePublication [] 2 (Some (sampleTransition 2 AttentionUrgent)) True InterruptionCritical"

lemma stalePublication_planned:
  "PlanNotificationIntents sampleIdentity stalePublication =
     Inr [refreshIntent sampleIdentity stalePublication (sampleTransition 2 AttentionUrgent)]"
proof -
  have fields: "pi_Transitions stalePublication = []" "pi_RootPublished stalePublication"
    "pi_ContractDeadlineAt stalePublication = Some (sampleTime 500)" "pi_LastDeliveredRootDeadlineAt stalePublication = Some (sampleTime 180)"
    "pi_PriorTransition stalePublication = Some (sampleTransition 2 AttentionUrgent)" "pi_Now stalePublication = sampleTime 200"
    "es_Version (pi_Summary stalePublication) = 1"
    by (simp_all add: stalePublication_def samplePublication_def sampleSummary_def)
  have valid: "validatePublicationInput stalePublication = None"
    by (simp add: validatePublicationInput_def stalePublication_def samplePublication_def sampleSituation_def
      sampleSummary_def errWhen_def wrapErr_def InterruptionPriority_Validate_def validateEnum_def)
  have ready: "planReady sampleIdentity stalePublication"
    by (simp add: planReady_def sampleIdentity_def boundedID_def maxIdentifierLength_def fields)
       (simp add: stalePublication_def samplePublication_def sampleSituation_def)
  have "intentWellFormed (refreshIntent sampleIdentity stalePublication (sampleTransition 2 AttentionUrgent))"
    using ready rootSyncKey_boundedID Transition_Validate_boundedID [OF sampleTransition_valid]
    by (simp add: refreshIntent_def intent_defs planReady_def fields)
  then have "NotificationIntent_Validate (refreshIntent sampleIdentity stalePublication (sampleTransition 2 AttentionUrgent)) = None"
    by (simp add: NotificationIntent_Validate_iff)
  then show ?thesis
    by (simp add: PlanNotificationIntents_def valid fields planDeadlineRefresh_def Let_def)
       (simp add: tAfter_def tEqual_def sampleTime_def utcAt_def second_def)
qed

theorem deadline_refresh_shape_witness: "pi_RootPublished stalePublication"
  using deadline_refresh_shape [OF stalePublication_planned]
  by (simp add: stalePublication_def samplePublication_def)

section \<open>Who is interrupted\<close>

text \<open>
  A Transition is critical exactly when the Situation is open and its accepted reason is the
  deterministic critical anchor: no attention level, no model output and no contract raises it there.
\<close>

theorem critical_iff_deterministic_floor:
  "DeriveInterruptionPriority t = InterruptionCritical \<longleftrightarrow>
     \<not> Terminal (tr_Lifecycle t) \<and> deterministicCriticalFloor t"
  by (rule DeriveInterruptionPriority_critical_iff)

text \<open>
  After the first publication an interruption is always a real escalation of an open Situation:
  it newly crossed the critical floor, newly became urgent, or requires an operator action the prior Transition did
  not require.
\<close>

theorem pokes_are_escalations:
  assumes "ClassifyPoke (Some p) t \<noteq> PokeNone"
  shows "\<not> Terminal (tr_Lifecycle t) \<and> tr_Reason t \<noteq> ReasonOperatorArtifactRecorded \<and>
    tr_Reason t \<noteq> ReasonRecurrenceMilestone \<and>
    (deterministicCriticalFloor t \<and> \<not> deterministicCriticalFloor p \<or>
     tr_Attention t = AttentionUrgent \<and> tr_Attention p \<noteq> AttentionUrgent \<or>
     ac_OperatorActionRequired (tr_ActionContract t) \<noteq> None \<and>
       ac_OperatorActionRequired (tr_ActionContract t) \<noteq> ac_OperatorActionRequired (tr_ActionContract p))"
  using assms by (rule ClassifyPoke_escalation)

theorem pokes_are_escalations_witness: "\<not> Terminal (tr_Lifecycle (sampleTransition 2 AttentionUrgent))"
  using pokes_are_escalations [of "sampleTransition 1 AttentionObserve" "sampleTransition 2 AttentionUrgent"]
  by (simp add: urgentPoke)

end
