(* ===== verification/Assessment_Properties.thy ===== *)
theory Assessment_Properties
  imports Samples
begin

text \<open>
  The properties of the assessment pipeline: the evidence and hashes of a Snapshot, the policy on
  model proposals, the derived Assessment and its contract, the fallback and reuse, the Acute Triage decision and the
  operator's expected judgment.
\<close>

section \<open>Evidence and hashes\<close>

definition firingInput :: snapshotInput where
  "firingInput = sampleInput [] (sampleSituation LifecycleActive None None)
     [sampleDelivery ''d1'' ''a1'' DeliveryStatusFiring 120, sampleDelivery ''d2'' ''a2'' DeliveryStatusFiring 130] [] None"

definition firingInputReordered :: snapshotInput where
  "firingInputReordered = sampleInput [] (sampleSituation LifecycleActive None None)
     [sampleDelivery ''d2'' ''a2'' DeliveryStatusFiring 130, sampleDelivery ''d1'' ''a1'' DeliveryStatusFiring 120] [] None"

text \<open>
  The deterministic critical anchor, the only reason that raises a Situation to urgent, is eligible
  exactly when the latest delivery of some Alert is firing at critical severity.
\<close>

theorem critical_anchor_iff:
  assumes "inj_on de_ID (set ds)"
  shows "criticalAnchorEligible ds \<longleftrightarrow>
    (\<exists>d \<in> set ds. de_Status d = DeliveryStatusFiring \<and> 4 \<le> Rank (de_Severity d) \<and>
       (\<forall>e \<in> set ds. de_AlertID e = de_AlertID d \<longrightarrow> deliveryKey e \<le> deliveryKey d))"
  using assms by (rule criticalAnchorEligible_iff)

theorem critical_anchor_iff_witness: "criticalAnchorEligible [sampleDelivery ''d1'' ''a1'' DeliveryStatusFiring 120]"
proof -
  have "4 \<le> Rank ''critical''" by code_simp
  then show ?thesis
    using critical_anchor_iff [of "[sampleDelivery ''d1'' ''a1'' DeliveryStatusFiring 120]"]
    by (simp add: sampleDelivery_def)
qed

text \<open>Every evidence reference of every eligible reason of a Snapshot is a fact of that Snapshot.\<close>

theorem eligible_reasons_grounded:
  "list_all (\<lambda>r. list_all (factExists (ss_Facts (BuildSnapshot od inp))) (rc_EvidenceRefs r))
     (ss_EligibleReasons (BuildSnapshot od inp))"
  using EligibleReasons_grounded [of _ inp "deriveSymptoms (sn_Deliveries inp)" "DurationClass (elapsedDuration inp)"]
  by (fastforce simp: list_all_iff factExists_def list_ex_iff)

text \<open>
  The material fact hash of a Snapshot does not depend on the order in which deliveries,
  Incidents and prior Situations were read from the store.
\<close>

theorem material_hash_order_free:
  assumes "sameRows a b"
  shows "ss_MaterialFactHash (BuildSnapshot od a) = ss_MaterialFactHash (BuildSnapshot od b)"
proof -
  have "elapsedDuration a = elapsedDuration b" using assms by (simp add: elapsedDuration_def sameRows_def)
  with MaterialFactHash_perm [OF assms] show ?thesis
    by (simp add: BuildSnapshot_def Let_def case_prod_beta)
qed

theorem material_hash_order_free_witness:
  "ss_MaterialFactHash (BuildSnapshot [] firingInput) = ss_MaterialFactHash (BuildSnapshot [] firingInputReordered)"
  by (rule material_hash_order_free) (simp add: sameRows_def firingInput_def firingInputReordered_def sampleInput_def sampleDelivery_def)

text \<open>
  The basis of an Assessment does not depend on the input version: an input that only advanced
  the version keeps the basis, so a prior Assessment stays reusable.
\<close>

theorem basis_hash_version_free:
  "ss_AssessmentBasisHash (BuildSnapshot od (withInputVersion v inp)) = ss_AssessmentBasisHash (BuildSnapshot od inp)"
proof -
  have "elapsedDuration (withInputVersion v inp) = elapsedDuration inp" "sn_Deliveries (withInputVersion v inp) = sn_Deliveries inp"
    by (simp_all add: elapsedDuration_def withInputVersion_def)
  with AssessmentBasisHash_inputVersion show ?thesis
    by (simp add: BuildSnapshot_def Let_def case_prod_beta)
qed

section \<open>The derived Assessment\<close>

text \<open>
  C31. An Assessment derived from a valid proposal always passes the Assessment validator, for every
  Snapshot, controller state and time: its contract names the one right actor, a terminal one promises no
  update and an open one promises an update strictly after now.
\<close>

theorem derived_assessment_valid:
  assumes "AssessmentProposal_Validate p = None" and "Lifecycle_Validate (ss_Lifecycle snap) = None"
  shows "Assessment_Validate (ars_Assessment (DeriveAssessment p snap inp state der ru now)) now = None"
  using assms by (rule DeriveAssessment_valid)

lemma sampleProposal_valid: "AssessmentProposal_Validate (sampleProposal AttentionObserve) = None"
  by (simp add: AssessmentProposal_Validate_iff sampleProposal_def Persistence_Validate_def Impact_Validate_def
      Novelty_Validate_def Causality_Validate_def Attention_Validate_def validateEnum_def)

theorem derived_assessment_valid_witness:
  "Assessment_Validate (ars_Assessment (DeriveAssessment (sampleProposal AttentionObserve) (sampleSnapshot [] [] [])
     firingInput sampleState DerivationModelValidated None (sampleTime 200))) (sampleTime 200) = None"
  by (rule derived_assessment_valid [OF sampleProposal_valid])
     (simp add: sampleSnapshot_def Lifecycle_Validate_def validateEnum_def)

text \<open>
  The promised update comes strictly after now and no later than the cadence allows; it is also no
  later than any retry, grace, deadline, checkpoint or triage instant that lies ahead, up to the one-second minimum lead.
\<close>

theorem next_update_bounds:
  "tns now < tns (nextUpdateAt state cad now) \<and>
   tns (nextUpdateAt state cad now) \<le> max (tns now + Interval (cst_Tempo state) cad) (tns now + second) \<and>
   (\<forall>t. Some t \<in> set (wakeInstants state) \<longrightarrow> tns now < tns t \<longrightarrow>
      tns (nextUpdateAt state cad now) \<le> max (tns t) (tns now + second))"
  using nextUpdateAt_after nextUpdateAt_le_interval nextUpdateAt_le_wake by blast

theorem next_update_bounds_witness: "tns (nextUpdateAt sampleState CadenceSlow (sampleTime 200)) \<le> 230 * second"
  using next_update_bounds [of "sampleTime 200" sampleState CadenceSlow]
  by (simp add: sampleState_def wakeInstants_def sampleTime_def utcAt_def second_def)

section \<open>The policy on model proposals\<close>

text \<open>
  C29. The policy accepts a proposal exactly when it is permitted: no claimed operator confirmation,
  only known or announced limitations, a reason among this Snapshot's candidates with existing evidence,
  a reason for every confirmed-grade claim, a floor reason for supported causality, and no urgency without the
  deterministic floor.
\<close>

theorem policy_accepts_iff_permitted:
  "accepted (vr_Outcome (validateProposalContent p snap)) \<longleftrightarrow> proposalPermitted p snap"
  by (rule validateProposalContent_accepted_iff)

text \<open>
  C30. The model has no vote on urgency: an accepted proposal is urgent exactly when the deterministic
  floor is active, and the policy changed nothing else of it; a rejected one is never used.
\<close>

theorem urgency_is_deterministic:
  "if accepted (vr_Outcome (validateProposalContent p snap))
   then \<exists>att. vr_Proposal (validateProposalContent p snap) = Some (p\<lparr>ap_Attention := att\<rparr>) \<and>
     (att = AttentionUrgent \<longleftrightarrow> hasDeterministicFloor (ss_EligibleReasons snap)) \<and>
     (att = AttentionUrgent \<or> att = ap_Attention p)
   else vr_Proposal (validateProposalContent p snap) = None"
proof (cases "accepted (vr_Outcome (validateProposalContent p snap))")
  case True
  have "ap_Attention p = AttentionUrgent \<Longrightarrow> hasDeterministicFloor (ss_EligibleReasons snap)"
    using accepted_permitted [OF True] by (simp add: proposalPermitted_def)
  then show ?thesis
    unfolding if_P [OF True] validateProposalContent_result [OF True]
    by (intro exI [of _ "if hasDeterministicFloor (ss_EligibleReasons snap) then AttentionUrgent else ap_Attention p"]) auto
next
  case False
  then show ?thesis using validateProposalContent_rejected by simp
qed

section \<open>Fallback and reuse\<close>

text \<open>
  C34. When the model fails, the controller's own Assessment is valid and permitted by the same policy, urgent
  exactly when the critical anchor is eligible, carries the limitation that says so, and is never a source of reuse.
\<close>

theorem fallback_is_safe:
  assumes "Lifecycle_Validate (si_Lifecycle (sn_Situation inp)) = None"
  shows "Assessment_Validate (ars_Assessment (DeterministicFallback (BuildSnapshot od inp) inp state now)) now = None \<and>
    proposalPermitted (deterministicProposal (BuildSnapshot od inp) [fallbackLimitation]) (BuildSnapshot od inp) \<and>
    (as_Attention (ars_Assessment (DeterministicFallback (BuildSnapshot od inp) inp state now)) = AttentionUrgent \<longleftrightarrow>
       criticalAnchorEligible (sn_Deliveries inp)) \<and>
    as_Limitations (ars_Assessment (DeterministicFallback (BuildSnapshot od inp) inp state now)) = [fallbackLimitation] \<and>
    ars_Derivation (DeterministicFallback (BuildSnapshot od inp) inp state now) = DerivationDeterministicFallback"
proof -
  have "proposalPermitted (deterministicProposal (BuildSnapshot od inp) [fallbackLimitation]) (BuildSnapshot od inp)"
    by (rule deterministicProposal_permitted) (simp add: fallback_allowed)
  moreover have "as_Limitations (ars_Assessment (DeterministicFallback (BuildSnapshot od inp) inp state now)) = [fallbackLimitation]"
    by (simp add: DeterministicFallback_def DeterministicAssessment_def deterministicProposal_def)
  ultimately show ?thesis
    using DeterministicFallback_valid [OF assms] deterministicProposal_urgent_iff
    by (simp add: DeterministicFallback_def DeterministicAssessment_def)
qed

theorem fallback_is_safe_witness:
  "as_Limitations (ars_Assessment (DeterministicFallback (BuildSnapshot [] firingInput) firingInput sampleState (sampleTime 200)))
     = [fallbackLimitation]"
  using fallback_is_safe [of firingInput "[]" sampleState "sampleTime 200"]
  by (simp add: firingInput_def sampleInput_def sampleSituation_def Lifecycle_Validate_def validateEnum_def)

text \<open>
  A reused Assessment comes from a prior one that is not a fallback, still has a valid shape and has the very
  same basis; its content is permitted by the current policy, its coverage, versions, hashes and contract are
  those of the current input, and its attention is raised to urgent exactly when the floor is active.
\<close>

theorem reuse_revalidates:
  assumes "RevalidateReuse prior snap inp state now = Inr res"
  shows "aa_Derivation prior \<noteq> DerivationDeterministicFallback \<and>
    Assessment_ValidateShape (aa_Assessment prior) = None \<and>
    aa_AssessmentBasisHash prior = ss_AssessmentBasisHash snap \<and>
    ars_Derivation res = DerivationRevalidatedReuse \<and> ars_ReusedFromAssessmentID res = Some (aa_ID prior) \<and>
    ars_InputVersion res = ss_InputVersion snap \<and> ars_MaterialFactHash res = ss_MaterialFactHash snap \<and>
    ars_Coverage res = DeriveIncidentCoverage inp \<and>
    (as_Attention (ars_Assessment res) = AttentionUrgent \<longleftrightarrow> hasDeterministicFloor (ss_EligibleReasons snap))"
proof -
  from RevalidateReuse_Inr [OF assms] obtain rebound where r: "trustworthy prior = None"
    "aa_AssessmentBasisHash prior = ss_AssessmentBasisHash snap"
    "proposalPermitted (reuseProposal (aa_Assessment prior) rebound) snap"
    "res = DeriveAssessment
       ((reuseProposal (aa_Assessment prior) rebound)
          \<lparr>ap_Attention := if hasDeterministicFloor (ss_EligibleReasons snap) then AttentionUrgent
             else as_Attention (aa_Assessment prior)\<rparr>)
       snap inp state DerivationRevalidatedReuse (Some (aa_ID prior)) now" by metis
  have "as_Attention (aa_Assessment prior) = AttentionUrgent \<Longrightarrow> hasDeterministicFloor (ss_EligibleReasons snap)"
    using r(3) by (simp add: proposalPermitted_def reuseProposal_def)
  with r show ?thesis unfolding trustworthy_None_iff r(4) by auto
qed

lemma sampleAuthoritative_trustworthy: "trustworthy (sampleAuthoritative b f cov) = None"
proof -
  have "ActionContract_validate False sampleContract = None"
    by (simp add: ActionContract_validate_iff sampleContract_def contractCodesClosed_def contractActor_def
      AlertINTAction_Validate_def AlertINTStatus_Validate_def OperatorAction_Validate_def WaitReason_Validate_def validateEnum_def)
  then show ?thesis
    by (simp add: trustworthy_None_iff sampleAuthoritative_def Assessment_ValidateShape_def Assessment_validateShape_iff
        sampleAssessment_def assessmentCodesClosed_def Persistence_Validate_def Impact_Validate_def Novelty_Validate_def
        Causality_Validate_def Attention_Validate_def Lifecycle_Validate_def EvidenceQuality_Validate_def Cadence_Validate_def
        validateEnum_def)
qed

lemma sampleReuse:
  "\<exists>res. RevalidateReuse (sampleAuthoritative ''basis'' ''facts'' []) (sampleSnapshot [sampleFloor] [] []) firingInput sampleState
     (sampleTime 200) = Inr res"
proof -
  let ?p = "sampleAuthoritative ''basis'' ''facts'' []"
  let ?s = "sampleSnapshot [sampleFloor] [] []"
  have "proposalPermitted (reuseProposal (aa_Assessment ?p) None) ?s"
    by (simp add: proposalPermitted_def reuseProposal_def sampleAuthoritative_def sampleAssessment_def materialClaim_def)
  note raise = validateProposalContent_permitted [OF this]
  have fields: "aa_AssessmentBasisHash ?p = ss_AssessmentBasisHash ?s" "as_SufficientReason (aa_Assessment ?p) = None"
    by (simp_all add: sampleAuthoritative_def sampleSnapshot_def sampleAssessment_def)
  show ?thesis
    by (simp add: RevalidateReuse_def sampleAuthoritative_trustworthy fields rebindSufficientReason_def raise raiseToFloor_def Let_def
        accepted_def)
qed

theorem reuse_revalidates_witness:
  "\<exists>res. RevalidateReuse (sampleAuthoritative ''basis'' ''facts'' []) (sampleSnapshot [sampleFloor] [] []) firingInput sampleState
     (sampleTime 200) = Inr res \<and> as_Attention (ars_Assessment res) = AttentionUrgent"
proof -
  obtain res where res: "RevalidateReuse (sampleAuthoritative ''basis'' ''facts'' []) (sampleSnapshot [sampleFloor] [] []) firingInput
      sampleState (sampleTime 200) = Inr res" using sampleReuse by blast
  from reuse_revalidates [OF res] have "as_Attention (ars_Assessment res) = AttentionUrgent"
    by (simp add: sampleSnapshot_def hasDeterministicFloor_def findFloorCandidate_def sampleFloor_def)
  with res show ?thesis by blast
qed

text \<open>
  The outcome of a model call is classified so that an immediate correction is spent at most once and only on
  malformed output, a durable retry only on malformed output and on transport or rate-limit failures, and
  nothing counts as accepted unless the policy accepted it.
\<close>

theorem call_outcome_policy:
  "(rp_ImmediateCorrection (ClassifyL2Outcome vr err used) \<longleftrightarrow>
      rp_Outcome (ClassifyL2Outcome vr err used) = L2OutcomeMalformed \<and> \<not> used) \<and>
   (rp_DurableRetry (ClassifyL2Outcome vr err used) \<longleftrightarrow>
      rp_Outcome (ClassifyL2Outcome vr err used) \<in> {L2OutcomeMalformed, L2OutcomeTransportFailure, L2OutcomeRateLimited}) \<and>
   (rp_Outcome (ClassifyL2Outcome vr err used) \<in> {L2OutcomeAccepted, L2OutcomeContradicted} \<longleftrightarrow>
      err = None \<and> (\<exists>r. vr = Some r \<and> accepted (vr_Outcome r)))"
  using ClassifyL2Outcome_correction_iff ClassifyL2Outcome_durable_iff ClassifyL2Outcome_accepted_iff by blast

section \<open>Acute Triage\<close>

text \<open>
  C35. Work is skipped only on proof: a skip decision belongs to an Incident that awaits its first decision, the
  current Assessment is trustworthy, has the current material fact hash and covers the Incident's current membership
  and input digests, and the last investigation was accepted with useful evidence and covers the same inputs: every delivery it ran over
  is still a delivery of the Incident, and the membership and input digests of these deliveries are the current ones.
\<close>

theorem skip_needs_proof:
  assumes "d \<in> set (DecideTriage snap inp now)" and "td_Decision d = TriageDecisionSkip"
  shows "\<exists>inc prior cov e claimed. inc \<in> set (ss_Incidents snap) \<and> td_IncidentID d = inc_ID inc \<and>
    tst_Phase (inc_Triage inc) = ''awaiting_decision'' \<and>
    sn_CurrentAssessment inp = Some prior \<and> trustworthy prior = None \<and>
    aa_MaterialFactHash prior = ss_MaterialFactHash snap \<and>
    findIncidentCoverage (aa_Coverage prior) (inc_ID inc) = Some cov \<and>
    ic_MembershipDigest cov = MembershipDigest (inc_ID inc) (sn_Deliveries inp) \<and>
    ic_IncidentInputDigest cov = IncidentInputDigest (inc_ID inc) (inc_GroupKey inc) (sn_Deliveries inp) \<and>
    tst_LastExecution (inc_Triage inc) = Some e \<and> acceptedExecution e \<and> tex_MemberDeliveryIDs e \<noteq> [] \<and>
    set claimed \<subseteq> set (incidentMembers (inc_ID inc) (sn_Deliveries inp)) \<and> de_ID ` set claimed = set (tex_MemberDeliveryIDs e) \<and>
    MembershipDigest (inc_ID inc) claimed = MembershipDigest (inc_ID inc) (sn_Deliveries inp) \<and>
    IncidentInputDigest (inc_ID inc) (inc_GroupKey inc) claimed = IncidentInputDigest (inc_ID inc) (inc_GroupKey inc) (sn_Deliveries inp)"
proof -
  from assms(1) obtain inc where inc: "inc \<in> set (ss_Incidents snap)" "decideIncident snap inp now inc = [d]"
    by (auto simp: DecideTriage_set)
  let ?m = "MembershipDigest (inc_ID inc) (sn_Deliveries inp)"
  let ?i = "IncidentInputDigest (inc_ID inc) (inc_GroupKey inc) (sn_Deliveries inp)"
  let ?r = "decideOne inc ?m ?i snap inp (snd (needsTriageDecision inc ?m ?i))"
  from inc(2) have d: "fst (needsTriageDecision inc ?m ?i)" "td_IncidentID d = inc_ID inc" "td_Decision d = fst ?r"
    unfolding decideIncident_singleton Let_def by simp_all
  from assms(2) d(3) have skip: "fst ?r = TriageDecisionSkip" by simp
  then have first: "\<not> snd (needsTriageDecision inc ?m ?i)" and cov: "acceptedInvestigationCovers inc (sn_Deliveries inp) ?m ?i"
    unfolding decideOne_skip_iff by blast+
  from first d(1) have "needsTriageDecision inc ?m ?i = (True, False)" by (simp add: prod_eq_iff)
  then have phase: "tst_Phase (inc_Triage inc) = ''awaiting_decision''" by (simp only: needsTriageDecision_first_iff)
  from skip obtain prior c where "sn_CurrentAssessment inp = Some prior" "trustworthy prior = None"
    "aa_MaterialFactHash prior = ss_MaterialFactHash snap" "findIncidentCoverage (aa_Coverage prior) (inc_ID inc) = Some c"
    "ic_MembershipDigest c = ?m" "ic_IncidentInputDigest c = ?i"
    unfolding decideOne_skip_iff by blast
  with acceptedInvestigationCovers_claims [OF cov] inc(1) d(2) phase show ?thesis by blast
qed

definition investigatedIncident :: incidentState where
  "investigatedIncident = sampleIncident ''awaiting_decision'' (Some (sampleExecution [''d1'']))"

definition investigatedDeliveries :: "delivery list" where
  "investigatedDeliveries = [sampleDelivery ''d1'' ''a1'' DeliveryStatusFiring 120]"

definition coveredInput :: "authoritativeAssessment option \<Rightarrow> snapshotInput" where
  "coveredInput prior = sampleInput [] (sampleSituation LifecycleActive None None) investigatedDeliveries [investigatedIncident] prior"

definition investigatedInput :: snapshotInput where
  "investigatedInput = coveredInput (Some (sampleAuthoritative ''basis'' ''facts'' (DeriveIncidentCoverage (coveredInput None))))"

lemma coverage_prior_free: "DeriveIncidentCoverage (coveredInput prior) = DeriveIncidentCoverage (coveredInput None)"
  by (simp add: DeriveIncidentCoverage_def coveredInput_def sampleInput_def)

text \<open>
  Completed work is not repeated: when the last execution of an Incident was accepted and ran over exactly its current
  deliveries, and the current trustworthy Assessment has the current hash and coverage, the decision is to skip.
\<close>

theorem covered_work_is_skipped:
  assumes "tst_LastExecution (inc_Triage inc) = Some e" and "acceptedExecution e"
    and "distinct (map de_ID (sn_Deliveries inp))"
    and "set (tex_MemberDeliveryIDs e) = de_ID ` set (incidentMembers (inc_ID inc) (sn_Deliveries inp))"
    and "incidentMembers (inc_ID inc) (sn_Deliveries inp) \<noteq> []"
    and "inc \<in> set (sn_Incidents inp)" and "inj_on inc_ID (set (sn_Incidents inp))"
    and "sn_CurrentAssessment inp = Some prior" and "trustworthy prior = None"
    and "aa_MaterialFactHash prior = ss_MaterialFactHash snap" and "aa_Coverage prior = DeriveIncidentCoverage inp"
  shows "decideOne inc (MembershipDigest (inc_ID inc) (sn_Deliveries inp))
      (IncidentInputDigest (inc_ID inc) (inc_GroupKey inc) (sn_Deliveries inp)) snap inp False =
    (TriageDecisionSkip, ''clean_skip_unchanged_coverage'', Some (aa_ID prior))"
  using assms by (rule decideOne_covered)

lemma sampleExecution_accepted: "acceptedExecution (sampleExecution ids)"
proof -
  have "\<not> blank ''disk full''" by (rule not_blank_ascii; simp add: byte_def asciiSpace_def)
  then show ?thesis
    by (simp add: acceptedExecution_def sampleExecution_def usefulEvidence_def sampleEvidence_def)
qed

lemma investigated_fields:
  "sn_Deliveries investigatedInput = investigatedDeliveries" "sn_Incidents investigatedInput = [investigatedIncident]"
  "inc_ID investigatedIncident = ''inc-1''" "inc_GroupKey investigatedIncident = ''g''"
  "tst_LastExecution (inc_Triage investigatedIncident) = Some (sampleExecution [''d1''])"
  "tst_Phase (inc_Triage investigatedIncident) = ''awaiting_decision''"
  "sn_CurrentAssessment investigatedInput = Some (sampleAuthoritative ''basis'' ''facts'' (DeriveIncidentCoverage investigatedInput))"
  "incidentMembers ''inc-1'' investigatedDeliveries = investigatedDeliveries"
  "distinct (map de_ID investigatedDeliveries)" "de_ID ` set investigatedDeliveries = {''d1''}" "investigatedDeliveries \<noteq> []"
  using coverage_prior_free [of "Some (sampleAuthoritative ''basis'' ''facts'' (DeriveIncidentCoverage (coveredInput None)))"]
  by (simp_all add: investigatedInput_def coveredInput_def sampleInput_def investigatedIncident_def sampleIncident_def
      sampleTriage_def incidentMembers_def investigatedDeliveries_def sampleDelivery_def)

theorem covered_work_is_skipped_witness:
  "fst (decideOne investigatedIncident (MembershipDigest ''inc-1'' investigatedDeliveries)
      (IncidentInputDigest ''inc-1'' ''g'' investigatedDeliveries) (sampleSnapshot [] [investigatedIncident] []) investigatedInput False) =
    TriageDecisionSkip"
  using covered_work_is_skipped [OF investigated_fields(5) sampleExecution_accepted, of investigatedInput
      "sampleAuthoritative ''basis'' ''facts'' (DeriveIncidentCoverage investigatedInput)" "sampleSnapshot [] [investigatedIncident] []"]
    sampleAuthoritative_trustworthy
  by (simp add: investigated_fields sampleExecution_def sampleAuthoritative_def sampleSnapshot_def)

lemma investigatedDecision:
  "\<exists>d \<in> set (DecideTriage (sampleSnapshot [] [investigatedIncident] []) investigatedInput (sampleTime 200)).
     td_Decision d = TriageDecisionSkip"
proof -
  let ?s = "sampleSnapshot [] [investigatedIncident] []"
  have skip: "fst (decideOne investigatedIncident (MembershipDigest ''inc-1'' investigatedDeliveries)
      (IncidentInputDigest ''inc-1'' ''g'' investigatedDeliveries) ?s investigatedInput False) = TriageDecisionSkip"
    using decideOne_covered [OF investigated_fields(5) sampleExecution_accepted, of investigatedInput
      "sampleAuthoritative ''basis'' ''facts'' (DeriveIncidentCoverage investigatedInput)" ?s]
      sampleAuthoritative_trustworthy
    by (simp add: investigated_fields sampleExecution_def sampleAuthoritative_def sampleSnapshot_def)
  have "ss_Incidents ?s = [investigatedIncident]" by (simp add: sampleSnapshot_def)
  with skip needsTriageDecision_awaiting [OF investigated_fields(6)] show ?thesis
    by (simp add: DecideTriage_def decideIncident_def Let_def case_prod_beta investigated_fields)
qed

theorem skip_needs_proof_witness: "sn_CurrentAssessment investigatedInput \<noteq> None"
proof -
  obtain d where "d \<in> set (DecideTriage (sampleSnapshot [] [investigatedIncident] []) investigatedInput (sampleTime 200))"
    "td_Decision d = TriageDecisionSkip" using investigatedDecision by blast
  from skip_needs_proof [OF this] show ?thesis by auto
qed

text \<open>
  After the decisions of a cycle no member Incident is left undecided: one that awaited a decision reads as
  pending or skipped in the same cycle, and skipped only for a skip decision.
\<close>

theorem no_incident_left_undecided:
  assumes "inc \<in> set (ss_Incidents snap)" and "distinct (map inc_ID (ss_Incidents snap))"
    and "tst_Phase (inc_Triage inc) = ''awaiting_decision''"
  shows "effectiveTriagePhase inc (decisionsByIncident (DecideTriage snap inp now)) =
    (if fst (decideOne inc (MembershipDigest (inc_ID inc) (sn_Deliveries inp))
          (IncidentInputDigest (inc_ID inc) (inc_GroupKey inc) (sn_Deliveries inp)) snap inp False) = TriageDecisionSkip
     then ''skipped'' else ''pending'')"
  using assms by (rule effectiveTriagePhase_decided)

theorem no_incident_left_undecided_witness:
  "effectiveTriagePhase (sampleIncident ''awaiting_decision'' None)
     (decisionsByIncident (DecideTriage (sampleSnapshot [] [sampleIncident ''awaiting_decision'' None] []) firingInput (sampleTime 200))) =
   ''pending''"
  using no_incident_left_undecided [of "sampleIncident ''awaiting_decision'' None"
      "sampleSnapshot [] [sampleIncident ''awaiting_decision'' None] []" firingInput "sampleTime 200"]
  by (simp add: sampleSnapshot_def sampleIncident_def sampleTriage_def decideOne_def Let_def firingInput_def sampleInput_def)

section \<open>The operator's expected judgment\<close>

text \<open>
  A judgment has authority exactly when it is still asserted and not expired, the Situation is open and not urgent, no
  critical Alert fires, and the coverage derived from the current input matches the recorded one in
  scope, impact, every symptom and the evidence.
\<close>

theorem judgment_applicable_iff:
  "ja_Applicable (EvaluateExpectedJudgment j inp now) \<longleftrightarrow>
     sj_State j = JudgmentStateExpected \<and> tns now < tns (sj_ValidUntil j) \<and>
     \<not> Terminal (si_Lifecycle (sn_Situation inp)) \<and> si_Attention (sn_Situation inp) \<noteq> AttentionUrgent \<and>
     \<not> hasCriticalFiring (sn_Deliveries inp) \<and>
     (\<exists>current. DeriveExpectedJudgmentCoverage inp = Inr current \<and> coverageHolds current (sj_Coverage j))"
  unfolding EvaluateExpectedJudgment_Applicable judgmentReason_applicable_iff judgmentBlocked_def by (auto simp: not_le)

definition calmDelivery :: delivery where
  "calmDelivery = (sampleDelivery ''d1'' ''a1'' DeliveryStatusFiring 120)\<lparr>de_Severity := ''warning''\<rparr>"

definition calmInput :: snapshotInput where
  "calmInput = sampleInput [] (sampleSituation LifecycleActive None None) [calmDelivery] []
     (Some (sampleAuthoritative ''basis'' ''facts'' []))"

definition calmCoverage :: expectedJudgmentCoverage where
  "calmCoverage = \<lparr>jc_Scope = ''g'', jc_Impact = ImpactNoneObserved, jc_Symptoms = [coveredSymptom [] calmDelivery], jc_EvidenceRefs = []\<rparr>"

definition calmJudgment :: situationJudgment where
  "calmJudgment = \<lparr>sj_ID = ''j1'', sj_SituationID = ''sit-1'', sj_Revision = 1, sj_Operation = JudgmentOperationRecord,
     sj_State = JudgmentStateExpected, sj_AssertedOperator = ''op'', sj_TrustDomain = JudgmentTrustAuthenticatedMCP,
     sj_RequestID = ''q'', sj_ValidUntil = sampleTime 400, sj_Coverage = calmCoverage, sj_CreatedAt = sampleTime 150\<rparr>"

lemma calm_latest: "latestDeliveryPerAlert [calmDelivery] = [(''a1'', calmDelivery)]"
  by (simp add: latestDeliveryPerAlert_def keepStep_def alertKeyOf_def calmDelivery_def sampleDelivery_def)

lemma calm_fields:
  "sn_Deliveries calmInput = [calmDelivery]" "si_Lifecycle (sn_Situation calmInput) = LifecycleActive"
  "si_Attention (sn_Situation calmInput) = AttentionObserve" "prs_SourceDefinitions (sn_Prepared calmInput) = []"
  "sn_CurrentAssessment calmInput = Some (sampleAuthoritative ''basis'' ''facts'' [])" "si_GroupKey (sn_Situation calmInput) = ''g''"
  "de_Status calmDelivery = DeliveryStatusFiring" "de_Severity calmDelivery = ''warning''" "map fst (de_Labels calmDelivery) = [''host'']"
  by (simp_all add: calmInput_def sampleInput_def sampleSituation_def samplePrepared_def calmDelivery_def sampleDelivery_def)

lemma calm_coverage: "DeriveExpectedJudgmentCoverage calmInput = Inr calmCoverage"
  by (simp add: DeriveExpectedJudgmentCoverage_def calm_fields calm_latest sourceDefinitions_def calmCoverage_def Let_def)
     (simp add: sampleAuthoritative_def sampleAssessment_def)

lemma calm_not_critical: "\<not> hasCriticalFiring [calmDelivery]"
proof -
  have "Rank ''warning'' < 4" by code_simp
  then show ?thesis by (simp add: hasCriticalFiring_def calm_latest calm_fields)
qed

text \<open>
  A judgment recorded for the coverage of an input has authority over that same input: unless it is expired,
  withdrawn or overruled, it is applicable at once.
\<close>

theorem recorded_judgment_applies:
  assumes "DeriveExpectedJudgmentCoverage inp = Inr (sj_Coverage j)"
    and "definitionsNamed (prs_SourceDefinitions (sn_Prepared inp))"
    and "\<forall>d \<in> set (sn_Deliveries inp). distinct (map fst (de_Labels d))"
    and "sj_State j = JudgmentStateExpected" and "tns now < tns (sj_ValidUntil j)"
    and "\<not> Terminal (si_Lifecycle (sn_Situation inp))" and "si_Attention (sn_Situation inp) \<noteq> AttentionUrgent"
    and "\<not> hasCriticalFiring (sn_Deliveries inp)"
  shows "ja_Applicable (EvaluateExpectedJudgment j inp now)"
  unfolding EvaluateExpectedJudgment_Applicable judgmentReason_applicable_iff judgmentBlocked_def
  using assms(4-8) assms(1) coverageHolds_refl [OF assms(1-3)] by auto

theorem recorded_judgment_applies_witness: "ja_Applicable (EvaluateExpectedJudgment calmJudgment calmInput (sampleTime 200))"
  by (rule recorded_judgment_applies)
     (simp_all add: calm_coverage calm_fields calm_not_critical definitionsNamed_def calmJudgment_def
        sampleTime_def utcAt_def second_def)

text \<open>
  C38. The overlay of an applicable judgment changes only the request to the operator.  It applies only an asserted judgment whose
  recorded coverage is the one the commit derives now, on an open Situation that is not urgent.  The whole commit is the one before it except for the
  columns that record the judgment, the consumed judgment boundary, and the contract; the whole contract is the one before it except
  that nothing is required of the operator, that AlertINT is the next actor if it has an action and nobody otherwise, and that the next
  update is due after now and no later than the judgment's expiry.  The contract stays valid.
\<close>

theorem judgment_overlay_safe:
  assumes "\<not> cc_JudgmentApplicable commit" and "cc_JudgmentApplicable (applyExpectedJudgment commit inp now)"
    and "ActionContract_validate False (as_ActionContract (cc_Assessment commit)) = None"
    and "requireFreshNextUpdateAt (as_ActionContract (cc_Assessment commit)) now = None"
  shows "\<exists>j t k current. sn_Judgment inp = Some j \<and> sj_State j = JudgmentStateExpected \<and>
    DeriveExpectedJudgmentCoverage (commitInput commit inp) = Inr current \<and> coverageHolds current (sj_Coverage j) \<and>
    \<not> Terminal (cc_Lifecycle commit) \<and> cc_Attention commit \<noteq> AttentionUrgent \<and>
    as_Attention (cc_Assessment commit) \<noteq> AttentionUrgent \<and> \<not> hasCriticalFiring (sn_Deliveries inp) \<and>
    applyExpectedJudgment commit inp now = commit
      \<lparr>cc_JudgmentCheckedAt := tUTC now, cc_JudgmentRevision := sj_Revision j, cc_JudgmentApplicable := True,
       cc_JudgmentApplicabilityReason := JudgmentApplicable,
       cc_ConsumedDueReasons := filter (\<lambda>r. r \<noteq> DueJudgmentBoundary) (cc_ConsumedDueReasons commit),
       cc_Assessment := (cc_Assessment commit)\<lparr>as_ActionContract := k\<rparr>\<rparr> \<and>
    k = (as_ActionContract (cc_Assessment commit))\<lparr>ac_OperatorActionRequired := None,
       ac_NextActor := (if ac_AlertINTAction (as_ActionContract (cc_Assessment commit)) = None then NextActorNone else NextActorAlertINT),
       ac_NextUpdateAt := Some t\<rparr> \<and>
    ActionContract_validate False k = None \<and> tns now < tns t \<and> tns t \<le> tns (sj_ValidUntil j)"
proof -
  let ?commit = "commit\<lparr>cc_JudgmentCheckedAt := tUTC now\<rparr>" and ?c = "as_ActionContract (cc_Assessment commit)"
  from applyExpectedJudgment_applied [OF assms(2,1)] obtain j where j: "sn_Judgment inp = Some j"
    "ja_Applicable (judgmentApplicabilityFor ?commit j inp now)" by blast
  from judgmentApplicabilityFor_applicable [OF j(2)]
  have open_: "tns now < tns (sj_ValidUntil j)" "\<not> Terminal (cc_Lifecycle commit)" "cc_Attention commit \<noteq> AttentionUrgent"
    "\<not> hasCriticalFiring (sn_Deliveries inp)" "as_Attention (cc_Assessment commit) \<noteq> AttentionUrgent" "sj_State j = JudgmentStateExpected"
    by (auto simp: judgmentBlocked_def commitInput_def not_le)
  have "commitInput ?commit inp = commitInput commit inp" by (simp add: commitInput_def)
  with judgmentApplicabilityFor_covered [OF j(2)] obtain current where
    current: "DeriveExpectedJudgmentCoverage (commitInput commit inp) = Inr current" "coverageHolds current (sj_Coverage j)" by auto
  from overlayContract_deadline [of j ?c now] open_(1) assms(4)
  obtain t where t: "ac_NextUpdateAt (overlayContract j ?c) = Some t" "tns t \<le> tns (sj_ValidUntil j)" "tns now < tns t" by blast
  have "applyExpectedJudgment commit inp now = commit
      \<lparr>cc_JudgmentCheckedAt := tUTC now, cc_JudgmentRevision := sj_Revision j, cc_JudgmentApplicable := True,
       cc_JudgmentApplicabilityReason := JudgmentApplicable,
       cc_ConsumedDueReasons := filter (\<lambda>r. r \<noteq> DueJudgmentBoundary) (cc_ConsumedDueReasons commit),
       cc_Assessment := (cc_Assessment commit)\<lparr>as_ActionContract := overlayContract j ?c\<rparr>\<rparr>"
    using j judgmentApplicabilityFor_reason [OF j(2)] by (simp add: applyExpectedJudgment_def Let_def)
  moreover have "overlayContract j ?c = ?c\<lparr>ac_OperatorActionRequired := None,
      ac_NextActor := (if ac_AlertINTAction ?c = None then NextActorNone else NextActorAlertINT), ac_NextUpdateAt := Some t\<rparr>"
    using t(1) by (cases "ac_AlertINTAction ?c") (simp_all add: overlayContract_def)
  ultimately show ?thesis
    using j(1) t(2,3) open_ current overlayContract_valid [OF assms(3), of j]
    by (intro exI [of _ j] exI [of _ t] exI [of _ "overlayContract j ?c"] exI [of _ current] conjI)
qed

definition calmCommit :: controllerCommit where
  "calmCommit = \<lparr>cc_Attempt = \<lparr>aat_ID = [], aat_SituationID = [], aat_AssessmentBasisHash = [], aat_CallID = None,
       aat_InputVersion = 0, aat_RetryEpoch = 0, aat_WorkAttempt = 0, aat_Sequence = 0,
       aat_Derivation = AssessmentDerivationOther [], aat_Status = [], aat_Proposal = [], aat_Validated = [],
       aat_ValidationErrors = [], aat_ProviderRequestStarted = None, aat_UsageInputTokens = None,
       aat_UsageOutputTokens = None, aat_ReusedFromAssessmentID = None, aat_CreatedAt = zeroTime, aat_CompletedAt = zeroTime\<rparr>,
     cc_Assessment = sampleAssessment AttentionObserve, cc_MaterialFactHash = ''facts'', cc_AssessmentBasisHash = ''basis'',
     cc_EligibleReasons = [], cc_Coverage = [], cc_TriageDecisions = [], cc_Lifecycle = LifecycleActive,
     cc_Attention = AttentionObserve, cc_RecoveryObservedAt = None, cc_GraceUntil = None, cc_TerminalAt = None,
     cc_TerminalReason = None, cc_NextAssessmentAt = sampleTime 500, cc_ConsumedDueReasons = [DueJudgmentBoundary],
     cc_RetryAt = None, cc_LastErrorClass = None, cc_Parked = \<lparr>pks_Touch = False, pks_At = zeroTime, pks_Reason = []\<rparr>,
     cc_BudgetDeniedCallID = None, cc_History = None, cc_PreparationCycleID = [], cc_PreparationGeneration = 0,
     cc_JudgmentRevision = 0, cc_JudgmentApplicable = False,
     cc_JudgmentApplicabilityReason = JudgmentApplicabilityReasonOther [], cc_JudgmentCheckedAt = zeroTime,
     cc_ExpectedBehaviorEvaluation = None\<rparr>"

definition judgedInput :: snapshotInput where "judgedInput = calmInput\<lparr>sn_Judgment := Some calmJudgment\<rparr>"

lemma judged_coverage: "DeriveExpectedJudgmentCoverage (commitInput (calmCommit\<lparr>cc_JudgmentCheckedAt := t\<rparr>) judgedInput) = Inr calmCoverage"
  by (simp add: DeriveExpectedJudgmentCoverage_def commitInput_def judgedInput_def calm_fields calm_latest sourceDefinitions_def
      calmCoverage_def Let_def calmCommit_def zeroAuthoritative_def sampleAssessment_def)

lemma calmCoverage_holds: "coverageHolds calmCoverage calmCoverage"
  by (rule coverageHolds_refl [OF calm_coverage]) (simp_all add: calm_fields definitionsNamed_def)

lemma judged_applicable: "cc_JudgmentApplicable (applyExpectedJudgment calmCommit judgedInput (sampleTime 200))"
proof -
  let ?c = "calmCommit\<lparr>cc_JudgmentCheckedAt := tUTC (sampleTime 200)\<rparr>"
  have "\<not> judgmentBlocked calmJudgment (commitInput ?c judgedInput) (sampleTime 200)"
    by (simp add: judgmentBlocked_def commitInput_def judgedInput_def calm_fields calm_not_critical calmCommit_def calmJudgment_def
        sampleTime_def utcAt_def second_def)
  then have "ja_Applicable (EvaluateExpectedJudgment calmJudgment (commitInput ?c judgedInput) (sampleTime 200))"
    unfolding EvaluateExpectedJudgment_Applicable judgmentReason_applicable_iff judged_coverage
    using calmCoverage_holds by (simp add: calmJudgment_def)
  moreover have "ja_Reason (sn_JudgmentApplicability judgedInput) = JudgmentApplicabilityReasonOther []"
    by (simp add: judgedInput_def calmInput_def sampleInput_def)
  ultimately have "ja_Applicable (judgmentApplicabilityFor ?c calmJudgment judgedInput (sampleTime 200))"
    by (simp add: judgmentApplicabilityFor_def calmCommit_def sampleAssessment_def)
  moreover have "sn_Judgment judgedInput = Some calmJudgment" by (simp add: judgedInput_def)
  ultimately show ?thesis by (simp add: applyExpectedJudgment_def Let_def)
qed

theorem judgment_overlay_safe_witness:
  "cc_Attention (applyExpectedJudgment calmCommit judgedInput (sampleTime 200)) = AttentionObserve \<and>
   ac_OperatorActionRequired (as_ActionContract (cc_Assessment (applyExpectedJudgment calmCommit judgedInput (sampleTime 200)))) = None"
proof -
  have "\<not> cc_JudgmentApplicable calmCommit" by (simp add: calmCommit_def)
  moreover have "ActionContract_validate False (as_ActionContract (cc_Assessment calmCommit)) = None"
    by (simp add: calmCommit_def sampleAssessment_def ActionContract_validate_iff sampleContract_def contractCodesClosed_def
      contractActor_def AlertINTAction_Validate_def AlertINTStatus_Validate_def OperatorAction_Validate_def
      WaitReason_Validate_def validateEnum_def)
  moreover have "requireFreshNextUpdateAt (as_ActionContract (cc_Assessment calmCommit)) (sampleTime 200) = None"
    by (simp add: calmCommit_def sampleAssessment_def requireFreshNextUpdateAt_iff sampleContract_def sampleTime_def utcAt_def second_def)
  ultimately show ?thesis
    using judgment_overlay_safe [of calmCommit judgedInput "sampleTime 200"] judged_applicable
    by (auto simp: Let_def calmCommit_def)
qed

end
