(* ===== verification/Model_Properties.thy ===== *)
theory Model_Properties
  imports Samples
begin

text \<open>The properties of the shared data model: label keys, severities, and the bounds of what is stored and shown.\<close>

text \<open>
  The rendered label set identifies the labels: two label maps whose keys have no comma or equals sign
  and whose values have no comma render alike only when they are the same map.
\<close>

theorem rendered_labels_identify:
  assumes "separatorFree ls" and "separatorFree ms" and "RenderLabels ls = RenderLabels ms"
  shows "map_of ls = map_of ms"
  using assms by (rule RenderLabels_inj)

theorem rendered_labels_identify_witness:
  "map_of [(''host'', ''a''), (''job'', ''b'')] = map_of [(''job'', ''b''), (''host'', ''a'')]"
proof (rule rendered_labels_identify)
  show "RenderLabels [(''host'', ''a''), (''job'', ''b'')] = RenderLabels [(''job'', ''b''), (''host'', ''a'')]"
    by (rule RenderLabels_perm) simp_all
qed (simp_all add: separatorFree_def)

text \<open>
  Without that restriction the rendering is not injective: a comma in a value makes two different
  label sets render to the same group key.
\<close>

theorem rendered_labels_collide:
  "RenderLabels [(''a'', ''1,b=2'')] = RenderLabels [(''a'', ''1''), (''b'', ''2'')]"
  by code_simp

text \<open>
  A missing key reads as the empty string when label maps are compared, so maps of the same size with
  different keys can compare as equal.
\<close>

theorem equal_labels_missing_key: "equalLabels [(''a'', [])] [(''b'', ''x'')]"
  by code_simp

text \<open>
  The text of an incident analysis that reaches an operator is bounded for every input, however long
  the model's output was.
\<close>

theorem analysis_text_bounded:
  "length (ia_Title (BoundIncidentAnalysis a)) \<le> 180 \<and>
   length (ia_Summary (BoundIncidentAnalysis a)) \<le> 1500 \<and>
   length (ia_Observations (BoundIncidentAnalysis a)) \<le> 2 \<and>
   list_all (\<lambda>x. length x \<le> 1500) (ia_Observations (BoundIncidentAnalysis a)) \<and>
   sum_list (map length (ia_VerificationNotes (BoundIncidentAnalysis a))) \<le> 6000 + length moreNotes \<and>
   length (ia_Findings (BoundIncidentAnalysis a)) \<le> AnalysisFindingsBound \<and>
   list_all (\<lambda>f. length f \<le> 1500) (ia_Findings (BoundIncidentAnalysis a))"
  by (rule BoundIncidentAnalysis_bounded)

end
