(* ===== verification/Work_Projection.thy ===== *)
theory Work_Projection
  imports Judgment
begin

text \<open>
  \<^verbatim>\<open>internal/situation/controller.go\<close>: the projection of every member Incident's Acute Triage schedule
  onto the one work disposition an operator sees.  The lemmas show that the disposition is the maximum of the
  members' phases under the documented ranking, that outstanding work never reads as ended, and which
  instants the projection carries.
\<close>

section \<open>Phases\<close>

definition workPhaseOf :: "string \<Rightarrow> workPhase" where
  "workPhaseOf rawPhase =
     (if rawPhase = [] then WorkPhaseCollecting
      else if rawPhase = ''awaiting_decision'' then WorkPhaseAwaitingDecision
      else if rawPhase = ''pending'' then WorkPhaseQueued
      else if rawPhase = ''in_flight'' then WorkPhaseExecuting
      else if rawPhase = ''backoff'' then WorkPhaseRetryWait
      else if rawPhase = ''skipped'' then WorkPhaseSettled
      else if rawPhase = ''exhausted'' then WorkPhaseExhausted
      else WorkPhaseNone)"

definition aggregateWorkPhase :: "workPhase list \<Rightarrow> bool \<Rightarrow> workPhase" where
  "aggregateWorkPhase phases executionStarted =
     (let has = (\<lambda>p. p \<in> set phases) in
      if has WorkPhaseExecuting then WorkPhaseExecuting
      else if has WorkPhaseQueued \<and> executionStarted then WorkPhaseQueued
      else if has WorkPhaseRetryWait then WorkPhaseRetryWait
      else if has WorkPhaseQueued then WorkPhaseQueued
      else if has WorkPhaseAwaitingDecision then WorkPhaseAwaitingDecision
      else if has WorkPhaseExhausted then WorkPhaseExhausted
      else if has WorkPhaseSettled then WorkPhaseSettled
      else if has WorkPhaseCollecting then WorkPhaseCollecting
      else WorkPhaseNone)"

definition DecisionReasonCleanSkip :: string where
  "DecisionReasonCleanSkip = ''clean_skip_unchanged_coverage''"

definition DecisionReasonEligibilityPolicyMinimumMembers :: string where
  "DecisionReasonEligibilityPolicyMinimumMembers = ''eligibility_policy_minimum_members''"

definition TriageSkipReason :: "triageState \<Rightarrow> string" where
  "TriageSkipReason t =
     (if tst_Phase t \<noteq> ''skipped'' then []
      else case tst_DecisionReason t of None \<Rightarrow> []
      | Some r \<Rightarrow> if r = DecisionReasonCleanSkip then ''prior_coverage''
          else if r = DecisionReasonEligibilityPolicyMinimumMembers then ''eligibility_policy''
          else [])"

section \<open>Ended work\<close>

text \<open>\<^verbatim>\<open>verificationUnknowns\<close> of \<^verbatim>\<open>briefing.go\<close>.\<close>

definition verificationUnknowns :: "string \<Rightarrow> int \<Rightarrow> string list" where
  "verificationUnknowns limit gaps =
     onlyIf (limit \<noteq> []) limit @
     onlyIf (0 < gaps) (itoa gaps @ '' verification checks unavailable or invalid'')"

fun boundedEach :: "string list \<Rightarrow> nat \<Rightarrow> nat \<Rightarrow> string list" where
  "boundedEach ss 0 width = []"
| "boundedEach [] limit width = []"
| "boundedEach (s # ss) (Suc n) width =
     (if blank s then boundedEach ss (Suc n) width else boundedText s width # boundedEach ss n width)"

definition completionFinding :: "incidentState \<Rightarrow> triageCompletionEvidence \<Rightarrow> findingFacts" where
  "completionFinding inc ev =
     \<lparr>ff_IncidentID = inc_ID inc, ff_Hypothesis = boundedText (tce_Hypothesis ev) 500,
      ff_Observations = boundedEach (tce_Observations ev) CompletionObservationsBound 400,
      ff_Unknowns = verificationUnknowns (tce_VerificationLimit ev) (tce_VerificationGaps ev),
      ff_AnalyzedAt = tce_JudgedAt ev,
      ff_EvidenceFingerprint = EvidenceFingerprint (tce_Observations ev) (tce_VerificationLimit ev)
        (tce_VerificationGaps ev) (tce_SourceEvidence ev)\<rparr>"

definition incidentWorkOutcome :: "incidentState \<Rightarrow> workPhase \<Rightarrow> incidentWorkOutcome" where
  "incidentWorkOutcome inc phase =
     (let out = \<lparr>wo_IncidentID = inc_ID inc, wo_AttemptID = [], wo_Phase = phase,
            wo_SkipReason = TriageSkipReason (inc_Triage inc), wo_ResultCode = [], wo_CompletedAt = None,
            wo_EvidenceKnown = False, wo_Finding = None\<rparr> in
      case tst_LastExecution (inc_Triage inc) of None \<Rightarrow> out
      | Some exec \<Rightarrow>
        (case tex_CompletedAt exec of None \<Rightarrow> out
         | Some completed \<Rightarrow>
            out\<lparr>wo_AttemptID := tex_AttemptID exec, wo_ResultCode := tex_ResultCode exec,
                wo_CompletedAt := Some (tUTC completed), wo_EvidenceKnown := tex_Evidence exec \<noteq> None,
                wo_Finding := map_option (completionFinding inc) (tex_Evidence exec)\<rparr>))"

section \<open>The projection\<close>

text \<open>
  A completed investigation deletes its schedule row, so an analyzed Incident without a schedule is settled.
\<close>

definition incidentWorkPhase :: "incidentState \<Rightarrow> workPhase" where
  "incidentWorkPhase inc =
     (if tst_Phase (inc_Triage inc) = [] \<and> inc_Status inc = ''analyzed'' then WorkPhaseSettled
      else workPhaseOf (tst_Phase (inc_Triage inc)))"

definition incidentExecuted :: "incidentState \<Rightarrow> bool" where
  "incidentExecuted inc \<longleftrightarrow> 0 < tst_Attempts (inc_Triage inc) \<or> tst_LastExecution (inc_Triage inc) \<noteq> None \<or>
     tst_ActiveAttempt (inc_Triage inc) \<noteq> None"

text \<open>The running minimum \<^verbatim>\<open>if x != nil && (best == nil || x.Before(*best)) { best = x }\<close>.\<close>

definition keepEarlier :: "gtime option \<Rightarrow> gtime option \<Rightarrow> gtime option" where
  "keepEarlier best x =
     (case x of None \<Rightarrow> best
      | Some t \<Rightarrow> (case best of None \<Rightarrow> Some t | Some b \<Rightarrow> if tBefore t b then Some t else Some b))"

definition earliestNextAt :: "workPhase \<Rightarrow> incidentState list \<Rightarrow> gtime option" where
  "earliestNextAt phase incidents =
     foldl keepEarlier None
       (map (\<lambda>inc. tst_NextAt (inc_Triage inc)) (filter (\<lambda>inc. incidentWorkPhase inc = phase) incidents))"

definition outstanding :: "workPhase \<Rightarrow> bool" where
  "outstanding p \<longleftrightarrow> p \<in> {WorkPhaseQueued, WorkPhaseAwaitingDecision, WorkPhaseExecuting, WorkPhaseRetryWait}"

definition endedPhase :: "workPhase \<Rightarrow> bool" where
  "endedPhase p \<longleftrightarrow> p = WorkPhaseSettled \<or> p = WorkPhaseExhausted"

definition endedWorkOf :: "incidentState list \<Rightarrow> incidentWorkOutcome list" where
  "endedWorkOf incidents =
     sort_key wo_IncidentID
       (map (\<lambda>inc. incidentWorkOutcome inc (incidentWorkPhase inc))
         (filter (\<lambda>inc. endedPhase (incidentWorkPhase inc)) incidents))"

definition firstSkipReason :: "incidentState list \<Rightarrow> string" where
  "firstSkipReason incidents =
     (case filter (\<lambda>r. r \<noteq> [])
         (map (\<lambda>inc. TriageSkipReason (inc_Triage inc))
            (filter (\<lambda>inc. incidentWorkPhase inc = WorkPhaseSettled) incidents)) of
        [] \<Rightarrow> [] | r # _ \<Rightarrow> r)"

definition BuildWorkProjection :: "incidentState list \<Rightarrow> gtime option \<Rightarrow> gtime option \<Rightarrow> workProjection" where
  "BuildWorkProjection incidents graceUntil statusCheckpointAt =
     (let phases = map incidentWorkPhase incidents;
          started = list_ex incidentExecuted incidents in
      \<lparr>wp_Phase = aggregateWorkPhase phases started, wp_ExecutionStarted = started,
       wp_InvestigatedAlertIDs = [], wp_InvestigatedNames = [], wp_InvestigatedCount = 0,
       wp_InvestigatedCountKnown = False,
       wp_EndedWork = endedWorkOf incidents, wp_EndedWorkKnown = True,
       wp_RemainingIncidents = int (length (filter outstanding phases)),
       wp_SkipReason = firstSkipReason incidents,
       wp_QueuedEligibleAt = earliestNextAt WorkPhaseQueued incidents, wp_QueuedEligibilityKnown = True,
       wp_RetryEligibleAt = earliestNextAt WorkPhaseRetryWait incidents,
       wp_SourceGraceUntil = graceUntil, wp_StatusCheckpointAt = statusCheckpointAt\<rparr>)"

section \<open>What the projection tells\<close>

text \<open>
  The aggregate is one of the members' phases and no member has a phase of higher rank, where queued work
  outranks waiting for a retry only after something was executed.
\<close>

definition workRank :: "bool \<Rightarrow> workPhase \<Rightarrow> nat" where
  "workRank started p =
     (case p of WorkPhaseExecuting \<Rightarrow> 8 | WorkPhaseQueued \<Rightarrow> if started then 7 else 5 | WorkPhaseRetryWait \<Rightarrow> 6
      | WorkPhaseAwaitingDecision \<Rightarrow> 4 | WorkPhaseExhausted \<Rightarrow> 3 | WorkPhaseSettled \<Rightarrow> 2 | WorkPhaseCollecting \<Rightarrow> 1
      | _ \<Rightarrow> 0)"

lemma aggregateWorkPhase_upper:
  "p \<in> set phases \<Longrightarrow> workRank started p \<le> workRank started (aggregateWorkPhase phases started)"
  by (cases p) (auto simp: aggregateWorkPhase_def workRank_def Let_def)

lemma aggregateWorkPhase_member:
  "aggregateWorkPhase phases started \<in> insert WorkPhaseNone (set phases)"
  by (auto simp: aggregateWorkPhase_def Let_def)

lemma aggregateWorkPhase_outstanding:
  "outstanding (aggregateWorkPhase phases started) \<longleftrightarrow> list_ex outstanding phases"
  by (auto simp: aggregateWorkPhase_def Let_def outstanding_def list_ex_iff)

lemma aggregateWorkPhase_ended:
  "endedPhase (aggregateWorkPhase phases started) \<longleftrightarrow>
     list_ex endedPhase phases \<and> \<not> list_ex outstanding phases"
  by (auto simp: aggregateWorkPhase_def Let_def outstanding_def endedPhase_def list_ex_iff)

lemma keepEarlier_fold:
  "map_option tns (foldl keepEarlier best xs) = minOf (tns ` (set_option best \<union> {t. Some t \<in> set xs}))"
proof (induction xs arbitrary: best)
  case Nil
  then show ?case by (cases best) (simp_all add: minOf_def)
next
  case (Cons x xs)
  have fin: "finite {t. Some t \<in> set ys}" for ys :: "gtime option list"
    using finite_imageI [of "set ys \<inter> range Some" the] by (rule finite_subset [rotated]) force+
  have "minOf (tns ` (set_option (keepEarlier best x) \<union> {t. Some t \<in> set xs})) =
        minOf (tns ` (set_option best \<union> {t. Some t \<in> set (x # xs)}))"
  proof (cases x)
    case None
    then show ?thesis by (simp add: keepEarlier_def)
  next
    case (Some t)
    then have eq: "{u. Some u \<in> set (x # xs)} = insert t {u. Some u \<in> set xs}" by auto
    show ?thesis unfolding eq using fin [of xs]
      by (cases best; cases "{u. Some u \<in> set xs} = {}")
         (auto simp: Some keepEarlier_def minOf_def tBefore_def min_def)
  qed
  then show ?case by (simp only: foldl_Cons Cons.IH)
qed

lemma boundedEach_length: "length (boundedEach ss limit width) \<le> limit"
  by (induction ss limit width rule: boundedEach.induct) auto

lemma boundedEach_each: "x \<in> set (boundedEach ss limit width) \<Longrightarrow> length x \<le> width"
  by (induction ss limit width rule: boundedEach.induct) (auto simp: boundedText_length split: if_splits)

end
