(* ===== verification/Expected_Schedule.thy ===== *)
theory Expected_Schedule
  imports Expected_Behavior_Model Encoding
begin

text \<open>
  \<^verbatim>\<open>internal/situation/expected_behavior_schedule.go\<close>: the validation of a reusable schedule and the
  resolution of the one occurrence that a primary start belongs to.  The time zone database is a
  parameter \<open>tz\<close>: for a zone name it gives the offset from UTC, in seconds, at every UTC second, or nothing for an unknown
  name.  Seconds count from the zero instant, which is a Monday midnight.  Nothing is assumed of \<open>tz\<close> where
  bounds are proved; \<open>resolveLocal_fixed\<close> shows what a zone without transitions gives.
\<close>

type_synonym zoneOffsets = "int \<Rightarrow> int"
type_synonym zoneDatabase = "string \<Rightarrow> zoneOffsets option"

section \<open>Clock and weekdays\<close>

definition digitOf :: "char \<Rightarrow> int option" where
  "digitOf c = (if 48 \<le> byte c \<and> byte c \<le> 57 then Some (int (byte c) - 48) else None)"

definition twoDigits :: "char \<Rightarrow> char \<Rightarrow> int option" where
  "twoDigits a b = (case (digitOf a, digitOf b) of (Some x, Some y) \<Rightarrow> Some (10 * x + y) | _ \<Rightarrow> None)"

definition parseExpectedBehaviorClock :: "string \<Rightarrow> string + (int \<times> int)" where
  "parseExpectedBehaviorClock v =
     (case v of [a, b, c, d, e] \<Rightarrow>
        (if c \<noteq> CHR '':'' then Inl ''must use HH:MM minute precision''
         else case (twoDigits a b, twoDigits d e) of
           (Some h, Some m) \<Rightarrow> if h < 24 \<and> m < 60 then Inr (h, m) else Inl ''must be a valid 24-hour time''
         | _ \<Rightarrow> Inl ''must be a valid 24-hour time'')
      | _ \<Rightarrow> Inl ''must use HH:MM minute precision'')"

text \<open>\<^verbatim>\<open>expectedBehaviorModelWeekday\<close> of a day number; \<^verbatim>\<open>expectedBehaviorTimeWeekday\<close> only tells the codes apart.\<close>

definition expectedBehaviorModelWeekday :: "int \<Rightarrow> expectedBehaviorWeekday" where
  "expectedBehaviorModelWeekday day =
     [ExpectedBehaviorMonday, ExpectedBehaviorTuesday, ExpectedBehaviorWednesday, ExpectedBehaviorThursday,
      ExpectedBehaviorFriday, ExpectedBehaviorSaturday, ExpectedBehaviorSunday] ! nat (day mod 7)"

definition expectedBehaviorTimeWeekday :: "expectedBehaviorWeekday \<Rightarrow> bool" where
  "expectedBehaviorTimeWeekday d = (case d of ExpectedBehaviorWeekdayOther _ \<Rightarrow> False | _ \<Rightarrow> True)"

fun checkDays :: "expectedBehaviorWeekday list \<Rightarrow> expectedBehaviorWeekday list \<Rightarrow> goerror" where
  "checkDays seen [] = None"
| "checkDays seen (d # ds) =
     (if \<not> expectedBehaviorTimeWeekday d then Some ''expected behavior: invalid weekday''
      else if d \<in> set seen then Some ''expected behavior: duplicate weekday''
      else checkDays (d # seen) ds)"

definition validateExpectedBehaviorSchedule :: "zoneDatabase \<Rightarrow> expectedBehaviorSchedule \<Rightarrow> goerror" where
  "validateExpectedBehaviorSchedule tz s =
     (if ebd_Days s = [] then Some ''expected behavior: schedule requires at least one weekday''
      else case checkDays [] (ebd_Days s) of Some e \<Rightarrow> Some e
      | None \<Rightarrow>
        (case parseExpectedBehaviorClock (ebd_LocalStart s) of
           Inl e \<Rightarrow> Some (''expected behavior: local_start: '' @ e)
         | Inr st \<Rightarrow>
           (case parseExpectedBehaviorClock (ebd_LocalEnd s) of
              Inl e \<Rightarrow> Some (''expected behavior: local_end: '' @ e)
            | Inr en \<Rightarrow>
              if st = en then Some ''expected behavior: schedule start and end cannot be equal''
              else if tz (ebd_Timezone s) = None then Some ''expected behavior: timezone must be a valid IANA name''
              else if ebd_StartToleranceMinutes s < 0 \<or> ebd_StartToleranceMinutes s > 120
              then Some ''expected behavior: start tolerance must be between 0 and 120 minutes''
              else None)))"

section \<open>Local minutes\<close>

text \<open>
  \<^verbatim>\<open>time.Date\<close> in a location: the civil second is first read as UTC to guess the offset, and the
  offset of the guessed instant is then used.
\<close>

definition dateIn :: "zoneOffsets \<Rightarrow> int \<Rightarrow> int" where
  "dateIn off civil = (if off civil = 0 then civil else civil - off (civil - off civil))"

definition localSecond :: "zoneOffsets \<Rightarrow> int \<Rightarrow> int" where
  "localSecond off u = u + off u"

definition matchesAround :: "zoneOffsets \<Rightarrow> int \<Rightarrow> int list" where
  "matchesAround off localMinute =
     (let nominal = dateIn off localMinute in
      filter (\<lambda>u. localSecond off u div 60 = localMinute div 60)
        (map (\<lambda>k. nominal - 14400 + 60 * k) [0..480]))"

fun advanceLocal :: "zoneOffsets \<Rightarrow> int \<Rightarrow> nat \<Rightarrow> int list" where
  "advanceLocal off wanted 0 = matchesAround off wanted"
| "advanceLocal off wanted (Suc n) =
     (case matchesAround off wanted of [] \<Rightarrow> advanceLocal off (wanted + 60) n | ms \<Rightarrow> ms)"

definition resolveExpectedBehaviorLocal :: "zoneOffsets \<Rightarrow> int \<Rightarrow> int list" where
  "resolveExpectedBehaviorLocal off wanted = advanceLocal off wanted 180"

text \<open>The range of the schedule on the local date of the UTC second \<open>date\<close>.\<close>

definition resolveExpectedBehaviorRange ::
  "zoneOffsets \<Rightarrow> int \<Rightarrow> int \<times> int \<Rightarrow> int \<times> int \<Rightarrow> string + int \<times> int" where
  "resolveExpectedBehaviorRange off date start end' =
     (let minutes = (\<lambda>p. fst p * 60 + snd p);
          endDate = (if minutes end' < minutes start then dateIn off (localSecond off date + 86400) else date);
          at = (\<lambda>u p. localSecond off u div 86400 * 86400 + minutes p * 60);
          starts = resolveExpectedBehaviorLocal off (at date start);
          ends = resolveExpectedBehaviorLocal off (at endDate end')
      in if starts = [] \<or> ends = [] then Inl ''expected behavior: schedule boundary could not be resolved''
         else if \<not> hd starts < last ends then Inl ''expected behavior: resolved schedule end must follow start''
         else Inr (hd starts, last ends))"

section \<open>The occurrence\<close>

definition atSecond :: "int \<Rightarrow> gtime" where "atSecond u = utcAt (u * second)"

definition withinTolerance :: "int \<Rightarrow> gtime \<Rightarrow> int \<Rightarrow> bool" where
  "withinTolerance tolerance primary u \<longleftrightarrow>
     \<not> tBefore primary (tAdd (atSecond u) (- tolerance)) \<and> \<not> tAfter primary (tAdd (atSecond u) tolerance)"

text \<open>One date of the loop: nothing, an error, or a candidate \<open>(date, start, end)\<close>.\<close>

definition dateCandidate ::
  "zoneOffsets \<Rightarrow> expectedBehaviorSchedule \<Rightarrow> int \<times> int \<Rightarrow> int \<times> int \<Rightarrow> gtime \<Rightarrow> int
     \<Rightarrow> string + (int \<times> int \<times> int) list" where
  "dateCandidate off s start end' primary date =
     (if expectedBehaviorModelWeekday (localSecond off date div 86400) \<notin> set (ebd_Days s) then Inr []
      else case resolveExpectedBehaviorRange off date start end' of
        Inl e \<Rightarrow> Inl e
      | Inr (st, en) \<Rightarrow>
          if withinTolerance (ebd_StartToleranceMinutes s * minute) primary st then Inr [(date, st, en)] else Inr [])"

definition expectedBehaviorResolverVersion :: int where "expectedBehaviorResolverVersion = 1"

definition dateText :: "int \<Rightarrow> string" where
  "dateText day =
     (let d = civilDate day in pad 4 (itoa (fst d)) @ ''-'' @ pad 2 (itoa (fst (snd d))) @ ''-'' @ pad 2 (itoa (snd (snd d))))"

definition occurrenceOf ::
  "zoneOffsets \<Rightarrow> expectedBehaviorSchedule \<Rightarrow> int \<Rightarrow> gtime \<Rightarrow> int \<times> int \<times> int \<Rightarrow> expectedBehaviorOccurrence" where
  "occurrenceOf off s maxMinutes primary chosen =
     (case chosen of (date, st, en) \<Rightarrow>
        let boundary = tAdd primary (maxMinutes * minute) in
        \<lparr>ebo_OwningLocalDate = dateText (localSecond off date div 86400), ebo_Timezone = ebd_Timezone s,
         ebo_Start = atSecond st, ebo_End = atSecond en, ebo_PrimaryStartedAt = tUTC primary,
         ebo_Boundary = tUTC (if tBefore (atSecond en) boundary then atSecond en else boundary),
         ebo_ResolverVersion = expectedBehaviorResolverVersion\<rparr>)"

text \<open>
  The candidates are sorted by start and the last is chosen.  \<^verbatim>\<open>sort.Slice\<close> may order equal starts either way;
  the stable order is taken here.
\<close>

definition ResolveExpectedBehaviorOccurrence ::
  "zoneDatabase \<Rightarrow> expectedBehaviorSchedule \<Rightarrow> int \<Rightarrow> gtime \<Rightarrow> string + expectedBehaviorOccurrence" where
  "ResolveExpectedBehaviorOccurrence tz s maxMinutes primary =
     (case validateExpectedBehaviorSchedule tz s of Some e \<Rightarrow> Inl e
      | None \<Rightarrow>
        if maxMinutes < 1 \<or> maxMinutes > 7 * 24 * 60
        then Inl ''expected behavior: maximum duration must be between 1 minute and 7 days''
        else (case (tz (ebd_Timezone s), parseExpectedBehaviorClock (ebd_LocalStart s), parseExpectedBehaviorClock (ebd_LocalEnd s)) of
          (Some off, Inr st, Inr en) \<Rightarrow>
            (let day = localSecond off (tns primary div second) div 86400;
                 noon = (\<lambda>d. dateIn off (d * 86400 + 43200)) in
             case dateCandidate off s st en primary (noon day) of Inl e \<Rightarrow> Inl e
             | Inr as \<Rightarrow>
               (case dateCandidate off s st en primary (noon (day - 1)) of Inl e \<Rightarrow> Inl e
                | Inr bs \<Rightarrow>
                  if as @ bs = [] then Inl ''expected behavior: primary start is outside the schedule tolerance''
                  else Inr (occurrenceOf off s maxMinutes primary (last (sort_key (\<lambda>c. fst (snd c)) (as @ bs))))))
        | _ \<Rightarrow> Inl ''expected behavior: timezone must be a valid IANA name''))"

section \<open>What an occurrence satisfies\<close>

lemma matchesAround_sound: "u \<in> set (matchesAround off m) \<Longrightarrow> localSecond off u div 60 = m div 60"
  by (simp add: matchesAround_def Let_def)

lemma resolveExpectedBehaviorRange_order:
  "resolveExpectedBehaviorRange off date st en = Inr (a, b) \<Longrightarrow> a < b"
  by (auto simp: resolveExpectedBehaviorRange_def Let_def split: if_splits)

lemma dateCandidate_sound:
  assumes "dateCandidate off s st en primary date = Inr cs" and "(d, a, b) \<in> set cs"
  shows "d = date \<and> a < b \<and> withinTolerance (ebd_StartToleranceMinutes s * minute) primary a \<and>
    expectedBehaviorModelWeekday (localSecond off date div 86400) \<in> set (ebd_Days s)"
  using assms
  by (auto simp: dateCandidate_def split: if_splits sum.splits prod.splits dest: resolveExpectedBehaviorRange_order)

lemma validateExpectedBehaviorSchedule_None:
  "validateExpectedBehaviorSchedule tz s = None \<Longrightarrow>
     tz (ebd_Timezone s) \<noteq> None \<and> 0 \<le> ebd_StartToleranceMinutes s \<and> ebd_StartToleranceMinutes s \<le> 120"
  by (auto simp: validateExpectedBehaviorSchedule_def split: if_splits option.splits sum.splits)

text \<open>
  Two local midnights are a day apart, so with a tolerance of at most two hours the chosen occurrence is one of the
  two candidates; what matters of it is collected here.
\<close>

lemma ResolveExpectedBehaviorOccurrence_cases:
  assumes "ResolveExpectedBehaviorOccurrence tz s m primary = Inr occ"
  obtains off date a b where "tz (ebd_Timezone s) = Some off" "occ = occurrenceOf off s m primary (date, a, b)"
    "a < b" "withinTolerance (ebd_StartToleranceMinutes s * minute) primary a"
    "expectedBehaviorModelWeekday (localSecond off date div 86400) \<in> set (ebd_Days s)"
    "1 \<le> m" "m \<le> 10080" "validateExpectedBehaviorSchedule tz s = None"
proof -
  from assms obtain off st en as bs date1 date2 where *: "tz (ebd_Timezone s) = Some off"
      "dateCandidate off s st en primary date1 = Inr as" "dateCandidate off s st en primary date2 = Inr bs"
      "as @ bs \<noteq> []" "occ = occurrenceOf off s m primary (last (sort_key (\<lambda>c. fst (snd c)) (as @ bs)))"
      "1 \<le> m" "m \<le> 10080" "validateExpectedBehaviorSchedule tz s = None"
    by (auto simp: ResolveExpectedBehaviorOccurrence_def Let_def split: option.splits if_splits sum.splits)
  let ?c = "last (sort_key (\<lambda>c. fst (snd c)) (as @ bs))"
  have "?c \<in> set (as @ bs)" using *(4) by (metis last_in_set set_empty set_sort)
  moreover obtain d a b where "?c = (d, a, b)" by (cases ?c)
  ultimately show thesis
    using that [of off d a b] * dateCandidate_sound by (metis Un_iff set_append)
qed

text \<open>In a zone without transitions every local minute has exactly one instant, the nominal one.\<close>

lemma matchesAround_fixed: "matchesAround (\<lambda>_. z) m = [m - z]"
proof -
  have "dateIn (\<lambda>_. z) m = m - z" by (simp add: dateIn_def)
  moreover have "(m - z - 14400 + 60 * k + z) div 60 = m div 60 \<longleftrightarrow> k = 240" for k :: int
    using div_mult_self2 [of 60 m "k - 240"] by (simp add: algebra_simps) linarith
  ultimately have "matchesAround (\<lambda>_. z) m =
      map (\<lambda>k. m - z - 14400 + 60 * k) (filter (\<lambda>k. k = 240) [0..480])"
    by (simp add: matchesAround_def localSecond_def filter_map comp_def Let_def)
  also have "filter (\<lambda>k. k = 240) [0..480] = [240 :: int]" by code_simp
  finally show ?thesis by simp
qed

lemma resolveLocal_fixed: "resolveExpectedBehaviorLocal (\<lambda>_. z) m = [m - z]"
  by (simp add: resolveExpectedBehaviorLocal_def numeral_eq_Suc matchesAround_fixed)

end
