(* ===== verification/Briefing_Encoding.thy ===== *)
theory Briefing_Encoding
  imports Expected_Behavior_Model History_Model Encoding
begin

text \<open>
  The JSON form of the operator briefing and of the expected-behavior evaluation, from the struct tags of
  \<^verbatim>\<open>internal/situation/model\<close>: the controller compares briefings by the digest of this form and stamps an
  evaluation with it.  A field tagged \<^verbatim>\<open>omitempty\<close> is left out when it is zero, so a nil and an empty list
  are the same here.
\<close>

section \<open>Fields\<close>

type_synonym jsonFields = "(string \<times> json) list"

definition jField :: "string \<Rightarrow> json \<Rightarrow> jsonFields" where
  "jField k v = [(k, v)]"

definition jOmitString :: "string \<Rightarrow> string \<Rightarrow> jsonFields" where
  "jOmitString k s = (if s = [] then [] else [(k, JString s)])"

definition jOmitInt :: "string \<Rightarrow> int \<Rightarrow> jsonFields" where
  "jOmitInt k i = (if i = 0 then [] else [(k, JInt i)])"

definition jOmitBool :: "string \<Rightarrow> bool \<Rightarrow> jsonFields" where
  "jOmitBool k b = (if b then [(k, JBool b)] else [])"

definition jOmitPtr :: "string \<Rightarrow> ('a \<Rightarrow> json) \<Rightarrow> 'a option \<Rightarrow> jsonFields" where
  "jOmitPtr k f x = (case x of None \<Rightarrow> [] | Some v \<Rightarrow> [(k, f v)])"

definition jOmitList :: "string \<Rightarrow> ('a \<Rightarrow> json) \<Rightarrow> 'a list \<Rightarrow> jsonFields" where
  "jOmitList k f xs = (if xs = [] then [] else [(k, JArray (map f xs))])"

section \<open>Codes\<close>

definition sourceCheckOutcomeText :: "sourceCheckOutcome \<Rightarrow> string" where
  "sourceCheckOutcomeText v = (case v of
     SourceCheckConfigured \<Rightarrow> ''configured'' | SourceCheckReturned \<Rightarrow> ''returned''
     | SourceCheckEmpty \<Rightarrow> ''empty'' | SourceCheckFailed \<Rightarrow> ''failed'' |
     SourceCheckSkipped \<Rightarrow> ''skipped'' | SourceCheckOutcomeOther s \<Rightarrow> s)"

definition workPhaseText :: "workPhase \<Rightarrow> string" where
  "workPhaseText v = (case v of
     WorkPhaseCollecting \<Rightarrow> ''collecting'' | WorkPhaseAwaitingDecision \<Rightarrow>
     ''awaiting_decision'' | WorkPhaseQueued \<Rightarrow> ''queued'' | WorkPhaseExecuting \<Rightarrow>
     ''executing'' | WorkPhaseRetryWait \<Rightarrow> ''retry_wait'' | WorkPhaseSettled \<Rightarrow>
     ''settled'' | WorkPhaseExhausted \<Rightarrow> ''exhausted'' | WorkPhaseNone \<Rightarrow> ''none''
     | WorkPhaseOther s \<Rightarrow> s)"

definition expectedBehaviorDispositionText :: "expectedBehaviorDisposition \<Rightarrow> string" where
  "expectedBehaviorDispositionText v = (case v of
     ExpectedBehaviorDispositionMatched \<Rightarrow> ''matched'' |
     ExpectedBehaviorDispositionAuthorityUnavailable \<Rightarrow> ''authority_unavailable'' |
     ExpectedBehaviorDispositionViolated \<Rightarrow> ''violated'' |
     ExpectedBehaviorDispositionNotApplicable \<Rightarrow> ''not_applicable'' |
     ExpectedBehaviorDispositionOther s \<Rightarrow> s)"

definition expectedBehaviorReasonText :: "expectedBehaviorReason \<Rightarrow> string" where
  "expectedBehaviorReasonText v = (case v of
     ExpectedBehaviorReasonMatched \<Rightarrow> ''matched'' | ExpectedBehaviorReasonRevoked
     \<Rightarrow> ''revoked'' | ExpectedBehaviorReasonInvalidated \<Rightarrow> ''invalidated'' |
     ExpectedBehaviorReasonScopeMismatch \<Rightarrow> ''scope_mismatch'' |
     ExpectedBehaviorReasonPrimaryDefinitionChanged \<Rightarrow> ''primary_definition_changed'' |
     ExpectedBehaviorReasonBindingDefinitionChanged \<Rightarrow> ''binding_definition_changed'' |
     ExpectedBehaviorReasonDefinitionUnavailable \<Rightarrow> ''definition_unavailable'' |
     ExpectedBehaviorReasonScheduleUnavailable \<Rightarrow> ''schedule_unavailable'' |
     ExpectedBehaviorReasonOutsideSchedule \<Rightarrow> ''outside_schedule'' |
     ExpectedBehaviorReasonStartOutsideTolerance \<Rightarrow> ''start_outside_tolerance'' |
     ExpectedBehaviorReasonDurationExceeded \<Rightarrow> ''duration_exceeded'' |
     ExpectedBehaviorReasonRequiredMissing \<Rightarrow> ''required_companion_missing'' |
     ExpectedBehaviorReasonPrimaryMissing \<Rightarrow> ''primary_signal_absent'' |
     ExpectedBehaviorReasonObservationUnavailable \<Rightarrow> ''observation_unavailable'' |
     ExpectedBehaviorReasonUnexpectedSymptom \<Rightarrow> ''unexpected_symptom'' |
     ExpectedBehaviorReasonForbiddenPresent \<Rightarrow> ''forbidden_signal_present'' |
     ExpectedBehaviorReasonUrgent \<Rightarrow> ''urgent'' | ExpectedBehaviorReasonBudgetDeferred
     \<Rightarrow> ''budget_deferred'' | ExpectedBehaviorReasonOther s \<Rightarrow> s)"

definition expectedBehaviorCandidateStatusText :: "expectedBehaviorCandidateStatus \<Rightarrow> string" where
  "expectedBehaviorCandidateStatusText v = (case v of
     ExpectedBehaviorMatched \<Rightarrow> ''matched'' | ExpectedBehaviorAuthorityUnavailable
     \<Rightarrow> ''authority_unavailable'' | ExpectedBehaviorViolated \<Rightarrow> ''violated'' |
     ExpectedBehaviorNotCandidate \<Rightarrow> ''not_candidate'' | ExpectedBehaviorCandidateStatusOther
     s \<Rightarrow> s)"

definition terminalReasonText :: "terminalReason \<Rightarrow> string" where
  "terminalReasonText v = (case v of
     TerminalReasonObservationDeadline \<Rightarrow> ''observation_deadline'' |
     TerminalReasonResolutionMissing \<Rightarrow> ''resolution_missing'' |
     TerminalReasonSourceUnavailable \<Rightarrow> ''source_unavailable'' |
     TerminalReasonBudgetExhausted \<Rightarrow> ''budget_exhausted'' | TerminalReasonOther s
     \<Rightarrow> s)"

definition persistenceText :: "persistence \<Rightarrow> string" where
  "persistenceText v = (case v of
     PersistenceTransient \<Rightarrow> ''transient'' | PersistenceSustained \<Rightarrow> ''sustained''
     | PersistenceUnknown \<Rightarrow> ''unknown'' | PersistenceOther s \<Rightarrow> s)"

definition impactText :: "impact \<Rightarrow> string" where
  "impactText v = (case v of
     ImpactNoneObserved \<Rightarrow> ''none_observed'' | ImpactSuspected \<Rightarrow> ''suspected'' |
     ImpactConfirmed \<Rightarrow> ''confirmed'' | ImpactUnknown \<Rightarrow> ''unknown'' | ImpactOther
     s \<Rightarrow> s)"

definition noveltyText :: "novelty \<Rightarrow> string" where
  "noveltyText v = (case v of
     NoveltyFamiliar \<Rightarrow> ''familiar'' | NoveltyChanged \<Rightarrow> ''changed'' | NoveltyNew
     \<Rightarrow> ''new'' | NoveltyInsufficientHistory \<Rightarrow> ''insufficient_history'' |
     NoveltyOther s \<Rightarrow> s)"

definition causalityText :: "causality \<Rightarrow> string" where
  "causalityText v = (case v of
     CausalitySupported \<Rightarrow> ''supported'' | CausalityCorrelated \<Rightarrow> ''correlated'' |
     CausalityContradicted \<Rightarrow> ''contradicted'' | CausalityUnknown \<Rightarrow> ''unknown'' |
     CausalityOperatorConfirmed \<Rightarrow> ''operator_confirmed'' | CausalityOther s \<Rightarrow> s)"

definition evidenceQualityText :: "evidenceQuality \<Rightarrow> string" where
  "evidenceQualityText v = (case v of
     EvidenceQualityComplete \<Rightarrow> ''complete'' | EvidenceQualityDegraded \<Rightarrow>
     ''degraded'' | EvidenceQualityInsufficient \<Rightarrow> ''insufficient'' | EvidenceQualityOther s
     \<Rightarrow> s)"

definition nextActorText :: "nextActor \<Rightarrow> string" where
  "nextActorText v = (case v of
     NextActorAlertINT \<Rightarrow> ''alertint'' | NextActorOperator \<Rightarrow> ''operator'' |
     NextActorNone \<Rightarrow> ''none'' | NextActorOther s \<Rightarrow> s)"

definition alertINTActionText :: "alertINTAction \<Rightarrow> string" where
  "alertINTActionText v = (case v of
     AlertINTActionRunAcuteTriage \<Rightarrow> ''run_acute_triage'' |
     AlertINTActionRetrySituationAssessment \<Rightarrow> ''retry_situation_assessment'' |
     AlertINTActionMonitorSituation \<Rightarrow> ''monitor_situation'' | AlertINTActionVerifyRecovery
     \<Rightarrow> ''verify_recovery'' | AlertINTActionOther s \<Rightarrow> s)"

definition alertINTStatusText :: "alertINTStatus \<Rightarrow> string" where
  "alertINTStatusText v = (case v of
     AlertINTStatusPlanned \<Rightarrow> ''planned'' | AlertINTStatusRunning \<Rightarrow> ''running'' |
     AlertINTStatusWaiting \<Rightarrow> ''waiting'' | AlertINTStatusBlocked \<Rightarrow> ''blocked'' |
     AlertINTStatusExhausted \<Rightarrow> ''exhausted'' | AlertINTStatusComplete \<Rightarrow>
     ''complete'' | AlertINTStatusOther s \<Rightarrow> s)"

definition operatorActionText :: "operatorAction \<Rightarrow> string" where
  "operatorActionText v = (case v of
     OperatorActionInvestigateSituation \<Rightarrow> ''investigate_situation'' | OperatorActionOther s
     \<Rightarrow> s)"

definition nextUpdateOnText :: "nextUpdateOn \<Rightarrow> string" where
  "nextUpdateOnText v = (case v of
     NextUpdateOnMaterialInput \<Rightarrow> ''material_input'' | NextUpdateOnTriageOutcome
     \<Rightarrow> ''triage_outcome'' | NextUpdateOnSourceResolution \<Rightarrow> ''source_resolution''
     | NextUpdateOnSourceRefire \<Rightarrow> ''source_refire'' | NextUpdateOnDependencyRecovery
     \<Rightarrow> ''dependency_recovery'' | NextUpdateOnAssessmentRetryDue \<Rightarrow>
     ''assessment_retry_due'' | NextUpdateOnRecoveryGraceExpired \<Rightarrow>
     ''recovery_grace_expired'' | NextUpdateOnLifecycleObservationDeadline \<Rightarrow>
     ''lifecycle_observation_deadline'' | NextUpdateOnOther s \<Rightarrow> s)"

definition waitReasonText :: "waitReason \<Rightarrow> string" where
  "waitReasonText v = (case v of
     WaitReasonAcuteTriageDecision \<Rightarrow> ''acute_triage_decision'' |
     WaitReasonAcuteTriageBackoff \<Rightarrow> ''acute_triage_backoff'' | WaitReasonAssessmentRetry
     \<Rightarrow> ''assessment_retry'' | WaitReasonAssessmentParked \<Rightarrow> ''assessment_parked''
     | WaitReasonSourceChange \<Rightarrow> ''source_change'' | WaitReasonRecoveryGrace \<Rightarrow>
     ''recovery_grace'' | WaitReasonOther s \<Rightarrow> s)"

definition transitionReasonText :: "transitionReason \<Rightarrow> string" where
  "transitionReasonText v = (case v of
     ReasonFirstAuthoritativeState \<Rightarrow> ''first_authoritative_state'' |
     ReasonMaterialAssessmentChanged \<Rightarrow> ''material_assessment_changed'' |
     ReasonAttentionChanged \<Rightarrow> ''attention_changed'' | ReasonOperatorContractChanged
     \<Rightarrow> ''operator_contract_changed'' | ReasonInvestigationStarted \<Rightarrow>
     ''investigation_started'' | ReasonInvestigationConcluded \<Rightarrow> ''investigation_concluded''
     | ReasonRecoveryObserved \<Rightarrow> ''recovery_observed'' | ReasonRecoveryFailed \<Rightarrow>
     ''recovery_failed'' | ReasonRecovered \<Rightarrow> ''recovered'' | ReasonClosedUnknown
     \<Rightarrow> ''closed_unknown'' | ReasonRecurrenceMilestone \<Rightarrow> ''recurrence_milestone''
     | ReasonTriageStateChanged \<Rightarrow> ''triage_state_changed'' | ReasonOperatorArtifactRecorded
     \<Rightarrow> ''operator_artifact_recorded'' | TransitionReasonOther s \<Rightarrow> s)"

section \<open>The briefing\<close>

definition jAnalysisUsage :: "analysisUsage \<Rightarrow> json" where
  "jAnalysisUsage v = JObject (concat
    [jField ''calls'' (JInt (au_Calls v)), jField ''calls_known'' (JBool (au_CallsKnown v)),
     jField ''input_tokens'' (JInt (au_InputTokens v)),
     jField ''input_tokens_known'' (JBool (au_InputTokensKnown v)),
     jField ''output_tokens'' (JInt (au_OutputTokens v)),
     jField ''output_tokens_known'' (JBool (au_OutputTokensKnown v))])"

definition jSourceCheck :: "sourceCheck \<Rightarrow> json" where
  "jSourceCheck v = JObject (concat
    [jOmitString ''kind'' (sc_Kind v), jOmitString ''query_scope'' (sc_QueryScope v),
     jOmitString ''query_expr'' (sc_QueryExpr v), jField ''source'' (JString (sc_Source v)),
     jField ''check'' (JString (sc_Check v)), jOmitString ''unit'' (sc_Unit v),
     jField ''outcome'' (JString (sourceCheckOutcomeText (sc_Outcome v))),
     jField ''calls'' (JInt (sc_Calls v)), jField ''calls_known'' (JBool (sc_CallsKnown v)),
     jField ''records'' (JInt (sc_Records v)), jField ''records_known'' (JBool (sc_RecordsKnown v)),
     jOmitString ''detail'' (sc_Detail v)])"

definition jOperatorFlow :: "operatorFlow \<Rightarrow> json" where
  "jOperatorFlow v = JObject (concat
    [jField ''first_received_at'' (jTime (of_FirstReceivedAt v)),
     jField ''correlation_opened_at'' (jTime (of_CorrelationOpenedAt v)),
     jOmitPtr ''correlation_closes_at'' jTime (of_CorrelationClosesAt v),
     jOmitString ''group_key'' (of_GroupKey v), jOmitString ''grouping_rule'' (of_GroupingRule v),
     jOmitPtr ''investigation_started_at'' jTime (of_InvestigationStartedAt v),
     jOmitPtr ''investigation_completed_at'' jTime (of_InvestigationCompletedAt v),
     jOmitPtr ''investigation_runtime_seconds'' JInt (of_InvestigationRuntimeSeconds v),
     jField ''analysis_usage'' (jAnalysisUsage (of_AnalysisUsage v)),
     jOmitList ''source_checks'' jSourceCheck (of_SourceChecks v)])"

definition jBriefingAlert :: "briefingAlert \<Rightarrow> json" where
  "jBriefingAlert v = JObject (concat
    [jField ''id'' (JString (ba_ID v)), jField ''name'' (JString (ba_Name v)),
     jOmitString ''service'' (ba_Service v), jOmitString ''context'' (ba_Context v),
     jField ''state'' (JString (ba_State v)), jOmitString ''source_summary'' (ba_SourceSummary v)])"

definition jIncidentAnalysis :: "incidentAnalysis \<Rightarrow> json" where
  "jIncidentAnalysis v = JObject (concat
    [jOmitString ''evidence_summary'' (ia_EvidenceSummary v),
     jField ''incident_id'' (JString (ia_IncidentID v)), jOmitString ''title'' (ia_Title v),
     jOmitString ''summary'' (ia_Summary v), jOmitList ''observations'' JString (ia_Observations v),
     jOmitList ''findings'' JString (ia_Findings v), jOmitString ''verification'' (ia_Verification v),
     jOmitString ''verification_limit'' (ia_VerificationLimit v),
     jOmitList ''verification_notes'' JString (ia_VerificationNotes v),
     jOmitInt ''verification_gaps'' (ia_VerificationGaps v), jOmitPtr ''analyzed_at'' jTime (ia_AnalyzedAt v),
     jOmitBool ''stale'' (ia_Stale v), jOmitString ''evidence_fingerprint'' (ia_EvidenceFingerprint v)])"

definition jFindingFacts :: "findingFacts \<Rightarrow> json" where
  "jFindingFacts v = JObject (concat
    [jOmitString ''incident_id'' (ff_IncidentID v), jOmitString ''hypothesis'' (ff_Hypothesis v),
     jOmitList ''observations'' JString (ff_Observations v), jOmitList ''unknowns'' JString (ff_Unknowns v),
     jOmitPtr ''analyzed_at'' jTime (ff_AnalyzedAt v),
     jOmitString ''evidence_fingerprint'' (ff_EvidenceFingerprint v)])"

definition jIncidentWorkOutcome :: "incidentWorkOutcome \<Rightarrow> json" where
  "jIncidentWorkOutcome v = JObject (concat
    [jField ''incident_id'' (JString (wo_IncidentID v)), jOmitString ''attempt_id'' (wo_AttemptID v),
     jField ''phase'' (JString (workPhaseText (wo_Phase v))), jOmitString ''skip_reason'' (wo_SkipReason v),
     jOmitString ''result_code'' (wo_ResultCode v), jOmitPtr ''completed_at'' jTime (wo_CompletedAt v),
     jOmitBool ''evidence_known'' (wo_EvidenceKnown v), jOmitPtr ''finding'' jFindingFacts (wo_Finding v)])"

definition jWorkProjection :: "workProjection \<Rightarrow> json" where
  "jWorkProjection v = JObject (concat
    [jField ''phase'' (JString (workPhaseText (wp_Phase v))),
     jField ''execution_started'' (JBool (wp_ExecutionStarted v)),
     jOmitList ''investigated_alert_ids'' JString (wp_InvestigatedAlertIDs v),
     jOmitList ''investigated_names'' JString (wp_InvestigatedNames v),
     jOmitInt ''investigated_count'' (wp_InvestigatedCount v),
     jOmitBool ''investigated_count_known'' (wp_InvestigatedCountKnown v),
     jOmitList ''ended_work'' jIncidentWorkOutcome (wp_EndedWork v),
     jOmitBool ''ended_work_known'' (wp_EndedWorkKnown v),
     jField ''remaining_incidents'' (JInt (wp_RemainingIncidents v)),
     jOmitString ''skip_reason'' (wp_SkipReason v),
     jOmitPtr ''queued_eligible_at'' jTime (wp_QueuedEligibleAt v),
     jOmitBool ''queued_eligibility_known'' (wp_QueuedEligibilityKnown v),
     jOmitPtr ''retry_eligible_at'' jTime (wp_RetryEligibleAt v),
     jOmitPtr ''source_grace_until'' jTime (wp_SourceGraceUntil v),
     jOmitPtr ''status_checkpoint_at'' jTime (wp_StatusCheckpointAt v)])"

definition jExpectedJudgmentProjection :: "expectedJudgmentProjection \<Rightarrow> json" where
  "jExpectedJudgmentProjection v = JObject (concat
    [jField ''revision'' (JInt (jp_Revision v)),
     jField ''asserted_operator'' (JString (jp_AssertedOperator v)),
     jField ''valid_until'' (jTime (jp_ValidUntil v))])"

definition jExpectedBehaviorProjection :: "expectedBehaviorProjection \<Rightarrow> json" where
  "jExpectedBehaviorProjection v = JObject (concat
    [jField ''envelope_id'' (JString (xp_EnvelopeID v)), jField ''version'' (JInt (xp_Version v)),
     jField ''asserted_operator'' (JString (xp_AssertedOperator v)), jOmitString ''workload'' (xp_Workload v),
     jField ''disposition'' (JString (expectedBehaviorDispositionText (xp_Disposition v))),
     jOmitString ''reason'' (expectedBehaviorReasonText (xp_Reason v)),
     jOmitPtr ''boundary'' jTime (xp_Boundary v), jOmitString ''source'' (xp_Source v)])"

definition jOperatorBriefing :: "operatorBriefing \<Rightarrow> json" where
  "jOperatorBriefing v = JObject (concat
    [jOmitPtr ''flow'' jOperatorFlow (ob_Flow v), jOmitString ''blocked_reason'' (ob_BlockedReason v),
     jOmitPtr ''assessment_retry_at'' jTime (ob_AssessmentRetryAt v), jField ''scope'' (JString (ob_Scope v)),
     jOmitString ''display_scope'' (ob_DisplayScope v), jOmitList ''alerts'' jBriefingAlert (ob_Alerts v),
     jOmitInt ''alerts_omitted'' (ob_AlertsOmitted v), jOmitPtr ''retry_at'' jTime (ob_RetryAt v),
     jOmitList ''symptoms'' JString (ob_Symptoms v), jField ''firing'' (JInt (ob_Firing v)),
     jField ''resolved'' (JInt (ob_Resolved v)), jField ''unknown'' (JInt (ob_Unknown v)),
     jField ''total'' (JInt (ob_Total v)), jField ''critical'' (JInt (ob_Critical v)),
     jField ''analysis_count'' (JInt (ob_AnalysisCount v)), jField ''failed'' (JInt (ob_Failed v)),
     jField ''pending'' (JInt (ob_Pending v)), jOmitInt ''unavailable'' (ob_Unavailable v),
     jOmitList ''analyses'' jIncidentAnalysis (ob_Analyses v), jOmitBool ''historical'' (ob_Historical v),
     jOmitPtr ''expected_judgment'' jExpectedJudgmentProjection (ob_ExpectedJudgment v),
     jOmitPtr ''expected_behavior'' jExpectedBehaviorProjection (ob_ExpectedBehavior v),
     jField ''work'' (jWorkProjection (ob_Work v))])"

section \<open>The evaluation\<close>

definition jExpectedBehaviorOccurrence :: "expectedBehaviorOccurrence \<Rightarrow> json" where
  "jExpectedBehaviorOccurrence v = JObject (concat
    [jField ''owning_local_date'' (JString (ebo_OwningLocalDate v)),
     jField ''timezone'' (JString (ebo_Timezone v)), jField ''start'' (jTime (ebo_Start v)),
     jField ''end'' (jTime (ebo_End v)), jField ''primary_started_at'' (jTime (ebo_PrimaryStartedAt v)),
     jField ''boundary'' (jTime (ebo_Boundary v)), jField ''resolver_version'' (JInt (ebo_ResolverVersion v))])"

definition jExpectedBehaviorCandidate :: "expectedBehaviorCandidate \<Rightarrow> json" where
  "jExpectedBehaviorCandidate v = JObject (concat
    [jField ''envelope_id'' (JString (eca_EnvelopeID v)), jField ''version'' (JInt (eca_Version v)),
     jField ''status'' (JString (expectedBehaviorCandidateStatusText (eca_Status v))),
     jField ''reason'' (JString (expectedBehaviorReasonText (eca_Reason v))),
     jOmitPtr ''occurrence'' jExpectedBehaviorOccurrence (eca_Occurrence v),
     jOmitList ''evidence_refs'' JString (eca_EvidenceRefs v),
     jOmitPtr ''evidence_expires_at'' jTime (eca_EvidenceExpiresAt v)])"

end
