(* ===== verification/Expected_Behavior.thy ===== *)
theory Expected_Behavior
  imports Expected_Schedule Briefing_Encoding Judgment
begin

text \<open>
  \<^verbatim>\<open>internal/situation/expected_behavior.go\<close> and the policy check of \<^verbatim>\<open>expected_behavior_schedule.go\<close>:
  whether the current condition of a Situation is one an operator declared to be scheduled, and the overlay
  that such a match has on a commit.  A match removes a request from the operator, so the lemmas show what a
  match proves and what it leaves alone.
\<close>

section \<open>Inputs\<close>

record expectedBehaviorSignal =
  xsg_SourceInstanceID :: string
  xsg_Host :: string
  xsg_TriggerID :: string
  xsg_TriggerVersion :: string
  xsg_Presence :: string
  xsg_EvidenceRefs :: "string list"
  xsg_ObservedAt :: gtime
  xsg_ExpiresAt :: gtime
  xsg_ProducerID :: string
  xsg_ScopeLabels :: labels
  xsg_RuleID :: string
  xsg_RuleVersion :: string

record expectedBehaviorInput =
  xin_SituationID :: string
  xin_SituationVersion :: int
  xin_GroupKey :: string
  xin_Now :: gtime
  xin_PrimaryStartedAt :: gtime
  xin_Source :: string
  xin_SourceInstanceID :: string
  xin_Host :: string
  xin_PrimaryTriggerID :: string
  xin_PrimaryVersion :: string
  xin_HasCriticalFiring :: bool
  xin_IndependentlyUrgent :: bool
  xin_FiringSignals :: "expectedBehaviorSignal list"
  xin_Observations :: "expectedBehaviorSignal list"
  xin_Heads :: "expectedBehaviorHead list"
  xin_ProducerID :: string
  xin_ScopeLabels :: labels
  xin_PrimaryRuleID :: string
  xin_PrimaryRuleVersion :: string
  xin_PrimaryPresence :: string

section \<open>Identities\<close>

text \<open>\<^verbatim>\<open>maps.Equal\<close>.\<close>

definition mapsEqual :: "labels \<Rightarrow> labels \<Rightarrow> bool" where
  "mapsEqual a b \<longleftrightarrow> length a = length b \<and> list_all (\<lambda>(k, v). map_of b k = Some v) a"

text \<open>A label map marshals with its keys sorted; the nil map, which a scope without labels has, marshals to null.\<close>

definition canonicalExpectedBehaviorLabels :: "labels \<Rightarrow> string" where
  "canonicalExpectedBehaviorLabels ls =
     marshal (if ls = [] then JNull else JObject (map (\<lambda>(k, v). (k, JString v)) (sort_key fst ls)))"

definition nul :: string where "nul = [char_of (0 :: nat)]"

definition expectedBehaviorSignalKey :: "string \<Rightarrow> string \<Rightarrow> string \<Rightarrow> string" where
  "expectedBehaviorSignalKey instance' host trigger = instance' @ nul @ host @ nul @ trigger"

definition alertmanagerKey :: "string \<Rightarrow> string \<Rightarrow> string \<Rightarrow> labels \<Rightarrow> string" where
  "alertmanagerKey instance' producer rule ls =
     instance' @ nul @ producer @ nul @ rule @ nul @ canonicalExpectedBehaviorLabels ls"

definition expectedBehaviorBindingSignalKey :: "expectedBehaviorBinding \<Rightarrow> string" where
  "expectedBehaviorBindingSignalKey b =
     (if ebb_Source b = ''alertmanager''
      then alertmanagerKey (ebb_SourceInstanceID b) (ebb_ProducerID b) (ebb_RuleID b) (ebb_ScopeLabels b)
      else expectedBehaviorSignalKey (ebb_SourceInstanceID b) (ebb_Host b) (ebb_TriggerID b))"

definition expectedBehaviorSignalIdentity :: "expectedBehaviorSignal \<Rightarrow> string" where
  "expectedBehaviorSignalIdentity s =
     (if xsg_RuleID s \<noteq> []
      then alertmanagerKey (xsg_SourceInstanceID s) (xsg_ProducerID s) (xsg_RuleID s) (xsg_ScopeLabels s)
      else expectedBehaviorSignalKey (xsg_SourceInstanceID s) (xsg_Host s) (xsg_TriggerID s))"

definition expectedBehaviorScopeBindingKey :: "expectedBehaviorScope \<Rightarrow> string" where
  "expectedBehaviorScopeBindingKey s =
     (if ebs_Source s = ''alertmanager''
      then alertmanagerKey (ebs_SourceInstanceID s) (ebs_ProducerID s) (ebs_PrimaryRuleID s) (ebs_ScopeLabels s)
      else expectedBehaviorSignalKey (ebs_SourceInstanceID s) (ebs_Host s) (ebs_PrimaryTriggerID s))"

definition expectedBehaviorSignalVersion :: "expectedBehaviorSignal \<Rightarrow> string" where
  "expectedBehaviorSignalVersion s = (if xsg_RuleVersion s \<noteq> [] then xsg_RuleVersion s else xsg_TriggerVersion s)"

definition expectedBehaviorBindingVersion :: "expectedBehaviorBinding \<Rightarrow> string" where
  "expectedBehaviorBindingVersion b = (if ebb_RuleVersion b \<noteq> [] then ebb_RuleVersion b else ebb_TriggerVersion b)"

definition expectedBehaviorScopeMatches :: "expectedBehaviorScope \<Rightarrow> expectedBehaviorInput \<Rightarrow> bool" where
  "expectedBehaviorScopeMatches s inp =
     (if ebs_Source s = ''alertmanager''
      then ebs_ProducerID s = xin_ProducerID inp \<and> ebs_PrimaryRuleID s = xin_PrimaryRuleID inp \<and>
           mapsEqual (ebs_ScopeLabels s) (xin_ScopeLabels inp)
      else ebs_Host s = xin_Host inp \<and> ebs_PrimaryTriggerID s = xin_PrimaryTriggerID inp)"

definition expectedBehaviorSignalFiring :: "expectedBehaviorSignal list \<Rightarrow> string \<Rightarrow> bool" where
  "expectedBehaviorSignalFiring signals key = list_ex (\<lambda>s. expectedBehaviorSignalIdentity s = key) signals"

section \<open>The policy check\<close>

text \<open>The regular expression \<^verbatim>\<open>^[a-z][a-z0-9_]{0,63}$\<close>.\<close>

definition lowerLetter :: "char \<Rightarrow> bool" where "lowerLetter c \<longleftrightarrow> 97 \<le> byte c \<and> byte c \<le> 122"

definition expectedBehaviorIdentifier :: "string \<Rightarrow> bool" where
  "expectedBehaviorIdentifier s =
     (case s of [] \<Rightarrow> False
      | c # cs \<Rightarrow> lowerLetter c \<and> length cs \<le> 63 \<and>
          list_all (\<lambda>d. lowerLetter d \<or> 48 \<le> byte d \<and> byte d \<le> 57 \<or> d = CHR ''_'') cs)"

definition validateExpectedBehaviorBinding :: "expectedBehaviorBinding \<Rightarrow> goerror" where
  "validateExpectedBehaviorBinding b =
     (if \<not> expectedBehaviorIdentifier (ebb_Role b)
      then Some ''expected behavior: binding role must be a lowercase identifier of at most 64 characters''
      else if blank (ebb_SourceInstanceID b) then Some ''expected behavior: binding requires installation''
      else if ebb_Source b = ''zabbix''
      then errWhen (blank (ebb_Host b) \<or> blank (ebb_TriggerID b) \<or> blank (ebb_TriggerVersion b))
             ''expected behavior: zabbix binding requires host, trigger, and version''
      else if ebb_Source b = ''alertmanager''
      then errWhen (blank (ebb_ProducerID b) \<or> blank (ebb_RuleID b) \<or> blank (ebb_RuleVersion b) \<or>
             blank (ebb_RuleGroup b) \<or> blank (ebb_RuleName b) \<or> ebb_ScopeLabels b = [])
             ''expected behavior: alertmanager binding requires producer, rule, version, and labels''
      else Some ''expected behavior: binding source must be zabbix or alertmanager'')"

fun checkBindings :: "string \<Rightarrow> string list \<Rightarrow> string list \<Rightarrow> expectedBehaviorBinding list \<Rightarrow> goerror" where
  "checkBindings primaryKey roles bindings [] = None"
| "checkBindings primaryKey roles bindings (b # bs) =
     (case validateExpectedBehaviorBinding b of Some e \<Rightarrow> Some e
      | None \<Rightarrow>
        (let key = expectedBehaviorBindingSignalKey b in
         if ebb_Role b \<in> set roles then Some ''expected behavior: role is reused''
         else if key = primaryKey
         then Some ''expected behavior: primary trigger cannot be a companion or forbidden signal''
         else if key \<in> set bindings then Some ''expected behavior: a binding cannot have multiple roles''
         else checkBindings primaryKey (ebb_Role b # roles) (key # bindings) bs))"

definition policyBindings :: "expectedBehaviorConditions \<Rightarrow> expectedBehaviorBinding list" where
  "policyBindings c = ebc_RequiredCompanions c @ ebc_AllowedCompanions c @ ebc_ForbiddenSignals c"

definition validateScope :: "expectedBehaviorScope \<Rightarrow> goerror" where
  "validateScope s =
     (if blank (ebs_GroupKey s) \<or> blank (ebs_SourceInstanceID s)
      then Some ''expected behavior: scope requires group and installation''
      else if ebs_Source s = ''zabbix''
      then errWhen (blank (ebs_Host s) \<or> blank (ebs_PrimaryTriggerID s) \<or> blank (ebs_PrimaryTriggerVersion s))
             ''expected behavior: zabbix scope requires host, trigger, and version''
      else if ebs_Source s = ''alertmanager''
      then errWhen (blank (ebs_ProducerID s) \<or> blank (ebs_PrimaryRuleID s) \<or> blank (ebs_PrimaryRuleVersion s) \<or>
             blank (ebs_RuleGroup s) \<or> blank (ebs_RuleName s) \<or> ebs_ScopeLabels s = [])
             ''expected behavior: alertmanager scope requires producer, rule, version, and labels''
      else Some ''expected behavior: source must be zabbix or alertmanager'')"

definition ValidateExpectedBehaviorPolicy :: "zoneDatabase \<Rightarrow> expectedBehaviorPolicy \<Rightarrow> gtime \<Rightarrow> goerror" where
  "ValidateExpectedBehaviorPolicy tz policy confirmedAt =
     (let c = ebp_Conditions policy in
      firstErr
       [validateScope (ebp_Scope policy),
        errWhen (\<not> expectedBehaviorIdentifier (ebc_Workload c))
          ''expected behavior: workload must be a lowercase identifier of at most 64 characters'',
        validateExpectedBehaviorSchedule tz (ebc_Schedule c),
        errWhen (ebc_MaxDurationMinutes c < 1 \<or> ebc_MaxDurationMinutes c > 7 * 24 * 60)
          ''expected behavior: maximum duration must be between 1 minute and 7 days'',
        errWhen (tIsZero (ebp_ReviewDueAt policy) \<or> \<not> tAfter (ebp_ReviewDueAt policy) confirmedAt)
          ''expected behavior: review_due_at must be later than confirmation'',
        checkBindings (expectedBehaviorScopeBindingKey (ebp_Scope policy)) [] [] (policyBindings c)])"

section \<open>One candidate\<close>

text \<open>\<^verbatim>\<open>set\<close>: the candidate as filled so far, with its verdict.\<close>

definition setStatus ::
  "expectedBehaviorCandidate \<Rightarrow> expectedBehaviorCandidateStatus \<Rightarrow> expectedBehaviorReason \<Rightarrow> expectedBehaviorCandidate" where
  "setStatus c status reason = c\<lparr>eca_Status := status, eca_Reason := reason\<rparr>"

definition observedSignals :: "expectedBehaviorSignal list \<Rightarrow> (string \<times> expectedBehaviorSignal) list" where
  "observedSignals obs = foldl (\<lambda>m s. AList.update (expectedBehaviorSignalIdentity s) s m) [] obs"

definition usableObservation :: "gtime \<Rightarrow> expectedBehaviorSignal \<Rightarrow> bool" where
  "usableObservation now s \<longleftrightarrow> xsg_Presence s \<noteq> ''unknown'' \<and> tAfter (xsg_ExpiresAt s) now"

definition noteObservation ::
  "expectedBehaviorCandidate \<times> gtime \<Rightarrow> expectedBehaviorSignal \<Rightarrow> expectedBehaviorCandidate \<times> gtime" where
  "noteObservation acc s =
     (case acc of (c, boundary) \<Rightarrow>
        (c\<lparr>eca_EvidenceRefs := eca_EvidenceRefs c @ xsg_EvidenceRefs s\<rparr>,
         if tIsZero boundary \<or> tBefore (xsg_ExpiresAt s) boundary then xsg_ExpiresAt s else boundary))"

text \<open>The two loops over observed bindings; \<open>optional\<close> is the loop over the allowed companions.\<close>

fun checkObserved ::
  "bool \<Rightarrow> expectedBehaviorInput \<Rightarrow> (string \<times> expectedBehaviorSignal) list \<Rightarrow> expectedBehaviorCandidate \<times> gtime
     \<Rightarrow> expectedBehaviorBinding list \<Rightarrow> expectedBehaviorCandidate + expectedBehaviorCandidate \<times> gtime" where
  "checkObserved optional inp observed acc [] = Inr acc"
| "checkObserved optional inp observed acc (b # bs) =
     (let key = expectedBehaviorBindingSignalKey b;
          missing = (if \<not> optional \<or> expectedBehaviorSignalFiring (xin_FiringSignals inp) key
            then Inl (setStatus (fst acc) ExpectedBehaviorAuthorityUnavailable ExpectedBehaviorReasonObservationUnavailable)
            else checkObserved optional inp observed acc bs) in
      case map_of observed key of None \<Rightarrow> missing
      | Some s \<Rightarrow>
          if \<not> usableObservation (xin_Now inp) s then missing
          else let acc' = noteObservation acc s in
            if expectedBehaviorSignalVersion s \<noteq> expectedBehaviorBindingVersion b
            then Inl (setStatus (fst acc') ExpectedBehaviorViolated ExpectedBehaviorReasonBindingDefinitionChanged)
            else checkObserved optional inp observed acc' bs)"

definition presenceOf :: "(string \<times> expectedBehaviorSignal) list \<Rightarrow> expectedBehaviorBinding \<Rightarrow> string" where
  "presenceOf observed b =
     (case map_of observed (expectedBehaviorBindingSignalKey b) of None \<Rightarrow> [] | Some s \<Rightarrow> xsg_Presence s)"

definition primarySignal :: "expectedBehaviorInput \<Rightarrow> expectedBehaviorSignal \<Rightarrow> bool" where
  "primarySignal inp s \<longleftrightarrow>
     xin_Source inp = ''zabbix'' \<and> xsg_TriggerID s = xin_PrimaryTriggerID inp \<and>
       xsg_SourceInstanceID s = xin_SourceInstanceID inp \<and> xsg_Host s = xin_Host inp \<or>
     xin_Source inp = ''alertmanager'' \<and> xsg_RuleID s = xin_PrimaryRuleID inp \<and>
       xsg_SourceInstanceID s = xin_SourceInstanceID inp \<and> xsg_ProducerID s = xin_ProducerID inp \<and>
       mapsEqual (xsg_ScopeLabels s) (xin_ScopeLabels inp)"

definition compactExpectedBehaviorStrings :: "string list \<Rightarrow> string list" where
  "compactExpectedBehaviorStrings xs = remdups_adj xs"

text \<open>The companion, forbidden and unexpected-signal checks, once the occurrence is current.\<close>

definition checkSignals ::
  "expectedBehaviorInput \<Rightarrow> expectedBehaviorConditions \<Rightarrow> expectedBehaviorCandidate \<times> gtime \<Rightarrow> expectedBehaviorCandidate" where
  "checkSignals inp cond acc0 =
     (let observed = observedSignals (xin_Observations inp);
          allowed = map expectedBehaviorBindingSignalKey (policyBindings cond) in
      case checkObserved False inp observed acc0 (ebc_RequiredCompanions cond @ ebc_ForbiddenSignals cond) of
        Inl c \<Rightarrow> c
      | Inr acc1 \<Rightarrow>
        (case checkObserved True inp observed acc1 (ebc_AllowedCompanions cond) of Inl c \<Rightarrow> c
         | Inr (c, boundary) \<Rightarrow>
            if list_ex (\<lambda>b. presenceOf observed b \<noteq> ''present'') (ebc_RequiredCompanions cond)
            then setStatus c ExpectedBehaviorViolated ExpectedBehaviorReasonRequiredMissing
            else if list_ex (\<lambda>b. presenceOf observed b = ''present'') (ebc_ForbiddenSignals cond)
            then setStatus c ExpectedBehaviorViolated ExpectedBehaviorReasonForbiddenPresent
            else if list_ex (\<lambda>s. \<not> primarySignal inp s \<and> expectedBehaviorSignalIdentity s \<notin> set allowed)
              (xin_FiringSignals inp)
            then setStatus c ExpectedBehaviorViolated ExpectedBehaviorReasonUnexpectedSymptom
            else setStatus (c\<lparr>eca_EvidenceRefs := compactExpectedBehaviorStrings (sortStrings (eca_EvidenceRefs c)),
                              eca_EvidenceExpiresAt := (if tIsZero boundary then None else Some (tUTC boundary))\<rparr>)
                   ExpectedBehaviorMatched ExpectedBehaviorReasonMatched))"

definition primaryFiring :: "expectedBehaviorInput \<Rightarrow> expectedBehaviorSignal \<Rightarrow> bool" where
  "primaryFiring inp s \<longleftrightarrow> xsg_SourceInstanceID s = xin_SourceInstanceID inp \<and> xsg_ProducerID s = xin_ProducerID inp \<and>
     xsg_RuleID s = xin_PrimaryRuleID inp \<and> mapsEqual (xsg_ScopeLabels s) (xin_ScopeLabels inp)"

text \<open>The evidence for the primary signal, which only Alertmanager has to give.\<close>

definition checkPrimary ::
  "expectedBehaviorInput \<Rightarrow> expectedBehaviorScope \<Rightarrow> expectedBehaviorCandidate
     \<Rightarrow> expectedBehaviorCandidate + expectedBehaviorCandidate \<times> gtime" where
  "checkPrimary inp s c =
     (if ebs_Source s \<noteq> ''alertmanager'' then Inr (c, zeroTime)
      else if xin_PrimaryPresence inp = ''unknown'' \<or> xin_PrimaryPresence inp = []
      then Inl (setStatus c ExpectedBehaviorAuthorityUnavailable ExpectedBehaviorReasonObservationUnavailable)
      else if xin_PrimaryPresence inp \<noteq> ''present''
      then Inl (setStatus c ExpectedBehaviorViolated ExpectedBehaviorReasonPrimaryMissing)
      else case find (primaryFiring inp) (xin_FiringSignals inp) of
        None \<Rightarrow> Inl (setStatus c ExpectedBehaviorAuthorityUnavailable ExpectedBehaviorReasonObservationUnavailable)
      | Some p \<Rightarrow>
          if \<not> tAfter (xsg_ExpiresAt p) (xin_Now inp)
          then Inl (setStatus c ExpectedBehaviorAuthorityUnavailable ExpectedBehaviorReasonObservationUnavailable)
          else Inr (c\<lparr>eca_EvidenceRefs := eca_EvidenceRefs c @ xsg_EvidenceRefs p\<rparr>, xsg_ExpiresAt p))"

definition scopeVersions :: "expectedBehaviorInput \<Rightarrow> expectedBehaviorScope \<Rightarrow> string \<times> string" where
  "scopeVersions inp s =
     (if ebs_Source s = ''alertmanager'' then (xin_PrimaryRuleVersion inp, ebs_PrimaryRuleVersion s)
      else (xin_PrimaryVersion inp, ebs_PrimaryTriggerVersion s))"

definition evaluateExpectedBehaviorCandidate ::
  "zoneDatabase \<Rightarrow> expectedBehaviorInput \<Rightarrow> expectedBehaviorHead \<Rightarrow> expectedBehaviorCandidate" where
  "evaluateExpectedBehaviorCandidate tz inp head =
     (let c = \<lparr>eca_EnvelopeID = ebh_EnvelopeID head, eca_Version = ebh_Version head,
            eca_Status = ExpectedBehaviorNotCandidate, eca_Reason = ExpectedBehaviorReasonOther [],
            eca_Occurrence = None, eca_EvidenceRefs = [], eca_EvidenceExpiresAt = None\<rparr> in
      if ebh_State head = ExpectedBehaviorStateRevoked
      then setStatus c ExpectedBehaviorNotCandidate ExpectedBehaviorReasonRevoked
      else if ebh_InvalidatedAt head \<noteq> None
      then setStatus c ExpectedBehaviorNotCandidate ExpectedBehaviorReasonInvalidated
      else case ebh_Policy head of
        None \<Rightarrow> setStatus c ExpectedBehaviorNotCandidate ExpectedBehaviorReasonInvalidated
      | Some policy \<Rightarrow>
        (let s = ebp_Scope policy; cond = ebp_Conditions policy; (have', want) = scopeVersions inp s in
         if ebs_GroupKey s \<noteq> xin_GroupKey inp \<or> ebs_Source s \<noteq> xin_Source inp \<or>
            ebs_SourceInstanceID s \<noteq> xin_SourceInstanceID inp \<or> \<not> expectedBehaviorScopeMatches s inp
         then setStatus c ExpectedBehaviorNotCandidate ExpectedBehaviorReasonScopeMismatch
         else if xin_HasCriticalFiring inp \<or> xin_IndependentlyUrgent inp
         then setStatus c ExpectedBehaviorViolated ExpectedBehaviorReasonUrgent
         else if have' = []
         then setStatus c ExpectedBehaviorAuthorityUnavailable ExpectedBehaviorReasonDefinitionUnavailable
         else if want \<noteq> have'
         then setStatus c ExpectedBehaviorViolated ExpectedBehaviorReasonPrimaryDefinitionChanged
         else case checkPrimary inp s c of Inl r \<Rightarrow> r
         | Inr (c1, boundary) \<Rightarrow>
           (case ResolveExpectedBehaviorOccurrence tz (ebc_Schedule cond) (ebc_MaxDurationMinutes cond) (xin_PrimaryStartedAt inp) of
              Inl _ \<Rightarrow> setStatus c1 ExpectedBehaviorViolated ExpectedBehaviorReasonStartOutsideTolerance
            | Inr occ \<Rightarrow>
              (let c2 = c1\<lparr>eca_Occurrence := Some occ\<rparr> in
               if \<not> tBefore (xin_Now inp) (ebo_Boundary occ)
               then setStatus c2 ExpectedBehaviorViolated
                 (if tEqual (ebo_Boundary occ) (ebo_End occ) then ExpectedBehaviorReasonOutsideSchedule
                  else ExpectedBehaviorReasonDurationExceeded)
               else checkSignals inp cond (c2, boundary)))))"

section \<open>The evaluation\<close>

definition expectedBehaviorBasisHash :: "expectedBehaviorEvaluation \<Rightarrow> string" where
  "expectedBehaviorBasisHash e =
     ''sha256:'' @ sha256hex (marshal (JObject (concat
       [jOmitString ''situation_id'' (eev_SituationID e),
        jOmitInt ''situation_input_version'' (eev_SituationVersion e),
        jField ''disposition'' (JString (expectedBehaviorDispositionText (eev_Disposition e))),
        jOmitString ''reason'' (expectedBehaviorReasonText (eev_Reason e)),
        jOmitString ''chosen_envelope_id'' (eev_ChosenEnvelopeID e),
        jOmitInt ''chosen_version'' (eev_ChosenVersion e),
        jOmitPtr ''occurrence'' jExpectedBehaviorOccurrence (eev_Occurrence e),
        jOmitPtr ''evidence_expires_at'' jTime (eev_EvidenceExpiresAt e),
        jField ''candidates'' (JArray (map jExpectedBehaviorCandidate (eev_Candidates e))),
        jField ''evaluated_at'' (jTime zeroTime)])))"

definition stampHash :: "expectedBehaviorEvaluation \<Rightarrow> expectedBehaviorEvaluation" where
  "stampHash e = e\<lparr>eev_BasisHash := expectedBehaviorBasisHash e\<rparr>"

definition headUpdatedAt :: "expectedBehaviorHead list \<Rightarrow> string \<Rightarrow> gtime" where
  "headUpdatedAt heads envelope =
     (case find (\<lambda>h. ebh_EnvelopeID h = envelope) heads of None \<Rightarrow> zeroTime | Some h \<Rightarrow> ebh_UpdatedAt h)"

text \<open>The inner loop takes the first head of the envelope that is later than the best so far.\<close>

fun latestCandidate ::
  "expectedBehaviorHead list \<Rightarrow> expectedBehaviorCandidate \<Rightarrow> gtime \<Rightarrow> expectedBehaviorCandidate list \<Rightarrow> expectedBehaviorCandidate" where
  "latestCandidate heads selected updated [] = selected"
| "latestCandidate heads selected updated (c # cs) =
     (case find (\<lambda>h. ebh_EnvelopeID h = eca_EnvelopeID c \<and> tAfter (ebh_UpdatedAt h) updated) heads of
        None \<Rightarrow> latestCandidate heads selected updated cs
      | Some h \<Rightarrow> latestCandidate heads c (ebh_UpdatedAt h) cs)"

definition latestNotApplicableCandidate ::
  "expectedBehaviorCandidate \<Rightarrow> expectedBehaviorCandidate list \<Rightarrow> expectedBehaviorHead list \<Rightarrow> expectedBehaviorCandidate" where
  "latestNotApplicableCandidate first' rest heads =
     latestCandidate heads first' (headUpdatedAt heads (eca_EnvelopeID first')) rest"

definition EvaluateExpectedBehaviors :: "zoneDatabase \<Rightarrow> expectedBehaviorInput \<Rightarrow> expectedBehaviorEvaluation" where
  "EvaluateExpectedBehaviors tz inp =
     (let heads = sort_key ebh_EnvelopeID (xin_Heads inp);
          cands = map (evaluateExpectedBehaviorCandidate tz inp) heads;
          having = (\<lambda>st. find (\<lambda>c. eca_Status c = st) cands);
          ev = \<lparr>eev_ID = [], eev_SituationID = xin_SituationID inp, eev_SituationVersion = xin_SituationVersion inp,
             eev_Disposition = ExpectedBehaviorDispositionNotApplicable, eev_Reason = ExpectedBehaviorReasonOther [],
             eev_ChosenEnvelopeID = [], eev_ChosenVersion = 0, eev_Occurrence = None, eev_EvidenceExpiresAt = None,
             eev_Candidates = cands, eev_BasisHash = [], eev_EvaluatedAt = tUTC (xin_Now inp)\<rparr> in
      stampHash
        (case having ExpectedBehaviorMatched of
           Some c \<Rightarrow> ev\<lparr>eev_Disposition := ExpectedBehaviorDispositionMatched, eev_Reason := eca_Reason c,
             eev_ChosenEnvelopeID := eca_EnvelopeID c, eev_ChosenVersion := eca_Version c,
             eev_Occurrence := eca_Occurrence c, eev_EvidenceExpiresAt := eca_EvidenceExpiresAt c\<rparr>
         | None \<Rightarrow>
           (case having ExpectedBehaviorAuthorityUnavailable of
              Some c \<Rightarrow> ev\<lparr>eev_Disposition := ExpectedBehaviorDispositionAuthorityUnavailable, eev_Reason := eca_Reason c\<rparr>
            | None \<Rightarrow>
              (case having ExpectedBehaviorViolated of
                 Some c \<Rightarrow> ev\<lparr>eev_Disposition := ExpectedBehaviorDispositionViolated, eev_Reason := eca_Reason c\<rparr>
               | None \<Rightarrow>
                 (case cands of [] \<Rightarrow> ev
                  | c # cs \<Rightarrow> ev\<lparr>eev_Reason := eca_Reason (latestNotApplicableCandidate c cs heads)\<rparr>)))))"

section \<open>Authority on a commit\<close>

definition behaviorContract :: "expectedBehaviorEvaluation \<Rightarrow> expectedBehaviorOccurrence \<Rightarrow> actionContract \<Rightarrow> actionContract" where
  "behaviorContract ev occ c =
     (let boundary = (case eev_EvidenceExpiresAt ev of
            Some t \<Rightarrow> if tBefore t (tUTC (ebo_Boundary occ)) then tUTC t else tUTC (ebo_Boundary occ)
          | None \<Rightarrow> tUTC (ebo_Boundary occ)) in
      c\<lparr>ac_OperatorActionRequired := None,
        ac_NextActor := (if ac_AlertINTAction c \<noteq> None then NextActorAlertINT else NextActorNone),
        ac_NextUpdateAt := (case ac_NextUpdateAt c of
           None \<Rightarrow> Some boundary
         | Some t \<Rightarrow> if tBefore boundary t then Some boundary else Some t)\<rparr>)"

definition ApplyExpectedBehaviorAuthority :: "controllerCommit \<Rightarrow> expectedBehaviorEvaluation option \<Rightarrow> controllerCommit" where
  "ApplyExpectedBehaviorAuthority commit evaluation =
     (case evaluation of None \<Rightarrow> commit
      | Some ev \<Rightarrow>
        (case eev_Occurrence ev of None \<Rightarrow> commit
         | Some occ \<Rightarrow>
            if eev_Disposition ev \<noteq> ExpectedBehaviorDispositionMatched \<or> Terminal (cc_Lifecycle commit) \<or>
               cc_Attention commit = AttentionUrgent \<or> as_Attention (cc_Assessment commit) = AttentionUrgent
            then commit
            else commit\<lparr>cc_Assessment := (cc_Assessment commit)\<lparr>as_ActionContract :=
                   behaviorContract ev occ (as_ActionContract (cc_Assessment commit))\<rparr>\<rparr>))"

definition urgentCandidate :: "expectedBehaviorCandidate \<Rightarrow> expectedBehaviorCandidate" where
  "urgentCandidate c =
     (if eca_Status c = ExpectedBehaviorNotCandidate then c
      else setStatus c ExpectedBehaviorViolated ExpectedBehaviorReasonUrgent)"

definition RefreshExpectedBehaviorEvaluationForCommit ::
  "expectedBehaviorEvaluation \<Rightarrow> bool \<Rightarrow> gtime \<Rightarrow> expectedBehaviorEvaluation" where
  "RefreshExpectedBehaviorEvaluationForCommit ev0 urgent now =
     (let ev = ev0\<lparr>eev_EvaluatedAt := tUTC now\<rparr>;
          matched = (eev_Disposition ev = ExpectedBehaviorDispositionMatched) in
      stampHash
       (if urgent
        then ev\<lparr>eev_Disposition := ExpectedBehaviorDispositionViolated, eev_Reason := ExpectedBehaviorReasonUrgent,
               eev_ChosenEnvelopeID := [], eev_ChosenVersion := 0, eev_Occurrence := None,
               eev_Candidates := map urgentCandidate (eev_Candidates ev)\<rparr>
        else if matched \<and> (case eev_EvidenceExpiresAt ev of None \<Rightarrow> False | Some t \<Rightarrow> \<not> tBefore now t)
        then ev\<lparr>eev_Disposition := ExpectedBehaviorDispositionAuthorityUnavailable,
               eev_Reason := ExpectedBehaviorReasonObservationUnavailable,
               eev_ChosenEnvelopeID := [], eev_ChosenVersion := 0\<rparr>
        else case eev_Occurrence ev of
          Some occ \<Rightarrow>
            if matched \<and> \<not> tBefore now (ebo_Boundary occ)
            then ev\<lparr>eev_Disposition := ExpectedBehaviorDispositionViolated,
                   eev_Reason := (if tEqual (ebo_Boundary occ) (ebo_End occ) then ExpectedBehaviorReasonOutsideSchedule
                     else ExpectedBehaviorReasonDurationExceeded),
                   eev_ChosenEnvelopeID := [], eev_ChosenVersion := 0\<rparr>
            else ev
        | None \<Rightarrow> ev))"

section \<open>What a match proves\<close>

lemma setStatus_simps [simp]:
  "eca_Status (setStatus c st r) = st" "eca_Reason (setStatus c st r) = r"
  "eca_Occurrence (setStatus c st r) = eca_Occurrence c"
  "eca_EvidenceExpiresAt (setStatus c st r) = eca_EvidenceExpiresAt c"
  "eca_EnvelopeID (setStatus c st r) = eca_EnvelopeID c" "eca_Version (setStatus c st r) = eca_Version c"
  by (simp_all add: setStatus_def)

text \<open>What the loop over bindings establishes of one binding.\<close>

definition bindingObserved ::
  "bool \<Rightarrow> expectedBehaviorInput \<Rightarrow> (string \<times> expectedBehaviorSignal) list \<Rightarrow> expectedBehaviorBinding \<Rightarrow> bool" where
  "bindingObserved optional inp observed b \<longleftrightarrow>
     (case map_of observed (expectedBehaviorBindingSignalKey b) of
        Some s \<Rightarrow>
          if usableObservation (xin_Now inp) s then expectedBehaviorSignalVersion s = expectedBehaviorBindingVersion b
          else optional \<and> \<not> expectedBehaviorSignalFiring (xin_FiringSignals inp) (expectedBehaviorBindingSignalKey b)
      | None \<Rightarrow> optional \<and> \<not> expectedBehaviorSignalFiring (xin_FiringSignals inp) (expectedBehaviorBindingSignalKey b))"

text \<open>The bound on the evidence is absent or lies ahead, and it and the occurrence survive the loop.\<close>

definition boundaryAhead :: "gtime \<Rightarrow> gtime \<Rightarrow> bool" where
  "boundaryAhead now b \<longleftrightarrow> tIsZero b \<or> tns now < tns b"

lemma checkObserved_Inr:
  assumes "checkObserved optional inp observed acc bs = Inr acc'"
  shows "list_all (bindingObserved optional inp observed) bs \<and> eca_Occurrence (fst acc') = eca_Occurrence (fst acc) \<and>
    (boundaryAhead (xin_Now inp) (snd acc) \<longrightarrow> boundaryAhead (xin_Now inp) (snd acc'))"
  using assms
proof (induction optional inp observed acc bs rule: checkObserved.induct)
  case (1 optional inp observed acc)
  then show ?case by simp
next
  case (2 optional inp observed acc b bs)
  show ?case
  proof (cases "map_of observed (expectedBehaviorBindingSignalKey b)")
    case None
    with 2 show ?thesis by (simp add: bindingObserved_def [of optional inp observed b] Let_def split: if_splits)
  next
    case (Some s)
    show ?thesis
    proof (cases "usableObservation (xin_Now inp) s")
      case False
      with 2 Some show ?thesis by (simp add: bindingObserved_def [of optional inp observed b] Let_def split: if_splits)
    next
      case True
      then have "boundaryAhead (xin_Now inp) (snd acc) \<longrightarrow> boundaryAhead (xin_Now inp) (snd (noteObservation acc s))"
        and "eca_Occurrence (fst (noteObservation acc s)) = eca_Occurrence (fst acc)"
        by (auto simp: boundaryAhead_def noteObservation_def usableObservation_def tAfter_def split: prod.splits)
      with 2 Some True show ?thesis by (simp add: bindingObserved_def [of optional inp observed b] Let_def split: if_splits)
    qed
  qed
qed

lemma checkObserved_Inl:
  "checkObserved optional inp observed acc bs = Inl c \<Longrightarrow> eca_Status c \<noteq> ExpectedBehaviorMatched"
proof (induction optional inp observed acc bs rule: checkObserved.induct)
  case (2 optional inp observed acc b bs)
  then show ?case by (simp add: Let_def split: option.splits if_splits) (use "2.IH" in fastforce)+
qed simp

definition conditionsHold :: "expectedBehaviorInput \<Rightarrow> expectedBehaviorConditions \<Rightarrow> bool" where
  "conditionsHold inp cond \<longleftrightarrow>
     (let observed = observedSignals (xin_Observations inp) in
      list_all (bindingObserved False inp observed) (ebc_RequiredCompanions cond @ ebc_ForbiddenSignals cond) \<and>
      list_all (bindingObserved True inp observed) (ebc_AllowedCompanions cond) \<and>
      list_all (\<lambda>b. presenceOf observed b = ''present'') (ebc_RequiredCompanions cond) \<and>
      list_all (\<lambda>b. presenceOf observed b \<noteq> ''present'') (ebc_ForbiddenSignals cond) \<and>
      list_all (\<lambda>s. primarySignal inp s \<or>
          expectedBehaviorSignalIdentity s \<in> expectedBehaviorBindingSignalKey ` set (policyBindings cond))
        (xin_FiringSignals inp))"

lemma checkSignals_matched:
  assumes "eca_Status (checkSignals inp cond acc) = ExpectedBehaviorMatched"
  shows "conditionsHold inp cond \<and> eca_Occurrence (checkSignals inp cond acc) = eca_Occurrence (fst acc) \<and>
    (boundaryAhead (xin_Now inp) (snd acc) \<longrightarrow>
       (\<forall>t. eca_EvidenceExpiresAt (checkSignals inp cond acc) = Some t \<longrightarrow> tns (xin_Now inp) < tns t \<or> eca_EvidenceExpiresAt (fst acc) = Some t))"
proof -
  let ?o = "observedSignals (xin_Observations inp)"
  let ?first = "checkObserved False inp ?o acc (ebc_RequiredCompanions cond @ ebc_ForbiddenSignals cond)"
  obtain acc1 where acc1: "?first = Inr acc1"
    using assms checkObserved_Inl by (cases ?first) (auto simp: checkSignals_def Let_def)
  let ?second = "checkObserved True inp ?o acc1 (ebc_AllowedCompanions cond)"
  obtain c b where acc2: "?second = Inr (c, b)"
    using assms acc1 checkObserved_Inl by (cases ?second) (auto simp: checkSignals_def Let_def)
  note obs = checkObserved_Inr [OF acc1] checkObserved_Inr [OF acc2]
  show ?thesis using assms obs
    by (auto simp: checkSignals_def conditionsHold_def acc1 acc2 Let_def list_all_iff list_ex_iff boundaryAhead_def
        split: if_splits)
qed

text \<open>Everything a matched schedule rests on.\<close>

definition scheduleHolds ::
  "zoneDatabase \<Rightarrow> expectedBehaviorInput \<Rightarrow> expectedBehaviorHead \<Rightarrow> expectedBehaviorOccurrence \<Rightarrow> bool" where
  "scheduleHolds tz inp h occ \<longleftrightarrow>
     ebh_State h \<noteq> ExpectedBehaviorStateRevoked \<and> ebh_InvalidatedAt h = None \<and>
     \<not> xin_HasCriticalFiring inp \<and> \<not> xin_IndependentlyUrgent inp \<and>
     (case ebh_Policy h of None \<Rightarrow> False
      | Some policy \<Rightarrow>
         ebs_GroupKey (ebp_Scope policy) = xin_GroupKey inp \<and> ebs_Source (ebp_Scope policy) = xin_Source inp \<and>
         ebs_SourceInstanceID (ebp_Scope policy) = xin_SourceInstanceID inp \<and>
         expectedBehaviorScopeMatches (ebp_Scope policy) inp \<and>
         fst (scopeVersions inp (ebp_Scope policy)) \<noteq> [] \<and>
         fst (scopeVersions inp (ebp_Scope policy)) = snd (scopeVersions inp (ebp_Scope policy)) \<and>
         ResolveExpectedBehaviorOccurrence tz (ebc_Schedule (ebp_Conditions policy))
           (ebc_MaxDurationMinutes (ebp_Conditions policy)) (xin_PrimaryStartedAt inp) = Inr occ \<and>
         tns (xin_Now inp) < tns (ebo_Boundary occ) \<and> conditionsHold inp (ebp_Conditions policy))"

lemma checkPrimary_Inl: "checkPrimary inp s c = Inl r \<Longrightarrow> eca_Status r \<noteq> ExpectedBehaviorMatched"
  by (auto simp: checkPrimary_def split: if_splits option.splits)

lemma checkPrimary_Inr:
  "checkPrimary inp s c = Inr (c1, b) \<Longrightarrow> boundaryAhead (xin_Now inp) b \<and> eca_EvidenceExpiresAt c1 = eca_EvidenceExpiresAt c"
  by (auto simp: checkPrimary_def boundaryAhead_def tAfter_def tIsZero_def split: if_splits option.splits)

lemma evaluateExpectedBehaviorCandidate_matched:
  assumes m: "eca_Status (evaluateExpectedBehaviorCandidate tz inp h) = ExpectedBehaviorMatched"
  shows "\<exists>occ. eca_Occurrence (evaluateExpectedBehaviorCandidate tz inp h) = Some occ \<and> scheduleHolds tz inp h occ \<and>
    (\<forall>t. eca_EvidenceExpiresAt (evaluateExpectedBehaviorCandidate tz inp h) = Some t \<longrightarrow> tns (xin_Now inp) < tns t)"
proof -
  let ?c = "\<lparr>eca_EnvelopeID = ebh_EnvelopeID h, eca_Version = ebh_Version h,
            eca_Status = ExpectedBehaviorNotCandidate, eca_Reason = ExpectedBehaviorReasonOther [],
            eca_Occurrence = None, eca_EvidenceRefs = [], eca_EvidenceExpiresAt = None\<rparr>"
  obtain policy where p: "ebh_Policy h = Some policy"
    using m by (cases "ebh_Policy h") (auto simp: evaluateExpectedBehaviorCandidate_def Let_def split: if_splits)
  let ?s = "ebp_Scope policy" and ?cond = "ebp_Conditions policy"
  obtain c1 b where c1: "checkPrimary inp ?s ?c = Inr (c1, b)"
    using m p checkPrimary_Inl [of inp ?s ?c]
    by (cases "checkPrimary inp ?s ?c")
       (auto simp: evaluateExpectedBehaviorCandidate_def Let_def split: if_splits prod.splits)
  let ?r = "ResolveExpectedBehaviorOccurrence tz (ebc_Schedule ?cond) (ebc_MaxDurationMinutes ?cond) (xin_PrimaryStartedAt inp)"
  obtain occ where occ: "?r = Inr occ"
    using m p c1 by (cases ?r) (auto simp: evaluateExpectedBehaviorCandidate_def Let_def split: if_splits prod.splits)
  let ?acc = "(c1\<lparr>eca_Occurrence := Some occ\<rparr>, b)"
  from m p c1 occ have eq: "evaluateExpectedBehaviorCandidate tz inp h = checkSignals inp ?cond ?acc"
    by (auto simp: evaluateExpectedBehaviorCandidate_def Let_def split: if_splits prod.splits)
  from m p c1 occ have gates: "ebh_State h \<noteq> ExpectedBehaviorStateRevoked" "ebh_InvalidatedAt h = None"
      "\<not> xin_HasCriticalFiring inp" "\<not> xin_IndependentlyUrgent inp" "ebs_GroupKey ?s = xin_GroupKey inp"
      "ebs_Source ?s = xin_Source inp" "ebs_SourceInstanceID ?s = xin_SourceInstanceID inp"
      "expectedBehaviorScopeMatches ?s inp" "fst (scopeVersions inp ?s) \<noteq> []"
      "fst (scopeVersions inp ?s) = snd (scopeVersions inp ?s)" "tBefore (xin_Now inp) (ebo_Boundary occ)"
    by (auto simp: evaluateExpectedBehaviorCandidate_def Let_def split: if_splits prod.splits)
  from checkSignals_matched [of inp ?cond ?acc] m eq checkPrimary_Inr [OF c1] gates
  show ?thesis unfolding eq by (auto simp: scheduleHolds_def p occ tBefore_def)
qed

section \<open>The verdict over all schedules\<close>

lemma stampHash_simps [simp]:
  "eev_Disposition (stampHash e) = eev_Disposition e" "eev_Occurrence (stampHash e) = eev_Occurrence e"
  "eev_EvidenceExpiresAt (stampHash e) = eev_EvidenceExpiresAt e" "eev_Candidates (stampHash e) = eev_Candidates e"
  "eev_ChosenEnvelopeID (stampHash e) = eev_ChosenEnvelopeID e" "eev_ChosenVersion (stampHash e) = eev_ChosenVersion e"
  by (simp_all add: stampHash_def)

definition candidatesOf :: "zoneDatabase \<Rightarrow> expectedBehaviorInput \<Rightarrow> expectedBehaviorCandidate list" where
  "candidatesOf tz inp = map (evaluateExpectedBehaviorCandidate tz inp) (sort_key ebh_EnvelopeID (xin_Heads inp))"

lemma candidatesOf_find:
  "find (\<lambda>c. eca_Status c = s) (candidatesOf tz inp) = None \<longleftrightarrow>
     (\<forall>h \<in> set (xin_Heads inp). eca_Status (evaluateExpectedBehaviorCandidate tz inp h) \<noteq> s)"
  by (auto simp: candidatesOf_def find_None_iff)

lemma EvaluateExpectedBehaviors_disposition:
  "eev_Disposition (EvaluateExpectedBehaviors tz inp) =
     (let st = (\<lambda>s. \<exists>h \<in> set (xin_Heads inp). eca_Status (evaluateExpectedBehaviorCandidate tz inp h) = s) in
      if st ExpectedBehaviorMatched then ExpectedBehaviorDispositionMatched
      else if st ExpectedBehaviorAuthorityUnavailable then ExpectedBehaviorDispositionAuthorityUnavailable
      else if st ExpectedBehaviorViolated then ExpectedBehaviorDispositionViolated
      else ExpectedBehaviorDispositionNotApplicable)"
proof -
  have st: "(\<exists>h \<in> set (xin_Heads inp). eca_Status (evaluateExpectedBehaviorCandidate tz inp h) = s) \<longleftrightarrow>
      find (\<lambda>c. eca_Status c = s) (candidatesOf tz inp) \<noteq> None" for s
    using candidatesOf_find [of s tz inp] by auto
  show ?thesis unfolding st EvaluateExpectedBehaviors_def Let_def candidatesOf_def [symmetric]
    by (simp split: option.split list.split)
qed

lemma EvaluateExpectedBehaviors_matched:
  assumes "eev_Disposition (EvaluateExpectedBehaviors tz inp) = ExpectedBehaviorDispositionMatched"
  shows "\<exists>h occ. h \<in> set (xin_Heads inp) \<and> eev_Occurrence (EvaluateExpectedBehaviors tz inp) = Some occ \<and>
    scheduleHolds tz inp h occ \<and>
    (\<forall>t. eev_EvidenceExpiresAt (EvaluateExpectedBehaviors tz inp) = Some t \<longrightarrow> tns (xin_Now inp) < tns t)"
proof -
  from assms obtain c where c: "find (\<lambda>c. eca_Status c = ExpectedBehaviorMatched) (candidatesOf tz inp) = Some c"
    unfolding EvaluateExpectedBehaviors_def Let_def candidatesOf_def [symmetric]
    by (auto split: option.splits list.splits)
  then have "eev_Occurrence (EvaluateExpectedBehaviors tz inp) = eca_Occurrence c"
    "eev_EvidenceExpiresAt (EvaluateExpectedBehaviors tz inp) = eca_EvidenceExpiresAt c"
    unfolding EvaluateExpectedBehaviors_def Let_def candidatesOf_def [symmetric] by simp_all
  moreover from c have "c \<in> set (candidatesOf tz inp)" "eca_Status c = ExpectedBehaviorMatched"
    by (auto simp: find_Some_iff)
  then obtain h where "h \<in> set (xin_Heads inp)" "c = evaluateExpectedBehaviorCandidate tz inp h"
    by (auto simp: candidatesOf_def)
  ultimately show ?thesis
    using evaluateExpectedBehaviorCandidate_matched [of tz inp h] \<open>eca_Status c = ExpectedBehaviorMatched\<close> by auto
qed

section \<open>The overlay\<close>

lemma behaviorContract_valid:
  assumes "ActionContract_validate False c = None"
  shows "ActionContract_validate False (behaviorContract ev occ c) = None"
  using assms unfolding ActionContract_validate_iff
  by (cases "ac_NextUpdateAt c"; cases "eev_EvidenceExpiresAt ev")
     (simp_all add: behaviorContract_def contractCodesClosed_def contractActor_def Let_def)

lemma behaviorContract_deadline:
  assumes "tns now < tns (ebo_Boundary occ)" and "\<forall>t. eev_EvidenceExpiresAt ev = Some t \<longrightarrow> tns now < tns t"
    and "requireFreshNextUpdateAt c now = None"
  shows "\<exists>t. ac_NextUpdateAt (behaviorContract ev occ c) = Some t \<and> tns now < tns t \<and> tns t \<le> tns (ebo_Boundary occ) \<and>
    (\<forall>x. eev_EvidenceExpiresAt ev = Some x \<longrightarrow> tns t \<le> tns x)"
  using assms
  by (cases "ac_NextUpdateAt c"; cases "eev_EvidenceExpiresAt ev")
     (auto simp: behaviorContract_def requireFreshNextUpdateAt_def errWhen_def tBefore_def tAfter_def Let_def
       split: if_splits)

lemma behaviorContract_frame:
  "ac_AlertINTAction (behaviorContract ev occ c) = ac_AlertINTAction c"
  "ac_AlertINTStatus (behaviorContract ev occ c) = ac_AlertINTStatus c"
  "ac_OperatorActionRequired (behaviorContract ev occ c) = None"
  by (simp_all add: behaviorContract_def Let_def)

lemma RefreshExpectedBehavior_matched:
  assumes "eev_Disposition (RefreshExpectedBehaviorEvaluationForCommit ev urgent now) = ExpectedBehaviorDispositionMatched"
  shows "\<not> urgent \<and> eev_Disposition ev = ExpectedBehaviorDispositionMatched \<and>
    eev_Occurrence (RefreshExpectedBehaviorEvaluationForCommit ev urgent now) = eev_Occurrence ev \<and>
    eev_EvidenceExpiresAt (RefreshExpectedBehaviorEvaluationForCommit ev urgent now) = eev_EvidenceExpiresAt ev \<and>
    (\<forall>occ. eev_Occurrence ev = Some occ \<longrightarrow> tns now < tns (ebo_Boundary occ)) \<and>
    (\<forall>t. eev_EvidenceExpiresAt ev = Some t \<longrightarrow> tns now < tns t)"
  using assms
  by (auto simp: RefreshExpectedBehaviorEvaluationForCommit_def Let_def tBefore_def split: if_splits option.splits)

end
