(* ===== verification/Briefing.thy ===== *)
theory Briefing
  imports Work_Projection Expected_Behavior
begin

text \<open>
  \<^verbatim>\<open>internal/situation/briefing.go\<close>: the operator briefing of a cycle and the comparison of two
  briefings, which yields the material candidates every reply is planned from.
\<close>

section \<open>Labels and lists\<close>

definition briefingLabel :: "string \<Rightarrow> nat \<Rightarrow> string" where
  "briefingLabel s0 limit =
     (let s = normalizeEvidenceText s0 in
      if length s > limit then boundedText s (limit - 3) @ ellipsis else s)"

definition dotSep :: string where
  "dotSep = [CHR '' '', char_of (0xC2 :: nat), char_of (0xB7 :: nat), CHR '' '']"

definition nonEmpty :: "string list \<Rightarrow> string list" where
  "nonEmpty ss = filter (\<lambda>s. s \<noteq> []) ss"

text \<open>\<^verbatim>\<open>briefingValues\<close> of the set of the given values.\<close>

definition briefingValues :: "string list \<Rightarrow> nat \<Rightarrow> string list" where
  "briefingValues values limit =
     (let out = sortStrings (remdups values) in
      if length out > limit then take limit out @ [ellipsis] else out)"

definition briefingDisplayScope :: "labels \<Rightarrow> string" where
  "briefingDisplayScope ls =
     (let primary = (if labelAt ls ''service'' \<noteq> [] then labelAt ls ''service''
            else if labelAt ls ''namespace'' \<noteq> [] then labelAt ls ''namespace'' else labelAt ls ''cluster'')
      in joinStrings (nonEmpty (map (\<lambda>s. briefingLabel s 80) [primary, labelAt ls ''environment''])) dotSep)"

section \<open>Alerts\<close>

record briefingAlertState =
  bas_firing :: bool
  bas_latest :: delivery

definition mergeAlertState ::
  "(string \<times> briefingAlertState) list \<Rightarrow> string \<times> delivery \<Rightarrow> (string \<times> briefingAlertState) list" where
  "mergeAlertState m kd =
     (case kd of (key, latest) \<Rightarrow>
        let fires = (de_Status latest = DeliveryStatusFiring) in
        AList.update key
          (case map_of m key of
             None \<Rightarrow> \<lparr>bas_firing = fires, bas_latest = latest\<rparr>
           | Some s \<Rightarrow> \<lparr>bas_firing = bas_firing s \<or> fires,
               bas_latest = (if deliveryLess (bas_latest s) latest then latest else bas_latest s)\<rparr>) m)"

definition briefingAlertStates :: "delivery list \<Rightarrow> (string \<times> briefingAlertState) list" where
  "briefingAlertStates ds =
     foldl mergeAlertState []
       (concat (map (\<lambda>i. latestDeliveryPerAlert (filter (\<lambda>d. de_IncidentID d = i) ds)) (incidentKeys ds)))"

record briefingAlertCandidate =
  bac_alert :: briefingAlert
  bac_context :: string

definition alertName :: "labels \<Rightarrow> string" where
  "alertName ls = (let name = briefingLabel (labelAt ls ''alertname'') 160 in if name = [] then ''Unnamed alert'' else name)"

text \<open>An over-long identity is replaced by its digest, never cut.\<close>

definition boundedIdentity :: "string \<Rightarrow> string" where
  "boundedIdentity i = (if length i > 200 then canonicalDigest (JString i) else i)"

definition newBriefingAlert :: "string \<Rightarrow> string \<Rightarrow> labels \<Rightarrow> briefingAlertCandidate" where
  "newBriefingAlert i state ls =
     (let host = (if labelAt ls ''host'' \<noteq> [] then labelAt ls ''host'' else labelAt ls ''instance'');
          context' = joinStrings (nonEmpty (map (\<lambda>s. briefingLabel s 80) [host, labelAt ls ''service'', labelAt ls ''namespace''])) dotSep
      in \<lparr>bac_alert = \<lparr>ba_ID = boundedIdentity i, ba_Name = alertName ls,
             ba_Service = briefingLabel (labelAt ls ''service'') 80, ba_Context = briefingLabel context' 240,
             ba_State = state, ba_SourceSummary = []\<rparr>,
          bac_context = context'\<rparr>)"

definition selectBriefingAlerts :: "briefingAlertCandidate list \<Rightarrow> briefingAlert list" where
  "selectBriefingAlerts cs =
     map (\<lambda>c. let a = bac_alert c; n = ba_Name a in
           a\<lparr>ba_Name := briefingLabel
               (if length (filter (\<lambda>d. ba_Name (bac_alert d) = n) cs) > 1 \<and> bac_context c \<noteq> []
                then n @ '' ('' @ bac_context c @ '')'' else n) 240\<rparr>)
       (sort_key (\<lambda>c. ba_ID (bac_alert c)) cs)"

definition alertCandidate :: "string \<times> briefingAlertState \<Rightarrow> briefingAlertCandidate" where
  "alertCandidate ks =
     (case ks of (i, s) \<Rightarrow>
        let c = newBriefingAlert i (if bas_firing s then ''firing'' else ''resolved'') (de_Labels (bas_latest s))
        in c\<lparr>bac_alert := (bac_alert c)\<lparr>ba_SourceSummary := briefingLabel (de_SourceSummary (bas_latest s)) 500\<rparr>\<rparr>)"

text \<open>The scope line and the symptom of one Alert.\<close>

definition alertScope :: "labels \<Rightarrow> string list" where
  "alertScope ls =
     (let parts = map (\<lambda>s. boundedText s 80)
        (nonEmpty (map (\<lambda>k. trimSpace (labelAt ls k)) [''service'', ''namespace'', ''environment'', ''cluster'']))
      in onlyIf (parts \<noteq> []) (joinStrings parts dotSep))"

definition alertSymptom :: "labels \<Rightarrow> string list" where
  "alertSymptom ls =
     (let v = trimSpace (labelAt ls ''alertname'') in onlyIf (v \<noteq> []) (boundedText v 120))"

definition criticalAlert :: "briefingAlertState \<Rightarrow> bool" where
  "criticalAlert s \<longleftrightarrow> bas_firing s \<and> map lowerChar (de_Severity (bas_latest s)) = ''critical''"

section \<open>The flow\<close>

fun splitAt :: "char \<Rightarrow> string \<Rightarrow> string list" where
  "splitAt c [] = [[]]"
| "splitAt c (x # xs) =
     (if x = c then [] # splitAt c xs
      else case splitAt c xs of [] \<Rightarrow> [[x]] | p # ps \<Rightarrow> (x # p) # ps)"

text \<open>The key of \<^verbatim>\<open>strings.Cut(s, "=")\<close>, if the separator is there.\<close>

definition cutKey :: "string \<Rightarrow> string option" where
  "cutKey s = (if CHR ''='' \<in> set s then Some (takeWhile (\<lambda>c. c \<noteq> CHR ''='') s) else None)"

definition groupingRuleDescription :: "string \<Rightarrow> string" where
  "groupingRuleDescription groupKey =
     (let keys = nonEmpty (map trimSpace (List.map_filter (\<lambda>p. cutKey (trimSpace p)) (splitAt (CHR '','') groupKey)))
      in if keys = [] then ''Configured receiver grouping''
         else ''Same configured '' @ joinStrings (sortStrings keys) '' and '')"

definition correlationClosesAt :: "incidentState list \<Rightarrow> gtime option" where
  "correlationClosesAt incs =
     foldl keepEarlier None (map (\<lambda>inc. Some (tUTC (inc_ReadyAt inc))) (filter (\<lambda>inc. \<not> tIsZero (inc_ReadyAt inc)) incs))"

definition buildOperatorFlow :: "snapshotInput \<Rightarrow> operatorFlow" where
  "buildOperatorFlow inp =
     (let pf = sn_PresentationFacts inp; s = sn_Situation inp in
      \<lparr>of_FirstReceivedAt = tUTC (si_FirstReceivedAt s), of_CorrelationOpenedAt = tUTC (si_FirstReceivedAt s),
       of_CorrelationClosesAt = correlationClosesAt (sn_Incidents inp),
       of_GroupKey = briefingLabel (si_GroupKey s) 500, of_GroupingRule = groupingRuleDescription (si_GroupKey s),
       of_InvestigationStartedAt = map_option tUTC (prf_InvestigationStartedAt pf),
       of_InvestigationCompletedAt = map_option tUTC (prf_InvestigationCompletedAt pf),
       of_InvestigationRuntimeSeconds = prf_InvestigationRuntimeSeconds pf,
       of_AnalysisUsage = prf_AnalysisUsage pf, of_SourceChecks = prf_SourceChecks pf\<rparr>)"

definition mergePresentationSourceChecks :: "sourceCheck list \<Rightarrow> sourceCheck list \<Rightarrow> sourceCheck list" where
  "mergePresentationSourceChecks configured recorded =
     (let ident = (\<lambda>c. sc_Source c @ nul @ sc_Check c); known = map ident recorded in
      sort_key (\<lambda>c. (sc_Source c, sc_Check c)) (filter (\<lambda>c. ident c \<notin> set known) configured @ recorded))"

section \<open>The briefing\<close>

text \<open>The order of analyses: fresh before stale, later before earlier, dated before undated, then by Incident.\<close>

definition analysisKey :: "incidentAnalysis \<Rightarrow> bool \<times> bool \<times> int \<times> string" where
  "analysisKey a = (ia_Stale a, ia_AnalyzedAt a = None,
     case ia_AnalyzedAt a of None \<Rightarrow> 0 | Some t \<Rightarrow> - tns t, ia_IncidentID a)"

definition briefingWorkCount :: "incidentState \<Rightarrow> int \<times> int \<times> int" where
  "briefingWorkCount inc =
     (if tst_Phase (inc_Triage inc) = ''exhausted'' then (1, 0, 0)
      else if tst_Phase (inc_Triage inc) = ''skipped'' \<and> inc_Status inc \<noteq> ''analyzed'' \<and> inc_Status inc \<noteq> ''resolved''
      then (0, 0, 1)
      else if inc_Status inc = ''failed'' then (1, 0, 0)
      else if inc_Status inc \<in> {''collecting'', ''ready'', ''processing''} then (0, 1, 0)
      else (0, 0, 0))"

definition briefingWorkCounts :: "incidentState list \<Rightarrow> int \<times> int \<times> int" where
  "briefingWorkCounts incs =
     (let cs = map briefingWorkCount incs in
      (sum_list (map fst cs), sum_list (map (fst \<circ> snd) cs), sum_list (map (snd \<circ> snd) cs)))"

definition zeroWork :: workProjection where
  "zeroWork = \<lparr>wp_Phase = WorkPhaseOther [], wp_ExecutionStarted = False, wp_InvestigatedAlertIDs = [],
     wp_InvestigatedNames = [], wp_InvestigatedCount = 0, wp_InvestigatedCountKnown = False, wp_EndedWork = [],
     wp_EndedWorkKnown = False, wp_RemainingIncidents = 0, wp_SkipReason = [], wp_QueuedEligibleAt = None,
     wp_QueuedEligibilityKnown = False, wp_RetryEligibleAt = None, wp_SourceGraceUntil = None,
     wp_StatusCheckpointAt = None\<rparr>"

definition BuildOperatorBriefing :: "snapshotInput \<Rightarrow> lifecycle \<Rightarrow> operatorBriefing" where
  "BuildOperatorBriefing inp lc =
     (let states = briefingAlertStates (sn_Deliveries inp);
          labelsOf = map (\<lambda>(i, s). de_Labels (bas_latest s)) states;
          scopes = briefingValues (concat (map alertScope labelsOf)) 3;
          scope0 = joinStrings scopes ''; '';
          scope1 = (if scope0 = [] then boundedText (si_GroupKey (sn_Situation inp)) 180 else scope0);
          scope' = (if scope1 = [] then ''Affected scope unavailable'' else scope1);
          display = briefingLabel (joinStrings (briefingValues (nonEmpty (map briefingDisplayScope labelsOf)) 3) ''; '') 180;
          firing = length (filter (\<lambda>(i, s). bas_firing s) states);
          (failed, pending, unavailable) = briefingWorkCounts (sn_Incidents inp)
      in \<lparr>ob_Flow = Some (buildOperatorFlow inp), ob_BlockedReason = cps_Reason (sn_ControllerParked inp),
          ob_AssessmentRetryAt = si_RetryAt (sn_Situation inp), ob_Scope = scope',
          ob_DisplayScope = (if display = [] then briefingLabel scope' 180 else display),
          ob_Alerts = selectBriefingAlerts (map alertCandidate states), ob_AlertsOmitted = 0, ob_RetryAt = None,
          ob_Symptoms = briefingValues (concat (map alertSymptom labelsOf)) 3,
          ob_Firing = int firing, ob_Resolved = int (length states - firing), ob_Unknown = 0,
          ob_Total = int (length states),
          ob_Critical = int (length (filter (\<lambda>(i, s). criticalAlert s) states)),
          ob_AnalysisCount = max (int (length (sn_Analyses inp))) (sn_AnalysisCount inp),
          ob_Failed = failed, ob_Pending = pending, ob_Unavailable = unavailable,
          ob_Analyses = map BoundIncidentAnalysis (take 3 (sort_key analysisKey (sn_Analyses inp))),
          ob_Historical = (lc \<noteq> LifecycleActive), ob_ExpectedJudgment = None, ob_ExpectedBehavior = None,
          ob_Work = zeroWork\<rparr>)"

section \<open>The committed briefing\<close>

definition earliestNonNil :: "gtime option \<Rightarrow> gtime option \<Rightarrow> gtime option" where
  "earliestNonNil a b =
     (case a of None \<Rightarrow> b
      | Some x \<Rightarrow> (case b of None \<Rightarrow> a | Some y \<Rightarrow> if tBefore y x then b else a))"

definition investigatedIdentityLimit :: nat where "investigatedIdentityLimit = 64"

definition investigatedNameLimit :: nat where "investigatedNameLimit = 8"

definition currentExecution :: "triageState \<Rightarrow> triageExecution option" where
  "currentExecution t = (case tst_ActiveAttempt t of None \<Rightarrow> tst_LastExecution t | Some e \<Rightarrow> Some e)"

definition investigatedIdentity :: "delivery \<Rightarrow> string" where
  "investigatedIdentity d =
     boundedIdentity (if de_AlertID d = [] then ''delivery:'' @ de_ID d else de_AlertID d)"

text \<open>Whether an Incident ran, and whether what it ran against is not fully known.\<close>

definition incidentRan :: "incidentState \<Rightarrow> bool" where
  "incidentRan inc \<longleftrightarrow> currentExecution (inc_Triage inc) \<noteq> None \<or> 0 < tst_Attempts (inc_Triage inc)"

definition inputsIncomplete :: "(string \<times> delivery) list \<Rightarrow> incidentState \<Rightarrow> bool" where
  "inputsIncomplete byID inc \<longleftrightarrow>
     (case currentExecution (inc_Triage inc) of
        None \<Rightarrow> 0 < tst_Attempts (inc_Triage inc)
      | Some e \<Rightarrow> tex_MemberDeliveryIDs e = [] \<or> list_ex (\<lambda>i. map_of byID i = None) (tex_MemberDeliveryIDs e))"

definition inputsOf :: "(string \<times> delivery) list \<Rightarrow> incidentState \<Rightarrow> delivery list" where
  "inputsOf byID inc =
     (case currentExecution (inc_Triage inc) of None \<Rightarrow> []
      | Some e \<Rightarrow> List.map_filter (map_of byID) (tex_MemberDeliveryIDs e))"

text \<open>The first name recorded for an identity is kept.\<close>

definition investigatedAlertInputs ::
  "incidentState list \<Rightarrow> delivery list \<Rightarrow> string list \<times> string list \<times> int \<times> bool" where
  "investigatedAlertInputs incidents ds =
     (let byID = foldl (\<lambda>m d. AList.update (de_ID d) d m) [] ds;
          inputs = concat (map (inputsOf byID) incidents);
          nameOf = map (\<lambda>d. (investigatedIdentity d, alertName (de_Labels d))) inputs;
          order = sortStrings (remdups (map fst nameOf));
          known = list_ex incidentRan incidents \<and> \<not> list_ex (inputsIncomplete byID) incidents \<and> order \<noteq> []
      in (take investigatedIdentityLimit order,
          map (\<lambda>i. case map_of nameOf i of Some n \<Rightarrow> n | None \<Rightarrow> []) (take investigatedNameLimit order),
          int (length order), known))"

definition committedIncident :: "(string \<times> triageDecision) list \<Rightarrow> incidentState \<Rightarrow> incidentState" where
  "committedIncident byIncident inc =
     (let phase = effectiveTriagePhase inc byIncident; t = inc_Triage inc in
      if phase = tst_Phase t then inc
      else let t1 = t\<lparr>tst_Phase := phase\<rparr>;
               t2 = (case map_of byIncident (inc_ID inc) of None \<Rightarrow> t1
                 | Some d \<Rightarrow> t1\<lparr>tst_DecisionReason := Some (td_DecisionReason d),
                     tst_NextAt := (if phase = ''pending'' then Some (tUTC (td_DecidedAt d)) else tst_NextAt t1)\<rparr>)
           in inc\<lparr>inc_Triage := t2\<lparr>tst_SkipReason := TriageSkipReason t2\<rparr>\<rparr>)"

definition committedBriefingInput :: "snapshotInput \<Rightarrow> triageDecision list \<Rightarrow> snapshotInput" where
  "committedBriefingInput inp decisions =
     inp\<lparr>sn_Incidents := map (committedIncident (decisionsByIncident decisions)) (sn_Incidents inp)\<rparr>"

definition chosenCandidate ::
  "expectedBehaviorEvaluation \<Rightarrow> expectedBehaviorHead list \<Rightarrow> expectedBehaviorCandidate option" where
  "chosenCandidate ev heads =
     (case eev_Candidates ev of [] \<Rightarrow> None
      | c # cs \<Rightarrow>
          if eev_Disposition ev = ExpectedBehaviorDispositionNotApplicable
          then Some (latestNotApplicableCandidate c cs heads)
          else if eev_ChosenEnvelopeID ev \<noteq> []
          then (case find (\<lambda>x. eca_EnvelopeID x = eev_ChosenEnvelopeID ev) (c # cs) of Some x \<Rightarrow> Some x | None \<Rightarrow> Some c)
          else Some c)"

definition behaviorProjection ::
  "expectedBehaviorEvaluation \<Rightarrow> expectedBehaviorHead list \<Rightarrow> expectedBehaviorProjection option" where
  "behaviorProjection ev heads =
     map_option (\<lambda>c. let h = find (\<lambda>h. ebh_EnvelopeID h = eca_EnvelopeID c) heads in
       \<lparr>xp_EnvelopeID = eca_EnvelopeID c, xp_Version = eca_Version c,
        xp_AssertedOperator = (case h of None \<Rightarrow> [] | Some x \<Rightarrow> ebh_AssertedOperator x),
        xp_Workload = (case h of None \<Rightarrow> []
          | Some x \<Rightarrow> (case ebh_Policy x of None \<Rightarrow> [] | Some p \<Rightarrow> ebc_Workload (ebp_Conditions p))),
        xp_Disposition = eev_Disposition ev, xp_Reason = eev_Reason ev,
        xp_Boundary = map_option (\<lambda>oc. tUTC (ebo_Boundary oc)) (eev_Occurrence ev),
        xp_Source = (case h of None \<Rightarrow> [] | Some x \<Rightarrow> ebs_Source (ebh_Scope x))\<rparr>) (chosenCandidate ev heads)"

definition contractRetryDue :: "snapshotInput \<Rightarrow> controllerCommit \<Rightarrow> gtime option" where
  "contractRetryDue inp commit =
     (let c = as_ActionContract (cc_Assessment commit) in
      if Terminal (cc_Lifecycle commit) \<or> ac_AlertINTStatus c \<noteq> Some AlertINTStatusWaiting then None
      else if ac_AlertINTAction c = Some AlertINTActionRunAcuteTriage \<and> ac_WaitReason c = Some WaitReasonAcuteTriageBackoff
      then foldl keepEarlier None (map (\<lambda>inc. tst_NextAt (inc_Triage inc))
             (filter (\<lambda>inc. tst_Phase (inc_Triage inc) = ''backoff'') (sn_Incidents inp)))
      else if ac_AlertINTAction c = Some AlertINTActionRetrySituationAssessment \<and> ac_WaitReason c = Some WaitReasonAssessmentRetry
      then cc_RetryAt commit
      else None)"

definition committedWork :: "snapshotInput \<Rightarrow> controllerCommit \<Rightarrow> workProjection" where
  "committedWork inp commit =
     (let w = BuildWorkProjection (sn_Incidents inp) (cc_GraceUntil commit)
            (ac_NextUpdateAt (as_ActionContract (cc_Assessment commit)));
          (ids, names, count, known) = investigatedAlertInputs (sn_Incidents inp) (sn_Deliveries inp)
      in w\<lparr>wp_RetryEligibleAt := earliestNonNil (wp_RetryEligibleAt w) (cc_RetryAt commit),
           wp_InvestigatedAlertIDs := ids, wp_InvestigatedNames := names, wp_InvestigatedCount := count,
           wp_InvestigatedCountKnown := known\<rparr>)"

definition CommittedOperatorBriefing :: "snapshotInput \<Rightarrow> controllerCommit \<Rightarrow> operatorBriefing" where
  "CommittedOperatorBriefing inp0 commit =
     (let inp = committedBriefingInput inp0 (cc_TriageDecisions commit);
          b = BuildOperatorBriefing inp (cc_Lifecycle commit) in
      b\<lparr>ob_ExpectedJudgment :=
          (case sn_Judgment inp of
             Some j \<Rightarrow> if cc_JudgmentApplicable commit
               then Some \<lparr>jp_Revision = sj_Revision j, jp_AssertedOperator = sj_AssertedOperator j,
                      jp_ValidUntil = tUTC (sj_ValidUntil j)\<rparr> else None
           | None \<Rightarrow> None),
        ob_ExpectedBehavior :=
          (case cc_ExpectedBehaviorEvaluation commit of None \<Rightarrow> None
           | Some ev \<Rightarrow> behaviorProjection ev (sn_ExpectedBehaviorHeads inp)),
        ob_BlockedReason := (if pks_Touch (cc_Parked commit) then pks_Reason (cc_Parked commit) else ob_BlockedReason b),
        ob_AssessmentRetryAt := cc_RetryAt commit,
        ob_Work := committedWork inp commit,
        ob_RetryAt := map_option tUTC (contractRetryDue inp commit)\<rparr>)"

section \<open>Evidence compared\<close>

definition findAnalysis :: "operatorBriefing option \<Rightarrow> string \<Rightarrow> incidentAnalysis option" where
  "findAnalysis b incidentID =
     (case b of None \<Rightarrow> None | Some x \<Rightarrow> find (\<lambda>a. ia_IncidentID a = incidentID) (ob_Analyses x))"

definition analysisHypothesis :: "incidentAnalysis \<Rightarrow> string" where
  "analysisHypothesis a = (if ia_Summary a \<noteq> [] then ia_Summary a else ia_Title a)"

definition findingFactsOf :: "incidentAnalysis \<Rightarrow> findingFacts" where
  "findingFactsOf a =
     \<lparr>ff_IncidentID = ia_IncidentID a, ff_Hypothesis = analysisHypothesis a, ff_Observations = ia_Findings a,
      ff_Unknowns = verificationUnknowns (ia_VerificationLimit a) (ia_VerificationGaps a),
      ff_AnalyzedAt = ia_AnalyzedAt a, ff_EvidenceFingerprint = ia_EvidenceFingerprint a\<rparr>"

definition priorKnownFinding :: "operatorBriefing option \<Rightarrow> string \<Rightarrow> findingFacts option" where
  "priorKnownFinding a incidentID =
     (case a of None \<Rightarrow> None
      | Some x \<Rightarrow>
        (case find (\<lambda>w. wo_IncidentID w = incidentID \<and> wo_EvidenceKnown w \<and> wo_Finding w \<noteq> None) (wp_EndedWork (ob_Work x)) of
           Some w \<Rightarrow> wo_Finding w
         | None \<Rightarrow> map_option findingFactsOf (findAnalysis a incidentID)))"

text \<open>\<^verbatim>\<open>markedAsCut\<close>: the short text ends in an ellipsis and is otherwise a prefix of the long one.\<close>

definition markedAsCut :: "string \<Rightarrow> string \<Rightarrow> bool" where
  "markedAsCut short long \<longleftrightarrow>
     (let n = length short - length ellipsis; stem = take n short in
      length ellipsis \<le> length short \<and> drop n short = ellipsis \<and> stem \<noteq> [] \<and> hasPrefix long stem)"

definition sameDisplayedText :: "string \<Rightarrow> string \<Rightarrow> bool" where
  "sameDisplayedText x0 y0 =
     (let x = normalizeEvidenceText x0; y = normalizeEvidenceText y0 in
      x = y \<or> markedAsCut x y \<or> markedAsCut y x)"

definition displayBoundedLen :: "nat \<Rightarrow> bool" where
  "displayBoundedLen n \<longleftrightarrow> n = AnalysisFindingsBound \<or> n = CompletionObservationsBound"

definition sameDisplayedEvidence :: "string list \<Rightarrow> string list \<Rightarrow> bool" where
  "sameDisplayedEvidence old cur =
     (let (short, long) = (if length cur < length old then (cur, old) else (old, cur)) in
      if length short \<noteq> length long \<and> \<not> displayBoundedLen (length short) then False
      else list_all2 sameDisplayedText short (take (length short) long))"

definition findingStructurallyChanged :: "findingFacts option \<Rightarrow> findingFacts option \<Rightarrow> bool" where
  "findingStructurallyChanged old f =
     (case (old, f) of
        (Some x, Some y) \<Rightarrow>
          if ff_EvidenceFingerprint x \<noteq> [] \<and> ff_EvidenceFingerprint y \<noteq> []
          then ff_EvidenceFingerprint x \<noteq> ff_EvidenceFingerprint y
          else \<not> sameDisplayedEvidence (ff_Observations x) (ff_Observations y) \<or>
               \<not> sameDisplayedEvidence (ff_Unknowns x) (ff_Unknowns y)
      | _ \<Rightarrow> True)"

definition candidateFinding :: "findingFacts \<Rightarrow> findingFacts" where
  "candidateFinding f = f\<lparr>ff_EvidenceFingerprint := []\<rparr>"

text \<open>\<^verbatim>\<open>usefulAnalysisChanged\<close> for one analysis of the current briefing.\<close>

definition usefulAnalysis :: "operatorBriefing option \<Rightarrow> incidentAnalysis \<Rightarrow> bool" where
  "usefulAnalysis prior a \<longleftrightarrow>
     \<not> (ia_Summary a = [] \<and> ia_Title a = []) \<and>
     findingStructurallyChanged (priorKnownFinding prior (ia_IncidentID a)) (Some (findingFactsOf a))"

definition usefulAnalysisChanged :: "operatorBriefing option \<Rightarrow> operatorBriefing option \<Rightarrow> bool" where
  "usefulAnalysisChanged prior current =
     (case current of None \<Rightarrow> False | Some c \<Rightarrow> list_ex (usefulAnalysis prior) (ob_Analyses c))"

section \<open>Material candidates\<close>

definition noNext :: nextStepFacts where "noNext = \<lparr>ns_Kind = NextStepKindOther [], ns_At = None\<rparr>"

definition workNextStep :: "operatorBriefing \<Rightarrow> nextStepFacts" where
  "workNextStep b =
     (case wp_RetryEligibleAt (ob_Work b) of
        Some t \<Rightarrow> \<lparr>ns_Kind = NextStepRetryEligible, ns_At = Some t\<rparr>
      | None \<Rightarrow>
        (case wp_StatusCheckpointAt (ob_Work b) of
           Some t \<Rightarrow> \<lparr>ns_Kind = NextStepStatusCheck, ns_At = Some t\<rparr>
         | None \<Rightarrow> noNext))"

definition candidate :: "candidateKind \<Rightarrow> nextStepFacts \<Rightarrow> materialCandidate" where
  "candidate k next =
     \<lparr>mc_Kind = k, mc_Finding = None, mc_Members = None, mc_Limitation = None, mc_Action = None, mc_Next = next,
      mc_Outcome = None\<rparr>"

definition noMembers :: memberFacts where
  "noMembers = \<lparr>mf_Cleared = [], mf_NowFiring = [], mf_StillFiring = [], mf_FiringCount = 0, mf_Total = 0,
     mf_CountKnown = False, mf_PreviousScope = [], mf_Scope = [], mf_PreviousUrgency = [], mf_Urgency = []\<rparr>"

definition stillFiringNames :: "operatorBriefing \<Rightarrow> string list" where
  "stillFiringNames b = map ba_Name (filter (\<lambda>a. ba_State a = ''firing'') (ob_Alerts b))"

text \<open>The prior state of an Alert; a later entry of the same identity replaces an earlier one.\<close>

definition priorAlert :: "operatorBriefing \<Rightarrow> string \<Rightarrow> briefingAlert option" where
  "priorAlert prior i = map_of (foldl (\<lambda>m a. AList.update (ba_ID a) a m) [] (ob_Alerts prior)) i"

definition alertCompared :: "operatorBriefing \<Rightarrow> briefingAlert \<Rightarrow> bool" where
  "alertCompared prior a \<longleftrightarrow> ba_ID a \<noteq> [] \<and> \<not> (priorAlert prior (ba_ID a) = None \<and> 0 < ob_AlertsOmitted prior)"

definition alertCleared :: "operatorBriefing \<Rightarrow> briefingAlert \<Rightarrow> bool" where
  "alertCleared prior a \<longleftrightarrow> alertCompared prior a \<and> ba_State a = ''resolved'' \<and>
     (case priorAlert prior (ba_ID a) of None \<Rightarrow> False | Some p \<Rightarrow> ba_State p = ''firing'')"

definition alertNewlyFiring :: "operatorBriefing \<Rightarrow> briefingAlert \<Rightarrow> bool" where
  "alertNewlyFiring prior a \<longleftrightarrow> alertCompared prior a \<and> ba_State a = ''firing'' \<and>
     (case priorAlert prior (ba_ID a) of None \<Rightarrow> True | Some p \<Rightarrow> ba_State p \<noteq> ''firing'')"

definition alertMoved :: "operatorBriefing \<Rightarrow> briefingAlert \<Rightarrow> bool" where
  "alertMoved prior a \<longleftrightarrow> alertCompared prior a \<and>
     (case priorAlert prior (ba_ID a) of None \<Rightarrow> False | Some p \<Rightarrow> ba_State p \<noteq> ba_State a)"

definition briefingAlertDelta ::
  "operatorBriefing option \<Rightarrow> operatorBriefing option \<Rightarrow> bool \<times> string list \<times> string list" where
  "briefingAlertDelta prior current =
     (case (prior, current) of
        (Some p, Some c) \<Rightarrow>
          if ob_Alerts p = [] then (False, [], [])
          else (list_ex (\<lambda>a. alertMoved p a \<or> alertNewlyFiring p a) (ob_Alerts c),
                sortStrings (map ba_Name (filter (alertCleared p) (ob_Alerts c))),
                sortStrings (map ba_Name (filter (alertNewlyFiring p) (ob_Alerts c))))
      | _ \<Rightarrow> (False, [], []))"

definition membersChangedCandidate ::
  "operatorBriefing option \<Rightarrow> operatorBriefing \<Rightarrow> attention \<Rightarrow> attention \<Rightarrow> materialCandidate list" where
  "membersChangedCandidate a b priorAttention att =
     (let (changed, cleared, firing) = briefingAlertDelta a (Some b);
          scopeChanged = (case a of None \<Rightarrow> False | Some p \<Rightarrow> ob_Scope p \<noteq> ob_Scope b);
          urgencyIncreased = attentionRank att > attentionRank priorAttention
      in if \<not> changed \<and> \<not> scopeChanged \<and> \<not> urgencyIncreased then []
         else [(candidate CandidateMembersChanged (workNextStep b))\<lparr>mc_Members := Some (noMembers
           \<lparr>mf_Cleared := cleared, mf_NowFiring := firing, mf_StillFiring := stillFiringNames b,
            mf_FiringCount := ob_Firing b, mf_Total := ob_Total b,
            mf_PreviousScope := (if scopeChanged then (case a of None \<Rightarrow> [] | Some p \<Rightarrow> ob_Scope p) else []),
            mf_Scope := (if scopeChanged then ob_Scope b else []),
            mf_PreviousUrgency := (if urgencyIncreased then attentionText priorAttention else []),
            mf_Urgency := (if urgencyIncreased then attentionText att else [])\<rparr>)\<rparr>])"

definition findingCandidates :: "operatorBriefing option \<Rightarrow> operatorBriefing \<Rightarrow> materialCandidate list" where
  "findingCandidates a b =
     map (\<lambda>an. (candidate CandidateUsefulFinding (workNextStep b))\<lparr>mc_Finding := Some (candidateFinding (findingFactsOf an))\<rparr>)
       (filter (\<lambda>an. ia_Summary an \<noteq> [] \<and>
           findingStructurallyChanged (priorKnownFinding a (ia_IncidentID an)) (Some (findingFactsOf an))) (ob_Analyses b))"

definition endedWorkKey :: "incidentWorkOutcome \<Rightarrow> string" where
  "endedWorkKey w = wo_IncidentID w @ nul @ wo_AttemptID w @ nul @ workPhaseText (wo_Phase w) @ nul @ wo_ResultCode w @ nul @ wo_SkipReason w"

definition settledWorkCandidate ::
  "operatorBriefing option \<Rightarrow> operatorBriefing \<Rightarrow> incidentWorkOutcome \<Rightarrow> incidentWorkOutcome \<Rightarrow> materialCandidate list" where
  "settledWorkCandidate a b w outcome =
     (case wo_Finding w of None \<Rightarrow> []
      | Some f \<Rightarrow>
          if wo_ResultCode w \<noteq> ''success'' \<or> \<not> wo_EvidenceKnown w then []
          else if ff_Hypothesis f = []
          then [(candidate CandidateInconclusiveCompletion (workNextStep b))
                  \<lparr>mc_Finding := Some (candidateFinding f), mc_Outcome := Some outcome\<rparr>]
          else if findAnalysis (Some b) (wo_IncidentID w) \<noteq> None then []
          else if \<not> findingStructurallyChanged (priorKnownFinding a (wo_IncidentID w)) (Some f) then []
          else [(candidate CandidateUsefulFinding (workNextStep b))
                  \<lparr>mc_Finding := Some (candidateFinding f), mc_Outcome := Some outcome\<rparr>])"

definition endedWorkCandidate ::
  "operatorBriefing option \<Rightarrow> operatorBriefing \<Rightarrow> incidentWorkOutcome \<Rightarrow> incidentWorkOutcome \<Rightarrow> materialCandidate list" where
  "endedWorkCandidate a b w outcome =
     (if wo_Phase w = WorkPhaseSettled then settledWorkCandidate a b w outcome
      else if wo_Phase w \<noteq> WorkPhaseExhausted \<or>
        wo_ResultCode w \<in> {''stale_membership'', ''stale_incident_input'', ''owner_terminal''} then []
      else [(candidate CandidateInconclusiveCompletion (workNextStep b))
              \<lparr>mc_Finding := Some \<lparr>ff_IncidentID = wo_IncidentID w, ff_Hypothesis = [], ff_Observations = [], ff_Unknowns = [],
                 ff_AnalyzedAt = wo_CompletedAt w, ff_EvidenceFingerprint = []\<rparr>,
               mc_Outcome := Some outcome\<rparr>])"

definition legacyExhaustionCandidate :: "operatorBriefing option \<Rightarrow> operatorBriefing \<Rightarrow> materialCandidate list" where
  "legacyExhaustionCandidate a b =
     (if wp_Phase (ob_Work b) \<noteq> WorkPhaseExhausted \<or>
         (case a of None \<Rightarrow> False | Some p \<Rightarrow> wp_Phase (ob_Work p) = WorkPhaseExhausted) then []
      else [candidate CandidateInconclusiveCompletion \<lparr>ns_Kind = NextStepWorkEnded, ns_At = None\<rparr>])"

definition newlyEnded :: "operatorBriefing \<Rightarrow> incidentWorkOutcome \<Rightarrow> bool" where
  "newlyEnded a w \<longleftrightarrow> endedWorkKey w \<notin> endedWorkKey ` set (wp_EndedWork (ob_Work a)) \<and> wo_SkipReason w = [] \<and>
     wo_AttemptID w \<noteq> [] \<and> wo_ResultCode w \<noteq> []"

definition endedWorkCandidates :: "operatorBriefing option \<Rightarrow> operatorBriefing \<Rightarrow> materialCandidate list" where
  "endedWorkCandidates a b =
     (case a of None \<Rightarrow> legacyExhaustionCandidate a b
      | Some p \<Rightarrow>
          if \<not> wp_EndedWorkKnown (ob_Work p) \<or> \<not> wp_EndedWorkKnown (ob_Work b) then legacyExhaustionCandidate a b
          else concat (map (\<lambda>w. endedWorkCandidate a b w (w\<lparr>wo_Finding := None\<rparr>))
                 (filter (newlyEnded p) (wp_EndedWork (ob_Work b)))))"

definition operatorBlocked :: "actionContract \<Rightarrow> bool" where
  "operatorBlocked c \<longleftrightarrow> ac_AlertINTStatus c = Some AlertINTStatusBlocked \<or> ac_AlertINTStatus c = Some AlertINTStatusExhausted"

definition waitReasonCode :: "waitReason option \<Rightarrow> string" where
  "waitReasonCode r = (case r of None \<Rightarrow> [] | Some w \<Rightarrow> waitReasonText w)"

definition limitationCandidate :: "operatorBriefing \<Rightarrow> string \<Rightarrow> bool \<Rightarrow> materialCandidate" where
  "limitationCandidate b code cleared =
     (candidate CandidateAbilityChanged (workNextStep b))\<lparr>mc_Limitation := Some \<lparr>lf_Code = code, lf_Cleared = cleared\<rparr>\<rparr>"

definition abilityChangedCandidates ::
  "operatorBriefing option \<Rightarrow> operatorBriefing \<Rightarrow> actionContract \<Rightarrow> actionContract \<Rightarrow> materialCandidate list" where
  "abilityChangedCandidates a b prior current =
     (let priorBlocked = operatorBlocked prior; blocked = operatorBlocked current;
          priorCode = waitReasonCode (ac_WaitReason prior); code = waitReasonCode (ac_WaitReason current) in
      (if blocked \<and> \<not> priorBlocked then [limitationCandidate b code False]
       else if blocked \<and> priorBlocked \<and> code \<noteq> priorCode then [limitationCandidate b code False]
       else if priorBlocked \<and> \<not> blocked then [limitationCandidate b priorCode True]
       else []) @
      (case a of None \<Rightarrow> []
       | Some p \<Rightarrow>
          if ob_Unavailable b > ob_Unavailable p then [limitationCandidate b LimitationInvestigationUnavailable False]
          else if ob_Unavailable p > 0 \<and> ob_Unavailable b = 0
          then [limitationCandidate b LimitationInvestigationUnavailable True]
          else []))"

definition actionChangedCandidate :: "operatorAction option \<Rightarrow> operatorAction option \<Rightarrow> materialCandidate list" where
  "actionChangedCandidate prior current =
     (let act = (\<lambda>i r w x. [(candidate CandidateActionChanged noNext)\<lparr>mc_Action :=
            Some \<lparr>af_Introduced = i, af_Revised = r, af_Withdrawn = w, af_Action = x\<rparr>\<rparr>]) in
      case (prior, current) of
        (None, Some x) \<Rightarrow> act True False False x
      | (Some x, None) \<Rightarrow> act False False True x
      | (Some x, Some y) \<Rightarrow> if x \<noteq> y then act False True False y else []
      | _ \<Rightarrow> [])"

definition investigatedInputCount :: "workProjection \<Rightarrow> int" where
  "investigatedInputCount w =
     (if wp_InvestigatedCountKnown w \<and> wp_InvestigatedCount w > 0 then wp_InvestigatedCount w else 0)"

definition lifecycleCandidates :: "operatorBriefing option \<Rightarrow> operatorBriefing \<Rightarrow> transition \<Rightarrow> transition \<Rightarrow> materialCandidate list" where
  "lifecycleCandidates a b prior tr =
     (let was = tr_Lifecycle prior; now' = tr_Lifecycle tr; (_, cleared, firing) = briefingAlertDelta a (Some b) in
      (if Terminal now' \<and> was \<noteq> now'
       then [candidate CandidateTerminalEnd \<lparr>ns_Kind = (if now' = LifecycleClosedUnknown then NextStepTrackingEnded
               else NextStepWorkEnded), ns_At = None\<rparr>] else []) @
      (if now' = LifecycleRecoveryPending \<and> was \<noteq> LifecycleRecoveryPending
       then [(candidate CandidateAllClear \<lparr>ns_Kind = NextStepGraceDeadline, ns_At = wp_SourceGraceUntil (ob_Work b)\<rparr>)
               \<lparr>mc_Members := Some (noMembers\<lparr>mf_Cleared := cleared, mf_FiringCount := ob_Firing b, mf_Total := ob_Total b\<rparr>)\<rparr>]
       else if was = LifecycleRecoveryPending \<and> now' = LifecycleActive
       then [(candidate CandidateRefire (workNextStep b))
               \<lparr>mc_Members := Some (noMembers\<lparr>mf_NowFiring := firing, mf_StillFiring := stillFiringNames b,
                  mf_FiringCount := ob_Firing b, mf_Total := ob_Total b\<rparr>)\<rparr>]
       else if now' = LifecycleActive \<and> was = LifecycleActive
       then membersChangedCandidate a b (tr_Attention prior) (tr_Attention tr)
       else []))"

definition assuranceCandidates :: "operatorBriefing option \<Rightarrow> operatorBriefing \<Rightarrow> materialCandidate list" where
  "assuranceCandidates a b =
     (let started = (case a of None \<Rightarrow> False | Some p \<Rightarrow> wp_ExecutionStarted (ob_Work p));
          count = investigatedInputCount (ob_Work b) in
      if wp_ExecutionStarted (ob_Work b) \<and> \<not> started
      then [(candidate CandidateFirstExecutionAssurance (workNextStep b))
              \<lparr>mc_Members := Some (noMembers\<lparr>mf_NowFiring := wp_InvestigatedNames (ob_Work b), mf_FiringCount := count,
                 mf_CountKnown := (count > 0), mf_Total := ob_Total b\<rparr>)\<rparr>]
      else [])"

definition MaterialCandidates :: "transition option \<Rightarrow> transition \<Rightarrow> materialCandidate list" where
  "MaterialCandidates prior tr =
     (case (prior, pf_Briefing (tr_Projection tr)) of
        (Some p, Some b) \<Rightarrow>
          (let a = pf_Briefing (tr_Projection p) in
           lifecycleCandidates a b p tr @ findingCandidates a b @ endedWorkCandidates a b @
           abilityChangedCandidates a b (tr_ActionContract p) (tr_ActionContract tr) @
           actionChangedCandidate (ac_OperatorActionRequired (tr_ActionContract p)) (ac_OperatorActionRequired (tr_ActionContract tr)) @
           assuranceCandidates a b)
      | _ \<Rightarrow> [])"

section \<open>The delta\<close>

definition zeroDelta :: operatorDelta where
  "zeroDelta = \<lparr>od_StateChanged = False, od_PreviousFiring = 0, od_PreviousTotal = 0, od_ScopeChanged = False,
     od_PreviousScope = [], od_SymptomsChanged = False, od_PreviousSymptoms = [], od_ClearedAlerts = [],
     od_NewFiringAlerts = [], od_Analyses = [], od_AnalysisFailed = False, od_AttentionIncreased = False,
     od_HumanRequestChanged = False, od_AbilityLost = False, od_Candidates = []\<rparr>"

definition countsDiffer :: "operatorBriefing \<Rightarrow> operatorBriefing \<Rightarrow> bool" where
  "countsDiffer a b \<longleftrightarrow> ob_Firing a \<noteq> ob_Firing b \<or> ob_Total a \<noteq> ob_Total b \<or> ob_Resolved a \<noteq> ob_Resolved b \<or>
     ob_Unknown a \<noteq> ob_Unknown b"

text \<open>
  \<^verbatim>\<open>reflect.DeepEqual\<close> on the symptom slices; a nil and an empty slice, which it tells apart, are the same here.
\<close>

definition briefingDelta :: "operatorBriefing \<Rightarrow> operatorBriefing \<Rightarrow> operatorDelta \<Rightarrow> operatorDelta" where
  "briefingDelta a b d =
     (let (changed, cleared, firing) = briefingAlertDelta (Some a) (Some b);
          scopeChanged = (ob_Scope a \<noteq> ob_Scope b); symptomsChanged = (ob_Symptoms a \<noteq> ob_Symptoms b) in
      d\<lparr>od_PreviousFiring := ob_Firing a, od_PreviousTotal := ob_Total a,
        od_StateChanged := (countsDiffer a b \<or> changed), od_ScopeChanged := scopeChanged,
        od_PreviousScope := (if scopeChanged then ob_Scope a else []),
        od_SymptomsChanged := symptomsChanged,
        od_PreviousSymptoms := (if symptomsChanged then ob_Symptoms a else []),
        od_AnalysisFailed := (ob_Failed b > ob_Failed a), od_ClearedAlerts := cleared, od_NewFiringAlerts := firing\<rparr>)"

definition buildOperatorDelta :: "transition option \<Rightarrow> transition \<Rightarrow> operatorDelta option" where
  "buildOperatorDelta prior tr =
     (case pf_Briefing (tr_Projection tr) of None \<Rightarrow> None
      | Some b \<Rightarrow>
        (case prior of None \<Rightarrow> Some zeroDelta
         | Some p \<Rightarrow>
           (let a = pf_Briefing (tr_Projection p);
                d0 = zeroDelta\<lparr>od_Analyses := filter (usefulAnalysis a) (ob_Analyses b)\<rparr>;
                d1 = (case a of None \<Rightarrow> d0 | Some x \<Rightarrow> briefingDelta x b d0) in
            Some (d1\<lparr>od_AttentionIncreased := (attentionRank (tr_Attention tr) > attentionRank (tr_Attention p)),
              od_HumanRequestChanged := (derefOperatorAction (ac_OperatorActionRequired (tr_ActionContract tr)) \<noteq>
                derefOperatorAction (ac_OperatorActionRequired (tr_ActionContract p))),
              od_AbilityLost := (operatorBlocked (tr_ActionContract tr) \<and> \<not> operatorBlocked (tr_ActionContract p) \<or>
                (case a of None \<Rightarrow> False | Some x \<Rightarrow> ob_Unavailable b > ob_Unavailable x)),
              od_Candidates := MaterialCandidates prior tr\<rparr>))))"

definition briefingMaterialityView :: "operatorBriefing \<Rightarrow> operatorBriefing" where
  "briefingMaterialityView b = b\<lparr>ob_Work := (ob_Work b)\<lparr>wp_StatusCheckpointAt := None\<rparr>\<rparr>"

definition operatorBriefingChanged :: "operatorBriefing option \<Rightarrow> operatorBriefing option \<Rightarrow> bool" where
  "operatorBriefingChanged a b \<longleftrightarrow>
     canonicalDigest (jOpt (\<lambda>x. jOperatorBriefing (briefingMaterialityView x)) a) \<noteq>
     canonicalDigest (jOpt (\<lambda>x. jOperatorBriefing (briefingMaterialityView x)) b)"

definition operatorReplyWarranted :: "transition option \<Rightarrow> transition \<Rightarrow> bool" where
  "operatorReplyWarranted prior tr =
     (if tr_Reason tr = ReasonOperatorArtifactRecorded
      then \<not> blank (jd_Headline (tr_Journal tr) @ jd_Detail (tr_Journal tr))
      else case prior of None \<Rightarrow> False
      | Some p \<Rightarrow>
        (let a = pf_Briefing (tr_Projection p); b = pf_Briefing (tr_Projection tr) in
         tr_Lifecycle tr \<noteq> tr_Lifecycle p \<or> attentionRank (tr_Attention tr) > attentionRank (tr_Attention p) \<or>
         derefOperatorAction (ac_OperatorActionRequired (tr_ActionContract tr)) \<noteq>
           derefOperatorAction (ac_OperatorActionRequired (tr_ActionContract p)) \<or>
         operatorBlocked (tr_ActionContract tr) \<and> \<not> operatorBlocked (tr_ActionContract p) \<or>
         fst (briefingAlertDelta a b) \<or> usefulAnalysisChanged a b \<or>
         (case (a, b) of
            (Some x, Some y) \<Rightarrow> ob_Scope x \<noteq> ob_Scope y \<or> ob_Symptoms x \<noteq> ob_Symptoms y \<or> countsDiffer x y \<or>
              ob_Failed y > ob_Failed x \<or> ob_Unavailable y > ob_Unavailable x
          | _ \<Rightarrow> False)))"

section \<open>The briefing agrees with the lifecycle\<close>

definition alertFires :: "string \<times> briefingAlertState \<Rightarrow> bool" where
  "alertFires ks = bas_firing (snd ks)"

lemma list_ex_alertFires: "list_ex alertFires m \<longleftrightarrow> (\<exists>k s. (k, s) \<in> set m \<and> bas_firing s)"
  by (force simp: list_ex_iff alertFires_def)

lemma set_update_distinct:
  "distinct (map fst m) \<Longrightarrow> set (AList.update k v m) = insert (k, v) {e \<in> set m. fst e \<noteq> k}"
  by (induction m) (auto simp: image_iff)

lemma mergeAlertState_distinct: "distinct (map fst m) \<Longrightarrow> distinct (map fst (mergeAlertState m kd))"
  by (simp add: mergeAlertState_def distinct_update Let_def split: prod.splits)

lemma mergeAlertState_fires:
  assumes "distinct (map fst m)"
  shows "list_ex alertFires (mergeAlertState m kd) \<longleftrightarrow>
    list_ex alertFires m \<or> de_Status (snd kd) = DeliveryStatusFiring"
proof -
  obtain k d where kd: "kd = (k, d)" by (cases kd)
  show ?thesis
  proof (cases "map_of m k")
    case None
    then have "\<forall>e \<in> set m. fst e \<noteq> k" by (auto simp: map_of_eq_None_iff)
    with None assms have "set (mergeAlertState m kd) =
        insert (k, \<lparr>bas_firing = (de_Status d = DeliveryStatusFiring), bas_latest = d\<rparr>) (set m)"
      by (auto simp: kd mergeAlertState_def set_update_distinct Let_def)
    then show ?thesis by (auto simp: kd list_ex_iff alertFires_def)
  next
    case (Some st)
    then have in_m: "(k, st) \<in> set m" by (rule map_of_SomeD)
    have uniq: "e = (k, st)" if "e \<in> set m" "fst e = k" for e
    proof -
      from that have "(k, snd e) \<in> set m" by (metis prod.collapse)
      then have "map_of m k = Some (snd e)" using assms by (rule map_of_is_SomeI [rotated])
      with Some that show ?thesis by (metis option.inject prod.collapse)
    qed
    have "{e \<in> set m. fst e \<noteq> k} = set m - {(k, st)}" by (auto dest: uniq)
    moreover define st' where "st' = \<lparr>bas_firing = bas_firing st \<or> de_Status d = DeliveryStatusFiring,
      bas_latest = (if deliveryLess (bas_latest st) d then d else bas_latest st)\<rparr>"
    ultimately have "set (mergeAlertState m kd) = insert (k, st') (set m - {(k, st)})"
      using Some assms by (simp add: kd mergeAlertState_def set_update_distinct Let_def)
    moreover have "bas_firing st' \<longleftrightarrow> bas_firing st \<or> de_Status d = DeliveryStatusFiring" by (simp add: st'_def)
    ultimately show ?thesis using in_m by (auto simp: kd list_ex_alertFires)
  qed
qed

lemma mergeAlertStates_fires:
  "distinct (map fst m) \<Longrightarrow>
     distinct (map fst (foldl mergeAlertState m xs)) \<and>
     (list_ex alertFires (foldl mergeAlertState m xs) \<longleftrightarrow>
        list_ex alertFires m \<or> list_ex (\<lambda>kd. de_Status (snd kd) = DeliveryStatusFiring) xs)"
  by (induction xs arbitrary: m) (auto simp: mergeAlertState_distinct mergeAlertState_fires)

lemma briefingAlertStates_fires:
  "list_ex alertFires (briefingAlertStates ds) \<longleftrightarrow> AnyFiring (deriveSymptoms ds)"
proof -
  have eq: "list_ex (\<lambda>(_, d). de_Status d = DeliveryStatusFiring) m = list_ex (\<lambda>kd. de_Status (snd kd) = DeliveryStatusFiring) m"
    for m :: "(string \<times> delivery) list" by (rule list_ex_cong) auto
  have "AnyFiring (deriveSymptoms ds) \<longleftrightarrow> list_ex (\<lambda>kd. de_Status (snd kd) = DeliveryStatusFiring)
      (concat (map (\<lambda>i. latestDeliveryPerAlert (filter (\<lambda>d. de_IncidentID d = i) ds)) (incidentKeys ds)))"
    unfolding AnyFiring_def deriveSymptoms_def symptomFor_def incidentSymptomStatus_def Let_def eq
    by (simp add: list_ex_iff)
  then show ?thesis using mergeAlertStates_fires [of "[]"] by (simp add: briefingAlertStates_def)
qed

text \<open>The counts an operator reads, in terms of the folded Alerts.\<close>

lemma BuildOperatorBriefing_counts:
  fixes inp lc
  defines "b \<equiv> BuildOperatorBriefing inp lc" and "sts \<equiv> briefingAlertStates (sn_Deliveries inp)"
  shows "ob_Firing b = int (length (filter alertFires sts))" "ob_Total b = int (length sts)"
    "ob_Resolved b = int (length (filter (\<lambda>s. \<not> alertFires s) sts))" "ob_Unknown b = 0"
    "ob_Critical b = int (length (filter (\<lambda>s. criticalAlert (snd s)) sts))"
proof -
  have f: "(\<lambda>(i, s). bas_firing s) = alertFires" "(\<lambda>(i :: string, s). criticalAlert s) = (\<lambda>s. criticalAlert (snd s))"
    by (auto simp: alertFires_def fun_eq_iff)
  have "length sts - length (filter alertFires sts) = length (filter (\<lambda>s. \<not> alertFires s) sts)"
    using sum_length_filter_compl [of alertFires sts] by linarith
  then have "int (length sts) - int (length (filter alertFires sts)) = int (length (filter (\<lambda>s. \<not> alertFires s) sts))"
    by (metis length_filter_le of_nat_diff)
  then show "ob_Firing b = int (length (filter alertFires sts))" "ob_Total b = int (length sts)"
    "ob_Resolved b = int (length (filter (\<lambda>s. \<not> alertFires s) sts))" "ob_Unknown b = 0"
    "ob_Critical b = int (length (filter (\<lambda>s. criticalAlert (snd s)) sts))"
    by (simp_all add: b_def sts_def BuildOperatorBriefing_def Let_def f split: prod.split)
qed

lemma BuildOperatorBriefing_firing:
  "0 < ob_Firing (BuildOperatorBriefing inp lc) \<longleftrightarrow> AnyFiring (deriveSymptoms (sn_Deliveries inp))"
  unfolding BuildOperatorBriefing_counts briefingAlertStates_fires [symmetric]
  by (simp add: list_ex_iff filter_empty_conv Bex_def)

lemma BuildOperatorBriefing_total:
  "ob_Total (BuildOperatorBriefing inp lc) = ob_Firing (BuildOperatorBriefing inp lc) + ob_Resolved (BuildOperatorBriefing inp lc)"
  unfolding BuildOperatorBriefing_counts
  using sum_length_filter_compl [of alertFires "briefingAlertStates (sn_Deliveries inp)"] by linarith

lemma BuildOperatorBriefing_critical:
  "ob_Critical (BuildOperatorBriefing inp lc) \<le> ob_Firing (BuildOperatorBriefing inp lc)"
proof -
  have "filter (\<lambda>s. criticalAlert (snd s)) sts = filter (\<lambda>s. criticalAlert (snd s)) (filter alertFires sts)" for sts
    by (auto simp: alertFires_def criticalAlert_def intro!: filter_cong)
  then show ?thesis unfolding BuildOperatorBriefing_counts by (metis length_filter_le of_nat_le_iff)
qed

section \<open>Repetition is quiet\<close>

lemma sameDisplayedEvidence_refl: "sameDisplayedEvidence xs xs"
  by (simp add: sameDisplayedEvidence_def sameDisplayedText_def Let_def list_all2_same)

lemma findingStructurallyChanged_refl: "\<not> findingStructurallyChanged (Some f) (Some f)"
  by (simp add: findingStructurallyChanged_def sameDisplayedEvidence_refl)

text \<open>
  The overview agrees with the ended work when the two carry the same evidence fingerprint for the same Incident,
  which holds when both were taken from one attempt.
\<close>

definition overviewAgrees :: "operatorBriefing \<Rightarrow> bool" where
  "overviewAgrees b \<longleftrightarrow>
     distinct (map ia_IncidentID (ob_Analyses b)) \<and>
     list_all (\<lambda>an. list_all (\<lambda>w. wo_IncidentID w = ia_IncidentID an \<and> wo_EvidenceKnown w \<longrightarrow>
         (case wo_Finding w of None \<Rightarrow> True
          | Some f \<Rightarrow> ff_EvidenceFingerprint f = ia_EvidenceFingerprint an \<and> ia_EvidenceFingerprint an \<noteq> []))
       (wp_EndedWork (ob_Work b))) (ob_Analyses b)"

lemma find_distinct_key:
  "distinct (map f xs) \<Longrightarrow> x \<in> set xs \<Longrightarrow> find (\<lambda>y. f y = f x) xs = Some x"
  by (induction xs) (auto simp: image_iff)

lemma overviewAgrees_unchanged:
  assumes "overviewAgrees b" and "an \<in> set (ob_Analyses b)"
  shows "\<not> findingStructurallyChanged (priorKnownFinding (Some b) (ia_IncidentID an)) (Some (findingFactsOf an))"
proof (cases "find (\<lambda>w. wo_IncidentID w = ia_IncidentID an \<and> wo_EvidenceKnown w \<and> wo_Finding w \<noteq> None) (wp_EndedWork (ob_Work b))")
  case None
  have "findAnalysis (Some b) (ia_IncidentID an) = Some an"
    using assms find_distinct_key [of ia_IncidentID "ob_Analyses b" an] by (simp add: findAnalysis_def overviewAgrees_def)
  with None show ?thesis by (simp add: priorKnownFinding_def findingStructurallyChanged_refl)
next
  case (Some w)
  then have w: "w \<in> set (wp_EndedWork (ob_Work b))" "wo_IncidentID w = ia_IncidentID an \<and> wo_EvidenceKnown w"
    by (auto simp: find_Some_iff)
  from Some obtain f where f: "wo_Finding w = Some f" by (auto simp: find_Some_iff)
  from assms have "list_all (\<lambda>w. wo_IncidentID w = ia_IncidentID an \<and> wo_EvidenceKnown w \<longrightarrow>
         (case wo_Finding w of None \<Rightarrow> True
          | Some f \<Rightarrow> ff_EvidenceFingerprint f = ia_EvidenceFingerprint an \<and> ia_EvidenceFingerprint an \<noteq> []))
       (wp_EndedWork (ob_Work b))" by (simp add: overviewAgrees_def list_all_iff)
  with w f have "ff_EvidenceFingerprint f = ia_EvidenceFingerprint an \<and> ia_EvidenceFingerprint an \<noteq> []"
    by (auto simp: list_all_iff)
  with Some f show ?thesis
    by (simp add: priorKnownFinding_def findingStructurallyChanged_def findingFactsOf_def)
qed

lemma briefingAlertDelta_same:
  assumes "distinct (map ba_ID (ob_Alerts b))"
  shows "briefingAlertDelta (Some b) (Some b) = (False, [], [])"
proof -
  have prior: "priorAlert b (ba_ID a) = Some a" if "a \<in> set (ob_Alerts b)" for a
  proof -
    have other: "map_of (foldl (\<lambda>m a. AList.update (ba_ID a) a m) m as) i = map_of m i"
      if "i \<notin> ba_ID ` set as" for m i and as :: "briefingAlert list"
      using that by (induction as arbitrary: m) (auto simp: update_conv')
    have "map_of (foldl (\<lambda>m a. AList.update (ba_ID a) a m) m as) (ba_ID a) = Some a"
      if "distinct (map ba_ID as)" "a \<in> set as" for m a and as :: "briefingAlert list"
      using that by (induction as arbitrary: m) (auto simp: other update_conv')
    from this [OF assms that] show ?thesis by (simp add: priorAlert_def)
  qed
  then show ?thesis
    by (auto simp: briefingAlertDelta_def list_ex_iff alertMoved_def alertNewlyFiring_def alertCleared_def sortStrings_def
        filter_empty_conv)
qed

lemma MaterialCandidates_repeat:
  assumes "pf_Briefing (tr_Projection p) = Some b" and "pf_Briefing (tr_Projection t) = Some b"
    and "tr_Lifecycle t = tr_Lifecycle p" and "tr_Attention t = tr_Attention p" and "tr_ActionContract t = tr_ActionContract p"
    and "overviewAgrees b" and "distinct (map ba_ID (ob_Alerts b))"
  shows "MaterialCandidates (Some p) t = []"
proof -
  have "lifecycleCandidates (Some b) b p t = []"
    using assms(3,4) by (simp add: lifecycleCandidates_def membersChangedCandidate_def briefingAlertDelta_same [OF assms(7)] Let_def)
  moreover have "findingCandidates (Some b) b = []"
    using overviewAgrees_unchanged [OF assms(6)] by (auto simp: findingCandidates_def filter_empty_conv)
  moreover have "endedWorkCandidates (Some b) b = []"
    by (auto simp: endedWorkCandidates_def legacyExhaustionCandidate_def newlyEnded_def filter_empty_conv)
  moreover have "abilityChangedCandidates (Some b) b c c = []" for c by (simp add: abilityChangedCandidates_def Let_def)
  moreover have "actionChangedCandidate x x = []" for x by (cases x) (simp_all add: actionChangedCandidate_def Let_def)
  moreover have "assuranceCandidates (Some b) b = []" by (simp add: assuranceCandidates_def)
  ultimately show ?thesis using assms(1,2,5) by (simp add: MaterialCandidates_def)
qed

lemma operatorBriefingChanged_checkpoint:
  "briefingMaterialityView a = briefingMaterialityView b \<Longrightarrow> \<not> operatorBriefingChanged (Some a) (Some b)"
  by (simp add: operatorBriefingChanged_def jOpt_def)

end
