(* ===== verification/Observation_Coverage.thy ===== *)
theory Observation_Coverage
  imports Snapshot
begin

text \<open>
  \<^verbatim>\<open>internal/situation/observation_coverage.go\<close>: which collection limits of a cycle a Transition records, the
  sentence each of them is explained by, and the semantic codes two Transitions are compared by.
\<close>

definition coverageLimitationOf :: "capabilityResult \<Rightarrow> coverageLimitation" where
  "coverageLimitationOf r =
     \<lparr>cl_RunID = cr_RunID r, cl_Capability = cr_Capability r, cl_Codes = cr_LimitationCodes r,
      cl_Returned = cr_Returned r, cl_Omitted = cr_Omitted r,
      cl_OmittedAtLeast = list_ex (\<lambda>code. code = ''truncated'' \<or> code = ''response_too_large'' \<or>
        hasPrefix code ''diagnostics_'') (cr_LimitationCodes r)\<rparr>"

definition limitsPrometheus :: "capabilityResult \<Rightarrow> bool" where
  "limitsPrometheus r \<longleftrightarrow> cr_Capability r = ''prometheus_query'' \<and> cr_RunID r \<noteq> [] \<and> cr_LimitationCodes r \<noteq> []"

text \<open>The loop stops at 32 limitations.\<close>

definition coverageLimitationsOf :: "capabilityResult list \<Rightarrow> coverageLimitation list" where
  "coverageLimitationsOf results = take 32 (map coverageLimitationOf (filter limitsPrometheus results))"

definition CoverageLimitationCodes :: "projectionFacts \<Rightarrow> string list" where
  "CoverageLimitationCodes p =
     remdups_adj (sortStrings (concat (map (\<lambda>l. map (\<lambda>code. cl_Capability l @ '':'' @ code) (cl_Codes l))
       (pf_CoverageLimitations p))))"

definition underscoresToSpaces :: "string \<Rightarrow> string" where
  "underscoresToSpaces s = map (\<lambda>c. if c = CHR ''_'' then CHR '' '' else c) s"

definition coverageCounts :: "coverageLimitation \<Rightarrow> string" where
  "coverageCounts l =
     ''retained '' @ itoa (cl_Returned l) @ '' series; omitted '' @ (if cl_OmittedAtLeast l then ''at least '' else []) @ itoa (cl_Omitted l)"

definition MaxDecodedResponseBytes :: int where "MaxDecodedResponseBytes = 1024 * 1024"

definition diagnosticsNotRead :: "string \<Rightarrow> coverageLimitation \<Rightarrow> string" where
  "diagnosticsNotRead why l =
     ''Additional diagnostic metrics '' @ why @ ''; retained '' @ itoa (cl_Returned l) @ '' series; omitted count unknown.''"

definition coverageReason :: "coverageLimitation \<Rightarrow> string \<Rightarrow> string" where
  "coverageReason l code =
     (let kib = itoa (MaxFactBytes div 1024); mib = itoa (MaxDecodedResponseBytes div (1024 * 1024)) in
      if code = ''truncated'' then ''Prometheus series limit reached: '' @ coverageCounts l @ ''.''
      else if code = ''fact_bytes_capped''
      then ''Prometheus summary size limit ('' @ kib @ '' KiB) reached: '' @ coverageCounts l @ ''.''
      else if code = ''response_too_large''
      then ''Prometheus response size limit ('' @ mib @ '' MiB) reached: rejected response supplied no usable metrics; omitted count unknown.'' @
           (if 0 < cl_Returned l then '' Retained '' @ itoa (cl_Returned l) @ '' series from other reads.'' else [])
      else if code = ''diagnostics_withheld_by_budget'' then diagnosticsNotRead ''were not read: request budget exhausted'' l
      else if code = ''diagnostics_withheld_by_limit'' then diagnosticsNotRead ''were not read: evidence limit reached'' l
      else if code = ''diagnostics_withheld_by_series_limit'' then diagnosticsNotRead ''were not read: series limit reached'' l
      else if code = ''diagnostics_withheld_by_summary_limit''
      then diagnosticsNotRead (''were not read: summary size limit ('' @ kib @ '' KiB) reached'') l
      else if code = ''diagnostics_failed'' then diagnosticsNotRead ''could not be read'' l
      else if code = ''rule_metrics_ambiguous_rule''
      then ''Current alert rule is ambiguous; used bounded scope metrics as fallback.''
      else if code = ''rule_metrics_current_definition_hint''
      then ''No matching alert is currently firing; metric selection uses the current rule definition as an advisory hint, not proof of the historical rule.''
      else if code = ''rule_metrics_response_too_large''
      then ''Current rule lookup exceeded the 1 MiB response size limit; used bounded scope metrics as fallback.''
      else if code = ''rule_metrics_empty''
      then ''Current rule metrics returned no series in the configured scope; additional diagnostics were attempted.''
      else if hasPrefix code ''rule_metrics_''
      then ''Current rule metrics unavailable ('' @ underscoresToSpaces (drop (length ''rule_metrics_'') code) @ ''); used bounded scope metrics as fallback.''
      else ''Prometheus collection limited: '' @ underscoresToSpaces code @ ''.'')"

definition CoverageLimitationLines :: "projectionFacts \<Rightarrow> string list" where
  "CoverageLimitationLines p =
     map (\<lambda>l. ''Observation: '' @ cl_RunID l @ ''. '' @ joinStrings (map (coverageReason l) (cl_Codes l)) '' '')
       (pf_CoverageLimitations p)"

section \<open>What a Transition records of it\<close>

lemma coverageLimitationsOf_bounded: "length (coverageLimitationsOf rs) \<le> 32"
  by (simp add: coverageLimitationsOf_def)

lemma coverageLimitationsOf_valid:
  assumes "list_all (\<lambda>r. length (cr_RunID r) \<le> maxIdentifierLength \<and> length (cr_LimitationCodes r) \<le> 16 \<and>
      0 \<le> cr_Returned r \<and> 0 \<le> cr_Omitted r \<and>
      list_all (\<lambda>code. code \<noteq> [] \<and> length code \<le> 128) (cr_LimitationCodes r)) rs"
  shows "list_all (\<lambda>l. CoverageLimitation_Validate l = None) (coverageLimitationsOf rs)"
proof -
  have "CoverageLimitation_Validate (coverageLimitationOf r) = None" if "r \<in> set rs" "limitsPrometheus r" for r
  proof -
    from assms that(1) have r: "length (cr_RunID r) \<le> maxIdentifierLength" "length (cr_LimitationCodes r) \<le> 16"
      "0 \<le> cr_Returned r" "0 \<le> cr_Omitted r"
      "list_all (\<lambda>code. code \<noteq> [] \<and> length code \<le> 128) (cr_LimitationCodes r)"
      by (simp_all add: list_all_iff)
    from r(5) have "\<not> list_ex (\<lambda>code. code = [] \<or> 128 < length code) (cr_LimitationCodes r)"
      by (induction "cr_LimitationCodes r") (simp_all add: list_all_iff list_ex_iff, fastforce+)
    with r(1-4) that(2) show ?thesis
      by (simp add: CoverageLimitation_Validate_def coverageLimitationOf_def limitsPrometheus_def)
  qed
  then show ?thesis by (auto simp: coverageLimitationsOf_def list_all_iff dest!: in_set_takeD)
qed

text \<open>The codes are a set in canonical order: they do not depend on the order of runs or codes.\<close>

lemma CoverageLimitationCodes_set:
  assumes "set (concat (map (\<lambda>l. map (\<lambda>c. (cl_Capability l, c)) (cl_Codes l)) (pf_CoverageLimitations p))) =
           set (concat (map (\<lambda>l. map (\<lambda>c. (cl_Capability l, c)) (cl_Codes l)) (pf_CoverageLimitations q)))"
  shows "CoverageLimitationCodes p = CoverageLimitationCodes q"
proof -
  have "sorted xs \<Longrightarrow> distinct (remdups_adj xs)" for xs :: "string list"
    by (induction xs rule: remdups_adj.induct) (auto simp: less_le)
  then have canon: "remdups_adj (sort xs) = sorted_list_of_set (set xs)" for xs :: "string list"
    by (metis remdups_adj_set set_sort sorted_list_of_set.idem_if_sorted_distinct sorted_remdups_adj sorted_sort)
  let ?r = "\<lambda>l. map (\<lambda>code. cl_Capability l @ '':'' @ code) (cl_Codes l)"
  let ?pairs = "\<lambda>p. concat (map (\<lambda>l. map (\<lambda>c. (cl_Capability l, c)) (cl_Codes l)) (pf_CoverageLimitations p))"
  have codes: "set (concat (map ?r (pf_CoverageLimitations x))) = (\<lambda>(a, c). a @ '':'' @ c) ` set (?pairs x)" for x
    by (auto simp: image_iff) (metis (no_types, lifting) case_prod_conv image_eqI)+
  have "set (concat (map ?r (pf_CoverageLimitations p))) = set (concat (map ?r (pf_CoverageLimitations q)))"
    unfolding codes by (rule arg_cong [OF assms])
  then show ?thesis by (simp only: CoverageLimitationCodes_def sortStrings_def canon)
qed

end
