(* ===== verification/Transitions.thy ===== *)
theory Transitions
  imports Briefing Observation_Coverage
begin

text \<open>
  The first half of \<^verbatim>\<open>internal/situation/history.go\<close>: the immutable Transitions of one controller
  reconciliation.  Every pending operator artifact becomes a Transition, in the given order, and the committed
  state one more when the semantic tuple (lifecycle, Attention, Operator contract without its deadline, closed
  conclusion, recurrence rung), the Triage state, the coverage codes or the briefing moved.  The parameter
  \<open>newSHA1\<close> is \<^verbatim>\<open>uuid.NewSHA1(historyNamespace, .).String()\<close> of the UUID package.
\<close>

section \<open>Inputs\<close>

definition maxHistoryHeadline :: nat where "maxHistoryHeadline = 200"

definition maxHistoryDetail :: nat where "maxHistoryDetail = 2000"

definition maxHistoryEvidenceRefs :: nat where "maxHistoryEvidenceRefs = 50"

definition artifactKindAnnotation :: string where "artifactKindAnnotation = ''operator_annotation_recorded''"

definition artifactKindVerdict :: string where "artifactKindVerdict = ''captured_verdict_recorded''"

definition triagePhaseSkipped :: string where "triagePhaseSkipped = ''skipped''"

record authoritativeChange =
  ch_Situation :: situation
  ch_AssessmentID :: "string option"
  ch_Assessment :: assessment
  ch_Derivation :: assessmentDerivation
  ch_Projection :: projectionFacts
  ch_PriorTransition :: "transition option"
  ch_PriorSummary :: "episodeSummary option"
  ch_MaterialFactHash :: string
  ch_EvidenceRefs :: "string list"
  ch_Incidents :: "incidentState list"
  ch_TriageDecisions :: "triageDecision list"
  ch_RecurrenceCount :: int
  ch_OperatorArtifacts :: "operatorArtifactInput list"
  ch_Drill :: bool
  ch_Now :: gtime
  ch_Judgment :: "situationJudgment option"
  ch_JudgmentApplicabilityReason :: judgmentApplicabilityReason
  ch_ExpectedBehaviorEvaluation :: "expectedBehaviorEvaluation option"

definition validateChange :: "authoritativeChange \<Rightarrow> goerror" where
  "validateChange ch =
     (let sit = ch_Situation ch; pr = ch_Projection ch in firstErr
     [errWhen (blank (si_ID sit)) ''situation: authoritative change: situation id is required'',
      errWhen (si_InputVersion sit < 1) ''situation: authoritative change: input version must be >= 1'',
      errWhen (blank (ch_MaterialFactHash ch)) ''situation: authoritative change: material fact hash is required'',
      errWhen (tIsZero (ch_Now ch) \<or> \<not> tutc (ch_Now ch))
        ''situation: authoritative change: now must be a non-zero UTC instant'',
      errWhen (ch_RecurrenceCount ch < 0) ''situation: authoritative change: recurrence count must be >= 0'',
      wrapErr ''situation: authoritative change: '' (Lifecycle_Validate (si_Lifecycle sit)),
      wrapErr ''situation: authoritative change: '' (Attention_Validate (si_Attention sit)),
      (if ch_Derivation ch \<noteq> AssessmentDerivationOther []
       then wrapErr ''situation: authoritative change: '' (AssessmentDerivation_Validate (ch_Derivation ch)) else None),
      errWhen (Terminal (si_Lifecycle sit) \<noteq> (pf_TerminalAt pr \<noteq> None))
        ''situation: authoritative change: lifecycle and projection terminal_at disagree'',
      (case si_Lifecycle sit of
         LifecycleClosedUnknown \<Rightarrow> errWhen (pf_TerminalReason pr = None)
           ''situation: authoritative change: closed_unknown requires projection terminal_reason''
       | LifecycleRecovered \<Rightarrow> errWhen (pf_TerminalReason pr \<noteq> None)
           ''situation: authoritative change: recovered must not set projection terminal_reason''
       | _ \<Rightarrow> None),
      wrapErr ''situation: authoritative change: '' (ProjectionFacts_Validate pr),
      whenSome (ch_PriorTransition ch) (\<lambda>p. firstErr
        [errWhen (tr_SituationID p \<noteq> si_ID sit) ''situation: authoritative change: prior transition belongs to another situation'',
         (case ch_PriorSummary ch of
            None \<Rightarrow> Some ''situation: authoritative change: a prior transition requires the prior episode summary''
          | Some s \<Rightarrow> errWhen (es_SituationID s \<noteq> si_ID sit)
              ''situation: authoritative change: prior summary belongs to another situation'')])])"

section \<open>Small helpers\<close>

definition derefAlertINTAction :: "alertINTAction option \<Rightarrow> string" where
  "derefAlertINTAction a = (case a of None \<Rightarrow> [] | Some x \<Rightarrow> alertINTActionText x)"

definition derefAlertINTStatus :: "alertINTStatus option \<Rightarrow> string" where
  "derefAlertINTStatus a = (case a of None \<Rightarrow> [] | Some x \<Rightarrow> alertINTStatusText x)"

definition derefWaitReason :: "waitReason option \<Rightarrow> string" where
  "derefWaitReason a = (case a of None \<Rightarrow> [] | Some x \<Rightarrow> waitReasonText x)"

definition contractActionStatus :: "actionContract \<Rightarrow> string" where
  "contractActionStatus c = derefAlertINTStatus (ac_AlertINTStatus c)"

definition contractActionDetail :: "actionContract \<Rightarrow> string" where
  "contractActionDetail c =
     (case ac_AlertINTAction c of None \<Rightarrow> ''Next actor: '' @ nextActorText (ac_NextActor c)
      | Some a \<Rightarrow> ''AlertINT action: '' @ alertINTActionText a @ '' ('' @ contractActionStatus c @ '')'')"

definition canonicalRefs :: "string list \<Rightarrow> string list" where
  "canonicalRefs refs =
     take maxHistoryEvidenceRefs (sortStrings (remdups
       (filter (\<lambda>r. r \<noteq> []) (map (\<lambda>r. boundedText (trimSpace r) maxHistoryIdentifier) refs))))"

definition controllerEvidenceRefs :: "authoritativeChange \<Rightarrow> string list" where
  "controllerEvidenceRefs ch =
     canonicalRefs (ch_EvidenceRefs ch @
       (case as_SufficientReason (ch_Assessment ch) of None \<Rightarrow> [] | Some r \<Rightarrow> sr_EvidenceRefs r))"

definition investigationCurrent :: "actionContract \<Rightarrow> bool" where
  "investigationCurrent c =
     (case ac_AlertINTAction c of None \<Rightarrow> False
      | Some a \<Rightarrow> a = AlertINTActionRunAcuteTriage \<or> a = AlertINTActionRetrySituationAssessment)"

section \<open>Materiality\<close>

record materialTuple =
  mt_Lifecycle :: string
  mt_Attention :: string
  mt_Contract :: string
  mt_HasAssessment :: bool
  mt_Persistence :: string
  mt_Impact :: string
  mt_Novelty :: string
  mt_Causality :: string
  mt_EvidenceQuality :: string
  mt_LimitationCodes :: "string list"
  mt_SufficientReason :: string
  mt_RecurrenceMilestone :: int

definition jMaterialTuple :: "materialTuple \<Rightarrow> json" where
  "jMaterialTuple t = JObject
     [(''lifecycle'', JString (mt_Lifecycle t)), (''attention'', JString (mt_Attention t)),
      (''contract'', JString (mt_Contract t)), (''has_assessment'', JBool (mt_HasAssessment t)),
      (''persistence'', JString (mt_Persistence t)), (''impact'', JString (mt_Impact t)),
      (''novelty'', JString (mt_Novelty t)), (''causality'', JString (mt_Causality t)),
      (''evidence_quality'', JString (mt_EvidenceQuality t)), (''limitation_codes'', jStrings (mt_LimitationCodes t)),
      (''sufficient_reason_code'', JString (mt_SufficientReason t)),
      (''recurrence_milestone'', JInt (mt_RecurrenceMilestone t))]"

definition operatorContractTuple :: "actionContract \<Rightarrow> string" where
  "operatorContractTuple c = canonicalDigest (JObject
     [(''next_actor'', JString (nextActorText (ac_NextActor c))),
      (''alertint_action'', JString (derefAlertINTAction (ac_AlertINTAction c))),
      (''alertint_status'', JString (derefAlertINTStatus (ac_AlertINTStatus c))),
      (''operator_action_required'', JString (derefOperatorAction (ac_OperatorActionRequired c))),
      (''next_update_on'', jStrings (sortStrings (map nextUpdateOnText (ac_NextUpdateOn c)))),
      (''wait_reason'', JString (derefWaitReason (ac_WaitReason c)))])"

definition recurrenceMilestone :: "int \<Rightarrow> int" where
  "recurrenceMilestone n =
     (if n \<ge> 100 then n div 100 * 100 else if n \<ge> 50 then 50 else if n \<ge> 25 then 25
      else if n \<ge> 10 then 10 else if n \<ge> 5 then 5 else 0)"

definition tupleOf ::
  "lifecycle \<Rightarrow> attention \<Rightarrow> actionContract \<Rightarrow> assessmentConclusion option \<Rightarrow> int \<Rightarrow> materialTuple" where
  "tupleOf lc att c concl recurrence =
     (let t = \<lparr>mt_Lifecycle = lifecycleText lc, mt_Attention = attentionText att, mt_Contract = operatorContractTuple c,
               mt_HasAssessment = False, mt_Persistence = [], mt_Impact = [], mt_Novelty = [], mt_Causality = [],
               mt_EvidenceQuality = [], mt_LimitationCodes = [], mt_SufficientReason = [],
               mt_RecurrenceMilestone = recurrenceMilestone recurrence\<rparr> in
      case concl of None \<Rightarrow> t
      | Some a \<Rightarrow> t\<lparr>mt_HasAssessment := True, mt_Persistence := persistenceText (co_Persistence a),
          mt_Impact := impactText (co_Impact a), mt_Novelty := noveltyText (co_Novelty a),
          mt_Causality := causalityText (co_Causality a),
          mt_EvidenceQuality := evidenceQualityText (co_EvidenceQuality a),
          mt_LimitationCodes := sortStrings (co_LimitationCodes a), mt_SufficientReason := co_SufficientReasonCode a\<rparr>)"

definition currentTuple :: "authoritativeChange \<Rightarrow> materialTuple" where
  "currentTuple ch = tupleOf (si_Lifecycle (ch_Situation ch)) (si_Attention (ch_Situation ch))
     (as_ActionContract (ch_Assessment ch)) (pf_Assessment (ch_Projection ch)) (ch_RecurrenceCount ch)"

text \<open>\<^verbatim>\<open>priorTuple\<close> is called only with a prior Transition, which the caller has at hand.\<close>

definition priorTuple :: "authoritativeChange \<Rightarrow> transition \<Rightarrow> materialTuple" where
  "priorTuple ch p = tupleOf (tr_Lifecycle p) (tr_Attention p) (tr_ActionContract p) (pf_Assessment (tr_Projection p))
     (case ch_PriorSummary ch of None \<Rightarrow> 0 | Some s \<Rightarrow> es_RecurrenceCount s)"

definition triageStateChanged :: "authoritativeChange \<Rightarrow> bool" where
  "triageStateChanged ch =
     (ch_TriageDecisions ch \<noteq> [] \<or> list_ex (\<lambda>r. r = DueTriageChanged) (si_DueReasons (ch_Situation ch)) \<or>
      (case ch_PriorTransition ch of None \<Rightarrow> False
       | Some p \<Rightarrow> list_ex (\<lambda>inc.
           (case tst_DecidedAt (inc_Triage inc) of None \<Rightarrow> False | Some d \<Rightarrow> tAfter d (tr_CreatedAt p)) \<or>
           (case tst_LatestAttempt (inc_Triage inc) of None \<Rightarrow> False
            | Some a \<Rightarrow> tAfter (tar_CompletedAt a) (tr_CreatedAt p))) (ch_Incidents ch)))"

definition judgmentOf :: "operatorBriefing option \<Rightarrow> expectedJudgmentProjection option" where
  "judgmentOf b = (case b of None \<Rightarrow> None | Some x \<Rightarrow> ob_ExpectedJudgment x)"

definition behaviorOf :: "operatorBriefing option \<Rightarrow> expectedBehaviorProjection option" where
  "behaviorOf b = (case b of None \<Rightarrow> None | Some x \<Rightarrow> ob_ExpectedBehavior x)"

definition expectedJudgmentProjectionChanged :: "operatorBriefing option \<Rightarrow> operatorBriefing option \<Rightarrow> bool" where
  "expectedJudgmentProjectionChanged prior cur \<longleftrightarrow>
     canonicalDigest (jOpt jExpectedJudgmentProjection (judgmentOf prior)) \<noteq>
     canonicalDigest (jOpt jExpectedJudgmentProjection (judgmentOf cur))"

definition expectedBehaviorProjectionChanged :: "operatorBriefing option \<Rightarrow> operatorBriefing option \<Rightarrow> bool" where
  "expectedBehaviorProjectionChanged prior cur \<longleftrightarrow>
     canonicalDigest (jOpt jExpectedBehaviorProjection (behaviorOf prior)) \<noteq>
     canonicalDigest (jOpt jExpectedBehaviorProjection (behaviorOf cur))"

definition coverageChanged :: "projectionFacts \<Rightarrow> projectionFacts \<Rightarrow> bool" where
  "coverageChanged p q \<longleftrightarrow>
     canonicalDigest (jNilStrings (CoverageLimitationCodes p)) \<noteq> canonicalDigest (jNilStrings (CoverageLimitationCodes q))"

text \<open>\<^verbatim>\<open>selectControllerReason\<close>: \<open>None\<close> stands for its false result.\<close>

definition selectControllerReason :: "authoritativeChange \<Rightarrow> transitionReason option" where
  "selectControllerReason ch =
     (case ch_PriorTransition ch of None \<Rightarrow> Some ReasonFirstAuthoritativeState
      | Some p \<Rightarrow>
        (let cur = currentTuple ch; prev = priorTuple ch p; triage = triageStateChanged ch;
             pb = pf_Briefing (tr_Projection p); cb = pf_Briefing (ch_Projection ch);
             lc = si_Lifecycle (ch_Situation ch) in
         if canonicalDigest (jMaterialTuple cur) = canonicalDigest (jMaterialTuple prev) \<and> \<not> triage \<and>
            \<not> coverageChanged (tr_Projection p) (ch_Projection ch) \<and> \<not> operatorBriefingChanged pb cb
         then None
         else let was = investigationCurrent (tr_ActionContract p);
                  now = investigationCurrent (as_ActionContract (ch_Assessment ch));
                  started = (now \<and> \<not> was \<and>
                    (case ch_PriorSummary ch of None \<Rightarrow> True | Some s \<Rightarrow> \<not> es_InvestigationStarted s)) in
           Some (if lc = LifecycleRecovered then ReasonRecovered
             else if lc = LifecycleClosedUnknown then ReasonClosedUnknown
             else if tr_Lifecycle p = LifecycleRecoveryPending \<and> lc = LifecycleActive then ReasonRecoveryFailed
             else if lc = LifecycleRecoveryPending \<and> tr_Lifecycle p \<noteq> LifecycleRecoveryPending then ReasonRecoveryObserved
             else if was \<and> \<not> now \<and> as_SufficientReason (ch_Assessment ch) \<noteq> None then ReasonInvestigationConcluded
             else if started then ReasonInvestigationStarted
             else if mt_Attention cur \<noteq> mt_Attention prev then ReasonAttentionChanged
             else if expectedJudgmentProjectionChanged pb cb \<or> expectedBehaviorProjectionChanged pb cb
             then ReasonOperatorContractChanged
             else if mt_Contract cur \<noteq> mt_Contract prev then ReasonOperatorContractChanged
             else if mt_RecurrenceMilestone cur \<noteq> mt_RecurrenceMilestone prev then ReasonRecurrenceMilestone
             else if triage then ReasonTriageStateChanged
             else ReasonMaterialAssessmentChanged)))"

definition zeroContract :: actionContract where
  "zeroContract = \<lparr>ac_NextActor = NextActorOther [], ac_AlertINTAction = None, ac_AlertINTStatus = None,
     ac_OperatorActionRequired = None, ac_NextUpdateAt = None, ac_NextUpdateOn = [], ac_WaitReason = None\<rparr>"

definition conclusionContentChanged :: "authoritativeChange \<Rightarrow> bool" where
  "conclusionContentChanged ch =
     (case ch_PriorTransition ch of None \<Rightarrow> True
      | Some p \<Rightarrow>
        (let t = \<lambda>c. tupleOf (LifecycleOther []) (AttentionOther []) zeroContract c 0 in
         canonicalDigest (jMaterialTuple (t (pf_Assessment (ch_Projection ch)))) \<noteq>
         canonicalDigest (jMaterialTuple (t (pf_Assessment (tr_Projection p))))))"

definition controllerActor :: "authoritativeChange \<Rightarrow> transitionReason \<Rightarrow> transitionActor" where
  "controllerActor ch reason =
     (if ch_Derivation ch \<noteq> DerivationModelValidated then ActorDeterministicController
      else case reason of
        ReasonFirstAuthoritativeState \<Rightarrow> ActorLLM
      | ReasonMaterialAssessmentChanged \<Rightarrow> ActorLLM
      | ReasonAttentionChanged \<Rightarrow> ActorLLM
      | ReasonInvestigationConcluded \<Rightarrow>
          if conclusionContentChanged ch then ActorLLM else ActorDeterministicController
      | _ \<Rightarrow> ActorDeterministicController)"

section \<open>Journal text\<close>

definition journalKindFor :: "transitionReason \<Rightarrow> journalKind" where
  "journalKindFor reason =
     (case reason of
        ReasonFirstAuthoritativeState \<Rightarrow> JournalPublication
      | ReasonRecovered \<Rightarrow> JournalRecovered
      | ReasonClosedUnknown \<Rightarrow> JournalClosedUnknown
      | ReasonRecoveryFailed \<Rightarrow> JournalRecoveryRefired
      | ReasonRecoveryObserved \<Rightarrow> JournalRecoveryPending
      | ReasonInvestigationConcluded \<Rightarrow> JournalEvidenceConclusion
      | ReasonInvestigationStarted \<Rightarrow> JournalInvestigationStarted
      | ReasonAttentionChanged \<Rightarrow> JournalOperatorContractChanged
      | ReasonOperatorContractChanged \<Rightarrow> JournalOperatorContractChanged
      | ReasonRecurrenceMilestone \<Rightarrow> JournalRecurrenceMilestone
      | _ \<Rightarrow> JournalInvestigationChanged)"

text \<open>\<^verbatim>\<open>triageJournalText\<close>: a skip is named before a request, and a decision of this cycle before recorded state.\<close>

definition triageJournalText :: "authoritativeChange \<Rightarrow> string \<times> string" where
  "triageJournalText ch =
     (case find (\<lambda>d. td_Decision d = TriageDecisionSkip) (ch_TriageDecisions ch) of
        Some d \<Rightarrow> (''Acute Triage skipped'', ''Decision: '' @ td_DecisionReason d)
      | None \<Rightarrow>
        (case find (\<lambda>inc. tst_Phase (inc_Triage inc) = triagePhaseSkipped) (ch_Incidents ch) of
           Some inc \<Rightarrow> (case tst_LatestAttempt (inc_Triage inc) of
               Some a \<Rightarrow> (''Acute Triage skipped'', ''Attempt result: '' @ tar_ResultCode a)
             | None \<Rightarrow> (''Acute Triage skipped'', ''Closed as a clean skip before any attempt was claimed; no attempt was consumed.''))
         | None \<Rightarrow>
           (case find (\<lambda>d. td_Decision d = TriageDecisionRequest) (ch_TriageDecisions ch) of
              Some d \<Rightarrow> (''Acute Triage requested'', ''Decision: '' @ td_DecisionReason d)
            | None \<Rightarrow>
              (case List.map_filter (\<lambda>inc. tst_LatestAttempt (inc_Triage inc)) (ch_Incidents ch) of
                 a # _ \<Rightarrow> (''Acute Triage state changed'', ''Attempt result: '' @ tar_ResultCode a)
               | [] \<Rightarrow> (''Acute Triage state changed'', [])))))"

definition journalTextFor :: "authoritativeChange \<Rightarrow> transitionReason \<Rightarrow> string \<times> string" where
  "journalTextFor ch reason =
     (let summary = (case pf_Assessment (ch_Projection ch) of None \<Rightarrow> [] | Some a \<Rightarrow> co_SufficientReasonSummary a);
          c = as_ActionContract (ch_Assessment ch) in
      case reason of
        ReasonFirstAuthoritativeState \<Rightarrow> (''Situation published'', summary)
      | ReasonMaterialAssessmentChanged \<Rightarrow> (''Assessment conclusion changed'', summary)
      | ReasonAttentionChanged \<Rightarrow> (''Attention changed to '' @ attentionText (si_Attention (ch_Situation ch)), summary)
      | ReasonOperatorContractChanged \<Rightarrow>
          (case ac_OperatorActionRequired c of
             Some a \<Rightarrow> (''Operator action required: '' @ operatorActionText a, summary)
           | None \<Rightarrow> (''Operator contract changed'', summary))
      | ReasonInvestigationStarted \<Rightarrow> (''AlertINT investigation started'', contractActionDetail c)
      | ReasonInvestigationConcluded \<Rightarrow> (''AlertINT investigation concluded'', summary)
      | ReasonRecoveryObserved \<Rightarrow> (''Recovery observed; watching for sustained recovery'', contractActionDetail c)
      | ReasonRecoveryFailed \<Rightarrow> (''Recovery did not hold; the condition refired'', contractActionDetail c)
      | ReasonRecovered \<Rightarrow> (''Recovered'', summary)
      | ReasonClosedUnknown \<Rightarrow>
          (''Closed with uncertainty'',
           case pf_TerminalReason (ch_Projection ch) of None \<Rightarrow> summary
           | Some r \<Rightarrow> ''Terminal reason: '' @ terminalReasonText r)
      | ReasonRecurrenceMilestone \<Rightarrow>
          (''Recurrence milestone: '' @ itoa (ch_RecurrenceCount ch) @ '' occurrences'', summary)
      | ReasonTriageStateChanged \<Rightarrow> triageJournalText ch
      | _ \<Rightarrow> (''Situation state changed'', summary))"

definition zeroJournal :: journalData where
  "zeroJournal = \<lparr>jd_Headline = [], jd_Detail = [], jd_AttributedActor = [], jd_ActionStatus = [], jd_RecurrenceCount = 0,
     jd_Delayed = False, jd_NoLongerCurrent = False, jd_OccurredAt = zeroTime, jd_JudgmentChange = JudgmentChangeNone,
     jd_JudgmentValidUntil = None, jd_ExpectedBehaviorChange = ExpectedBehaviorChangeNone,
     jd_ExpectedBehaviorReason = ExpectedBehaviorReasonOther [], jd_ExpectedBehaviorBoundary = None\<rparr>"

section \<open>Expected-condition journals\<close>

definition expectedBehaviorReasonDetail :: "expectedBehaviorReason \<Rightarrow> string \<Rightarrow> string" where
  "expectedBehaviorReasonDetail reason source =
     (let ruleName = (if source = ''alertmanager'' then ''Prometheus rule'' else ''Zabbix rule'') in
      case reason of
        ExpectedBehaviorReasonPrimaryDefinitionChanged \<Rightarrow> ''The '' @ ruleName @ '' changed.''
      | ExpectedBehaviorReasonBindingDefinitionChanged \<Rightarrow> ''The '' @ ruleName @ '' changed.''
      | ExpectedBehaviorReasonDefinitionUnavailable \<Rightarrow> ''AlertINT cannot verify the '' @ ruleName @ ''.''
      | ExpectedBehaviorReasonObservationUnavailable \<Rightarrow> ''AlertINT cannot verify the '' @ ruleName @ ''.''
      | ExpectedBehaviorReasonBudgetDeferred \<Rightarrow> ''AlertINT cannot verify the '' @ ruleName @ ''.''
      | ExpectedBehaviorReasonOutsideSchedule \<Rightarrow> ''The condition is outside the scheduled time.''
      | ExpectedBehaviorReasonStartOutsideTolerance \<Rightarrow> ''The condition is outside the scheduled time.''
      | ExpectedBehaviorReasonDurationExceeded \<Rightarrow> ''The condition ran longer than the schedule allows.''
      | ExpectedBehaviorReasonRequiredMissing \<Rightarrow> ''A required companion condition is missing.''
      | ExpectedBehaviorReasonPrimaryMissing \<Rightarrow> ''Prometheus no longer reports this condition as active.''
      | ExpectedBehaviorReasonUnexpectedSymptom \<Rightarrow> ''An unexpected alert is firing.''
      | ExpectedBehaviorReasonForbiddenPresent \<Rightarrow> ''A forbidden condition is firing.''
      | ExpectedBehaviorReasonUrgent \<Rightarrow> ''The Situation is critical or requires urgent attention.''
      | ExpectedBehaviorReasonInvalidated \<Rightarrow> ''The schedule was invalidated by a source change.''
      | _ \<Rightarrow> ''The current condition no longer matches the schedule.'')"

definition matchedProjection :: "expectedBehaviorProjection option \<Rightarrow> bool" where
  "matchedProjection x = (case x of None \<Rightarrow> False | Some p \<Rightarrow> xp_Disposition p = ExpectedBehaviorDispositionMatched)"

definition revokedProjection :: "expectedBehaviorProjection option \<Rightarrow> bool" where
  "revokedProjection x = (case x of None \<Rightarrow> False | Some p \<Rightarrow> xp_Reason p = ExpectedBehaviorReasonRevoked)"

definition expectedBehaviorJournal :: "authoritativeChange \<Rightarrow> (journalData \<times> transitionActor) option" where
  "expectedBehaviorJournal ch =
     (case ch_PriorTransition ch of None \<Rightarrow> None
      | Some p \<Rightarrow>
        (let pb = pf_Briefing (tr_Projection p); cb = pf_Briefing (ch_Projection ch);
             prior = behaviorOf pb; cur = behaviorOf cb;
             j0 = zeroJournal\<lparr>jd_OccurredAt := ch_Now ch, jd_ActionStatus := contractActionStatus (as_ActionContract (ch_Assessment ch))\<rparr>;
             j = (case cur of None \<Rightarrow> j0
                  | Some x \<Rightarrow> j0\<lparr>jd_AttributedActor := xp_AssertedOperator x, jd_ExpectedBehaviorReason := xp_Reason x,
                      jd_ExpectedBehaviorBoundary := xp_Boundary x\<rparr>) in
         if \<not> expectedBehaviorProjectionChanged pb cb then None
         else if prior \<noteq> None \<and> \<not> matchedProjection prior \<and> \<not> matchedProjection cur \<and> \<not> revokedProjection cur then None
         else if matchedProjection cur
         then Some ((if prior = None
                     then j\<lparr>jd_ExpectedBehaviorChange := ExpectedBehaviorChangeApplied, jd_Headline := ''Expected schedule applied''\<rparr>
                     else if \<not> matchedProjection prior
                     then j\<lparr>jd_ExpectedBehaviorChange := ExpectedBehaviorChangeRestored, jd_Headline := ''Expected schedule restored''\<rparr>
                     else j\<lparr>jd_ExpectedBehaviorChange := ExpectedBehaviorChangeUpdated, jd_Headline := ''Expected schedule updated''\<rparr>)
                    \<lparr>jd_Detail := ''Monitoring continues.''\<rparr>, ActorDeterministicController)
         else case prior of None \<Rightarrow> None
         | Some x \<Rightarrow>
           if revokedProjection cur
           then Some (j\<lparr>jd_ExpectedBehaviorChange := ExpectedBehaviorChangeWithdrawn, jd_Headline := ''Expected schedule withdrawn''\<rparr>,
                      ActorAttributedOperator)
           else let source = (case cur of None \<Rightarrow> xp_Source x | Some y \<Rightarrow> if xp_Source y \<noteq> [] then xp_Source y else xp_Source x) in
                Some (j\<lparr>jd_ExpectedBehaviorChange := ExpectedBehaviorChangeStopped,
                        jd_Headline := ''Expected schedule no longer applies'',
                        jd_Detail := expectedBehaviorReasonDetail (jd_ExpectedBehaviorReason j) source\<rparr>,
                      ActorDeterministicController)))"

definition expectedJudgmentInvalidationDetail :: "authoritativeChange \<Rightarrow> string" where
  "expectedJudgmentInvalidationDetail ch =
     (case ch_JudgmentApplicabilityReason ch of
        JudgmentUrgent \<Rightarrow>
          (if (case pf_Briefing (ch_Projection ch) of None \<Rightarrow> False | Some b \<Rightarrow> ob_Critical b > 0)
           then ''A critical alert is now firing.'' else ''The Situation now requires urgent attention.'')
      | JudgmentScopeChanged \<Rightarrow> ''The affected scope changed.''
      | JudgmentSymptomsChanged \<Rightarrow> ''The active symptoms changed.''
      | JudgmentSeverityChanged \<Rightarrow> ''The alert severity changed.''
      | JudgmentImpactChanged \<Rightarrow> ''The assessed impact changed.''
      | JudgmentSourceSignatureChanged \<Rightarrow> ''The source identity or version changed.''
      | JudgmentSourceDefinitionUnavailable \<Rightarrow> ''AlertINT can no longer verify the source rule definition.''
      | JudgmentEvidenceMissing \<Rightarrow> ''The evidence needed to keep the decision active is no longer available.''
      | JudgmentSituationTerminal \<Rightarrow> ''The Situation ended.''
      | _ \<Rightarrow> ''The current condition changed.'')"

definition operationIs :: "judgmentOperation \<Rightarrow> situationJudgment option \<Rightarrow> bool" where
  "operationIs op j = (case j of None \<Rightarrow> False | Some x \<Rightarrow> sj_Operation x = op)"

definition endedJudgmentJournal ::
  "authoritativeChange \<Rightarrow> journalData \<Rightarrow> expectedJudgmentProjection option \<Rightarrow> journalData \<times> transitionActor" where
  "endedJudgmentJournal ch j prior =
     (let expired = j\<lparr>jd_JudgmentValidUntil := map_option jp_ValidUntil prior\<rparr>;
          ended = (if ch_JudgmentApplicabilityReason ch = JudgmentExpired
            then expired\<lparr>jd_JudgmentChange := JudgmentChangeExpired, jd_Headline := ''Expected-until deadline reached'',
                    jd_Detail := ''The scheduled end time was reached.''\<rparr>
            else expired\<lparr>jd_JudgmentChange := JudgmentChangeInvalidated, jd_Headline := ''Expected-until decision no longer applies'',
                    jd_Detail := expectedJudgmentInvalidationDetail ch\<rparr>) in
      case (prior, ch_Judgment ch) of
        (Some p, Some x) \<Rightarrow>
          if sj_Operation x = JudgmentOperationRevoke \<and> sj_Revision x > jp_Revision p
          then (j\<lparr>jd_JudgmentChange := JudgmentChangeRevoked, jd_Headline := ''Expected-until decision ended'',
                  jd_AttributedActor := sj_AssertedOperator x, jd_JudgmentValidUntil := None,
                  jd_Detail := ''Normal assessment resumes.''\<rparr>, ActorAttributedOperator)
          else (ended, ActorDeterministicController)
      | _ \<Rightarrow> (ended, ActorDeterministicController))"

definition expectedJudgmentJournal :: "authoritativeChange \<Rightarrow> (journalData \<times> transitionActor) option" where
  "expectedJudgmentJournal ch =
     (case ch_PriorTransition ch of None \<Rightarrow> None
      | Some p \<Rightarrow>
        (let pb = pf_Briefing (tr_Projection p); cb = pf_Briefing (ch_Projection ch);
             j = zeroJournal\<lparr>jd_OccurredAt := ch_Now ch, jd_ActionStatus := contractActionStatus (as_ActionContract (ch_Assessment ch))\<rparr> in
         if \<not> expectedJudgmentProjectionChanged pb cb then None
         else case judgmentOf cb of
           Some x \<Rightarrow>
             (let k = j\<lparr>jd_JudgmentValidUntil := Some (jp_ValidUntil x), jd_AttributedActor := jp_AssertedOperator x,
                        jd_Detail := ''Monitoring continues.''\<rparr> in
              Some (if operationIs JudgmentOperationReplace (ch_Judgment ch)
                    then k\<lparr>jd_JudgmentChange := JudgmentChangeReplaced, jd_Headline := ''Expected condition updated''\<rparr>
                    else if operationIs JudgmentOperationRestore (ch_Judgment ch)
                    then k\<lparr>jd_JudgmentChange := JudgmentChangeRestored, jd_Headline := ''Expected condition restored''\<rparr>
                    else k\<lparr>jd_JudgmentChange := JudgmentChangeRecorded, jd_Headline := ''Current condition marked expected''\<rparr>,
                    ActorAttributedOperator))
         | None \<Rightarrow> Some (endedJudgmentJournal ch j (judgmentOf pb))))"

section \<open>Transitions\<close>

definition transitionIdentitySchemaVersion :: int where "transitionIdentitySchemaVersion = 1"

definition transitionIdentity ::
  "(string \<Rightarrow> string) \<Rightarrow> string \<Rightarrow> int \<Rightarrow> int \<Rightarrow> transitionReason \<Rightarrow> string \<Rightarrow> string" where
  "transitionIdentity newSHA1 sid version sequence reason artifact =
     newSHA1 (marshal (JObject
       ([(''schema_version'', JInt transitionIdentitySchemaVersion), (''situation_id'', JString sid),
         (''input_version'', JInt version), (''sequence'', JInt sequence),
         (''reason'', JString (transitionReasonText reason))] @ jOmitString ''artifact'' artifact)))"

definition newTransition ::
  "(string \<Rightarrow> string) \<Rightarrow> authoritativeChange \<Rightarrow> int \<Rightarrow> transitionReason \<Rightarrow> string \<Rightarrow> journalKind \<Rightarrow> journalData \<Rightarrow>
     string list \<Rightarrow> transition" where
  "newTransition newSHA1 ch sequence reason artifact kind journal evidence =
     (let sit = ch_Situation ch in
      \<lparr>tr_ID = transitionIdentity newSHA1 (si_ID sit) (si_InputVersion sit) sequence reason artifact,
       tr_SituationID = si_ID sit, tr_Sequence = sequence, tr_InputVersion = si_InputVersion sit,
       tr_MaterialFactHash = ch_MaterialFactHash ch, tr_AssessmentID = ch_AssessmentID ch,
       tr_Lifecycle = si_Lifecycle sit, tr_Attention = si_Attention sit,
       tr_ActionContract = as_ActionContract (ch_Assessment ch),
       tr_SufficientReasonID = (case as_SufficientReason (ch_Assessment ch) of None \<Rightarrow> None
          | Some r \<Rightarrow> if sr_CandidateID r \<noteq> [] then Some (sr_CandidateID r) else None),
       tr_InterruptionPriority = None, tr_Reason = reason, tr_JournalKind = kind, tr_Journal = journal,
       tr_Projection = ch_Projection ch, tr_OperatorArtifactInputID = None, tr_EvidenceRefs = evidence,
       tr_Actor = ActorDeterministicController, tr_Drill = ch_Drill ch, tr_CreatedAt = ch_Now ch, tr_DetailExpired = False\<rparr>)"

definition artifactRef :: "operatorArtifactInput \<Rightarrow> string + journalKind \<times> string" where
  "artifactRef a =
     (if oai_Kind a = artifactKindAnnotation
      then (case oai_AnnotationID a of
              None \<Rightarrow> Inl ''operator_annotation_recorded requires an annotation id''
            | Some i \<Rightarrow> if blank i then Inl ''operator_annotation_recorded requires an annotation id''
                else if oai_VerdictID a \<noteq> None then Inl ''operator_annotation_recorded must not carry a verdict id''
                else Inr (JournalOperatorNote, ''annotation:'' @ i))
      else if oai_Kind a = artifactKindVerdict
      then (case oai_VerdictID a of
              None \<Rightarrow> Inl ''captured_verdict_recorded requires a verdict id''
            | Some i \<Rightarrow> if blank i then Inl ''captured_verdict_recorded requires a verdict id''
                else if oai_AnnotationID a \<noteq> None then Inl ''captured_verdict_recorded must not carry an annotation id''
                else Inr (JournalCapturedVerdict, ''verdict:'' @ i))
      else Inl ''unsupported operator artifact kind'')"

definition artifactTransition ::
  "(string \<Rightarrow> string) \<Rightarrow> authoritativeChange \<Rightarrow> operatorArtifactInput \<Rightarrow> int \<Rightarrow> string + transition" where
  "artifactTransition newSHA1 ch a sequence =
     (if blank (oai_InputID a) then Inl ''input id is required''
      else if tIsZero (oai_OccurredAt a) \<or> \<not> tutc (oai_OccurredAt a)
      then Inl ''occurred_at must be a non-zero UTC instant''
      else case artifactRef a of
        Inl e \<Rightarrow> Inl e
      | Inr (kind, ref) \<Rightarrow>
          (let journal = zeroJournal
             \<lparr>jd_Headline := boundedText (oai_Headline a) maxHistoryHeadline,
              jd_Detail := boundedText (oai_Detail a) maxHistoryDetail,
              jd_AttributedActor := boundedText (oai_AttributedActor a) maxHistoryIdentifier,
              jd_ActionStatus := contractActionStatus (as_ActionContract (ch_Assessment ch)),
              jd_RecurrenceCount := ch_RecurrenceCount ch, jd_OccurredAt := oai_OccurredAt a\<rparr> in
           Inr ((newTransition newSHA1 ch sequence ReasonOperatorArtifactRecorded (oai_InputID a) kind journal [ref])
             \<lparr>tr_Actor := ActorAttributedOperator, tr_OperatorArtifactInputID := Some (oai_InputID a)\<rparr>)))"

text \<open>What the three controller Transitions share at their end: the delta against the prior Transition and the priority.\<close>

definition withDelta :: "authoritativeChange \<Rightarrow> transition \<Rightarrow> transition" where
  "withDelta ch t = t\<lparr>tr_Projection := (tr_Projection t)\<lparr>pf_OperatorDelta := buildOperatorDelta (ch_PriorTransition ch) t\<rparr>\<rparr>"

definition withPriority :: "authoritativeChange \<Rightarrow> transition \<Rightarrow> transition" where
  "withPriority ch t =
     (if ClassifyPoke (ch_PriorTransition ch) t \<noteq> PokeNone
      then t\<lparr>tr_InterruptionPriority := Some (DeriveInterruptionPriority t)\<rparr> else t)"

definition withJournal :: "(journalData \<times> transitionActor) option \<Rightarrow> transition \<Rightarrow> transition" where
  "withJournal j t = (case j of None \<Rightarrow> t | Some (x, actor) \<Rightarrow> t\<lparr>tr_Journal := x, tr_Actor := actor\<rparr>)"

definition controllerTransition ::
  "(string \<Rightarrow> string) \<Rightarrow> authoritativeChange \<Rightarrow> transitionReason \<Rightarrow> int \<Rightarrow> transition" where
  "controllerTransition newSHA1 ch reason sequence =
     (let (headline, detail) = journalTextFor ch reason;
          journal = zeroJournal
            \<lparr>jd_Headline := boundedText headline maxHistoryHeadline, jd_Detail := boundedText detail maxHistoryDetail,
             jd_ActionStatus := contractActionStatus (as_ActionContract (ch_Assessment ch)),
             jd_RecurrenceCount := ch_RecurrenceCount ch, jd_OccurredAt := ch_Now ch\<rparr>;
          t = (newTransition newSHA1 ch sequence reason [] (journalKindFor reason) journal (controllerEvidenceRefs ch))
            \<lparr>tr_Actor := controllerActor ch reason\<rparr>;
          t' = (if reason = ReasonOperatorContractChanged
                then withJournal (expectedBehaviorJournal ch) (withJournal (expectedJudgmentJournal ch) t) else t) in
      withPriority ch (withDelta ch t'))"

definition judgmentTransition :: "(string \<Rightarrow> string) \<Rightarrow> authoritativeChange \<Rightarrow> journalData \<times> transitionActor \<Rightarrow> int \<Rightarrow> transition" where
  "judgmentTransition newSHA1 ch ja sequence =
     withPriority ch (withDelta ch (withJournal (Some ja)
       (newTransition newSHA1 ch sequence ReasonOperatorContractChanged [] JournalOperatorContractChanged (fst ja)
         (controllerEvidenceRefs ch))))"

definition expectedBehaviorTransition ::
  "(string \<Rightarrow> string) \<Rightarrow> authoritativeChange \<Rightarrow> journalData \<times> transitionActor \<Rightarrow> int \<Rightarrow> transition" where
  "expectedBehaviorTransition newSHA1 ch ja sequence =
     withDelta ch (withJournal (Some ja)
       (newTransition newSHA1 ch sequence ReasonOperatorContractChanged [] JournalOperatorContractChanged (fst ja)
         (controllerEvidenceRefs ch)))"

fun artifactTransitions ::
  "(string \<Rightarrow> string) \<Rightarrow> authoritativeChange \<Rightarrow> int \<Rightarrow> operatorArtifactInput list \<Rightarrow> string + transition list" where
  "artifactTransitions newSHA1 ch n [] = Inr []"
| "artifactTransitions newSHA1 ch n (a # as) =
     (case artifactTransition newSHA1 ch a n of
        Inl e \<Rightarrow> Inl (''situation: operator artifact: '' @ e)
      | Inr t \<Rightarrow> (case artifactTransitions newSHA1 ch (n + 1) as of Inl e \<Rightarrow> Inl e | Inr ts \<Rightarrow> Inr (t # ts)))"

definition priorSequence :: "authoritativeChange \<Rightarrow> int" where
  "priorSequence ch = (case ch_PriorTransition ch of None \<Rightarrow> 0 | Some p \<Rightarrow> tr_Sequence p)"

definition controllerTransitions :: "(string \<Rightarrow> string) \<Rightarrow> authoritativeChange \<Rightarrow> int \<Rightarrow> transition list" where
  "controllerTransitions newSHA1 ch n =
     (case selectControllerReason ch of None \<Rightarrow> []
      | Some reason \<Rightarrow>
        (let first = controllerTransition newSHA1 ch reason n;
             behavior = (if reason = ReasonOperatorContractChanged then None else expectedBehaviorJournal ch);
             judgment = (if reason = ReasonOperatorContractChanged then None else expectedJudgmentJournal ch);
             second' = (case behavior of None \<Rightarrow> [] | Some j \<Rightarrow> [expectedBehaviorTransition newSHA1 ch j (n + 1)]) in
         first # second' @
           (case judgment of None \<Rightarrow> [] | Some j \<Rightarrow> [judgmentTransition newSHA1 ch j (n + 1 + int (length second'))])))"

definition BuildTransitions :: "(string \<Rightarrow> string) \<Rightarrow> authoritativeChange \<Rightarrow> string + transition list" where
  "BuildTransitions newSHA1 ch =
     (case validateChange ch of Some e \<Rightarrow> Inl e
      | None \<Rightarrow>
        (case artifactTransitions newSHA1 ch (priorSequence ch + 1) (ch_OperatorArtifacts ch) of Inl e \<Rightarrow> Inl e
         | Inr arts \<Rightarrow>
           (let out = arts @ controllerTransitions newSHA1 ch (priorSequence ch + 1 + int (length arts)) in
            case firstErr (map Transition_Validate out) of
              Some e \<Rightarrow> Inl (''situation: derived transition: '' @ e)
            | None \<Rightarrow> Inr out)))"

section \<open>What every Transition of one commit records\<close>

definition sameProjection :: "projectionFacts \<Rightarrow> projectionFacts \<Rightarrow> bool" where
  "sameProjection p q \<longleftrightarrow> p\<lparr>pf_OperatorDelta := None\<rparr> = q\<lparr>pf_OperatorDelta := None\<rparr>"

definition recordsCommit :: "authoritativeChange \<Rightarrow> transition \<Rightarrow> bool" where
  "recordsCommit ch t \<longleftrightarrow>
     tr_SituationID t = si_ID (ch_Situation ch) \<and> tr_InputVersion t = si_InputVersion (ch_Situation ch) \<and>
     tr_MaterialFactHash t = ch_MaterialFactHash ch \<and> tr_AssessmentID t = ch_AssessmentID ch \<and>
     tr_Lifecycle t = si_Lifecycle (ch_Situation ch) \<and> tr_Attention t = si_Attention (ch_Situation ch) \<and>
     tr_ActionContract t = as_ActionContract (ch_Assessment ch) \<and> sameProjection (tr_Projection t) (ch_Projection ch) \<and>
     tr_Drill t = ch_Drill ch \<and> tr_CreatedAt t = ch_Now ch"

lemmas transition_builders = newTransition_def withDelta_def withPriority_def withJournal_def

lemma sameProjection_fields:
  assumes "sameProjection p q"
  shows "pf_CoverageLimitations p = pf_CoverageLimitations q \<and> pf_Briefing p = pf_Briefing q \<and>
    pf_PublicHandle p = pf_PublicHandle q \<and> pf_EffectiveStartedAt p = pf_EffectiveStartedAt q \<and>
    pf_EffectiveStartedAtBasis p = pf_EffectiveStartedAtBasis q \<and> pf_RecoveryObservedAt p = pf_RecoveryObservedAt q \<and>
    pf_GraceUntil p = pf_GraceUntil q \<and> pf_TerminalAt p = pf_TerminalAt q \<and> pf_TerminalReason p = pf_TerminalReason q \<and>
    pf_Assessment p = pf_Assessment q"
  using assms by (cases p; cases q) (simp add: sameProjection_def)

lemma sameProjection_valid: "sameProjection p q \<Longrightarrow> ProjectionFacts_Validate p = ProjectionFacts_Validate q"
  by (frule sameProjection_fields) (simp add: ProjectionFacts_Validate_def)

lemma recordsCommit_new [simp]: "recordsCommit ch (newTransition f ch n r a k j e)"
  by (simp add: recordsCommit_def newTransition_def Let_def sameProjection_def)

lemma recordsCommit_with [simp]:
  "recordsCommit ch (withDelta ch t) = recordsCommit ch t"
  "recordsCommit ch (withPriority ch t) = recordsCommit ch t"
  "recordsCommit ch (withJournal j t) = recordsCommit ch t"
  by (auto simp: recordsCommit_def transition_builders sameProjection_def split: option.split)

lemma recordsCommit_actor [simp]:
  "recordsCommit ch (t\<lparr>tr_Actor := a\<rparr>) = recordsCommit ch t"
  "recordsCommit ch (t\<lparr>tr_OperatorArtifactInputID := i\<rparr>) = recordsCommit ch t"
  by (simp_all add: recordsCommit_def)

lemma builder_fields [simp]:
  "tr_Sequence (withDelta ch t) = tr_Sequence t" "tr_Sequence (withPriority ch t) = tr_Sequence t"
  "tr_Sequence (withJournal j t) = tr_Sequence t"
  "tr_Reason (withDelta ch t) = tr_Reason t" "tr_Reason (withPriority ch t) = tr_Reason t"
  "tr_Reason (withJournal j t) = tr_Reason t"
  "tr_OperatorArtifactInputID (withDelta ch t) = tr_OperatorArtifactInputID t"
  "tr_OperatorArtifactInputID (withPriority ch t) = tr_OperatorArtifactInputID t"
  "tr_OperatorArtifactInputID (withJournal j t) = tr_OperatorArtifactInputID t"
  "tr_Actor (withDelta ch t) = tr_Actor t" "tr_Actor (withPriority ch t) = tr_Actor t"
  "tr_Journal (withDelta ch t) = tr_Journal t" "tr_Journal (withPriority ch t) = tr_Journal t"
  "tr_EvidenceRefs (withDelta ch t) = tr_EvidenceRefs t" "tr_EvidenceRefs (withPriority ch t) = tr_EvidenceRefs t"
  "tr_EvidenceRefs (withJournal j t) = tr_EvidenceRefs t"
  "tr_ID (withDelta ch t) = tr_ID t" "tr_ID (withPriority ch t) = tr_ID t" "tr_ID (withJournal j t) = tr_ID t"
  "tr_JournalKind (withDelta ch t) = tr_JournalKind t" "tr_JournalKind (withPriority ch t) = tr_JournalKind t"
  "tr_JournalKind (withJournal j t) = tr_JournalKind t"
  "tr_SufficientReasonID (withDelta ch t) = tr_SufficientReasonID t"
  "tr_SufficientReasonID (withPriority ch t) = tr_SufficientReasonID t"
  "tr_SufficientReasonID (withJournal j t) = tr_SufficientReasonID t"
  by (auto simp: transition_builders split: option.split)

lemma newTransition_fields [simp]:
  "tr_Sequence (newTransition f ch n r a k j e) = n" "tr_Reason (newTransition f ch n r a k j e) = r"
  "tr_OperatorArtifactInputID (newTransition f ch n r a k j e) = None"
  "tr_Actor (newTransition f ch n r a k j e) = ActorDeterministicController"
  "tr_Journal (newTransition f ch n r a k j e) = j" "tr_JournalKind (newTransition f ch n r a k j e) = k"
  "tr_EvidenceRefs (newTransition f ch n r a k j e) = e"
  "tr_InterruptionPriority (newTransition f ch n r a k j e) = None"
  by (simp_all add: newTransition_def Let_def)

text \<open>The artifacts come first, one Transition each, in their order.\<close>

definition journalsArtifact :: "authoritativeChange \<Rightarrow> operatorArtifactInput \<Rightarrow> transition \<Rightarrow> bool" where
  "journalsArtifact ch a t \<longleftrightarrow> recordsCommit ch t \<and> tr_Reason t = ReasonOperatorArtifactRecorded \<and>
     tr_OperatorArtifactInputID t = Some (oai_InputID a) \<and> tr_Actor t = ActorAttributedOperator"

lemma artifactTransition_journals:
  "artifactTransition f ch a n = Inr t \<Longrightarrow> journalsArtifact ch a t \<and> tr_Sequence t = n"
  by (auto simp: artifactTransition_def journalsArtifact_def Let_def split: if_splits sum.splits)

lemma artifactTransitions_journals:
  "artifactTransitions f ch n as = Inr ts \<Longrightarrow>
     list_all2 (journalsArtifact ch) as ts \<and> map tr_Sequence ts = [n .. n + int (length as) - 1]"
proof (induction f ch n as arbitrary: ts rule: artifactTransitions.induct)
  case (2 f ch n a as)
  then obtain t ts' where t: "artifactTransition f ch a n = Inr t" "artifactTransitions f ch (n + 1) as = Inr ts'" "ts = t # ts'"
    by (auto split: sum.splits)
  moreover from 2(1) [OF t(1) t(2)] have "map tr_Sequence ts' = [n + 1 .. n + 1 + int (length as) - 1]"
    "list_all2 (journalsArtifact ch) as ts'" by blast+
  ultimately show ?case
    using artifactTransition_journals [OF t(1)] by (simp add: upto_rec1 [of n "n + int (length as)"] add_ac)
qed simp

lemma controllerTransition_records:
  "recordsCommit ch (controllerTransition f ch r n) \<and> tr_Sequence (controllerTransition f ch r n) = n \<and>
   tr_Reason (controllerTransition f ch r n) = r"
  by (simp add: controllerTransition_def Let_def split_beta)

lemma followUps_record:
  "recordsCommit ch (judgmentTransition f ch j n)" "tr_Sequence (judgmentTransition f ch j n) = n"
  "tr_Reason (judgmentTransition f ch j n) = ReasonOperatorContractChanged"
  "recordsCommit ch (expectedBehaviorTransition f ch j n)" "tr_Sequence (expectedBehaviorTransition f ch j n) = n"
  "tr_Reason (expectedBehaviorTransition f ch j n) = ReasonOperatorContractChanged"
  by (simp_all add: judgmentTransition_def expectedBehaviorTransition_def)

lemma selectControllerReason_not_artifact:
  "selectControllerReason ch = Some r \<Longrightarrow> r \<noteq> ReasonOperatorArtifactRecorded"
  by (auto simp: selectControllerReason_def Let_def split: option.splits if_splits)

lemma controllerTransitions_record:
  shows "map tr_Sequence (controllerTransitions f ch n) = [n .. n + int (length (controllerTransitions f ch n)) - 1]"
    and "list_all (\<lambda>t. recordsCommit ch t \<and> tr_Reason t \<noteq> ReasonOperatorArtifactRecorded) (controllerTransitions f ch n)"
    and "length (controllerTransitions f ch n) \<le> 3"
  using selectControllerReason_not_artifact [of ch] controllerTransition_records [of ch f _ n]
  by (auto simp: controllerTransitions_def Let_def followUps_record upto_rec1 split: option.split)

lemma BuildTransitions_Inr:
  assumes "BuildTransitions f ch = Inr ts"
  obtains arts where "validateChange ch = None"
    and "artifactTransitions f ch (priorSequence ch + 1) (ch_OperatorArtifacts ch) = Inr arts"
    and "ts = arts @ controllerTransitions f ch (priorSequence ch + 1 + int (length arts))"
    and "list_all (\<lambda>t. Transition_Validate t = None) ts"
  using assms by (auto simp: BuildTransitions_def Let_def simp del: map_append split: option.splits sum.splits)

lemma upto_join: "0 \<le> i \<Longrightarrow> 0 \<le> j \<Longrightarrow> [m + 1 .. m + i] @ [m + 1 + i .. m + i + j] = [m + 1 .. m + i + j]"
  using upto_split1 [of "m + 1" "m + 1 + i" "m + i + j"] upto_empty [of "m + i + j" "m + 1 + i"]
  by (cases "j = 0") (simp_all add: algebra_simps)

lemma BuildTransitions_sequence:
  assumes "BuildTransitions f ch = Inr ts"
  shows "map tr_Sequence ts = [priorSequence ch + 1 .. priorSequence ch + int (length ts)]"
proof -
  from assms obtain arts where a: "artifactTransitions f ch (priorSequence ch + 1) (ch_OperatorArtifacts ch) = Inr arts"
    "ts = arts @ controllerTransitions f ch (priorSequence ch + 1 + int (length arts))" by (rule BuildTransitions_Inr)
  from artifactTransitions_journals [OF a(1)]
  have "map tr_Sequence arts = [priorSequence ch + 1 .. priorSequence ch + int (length arts)]"
    by (auto dest: list_all2_lengthD)
  with a(2) controllerTransitions_record(1) [of f ch "priorSequence ch + 1 + int (length arts)"]
    upto_join [of "int (length arts)" "int (length ts - length arts)" "priorSequence ch"] show ?thesis
    by (simp add: algebra_simps)
qed

lemma BuildTransitions_records:
  assumes "BuildTransitions f ch = Inr ts"
  shows "list_all (recordsCommit ch) ts"
proof -
  from assms obtain arts where a: "artifactTransitions f ch (priorSequence ch + 1) (ch_OperatorArtifacts ch) = Inr arts"
    "ts = arts @ controllerTransitions f ch (priorSequence ch + 1 + int (length arts))" by (rule BuildTransitions_Inr)
  from artifactTransitions_journals [OF a(1)] have "list_all2 (journalsArtifact ch) (ch_OperatorArtifacts ch) arts" by blast
  then have "list_all (recordsCommit ch) arts" by (induction rule: list_all2_induct) (simp_all add: journalsArtifact_def)
  with a(2) controllerTransitions_record(2) [of ch f "priorSequence ch + 1 + int (length arts)"] show ?thesis
    by (auto simp: list_all_iff)
qed

section \<open>Materiality is semantic\<close>

text \<open>
  Two contracts differ materially in more than their deadline and the order of their triggers, and two
  conclusions in more than their prose and the order of their limitation codes.
\<close>

definition contractSame :: "actionContract \<Rightarrow> actionContract \<Rightarrow> bool" where
  "contractSame c d \<longleftrightarrow> ac_NextActor c = ac_NextActor d \<and> ac_AlertINTAction c = ac_AlertINTAction d \<and>
     ac_AlertINTStatus c = ac_AlertINTStatus d \<and> ac_OperatorActionRequired c = ac_OperatorActionRequired d \<and>
     ac_WaitReason c = ac_WaitReason d \<and> mset (ac_NextUpdateOn c) = mset (ac_NextUpdateOn d)"

definition conclusionSame :: "assessmentConclusion \<Rightarrow> assessmentConclusion \<Rightarrow> bool" where
  "conclusionSame a b \<longleftrightarrow> persistenceText (co_Persistence a) = persistenceText (co_Persistence b) \<and>
     impactText (co_Impact a) = impactText (co_Impact b) \<and> noveltyText (co_Novelty a) = noveltyText (co_Novelty b) \<and>
     causalityText (co_Causality a) = causalityText (co_Causality b) \<and>
     evidenceQualityText (co_EvidenceQuality a) = evidenceQualityText (co_EvidenceQuality b) \<and>
     co_SufficientReasonCode a = co_SufficientReasonCode b \<and> mset (co_LimitationCodes a) = mset (co_LimitationCodes b)"

lemma contractSame_tuple: "contractSame c d \<Longrightarrow> operatorContractTuple c = operatorContractTuple d"
proof -
  assume same: "contractSame c d"
  then have "sortStrings (map nextUpdateOnText (ac_NextUpdateOn c)) = sortStrings (map nextUpdateOnText (ac_NextUpdateOn d))"
    by (intro sortStrings_perm) (simp add: contractSame_def)
  with same show ?thesis by (simp add: operatorContractTuple_def contractSame_def)
qed

lemma sortStrings_eq_iff: "sortStrings xs = sortStrings ys \<longleftrightarrow> mset xs = mset ys"
  using sortStrings_perm by (metis mset_sort sortStrings_def)

lemma tupleOf_eq_iff:
  "tupleOf lc att c a m = tupleOf lc' att' d b n \<longleftrightarrow>
     lifecycleText lc = lifecycleText lc' \<and> attentionText att = attentionText att' \<and>
     operatorContractTuple c = operatorContractTuple d \<and> rel_option conclusionSame a b \<and>
     recurrenceMilestone m = recurrenceMilestone n"
  by (cases a; cases b) (auto simp: tupleOf_def conclusionSame_def sortStrings_eq_iff)

definition briefingSame :: "operatorBriefing option \<Rightarrow> operatorBriefing option \<Rightarrow> bool" where
  "briefingSame a b \<longleftrightarrow> map_option briefingMaterialityView a = map_option briefingMaterialityView b"

lemma briefingSame_unchanged: "briefingSame a b \<Longrightarrow> \<not> operatorBriefingChanged a b"
  by (cases a; cases b) (simp_all add: briefingSame_def operatorBriefingChanged_def jOpt_def)

definition commitRepeats :: "authoritativeChange \<Rightarrow> transition \<Rightarrow> bool" where
  "commitRepeats ch p \<longleftrightarrow>
     lifecycleText (si_Lifecycle (ch_Situation ch)) = lifecycleText (tr_Lifecycle p) \<and>
     attentionText (si_Attention (ch_Situation ch)) = attentionText (tr_Attention p) \<and>
     contractSame (as_ActionContract (ch_Assessment ch)) (tr_ActionContract p) \<and>
     rel_option conclusionSame (pf_Assessment (ch_Projection ch)) (pf_Assessment (tr_Projection p)) \<and>
     recurrenceMilestone (ch_RecurrenceCount ch) =
       recurrenceMilestone (case ch_PriorSummary ch of None \<Rightarrow> 0 | Some s \<Rightarrow> es_RecurrenceCount s) \<and>
     \<not> triageStateChanged ch \<and>
     CoverageLimitationCodes (tr_Projection p) = CoverageLimitationCodes (ch_Projection ch) \<and>
     briefingSame (pf_Briefing (tr_Projection p)) (pf_Briefing (ch_Projection ch))"

lemma commitRepeats_no_reason:
  assumes "ch_PriorTransition ch = Some p" and "commitRepeats ch p"
  shows "selectControllerReason ch = None"
proof -
  from assms(2) have "currentTuple ch = priorTuple ch p"
    unfolding currentTuple_def priorTuple_def commitRepeats_def tupleOf_eq_iff using contractSame_tuple by blast
  with assms briefingSame_unchanged show ?thesis
    by (simp add: selectControllerReason_def commitRepeats_def coverageChanged_def)
qed

lemma commitRepeats_no_history:
  assumes "validateChange ch = None" and "ch_PriorTransition ch = Some p" and "commitRepeats ch p"
    and "ch_OperatorArtifacts ch = []"
  shows "BuildTransitions f ch = Inr []"
  using assms commitRepeats_no_reason [OF assms(2,3)]
  by (simp add: BuildTransitions_def controllerTransitions_def)

text \<open>What each reason asserts of the change it names, in the order of precedence.\<close>

definition reasonWarranted :: "authoritativeChange \<Rightarrow> transition \<Rightarrow> transitionReason \<Rightarrow> bool" where
  "reasonWarranted ch p r =
     (let lc = si_Lifecycle (ch_Situation ch); c = as_ActionContract (ch_Assessment ch) in
      case r of
        ReasonRecovered \<Rightarrow> lc = LifecycleRecovered
      | ReasonClosedUnknown \<Rightarrow> lc = LifecycleClosedUnknown
      | ReasonRecoveryFailed \<Rightarrow> tr_Lifecycle p = LifecycleRecoveryPending \<and> lc = LifecycleActive
      | ReasonRecoveryObserved \<Rightarrow> tr_Lifecycle p \<noteq> LifecycleRecoveryPending \<and> lc = LifecycleRecoveryPending
      | ReasonInvestigationConcluded \<Rightarrow> investigationCurrent (tr_ActionContract p) \<and> \<not> investigationCurrent c \<and>
          as_SufficientReason (ch_Assessment ch) \<noteq> None
      | ReasonInvestigationStarted \<Rightarrow> investigationCurrent c \<and> \<not> investigationCurrent (tr_ActionContract p) \<and>
          (\<forall>s. ch_PriorSummary ch = Some s \<longrightarrow> \<not> es_InvestigationStarted s)
      | ReasonAttentionChanged \<Rightarrow> attentionText (si_Attention (ch_Situation ch)) \<noteq> attentionText (tr_Attention p)
      | ReasonOperatorContractChanged \<Rightarrow> \<not> contractSame c (tr_ActionContract p) \<or>
          judgmentOf (pf_Briefing (tr_Projection p)) \<noteq> judgmentOf (pf_Briefing (ch_Projection ch)) \<or>
          behaviorOf (pf_Briefing (tr_Projection p)) \<noteq> behaviorOf (pf_Briefing (ch_Projection ch))
      | ReasonRecurrenceMilestone \<Rightarrow> recurrenceMilestone (ch_RecurrenceCount ch) \<noteq>
          recurrenceMilestone (case ch_PriorSummary ch of None \<Rightarrow> 0 | Some s \<Rightarrow> es_RecurrenceCount s)
      | ReasonTriageStateChanged \<Rightarrow> triageStateChanged ch
      | ReasonMaterialAssessmentChanged \<Rightarrow> \<not> commitRepeats ch p
      | _ \<Rightarrow> False)"

lemma tupleOf_fields [simp]:
  "mt_Attention (tupleOf lc att c a n) = attentionText att" "mt_Contract (tupleOf lc att c a n) = operatorContractTuple c"
  "mt_RecurrenceMilestone (tupleOf lc att c a n) = recurrenceMilestone n"
  by (simp_all add: tupleOf_def Let_def split: option.split)

lemma projections_changed:
  "expectedJudgmentProjectionChanged a b \<Longrightarrow> judgmentOf a \<noteq> judgmentOf b"
  "expectedBehaviorProjectionChanged a b \<Longrightarrow> behaviorOf a \<noteq> behaviorOf b"
  by (auto simp: expectedJudgmentProjectionChanged_def expectedBehaviorProjectionChanged_def)

lemma selectControllerReason_warranted:
  assumes "ch_PriorTransition ch = Some p" and "selectControllerReason ch = Some r"
  shows "reasonWarranted ch p r"
proof -
  have "\<not> commitRepeats ch p" using commitRepeats_no_reason [OF assms(1)] assms(2) by auto
  with assms contractSame_tuple projections_changed show ?thesis
    by (auto simp: selectControllerReason_def reasonWarranted_def Let_def currentTuple_def priorTuple_def
        split: if_splits option.splits)
qed

text \<open>
  The source compares digests.  \<open>digestsTellApart\<close> says that for this change none of the compared pairs collides; then the digests decide
  exactly what the values do, and the reason is the first one in the order of precedence that the values warrant.
\<close>

definition digestsTellApart :: "authoritativeChange \<Rightarrow> transition \<Rightarrow> bool" where
  "digestsTellApart ch p \<longleftrightarrow>
     (let c = as_ActionContract (ch_Assessment ch); pb = pf_Briefing (tr_Projection p); cb = pf_Briefing (ch_Projection ch) in
      (canonicalDigest (jMaterialTuple (currentTuple ch)) = canonicalDigest (jMaterialTuple (priorTuple ch p)) \<longrightarrow>
         currentTuple ch = priorTuple ch p) \<and>
      (operatorContractTuple c = operatorContractTuple (tr_ActionContract p) \<longrightarrow> contractSame c (tr_ActionContract p)) \<and>
      (\<not> expectedJudgmentProjectionChanged pb cb \<longrightarrow> judgmentOf pb = judgmentOf cb) \<and>
      (\<not> expectedBehaviorProjectionChanged pb cb \<longrightarrow> behaviorOf pb = behaviorOf cb) \<and>
      (\<not> coverageChanged (tr_Projection p) (ch_Projection ch) \<longrightarrow>
         CoverageLimitationCodes (tr_Projection p) = CoverageLimitationCodes (ch_Projection ch)) \<and>
      (\<not> operatorBriefingChanged pb cb \<longrightarrow> briefingSame pb cb))"

definition reasonPrecedence :: "transitionReason list" where
  "reasonPrecedence = [ReasonRecovered, ReasonClosedUnknown, ReasonRecoveryFailed, ReasonRecoveryObserved,
     ReasonInvestigationConcluded, ReasonInvestigationStarted, ReasonAttentionChanged, ReasonOperatorContractChanged,
     ReasonRecurrenceMilestone, ReasonTriageStateChanged, ReasonMaterialAssessmentChanged]"

lemma selectControllerReason_first:
  assumes prior: "ch_PriorTransition ch = Some p" and apart: "digestsTellApart ch p"
  shows "selectControllerReason ch = (if commitRepeats ch p then None else find (reasonWarranted ch p) reasonPrecedence)"
proof (cases "commitRepeats ch p")
  case True
  with commitRepeats_no_reason [OF prior] show ?thesis by simp
next
  case False
  let ?c = "as_ActionContract (ch_Assessment ch)" and ?pb = "pf_Briefing (tr_Projection p)" and ?cb = "pf_Briefing (ch_Projection ch)"
  note apart' = apart [unfolded digestsTellApart_def Let_def]
  have contract: "operatorContractTuple ?c = operatorContractTuple (tr_ActionContract p) \<longleftrightarrow> contractSame ?c (tr_ActionContract p)"
    using apart' contractSame_tuple by blast
  have projections: "expectedJudgmentProjectionChanged ?pb ?cb \<longleftrightarrow> judgmentOf ?pb \<noteq> judgmentOf ?cb"
    "expectedBehaviorProjectionChanged ?pb ?cb \<longleftrightarrow> behaviorOf ?pb \<noteq> behaviorOf ?cb"
    using apart' projections_changed by blast+
  have loud: "\<not> (canonicalDigest (jMaterialTuple (currentTuple ch)) = canonicalDigest (jMaterialTuple (priorTuple ch p)) \<and>
      \<not> triageStateChanged ch \<and> \<not> coverageChanged (tr_Projection p) (ch_Projection ch) \<and> \<not> operatorBriefingChanged ?pb ?cb)"
    using False apart' unfolding commitRepeats_def currentTuple_def priorTuple_def tupleOf_eq_iff by blast
  have fields: "mt_Attention (currentTuple ch) = attentionText (si_Attention (ch_Situation ch))"
    "mt_Attention (priorTuple ch p) = attentionText (tr_Attention p)" "mt_Contract (currentTuple ch) = operatorContractTuple ?c"
    "mt_Contract (priorTuple ch p) = operatorContractTuple (tr_ActionContract p)"
    "mt_RecurrenceMilestone (currentTuple ch) = recurrenceMilestone (ch_RecurrenceCount ch)"
    "mt_RecurrenceMilestone (priorTuple ch p) = recurrenceMilestone (case ch_PriorSummary ch of None \<Rightarrow> 0 | Some s \<Rightarrow> es_RecurrenceCount s)"
    by (simp_all add: currentTuple_def priorTuple_def)
  have started: "(case ch_PriorSummary ch of None \<Rightarrow> True | Some s \<Rightarrow> \<not> es_InvestigationStarted s) \<longleftrightarrow>
      (\<forall>s. ch_PriorSummary ch = Some s \<longrightarrow> \<not> es_InvestigationStarted s)"
    by (cases "ch_PriorSummary ch") simp_all
  let ?lc = "si_Lifecycle (ch_Situation ch)" and ?was = "investigationCurrent (tr_ActionContract p)" and ?now = "investigationCurrent ?c"
  have warranted: "reasonWarranted ch p ReasonRecovered = (?lc = LifecycleRecovered)"
    "reasonWarranted ch p ReasonClosedUnknown = (?lc = LifecycleClosedUnknown)"
    "reasonWarranted ch p ReasonRecoveryFailed = (tr_Lifecycle p = LifecycleRecoveryPending \<and> ?lc = LifecycleActive)"
    "reasonWarranted ch p ReasonRecoveryObserved = (?lc = LifecycleRecoveryPending \<and> tr_Lifecycle p \<noteq> LifecycleRecoveryPending)"
    "reasonWarranted ch p ReasonInvestigationConcluded = (?was \<and> \<not> ?now \<and> as_SufficientReason (ch_Assessment ch) \<noteq> None)"
    "reasonWarranted ch p ReasonInvestigationStarted =
       (?now \<and> \<not> ?was \<and> (case ch_PriorSummary ch of None \<Rightarrow> True | Some s \<Rightarrow> \<not> es_InvestigationStarted s))"
    "reasonWarranted ch p ReasonAttentionChanged = (mt_Attention (currentTuple ch) \<noteq> mt_Attention (priorTuple ch p))"
    "reasonWarranted ch p ReasonOperatorContractChanged =
       ((expectedJudgmentProjectionChanged ?pb ?cb \<or> expectedBehaviorProjectionChanged ?pb ?cb) \<or>
        mt_Contract (currentTuple ch) \<noteq> mt_Contract (priorTuple ch p))"
    "reasonWarranted ch p ReasonRecurrenceMilestone = (mt_RecurrenceMilestone (currentTuple ch) \<noteq> mt_RecurrenceMilestone (priorTuple ch p))"
    "reasonWarranted ch p ReasonTriageStateChanged = triageStateChanged ch"
    "reasonWarranted ch p ReasonMaterialAssessmentChanged = True"
    using False by (auto simp: reasonWarranted_def Let_def fields contract projections started)
  have either: "(if a \<or> b then x else y) = (if a then x else if b then x else y)" for a b and x y :: "transitionReason option" by simp
  show ?thesis
    unfolding selectControllerReason_def Let_def prior option.case if_not_P [OF loud] if_not_P [OF False]
    unfolding reasonPrecedence_def find.simps warranted either [of "_ \<or> _"] if_True if_distrib [of Some] by (rule refl)
qed

text \<open>The rungs never exceed the count and never fall.\<close>

lemma recurrenceMilestone_le: "0 \<le> n \<Longrightarrow> recurrenceMilestone n \<le> n"
  by (auto simp: recurrenceMilestone_def)

lemma recurrenceMilestone_mono: "m \<le> n \<Longrightarrow> recurrenceMilestone m \<le> recurrenceMilestone n"
  by (auto simp: recurrenceMilestone_def)

section \<open>Authorship\<close>

text \<open>
  The reasons the model can be the author of: an investigation's conclusion only when the conclusion differs from the recorded one.
\<close>

definition modelAuthored :: "authoritativeChange \<Rightarrow> transitionReason \<Rightarrow> bool" where
  "modelAuthored ch r \<longleftrightarrow>
     r \<in> {ReasonFirstAuthoritativeState, ReasonMaterialAssessmentChanged, ReasonAttentionChanged} \<or>
     r = ReasonInvestigationConcluded \<and> (\<forall>p. ch_PriorTransition ch = Some p \<longrightarrow>
       \<not> rel_option conclusionSame (pf_Assessment (ch_Projection ch)) (pf_Assessment (tr_Projection p)))"

lemma conclusionContentChanged_differs:
  assumes "conclusionContentChanged ch" and "ch_PriorTransition ch = Some p"
  shows "\<not> rel_option conclusionSame (pf_Assessment (ch_Projection ch)) (pf_Assessment (tr_Projection p))"
proof
  assume "rel_option conclusionSame (pf_Assessment (ch_Projection ch)) (pf_Assessment (tr_Projection p))"
  then have "tupleOf l a z (pf_Assessment (ch_Projection ch)) 0 = tupleOf l a z (pf_Assessment (tr_Projection p)) 0" for l a z
    unfolding tupleOf_eq_iff by simp
  with assms show False by (simp add: conclusionContentChanged_def)
qed

lemma controllerActor_llm:
  "controllerActor ch r = ActorLLM \<Longrightarrow> ch_Derivation ch = DerivationModelValidated \<and> modelAuthored ch r"
  using conclusionContentChanged_differs [of ch]
  by (auto simp: controllerActor_def modelAuthored_def split: if_splits transitionReason.splits)

lemma controllerActor_cases: "controllerActor ch r \<in> {ActorDeterministicController, ActorLLM}"
  by (simp add: controllerActor_def split: transitionReason.split)

lemma expectedBehaviorJournal_actor:
  "expectedBehaviorJournal ch = Some (j, a) \<Longrightarrow> a \<in> {ActorDeterministicController, ActorAttributedOperator}"
  by (auto simp: expectedBehaviorJournal_def Let_def split: option.splits if_splits)

lemma endedJudgmentJournal_actor:
  "snd (endedJudgmentJournal ch j p) \<in> {ActorDeterministicController, ActorAttributedOperator}"
  by (auto simp: endedJudgmentJournal_def Let_def split: option.splits)

lemma expectedJudgmentJournal_actor:
  "expectedJudgmentJournal ch = Some (j, a) \<Longrightarrow> a \<in> {ActorDeterministicController, ActorAttributedOperator}"
  using endedJudgmentJournal_actor [of ch]
  by (auto simp: expectedJudgmentJournal_def Let_def split: option.splits if_splits) (metis snd_conv insertE singletonD)+

lemma withJournal_actor:
  "tr_Actor (withJournal j t) = (case j of None \<Rightarrow> tr_Actor t | Some (x, a) \<Rightarrow> a)"
  by (simp add: withJournal_def split: option.split)

lemma controllerTransition_actor:
  "tr_Actor (controllerTransition f ch r n) = ActorLLM \<Longrightarrow> ch_Derivation ch = DerivationModelValidated \<and> modelAuthored ch r"
  using controllerActor_llm [of ch r] expectedBehaviorJournal_actor [of ch] expectedJudgmentJournal_actor [of ch]
  by (auto simp: controllerTransition_def Let_def split_beta withJournal_actor split: if_splits option.splits)

lemma BuildTransitions_llm:
  assumes "BuildTransitions f ch = Inr ts" and "t \<in> set ts" and "tr_Actor t = ActorLLM"
  shows "ch_Derivation ch = DerivationModelValidated \<and> modelAuthored ch (tr_Reason t)"
proof -
  from assms(1) obtain arts where a: "artifactTransitions f ch (priorSequence ch + 1) (ch_OperatorArtifacts ch) = Inr arts"
    "ts = arts @ controllerTransitions f ch (priorSequence ch + 1 + int (length arts))" by (rule BuildTransitions_Inr)
  have "\<forall>t \<in> set arts. tr_Actor t = ActorAttributedOperator"
    using artifactTransitions_journals [OF a(1)] by (auto simp: list_all2_conv_all_nth in_set_conv_nth journalsArtifact_def)
  with a(2) assms(2,3) have "t \<in> set (controllerTransitions f ch (priorSequence ch + 1 + int (length arts)))" by auto
  then show ?thesis
    using assms(3) controllerTransition_actor [of f ch] controllerTransition_records [of ch f]
      expectedBehaviorJournal_actor [of ch] expectedJudgmentJournal_actor [of ch]
    by (auto simp: controllerTransitions_def Let_def judgmentTransition_def expectedBehaviorTransition_def withJournal_actor
        split: option.splits if_splits)
qed

section \<open>The derivation succeeds\<close>

text \<open>
  What it relies on beyond \<open>validateChange\<close>: a UUID function with bounded identifiers, a contract that fits
  the lifecycle, identifiers that are not blank when set, well-formed artifacts, and expected-condition
  projections whose operator is bounded and whose instants are UTC.
\<close>

definition artifactReady :: "operatorArtifactInput \<Rightarrow> bool" where
  "artifactReady a \<longleftrightarrow> \<not> blank (oai_InputID a) \<and> \<not> tIsZero (oai_OccurredAt a) \<and> tutc (oai_OccurredAt a) \<and>
     (\<exists>kr. artifactRef a = Inr kr)"

definition instantReady :: "gtime \<Rightarrow> bool" where "instantReady t \<longleftrightarrow> \<not> tIsZero t \<and> tutc t"

definition judgmentReady :: "expectedJudgmentProjection \<Rightarrow> bool" where
  "judgmentReady x \<longleftrightarrow> length (jp_AssertedOperator x) \<le> maxIdentifierLength \<and> instantReady (jp_ValidUntil x)"

definition behaviorReady :: "expectedBehaviorProjection \<Rightarrow> bool" where
  "behaviorReady x \<longleftrightarrow> length (xp_AssertedOperator x) \<le> maxIdentifierLength \<and> pred_option instantReady (xp_Boundary x)"

definition briefingReady :: "operatorBriefing option \<Rightarrow> bool" where
  "briefingReady b \<longleftrightarrow> pred_option judgmentReady (judgmentOf b) \<and> pred_option behaviorReady (behaviorOf b)"

definition changeReady :: "(string \<Rightarrow> string) \<Rightarrow> authoritativeChange \<Rightarrow> bool" where
  "changeReady f ch \<longleftrightarrow>
     validateChange ch = None \<and> (\<forall>k. boundedID (f k)) \<and> 0 \<le> priorSequence ch \<and>
     pred_option (\<lambda>i. \<not> blank i) (ch_AssessmentID ch) \<and>
     ActionContract_validate (Terminal (si_Lifecycle (ch_Situation ch))) (as_ActionContract (ch_Assessment ch)) = None \<and>
     pred_option (\<lambda>r. sr_CandidateID r = [] \<or> \<not> blank (sr_CandidateID r)) (as_SufficientReason (ch_Assessment ch)) \<and>
     list_all artifactReady (ch_OperatorArtifacts ch) \<and>
     briefingReady (pf_Briefing (ch_Projection ch)) \<and>
     pred_option (\<lambda>p. briefingReady (pf_Briefing (tr_Projection p))) (ch_PriorTransition ch) \<and>
     pred_option (\<lambda>j. length (sj_AssertedOperator j) \<le> maxIdentifierLength) (ch_Judgment ch)"

lemma contractActionStatus_length:
  assumes "ActionContract_validate b c = None"
  shows "length (contractActionStatus c) \<le> maxIdentifierLength"
  using assms
  by (auto simp: ActionContract_validate_iff contractCodesClosed_def contractActionStatus_def derefAlertINTStatus_def
      AlertINTStatus_Validate_def validateEnum_None_iff alertINTStatusText_def maxIdentifierLength_def split: option.split)

lemmas journal_checks = JournalData_Validate_def validate_simps zeroJournal_def instantReady_def
  maxJournalHeadlineLength_def maxJournalDetailLength_def maxIdentifierLength_def not_less

lemma boundedJournal_valid:
  assumes "length (jd_ActionStatus j) \<le> maxIdentifierLength" and "instantReady (jd_OccurredAt j)" and "0 \<le> jd_RecurrenceCount j"
    and "length (jd_Headline j) \<le> maxHistoryHeadline" and "length (jd_Detail j) \<le> maxHistoryDetail"
    and "length (jd_AttributedActor j) \<le> maxHistoryIdentifier"
    and "jd_JudgmentValidUntil j = None" and "jd_ExpectedBehaviorBoundary j = None"
    and "jd_JudgmentChange j = JudgmentChangeNone" and "jd_ExpectedBehaviorChange j = ExpectedBehaviorChangeNone"
  shows "JournalData_Validate j = None"
  using assms by (simp add: journal_checks maxHistoryHeadline_def maxHistoryDetail_def maxHistoryIdentifier_def)

lemma expectedBehaviorReasonDetail_length: "length (expectedBehaviorReasonDetail r src) \<le> 100"
  by (simp add: expectedBehaviorReasonDetail_def Let_def split: expectedBehaviorReason.split)

lemma expectedJudgmentInvalidationDetail_length: "length (expectedJudgmentInvalidationDetail ch) \<le> 100"
  by (simp add: expectedJudgmentInvalidationDetail_def split: judgmentApplicabilityReason.split)

lemma expectedBehaviorJournal_valid:
  assumes "expectedBehaviorJournal ch = Some (j, a)" and "instantReady (ch_Now ch)"
    and "length (contractActionStatus (as_ActionContract (ch_Assessment ch))) \<le> maxIdentifierLength"
    and "pred_option behaviorReady (behaviorOf (pf_Briefing (ch_Projection ch)))"
  shows "JournalData_Validate j = None"
proof -
  have detail: "length (expectedBehaviorReasonDetail r src) \<le> 2000" for r src
    using expectedBehaviorReasonDetail_length [of r src] by linarith
  from assms show ?thesis
    by (auto simp: expectedBehaviorJournal_def Let_def journal_checks behaviorReady_def pred_option_iff detail
        split: option.splits if_splits)
qed

lemma endedJudgmentJournal_valid:
  assumes "instantReady (jd_OccurredAt j)" and "length (jd_ActionStatus j) \<le> maxIdentifierLength"
    and "j = zeroJournal\<lparr>jd_OccurredAt := jd_OccurredAt j, jd_ActionStatus := jd_ActionStatus j\<rparr>"
    and "pred_option judgmentReady prior"
    and "pred_option (\<lambda>x. length (sj_AssertedOperator x) \<le> maxIdentifierLength) (ch_Judgment ch)"
  shows "JournalData_Validate (fst (endedJudgmentJournal ch j prior)) = None"
proof -
  have detail: "length (expectedJudgmentInvalidationDetail ch) \<le> 2000"
    using expectedJudgmentInvalidationDetail_length [of ch] by linarith
  obtain t st where j: "j = zeroJournal\<lparr>jd_OccurredAt := t, jd_ActionStatus := st\<rparr>" using assms(3) by blast
  from assms(1,2,4,5) show ?thesis
    unfolding j by (cases prior; cases "ch_Judgment ch")
      (auto simp: endedJudgmentJournal_def Let_def journal_checks judgmentReady_def detail)
qed

lemma expectedJudgmentJournal_valid:
  assumes "expectedJudgmentJournal ch = Some (j, a)" and "instantReady (ch_Now ch)"
    and "length (contractActionStatus (as_ActionContract (ch_Assessment ch))) \<le> maxIdentifierLength"
    and "pred_option judgmentReady (judgmentOf (pf_Briefing (ch_Projection ch)))"
    and "\<And>p. ch_PriorTransition ch = Some p \<Longrightarrow> pred_option judgmentReady (judgmentOf (pf_Briefing (tr_Projection p)))"
    and "pred_option (\<lambda>x. length (sj_AssertedOperator x) \<le> maxIdentifierLength) (ch_Judgment ch)"
  shows "JournalData_Validate j = None"
proof -
  from assms(1) obtain p where p: "ch_PriorTransition ch = Some p" by (auto simp: expectedJudgmentJournal_def split: option.splits)
  let ?j = "zeroJournal\<lparr>jd_OccurredAt := ch_Now ch, jd_ActionStatus := contractActionStatus (as_ActionContract (ch_Assessment ch))\<rparr>"
  have ended: "JournalData_Validate (fst (endedJudgmentJournal ch ?j (judgmentOf (pf_Briefing (tr_Projection p))))) = None"
    by (rule endedJudgmentJournal_valid) (use assms(2,3,6) assms(5) [OF p] in simp_all)
  show ?thesis
  proof (cases "judgmentOf (pf_Briefing (ch_Projection ch))")
    case None
    with assms(1) p have "(j, a) = endedJudgmentJournal ch ?j (judgmentOf (pf_Briefing (tr_Projection p)))"
      by (simp add: expectedJudgmentJournal_def Let_def split: if_splits)
    then show ?thesis using ended by (metis fst_conv)
  next
    case (Some x)
    with assms(1-4) p show ?thesis
      by (auto simp: expectedJudgmentJournal_def Let_def journal_checks judgmentReady_def split: if_splits)
  qed
qed

lemma changeReady_now: "changeReady f ch \<Longrightarrow> instantReady (ch_Now ch)"
  by (simp add: changeReady_def validateChange_def instantReady_def validate_simps Let_def)

lemma changeReady_behavior_journal:
  assumes "changeReady f ch" and "expectedBehaviorJournal ch = Some (j, a)"
  shows "JournalData_Validate j = None"
  using assms(1) changeReady_now [OF assms(1)] contractActionStatus_length
  by (auto simp: changeReady_def briefingReady_def intro!: expectedBehaviorJournal_valid [OF assms(2)])

lemma changeReady_judgment_journal:
  assumes "changeReady f ch" and "expectedJudgmentJournal ch = Some (j, a)"
  shows "JournalData_Validate j = None"
  using assms(1) changeReady_now [OF assms(1)] contractActionStatus_length
  by (auto simp: changeReady_def briefingReady_def intro!: expectedJudgmentJournal_valid [OF assms(2)])

lemmas changeReady_journals = changeReady_behavior_journal changeReady_judgment_journal

text \<open>A Transition that records the commit is valid when its own fields are.\<close>

definition ownFieldsValid :: "transition \<Rightarrow> bool" where
  "ownFieldsValid t \<longleftrightarrow> boundedID (tr_ID t) \<and> 1 \<le> tr_Sequence t \<and> pred_option (\<lambda>i. \<not> blank i) (tr_SufficientReasonID t) \<and>
     pred_option (\<lambda>p. InterruptionPriority_Validate p = None) (tr_InterruptionPriority t) \<and>
     TransitionReason_Validate (tr_Reason t) = None \<and> JournalKind_Validate (tr_JournalKind t) = None \<and>
     JournalData_Validate (tr_Journal t) = None \<and>
     (tr_Reason t = ReasonOperatorArtifactRecorded \<longleftrightarrow> tr_OperatorArtifactInputID t \<noteq> None) \<and>
     pred_option (\<lambda>i. \<not> blank i) (tr_OperatorArtifactInputID t) \<and> length (tr_EvidenceRefs t) \<le> maxEvidenceRefs \<and>
     TransitionActor_Validate (tr_Actor t) = None"

lemma recordsCommit_valid:
  assumes "changeReady f ch" and "recordsCommit ch t" and "ownFieldsValid t"
  shows "Transition_Validate t = None"
proof -
  from assms(1) have v: "validateChange ch = None" by (simp add: changeReady_def)
  from assms(2) have "ProjectionFacts_Validate (tr_Projection t) = ProjectionFacts_Validate (ch_Projection ch)"
    by (simp add: recordsCommit_def sameProjection_valid)
  with assms v show ?thesis
    by (auto simp: Transition_Validate_def validate_simps recordsCommit_def ownFieldsValid_def changeReady_def
        validateChange_def Let_def boundedID_def not_less pred_option_iff)
qed

lemma canonicalRefs_length: "length (canonicalRefs refs) \<le> maxEvidenceRefs"
  by (simp add: canonicalRefs_def maxHistoryEvidenceRefs_def maxEvidenceRefs_def)

lemma newTransition_own:
  assumes "changeReady f ch"
  shows "boundedID (tr_ID (newTransition f ch n r a k j e))"
    and "pred_option (\<lambda>i. \<not> blank i) (tr_SufficientReasonID (newTransition f ch n r a k j e))"
  using assms by (auto simp: newTransition_def Let_def transitionIdentity_def changeReady_def split: option.split)

lemma withPriority_valid:
  "pred_option (\<lambda>p. InterruptionPriority_Validate p = None) (tr_InterruptionPriority t) \<Longrightarrow>
   pred_option (\<lambda>p. InterruptionPriority_Validate p = None) (tr_InterruptionPriority (withPriority ch (withDelta ch' t)))"
  by (simp add: withPriority_def withDelta_def DeriveInterruptionPriority_valid)

lemma actor_codes:
  "TransitionActor_Validate ActorDeterministicController = None" "TransitionActor_Validate ActorLLM = None"
  "TransitionActor_Validate ActorAttributedOperator = None"
  by (simp_all add: TransitionActor_Validate_def validateEnum_None_iff)


lemma withJournal_fields:
  "tr_Journal (withJournal j t) = (case j of None \<Rightarrow> tr_Journal t | Some (x, a) \<Rightarrow> x)"
  "tr_InterruptionPriority (withJournal j t) = tr_InterruptionPriority t"
  by (auto simp: withJournal_def split: option.split)

lemma journal_actor_valid:
  "expectedBehaviorJournal ch = Some (j, a) \<Longrightarrow> TransitionActor_Validate a = None"
  "expectedJudgmentJournal ch = Some (j, a) \<Longrightarrow> TransitionActor_Validate a = None"
  using expectedBehaviorJournal_actor [of ch j a] expectedJudgmentJournal_actor [of ch j a] by (auto simp: actor_codes)

lemma controllerTransition_own:
  assumes "changeReady f ch" and "selectControllerReason ch = Some r" and "1 \<le> n"
  shows "ownFieldsValid (controllerTransition f ch r n)"
proof -
  obtain h d where hd: "journalTextFor ch r = (h, d)" by fastforce
  have reason: "TransitionReason_Validate r = None" "r \<noteq> ReasonOperatorArtifactRecorded"
    using assms(2) by (auto simp: selectControllerReason_def Let_def TransitionReason_Validate_def validateEnum_None_iff
        split: option.splits if_splits)
  have kind: "JournalKind_Validate (journalKindFor r) = None"
    by (simp add: journalKindFor_def JournalKind_Validate_def validateEnum_None_iff split: transitionReason.split)
  have count: "0 \<le> ch_RecurrenceCount ch"
    using assms(1) by (simp add: changeReady_def validateChange_def Let_def validate_simps)
  have status: "length (contractActionStatus (as_ActionContract (ch_Assessment ch))) \<le> maxIdentifierLength"
    using assms(1) contractActionStatus_length by (auto simp: changeReady_def)
  have journal: "JournalData_Validate (zeroJournal
      \<lparr>jd_Headline := boundedText h maxHistoryHeadline, jd_Detail := boundedText d maxHistoryDetail,
       jd_ActionStatus := contractActionStatus (as_ActionContract (ch_Assessment ch)),
       jd_RecurrenceCount := ch_RecurrenceCount ch, jd_OccurredAt := ch_Now ch\<rparr>) = None"
    by (rule boundedJournal_valid)
      (use count status changeReady_now [OF assms(1)] boundedText_length in \<open>simp_all add: zeroJournal_def\<close>)
  have actor: "TransitionActor_Validate (controllerActor ch r) = None"
    using controllerActor_cases [of ch r] by (auto simp: actor_codes)
  show ?thesis
    using assms(3) reason kind journal actor changeReady_journals [OF assms(1)] journal_actor_valid [of ch]
      newTransition_own [OF assms(1)] canonicalRefs_length
    by (auto simp: controllerTransition_def hd Let_def ownFieldsValid_def withJournal_fields withJournal_actor
        controllerEvidenceRefs_def split: option.split intro!: withPriority_valid)
qed

lemma followUp_own:
  assumes "changeReady f ch" and "1 \<le> n" and "JournalData_Validate (fst ja) = None" and "TransitionActor_Validate (snd ja) = None"
  shows "ownFieldsValid (judgmentTransition f ch ja n)" and "ownFieldsValid (expectedBehaviorTransition f ch ja n)"
proof -
  have codes: "TransitionReason_Validate ReasonOperatorContractChanged = None"
    "JournalKind_Validate JournalOperatorContractChanged = None"
    by (simp_all add: TransitionReason_Validate_def JournalKind_Validate_def validateEnum_None_iff)
  have delta: "tr_InterruptionPriority (withDelta ch t) = tr_InterruptionPriority t" for t by (simp add: withDelta_def)
  show "ownFieldsValid (judgmentTransition f ch ja n)" and "ownFieldsValid (expectedBehaviorTransition f ch ja n)"
    using assms codes newTransition_own [OF assms(1)] canonicalRefs_length
    by (cases ja; auto simp: judgmentTransition_def expectedBehaviorTransition_def ownFieldsValid_def withJournal_fields
        withJournal_actor controllerEvidenceRefs_def delta intro!: withPriority_valid)+
qed

lemma artifactTransition_total:
  assumes "changeReady f ch" and "artifactReady a" and "1 \<le> n"
  obtains t where "artifactTransition f ch a n = Inr t" and "Transition_Validate t = None"
proof -
  from assms(2) obtain k ref where ref: "artifactRef a = Inr (k, ref)" unfolding artifactReady_def by fast
  then have kind: "JournalKind_Validate k = None"
    by (auto simp: artifactRef_def JournalKind_Validate_def validateEnum_None_iff split: if_splits option.splits)
  let ?j = "zeroJournal\<lparr>jd_Headline := boundedText (oai_Headline a) maxHistoryHeadline,
      jd_Detail := boundedText (oai_Detail a) maxHistoryDetail,
      jd_AttributedActor := boundedText (oai_AttributedActor a) maxHistoryIdentifier,
      jd_ActionStatus := contractActionStatus (as_ActionContract (ch_Assessment ch)),
      jd_RecurrenceCount := ch_RecurrenceCount ch, jd_OccurredAt := oai_OccurredAt a\<rparr>"
  let ?t = "(newTransition f ch n ReasonOperatorArtifactRecorded (oai_InputID a) k ?j [ref])
      \<lparr>tr_Actor := ActorAttributedOperator, tr_OperatorArtifactInputID := Some (oai_InputID a)\<rparr>"
  have count: "0 \<le> ch_RecurrenceCount ch"
    using assms(1) by (simp add: changeReady_def validateChange_def Let_def validate_simps)
  have status: "length (contractActionStatus (as_ActionContract (ch_Assessment ch))) \<le> maxIdentifierLength"
    using assms(1) contractActionStatus_length by (auto simp: changeReady_def)
  have journal: "JournalData_Validate ?j = None"
    by (rule boundedJournal_valid)
      (use count status assms(2) boundedText_length in \<open>simp_all add: zeroJournal_def artifactReady_def instantReady_def\<close>)
  have "ownFieldsValid ?t"
    using journal kind assms(2,3) newTransition_own [OF assms(1)] actor_codes(3)
    by (auto simp: ownFieldsValid_def artifactReady_def maxEvidenceRefs_def TransitionReason_Validate_def validateEnum_None_iff)
  then have "Transition_Validate ?t = None" by (intro recordsCommit_valid [OF assms(1)]) simp
  moreover have "artifactTransition f ch a n = Inr ?t"
    using assms(2) ref by (simp add: artifactTransition_def artifactReady_def)
  ultimately show ?thesis using that by blast
qed

lemma artifactTransitions_total:
  assumes "changeReady f ch" and "list_all artifactReady as" and "1 \<le> n"
  shows "\<exists>ts. artifactTransitions f ch n as = Inr ts \<and> list_all (\<lambda>t. Transition_Validate t = None) ts"
  using assms(2,3)
proof (induction as arbitrary: n)
  case (Cons a as)
  from Cons.prems have "list_all artifactReady as" "1 \<le> n + 1" by simp_all
  from Cons.IH [OF this] obtain ts where "artifactTransitions f ch (n + 1) as = Inr ts"
    "list_all (\<lambda>t. Transition_Validate t = None) ts" by blast
  moreover from Cons.prems have "artifactReady a" "1 \<le> n" by simp_all
  then obtain t where "artifactTransition f ch a n = Inr t" "Transition_Validate t = None"
    using artifactTransition_total [OF assms(1)] by blast
  ultimately show ?case by simp
qed simp

lemma controllerTransitions_valid:
  assumes "changeReady f ch" and "1 \<le> n"
  shows "list_all (\<lambda>t. Transition_Validate t = None) (controllerTransitions f ch n)"
proof -
  have valid: "ownFieldsValid t \<Longrightarrow> recordsCommit ch t \<Longrightarrow> Transition_Validate t = None" for t
    using recordsCommit_valid [OF assms(1)] by blast
  show ?thesis
    using assms controllerTransition_own [OF assms(1)] changeReady_journals [OF assms(1)] journal_actor_valid [of ch]
      controllerTransition_records [of ch f _ n]
    by (auto simp: controllerTransitions_def Let_def followUps_record split: option.split
        intro!: valid followUp_own [OF assms(1)])
qed

lemma BuildTransitions_total:
  assumes "changeReady f ch"
  obtains ts where "BuildTransitions f ch = Inr ts"
proof -
  from assms have "validateChange ch = None" "1 \<le> priorSequence ch + 1" "list_all artifactReady (ch_OperatorArtifacts ch)"
    by (simp_all add: changeReady_def)
  moreover from artifactTransitions_total [OF assms this(3,2)] obtain arts where
    "artifactTransitions f ch (priorSequence ch + 1) (ch_OperatorArtifacts ch) = Inr arts"
    "list_all (\<lambda>t. Transition_Validate t = None) arts" by blast
  moreover have "list_all (\<lambda>t. Transition_Validate t = None)
      (controllerTransitions f ch (priorSequence ch + 1 + int (length arts)))"
    using \<open>1 \<le> priorSequence ch + 1\<close> by (intro controllerTransitions_valid [OF assms]) simp
  ultimately have "firstErr (map Transition_Validate
      (arts @ controllerTransitions f ch (priorSequence ch + 1 + int (length arts)))) = None" by (simp only: firstErr_map_None list_all_append)
  with \<open>validateChange ch = None\<close> \<open>artifactTransitions f ch (priorSequence ch + 1) (ch_OperatorArtifacts ch) = Inr arts\<close>
  have "BuildTransitions f ch = Inr (arts @ controllerTransitions f ch (priorSequence ch + 1 + int (length arts)))"
    by (simp only: BuildTransitions_def Let_def option.case sum.case)
  then show ?thesis by (rule that)
qed

end
