(* ===== verification/Episode.thy ===== *)
theory Episode
  imports Transitions
begin

text \<open>
  The second half of \<^verbatim>\<open>internal/situation/history.go\<close>: \<^verbatim>\<open>ProjectEpisode\<close>, which folds one
  Transition into the durable Episode summary, the orientation derived from both, and
  \<^verbatim>\<open>BuildHistoryCommit\<close>, which composes the derivation of the Transitions, the fold over them and the
  notification plan.  \<open>episodeOf\<close> is the ledger: the Transitions folded so far, with the summary they gave.
\<close>

section \<open>The fold\<close>

definition maxHistoryListEntries :: nat where "maxHistoryListEntries = 50"

definition sameTerminalCommit :: "episodeSummary \<Rightarrow> transition \<Rightarrow> bool" where
  "sameTerminalCommit prior t =
     (case (es_TerminalAt prior, pf_TerminalAt (tr_Projection t)) of
        (Some a, Some b) \<Rightarrow> tEqual b a \<and> tEqual (tr_CreatedAt t) (es_UpdatedAt prior)
      | _ \<Rightarrow> False)"

definition validateFold :: "episodeSummary \<Rightarrow> transition \<Rightarrow> goerror" where
  "validateFold prior t = firstErr
     [errWhen (es_SituationID prior \<noteq> tr_SituationID t) ''situation: project episode: transition belongs to another situation'',
      errWhen (es_TerminalAt prior \<noteq> None \<and> \<not> sameTerminalCommit prior t)
        ''situation: project episode: episode is terminal and never reopens'',
      errWhen (tr_Sequence t \<noteq> es_SourceTransitionSequence prior + 1)
        ''situation: project episode: transition sequence is not contiguous with summary sequence'',
      errWhen (tBefore (tr_CreatedAt t) (es_UpdatedAt prior))
        ''situation: project episode: transition precedes summary updated at'']"

definition episodeTitle :: "episodeSummary \<Rightarrow> string" where
  "episodeTitle s =
     (if es_PublicHandle s \<noteq> [] then boundedText (''Situation '' @ es_PublicHandle s) maxHistoryHeadline
      else boundedText (''Situation '' @ es_SituationID s) maxHistoryHeadline)"

text \<open>The three bytes of the dash that joins a headline and its detail.\<close>

definition emDash :: string where
  "emDash = [char_of (0xE2 :: nat), char_of (0x80 :: nat), char_of (0x94 :: nat)]"

definition investigationEntry :: "transition \<Rightarrow> string" where
  "investigationEntry t =
     boundedText (jd_Headline (tr_Journal t) @
       (if jd_Detail (tr_Journal t) \<noteq> [] then '' '' @ emDash @ '' '' @ jd_Detail (tr_Journal t) else [])) maxHistoryDetail"

definition operatorContextEntry :: "transition \<Rightarrow> string" where
  "operatorContextEntry t =
     boundedText ((if jd_AttributedActor (tr_Journal t) \<noteq> [] then jd_AttributedActor (tr_Journal t) @ '': '' else []) @
       jd_Headline (tr_Journal t)) maxHistoryDetail"

definition appendBounded :: "string list \<Rightarrow> string \<Rightarrow> bool \<Rightarrow> string list" where
  "appendBounded xs entry collapse =
     (if blank entry then xs
      else if collapse \<and> xs \<noteq> [] \<and> last xs = entry then xs
      else let ys = xs @ [entry] in
        if length ys > maxHistoryListEntries then drop (length ys - maxHistoryListEntries) ys else ys)"

definition impactSummary :: "impact \<Rightarrow> string" where
  "impactSummary i = (case i of ImpactConfirmed \<Rightarrow> ''Confirmed impact'' | ImpactSuspected \<Rightarrow> ''Suspected impact''
     | ImpactNoneObserved \<Rightarrow> ''No impact observed'' | _ \<Rightarrow> ''Impact unknown'')"

definition finalOutcome :: "transition \<Rightarrow> episodeSummary \<Rightarrow> string" where
  "finalOutcome t s =
     (case pf_TerminalReason (tr_Projection t) of
        Some r \<Rightarrow> boundedText (''Closed with uncertainty ('' @ terminalReasonText r @ '')'') maxHistoryDetail
      | None \<Rightarrow> if es_RecordedOperatorContext s = [] then ''Recovered without recorded operator intervention''
                else ''Recovered with recorded operator context'')"

definition remainingUncertainty :: "transition \<Rightarrow> string" where
  "remainingUncertainty t =
     (case pf_TerminalReason (tr_Projection t) of None \<Rightarrow> []
      | Some r \<Rightarrow> boundedText (''AlertINT could not confirm resolution: '' @ terminalReasonText r @ ''.'' @
          (case pf_Assessment (tr_Projection t) of None \<Rightarrow> []
           | Some c \<Rightarrow> if co_EvidenceQuality c \<noteq> EvidenceQualityComplete
               then '' Evidence quality: '' @ evidenceQualityText (co_EvidenceQuality c) @ ''.'' else [])) maxHistoryDetail)"

definition zeroSummary :: episodeSummary where
  "zeroSummary = \<lparr>es_Briefing = None, es_SituationID = [], es_PublicHandle = [], es_Version = 0,
     es_SourceTransitionSequence = 0, es_Title = [], es_InitialPublicationReason = [], es_LatestMaterialReason = [],
     es_EvidenceConclusion = [], es_ImpactSummary = [], es_InvestigationWork = [], es_InvestigationStarted = False,
     es_CurrentAttention = AttentionOther [], es_PeakAttention = AttentionOther [], es_ActionContract = zeroContract,
     es_RecordedOperatorContext = [], es_EffectiveStartedAt = zeroTime, es_RecoveryObservedAt = None, es_TerminalAt = None,
     es_DurationSeconds = None, es_RecurrenceCount = 0, es_FinalOutcome = [], es_RemainingUncertainty = [],
     es_UpdatedAt = zeroTime\<rparr>"

text \<open>The body of \<^verbatim>\<open>ProjectEpisode\<close> in its four blocks of assignments.\<close>

definition foldBase :: "episodeSummary option \<Rightarrow> transition \<Rightarrow> episodeSummary" where
  "foldBase prior t =
     (case prior of
        None \<Rightarrow> zeroSummary\<lparr>es_SituationID := tr_SituationID t, es_Version := 1, es_PeakAttention := tr_Attention t\<rparr>
      | Some s \<Rightarrow> s\<lparr>es_Version := es_Version s + 1,
          es_PeakAttention := (if attentionRank (tr_Attention t) > attentionRank (es_PeakAttention s)
            then tr_Attention t else es_PeakAttention s)\<rparr>)"

definition foldScalars :: "transition \<Rightarrow> episodeSummary \<Rightarrow> episodeSummary" where
  "foldScalars t s =
     (let pr = tr_Projection t;
          s1 = s\<lparr>es_SourceTransitionSequence := tr_Sequence t,
            es_Briefing := (case pf_Briefing pr of None \<Rightarrow> es_Briefing s | Some b \<Rightarrow> Some b),
            es_CurrentAttention := tr_Attention t, es_ActionContract := tr_ActionContract t, es_UpdatedAt := tr_CreatedAt t,
            es_EffectiveStartedAt := pf_EffectiveStartedAt pr, es_RecoveryObservedAt := pf_RecoveryObservedAt pr,
            es_TerminalAt := pf_TerminalAt pr,
            es_PublicHandle := (case pf_PublicHandle pr of None \<Rightarrow> es_PublicHandle s
              | Some h \<Rightarrow> if h \<noteq> [] then boundedText h maxHistoryIdentifier else es_PublicHandle s)\<rparr>;
          s2 = s1\<lparr>es_Title := (if es_Title s1 = [] \<or> tr_Reason t = ReasonFirstAuthoritativeState \<or> pf_PublicHandle pr \<noteq> None
            then episodeTitle s1 else es_Title s1)\<rparr> in
      s2\<lparr>es_RecurrenceCount := (if es_RecurrenceCount s2 < jd_RecurrenceCount (tr_Journal t)
           then jd_RecurrenceCount (tr_Journal t) else es_RecurrenceCount s2),
         es_InitialPublicationReason := (if tr_Reason t \<noteq> ReasonOperatorArtifactRecorded \<and> es_InitialPublicationReason s2 = []
           then transitionReasonText (tr_Reason t) else es_InitialPublicationReason s2),
         es_LatestMaterialReason := transitionReasonText (tr_Reason t)\<rparr>)"

definition foldConclusion :: "transition \<Rightarrow> episodeSummary \<Rightarrow> episodeSummary" where
  "foldConclusion t s =
     (let s1 = (case pf_Assessment (tr_Projection t) of None \<Rightarrow> s
          | Some c \<Rightarrow> s\<lparr>es_EvidenceConclusion := (if co_SufficientReasonSummary c \<noteq> []
                then boundedText (co_SufficientReasonSummary c) maxHistoryDetail else es_EvidenceConclusion s),
              es_ImpactSummary := impactSummary (co_Impact c)\<rparr>) in
      if tr_Reason t = ReasonInvestigationConcluded then s1\<lparr>es_InvestigationStarted := True\<rparr> else s1)"

definition foldJournal :: "transition \<Rightarrow> episodeSummary \<Rightarrow> episodeSummary" where
  "foldJournal t s =
     (case tr_JournalKind t of
        JournalInvestigationStarted \<Rightarrow> s\<lparr>es_InvestigationStarted := True,
          es_InvestigationWork := appendBounded (es_InvestigationWork s) (investigationEntry t) True\<rparr>
      | JournalInvestigationChanged \<Rightarrow>
          s\<lparr>es_InvestigationWork := appendBounded (es_InvestigationWork s) (investigationEntry t) True\<rparr>
      | JournalEvidenceConclusion \<Rightarrow>
          s\<lparr>es_InvestigationWork := appendBounded (es_InvestigationWork s) (investigationEntry t) True\<rparr>
      | JournalOperatorNote \<Rightarrow>
          s\<lparr>es_RecordedOperatorContext := appendBounded (es_RecordedOperatorContext s) (operatorContextEntry t) False\<rparr>
      | JournalCapturedVerdict \<Rightarrow>
          s\<lparr>es_RecordedOperatorContext := appendBounded (es_RecordedOperatorContext s) (operatorContextEntry t) False\<rparr>
      | _ \<Rightarrow> s)"

text \<open>\<^verbatim>\<open>Sub\<close> saturates at the ends of \<^verbatim>\<open>int64\<close>; the division truncates towards zero and the result is floored at zero.\<close>

definition foldTerminal :: "transition \<Rightarrow> episodeSummary \<Rightarrow> episodeSummary" where
  "foldTerminal t s =
     (case es_TerminalAt s of None \<Rightarrow> s
      | Some at_ \<Rightarrow>
          let d = tSub at_ (es_EffectiveStartedAt s); seconds = (if d < 0 then 0 else d div second) in
          s\<lparr>es_DurationSeconds := Some seconds, es_FinalOutcome := finalOutcome t s,
            es_RemainingUncertainty := remainingUncertainty t\<rparr>)"

definition foldTransition :: "episodeSummary option \<Rightarrow> transition \<Rightarrow> episodeSummary" where
  "foldTransition prior t = foldTerminal t (foldJournal t (foldConclusion t (foldScalars t (foldBase prior t))))"

definition ProjectEpisode :: "episodeSummary option \<Rightarrow> transition \<Rightarrow> string + episodeSummary" where
  "ProjectEpisode prior t =
     (case firstErr [wrapErr ''situation: project episode: '' (Transition_Validate t), whenSome prior (\<lambda>s. validateFold s t)] of
        Some e \<Rightarrow> Inl e
      | None \<Rightarrow>
        (let s = foldTransition prior t in
         case EpisodeSummary_Validate s of Some e \<Rightarrow> Inl (''situation: project episode: '' @ e) | None \<Rightarrow> Inr s))"

section \<open>Orientation\<close>

datatype orientation =
    OrientationObserved | OrientationInvestigating | OrientationMonitoring | OrientationConfirmingRecovery |
    OrientationRecovered | OrientationClosedUncertain

definition legacyOrientation :: "episodeSummary \<Rightarrow> transition \<Rightarrow> orientation" where
  "legacyOrientation summary latest =
     (let c = tr_ActionContract latest in
      if (case (ac_AlertINTAction c, ac_AlertINTStatus c) of
            (Some a, Some st) \<Rightarrow> (a = AlertINTActionMonitorSituation \<or> a = AlertINTActionVerifyRecovery) \<and>
              (st = AlertINTStatusWaiting \<or> st = AlertINTStatusRunning \<or> st = AlertINTStatusPlanned)
          | _ \<Rightarrow> False) then OrientationMonitoring
      else if es_InvestigationStarted summary \<or> investigationCurrent c \<or> ac_OperatorActionRequired c \<noteq> None
      then OrientationInvestigating else OrientationObserved)"

definition DeriveOrientation :: "episodeSummary \<Rightarrow> transition \<Rightarrow> orientation" where
  "DeriveOrientation summary latest =
     (case tr_Lifecycle latest of
        LifecycleRecovered \<Rightarrow> OrientationRecovered
      | LifecycleClosedUnknown \<Rightarrow> OrientationClosedUncertain
      | LifecycleRecoveryPending \<Rightarrow> OrientationConfirmingRecovery
      | _ \<Rightarrow>
        (case pf_Briefing (tr_Projection latest) of None \<Rightarrow> legacyOrientation summary latest
         | Some b \<Rightarrow>
           if wp_Phase (ob_Work b) = WorkPhaseOther [] then legacyOrientation summary latest
           else (case wp_Phase (ob_Work b) of
                WorkPhaseExecuting \<Rightarrow> OrientationInvestigating
              | WorkPhaseRetryWait \<Rightarrow> OrientationInvestigating
              | WorkPhaseQueued \<Rightarrow> if wp_ExecutionStarted (ob_Work b) then OrientationInvestigating else OrientationObserved
              | WorkPhaseAwaitingDecision \<Rightarrow>
                  if wp_ExecutionStarted (ob_Work b) then OrientationInvestigating else OrientationObserved
              | WorkPhaseSettled \<Rightarrow> OrientationMonitoring
              | WorkPhaseExhausted \<Rightarrow> OrientationMonitoring
              | _ \<Rightarrow> OrientationObserved)))"

section \<open>Composition\<close>

fun foldEpisode :: "episodeSummary option \<Rightarrow> transition list \<Rightarrow> string + episodeSummary option" where
  "foldEpisode prior [] = Inr None"
| "foldEpisode prior (t # ts) =
     (case ProjectEpisode prior t of Inl e \<Rightarrow> Inl (''situation: build history commit: transition: '' @ e)
      | Inr s \<Rightarrow> (case foldEpisode (Some s) ts of Inl e \<Rightarrow> Inl e | Inr None \<Rightarrow> Inr (Some s) | Inr (Some x) \<Rightarrow> Inr (Some x)))"

definition checkPublication :: "authoritativeChange \<Rightarrow> publicationInput \<Rightarrow> goerror" where
  "checkPublication ch pub = firstErr
     [errWhen (pi_Transitions pub \<noteq> [] \<or> es_SituationID (pi_Summary pub) \<noteq> [] \<or> es_Version (pi_Summary pub) \<noteq> 0)
        ''situation: build history commit: publication input must not carry transitions or a summary; both are derived here'',
      errWhen (si_ID (pi_Situation pub) \<noteq> si_ID (ch_Situation ch))
        ''situation: build history commit: publication situation does not match change situation'',
      errWhen (\<not> tEqual (pi_Now pub) (ch_Now ch)) ''situation: build history commit: publication now does not match change now'',
      errWhen (pi_Drill pub \<noteq> ch_Drill ch)
        ''situation: build history commit: publication and change disagree about the Drill marker'']"

definition publicationFor ::
  "authoritativeChange \<Rightarrow> publicationInput \<Rightarrow> transition list \<Rightarrow> episodeSummary option \<Rightarrow> publicationInput" where
  "publicationFor ch pub ts summary =
     pub\<lparr>pi_Transitions := ts,
       pi_Summary := (case summary of Some s \<Rightarrow> s
         | None \<Rightarrow> (case ch_PriorSummary ch of Some s \<Rightarrow> s | None \<Rightarrow> pi_Summary pub)),
       pi_PriorTransition := (case pi_PriorTransition pub of None \<Rightarrow> ch_PriorTransition ch | Some p \<Rightarrow> Some p)\<rparr>"

definition BuildHistoryCommit ::
  "(string \<Rightarrow> string) \<Rightarrow> authoritativeChange \<Rightarrow> publicationInput \<Rightarrow> string + historyCommit" where
  "BuildHistoryCommit newSHA1 ch pub =
     (case checkPublication ch pub of Some e \<Rightarrow> Inl e
      | None \<Rightarrow>
        (case BuildTransitions newSHA1 ch of Inl e \<Rightarrow> Inl e
         | Inr ts \<Rightarrow>
           (case foldEpisode (ch_PriorSummary ch) ts of Inl e \<Rightarrow> Inl e
            | Inr summary \<Rightarrow>
              (case PlanNotificationIntents newSHA1 (publicationFor ch pub ts summary) of Inl e \<Rightarrow> Inl e
               | Inr intents \<Rightarrow> Inr \<lparr>hc_Transitions = ts, hc_Summary = summary, hc_Intents = intents\<rparr>))))"

section \<open>What one fold does\<close>

lemmas fold_defs = foldTransition_def foldTerminal_def foldJournal_def foldConclusion_def foldScalars_def foldBase_def

lemma foldTerminal_fields [simp]:
  "es_SituationID (foldTerminal t s) = es_SituationID s" "es_Version (foldTerminal t s) = es_Version s"
  "es_SourceTransitionSequence (foldTerminal t s) = es_SourceTransitionSequence s" "es_Title (foldTerminal t s) = es_Title s"
  "es_InvestigationWork (foldTerminal t s) = es_InvestigationWork s"
  "es_InvestigationStarted (foldTerminal t s) = es_InvestigationStarted s"
  "es_CurrentAttention (foldTerminal t s) = es_CurrentAttention s" "es_PeakAttention (foldTerminal t s) = es_PeakAttention s"
  "es_ActionContract (foldTerminal t s) = es_ActionContract s"
  "es_RecordedOperatorContext (foldTerminal t s) = es_RecordedOperatorContext s"
  "es_EffectiveStartedAt (foldTerminal t s) = es_EffectiveStartedAt s"
  "es_RecoveryObservedAt (foldTerminal t s) = es_RecoveryObservedAt s" "es_TerminalAt (foldTerminal t s) = es_TerminalAt s"
  "es_RecurrenceCount (foldTerminal t s) = es_RecurrenceCount s" "es_UpdatedAt (foldTerminal t s) = es_UpdatedAt s"
  by (simp_all add: foldTerminal_def Let_def split: option.split)

lemma foldJournal_fields [simp]:
  "es_SituationID (foldJournal t s) = es_SituationID s" "es_Version (foldJournal t s) = es_Version s"
  "es_SourceTransitionSequence (foldJournal t s) = es_SourceTransitionSequence s" "es_Title (foldJournal t s) = es_Title s"
  "es_CurrentAttention (foldJournal t s) = es_CurrentAttention s" "es_PeakAttention (foldJournal t s) = es_PeakAttention s"
  "es_ActionContract (foldJournal t s) = es_ActionContract s"
  "es_EffectiveStartedAt (foldJournal t s) = es_EffectiveStartedAt s"
  "es_RecoveryObservedAt (foldJournal t s) = es_RecoveryObservedAt s" "es_TerminalAt (foldJournal t s) = es_TerminalAt s"
  "es_DurationSeconds (foldJournal t s) = es_DurationSeconds s"
  "es_RecurrenceCount (foldJournal t s) = es_RecurrenceCount s" "es_UpdatedAt (foldJournal t s) = es_UpdatedAt s"
  by (simp_all add: foldJournal_def split: journalKind.split)

lemma foldConclusion_fields [simp]:
  "es_SituationID (foldConclusion t s) = es_SituationID s" "es_Version (foldConclusion t s) = es_Version s"
  "es_SourceTransitionSequence (foldConclusion t s) = es_SourceTransitionSequence s" "es_Title (foldConclusion t s) = es_Title s"
  "es_InvestigationWork (foldConclusion t s) = es_InvestigationWork s"
  "es_InvestigationStarted (foldConclusion t s) = (es_InvestigationStarted s \<or> tr_Reason t = ReasonInvestigationConcluded)"
  "es_CurrentAttention (foldConclusion t s) = es_CurrentAttention s" "es_PeakAttention (foldConclusion t s) = es_PeakAttention s"
  "es_ActionContract (foldConclusion t s) = es_ActionContract s"
  "es_RecordedOperatorContext (foldConclusion t s) = es_RecordedOperatorContext s"
  "es_EffectiveStartedAt (foldConclusion t s) = es_EffectiveStartedAt s"
  "es_RecoveryObservedAt (foldConclusion t s) = es_RecoveryObservedAt s" "es_TerminalAt (foldConclusion t s) = es_TerminalAt s"
  "es_DurationSeconds (foldConclusion t s) = es_DurationSeconds s"
  "es_RecurrenceCount (foldConclusion t s) = es_RecurrenceCount s" "es_UpdatedAt (foldConclusion t s) = es_UpdatedAt s"
  by (simp_all add: foldConclusion_def Let_def split: option.split)

lemma foldScalars_fields [simp]:
  "es_SituationID (foldScalars t s) = es_SituationID s" "es_Version (foldScalars t s) = es_Version s"
  "es_SourceTransitionSequence (foldScalars t s) = tr_Sequence t"
  "es_InvestigationWork (foldScalars t s) = es_InvestigationWork s"
  "es_InvestigationStarted (foldScalars t s) = es_InvestigationStarted s"
  "es_CurrentAttention (foldScalars t s) = tr_Attention t" "es_PeakAttention (foldScalars t s) = es_PeakAttention s"
  "es_ActionContract (foldScalars t s) = tr_ActionContract t"
  "es_RecordedOperatorContext (foldScalars t s) = es_RecordedOperatorContext s"
  "es_EffectiveStartedAt (foldScalars t s) = pf_EffectiveStartedAt (tr_Projection t)"
  "es_RecoveryObservedAt (foldScalars t s) = pf_RecoveryObservedAt (tr_Projection t)"
  "es_TerminalAt (foldScalars t s) = pf_TerminalAt (tr_Projection t)"
  "es_DurationSeconds (foldScalars t s) = es_DurationSeconds s"
  "es_RecurrenceCount (foldScalars t s) = max (es_RecurrenceCount s) (jd_RecurrenceCount (tr_Journal t))"
  "es_UpdatedAt (foldScalars t s) = tr_CreatedAt t"
  by (simp_all add: foldScalars_def Let_def)

lemma foldBase_None [simp]:
  "foldBase None t = zeroSummary\<lparr>es_SituationID := tr_SituationID t, es_Version := 1, es_PeakAttention := tr_Attention t\<rparr>"
  by (simp add: foldBase_def)

lemma foldBase_Some [simp]:
  "es_SituationID (foldBase (Some s) t) = es_SituationID s" "es_Version (foldBase (Some s) t) = es_Version s + 1"
  "es_InvestigationWork (foldBase (Some s) t) = es_InvestigationWork s"
  "es_InvestigationStarted (foldBase (Some s) t) = es_InvestigationStarted s"
  "es_RecordedOperatorContext (foldBase (Some s) t) = es_RecordedOperatorContext s"
  "es_RecurrenceCount (foldBase (Some s) t) = es_RecurrenceCount s" "es_Title (foldBase (Some s) t) = es_Title s"
  "es_DurationSeconds (foldBase (Some s) t) = es_DurationSeconds s"
  by (simp_all add: foldBase_def)

text \<open>The title is never blank: it starts with a letter, or is the title of a valid summary.\<close>

lemma episodeTitle_not_blank: "\<not> blank (episodeTitle s)"
proof -
  have "\<not> blank (boundedText (''Situation '' @ x) maxHistoryHeadline)" for x
    using boundedText_boundedID [of "CHR ''S''" "''ituation '' @ x"]
    by (simp add: boundedID_def maxHistoryIdentifier_def maxHistoryHeadline_def byte_def asciiSpace_def)
  then show ?thesis by (simp add: episodeTitle_def)
qed

lemma foldScalars_title: "es_Title s = [] \<or> \<not> blank (es_Title s) \<Longrightarrow> \<not> blank (es_Title (foldScalars t s))"
  by (auto simp: foldScalars_def Let_def episodeTitle_not_blank)

lemma attentionRank_range: "attentionRank a \<in> {0, 1, 2}"
  by (simp add: attentionRank_def)

lemma foldBase_peak:
  "attentionRank (es_PeakAttention (foldBase (Some s) t)) = max (attentionRank (es_PeakAttention s)) (attentionRank (tr_Attention t))"
  by (simp add: foldBase_def)

lemma foldBase_peak_valid:
  assumes "Attention_Validate (tr_Attention t) = None" and "\<And>s. prior = Some s \<Longrightarrow> Attention_Validate (es_PeakAttention s) = None"
  shows "Attention_Validate (es_PeakAttention (foldBase prior t)) = None"
  using assms by (cases prior) (simp_all add: foldBase_def)

lemma foldTerminal_duration:
  "(\<And>d. es_DurationSeconds s = Some d \<Longrightarrow> 0 \<le> d) \<Longrightarrow> es_DurationSeconds (foldTerminal t s) = Some e \<Longrightarrow> 0 \<le> e"
  by (auto simp: foldTerminal_def Let_def duration_defs pos_imp_zdiv_nonneg_iff split: option.splits if_splits)

definition terminalAgrees :: "transition \<Rightarrow> bool" where
  "terminalAgrees t \<longleftrightarrow> (Terminal (tr_Lifecycle t) \<longleftrightarrow> pf_TerminalAt (tr_Projection t) \<noteq> None)"

lemma foldTransition_valid:
  assumes t: "Transition_Validate t = None" "terminalAgrees t"
    and prior: "\<And>s. prior = Some s \<Longrightarrow> EpisodeSummary_Validate s = None \<and> es_SituationID s = tr_SituationID t"
  shows "EpisodeSummary_Validate (foldTransition prior t) = None"
proof -
  let ?b = "foldBase prior t"
  have id: "es_SituationID ?b = tr_SituationID t" and version: "1 \<le> es_Version ?b" and count: "0 \<le> es_RecurrenceCount ?b"
    and title: "es_Title ?b = [] \<or> \<not> blank (es_Title ?b)" and duration: "es_DurationSeconds ?b = Some d \<Longrightarrow> 0 \<le> d" for d
    using prior by (cases prior; simp add: zeroSummary_def EpisodeSummary_Validate_def validate_simps)+
  from t(1) have fields: "\<not> blank (tr_SituationID t)" "1 \<le> tr_Sequence t" "Attention_Validate (tr_Attention t) = None"
    "ActionContract_validate (Terminal (tr_Lifecycle t)) (tr_ActionContract t) = None"
    "ProjectionFacts_Validate (tr_Projection t) = None" "requireNonZeroUTC x (tr_CreatedAt t) = None" for x
    by (simp_all add: Transition_Validate_def errWhen_None_iff wrapErr_None_iff requireNonZeroUTC_iff)
  from fields(5) have instants: "requireNonZeroUTC x (pf_EffectiveStartedAt (tr_Projection t)) = None"
    "whenSome (pf_RecoveryObservedAt (tr_Projection t)) (\<lambda>t. wrapErr y (requireUTC x t)) = None"
    "whenSome (pf_TerminalAt (tr_Projection t)) (\<lambda>t. wrapErr y (requireUTC x t)) = None" for x y
    by (simp_all add: ProjectionFacts_Validate_def wrapErr_None_iff requireNonZeroUTC_iff requireUTC_iff whenSome_None_iff)
  have peak: "Attention_Validate (es_PeakAttention ?b) = None"
    using fields(3) prior by (intro foldBase_peak_valid) (auto simp: EpisodeSummary_Validate_def wrapErr_None_iff)
  have "whenSome (es_DurationSeconds (foldTransition prior t)) (\<lambda>d. errWhen (d < 0) m) = None" for m
    using foldTerminal_duration [of "foldJournal t (foldConclusion t (foldScalars t ?b))" t] duration
    by (auto simp: foldTransition_def whenSome_None_iff errWhen_None_iff not_less)
  then show ?thesis
    unfolding EpisodeSummary_Validate_def
    using id version count foldScalars_title [OF title, of t] peak fields instants t(2)
    by (simp add: foldTransition_def errWhen_None_iff wrapErr_None_iff terminalAgrees_def)
qed

lemma ProjectEpisode_Inr:
  assumes "ProjectEpisode prior t = Inr s"
  shows "Transition_Validate t = None" and "\<And>p. prior = Some p \<Longrightarrow> validateFold p t = None"
    and "EpisodeSummary_Validate s = None" and "s = foldTransition prior t"
  using assms by (auto simp: ProjectEpisode_def Let_def validate_simps split: option.splits)

lemma ProjectEpisode_total:
  assumes "Transition_Validate t = None" and "terminalAgrees t"
    and "\<And>s. prior = Some s \<Longrightarrow> EpisodeSummary_Validate s = None \<and> validateFold s t = None"
  shows "ProjectEpisode prior t = Inr (foldTransition prior t)"
proof -
  have "EpisodeSummary_Validate (foldTransition prior t) = None"
    using assms by (intro foldTransition_valid) (auto simp: validateFold_def validate_simps)
  then show ?thesis using assms(1,3) by (cases prior) (simp_all add: ProjectEpisode_def wrapErr_def firstErr.simps)
qed

lemma validateFold_iff:
  "validateFold s t = None \<longleftrightarrow>
     es_SituationID s = tr_SituationID t \<and> (es_TerminalAt s = None \<or> sameTerminalCommit s t) \<and>
     tr_Sequence t = es_SourceTransitionSequence s + 1 \<and> tns (es_UpdatedAt s) \<le> tns (tr_CreatedAt t)"
  by (auto simp: validateFold_def validate_simps tBefore_def)

section \<open>The ledger\<close>

inductive episodeOf :: "transition list \<Rightarrow> episodeSummary \<Rightarrow> bool" where
  first: "ProjectEpisode None t = Inr s \<Longrightarrow> episodeOf [t] s"
| more: "episodeOf ts s \<Longrightarrow> ProjectEpisode (Some s) t = Inr s' \<Longrightarrow> episodeOf (ts @ [t]) s'"

inductive_simps episodeOf_snoc: "episodeOf (ts @ [t]) s"

text \<open>
  A field of the summary is a digest of the ledger when the first fold sets it to the digest of one Transition and
  every later fold extends it by one.
\<close>

locale ledgerDigest =
  fixes get :: "episodeSummary \<Rightarrow> 'a" and digest :: "transition list \<Rightarrow> 'a"
  assumes digest_first: "Transition_Validate t = None \<Longrightarrow> get (foldTransition None t) = digest [t]"
    and digest_more: "Transition_Validate t = None \<Longrightarrow> ts \<noteq> [] \<Longrightarrow> get s = digest ts \<Longrightarrow>
      get (foldTransition (Some s) t) = digest (ts @ [t])"
begin

lemma digest_correct: "episodeOf ts s \<Longrightarrow> get s = digest ts"
proof (induction rule: episodeOf.induct)
  case (first t s)
  then show ?case using digest_first ProjectEpisode_Inr [OF first] by simp
next
  case (more ts s t s')
  have "ts \<noteq> []" using more.hyps(1) by (cases rule: episodeOf.cases) simp_all
  then show ?case using digest_more more.IH ProjectEpisode_Inr [OF more.hyps(2)] by simp
qed

end

interpretation version: ledgerDigest es_Version "\<lambda>ts. int (length ts)"
  by unfold_locales (simp_all add: foldTransition_def)

definition peakRank :: "transition list \<Rightarrow> int" where
  "peakRank ts = Max (set (map (\<lambda>t. attentionRank (tr_Attention t)) ts))"

interpretation peak: ledgerDigest "\<lambda>s. attentionRank (es_PeakAttention s)" peakRank
  by unfold_locales (simp_all add: foldTransition_def foldBase_peak peakRank_def max.commute)

definition peakRecurrence :: "transition list \<Rightarrow> int" where
  "peakRecurrence ts = Max (set (map (\<lambda>t. jd_RecurrenceCount (tr_Journal t)) ts))"

lemma Transition_Validate_recurrence: "Transition_Validate t = None \<Longrightarrow> 0 \<le> jd_RecurrenceCount (tr_Journal t)"
  by (simp add: Transition_Validate_def JournalData_Validate_def wrapErr_None_iff errWhen_None_iff)

interpretation recurrence: ledgerDigest es_RecurrenceCount peakRecurrence
  by unfold_locales
    (simp_all add: foldTransition_def zeroSummary_def peakRecurrence_def max.commute Transition_Validate_recurrence)

definition startsInvestigation :: "transition \<Rightarrow> bool" where
  "startsInvestigation t \<longleftrightarrow> tr_Reason t = ReasonInvestigationConcluded \<or> tr_JournalKind t = JournalInvestigationStarted"

lemma foldJournal_started:
  "es_InvestigationStarted (foldJournal t s) \<longleftrightarrow> es_InvestigationStarted s \<or> tr_JournalKind t = JournalInvestigationStarted"
  by (simp add: foldJournal_def split: journalKind.split)

interpretation investigation: ledgerDigest es_InvestigationStarted "list_ex startsInvestigation"
  by unfold_locales (auto simp: foldTransition_def foldJournal_started startsInvestigation_def zeroSummary_def)

text \<open>The two bounded lists keep the newest entries of the ledger, the first of them without adjacent repeats.\<close>

definition lastN :: "nat \<Rightarrow> 'a list \<Rightarrow> 'a list" where "lastN n xs = drop (length xs - n) xs"

lemma lastN_snoc: "lastN n (lastN n xs @ [x]) = lastN n (xs @ [x])"
proof (cases "length xs \<le> n")
  case False
  then have "length xs - (length xs - n) = n" by simp
  with False show ?thesis by (cases n) (simp_all add: lastN_def Suc_diff_Suc)
qed (simp add: lastN_def)

lemma lastN_length: "length (lastN n xs) \<le> n"
  by (simp add: lastN_def)

lemma last_lastN: "0 < n \<Longrightarrow> xs \<noteq> [] \<Longrightarrow> lastN n xs \<noteq> [] \<and> last (lastN n xs) = last xs"
  by (cases xs) (simp_all add: lastN_def last_drop)

lemma remdups_adj_snoc:
  "remdups_adj (xs @ [x]) = (if xs \<noteq> [] \<and> last xs = x then remdups_adj xs else remdups_adj xs @ [x])"
  by (induction xs rule: remdups_adj.induct) auto

lemma last_remdups_adj: "last (remdups_adj xs) = last xs"
  by (induction xs rule: remdups_adj.induct) auto

lemma appendBounded_keep:
  "appendBounded (lastN maxHistoryListEntries xs) e False =
     (if blank e then lastN maxHistoryListEntries xs else lastN maxHistoryListEntries (xs @ [e]))"
  using lastN_length [of maxHistoryListEntries xs] lastN_snoc [of maxHistoryListEntries xs e]
  by (auto simp: appendBounded_def Let_def lastN_def [of _ "lastN maxHistoryListEntries xs @ [e]"])

lemma appendBounded_collapse:
  "appendBounded (lastN maxHistoryListEntries (remdups_adj xs)) e True =
     (if blank e then lastN maxHistoryListEntries (remdups_adj xs)
      else lastN maxHistoryListEntries (remdups_adj (xs @ [e])))"
proof (cases "xs \<noteq> [] \<and> last xs = e")
  case True
  then have "lastN maxHistoryListEntries (remdups_adj xs) \<noteq> []" "last (lastN maxHistoryListEntries (remdups_adj xs)) = e"
    using last_lastN [of maxHistoryListEntries "remdups_adj xs"] by (simp_all add: last_remdups_adj maxHistoryListEntries_def)
  with True show ?thesis by (simp add: appendBounded_def remdups_adj_snoc)
next
  case False
  have "\<not> (lastN maxHistoryListEntries (remdups_adj xs) \<noteq> [] \<and> last (lastN maxHistoryListEntries (remdups_adj xs)) = e)"
    using False last_lastN [of maxHistoryListEntries "remdups_adj xs"]
    by (cases "xs = []") (auto simp: last_remdups_adj maxHistoryListEntries_def lastN_def)
  then have "appendBounded (lastN maxHistoryListEntries (remdups_adj xs)) e True =
      appendBounded (lastN maxHistoryListEntries (remdups_adj xs)) e False" by (auto simp: appendBounded_def)
  with False show ?thesis by (auto simp: appendBounded_keep remdups_adj_snoc)
qed

definition artifactKind :: "transition \<Rightarrow> bool" where
  "artifactKind t \<longleftrightarrow> tr_JournalKind t \<in> {JournalOperatorNote, JournalCapturedVerdict}"

definition investigationKind :: "transition \<Rightarrow> bool" where
  "investigationKind t \<longleftrightarrow> tr_JournalKind t \<in> {JournalInvestigationStarted, JournalInvestigationChanged, JournalEvidenceConclusion}"

definition recordedContext :: "transition list \<Rightarrow> string list" where
  "recordedContext ts =
     lastN maxHistoryListEntries (filter (\<lambda>e. \<not> blank e) (map operatorContextEntry (filter artifactKind ts)))"

definition recordedWork :: "transition list \<Rightarrow> string list" where
  "recordedWork ts = lastN maxHistoryListEntries
     (remdups_adj (filter (\<lambda>e. \<not> blank e) (map investigationEntry (filter investigationKind ts))))"

lemma foldJournal_context:
  "es_RecordedOperatorContext (foldJournal t s) =
     (if artifactKind t then appendBounded (es_RecordedOperatorContext s) (operatorContextEntry t) False
      else es_RecordedOperatorContext s)"
  by (simp add: foldJournal_def artifactKind_def split: journalKind.split)

lemma foldJournal_work:
  "es_InvestigationWork (foldJournal t s) =
     (if investigationKind t then appendBounded (es_InvestigationWork s) (investigationEntry t) True
      else es_InvestigationWork s)"
  by (simp add: foldJournal_def investigationKind_def split: journalKind.split)

lemma appendBounded_Nil: "appendBounded [] e b = (if blank e then [] else [e])"
  by (simp add: appendBounded_def maxHistoryListEntries_def)

interpretation operatorContext: ledgerDigest es_RecordedOperatorContext recordedContext
  by unfold_locales
    (simp_all add: foldTransition_def zeroSummary_def foldJournal_context recordedContext_def appendBounded_keep,
     simp_all add: appendBounded_Nil lastN_def maxHistoryListEntries_def)

interpretation investigationWork: ledgerDigest es_InvestigationWork recordedWork
  by unfold_locales
    (simp_all add: foldTransition_def zeroSummary_def foldJournal_work recordedWork_def appendBounded_collapse,
     simp_all add: appendBounded_Nil lastN_def maxHistoryListEntries_def)

text \<open>Sequences are contiguous, time never runs backwards, and every Transition is of the same Situation.\<close>

lemma sorted_map_last: "sorted (map f xs) \<Longrightarrow> x \<in> set xs \<Longrightarrow> f x \<le> f (last xs)"
  by (induction xs) auto

lemma episodeOf_order:
  "episodeOf ts s \<Longrightarrow> ts \<noteq> [] \<and> EpisodeSummary_Validate s = None \<and>
     map tr_Sequence ts = [es_SourceTransitionSequence s - int (length ts) + 1 .. es_SourceTransitionSequence s] \<and>
     sorted (map (\<lambda>t. tns (tr_CreatedAt t)) ts) \<and> es_UpdatedAt s = tr_CreatedAt (last ts) \<and>
     es_TerminalAt s = pf_TerminalAt (tr_Projection (last ts)) \<and> (\<forall>t \<in> set ts. tr_SituationID t = es_SituationID s)"
proof (induction rule: episodeOf.induct)
  case (first t s)
  then show ?case using ProjectEpisode_Inr(3,4) [OF first] by (simp add: foldTransition_def upto_single)
next
  case (more ts s t s')
  have s': "s' = foldTransition (Some s) t" using ProjectEpisode_Inr(4) [OF more.hyps(2)] by simp
  have v: "validateFold s t = None" using ProjectEpisode_Inr(2) [OF more.hyps(2)] by simp
  have mono: "tns (tr_CreatedAt u) \<le> tns (tr_CreatedAt t)" if "u \<in> set ts" for u
  proof -
    have "tns (tr_CreatedAt u) \<le> tns (tr_CreatedAt (last ts))"
      using more.IH that by (intro sorted_map_last) simp_all
    also have "\<dots> \<le> tns (tr_CreatedAt t)" using more.IH v by (simp add: validateFold_iff)
    finally show ?thesis .
  qed
  have "es_SourceTransitionSequence s - int (length ts) + 1 \<le> es_SourceTransitionSequence s + 1" by simp
  then show ?case
    using more.IH v mono ProjectEpisode_Inr(3) [OF more.hyps(2)]
    by (auto simp: s' foldTransition_def validateFold_iff sorted_append upto_rec2 [of _ "es_SourceTransitionSequence s + 1"])
qed

text \<open>
  A terminal Episode never reopens: after the first terminal Transition only the rest of its own commit is folded,
  with the same terminal instant and the same creation instant.
\<close>

definition closedBy :: "transition \<Rightarrow> transition \<Rightarrow> bool" where
  "closedBy c t \<longleftrightarrow> tns (tr_CreatedAt t) = tns (tr_CreatedAt c) \<and>
     map_option tns (pf_TerminalAt (tr_Projection t)) = map_option tns (pf_TerminalAt (tr_Projection c))"

lemma closedBy_trans: "closedBy a b \<Longrightarrow> closedBy b c \<Longrightarrow> closedBy a c"
  by (simp add: closedBy_def)

lemma episodeOf_terminal_step:
  assumes "episodeOf ts s" and "ProjectEpisode (Some s) t = Inr s'" and "pf_TerminalAt (tr_Projection (last ts)) \<noteq> None"
  shows "closedBy (last ts) t"
proof -
  have "validateFold s t = None" using ProjectEpisode_Inr(2) [OF assms(2)] by simp
  with assms(3) episodeOf_order [OF assms(1)] show ?thesis
    by (auto simp: validateFold_iff sameTerminalCommit_def closedBy_def tEqual_def split: option.splits)
qed

lemma episodeOf_terminal:
  "episodeOf ts s \<Longrightarrow> i < j \<Longrightarrow> j < length ts \<Longrightarrow> pf_TerminalAt (tr_Projection (ts ! i)) \<noteq> None \<Longrightarrow> closedBy (ts ! i) (ts ! j)"
proof (induction arbitrary: j rule: episodeOf.induct)
  case (more ts s t s')
  show ?case
  proof (cases "j < length ts")
    case True
    then show ?thesis using more by (simp add: nth_append)
  next
    case False
    with more.prems have j: "j = length ts" "i < length ts" by auto
    have ti: "(ts @ [t]) ! i = ts ! i" "(ts @ [t]) ! j = t" using j by (simp_all add: nth_append)
    have last: "last ts = ts ! (length ts - 1)" using episodeOf_order [OF more.hyps(1)] by (simp add: last_conv_nth)
    have "closedBy (ts ! i) (last ts)"
    proof (cases "i = length ts - 1")
      case True
      then show ?thesis by (simp add: last closedBy_def)
    next
      case False
      then show ?thesis using more.IH [of "length ts - 1"] more.prems j ti by (simp add: last)
    qed
    moreover from this have "pf_TerminalAt (tr_Projection (last ts)) \<noteq> None"
      using more.prems ti by (auto simp: closedBy_def)
    then have "closedBy (last ts) t" by (rule episodeOf_terminal_step [OF more.hyps])
    ultimately show ?thesis using closedBy_trans ti by metis
  qed
qed simp

section \<open>The fold of one commit succeeds\<close>

text \<open>Where the fold of a commit stands: before its first Transition, or in the middle of it.\<close>

definition foldReady :: "authoritativeChange \<Rightarrow> episodeSummary option \<Rightarrow> int \<Rightarrow> bool" where
  "foldReady ch prior n =
     (case prior of None \<Rightarrow> n = 0
      | Some s \<Rightarrow> EpisodeSummary_Validate s = None \<and> es_SituationID s = si_ID (ch_Situation ch) \<and>
          es_SourceTransitionSequence s = n \<and> tns (es_UpdatedAt s) \<le> tns (ch_Now ch) \<and>
          (es_TerminalAt s = None \<or>
           es_UpdatedAt s = ch_Now ch \<and> es_TerminalAt s = pf_TerminalAt (ch_Projection ch)))"

lemma recordsCommit_terminalAgrees:
  assumes "recordsCommit ch t" and "validateChange ch = None"
  shows "terminalAgrees t"
  using assms sameProjection_fields [of "tr_Projection t" "ch_Projection ch"]
  by (auto simp: recordsCommit_def terminalAgrees_def validateChange_def Let_def errWhen_None_iff)

lemma foldReady_step:
  assumes "foldReady ch prior n" and "validateChange ch = None" and "recordsCommit ch t" and "Transition_Validate t = None"
    and "tr_Sequence t = n + 1"
  shows "ProjectEpisode prior t = Inr (foldTransition prior t) \<and> foldReady ch (Some (foldTransition prior t)) (n + 1)"
proof -
  have agrees: "terminalAgrees t" by (rule recordsCommit_terminalAgrees [OF assms(3,2)])
  have pr: "pf_TerminalAt (tr_Projection t) = pf_TerminalAt (ch_Projection ch)"
    using assms(3) sameProjection_fields [of "tr_Projection t" "ch_Projection ch"] by (simp add: recordsCommit_def)
  have fold: "EpisodeSummary_Validate s = None \<and> validateFold s t = None" if "prior = Some s" for s
    using assms(1,3,5) that pr
    by (auto simp: foldReady_def validateFold_iff recordsCommit_def sameTerminalCommit_def tEqual_def split: option.splits)
  then have "ProjectEpisode prior t = Inr (foldTransition prior t)" by (rule ProjectEpisode_total [OF assms(4) agrees])
  moreover from ProjectEpisode_Inr(3) [OF this] have "foldReady ch (Some (foldTransition prior t)) (n + 1)"
    using assms(1,3,5) pr by (cases prior) (simp_all add: foldReady_def recordsCommit_def foldTransition_def)
  ultimately show ?thesis by simp
qed

definition versionOf :: "episodeSummary option \<Rightarrow> int" where
  "versionOf prior = (case prior of None \<Rightarrow> 0 | Some s \<Rightarrow> es_Version s)"

lemma foldTransition_version: "es_Version (foldTransition prior t) = versionOf prior + 1"
  by (cases prior) (simp_all add: foldTransition_def versionOf_def)

lemma foldEpisode_total:
  assumes "foldReady ch prior n" and "validateChange ch = None" and "list_all (recordsCommit ch) ts"
    and "list_all (\<lambda>t. Transition_Validate t = None) ts" and "map tr_Sequence ts = [n + 1 .. n + int (length ts)]" and "ts \<noteq> []"
  shows "\<exists>s. foldEpisode prior ts = Inr (Some s) \<and> foldReady ch (Some s) (n + int (length ts)) \<and>
    es_Version s = versionOf prior + int (length ts)"
  using assms(1,3-6)
proof (induction ts arbitrary: prior n)
  case (Cons t ts)
  let ?s = "foldTransition prior t"
  have "[n + 1 .. n + int (length (t # ts))] = (n + 1) # [n + 1 + 1 .. n + 1 + int (length ts)]"
    by (subst upto_rec1) (simp_all add: add_ac)
  with Cons.prems(4) have t: "tr_Sequence t = n + 1" "map tr_Sequence ts = [n + 1 + 1 .. n + 1 + int (length ts)]"
    by simp_all
  from foldReady_step [OF Cons.prems(1) assms(2) _ _ t(1)] Cons.prems
  have step: "ProjectEpisode prior t = Inr ?s" "foldReady ch (Some ?s) (n + 1)" by simp_all
  show ?case
  proof (cases "ts = []")
    case True
    with step show ?thesis by (simp add: foldTransition_version)
  next
    case False
    with Cons.IH [OF step(2) _ _ t(2)] Cons.prems obtain s where "foldEpisode (Some ?s) ts = Inr (Some s)"
      "foldReady ch (Some s) (n + 1 + int (length ts))" "es_Version s = es_Version ?s + int (length ts)"
      by (auto simp: versionOf_def)
    with step show ?thesis by (simp add: foldTransition_version add_ac)
  qed
qed simp

lemma foldTransition_terminal: "es_TerminalAt (foldTransition prior t) = pf_TerminalAt (tr_Projection t)"
  by (simp add: foldTransition_def)

lemma foldEpisode_Nil_iff: "foldEpisode prior us = Inr None \<longleftrightarrow> us = []"
  by (cases us) (auto split: sum.splits option.splits)

lemma foldEpisode_terminal:
  "foldEpisode prior us = Inr (Some s) \<Longrightarrow> es_TerminalAt s = pf_TerminalAt (tr_Projection (last us))"
proof (induction us arbitrary: prior)
  case (Cons u us)
  then obtain x where x: "ProjectEpisode prior u = Inr x" by (auto split: sum.splits)
  show ?case
  proof (cases "us = []")
    case True
    with Cons.prems x ProjectEpisode_Inr(4) [OF x] show ?thesis by (auto simp: foldTransition_terminal)
  next
    case False
    with Cons.prems x foldEpisode_Nil_iff [of "Some x" us] have "foldEpisode (Some x) us = Inr (Some s)"
      by (auto split: sum.splits option.splits)
    from Cons.IH [OF this] False show ?thesis by simp
  qed
qed simp

text \<open>The summary and the Transition of the previous commit, as the store hands them over.\<close>

definition priorReady :: "authoritativeChange \<Rightarrow> bool" where
  "priorReady ch \<longleftrightarrow> foldReady ch (ch_PriorSummary ch) (priorSequence ch) \<and>
     (ch_PriorTransition ch = None \<longleftrightarrow> ch_PriorSummary ch = None)"

lemma BuildTransitions_folds:
  assumes "BuildTransitions f ch = Inr ts" and "priorReady ch" and "ts \<noteq> []"
  shows "\<exists>s. foldEpisode (ch_PriorSummary ch) ts = Inr (Some s) \<and> EpisodeSummary_Validate s = None \<and>
    es_SituationID s = si_ID (ch_Situation ch) \<and> es_SourceTransitionSequence s = tr_Sequence (last ts) \<and>
    es_Version s = versionOf (ch_PriorSummary ch) + int (length ts) \<and> es_TerminalAt s = pf_TerminalAt (ch_Projection ch)"
proof -
  from assms(1) obtain "validateChange ch = None" "list_all (\<lambda>t. Transition_Validate t = None) ts"
    by (rule BuildTransitions_Inr)
  with foldEpisode_total [of ch "ch_PriorSummary ch" "priorSequence ch" ts] assms
    BuildTransitions_records [OF assms(1)] BuildTransitions_sequence [OF assms(1)]
  obtain s where s: "foldEpisode (ch_PriorSummary ch) ts = Inr (Some s)" "foldReady ch (Some s) (priorSequence ch + int (length ts))"
    "es_Version s = versionOf (ch_PriorSummary ch) + int (length ts)" by (auto simp: priorReady_def)
  have "last (map tr_Sequence ts) = last [priorSequence ch + 1 .. priorSequence ch + int (length ts)]"
    by (simp only: BuildTransitions_sequence [OF assms(1)])
  also have "\<dots> = priorSequence ch + int (length ts)"
    using assms(3) by (subst upto_rec2) (simp_all, cases ts, simp_all)
  finally have last: "tr_Sequence (last ts) = priorSequence ch + int (length ts)" using assms(3) by (simp add: last_map)
  have closed: "es_TerminalAt s = pf_TerminalAt (ch_Projection ch)"
    using foldEpisode_terminal [OF s(1)] BuildTransitions_records [OF assms(1)] assms(3) sameProjection_fields
    by (metis last_in_set list_all_iff recordsCommit_def)
  show ?thesis using s last closed by (auto simp: foldReady_def)
qed

section \<open>The commit succeeds\<close>

lemma refreshIntent_wellFormed:
  assumes "planReady f inp" and "boundedID (tr_ID p)"
  shows "intentWellFormed (refreshIntent f inp p)"
  using assms rootSyncKey_boundedID by (simp add: refreshIntent_def intent_defs planReady_def)

lemma PlanNotificationIntents_total:
  assumes "validatePublicationInput inp = None" and "planReady f inp"
    and "list_all (\<lambda>t. Transition_Validate t = None) (pi_Transitions inp)"
    and "pi_Transitions inp = [] \<Longrightarrow> (\<exists>p. pi_PriorTransition inp = Some p \<and> boundedID (tr_ID p)) \<and> 1 \<le> es_Version (pi_Summary inp)"
  shows "\<exists>intents. PlanNotificationIntents f inp = Inr intents"
proof (cases "pi_Transitions inp = []")
  case True
  with assms(4) obtain p where p: "pi_PriorTransition inp = Some p" "boundedID (tr_ID p)" "1 \<le> es_Version (pi_Summary inp)"
    by blast
  then have "NotificationIntent_Validate (refreshIntent f inp p) = None"
    using refreshIntent_wellFormed [OF assms(2)] by (simp add: NotificationIntent_Validate_iff)
  with True p assms(1) show ?thesis
    by (auto simp: PlanNotificationIntents_def planDeadlineRefresh_def Let_def split: option.splits)
next
  case False
  show ?thesis
  proof (cases "pi_RootPublished inp \<or> pi_RootPublicationOwed inp \<or> PublicationAuthority (last (pi_Transitions inp))")
    case True
    from PlanNotificationIntents_succeeds [OF assms(1) False assms(2) _ True] assms(3) show ?thesis
      by (auto simp: list_all_iff)
  next
    case quiet: False
    with False assms(1) show ?thesis by (simp add: PlanNotificationIntents_def Let_def)
  qed
qed

text \<open>The delivery-side context of a commit.\<close>

definition publicationReady :: "authoritativeChange \<Rightarrow> publicationInput \<Rightarrow> bool" where
  "publicationReady ch pub \<longleftrightarrow>
     checkPublication ch pub = None \<and> tutc (pi_Now pub) \<and> boundedID (si_ID (ch_Situation ch)) \<and>
     pred_option tutc (pi_ContractDeadlineAt pub) \<and>
     (pi_SlackFloor pub = InterruptionPriorityOther [] \<or> InterruptionPriority_Validate (pi_SlackFloor pub) = None) \<and>
     0 \<le> pi_RepageCooldown pub \<and> pred_option (\<lambda>v. v \<le> versionOf (ch_PriorSummary ch)) (pi_LatestRootSyncVersion pub) \<and>
     pred_option (\<lambda>p. boundedID (tr_ID p)) (pi_PriorTransition pub) \<and>
     pred_option (\<lambda>p. boundedID (tr_ID p)) (ch_PriorTransition ch)"

lemma BuildTransitions_Nil_prior:
  assumes "BuildTransitions f ch = Inr []"
  obtains p where "ch_PriorTransition ch = Some p"
proof (cases "ch_PriorTransition ch")
  case None
  from assms obtain arts where "[] = arts @ controllerTransitions f ch (priorSequence ch + 1 + int (length arts))"
    by (rule BuildTransitions_Inr)
  with None show ?thesis by (simp add: controllerTransitions_def selectControllerReason_def Let_def)
qed (use that in blast)

lemma BuildTransitions_valid: "BuildTransitions f ch = Inr ts \<Longrightarrow> list_all (\<lambda>t. Transition_Validate t = None) ts"
  by (erule BuildTransitions_Inr)

lemma checkTransitions_derived:
  assumes "BuildTransitions f ch = Inr ts"
  shows "checkTransitions (si_ID (ch_Situation ch)) None ts = None"
proof -
  have "sorted_wrt (<) (map tr_Sequence ts)" by (simp add: BuildTransitions_sequence [OF assms])
  with BuildTransitions_records [OF assms] show ?thesis
    by (simp add: checkTransitions_iff list_all_iff recordsCommit_def)
qed

lemma publicationFor_valid:
  assumes "BuildTransitions f ch = Inr ts" and "changeReady f ch" and "priorReady ch" and "publicationReady ch pub"
    and "foldEpisode (ch_PriorSummary ch) ts = Inr summary"
  shows "validatePublicationInput (publicationFor ch pub ts summary) = None"
    and "ts = [] \<Longrightarrow> 1 \<le> es_Version (pi_Summary (publicationFor ch pub ts summary))"
proof -
  have now: "\<not> tIsZero (pi_Now pub)" "tutc (pi_Now pub)"
    using assms(2,4) changeReady_now [OF assms(2)]
    by (simp_all add: publicationReady_def checkPublication_def errWhen_None_iff tEqual_def tIsZero_def instantReady_def)
  have id: "si_ID (pi_Situation pub) = si_ID (ch_Situation ch)" "si_ID (ch_Situation ch) \<noteq> []"
    using assms(4) by (auto simp: publicationReady_def checkPublication_def errWhen_None_iff boundedID_def)
  note base = now id assms(4)
  have "validatePublicationInput (publicationFor ch pub ts summary) = None \<and>
    (ts = [] \<longrightarrow> 1 \<le> es_Version (pi_Summary (publicationFor ch pub ts summary)))"
  proof (cases "ts = []")
    case True
    with assms(1) obtain p where "ch_PriorTransition ch = Some p" using BuildTransitions_Nil_prior by blast
    with assms(3) obtain s where s: "ch_PriorSummary ch = Some s" "EpisodeSummary_Validate s = None"
      "es_SituationID s = si_ID (ch_Situation ch)" by (auto simp: priorReady_def foldReady_def)
    then have "1 \<le> es_Version s" by (simp add: EpisodeSummary_Validate_def errWhen_None_iff)
    with s True base assms(5) show ?thesis
      by (auto simp: validatePublicationInput_def publicationFor_def publicationReady_def versionOf_def errWhen_None_iff
          wrapErr_None_iff whenSome_None_iff pred_option_iff)
  next
    case False
    from BuildTransitions_folds [OF assms(1,3) False] assms(5) obtain s where s: "summary = Some s"
      "EpisodeSummary_Validate s = None" "es_SituationID s = si_ID (ch_Situation ch)"
      "es_SourceTransitionSequence s = tr_Sequence (last ts)" "es_Version s = versionOf (ch_PriorSummary ch) + int (length ts)"
      by auto
    have version: "1 \<le> es_Version s" using s(2) by (simp add: EpisodeSummary_Validate_def errWhen_None_iff)
    have "v \<le> es_Version s" if "pi_LatestRootSyncVersion pub = Some v" for v
      using assms(4) that s(5) by (auto simp: publicationReady_def pred_option_iff)
    with False version s base checkTransitions_derived [OF assms(1)] show ?thesis
      by (auto simp: validatePublicationInput_def publicationFor_def publicationReady_def errWhen_None_iff
          wrapErr_None_iff whenSome_None_iff)
  qed
  then show "validatePublicationInput (publicationFor ch pub ts summary) = None"
    and "ts = [] \<Longrightarrow> 1 \<le> es_Version (pi_Summary (publicationFor ch pub ts summary))" by blast+
qed

lemma BuildHistoryCommit_total:
  assumes "changeReady f ch" and "priorReady ch" and "publicationReady ch pub"
  obtains ts summary intents where "BuildTransitions f ch = Inr ts" and "foldEpisode (ch_PriorSummary ch) ts = Inr summary"
    and "PlanNotificationIntents f (publicationFor ch pub ts summary) = Inr intents"
    and "BuildHistoryCommit f ch pub = Inr \<lparr>hc_Transitions = ts, hc_Summary = summary, hc_Intents = intents\<rparr>"
proof -
  obtain ts where ts: "BuildTransitions f ch = Inr ts" using BuildTransitions_total [OF assms(1)] .
  obtain summary where fold: "foldEpisode (ch_PriorSummary ch) ts = Inr summary"
    using BuildTransitions_folds [OF ts assms(2)] by (cases "ts = []") auto
  let ?pub = "publicationFor ch pub ts summary"
  note valid = publicationFor_valid [OF ts assms fold]
  have ready: "planReady f ?pub"
    using assms changeReady_now [OF assms(1)]
    by (auto simp: planReady_def publicationFor_def publicationReady_def changeReady_def instantReady_def checkPublication_def
        errWhen_None_iff tEqual_def tIsZero_def)
  have "list_all (\<lambda>t. Transition_Validate t = None) (pi_Transitions ?pub)"
    using BuildTransitions_valid [OF ts] by (simp add: publicationFor_def)
  moreover have "\<exists>p. pi_PriorTransition ?pub = Some p \<and> boundedID (tr_ID p)" if empty: "ts = []"
  proof -
    obtain p where "ch_PriorTransition ch = Some p" using BuildTransitions_Nil_prior [OF ts [unfolded empty]] .
    with assms(3) show ?thesis
      by (cases "pi_PriorTransition pub") (simp_all add: publicationFor_def publicationReady_def)
  qed
  ultimately obtain intents where plan: "PlanNotificationIntents f ?pub = Inr intents"
    using PlanNotificationIntents_total [OF valid(1) ready] valid(2) by (auto simp: publicationFor_def)
  have "checkPublication ch pub = None" using assms(3) by (simp add: publicationReady_def)
  with ts fold plan have "BuildHistoryCommit f ch pub = Inr \<lparr>hc_Transitions = ts, hc_Summary = summary, hc_Intents = intents\<rparr>"
    by (simp add: BuildHistoryCommit_def)
  with ts fold plan that show ?thesis by blast
qed

end
