(* ===== verification/History_Properties.thy ===== *)
theory History_Properties
  imports Notification_Properties Episode
begin

text \<open>
  The properties of durable history: what one reconciliation records, that recording it cannot fail on
  well-formed input, and that the Episode summary is a digest of the whole ledger which never reopens.
\<close>

section \<open>A first commit, and one that repeats it\<close>

definition sampleChange :: authoritativeChange where
  "sampleChange = \<lparr>ch_Situation = sampleSituation LifecycleActive None None, ch_AssessmentID = Some ''as-1'',
     ch_Assessment = sampleAssessment AttentionObserve, ch_Derivation = DerivationModelValidated,
     ch_Projection = sampleProjection, ch_PriorTransition = None, ch_PriorSummary = None, ch_MaterialFactHash = ''facts'',
     ch_EvidenceRefs = [], ch_Incidents = [], ch_TriageDecisions = [], ch_RecurrenceCount = 0, ch_OperatorArtifacts = [],
     ch_Drill = False, ch_Now = sampleTime 200, ch_Judgment = None,
     ch_JudgmentApplicabilityReason = JudgmentApplicabilityReasonOther [], ch_ExpectedBehaviorEvaluation = None\<rparr>"

definition laterChange :: authoritativeChange where
  "laterChange = sampleChange\<lparr>ch_PriorTransition := Some (sampleTransition 1 AttentionObserve),
     ch_PriorSummary := Some (sampleSummary 1)\<rparr>"

definition samplePublished :: publicationInput where
  "samplePublished = (samplePublication [] 0 None False InterruptionLow)\<lparr>pi_Summary := zeroSummary\<rparr>"

lemma sampleProjection_valid: "ProjectionFacts_Validate sampleProjection = None"
  by (simp add: ProjectionFacts_Validate_def sampleProjection_def errWhen_None_iff wrapErr_None_iff requireNonZeroUTC_iff
      validateEnum_def)

lemma sample_ids_not_blank [simp]: "\<not> blank ''as-1''"
  by (rule not_blank_ascii) (simp_all add: byte_def asciiSpace_def)

lemma sampleChange_valid: "validateChange sampleChange = None" "validateChange laterChange = None"
  by (simp_all add: validateChange_def laterChange_def sampleChange_def sampleSituation_def sampleProjection_valid
      errWhen_None_iff wrapErr_None_iff Lifecycle_Validate_def Attention_Validate_def AssessmentDerivation_Validate_def
      validateEnum_def sampleTransition_def sampleSummary_def) (simp_all add: sampleProjection_def)

lemma sampleIdentity_bounded [simp]: "boundedID (sampleIdentity k)"
  by (simp add: sampleIdentity_def boundedID_def maxIdentifierLength_def)

lemma sampleChange_ready: "changeReady sampleIdentity sampleChange"
  by (simp add: changeReady_def sampleChange_valid priorSequence_def, simp add: sampleChange_def sampleSituation_def
      sampleAssessment_def sampleContract_valid briefingReady_def sampleProjection_def judgmentOf_def behaviorOf_def)

lemma samplePrior_ready: "priorReady sampleChange"
  by (simp add: priorReady_def foldReady_def priorSequence_def sampleChange_def)

lemma samplePublished_ready: "publicationReady sampleChange samplePublished"
  by (simp add: publicationReady_def checkPublication_def errWhen_None_iff samplePublished_def samplePublication_def
      sampleChange_def sampleSituation_def zeroSummary_def tEqual_def boundedID_def maxIdentifierLength_def
      InterruptionPriority_Validate_def validateEnum_def)

section \<open>Recording a commit\<close>

lemma PlanNotificationIntents_validated:
  assumes "PlanNotificationIntents f inp = Inr intents"
  shows "list_all (\<lambda>n. NotificationIntent_Validate n = None) intents"
  using assms
  by (auto simp: PlanNotificationIntents_def planDeadlineRefresh_def Let_def split: option.splits if_splits)

text \<open>
  C26. Recording a reconciliation never fails on well-formed input: it yields the Transitions, the summary folded
  over all of them (whose version grows by their number and which ends with the Situation), and validated intents.
\<close>

theorem history_commit_succeeds:
  assumes "changeReady f ch" and "priorReady ch" and "publicationReady ch pub"
  shows "\<exists>ts summary intents.
    BuildHistoryCommit f ch pub = Inr \<lparr>hc_Transitions = ts, hc_Summary = summary, hc_Intents = intents\<rparr> \<and>
    BuildTransitions f ch = Inr ts \<and> list_all (\<lambda>t. Transition_Validate t = None) ts \<and>
    list_all (\<lambda>n. NotificationIntent_Validate n = None) intents \<and>
    (if ts = [] then summary = None
     else \<exists>s. summary = Some s \<and> EpisodeSummary_Validate s = None \<and>
       es_Version s = versionOf (ch_PriorSummary ch) + int (length ts) \<and>
       es_SourceTransitionSequence s = tr_Sequence (last ts) \<and> es_TerminalAt s = pf_TerminalAt (ch_Projection ch))"
proof -
  obtain ts summary intents where c: "BuildTransitions f ch = Inr ts" "foldEpisode (ch_PriorSummary ch) ts = Inr summary"
    "PlanNotificationIntents f (publicationFor ch pub ts summary) = Inr intents"
    "BuildHistoryCommit f ch pub = Inr \<lparr>hc_Transitions = ts, hc_Summary = summary, hc_Intents = intents\<rparr>"
    using BuildHistoryCommit_total [OF assms] .
  moreover have "summary = None" if "ts = []" using c(2) that by simp
  moreover have "\<exists>s. summary = Some s \<and> EpisodeSummary_Validate s = None \<and>
      es_Version s = versionOf (ch_PriorSummary ch) + int (length ts) \<and>
      es_SourceTransitionSequence s = tr_Sequence (last ts) \<and> es_TerminalAt s = pf_TerminalAt (ch_Projection ch)" if "ts \<noteq> []"
    using BuildTransitions_folds [OF c(1) assms(2) that] c(2) by auto
  ultimately show ?thesis using BuildTransitions_valid [OF c(1)] PlanNotificationIntents_validated [OF c(3)] by auto
qed

theorem history_commit_succeeds_witness:
  "\<exists>ts summary intents.
     BuildHistoryCommit sampleIdentity sampleChange samplePublished =
       Inr \<lparr>hc_Transitions = ts, hc_Summary = summary, hc_Intents = intents\<rparr> \<and>
     list_all (\<lambda>t. Transition_Validate t = None) ts"
  using history_commit_succeeds [OF sampleChange_ready samplePrior_ready samplePublished_ready] by blast

text \<open>
  The Transitions of one commit continue the sequence without a gap, all record the same committed state, the
  operator artifacts come first in their order, and at most three controller Transitions follow.
\<close>

theorem transitions_in_order:
  assumes "BuildTransitions f ch = Inr ts"
  shows "map tr_Sequence ts = [priorSequence ch + 1 .. priorSequence ch + int (length ts)] \<and> list_all (recordsCommit ch) ts \<and>
    (\<exists>arts rest. ts = arts @ rest \<and> list_all2 (journalsArtifact ch) (ch_OperatorArtifacts ch) arts \<and> length rest \<le> 3 \<and>
       list_all (\<lambda>t. tr_Reason t \<noteq> ReasonOperatorArtifactRecorded) rest)"
proof -
  from assms obtain arts where a: "artifactTransitions f ch (priorSequence ch + 1) (ch_OperatorArtifacts ch) = Inr arts"
    "ts = arts @ controllerTransitions f ch (priorSequence ch + 1 + int (length arts))" by (rule BuildTransitions_Inr)
  have "list_all (\<lambda>t. tr_Reason t \<noteq> ReasonOperatorArtifactRecorded) (controllerTransitions f ch n)" for n
    using controllerTransitions_record(2) [of ch f n] by (simp add: list_all_iff)
  with a artifactTransitions_journals [OF a(1)] controllerTransitions_record(3) [of f ch] show ?thesis
    using BuildTransitions_sequence [OF assms] BuildTransitions_records [OF assms] by blast
qed

lemma BuildTransitions_first:
  assumes "changeReady f ch" and "ch_PriorTransition ch = None" and "ch_OperatorArtifacts ch = []"
  shows "BuildTransitions f ch = Inr [controllerTransition f ch ReasonFirstAuthoritativeState 1]"
proof -
  obtain ts where ts: "BuildTransitions f ch = Inr ts" using BuildTransitions_total [OF assms(1)] .
  with assms show ?thesis
    by (auto simp: BuildTransitions_def controllerTransitions_def selectControllerReason_def expectedBehaviorJournal_def
        expectedJudgmentJournal_def priorSequence_def Let_def split: option.splits)
qed

theorem transitions_in_order_witness:
  "map tr_Sequence [controllerTransition sampleIdentity sampleChange ReasonFirstAuthoritativeState 1] = [1 .. 1]"
  using transitions_in_order [OF BuildTransitions_first [OF sampleChange_ready]]
  by (simp add: sampleChange_def priorSequence_def)

text \<open>
  A reconciliation whose state repeats the last recorded one (apart from the deadline of the contract, prose, the
  order of codes and triggers, and recurrences below the next rung) records nothing.
\<close>

theorem repeated_state_is_silent:
  assumes "validateChange ch = None" and "ch_PriorTransition ch = Some p" and "commitRepeats ch p"
    and "ch_OperatorArtifacts ch = []"
  shows "BuildTransitions f ch = Inr []"
  using assms by (rule commitRepeats_no_history)

theorem repeated_state_is_silent_witness: "BuildTransitions sampleIdentity laterChange = Inr []"
proof (rule repeated_state_is_silent [OF sampleChange_valid(2)])
  show "ch_PriorTransition laterChange = Some (sampleTransition 1 AttentionObserve)" "ch_OperatorArtifacts laterChange = []"
    by (simp_all add: laterChange_def sampleChange_def)
  show "commitRepeats laterChange (sampleTransition 1 AttentionObserve)"
    by (simp add: commitRepeats_def laterChange_def sampleChange_def sampleSituation_def sampleTransition_def
        sampleAssessment_def contractSame_def triageStateChanged_def briefingSame_def sampleSummary_def sampleProjection_def)
qed

text \<open>
  C36. The reason of a controller Transition is the first change in the documented order of precedence.  A chosen reason always became
  true against the last recorded Transition.  And when no two compared values share a digest, nothing is recorded exactly when the
  commit repeats the recorded state, and otherwise the reason is the first of \<open>reasonPrecedence\<close> that the values warrant: the end of the
  Situation before its recovery, this before the phases of an investigation, then Attention, contract, recurrence, triage, and last the
  Assessment.
\<close>

theorem reason_names_the_change:
  assumes "ch_PriorTransition ch = Some p"
  shows "(\<forall>r. selectControllerReason ch = Some r \<longrightarrow> reasonWarranted ch p r) \<and>
    (digestsTellApart ch p \<longrightarrow>
       selectControllerReason ch = (if commitRepeats ch p then None else find (reasonWarranted ch p) reasonPrecedence))"
  using selectControllerReason_warranted [OF assms] selectControllerReason_first [OF assms] by blast

definition sampleDecision :: triageDecision where
  "sampleDecision = \<lparr>td_IncidentID = ''inc-1'', td_Decision = TriageDecisionSkip, td_DecisionReason = ''covered'',
     td_SituationID = ''sit-1'', td_SituationInputVersion = 1, td_CoveredAssessmentID = None, td_MaterialFactHash = ''facts'',
     td_MembershipDigest = ''m'', td_IncidentInputDigest = ''d'', td_DecidedAt = sampleTime 200\<rparr>"

definition decidedChange :: authoritativeChange where
  "decidedChange = laterChange\<lparr>ch_TriageDecisions := [sampleDecision]\<rparr>"

theorem reason_names_the_change_witness: "selectControllerReason decidedChange = Some ReasonTriageStateChanged"
proof -
  let ?p = "sampleTransition 1 AttentionObserve"
  have p: "ch_PriorTransition decidedChange = Some ?p" by (simp add: decidedChange_def laterChange_def)
  note samples = decidedChange_def laterChange_def sampleChange_def sampleSituation_def sampleTransition_def sampleAssessment_def
    sampleSummary_def sampleProjection_def
  have "currentTuple decidedChange = priorTuple decidedChange ?p"
    by (simp add: currentTuple_def priorTuple_def samples)
  then have "digestsTellApart decidedChange ?p"
    by (simp add: digestsTellApart_def) (simp add: samples contractSame_def briefingSame_def)
  moreover have "\<not> commitRepeats decidedChange ?p" by (simp add: commitRepeats_def triageStateChanged_def samples)
  moreover have "find (reasonWarranted decidedChange ?p) reasonPrecedence = Some ReasonTriageStateChanged"
    by (simp add: reasonPrecedence_def reasonWarranted_def Let_def samples contractSame_def triageStateChanged_def)
  ultimately show ?thesis using reason_names_the_change [OF p] by simp
qed

text \<open>
  C37. History attributes a Transition to the model only when the authoritative Assessment was validated model output and the model
  authored what the Transition records: the first state, the Assessment or the Attention, or the conclusion of an investigation, and
  this only when the conclusion (its codes, not their order) differs from the one the last recorded Transition shows.
\<close>

theorem model_authorship_is_earned:
  assumes "BuildTransitions f ch = Inr ts" and "t \<in> set ts" and "tr_Actor t = ActorLLM"
  shows "ch_Derivation ch = DerivationModelValidated \<and>
    (tr_Reason t \<in> {ReasonFirstAuthoritativeState, ReasonMaterialAssessmentChanged, ReasonAttentionChanged} \<or>
     tr_Reason t = ReasonInvestigationConcluded \<and> (\<forall>p. ch_PriorTransition ch = Some p \<longrightarrow>
       \<not> rel_option conclusionSame (pf_Assessment (ch_Projection ch)) (pf_Assessment (tr_Projection p))))"
  using BuildTransitions_llm [OF assms] unfolding modelAuthored_def .

theorem model_authorship_is_earned_witness:
  "ch_Derivation sampleChange = DerivationModelValidated \<and>
   tr_Reason (controllerTransition sampleIdentity sampleChange ReasonFirstAuthoritativeState 1) \<noteq> ReasonOperatorContractChanged"
proof -
  let ?t = "controllerTransition sampleIdentity sampleChange ReasonFirstAuthoritativeState 1"
  have "BuildTransitions sampleIdentity sampleChange = Inr [?t]"
    by (rule BuildTransitions_first [OF sampleChange_ready]) (simp_all add: sampleChange_def)
  moreover have "tr_Actor ?t = ActorLLM"
    by (simp add: controllerTransition_def Let_def split_beta controllerActor_def) (simp add: sampleChange_def)
  ultimately show ?thesis
    using model_authorship_is_earned [of sampleIdentity sampleChange "[?t]" ?t] by auto
qed

section \<open>The Episode\<close>

text \<open>
  C28. The Episode summary is a digest of its ledger: it counts the Transitions, keeps the highest Attention and
  recurrence, knows exactly whether an investigation began, and lists the newest fifty operator records and the newest
  fifty lines of work without adjacent repeats; the ledger is contiguous and ordered in time.
\<close>

theorem summary_digests_ledger:
  assumes "episodeOf ts s"
  shows "es_Version s = int (length ts) \<and> attentionRank (es_PeakAttention s) = peakRank ts \<and>
    es_RecurrenceCount s = peakRecurrence ts \<and> (es_InvestigationStarted s \<longleftrightarrow> list_ex startsInvestigation ts) \<and>
    es_RecordedOperatorContext s = recordedContext ts \<and> es_InvestigationWork s = recordedWork ts \<and>
    map tr_Sequence ts = [es_SourceTransitionSequence s - int (length ts) + 1 .. es_SourceTransitionSequence s] \<and>
    sorted (map (\<lambda>t. tns (tr_CreatedAt t)) ts)"
  using version.digest_correct [OF assms] peak.digest_correct [OF assms] recurrence.digest_correct [OF assms]
    investigation.digest_correct [OF assms] operatorContext.digest_correct [OF assms]
    investigationWork.digest_correct [OF assms] episodeOf_order [OF assms]
  by blast

lemma twoTransitions_episode:
  assumes "Transition_Validate a = None" "Transition_Validate b = None" "terminalAgrees a" "terminalAgrees b"
    and "validateFold (foldTransition None a) b = None"
  shows "episodeOf [a, b] (foldTransition (Some (foldTransition None a)) b)"
proof -
  have one: "ProjectEpisode None a = Inr (foldTransition None a)"
    by (rule ProjectEpisode_total) (simp_all add: assms)
  with ProjectEpisode_Inr(3) [OF one] assms
  have "ProjectEpisode (Some (foldTransition None a)) b = Inr (foldTransition (Some (foldTransition None a)) b)"
    by (intro ProjectEpisode_total) simp_all
  from episodeOf.more [OF episodeOf.first [OF one] this] show ?thesis by simp
qed

definition openTransition :: "int \<Rightarrow> transition" where "openTransition n = sampleTransition n AttentionUrgent"

definition closedTransition :: "int \<Rightarrow> transition" where
  "closedTransition n = (openTransition n)\<lparr>tr_Lifecycle := LifecycleRecovered,
     tr_ActionContract := sampleContract\<lparr>ac_NextUpdateAt := None\<rparr>,
     tr_Projection := sampleProjection\<lparr>pf_TerminalAt := Some (sampleTime 150)\<rparr>\<rparr>"

lemma openTransition_valid: "1 \<le> n \<Longrightarrow> Transition_Validate (openTransition n) = None"
  using sampleTransition_valid
  by (simp add: openTransition_def Transition_Validate_def sampleTransition_def errWhen_None_iff wrapErr_None_iff
      maxIdentifierLength_def)

lemma closedContract_valid: "ActionContract_validate True (sampleContract\<lparr>ac_NextUpdateAt := None\<rparr>) = None"
  using sampleContract_valid by (simp add: ActionContract_validate_iff contractCodesClosed_def) (simp add: sampleContract_def)

lemma closedTransition_valid: "1 \<le> n \<Longrightarrow> Transition_Validate (closedTransition n) = None"
  using sampleTransition_valid sampleProjection_valid closedContract_valid
  by (simp add: closedTransition_def openTransition_def Transition_Validate_def sampleTransition_def errWhen_None_iff
      wrapErr_None_iff maxIdentifierLength_def Lifecycle_Validate_def validateEnum_def ProjectionFacts_Validate_def requireUTC_iff)

lemma openTransition_fields [simp]:
  "tr_SituationID (openTransition n) = ''sit-1''" "tr_Sequence (openTransition n) = n"
  "tr_CreatedAt (openTransition n) = sampleTime 150" "tr_Lifecycle (openTransition n) = LifecycleActive"
  "pf_TerminalAt (tr_Projection (openTransition n)) = None"
  by (simp_all add: openTransition_def sampleTransition_def sampleProjection_def)

lemma closedTransition_fields [simp]:
  "tr_SituationID (closedTransition n) = ''sit-1''" "tr_Sequence (closedTransition n) = n"
  "tr_CreatedAt (closedTransition n) = sampleTime 150" "tr_Lifecycle (closedTransition n) = LifecycleRecovered"
  "pf_TerminalAt (tr_Projection (closedTransition n)) = Some (sampleTime 150)"
  by (simp_all add: closedTransition_def)

lemma sampleLedgers:
  "episodeOf [openTransition 1, openTransition 2] (foldTransition (Some (foldTransition None (openTransition 1))) (openTransition 2))"
  "episodeOf [closedTransition 1, closedTransition 2] (foldTransition (Some (foldTransition None (closedTransition 1))) (closedTransition 2))"
  by (rule twoTransitions_episode;
      simp add: openTransition_valid closedTransition_valid terminalAgrees_def validateFold_iff foldTransition_def
        sameTerminalCommit_def tEqual_def)+

theorem summary_digests_ledger_witness:
  "es_Version (foldTransition (Some (foldTransition None (openTransition 1))) (openTransition 2)) = 2"
  using summary_digests_ledger [OF sampleLedgers(1)] by simp

text \<open>
  C27. A closed Episode never reopens: after the first Transition that reports the end, every later one of the ledger
  belongs to the same commit, with the same terminal instant and the same time of creation.
\<close>

theorem closed_episode_never_reopens:
  assumes "episodeOf ts s" and "i < j" and "j < length ts" and "pf_TerminalAt (tr_Projection (ts ! i)) \<noteq> None"
  shows "tns (tr_CreatedAt (ts ! j)) = tns (tr_CreatedAt (ts ! i)) \<and>
    map_option tns (pf_TerminalAt (tr_Projection (ts ! j))) = map_option tns (pf_TerminalAt (tr_Projection (ts ! i)))"
  using episodeOf_terminal [OF assms] by (simp add: closedBy_def)

theorem closed_episode_never_reopens_witness:
  "tns (tr_CreatedAt (closedTransition 2)) = tns (tr_CreatedAt (closedTransition 1))"
  using closed_episode_never_reopens [OF sampleLedgers(2), of 0 1] by simp

text \<open>
  The journal of an applied schedule copies the operator's name as it was asserted; a name beyond the identifier bound is rejected.
\<close>

lemma long_operator_rejected:
  assumes "expectedBehaviorJournal ch = Some (j, actor)" and "behaviorOf (pf_Briefing (ch_Projection ch)) = Some x"
    and "length (xp_AssertedOperator x) > maxIdentifierLength"
    and "xp_Disposition x = ExpectedBehaviorDispositionMatched"
  shows "JournalData_Validate j \<noteq> None"
proof -
  have "matchedProjection (behaviorOf (pf_Briefing (ch_Projection ch)))" using assms(2,4) by (simp add: matchedProjection_def)
  then have "jd_AttributedActor j = xp_AssertedOperator x"
    using assms(1,2) unfolding expectedBehaviorJournal_def Let_def by (auto split: option.splits if_splits)
  with assms(3) show ?thesis by (simp add: JournalData_Validate_def errWhen_None_iff)
qed

end
