(* ===== verification/Expected_Properties.thy ===== *)
theory Expected_Properties
  imports Notification_Properties Assessment_Properties Briefing
begin

text \<open>
  The properties of scheduled expected behavior, of the briefing an operator reads and of the work it reports.
  The time zone database is a parameter: a function from zone names to offsets, of which nothing is assumed.
\<close>

section \<open>A nightly batch in a zone without offsets\<close>

definition sampleZones :: zoneDatabase where "sampleZones = (\<lambda>_. Some (\<lambda>_. 0))"

definition sampleSchedule :: expectedBehaviorSchedule where
  "sampleSchedule = \<lparr>ebd_Days = [ExpectedBehaviorMonday], ebd_LocalStart = ''00:00'', ebd_LocalEnd = ''01:00'',
     ebd_Timezone = ''UTC'', ebd_StartToleranceMinutes = 5\<rparr>"

definition sampleOccurrence :: expectedBehaviorOccurrence where
  "sampleOccurrence = occurrenceOf (\<lambda>_. 0) sampleSchedule 30 (sampleTime 120) (43200, 0, 3600)"

lemma sampleSchedule_valid: "validateExpectedBehaviorSchedule sampleZones sampleSchedule = None"
  by (simp add: validateExpectedBehaviorSchedule_def sampleSchedule_def expectedBehaviorTimeWeekday_def
      parseExpectedBehaviorClock_def twoDigits_def digitOf_def byte_def sampleZones_def)

lemma sampleRange:
  "resolveExpectedBehaviorRange (\<lambda>_. 0) date (0, 0) (1, 0) = Inr (date div 86400 * 86400, date div 86400 * 86400 + 3600)"
  by (simp add: resolveExpectedBehaviorRange_def Let_def resolveLocal_fixed localSecond_def)

lemma sampleOccurrence_resolved:
  "ResolveExpectedBehaviorOccurrence sampleZones sampleSchedule 30 (sampleTime 120) = Inr sampleOccurrence"
proof -
  have clock: "parseExpectedBehaviorClock ''00:00'' = Inr (0, 0)" "parseExpectedBehaviorClock ''01:00'' = Inr (1, 0)"
    by (simp_all add: parseExpectedBehaviorClock_def twoDigits_def digitOf_def byte_def)
  have today: "dateCandidate (\<lambda>_. 0) sampleSchedule (0, 0) (1, 0) (sampleTime 120) 43200 = Inr [(43200, 0, 3600)]"
    by (simp add: dateCandidate_def sampleRange localSecond_def sampleSchedule_def expectedBehaviorModelWeekday_def
        withinTolerance_def tBefore_def tAfter_def tAdd_def sampleTime_def atSecond_def utcAt_def duration_defs)
  have yesterday: "dateCandidate (\<lambda>_. 0) sampleSchedule (0, 0) (1, 0) (sampleTime 120) (- 43200) = Inr []"
    by (simp add: dateCandidate_def localSecond_def sampleSchedule_def expectedBehaviorModelWeekday_def)
  show ?thesis
    using clock today yesterday
    by (simp add: ResolveExpectedBehaviorOccurrence_def sampleSchedule_valid)
      (simp add: sampleZones_def sampleSchedule_def localSecond_def dateIn_def sampleTime_def utcAt_def duration_defs
        sampleOccurrence_def)
qed

definition sampleScope :: expectedBehaviorScope where
  "sampleScope = \<lparr>ebs_GroupKey = ''g'', ebs_Source = ''zabbix'', ebs_SourceInstanceID = ''z1'', ebs_Host = ''db1'',
     ebs_PrimaryTriggerID = ''t1'', ebs_PrimaryTriggerVersion = ''v1'', ebs_ProducerID = [], ebs_ScopeLabels = [],
     ebs_PrimaryRuleID = [], ebs_PrimaryRuleVersion = [], ebs_RuleGroup = [], ebs_RuleName = []\<rparr>"

definition sampleHead :: expectedBehaviorHead where
  "sampleHead = \<lparr>ebh_EnvelopeID = ''e1'', ebh_RevisionID = ''r1'', ebh_Version = 1, ebh_State = ExpectedBehaviorStateActive,
     ebh_Scope = sampleScope,
     ebh_Policy = Some \<lparr>ebp_Scope = sampleScope, ebp_Conditions = \<lparr>ebc_Workload = ''batch'', ebc_Schedule = sampleSchedule,
       ebc_MaxDurationMinutes = 30, ebc_RequiredCompanions = [], ebc_AllowedCompanions = [], ebc_ForbiddenSignals = []\<rparr>,
       ebp_ReviewDueAt = sampleTime 9999\<rparr>,
     ebh_AssertedOperator = ''op'', ebh_InvalidatedAt = None,
     ebh_InvalidationReason = ExpectedBehaviorInvalidationReasonOther [], ebh_UpdatedAt = sampleTime 50\<rparr>"

definition sampleBehaviorInput :: expectedBehaviorInput where
  "sampleBehaviorInput = \<lparr>xin_SituationID = ''sit-1'', xin_SituationVersion = 1, xin_GroupKey = ''g'', xin_Now = sampleTime 200,
     xin_PrimaryStartedAt = sampleTime 120, xin_Source = ''zabbix'', xin_SourceInstanceID = ''z1'', xin_Host = ''db1'',
     xin_PrimaryTriggerID = ''t1'', xin_PrimaryVersion = ''v1'', xin_HasCriticalFiring = False,
     xin_IndependentlyUrgent = False, xin_FiringSignals = [], xin_Observations = [], xin_Heads = [sampleHead],
     xin_ProducerID = [], xin_ScopeLabels = [], xin_PrimaryRuleID = [], xin_PrimaryRuleVersion = [], xin_PrimaryPresence = []\<rparr>"

lemma sampleOccurrence_boundary: "tns (ebo_Boundary sampleOccurrence) = 1920 * second"
  by (simp add: sampleOccurrence_def occurrenceOf_def Let_def tBefore_def tAdd_def tUTC_def sampleTime_def atSecond_def
      utcAt_def duration_defs)

lemma sampleBehavior_matched:
  "eev_Disposition (EvaluateExpectedBehaviors sampleZones sampleBehaviorInput) = ExpectedBehaviorDispositionMatched"
proof -
  have "tBefore (sampleTime 200) (ebo_Boundary sampleOccurrence)"
    by (simp add: tBefore_def sampleOccurrence_boundary) (simp add: sampleTime_def utcAt_def duration_defs)
  then have "eca_Status (evaluateExpectedBehaviorCandidate sampleZones sampleBehaviorInput sampleHead) = ExpectedBehaviorMatched"
    by (simp add: evaluateExpectedBehaviorCandidate_def sampleBehaviorInput_def sampleHead_def sampleScope_def
        scopeVersions_def expectedBehaviorScopeMatches_def checkPrimary_def sampleOccurrence_resolved checkSignals_def
        Let_def)
  moreover have "sampleHead \<in> set (xin_Heads sampleBehaviorInput)" by (simp add: sampleBehaviorInput_def)
  ultimately show ?thesis by (auto simp: EvaluateExpectedBehaviors_disposition Let_def)
qed

section \<open>Scheduled behavior\<close>

text \<open>
  C32. A verdict that the current condition is expected rests on an active schedule of the same scope and rule
  version, whose resolved occurrence is not over, with nothing critical or urgent, all required companions present, no
  forbidden or unexpected signal firing, and evidence that has not expired.
\<close>

theorem expected_match_is_sound:
  assumes "eev_Disposition (EvaluateExpectedBehaviors tz inp) = ExpectedBehaviorDispositionMatched"
  shows "\<exists>h occ. h \<in> set (xin_Heads inp) \<and> eev_Occurrence (EvaluateExpectedBehaviors tz inp) = Some occ \<and>
    scheduleHolds tz inp h occ \<and>
    (\<forall>t. eev_EvidenceExpiresAt (EvaluateExpectedBehaviors tz inp) = Some t \<longrightarrow> tns (xin_Now inp) < tns t)"
  using assms by (rule EvaluateExpectedBehaviors_matched)

theorem expected_match_is_sound_witness:
  "\<exists>occ. scheduleHolds sampleZones sampleBehaviorInput sampleHead occ"
  using expected_match_is_sound [OF sampleBehavior_matched] by (auto simp: sampleBehaviorInput_def)

text \<open>
  The occurrence a start is assigned to is a proper interval on a scheduled weekday, begins within the tolerance
  of the start, and its boundary is the earlier of its end and the longest allowed duration.
\<close>

theorem occurrence_bounds:
  assumes "ResolveExpectedBehaviorOccurrence tz s m primary = Inr occ"
  shows "tns (ebo_Start occ) < tns (ebo_End occ) \<and>
    \<bar>tns primary - tns (ebo_Start occ)\<bar> \<le> ebd_StartToleranceMinutes s * minute \<and>
    tns (ebo_Boundary occ) = min (tns (ebo_End occ)) (tns primary + m * minute) \<and> 1 \<le> m \<and> m \<le> 7 * 24 * 60 \<and>
    (\<exists>off day. tz (ebd_Timezone s) = Some off \<and> ebo_OwningLocalDate occ = dateText day \<and>
       expectedBehaviorModelWeekday day \<in> set (ebd_Days s))"
proof -
  obtain off date a b where o: "tz (ebd_Timezone s) = Some off" "occ = occurrenceOf off s m primary (date, a, b)" "a < b"
    "withinTolerance (ebd_StartToleranceMinutes s * minute) primary a"
    "expectedBehaviorModelWeekday (localSecond off date div 86400) \<in> set (ebd_Days s)" "1 \<le> m" "m \<le> 10080"
    using ResolveExpectedBehaviorOccurrence_cases [OF assms] by metis
  then have "tns (ebo_Start occ) = a * second" "tns (ebo_End occ) = b * second" "ebo_OwningLocalDate occ = dateText (localSecond off date div 86400)"
    "tns (ebo_Boundary occ) = min (b * second) (tns primary + m * minute)"
    by (auto simp: occurrenceOf_def atSecond_def Let_def tBefore_def tAdd_def utcAt_def tUTC_def min_def)
  moreover have "\<bar>tns primary - a * second\<bar> \<le> ebd_StartToleranceMinutes s * minute"
    using o(4) by (simp add: withinTolerance_def tBefore_def tAfter_def tAdd_def atSecond_def utcAt_def abs_le_iff)
  ultimately show ?thesis using o by (auto simp: second_def)
qed

theorem occurrence_bounds_witness:
  "tns (ebo_Start sampleOccurrence) < tns (ebo_End sampleOccurrence) \<and>
   tns (ebo_Boundary sampleOccurrence) = min (tns (ebo_End sampleOccurrence)) (tns (sampleTime 120) + 30 * minute)"
  using occurrence_bounds [OF sampleOccurrence_resolved] by simp

lemma advanceLocal_sound:
  "u \<in> set (advanceLocal off m n) \<Longrightarrow> \<exists>k \<le> n. localSecond off u div 60 = m div 60 + int k"
proof (induction off m n arbitrary: u rule: advanceLocal.induct)
  case (1 off m)
  then show ?case by (simp add: matchesAround_sound)
next
  case (2 off m n)
  show ?case
  proof (cases "matchesAround off m")
    case Nil
    with 2 obtain k where "k \<le> n" "localSecond off u div 60 = (m + 60) div 60 + int k" by auto
    then show ?thesis by (intro exI [of _ "Suc k"]) simp
  next
    case (Cons x xs)
    with 2(2) matchesAround_sound [of u off m] show ?thesis by (intro exI [of _ 0]) simp
  qed
qed

text \<open>
  The local clock is inverted exactly: every instant chosen for a wall-clock minute shows that minute or, where
  the clock skips it, a later one by at most three hours; in a zone without transitions it is the one instant
  that shows it.
\<close>

theorem local_minute_roundtrip:
  "(\<forall>u \<in> set (resolveExpectedBehaviorLocal off m). \<exists>k \<le> 180. localSecond off u div 60 = m div 60 + int k) \<and>
   resolveExpectedBehaviorLocal (\<lambda>_. z) m = [m - z] \<and> localSecond (\<lambda>_. z) (m - z) = m"
  using advanceLocal_sound [of _ off m 180]
  by (simp add: resolveLocal_fixed localSecond_def) (simp add: resolveExpectedBehaviorLocal_def localSecond_def)

theorem local_minute_roundtrip_witness:
  "\<exists>k \<le> 180. localSecond (\<lambda>_. 3600) 3600 div 60 = 7200 div 60 + int k"
  using local_minute_roundtrip [of "\<lambda>_. 3600" 7200 3600] by fastforce




section \<open>The briefing\<close>

text \<open>
  The briefing an operator reads agrees with the lifecycle: it counts a firing Alert exactly when the symptoms that
  drive the lifecycle fire, every Alert is counted once as firing or resolved, and no critical Alert is counted that does not fire.
\<close>

theorem briefing_agrees_with_lifecycle:
  "(0 < ob_Firing (BuildOperatorBriefing inp lc) \<longleftrightarrow> AnyFiring (deriveSymptoms (sn_Deliveries inp))) \<and>
   ob_Total (BuildOperatorBriefing inp lc) =
     ob_Firing (BuildOperatorBriefing inp lc) + ob_Resolved (BuildOperatorBriefing inp lc) \<and>
   ob_Critical (BuildOperatorBriefing inp lc) \<le> ob_Firing (BuildOperatorBriefing inp lc)"
  using BuildOperatorBriefing_firing BuildOperatorBriefing_total BuildOperatorBriefing_critical by blast

text \<open>
  A Transition whose briefing, lifecycle, Attention and contract repeat those of the one before offers the operator
  nothing new: no candidate for a reply.
\<close>

theorem repetition_offers_nothing:
  assumes "pf_Briefing (tr_Projection p) = Some b" and "pf_Briefing (tr_Projection t) = Some b"
    and "tr_Lifecycle t = tr_Lifecycle p" and "tr_Attention t = tr_Attention p" and "tr_ActionContract t = tr_ActionContract p"
    and "overviewAgrees b" and "distinct (map ba_ID (ob_Alerts b))"
  shows "MaterialCandidates (Some p) t = []"
  using assms by (rule MaterialCandidates_repeat)

definition sampleBriefing :: operatorBriefing where
  "sampleBriefing = (BuildOperatorBriefing (sampleInput [] (sampleSituation LifecycleActive None None) [] [] None) LifecycleActive)
     \<lparr>ob_Alerts := [\<lparr>ba_ID = ''a1'', ba_Name = ''disk'', ba_Service = [], ba_Context = [], ba_State = ''firing'', ba_SourceSummary = []\<rparr>], ob_Analyses := []\<rparr>"

definition briefedTransition :: "int \<Rightarrow> transition" where
  "briefedTransition n = (sampleTransition n AttentionUrgent)
     \<lparr>tr_Projection := sampleProjection\<lparr>pf_Briefing := Some sampleBriefing\<rparr>\<rparr>"

theorem repetition_offers_nothing_witness: "MaterialCandidates (Some (briefedTransition 1)) (briefedTransition 2) = []"
proof (rule repetition_offers_nothing)
  show "overviewAgrees sampleBriefing" "distinct (map ba_ID (ob_Alerts sampleBriefing))"
    by (simp_all add: sampleBriefing_def overviewAgrees_def)
qed (simp_all add: briefedTransition_def sampleTransition_def)

section \<open>Work\<close>

text \<open>
  The work an operator is told about summarises all Incidents: its phase is one of theirs and outranks all of them,
  it reads as ended only when nothing is outstanding, and the eligibility instants are the earliest of those Incidents
  that wait in that phase.
\<close>

theorem work_projection_faithful:
  "let w = BuildWorkProjection incidents g cp in
    (\<forall>inc \<in> set incidents. workRank (wp_ExecutionStarted w) (incidentWorkPhase inc) \<le> workRank (wp_ExecutionStarted w) (wp_Phase w)) \<and>
    wp_Phase w \<in> insert WorkPhaseNone (incidentWorkPhase ` set incidents) \<and>
    (endedPhase (wp_Phase w) \<longleftrightarrow> wp_RemainingIncidents w = 0 \<and> list_ex (\<lambda>i. endedPhase (incidentWorkPhase i)) incidents) \<and>
    map_option tns (wp_RetryEligibleAt w) =
      minOf {tns t | t inc. inc \<in> set incidents \<and> incidentWorkPhase inc = WorkPhaseRetryWait \<and> tst_NextAt (inc_Triage inc) = Some t}"
proof -
  let ?phases = "map incidentWorkPhase incidents" and ?s = "list_ex incidentExecuted incidents"
  let ?w = "BuildWorkProjection incidents g cp"
  have phase: "wp_Phase ?w = aggregateWorkPhase ?phases ?s" "wp_ExecutionStarted ?w = ?s"
    and remaining: "wp_RemainingIncidents ?w = 0 \<longleftrightarrow> \<not> list_ex outstanding ?phases"
    by (simp_all add: BuildWorkProjection_def Let_def filter_empty_conv list_ex_iff)
  have "tns ` {t. Some t \<in> set (map (\<lambda>inc. tst_NextAt (inc_Triage inc)) (filter (\<lambda>inc. incidentWorkPhase inc = WorkPhaseRetryWait) incidents))} =
      {tns t | t inc. inc \<in> set incidents \<and> incidentWorkPhase inc = WorkPhaseRetryWait \<and> tst_NextAt (inc_Triage inc) = Some t}"
    by (force simp: image_iff)
  then have retry: "map_option tns (wp_RetryEligibleAt ?w) =
      minOf {tns t | t inc. inc \<in> set incidents \<and> incidentWorkPhase inc = WorkPhaseRetryWait \<and> tst_NextAt (inc_Triage inc) = Some t}"
    by (simp add: BuildWorkProjection_def Let_def earliestNextAt_def keepEarlier_fold)
  show ?thesis
    unfolding Let_def phase remaining retry
    using aggregateWorkPhase_upper [of _ ?phases ?s] aggregateWorkPhase_member [of ?phases ?s] aggregateWorkPhase_ended [of ?phases ?s]
    by (auto simp: list_ex_iff)
qed

theorem work_projection_faithful_witness:
  "wp_Phase (BuildWorkProjection [sampleIncident ''pending'' None] None None) \<in> {WorkPhaseNone, WorkPhaseQueued}"
  using work_projection_faithful [of "[sampleIncident ''pending'' None]" None None]
  by (simp add: Let_def incidentWorkPhase_def workPhaseOf_def sampleIncident_def sampleTriage_def)

end
