(* ===== verification/Controller_Commit.thy ===== *)
theory Controller_Commit
  imports Episode Controller_Lifecycle
begin

text \<open>
  The rows and the commit of one controller cycle (\<^verbatim>\<open>controller.go\<close>, \<^verbatim>\<open>controller_budget.go\<close>,
  \<^verbatim>\<open>assessment_usage.go\<close>): attempt and outcome rows with their JSON, the classification of failed calls into
  retries and parks, the preserved or fallback Assessment, the controller state of a cycle, and the change its
  history is built from.  Random jitter and fresh identifiers are arguments.
\<close>

section \<open>The JSON of an Assessment\<close>

definition cadenceText :: "cadence \<Rightarrow> string" where
  "cadenceText v = (case v of CadenceNone \<Rightarrow> [] | CadenceFast \<Rightarrow> ''fast'' | CadenceNormal \<Rightarrow> ''normal''
     | CadenceSlow \<Rightarrow> ''slow'' | CadenceOther s \<Rightarrow> s)"

definition jSufficientReason :: "sufficientReason \<Rightarrow> json" where
  "jSufficientReason v = JObject
    [(''code'', JString (sr_Code v)), (''candidate_id'', JString (sr_CandidateID v)),
     (''summary'', JString (sr_Summary v)), (''evidence_refs'', jStrings (sr_EvidenceRefs v))]"

definition jLimitation :: "limitation \<Rightarrow> json" where
  "jLimitation v = JObject [(''code'', JString (li_Code v)), (''detail'', JString (li_Detail v))]"

definition jActionContract :: "actionContract \<Rightarrow> json" where
  "jActionContract v = JObject
    [(''next_actor'', JString (nextActorText (ac_NextActor v))),
     (''alertint_action'', jOpt (JString \<circ> alertINTActionText) (ac_AlertINTAction v)),
     (''alertint_status'', jOpt (JString \<circ> alertINTStatusText) (ac_AlertINTStatus v)),
     (''operator_action_required'', jOpt (JString \<circ> operatorActionText) (ac_OperatorActionRequired v)),
     (''next_update_at'', jOpt jTime (ac_NextUpdateAt v)),
     (''next_update_on'', JArray (map (JString \<circ> nextUpdateOnText) (ac_NextUpdateOn v))),
     (''wait_reason'', jOpt (JString \<circ> waitReasonText) (ac_WaitReason v))]"

definition jAssessment :: "assessment \<Rightarrow> json" where
  "jAssessment v = JObject
    [(''schema_version'', JInt (as_SchemaVersion v)), (''persistence'', JString (persistenceText (as_Persistence v))),
     (''impact'', JString (impactText (as_Impact v))), (''novelty'', JString (noveltyText (as_Novelty v))),
     (''causality'', JString (causalityText (as_Causality v))), (''attention'', JString (attentionText (as_Attention v))),
     (''lifecycle'', JString (lifecycleText (as_Lifecycle v))),
     (''evidence_quality'', JString (evidenceQualityText (as_EvidenceQuality v))),
     (''sufficient_reason'', jOpt jSufficientReason (as_SufficientReason v)),
     (''action_contract'', jActionContract (as_ActionContract v)),
     (''limitations'', JArray (map jLimitation (as_Limitations v))), (''cadence'', JString (cadenceText (as_Cadence v)))]"

definition jAssessmentProposal :: "assessmentProposal \<Rightarrow> json" where
  "jAssessmentProposal v = JObject
    [(''schema_version'', JInt (ap_SchemaVersion v)), (''persistence'', JString (persistenceText (ap_Persistence v))),
     (''impact'', JString (impactText (ap_Impact v))), (''novelty'', JString (noveltyText (ap_Novelty v))),
     (''causality'', JString (causalityText (ap_Causality v))), (''attention'', JString (attentionText (ap_Attention v))),
     (''sufficient_reason'', jOpt jSufficientReason (ap_SufficientReason v)),
     (''limitations'', JArray (map jLimitation (ap_Limitations v)))]"

section \<open>Failed calls\<close>

text \<open>What the code asks of a call's error with \<^verbatim>\<open>errors.Is\<close> and \<^verbatim>\<open>errors.As\<close>.\<close>

record callError =
  ce_BudgetExhausted :: bool
  ce_RequestNotSent :: bool
  ce_SchemaViolation :: bool
  ce_ResponseTruncated :: bool
  ce_ResponseInvalid :: bool
  ce_RetryableStatus :: "int option"
  ce_APIStatus :: "int option"
  ce_BudgetDeferred :: "gtime option option"

definition transportErrOf :: "callError \<Rightarrow> transportErr" where
  "transportErrOf e = \<lparr>te_Malformed = (ce_SchemaViolation e \<or> ce_ResponseTruncated e \<or> ce_ResponseInvalid e),
     te_RetryableStatus = ce_RetryableStatus e, te_APIStatus = ce_APIStatus e\<rparr>"

definition BudgetDeferralErrorClass :: string where "BudgetDeferralErrorClass = ''budget_deferred''"

definition sanitizeTransportError :: "callError \<Rightarrow> string" where
  "sanitizeTransportError e =
     (if ce_BudgetExhausted e \<and> ce_RequestNotSent e then BudgetDeferralErrorClass
      else if ce_SchemaViolation e then ''schema_violation''
      else if ce_ResponseTruncated e then ''response_truncated''
      else if ce_ResponseInvalid e then ''response_invalid''
      else case ce_RetryableStatus e of Some n \<Rightarrow> ''retryable_http_'' @ itoa n
      | None \<Rightarrow> (case ce_APIStatus e of Some n \<Rightarrow> ''api_http_'' @ itoa n | None \<Rightarrow> ''transport_failure''))"

definition l2OutcomeText :: "l2Outcome \<Rightarrow> string" where
  "l2OutcomeText v = (case v of L2OutcomeAccepted \<Rightarrow> ''accepted'' | L2OutcomeContradicted \<Rightarrow> ''contradicted''
     | L2OutcomeMalformed \<Rightarrow> ''malformed'' | L2OutcomeTransportFailure \<Rightarrow> ''transport_failure''
     | L2OutcomeRateLimited \<Rightarrow> ''rate_limited'' | L2OutcomePolicyRejected \<Rightarrow> ''policy_rejected''
     | L2OutcomeCapabilityRejected \<Rightarrow> ''capability_rejected'' | L2OutcomeStaleBasis \<Rightarrow> ''stale_basis'')"

definition ParkedReasonMalformedExhausted :: string where "ParkedReasonMalformedExhausted = ''malformed_exhausted''"
definition ParkedReasonDependency :: string where "ParkedReasonDependency = ''dependency_exhausted''"
definition ParkedReasonPolicyRejected :: string where "ParkedReasonPolicyRejected = ''policy_rejected''"
definition ParkedReasonCapabilityRejected :: string where "ParkedReasonCapabilityRejected = ''capability_rejected''"
definition ParkedReasonBudget :: string where "ParkedReasonBudget = ''budget_deferred''"

lemmas parked_reasons = ParkedReasonMalformedExhausted_def ParkedReasonDependency_def ParkedReasonPolicyRejected_def
  ParkedReasonCapabilityRejected_def ParkedReasonBudget_def

definition parkedReasonForOutcome :: "l2Outcome \<Rightarrow> string" where
  "parkedReasonForOutcome v = (case v of
     L2OutcomePolicyRejected \<Rightarrow> ParkedReasonPolicyRejected
   | L2OutcomeCapabilityRejected \<Rightarrow> ParkedReasonCapabilityRejected
   | L2OutcomeTransportFailure \<Rightarrow> ParkedReasonDependency
   | L2OutcomeRateLimited \<Rightarrow> ParkedReasonDependency
   | _ \<Rightarrow> ParkedReasonMalformedExhausted)"

definition controllerParkBlocksDispatch :: "controllerParkedState \<Rightarrow> string \<Rightarrow> bool" where
  "controllerParkBlocksDispatch p currentMaterialFactHash =
     (if cps_Reason p \<noteq> ParkedReasonPolicyRejected \<and> cps_Reason p \<noteq> ParkedReasonCapabilityRejected then False
      else cps_MaterialFactHash p \<noteq> [] \<and> cps_MaterialFactHash p = currentMaterialFactHash)"

text \<open>
  \<open>draw\<close> is the value of \<^verbatim>\<open>rand.Float64()\<close>.  The product with the shifted unit wraps at 64 bits, the
  conversion of the jitter truncates.
\<close>

definition truncRat :: "rat \<Rightarrow> int" where
  "truncRat x = (if 0 \<le> x then \<lfloor>x\<rfloor> else \<lceil>x\<rceil>)"

definition retryBackoff :: "rat \<Rightarrow> retryConfig \<Rightarrow> int \<Rightarrow> duration" where
  "retryBackoff draw cfg workAttempt0 =
     (let workAttempt = (if workAttempt0 < 1 then 1 else workAttempt0);
          shift = (if workAttempt - 1 > 30 then 30 else workAttempt - 1);
          d0 = wrap64 (rtc_Min cfg * 2 ^ nat shift);
          d1 = (if d0 \<le> 0 \<or> d0 > rtc_Max cfg then rtc_Max cfg else d0);
          d2 = (if rtc_JitterPercent cfg > 0
                then let frac = f64 (f64 (of_int (rtc_JitterPercent cfg)) / 100);
                         jitter = truncRat (f64 (f64 (f64 (of_int d1) * frac) * f64 (f64 (draw * 2) - 1)))
                     in wrap64 (d1 + jitter)
                else d1)
      in if d2 \<le> 0 then rtc_Min cfg else d2)"

section \<open>Rows\<close>

definition synthesizeSequence :: "int \<Rightarrow> int \<Rightarrow> int \<Rightarrow> int \<Rightarrow> int" where
  "synthesizeSequence inputVersion retryEpoch workAttempt callNumber =
     inputVersion * 1000000 + retryEpoch * 10000 + workAttempt * 100 + callNumber"

definition zeroAttempt :: assessmentAttempt where
  "zeroAttempt = \<lparr>aat_ID = [], aat_SituationID = [], aat_AssessmentBasisHash = [], aat_CallID = None,
     aat_InputVersion = 0, aat_RetryEpoch = 0, aat_WorkAttempt = 0, aat_Sequence = 0,
     aat_Derivation = AssessmentDerivationOther [], aat_Status = [], aat_Proposal = [], aat_Validated = [],
     aat_ValidationErrors = [], aat_ProviderRequestStarted = None, aat_UsageInputTokens = None,
     aat_UsageOutputTokens = None, aat_ReusedFromAssessmentID = None, aat_CreatedAt = zeroTime, aat_CompletedAt = zeroTime\<rparr>"

definition buildAuthoritativeAttempt ::
  "string \<Rightarrow> string \<Rightarrow> assessmentResult \<Rightarrow> string option \<Rightarrow> int \<Rightarrow> int \<Rightarrow> duration \<Rightarrow> gtime \<Rightarrow> assessmentAttempt" where
  "buildAuthoritativeAttempt uuid situationID result callID retryEpoch workAttempt dur now =
     zeroAttempt\<lparr>aat_ID := uuid, aat_SituationID := situationID, aat_AssessmentBasisHash := ars_AssessmentBasisHash result,
       aat_CallID := callID, aat_InputVersion := ars_InputVersion result, aat_RetryEpoch := retryEpoch,
       aat_WorkAttempt := workAttempt, aat_Derivation := ars_Derivation result, aat_Status := ''authoritative'',
       aat_Validated := marshal (jAssessment (ars_Assessment result)),
       aat_ProviderRequestStarted :=
         Some (if callID \<noteq> None then ProviderRequestStartedTrue else ProviderRequestStartedFalse),
       aat_ReusedFromAssessmentID := ars_ReusedFromAssessmentID result, aat_CreatedAt := tAdd now (- dur),
       aat_CompletedAt := now\<rparr>"

definition outcomeErrorCodes :: "validationIssue list \<Rightarrow> string list" where
  "outcomeErrorCodes issues = map vi_Code issues"

definition buildOutcomeAttempt ::
  "string \<Rightarrow> string \<Rightarrow> string \<Rightarrow> int \<Rightarrow> int \<Rightarrow> int \<Rightarrow> int \<Rightarrow> validationResult option \<Rightarrow> callError option
     \<Rightarrow> providerRequestStarted \<Rightarrow> duration \<Rightarrow> gtime \<Rightarrow> assessmentAttempt" where
  "buildOutcomeAttempt uuid situationID callID inputVersion retryEpoch workAttempt sequence vr err started dur now =
     zeroAttempt\<lparr>aat_ID := uuid, aat_SituationID := situationID, aat_CallID := Some callID,
       aat_InputVersion := inputVersion, aat_RetryEpoch := retryEpoch, aat_WorkAttempt := workAttempt,
       aat_Sequence := sequence, aat_Status := (if vr \<noteq> None then ''rejected'' else ''failed''),
       aat_Proposal := (case vr of None \<Rightarrow> [] | Some r \<Rightarrow>
         (case vr_RejectedProposal r of None \<Rightarrow> [] | Some p \<Rightarrow> marshal (jAssessmentProposal p))),
       aat_ValidationErrors := (case vr of Some r \<Rightarrow> marshal (jStrings (outcomeErrorCodes (vr_Errors r)))
         | None \<Rightarrow> (case err of Some e \<Rightarrow> marshal (jStrings [sanitizeTransportError e]) | None \<Rightarrow> [])),
       aat_ProviderRequestStarted := Some started, aat_CreatedAt := tAdd now (- dur), aat_CompletedAt := now\<rparr>"

definition buildStaleOutcome :: "assessmentAttempt \<Rightarrow> string \<Rightarrow> assessmentAttempt" where
  "buildStaleOutcome attempt callID =
     attempt\<lparr>aat_CallID := Some callID, aat_Status := ''stale'', aat_Derivation := AssessmentDerivationOther [],
       aat_ReusedFromAssessmentID := None,
       aat_Sequence := synthesizeSequence (aat_InputVersion attempt) (aat_RetryEpoch attempt) (aat_WorkAttempt attempt) 3\<rparr>"

text \<open>The token counts of \<^verbatim>\<open>llm.Completion\<close>.\<close>

record completionUsage =
  cu_InputTokens :: int
  cu_OutputTokens :: int
  cu_CacheCreationInputTokens :: int
  cu_CacheReadInputTokens :: int

definition setAssessmentUsage :: "assessmentAttempt \<Rightarrow> completionUsage \<Rightarrow> assessmentAttempt" where
  "setAssessmentUsage attempt usage =
     (let inp = wrap64 (wrap64 (cu_InputTokens usage + cu_CacheCreationInputTokens usage) + cu_CacheReadInputTokens usage);
          out = cu_OutputTokens usage in
      if inp = 0 \<and> out = 0 then attempt
      else attempt\<lparr>aat_UsageInputTokens := Some inp, aat_UsageOutputTokens := Some out\<rparr>)"

section \<open>Without a fresh proposal\<close>

definition proposalFromAssessment :: "assessment \<Rightarrow> assessmentProposal" where
  "proposalFromAssessment a =
     \<lparr>ap_SchemaVersion = as_SchemaVersion a, ap_Persistence = as_Persistence a, ap_Impact = as_Impact a,
      ap_Novelty = as_Novelty a, ap_Causality = as_Causality a, ap_Attention = as_Attention a,
      ap_SufficientReason = as_SufficientReason a, ap_Limitations = as_Limitations a\<rparr>"

definition revalidatedPreservedAssessment ::
  "snapshot \<Rightarrow> snapshotInput \<Rightarrow> controllerState \<Rightarrow> gtime \<Rightarrow> assessment option" where
  "revalidatedPreservedAssessment snap inp state now =
     (case sn_CurrentAssessment inp of None \<Rightarrow> None
      | Some cur \<Rightarrow>
        if trustworthy cur \<noteq> None then None
        else let proposal = proposalFromAssessment (aa_Assessment cur) in
          case rebindSufficientReason (ap_SufficientReason proposal) (ss_EligibleReasons snap) of None \<Rightarrow> None
          | Some rebound \<Rightarrow>
            (let revalidated = validateProposalContent (proposal\<lparr>ap_SufficientReason := rebound\<rparr>) snap in
             if \<not> accepted (vr_Outcome revalidated) then None
             else case vr_Proposal revalidated of None \<Rightarrow> None
               | Some p \<Rightarrow> Some (ars_Assessment
                   (DeriveAssessment p snap inp state (aa_Derivation cur) (aa_ReusedFromAssessmentID cur) now))))"

definition fallbackOrPreserve ::
  "string \<Rightarrow> string \<Rightarrow> snapshot \<Rightarrow> snapshotInput \<Rightarrow> controllerState \<Rightarrow> int \<Rightarrow> int \<Rightarrow> gtime
     \<Rightarrow> assessment \<times> assessmentAttempt \<times> incidentCoverage list" where
  "fallbackOrPreserve uuid situationID snap inp state retryEpoch workAttempt now =
     (case revalidatedPreservedAssessment snap inp state now of
        Some a \<Rightarrow> (a, zeroAttempt, [])
      | None \<Rightarrow>
        (let result = DeterministicFallback snap inp state now in
         (ars_Assessment result, buildAuthoritativeAttempt uuid situationID result None retryEpoch workAttempt 0 now,
          ars_Coverage result)))"

definition fallbackOrPreserveBlocked ::
  "string \<Rightarrow> string \<Rightarrow> snapshot \<Rightarrow> snapshotInput \<Rightarrow> controllerState \<Rightarrow> gtime
     \<Rightarrow> assessment \<times> assessmentAttempt \<times> incidentCoverage list" where
  "fallbackOrPreserveBlocked uuid situationID snap inp state now =
     fallbackOrPreserve uuid situationID snap inp (state\<lparr>cst_SemanticRetry := SemanticRetryPhaseBlocked\<rparr>) 0 1 now"

section \<open>The state and the commit of a cycle\<close>

definition buildControllerState ::
  "controllerConfig \<Rightarrow> snapshot \<Rightarrow> snapshotInput \<Rightarrow> lifecycleResolution \<Rightarrow> triageDecision list \<Rightarrow> gtime \<Rightarrow> controllerState" where
  "buildControllerState cfg snap inp lc triageDecisions now =
     (let d = ObservationDeadlineAt (si_EffectiveStartedAt (sn_Situation inp)) (ss_DurationClass snap);
          due = triageDueTimes (ss_Incidents snap) triageDecisions now
      in \<lparr>cst_Lifecycle = LifecycleOther [], cst_Attention = AttentionOther [], cst_OperatorActionRequired = None,
          cst_TriagePhase = aggregateTriagePhase (ss_Incidents snap) triageDecisions,
          cst_SemanticRetry = SemanticRetryPhaseNone, cst_Tempo = ccf_Cadence cfg,
          cst_TriageDueAt = fst due, cst_FutureTriageDueAt = snd due, cst_SemanticRetryAt = None,
          cst_RecoveryGraceUntil = lr_GraceUntil lc,
          cst_LifecycleObservationDeadlineAt =
            (if \<not> Terminal (lr_Lifecycle lc) \<and> tBefore now d then Some d else None),
          cst_EarliestPersistedCheckpoint = None\<rparr>)"

definition finalizeCheckpoint :: "controllerCommit \<Rightarrow> gtime \<Rightarrow> controllerCommit" where
  "finalizeCheckpoint base now =
     base\<lparr>cc_Attention := as_Attention (cc_Assessment base),
       cc_NextAssessmentAt := (case ac_NextUpdateAt (as_ActionContract (cc_Assessment base)) of
          Some t \<Rightarrow> t
        | None \<Rightarrow> if Terminal (cc_Lifecycle base) then now else tAdd now minute)\<rparr>"

definition recurrenceCountOf :: "snapshotInput \<Rightarrow> int" where
  "recurrenceCountOf inp = int (length (sn_PriorSituations inp)) + sum_list (map inc_Occurrences (sn_Incidents inp))"

definition assessmentConclusionOf :: "assessment \<Rightarrow> assessmentConclusion" where
  "assessmentConclusionOf a =
     \<lparr>co_Persistence = as_Persistence a, co_Impact = as_Impact a, co_Novelty = as_Novelty a, co_Causality = as_Causality a,
      co_EvidenceQuality = as_EvidenceQuality a, co_LimitationCodes = map li_Code (as_Limitations a),
      co_SufficientReasonCode = (case as_SufficientReason a of None \<Rightarrow> [] | Some r \<Rightarrow> sr_Code r),
      co_SufficientReasonSummary = (case as_SufficientReason a of None \<Rightarrow> [] | Some r \<Rightarrow> sr_Summary r)\<rparr>"

definition materialFactRefs :: "snapshot \<Rightarrow> string list" where
  "materialFactRefs snap = map fa_ID (filter fa_Material (ss_Facts snap))"

definition situationDrill :: "snapshotInput \<Rightarrow> bool" where
  "situationDrill inp = list_ex de_Drill (sn_Deliveries inp)"

text \<open>\<open>claimVersion\<close> is the input version of the claimed row.\<close>

definition committedSituation :: "int \<Rightarrow> snapshotInput \<Rightarrow> gtime \<Rightarrow> controllerCommit \<Rightarrow> situation" where
  "committedSituation claimVersion inp now commit =
     (sn_Situation inp)\<lparr>si_InputVersion := claimVersion, si_Lifecycle := cc_Lifecycle commit,
       si_Attention := cc_Attention commit, si_RecoveryObservedAt := cc_RecoveryObservedAt commit,
       si_GraceUntil := cc_GraceUntil commit, si_TerminalAt := cc_TerminalAt commit,
       si_TerminalReason := cc_TerminalReason commit, si_NextAssessmentAt := cc_NextAssessmentAt commit,
       si_UpdatedAt := now, si_DueReasons := cc_ConsumedDueReasons commit\<rparr>"

definition committedProjection :: "snapshotInput \<Rightarrow> snapshot \<Rightarrow> controllerCommit \<Rightarrow> projectionFacts" where
  "committedProjection inp snap commit =
     \<lparr>pf_CoverageLimitations = coverageLimitationsOf (ss_CapabilityResults snap), pf_OperatorDelta = None,
      pf_Briefing = Some (CommittedOperatorBriefing inp commit), pf_PublicHandle = si_PublicHandle (sn_Situation inp),
      pf_EffectiveStartedAt = si_EffectiveStartedAt (sn_Situation inp),
      pf_EffectiveStartedAtBasis = si_EffectiveStartedAtBasis (sn_Situation inp),
      pf_RecoveryObservedAt = cc_RecoveryObservedAt commit, pf_GraceUntil = cc_GraceUntil commit,
      pf_TerminalAt = cc_TerminalAt commit, pf_TerminalReason = cc_TerminalReason commit,
      pf_Assessment = Some (assessmentConclusionOf (cc_Assessment commit))\<rparr>"

definition authoritativeChangeOf ::
  "int \<Rightarrow> snapshotInput \<Rightarrow> snapshot \<Rightarrow> gtime \<Rightarrow> controllerCommit \<Rightarrow> authoritativeChange" where
  "authoritativeChangeOf claimVersion inp snap now commit =
     \<lparr>ch_Situation = committedSituation claimVersion inp now commit,
      ch_AssessmentID = (if aat_ID (cc_Attempt commit) \<noteq> [] then Some (aat_ID (cc_Attempt commit))
        else map_option aa_ID (sn_CurrentAssessment inp)),
      ch_Assessment = cc_Assessment commit,
      ch_Derivation = (case sn_CurrentAssessment inp of
          Some cur \<Rightarrow> if aat_Derivation (cc_Attempt commit) = AssessmentDerivationOther [] then aa_Derivation cur
            else aat_Derivation (cc_Attempt commit)
        | None \<Rightarrow> aat_Derivation (cc_Attempt commit)),
      ch_Projection = committedProjection inp snap commit, ch_PriorTransition = sn_PriorTransition inp,
      ch_PriorSummary = sn_CurrentSummary inp, ch_MaterialFactHash = cc_MaterialFactHash commit,
      ch_EvidenceRefs = materialFactRefs snap, ch_Incidents = ss_Incidents snap,
      ch_TriageDecisions = cc_TriageDecisions commit, ch_RecurrenceCount = recurrenceCountOf inp,
      ch_OperatorArtifacts = sn_PendingArtifacts inp, ch_Drill = situationDrill inp, ch_Now = now,
      ch_Judgment = sn_Judgment inp, ch_JudgmentApplicabilityReason = cc_JudgmentApplicabilityReason commit,
      ch_ExpectedBehaviorEvaluation = cc_ExpectedBehaviorEvaluation commit\<rparr>"

definition RecurrenceModeOff :: string where "RecurrenceModeOff = ''off''"

definition publicationOf ::
  "controllerConfig \<Rightarrow> snapshotInput \<Rightarrow> gtime \<Rightarrow> controllerCommit \<Rightarrow> authoritativeChange \<Rightarrow> publicationInput" where
  "publicationOf cfg inp now commit change =
     \<lparr>pi_Situation = ch_Situation change, pi_Transitions = [], pi_Summary = zeroSummary,
      pi_PriorTransition = sn_PriorTransition inp,
      pi_ContractDeadlineAt = (if Terminal (cc_Lifecycle commit) then None
        else ac_NextUpdateAt (as_ActionContract (cc_Assessment commit))),
      pi_RootPublished = sn_RootPublished inp, pi_LatestRootSyncVersion = sn_LatestRootSyncVersion inp,
      pi_RootPublicationOwed = sn_RootPublicationOwed inp,
      pi_LastDeliveredRootDeadlineAt = sn_LastDeliveredRootDeadlineAt inp,
      pi_LastMainChannelPokeAt = sn_LastMainChannelPokeAt inp, pi_SlackFloor = ccf_SlackFloor cfg,
      pi_RepageCooldown = ccf_RepageCooldown cfg, pi_RecurrenceRepliesOff = (ccf_RecurrenceMode cfg = RecurrenceModeOff),
      pi_Drill = ch_Drill change, pi_Now = now, pi_DeliveredHistory = sn_DeliveredHistory inp\<rparr>"

definition buildHistory ::
  "(string \<Rightarrow> string) \<Rightarrow> controllerConfig \<Rightarrow> int \<Rightarrow> snapshotInput \<Rightarrow> snapshot \<Rightarrow> gtime \<Rightarrow> controllerCommit
     \<Rightarrow> string + historyCommit option" where
  "buildHistory newSHA1 cfg claimVersion inp0 snap now commit =
     (let inp = inp0\<lparr>sn_PresentationFacts := (sn_PresentationFacts inp0)\<lparr>prf_SourceChecks :=
            mergePresentationSourceChecks (ccf_PresentationSources cfg) (prf_SourceChecks (sn_PresentationFacts inp0))\<rparr>\<rparr>;
          change = authoritativeChangeOf claimVersion inp snap now commit
      in case BuildHistoryCommit newSHA1 change (publicationOf cfg inp now commit change) of
           Inl e \<Rightarrow> Inl e
         | Inr h \<Rightarrow> Inr (if hc_Transitions h = [] \<and> hc_Intents h = [] then None else Some h))"

text \<open>The overlays of \<^verbatim>\<open>commit\<close>: the operator's judgment, then the expected behavior, both as of commit time.\<close>

definition overlaidCommit :: "snapshotInput \<Rightarrow> gtime \<Rightarrow> controllerCommit \<Rightarrow> controllerCommit" where
  "overlaidCommit inp checkedAt commit =
     (let judged = applyExpectedJudgment commit inp checkedAt in
      case sn_ExpectedBehavior inp of None \<Rightarrow> judged
      | Some ev \<Rightarrow>
        (let evaluation = RefreshExpectedBehaviorEvaluationForCommit ev
               (cc_Attention judged = AttentionUrgent \<or> as_Attention (cc_Assessment judged) = AttentionUrgent) checkedAt
         in ApplyExpectedBehaviorAuthority (judged\<lparr>cc_ExpectedBehaviorEvaluation := Some evaluation\<rparr>) (Some evaluation)))"

end
