(* ===== verification/Reconcile.thy ===== *)
theory Reconcile
  imports Controller_Commit
begin

text \<open>
  One reconciliation cycle (\<^verbatim>\<open>controller.go\<close>: \<^verbatim>\<open>reconcile\<close>, \<^verbatim>\<open>dispatchWorkBearing\<close>,
  \<^verbatim>\<open>commit\<close> and their helpers).  The store, the evidence preparer and the model client are interfaces of the
  code: their answers during a cycle are the record \<open>controllerEnv\<close>, an argument of the cycle, together
  with the clock, the fresh identifiers and the random draw.  A cycle returns the list of the calls it
  made on them, in order and with their results, and its error.  Contexts, spans and log lines are left out; the
  text of the prompt reaches only the client, so that its encoding failed is an answer too.
\<close>

section \<open>The surroundings of a cycle\<close>

datatype uuidUse = CallUUID int | OutcomeUUID int | AttemptUUID

datatype beginFailure = AttemptsExhausted | BeginFailed string

record oneShotCompletion =
  os_Err :: "callError option"
  os_Keys :: "string list option"
  os_Decoded :: "string + assessmentProposal"
  os_RequestStarted :: providerRequestStarted
  os_Latency :: duration
  os_Usage :: completionUsage

text \<open>A rejected commit says whether it lost its claim.\<close>

record commitRejection =
  cx_Superseded :: bool
  cx_Text :: string

record controllerEnv =
  env_Now :: gtime
  env_CheckedAt :: gtime
  env_Draw :: rat
  env_UUID :: "uuidUse \<Rightarrow> string"
  env_Load :: "nat \<Rightarrow> string + snapshotInput"
  env_Preparer :: "(string \<Rightarrow> goerror) option"
  env_AppendFacts :: goerror
  env_BeginAttempt :: "beginFailure + int \<times> int"
  env_PromptError :: goerror
  env_RecordCall :: "int \<Rightarrow> goerror"
  env_Complete :: "int \<Rightarrow> oneShotCompletion"
  env_AppendOutcome :: "int \<Rightarrow> goerror"
  env_Commit :: "commitRejection option"
  env_AppendStale :: goerror

datatype controllerEffect =
    LoadedInput nat
  | PreparedEvidence string goerror
  | AppendedFacts "fact list" goerror
  | BeganAttempt string "beginFailure + int \<times> int"
  | RecordedCall assessmentCall goerror
  | RequestedCompletion string
  | AppendedOutcome assessmentAttempt goerror
  | Committed controllerCommit "commitRejection option"
  | Audited string string

datatype cycleError = CycleFailed string | CommitFailed commitRejection

type_synonym cycleResult = "controllerEffect list \<times> cycleError option"

section \<open>Evidence preparation\<close>

definition prepareLifecyclePhase ::
  "controllerEnv \<Rightarrow> snapshotInput \<Rightarrow> controllerEffect list \<times> (string + snapshotInput)" where
  "prepareLifecyclePhase env inp =
     (case env_Preparer env of None \<Rightarrow> ([], Inr inp)
      | Some prepare \<Rightarrow>
        if si_Lifecycle (sn_Situation inp) = LifecycleRecovered \<or> si_Lifecycle (sn_Situation inp) = LifecycleClosedUnknown
        then ([], Inr inp)
        else case prepare PhaseLifecycle of
          Some e \<Rightarrow> ([PreparedEvidence PhaseLifecycle (Some e)], Inl (''situation: controller reconcile: prepare lifecycle phase: '' @ e))
        | None \<Rightarrow> ([PreparedEvidence PhaseLifecycle None, LoadedInput 1],
            case env_Load env 1 of
              Inl e \<Rightarrow> Inl (''situation: controller reconcile: reload after lifecycle preparation: '' @ e)
            | Inr reloaded \<Rightarrow> Inr reloaded))"

text \<open>\<open>zeroSnapshot\<close> is the zero value \<^verbatim>\<open>Snapshot{}\<close> that the gate resolves the lifecycle with.\<close>

definition zeroSnapshot :: snapshot where
  "zeroSnapshot = \<lparr>ss_ObservationChecks = [], ss_SituationID = [], ss_InputVersion = 0, ss_Lifecycle = LifecycleOther [],
     ss_ElapsedSeconds = 0, ss_DurationClass = [], ss_Facts = [], ss_Symptoms = [], ss_Incidents = [],
     ss_EligibleReasons = [], ss_PriorAssessment = None, ss_MaterialFactHash = [], ss_AssessmentBasisHash = [],
     ss_PreparationCycleID = [], ss_Observations = [], ss_CapabilityResults = [], ss_Deferred = []\<rparr>"

definition prepareAssessmentPhaseIfActive ::
  "controllerConfig \<Rightarrow> controllerEnv \<Rightarrow> snapshotInput \<Rightarrow> sourceLifecycle
     \<Rightarrow> controllerEffect list \<times> (string + snapshotInput \<times> sourceLifecycle)" where
  "prepareAssessmentPhaseIfActive cfg env inp sl =
     (case env_Preparer env of None \<Rightarrow> ([], Inr (inp, sl))
      | Some prepare \<Rightarrow>
        if lr_Lifecycle (resolveLifecycle cfg (sn_Situation inp) inp zeroSnapshot sl (env_Now env)) \<noteq> LifecycleActive
        then ([], Inr (inp, sl))
        else case prepare PhaseAssessment of
          Some e \<Rightarrow> ([PreparedEvidence PhaseAssessment (Some e)], Inl (''situation: controller reconcile: prepare assessment phase: '' @ e))
        | None \<Rightarrow> ([PreparedEvidence PhaseAssessment None, LoadedInput 2],
            case env_Load env 2 of
              Inl e \<Rightarrow> Inl (''situation: controller reconcile: reload after assessment preparation: '' @ e)
            | Inr reloaded \<Rightarrow> Inr (reloaded, reduceSourceLifecycle cfg reloaded (env_Now env))))"

section \<open>Dispatch\<close>

record dispatchResult =
  dr_budgetDeniedBeforeDispatch :: bool
  dr_lastUsage :: completionUsage
  dr_proposal :: "assessmentProposal option"
  dr_lastVR :: "validationResult option"
  dr_lastCallID :: string
  dr_lastDuration :: duration
  dr_correctionUsed :: bool
  dr_transportErr :: "callError option"

definition zeroDispatch :: dispatchResult where
  "zeroDispatch = \<lparr>dr_budgetDeniedBeforeDispatch = False,
     dr_lastUsage = \<lparr>cu_InputTokens = 0, cu_OutputTokens = 0, cu_CacheCreationInputTokens = 0, cu_CacheReadInputTokens = 0\<rparr>,
     dr_proposal = None, dr_lastVR = None, dr_lastCallID = [], dr_lastDuration = 0, dr_correctionUsed = False,
     dr_transportErr = None\<rparr>"

text \<open>What one cycle holds fixed while it dispatches: the claim, the Snapshot and the attempt's place.\<close>

record dispatchBasis =
  db_SituationID :: string
  db_Snapshot :: snapshot
  db_RetryEpoch :: int
  db_WorkAttempt :: int

definition callOf :: "controllerEnv \<Rightarrow> dispatchBasis \<Rightarrow> int \<Rightarrow> assessmentCall" where
  "callOf env b callNumber =
     \<lparr>acl_ID = env_UUID env (CallUUID callNumber), acl_SituationID = db_SituationID b,
      acl_MaterialFactHash = ss_MaterialFactHash (db_Snapshot b), acl_ProviderProfile = None,
      acl_InputVersion = ss_InputVersion (db_Snapshot b), acl_RetryEpoch = db_RetryEpoch b,
      acl_WorkAttempt = db_WorkAttempt b, acl_CallNumber = callNumber, acl_DispatchedAt = env_Now env,
      acl_PreparationCycleID = ss_PreparationCycleID (db_Snapshot b)\<rparr>"

definition validatedReply :: "controllerEnv \<Rightarrow> dispatchBasis \<Rightarrow> int \<Rightarrow> validationResult option" where
  "validatedReply env b callNumber =
     (let oneShot = env_Complete env callNumber in
      if os_Err oneShot \<noteq> None then None
      else Some (ValidateAssessmentProposal (os_Keys oneShot) (os_Decoded oneShot) (db_Snapshot b)
             (callOf env b callNumber) (env_Now env)))"

definition afterReply :: "controllerEnv \<Rightarrow> dispatchBasis \<Rightarrow> int \<Rightarrow> dispatchResult \<Rightarrow> dispatchResult" where
  "afterReply env b callNumber res =
     (let oneShot = env_Complete env callNumber in
      res\<lparr>dr_budgetDeniedBeforeDispatch := (callNumber = 1 \<and> os_RequestStarted oneShot = ProviderRequestStartedFalse \<and>
            (case os_Err oneShot of None \<Rightarrow> False | Some e \<Rightarrow> ce_RequestNotSent e \<and> ce_BudgetExhausted e)),
          dr_lastVR := validatedReply env b callNumber, dr_transportErr := os_Err oneShot,
          dr_lastCallID := env_UUID env (CallUUID callNumber), dr_lastDuration := os_Latency oneShot,
          dr_lastUsage := os_Usage oneShot\<rparr>)"

definition policyOf :: "dispatchResult \<Rightarrow> l2RetryPolicy" where
  "policyOf res = ClassifyL2Outcome (dr_lastVR res) (map_option transportErrOf (dr_transportErr res)) (dr_correctionUsed res)"

definition outcomeOf :: "controllerEnv \<Rightarrow> dispatchBasis \<Rightarrow> int \<Rightarrow> dispatchResult \<Rightarrow> assessmentAttempt" where
  "outcomeOf env b callNumber res =
     setAssessmentUsage
       (buildOutcomeAttempt (env_UUID env (OutcomeUUID callNumber)) (db_SituationID b) (dr_lastCallID res)
          (ss_InputVersion (db_Snapshot b)) (db_RetryEpoch b) (db_WorkAttempt b)
          (synthesizeSequence (ss_InputVersion (db_Snapshot b)) (db_RetryEpoch b) (db_WorkAttempt b) callNumber)
          (dr_lastVR res) (dr_transportErr res) (os_RequestStarted (env_Complete env callNumber)) (dr_lastDuration res) (env_Now env))
       (dr_lastUsage res)"

definition outcomeAuditKind :: "assessmentAttempt \<Rightarrow> string" where
  "outcomeAuditKind outcome =
     (if aat_Status outcome = ''failed'' then ''situation.assessment_failed'' else ''situation.assessment_rejected'')"

text \<open>The calls \<open>callNumber\<close> and later of the loop; an error is a failure of its own bookkeeping.\<close>

function dispatchFrom ::
  "controllerConfig \<Rightarrow> controllerEnv \<Rightarrow> dispatchBasis \<Rightarrow> int \<Rightarrow> dispatchResult
     \<Rightarrow> controllerEffect list \<times> (string + dispatchResult)" where
  "dispatchFrom cfg env b callNumber res0 =
     (if callNumber > ccf_MaxL2CallsPerAttempt cfg then ([], Inr res0)
      else let call = callOf env b callNumber in
        case env_RecordCall env callNumber of
          Some e \<Rightarrow> ([RecordedCall call (Some e)], Inl (''situation: record assessment call: '' @ e))
        | None \<Rightarrow>
          (let res = afterReply env b callNumber res0;
               policy = policyOf res;
               sent = [RecordedCall call None, Audited ''situation.assessment_call_dispatched'' (acl_ID call),
                       RequestedCompletion (acl_ID call)]
           in if rp_Outcome policy = L2OutcomeAccepted \<or> rp_Outcome policy = L2OutcomeContradicted
              then (sent, Inr (res\<lparr>dr_proposal := (case dr_lastVR res of None \<Rightarrow> None | Some r \<Rightarrow> vr_Proposal r)\<rparr>))
              else let outcome = outcomeOf env b callNumber res in
                case env_AppendOutcome env callNumber of
                  Some e \<Rightarrow> (sent @ [AppendedOutcome outcome (Some e)], Inl (''situation: append assessment outcome: '' @ e))
                | None \<Rightarrow>
                  (let done = sent @ [AppendedOutcome outcome None, Audited (outcomeAuditKind outcome) (acl_ID call)] in
                   if rp_ImmediateCorrection policy \<and> \<not> dr_correctionUsed res \<and> callNumber < ccf_MaxL2CallsPerAttempt cfg
                   then let rest = dispatchFrom cfg env b (callNumber + 1) (res\<lparr>dr_correctionUsed := True\<rparr>)
                        in (done @ fst rest, snd rest)
                   else (done, Inr res))))"
  by pat_completeness auto

termination
  by (relation "measure (\<lambda>(cfg, env, b, n, res). nat (ccf_MaxL2CallsPerAttempt cfg + 1 - n))") auto

definition dispatchWorkBearing ::
  "controllerConfig \<Rightarrow> controllerEnv \<Rightarrow> dispatchBasis \<Rightarrow> controllerEffect list \<times> (string + dispatchResult)" where
  "dispatchWorkBearing cfg env b =
     (case env_PromptError env of Some e \<Rightarrow> ([], Inl (''situation: build assessment prompt: '' @ e))
      | None \<Rightarrow> dispatchFrom cfg env b 1 zeroDispatch)"

section \<open>Audit of a landed commit\<close>

definition auditKindTransitionCommitted :: string where "auditKindTransitionCommitted = ''situation.history.transition_committed''"
definition auditKindSummaryProjected :: string where "auditKindSummaryProjected = ''situation.history.summary_projected''"
definition auditKindArtifactJournaled :: string where "auditKindArtifactJournaled = ''situation.history.artifact_journaled''"
definition auditKindIntentCreated :: string where "auditKindIntentCreated = ''situation.notification.intent_created''"
definition auditKindNotificationWithheld :: string where "auditKindNotificationWithheld = ''situation.notification.withheld''"

definition assessmentAuditKind :: "assessmentDerivation \<Rightarrow> string option" where
  "assessmentAuditKind d = (case d of
     DerivationModelValidated \<Rightarrow> Some ''situation.assessment_authoritative''
   | DerivationDeterministic \<Rightarrow> Some ''situation.assessment_authoritative''
   | DerivationDeterministicFallback \<Rightarrow> Some ''situation.assessment_fallback''
   | DerivationRevalidatedReuse \<Rightarrow> Some ''situation.assessment_reused''
   | _ \<Rightarrow> None)"

definition auditCommitSuccess :: "controllerCommit \<Rightarrow> controllerEffect list" where
  "auditCommitSuccess commit =
     (if cc_PreparationCycleID commit \<noteq> []
      then [Audited ''situation.preparation.cycle_sealed'' (cc_PreparationCycleID commit)] else []) @
     (if aat_ID (cc_Attempt commit) = [] then []
      else case assessmentAuditKind (aat_Derivation (cc_Attempt commit)) of
        None \<Rightarrow> [] | Some kind \<Rightarrow> [Audited kind (aat_ID (cc_Attempt commit))]) @
     map (\<lambda>d. Audited (if td_Decision d = TriageDecisionRequest then ''situation.triage_requested'' else ''situation.triage_skipped'')
            (td_IncidentID d)) (cc_TriageDecisions commit)"

definition auditHistoryCommit :: "historyCommit \<Rightarrow> controllerEffect list" where
  "auditHistoryCommit h =
     map (\<lambda>t. Audited (if tr_OperatorArtifactInputID t \<noteq> None then auditKindArtifactJournaled
            else auditKindTransitionCommitted) (tr_ID t)) (hc_Transitions h) @
     (case hc_Summary h of None \<Rightarrow> [] | Some s \<Rightarrow> [Audited auditKindSummaryProjected (es_SituationID s)]) @
     map (\<lambda>n. Audited (if ni_Status n = IntentWithheld then auditKindNotificationWithheld
            else auditKindIntentCreated) (ni_ID n)) (hc_Intents h)"

definition observeHistoryCommit :: "controllerCommit \<Rightarrow> controllerEffect list" where
  "observeHistoryCommit commit = (case cc_History commit of None \<Rightarrow> [] | Some h \<Rightarrow> auditHistoryCommit h)"

section \<open>Committing\<close>

text \<open>What the commit paths share: configuration, surroundings, claim, input, Snapshot and instant of the cycle.\<close>

record cycleBasis =
  cb_Config :: controllerConfig
  cb_Env :: controllerEnv
  cb_Claim :: situation
  cb_In :: snapshotInput
  cb_Snap :: snapshot

definition auditCommitFailed :: "cycleBasis \<Rightarrow> controllerEffect" where
  "auditCommitFailed b = Audited ''situation.controller.commit_failed'' (si_ID (cb_Claim b))"

definition commitCycle :: "(string \<Rightarrow> string) \<Rightarrow> cycleBasis \<Rightarrow> controllerCommit \<Rightarrow> cycleResult" where
  "commitCycle newSHA1 b commit0 =
     (let env = cb_Env b;
          checkedAt = tUTC (env_CheckedAt env);
          commit = finalizeCheckpoint (overlaidCommit (cb_In b) checkedAt commit0) checkedAt
      in case buildHistory newSHA1 (cb_Config b) (si_InputVersion (cb_Claim b)) (cb_In b) (cb_Snap b) (env_Now env) commit of
           Inl e \<Rightarrow> ([auditCommitFailed b], Some (CycleFailed (''situation: controller reconcile: derive history: '' @ e)))
         | Inr history \<Rightarrow>
           (let landed = commit\<lparr>cc_History := history\<rparr> in
            case env_Commit env of
              None \<Rightarrow> (Committed landed None # auditCommitSuccess landed @ observeHistoryCommit landed, None)
            | Some rejection \<Rightarrow>
                (Committed landed (Some rejection) # (if cx_Superseded rejection then [] else [auditCommitFailed b]),
                 Some (CommitFailed rejection))))"

definition commitResult ::
  "(string \<Rightarrow> string) \<Rightarrow> cycleBasis \<Rightarrow> controllerCommit \<Rightarrow> assessmentResult \<Rightarrow> string option \<Rightarrow> int \<Rightarrow> int \<Rightarrow> duration
     \<Rightarrow> completionUsage option \<Rightarrow> cycleResult" where
  "commitResult newSHA1 b base0 result callID retryEpoch workAttempt dur usage =
     (let now = env_Now (cb_Env b);
          attempt0 = buildAuthoritativeAttempt (env_UUID (cb_Env b) AttemptUUID) (si_ID (cb_Claim b)) result callID
            retryEpoch workAttempt dur now;
          attempt = (case (callID, usage) of (Some _, Some u) \<Rightarrow> setAssessmentUsage attempt0 u | _ \<Rightarrow> attempt0);
          base = finalizeCheckpoint (base0\<lparr>cc_Attempt := attempt, cc_Assessment := ars_Assessment result,
            cc_Coverage := ars_Coverage result, cc_Parked := \<lparr>pks_Touch = True, pks_At = zeroTime, pks_Reason = []\<rparr>,
            cc_RetryAt := None, cc_LastErrorClass := None\<rparr>) now;
          (effects, err) = commitCycle newSHA1 b base
      in case (err, callID) of
           (Some e, Some call) \<Rightarrow>
             (effects @ [AppendedOutcome (buildStaleOutcome attempt call) (env_AppendStale (cb_Env b)),
                         Audited ''situation.assessment_stale'' call], Some e)
         | _ \<Rightarrow> (effects, err))"

definition commitPreserved ::
  "(string \<Rightarrow> string) \<Rightarrow> cycleBasis \<Rightarrow> controllerCommit \<Rightarrow> assessment \<times> assessmentAttempt \<times> incidentCoverage list \<Rightarrow> cycleResult" where
  "commitPreserved newSHA1 b base triple =
     (case triple of (a, attempt, coverage) \<Rightarrow>
        commitCycle newSHA1 b (finalizeCheckpoint
          (base\<lparr>cc_Assessment := a, cc_Attempt := attempt, cc_Coverage := coverage\<rparr>) (env_Now (cb_Env b))))"

definition commitBlocked :: "(string \<Rightarrow> string) \<Rightarrow> cycleBasis \<Rightarrow> controllerCommit \<Rightarrow> controllerState \<Rightarrow> cycleResult" where
  "commitBlocked newSHA1 b base state =
     commitPreserved newSHA1 b base (fallbackOrPreserveBlocked (env_UUID (cb_Env b) AttemptUUID) (si_ID (cb_Claim b))
       (cb_Snap b) (cb_In b) state (env_Now (cb_Env b)))"

definition retryState :: "controllerState \<Rightarrow> gtime option \<Rightarrow> controllerState" where
  "retryState state retryAt =
     (case retryAt of
        None \<Rightarrow> state\<lparr>cst_SemanticRetry := SemanticRetryPhaseBlocked\<rparr>
      | Some t \<Rightarrow> state\<lparr>cst_SemanticRetry := SemanticRetryPhaseDue, cst_SemanticRetryAt := Some t\<rparr>)"

definition commitBudgetDeferred ::
  "(string \<Rightarrow> string) \<Rightarrow> cycleBasis \<Rightarrow> controllerCommit \<Rightarrow> controllerState \<Rightarrow> int \<Rightarrow> int \<Rightarrow> cycleResult" where
  "commitBudgetDeferred newSHA1 b base state retryEpoch workAttempt =
     commitPreserved newSHA1 b (base\<lparr>cc_LastErrorClass := Some BudgetDeferralErrorClass\<rparr>)
       (fallbackOrPreserve (env_UUID (cb_Env b) AttemptUUID) (si_ID (cb_Claim b)) (cb_Snap b) (cb_In b)
          (retryState (state\<lparr>cst_SemanticRetryAt := None\<rparr>) (cc_RetryAt base)) retryEpoch workAttempt (env_Now (cb_Env b)))"

section \<open>The cycle\<close>

definition zeroAssessment :: assessment where
  "zeroAssessment = \<lparr>as_SchemaVersion = 0, as_Persistence = PersistenceOther [], as_Impact = ImpactOther [],
     as_Novelty = NoveltyOther [], as_Causality = CausalityOther [], as_Attention = AttentionOther [],
     as_Lifecycle = LifecycleOther [], as_EvidenceQuality = EvidenceQualityOther [], as_SufficientReason = None,
     as_ActionContract = zeroContract, as_Limitations = [], as_Cadence = CadenceNone\<rparr>"

definition baseCommit ::
  "situation \<Rightarrow> snapshotInput \<Rightarrow> snapshot \<Rightarrow> lifecycleResolution \<Rightarrow> triageDecision list \<Rightarrow> controllerCommit" where
  "baseCommit claim inp snap lc triageDecisions =
     \<lparr>cc_Attempt = zeroAttempt, cc_Assessment = zeroAssessment, cc_MaterialFactHash = ss_MaterialFactHash snap,
      cc_AssessmentBasisHash = ss_AssessmentBasisHash snap, cc_EligibleReasons = ss_EligibleReasons snap, cc_Coverage = [],
      cc_TriageDecisions = triageDecisions, cc_Lifecycle = lr_Lifecycle lc, cc_Attention = AttentionOther [],
      cc_RecoveryObservedAt = lr_RecoveryObservedAt lc, cc_GraceUntil = lr_GraceUntil lc, cc_TerminalAt = lr_TerminalAt lc,
      cc_TerminalReason = lr_TerminalReason lc, cc_NextAssessmentAt = zeroTime, cc_ConsumedDueReasons = si_DueReasons claim,
      cc_RetryAt = None, cc_LastErrorClass = None, cc_Parked = \<lparr>pks_Touch = False, pks_At = zeroTime, pks_Reason = []\<rparr>,
      cc_BudgetDeniedCallID = None, cc_History = None, cc_PreparationCycleID = prs_CycleID (sn_Prepared inp),
      cc_PreparationGeneration = prs_Generation (sn_Prepared inp), cc_JudgmentRevision = 0, cc_JudgmentApplicable = False,
      cc_JudgmentApplicabilityReason = JudgmentApplicabilityReasonOther [], cc_JudgmentCheckedAt = zeroTime,
      cc_ExpectedBehaviorEvaluation = None\<rparr>"

definition parkedAt :: "gtime \<Rightarrow> string \<Rightarrow> parkedState" where
  "parkedAt now reason = \<lparr>pks_Touch = True, pks_At = now, pks_Reason = reason\<rparr>"

text \<open>Retry or park after a dispatch without a usable proposal.\<close>

definition settleFailure :: "cycleBasis \<Rightarrow> controllerCommit \<Rightarrow> l2RetryPolicy \<Rightarrow> int \<Rightarrow> controllerCommit" where
  "settleFailure b base policy workAttempt =
     (let now = env_Now (cb_Env b);
          decided =
            (if \<not> rp_DurableRetry policy \<or> workAttempt \<ge> ccf_MaxWorkAttemptsPerInput (cb_Config b)
             then base\<lparr>cc_Parked := parkedAt now (parkedReasonForOutcome (rp_Outcome policy)), cc_RetryAt := None\<rparr>
             else let retried = base\<lparr>cc_RetryAt :=
                        Some (tAdd now (retryBackoff (env_Draw (cb_Env b)) (ccf_Retry (cb_Config b)) workAttempt))\<rparr> in
               if workAttempt = 1 then retried\<lparr>cc_Parked := \<lparr>pks_Touch = True, pks_At = zeroTime, pks_Reason = []\<rparr>\<rparr>
               else retried)
      in decided\<lparr>cc_LastErrorClass := Some (l2OutcomeText (rp_Outcome policy))\<rparr>)"

definition commitDispatched ::
  "(string \<Rightarrow> string) \<Rightarrow> cycleBasis \<Rightarrow> controllerCommit \<Rightarrow> controllerState \<Rightarrow> int \<Rightarrow> int \<Rightarrow> dispatchResult \<Rightarrow> cycleResult" where
  "commitDispatched newSHA1 b base state retryEpoch workAttempt disp =
     (let now = env_Now (cb_Env b) in
      case dr_proposal disp of
        Some p \<Rightarrow> commitResult newSHA1 b base
          (DeriveAssessment p (cb_Snap b) (cb_In b) state DerivationModelValidated None now) (Some (dr_lastCallID disp))
          retryEpoch workAttempt (dr_lastDuration disp) (Some (dr_lastUsage disp))
      | None \<Rightarrow>
        if dr_budgetDeniedBeforeDispatch disp
        then commitBudgetDeferred newSHA1 b
          (base\<lparr>cc_RetryAt := (case dr_transportErr disp of None \<Rightarrow> cc_RetryAt base
                   | Some e \<Rightarrow> (case ce_BudgetDeferred e of None \<Rightarrow> cc_RetryAt base | Some t \<Rightarrow> t)),
                cc_BudgetDeniedCallID := Some (dr_lastCallID disp), cc_Parked := parkedAt now ParkedReasonBudget\<rparr>)
          state retryEpoch workAttempt
        else let settled = settleFailure b base (policyOf disp) workAttempt in
          commitPreserved newSHA1 b settled
            (fallbackOrPreserve (env_UUID (cb_Env b) AttemptUUID) (si_ID (cb_Claim b)) (cb_Snap b) (cb_In b)
               (retryState state (cc_RetryAt settled)) retryEpoch workAttempt now))"

definition after :: "controllerEffect list \<Rightarrow> cycleResult \<Rightarrow> cycleResult" where
  "after effects r = (effects @ fst r, snd r)"

definition workBearing ::
  "(string \<Rightarrow> string) \<Rightarrow> cycleBasis \<Rightarrow> controllerCommit \<Rightarrow> controllerState \<Rightarrow> cycleResult" where
  "workBearing newSHA1 b base state =
     (let env = cb_Env b; hash = ss_MaterialFactHash (cb_Snap b); reply = env_BeginAttempt env in
      after [BeganAttempt hash reply]
       (case reply of
          Inl AttemptsExhausted \<Rightarrow>
            commitBlocked newSHA1 b
              (if cps_Reason (sn_ControllerParked (cb_In b)) = []
               then base\<lparr>cc_Parked := parkedAt (env_Now env) ParkedReasonDependency, cc_RetryAt := None\<rparr> else base) state
        | Inl (BeginFailed e) \<Rightarrow> ([], Some (CycleFailed (''situation: controller reconcile: begin attempt: '' @ e)))
        | Inr (retryEpoch, workAttempt) \<Rightarrow>
            (case dispatchWorkBearing (cb_Config b) env \<lparr>db_SituationID = si_ID (cb_Claim b), db_Snapshot = cb_Snap b,
                    db_RetryEpoch = retryEpoch, db_WorkAttempt = workAttempt\<rparr> of
               (effects, Inl e) \<Rightarrow> (effects, Some (CycleFailed (''situation: controller reconcile: dispatch: '' @ e)))
             | (effects, Inr disp) \<Rightarrow> after effects (commitDispatched newSHA1 b base state retryEpoch workAttempt disp))))"

definition judgeCycle :: "(string \<Rightarrow> string) \<Rightarrow> cycleBasis \<Rightarrow> controllerCommit \<Rightarrow> controllerState \<Rightarrow> cycleResult" where
  "judgeCycle newSHA1 b base state =
     (let inp = cb_In b; snap = cb_Snap b; now = env_Now (cb_Env b); parked = sn_ControllerParked inp;
          reuse = (case sn_CurrentAssessment inp of None \<Rightarrow> Inl [] | Some cur \<Rightarrow> RevalidateReuse cur snap inp state now)
      in case reuse of
           Inr result \<Rightarrow> commitResult newSHA1 b base result None 0 1 0 None
         | Inl _ \<Rightarrow>
           if cps_Reason parked = ParkedReasonBudget \<and>
              (case si_RetryAt (sn_Situation inp) of None \<Rightarrow> True | Some t \<Rightarrow> tBefore now t)
           then commitBudgetDeferred newSHA1 b (base\<lparr>cc_RetryAt := si_RetryAt (sn_Situation inp)\<rparr>) state 0 1
           else if controllerParkBlocksDispatch parked (ss_MaterialFactHash snap) then commitBlocked newSHA1 b base state
           else workBearing newSHA1 b base state)"

text \<open>From the prepared input on; \<open>od\<close> digests the observation facts of an input.\<close>

definition projectCycle ::
  "(string \<Rightarrow> string) \<Rightarrow> (snapshotInput \<Rightarrow> string) \<Rightarrow> controllerConfig \<Rightarrow> controllerEnv \<Rightarrow> situation
     \<Rightarrow> snapshotInput \<Rightarrow> sourceLifecycle \<Rightarrow> cycleResult" where
  "projectCycle newSHA1 od cfg env claim inp sl =
     (let now = env_Now env; facts = DeriveStoreFacts inp in
      after [AppendedFacts facts (env_AppendFacts env)]
       (case env_AppendFacts env of
          Some e \<Rightarrow> ([], Some (CycleFailed (''situation: controller reconcile: append facts: '' @ e)))
        | None \<Rightarrow>
          (let snap0 = BuildSnapshot (od inp) inp;
               lc = resolveLifecycle cfg (sn_Situation inp) inp snap0 sl now;
               snap = snap0\<lparr>ss_Lifecycle := lr_Lifecycle lc\<rparr>;
               triageDecisions = DecideTriage snap inp now
           in judgeCycle newSHA1 \<lparr>cb_Config = cfg, cb_Env = env, cb_Claim = claim, cb_In = inp, cb_Snap = snap\<rparr>
                (baseCommit claim inp snap lc triageDecisions)
                (buildControllerState cfg snap inp lc triageDecisions now))))"

definition reconcile ::
  "(string \<Rightarrow> string) \<Rightarrow> (snapshotInput \<Rightarrow> string) \<Rightarrow> controllerConfig \<Rightarrow> controllerEnv \<Rightarrow> situation \<Rightarrow> cycleResult" where
  "reconcile newSHA1 od cfg env claim =
     after [LoadedInput 0]
      (case env_Load env 0 of
         Inl e \<Rightarrow> ([], Some (CycleFailed (''situation: controller reconcile: load: '' @ e)))
       | Inr loaded \<Rightarrow>
         (case prepareLifecyclePhase env loaded of
            (effects, Inl e) \<Rightarrow> (effects, Some (CycleFailed e))
          | (effects, Inr inp) \<Rightarrow>
            after effects
             (case prepareAssessmentPhaseIfActive cfg env inp (reduceSourceLifecycle cfg inp (env_Now env)) of
                (effects', Inl e) \<Rightarrow> (effects', Some (CycleFailed e))
              | (effects', Inr (prepared, sl)) \<Rightarrow> after effects' (projectCycle newSHA1 od cfg env claim prepared sl))))"

datatype reconcileClass =
    ReconcileResultCommitted | ReconcileResultSuperseded | ReconcileResultCommitFailed | ReconcileResultError

text \<open>\<^verbatim>\<open>Reconcile\<close>: the class of a cycle, where \<open>lost\<close> is \<^verbatim>\<open>superseded(ctx, err)\<close>.\<close>

definition reconcileClassOf :: "bool \<Rightarrow> cycleError option \<Rightarrow> reconcileClass" where
  "reconcileClassOf lost err =
     (case err of None \<Rightarrow> ReconcileResultCommitted
      | Some e \<Rightarrow> if lost then ReconcileResultSuperseded
          else (case e of CommitFailed _ \<Rightarrow> ReconcileResultCommitFailed | CycleFailed _ \<Rightarrow> ReconcileResultError))"

end
