(* ===== verification/Reconcile_Trace.thy ===== *)
theory Reconcile_Trace
  imports Reconcile
begin

text \<open>
  What holds of every trace of a reconciliation cycle: the Assessment it commits, how many commits and model calls
  it makes, and what becomes of a call.  Statements about traces are built up along the composition of the cycle with
  the lemmas on \<open>after\<close>.
\<close>

section \<open>The Assessment of a commit\<close>

definition groundedAssessment :: "snapshot \<Rightarrow> assessment \<Rightarrow> bool" where
  "groundedAssessment snap a \<longleftrightarrow>
     (as_Attention a = AttentionUrgent \<longleftrightarrow> hasDeterministicFloor (ss_EligibleReasons snap)) \<and>
     as_Lifecycle a = ss_Lifecycle snap \<and>
     (Lifecycle_Validate (ss_Lifecycle snap) = None \<longrightarrow> Assessment_ValidateShape a = None)"

definition usableProposal :: "snapshot \<Rightarrow> assessmentProposal \<Rightarrow> bool" where
  "usableProposal snap p \<longleftrightarrow> AssessmentProposal_Validate p = None \<and>
     (ap_Attention p = AttentionUrgent \<longleftrightarrow> hasDeterministicFloor (ss_EligibleReasons snap))"

lemma DeriveAssessment_grounded:
  assumes "usableProposal snap p"
  shows "groundedAssessment snap (ars_Assessment (DeriveAssessment p snap inp state der ru now))"
  using assms DeriveAssessment_valid [of p snap inp state der ru now]
  by (simp add: groundedAssessment_def usableProposal_def Assessment_Validate_def Assessment_ValidateShape_def)

lemma accepted_usable:
  assumes "AssessmentProposal_Validate p = None" and "accepted (vr_Outcome (validateProposalContent p snap))"
  shows "\<exists>q. vr_Proposal (validateProposalContent p snap) = Some q \<and> usableProposal snap q"
proof -
  have "ap_Attention p = AttentionUrgent \<Longrightarrow> hasDeterministicFloor (ss_EligibleReasons snap)"
    using accepted_permitted [OF assms(2)] by (simp add: proposalPermitted_def)
  moreover have "Attention_Validate AttentionUrgent = None" by (simp add: Attention_Validate_def validateEnum_def)
  ultimately show ?thesis
    using assms(1) unfolding validateProposalContent_result [OF assms(2)] usableProposal_def AssessmentProposal_Validate_iff
    by auto
qed

lemma ValidateAssessmentProposal_usable:
  assumes "accepted (vr_Outcome (ValidateAssessmentProposal keys decoded snap call now))"
  shows "\<exists>p. vr_Proposal (ValidateAssessmentProposal keys decoded snap call now) = Some p \<and> usableProposal snap p"
proof -
  obtain p where "AssessmentProposal_Validate p = None" "accepted (vr_Outcome (validateProposalContent p snap))"
    "vr_Proposal (ValidateAssessmentProposal keys decoded snap call now) = vr_Proposal (validateProposalContent p snap)"
    using assms
    by (auto simp: ValidateAssessmentProposal_def staleBasisResult_def malformedResult_def rejected_def accepted_def Let_def
        split: if_splits option.splits sum.splits)
  with accepted_usable show ?thesis by metis
qed

lemma EligibleReasons_named:
  "c \<in> set (ss_EligibleReasons (BuildSnapshot od inp)) \<Longrightarrow> rc_ID c \<noteq> [] \<and> rc_Code c \<noteq> []"
  by (auto simp: EligibleReasons_def Let_def onlyIf_def newReasonCandidate_def reasonCandidateID_def canonicalDigest_def
      reasonCodeCriticalAnchor_def reasonCodeDurationOutlier_def reasonCodeNovelSymptom_def reasonCodeTerminalUncertainty_def
      split: if_splits)

text \<open>The Snapshot of a cycle: the one built from its input, with the lifecycle the cycle resolved.\<close>

definition cycleSnapshot :: "(snapshotInput \<Rightarrow> string) \<Rightarrow> snapshotInput \<Rightarrow> snapshot \<Rightarrow> bool" where
  "cycleSnapshot od inp snap \<longleftrightarrow> (\<exists>l. snap = (BuildSnapshot (od inp) inp)\<lparr>ss_Lifecycle := l\<rparr>)"

lemma rebind_valid:
  assumes "cycleSnapshot od inp snap" and "rebindSufficientReason r (ss_EligibleReasons snap) = Some rebound"
  shows "pred_option (\<lambda>r. SufficientReason_Validate r = None) rebound"
proof (cases r)
  case (Some x)
  with assms(2) obtain c where c: "findEligibleCandidateByCode (ss_EligibleReasons snap) (sr_Code x) = Some c"
    "rebound = Some \<lparr>sr_Code = rc_Code c, sr_CandidateID = rc_ID c, sr_Summary = sr_Summary x, sr_EvidenceRefs = rc_EvidenceRefs c\<rparr>"
    by (auto simp: rebindSufficientReason_def split: option.splits)
  then have "c \<in> set (ss_EligibleReasons snap)"
    by (auto simp: findEligibleCandidateByCode_def find_Some_iff)
  then have "rc_ID c \<noteq> [] \<and> rc_Code c \<noteq> []"
    using assms(1) EligibleReasons_named unfolding cycleSnapshot_def by fastforce
  then show ?thesis by (simp add: c(2) SufficientReason_Validate_def errWhen_def)
qed (use assms(2) in \<open>simp add: rebindSufficientReason_def\<close>)

lemma reboundProposal_valid:
  assumes "cycleSnapshot od inp snap" and "Assessment_ValidateShape a = None"
    and "rebindSufficientReason (as_SufficientReason a) (ss_EligibleReasons snap) = Some rebound"
  shows "AssessmentProposal_Validate (reuseProposal a rebound) = None"
  using assms(2) rebind_valid [OF assms(1,3)]
  unfolding Assessment_ValidateShape_def Assessment_validateShape_iff assessmentCodesClosed_def AssessmentProposal_Validate_iff
  by (simp add: reuseProposal_def)

lemma rebound_usable:
  assumes "cycleSnapshot od inp snap" and "trustworthy cur = None"
    and "rebindSufficientReason (as_SufficientReason (aa_Assessment cur)) (ss_EligibleReasons snap) = Some rebound"
    and "accepted (vr_Outcome (validateProposalContent (reuseProposal (aa_Assessment cur) rebound) snap))"
  obtains p where "vr_Proposal (validateProposalContent (reuseProposal (aa_Assessment cur) rebound) snap) = Some p"
    "usableProposal snap p" "ap_SufficientReason p = rebound"
proof -
  let ?p = "reuseProposal (aa_Assessment cur) rebound"
  have "AssessmentProposal_Validate ?p = None"
    by (rule reboundProposal_valid [OF assms(1) _ assms(3)]) (use assms(2) trustworthy_None_iff in blast)
  from accepted_usable [OF this assms(4)] validateProposalContent_result [OF assms(4)] that show thesis
    by (auto simp: reuseProposal_def)
qed

lemma reuse_proposal:
  assumes "cycleSnapshot od inp snap" and "RevalidateReuse prior snap inp state now = Inr res"
  obtains rebound p where
    "rebindSufficientReason (as_SufficientReason (aa_Assessment prior)) (ss_EligibleReasons snap) = Some rebound"
    "ap_SufficientReason p = rebound" "usableProposal snap p"
    "res = DeriveAssessment p snap inp state DerivationRevalidatedReuse (Some (aa_ID prior)) now"
proof -
  obtain rebound where r: "trustworthy prior = None"
    "rebindSufficientReason (as_SufficientReason (aa_Assessment prior)) (ss_EligibleReasons snap) = Some rebound"
    "proposalPermitted (reuseProposal (aa_Assessment prior) rebound) snap"
    "res = DeriveAssessment ((reuseProposal (aa_Assessment prior) rebound)
          \<lparr>ap_Attention := if hasDeterministicFloor (ss_EligibleReasons snap) then AttentionUrgent
             else as_Attention (aa_Assessment prior)\<rparr>) snap inp state DerivationRevalidatedReuse (Some (aa_ID prior)) now"
    by (rule RevalidateReuse_Inr [OF assms(2)])
  have acc: "accepted (vr_Outcome (validateProposalContent (reuseProposal (aa_Assessment prior) rebound) snap))"
    using r(3) by (simp add: validateProposalContent_accepted_iff)
  obtain p where p: "vr_Proposal (validateProposalContent (reuseProposal (aa_Assessment prior) rebound) snap) = Some p"
    "usableProposal snap p" "ap_SufficientReason p = rebound" by (rule rebound_usable [OF assms(1) r(1,2) acc])
  have "ap_Attention (reuseProposal (aa_Assessment prior) rebound) = as_Attention (aa_Assessment prior)" by (simp add: reuseProposal_def)
  with p(1) validateProposalContent_result [OF acc] r(4)
  have "res = DeriveAssessment p snap inp state DerivationRevalidatedReuse (Some (aa_ID prior)) now" by (simp split: if_splits)
  with r(2) p(2,3) that show thesis by blast
qed

lemma RevalidateReuse_grounded:
  assumes "cycleSnapshot od inp snap" and "RevalidateReuse prior snap inp state now = Inr res"
  shows "groundedAssessment snap (ars_Assessment res)"
  using reuse_proposal [OF assms] DeriveAssessment_grounded by metis

lemma preserved_proposal:
  assumes "cycleSnapshot od inp snap" and "revalidatedPreservedAssessment snap inp state now = Some a"
  obtains cur rebound p where "sn_CurrentAssessment inp = Some cur"
    "rebindSufficientReason (as_SufficientReason (aa_Assessment cur)) (ss_EligibleReasons snap) = Some rebound"
    "ap_SufficientReason p = rebound" "usableProposal snap p"
    "a = ars_Assessment (DeriveAssessment p snap inp state (aa_Derivation cur) (aa_ReusedFromAssessmentID cur) now)"
proof -
  obtain cur rebound q where c: "sn_CurrentAssessment inp = Some cur" "trustworthy cur = None"
    "rebindSufficientReason (as_SufficientReason (aa_Assessment cur)) (ss_EligibleReasons snap) = Some rebound"
    "accepted (vr_Outcome (validateProposalContent (reuseProposal (aa_Assessment cur) rebound) snap))"
    "vr_Proposal (validateProposalContent (reuseProposal (aa_Assessment cur) rebound) snap) = Some q"
    "a = ars_Assessment (DeriveAssessment q snap inp state (aa_Derivation cur) (aa_ReusedFromAssessmentID cur) now)"
    using assms(2)
    by (auto simp: revalidatedPreservedAssessment_def Let_def proposalFromAssessment_def reuseProposal_def
        split: option.splits if_splits)
  from rebound_usable [OF assms(1) c(2-4)] c(5) have "usableProposal snap q" "ap_SufficientReason q = rebound"
    by (metis option.inject)+
  with c(1,3,6) that show thesis by blast
qed

lemma preserved_grounded:
  assumes "cycleSnapshot od inp snap" and "revalidatedPreservedAssessment snap inp state now = Some a"
  shows "groundedAssessment snap a"
  using preserved_proposal [OF assms] DeriveAssessment_grounded by metis

lemma fallback_usable:
  assumes "cycleSnapshot od inp snap"
  shows "usableProposal snap (deterministicProposal snap [fallbackLimitation])"
proof -
  have same: "deterministicProposal snap ls = deterministicProposal (BuildSnapshot (od inp) inp) ls" for ls
    using assms by (auto simp: cycleSnapshot_def deterministicProposal_def)
  have "AssessmentProposal_Validate (deterministicProposal snap [fallbackLimitation]) = None"
    unfolding same by (rule deterministicProposal_valid)
      (simp add: Limitation_Validate_def fallbackLimitation_def limitationSemanticAssessmentUnavailable_def errWhen_def)
  then show ?thesis
    by (simp add: usableProposal_def) (simp add: deterministicProposal_def hasDeterministicFloor_def)
qed

lemma fallback_grounded:
  assumes "cycleSnapshot od inp snap"
  shows "groundedAssessment snap (ars_Assessment (DeterministicFallback snap inp state now))"
  unfolding DeterministicFallback_def DeterministicAssessment_def
  by (rule DeriveAssessment_grounded [OF fallback_usable [OF assms]])

lemma fallbackOrPreserve_grounded:
  assumes "cycleSnapshot od inp snap"
  shows "groundedAssessment snap (fst (fallbackOrPreserve uuid sid snap inp state epoch attempt now))"
  using preserved_grounded [OF assms] fallback_grounded [OF assms]
  by (auto simp: fallbackOrPreserve_def Let_def split: option.split)

section \<open>The overlays\<close>

definition soundCommit :: "snapshot \<Rightarrow> controllerCommit \<Rightarrow> bool" where
  "soundCommit snap c \<longleftrightarrow> cc_EligibleReasons c = ss_EligibleReasons snap \<and> cc_Lifecycle c = ss_Lifecycle snap \<and>
     groundedAssessment snap (cc_Assessment c)"

lemma grounded_contract:
  assumes "groundedAssessment snap a" and "\<not> Terminal (ss_Lifecycle snap)"
    and "ActionContract_validate False (as_ActionContract a) = None \<Longrightarrow> ActionContract_validate False c = None"
  shows "groundedAssessment snap (a\<lparr>as_ActionContract := c\<rparr>)"
  using assms
  by (auto simp: groundedAssessment_def Assessment_ValidateShape_def Assessment_validateShape_iff assessmentCodesClosed_def)

lemma applyExpectedJudgment_sound:
  assumes "soundCommit snap commit"
  shows "soundCommit snap (applyExpectedJudgment commit inp now)"
proof (cases "sn_Judgment inp")
  case (Some j)
  let ?c = "commit\<lparr>cc_JudgmentCheckedAt := tUTC now\<rparr>"
  show ?thesis
  proof (cases "ja_Applicable (judgmentApplicabilityFor ?c j inp now)")
    case True
    then have "\<not> judgmentBlocked j (commitInput ?c inp) now" by (rule judgmentApplicabilityFor_applicable)
    then have "\<not> Terminal (ss_Lifecycle snap)"
      using assms by (auto simp: judgmentBlocked_def commitInput_def soundCommit_def)
    then have "groundedAssessment snap ((cc_Assessment commit)\<lparr>as_ActionContract := overlayContract j (as_ActionContract (cc_Assessment commit))\<rparr>)"
      using assms overlayContract_valid by (intro grounded_contract) (auto simp: soundCommit_def)
    with assms True Some show ?thesis by (simp add: soundCommit_def applyExpectedJudgment_def Let_def)
  qed (use assms Some in \<open>simp add: soundCommit_def applyExpectedJudgment_def Let_def\<close>)
qed (use assms in \<open>simp add: soundCommit_def applyExpectedJudgment_def Let_def\<close>)

lemma ApplyExpectedBehaviorAuthority_sound:
  assumes "soundCommit snap commit"
  shows "soundCommit snap (ApplyExpectedBehaviorAuthority commit ev)"
proof (cases "ApplyExpectedBehaviorAuthority commit ev = commit")
  case False
  then obtain e occ where "\<not> Terminal (cc_Lifecycle commit)"
    "ApplyExpectedBehaviorAuthority commit ev = commit\<lparr>cc_Assessment := (cc_Assessment commit)\<lparr>as_ActionContract :=
        behaviorContract e occ (as_ActionContract (cc_Assessment commit))\<rparr>\<rparr>"
    by (auto simp: ApplyExpectedBehaviorAuthority_def split: option.splits if_splits)
  moreover from this(1) have "groundedAssessment snap ((cc_Assessment commit)\<lparr>as_ActionContract :=
      behaviorContract e occ (as_ActionContract (cc_Assessment commit))\<rparr>)"
    using assms behaviorContract_valid by (intro grounded_contract) (auto simp: soundCommit_def)
  ultimately show ?thesis using assms by (simp add: soundCommit_def)
qed (use assms in simp)

lemma overlaidCommit_sound:
  assumes "soundCommit snap commit"
  shows "soundCommit snap (overlaidCommit inp t commit)"
proof -
  have "soundCommit snap (c\<lparr>cc_ExpectedBehaviorEvaluation := e\<rparr>) = soundCommit snap c" for c e
    by (simp add: soundCommit_def)
  then show ?thesis
    using applyExpectedJudgment_sound [OF assms, of inp t] ApplyExpectedBehaviorAuthority_sound
    by (auto simp: overlaidCommit_def Let_def split: option.split)
qed

lemma finalizeCheckpoint_sound [simp]: "soundCommit snap (finalizeCheckpoint c now) = soundCommit snap c"
  by (simp add: soundCommit_def finalizeCheckpoint_def)

section \<open>Commits of a trace\<close>

definition commitsSatisfy :: "(controllerCommit \<Rightarrow> bool) \<Rightarrow> cycleResult \<Rightarrow> bool" where
  "commitsSatisfy P r \<longleftrightarrow> (\<forall>c x. Committed c x \<in> set (fst r) \<longrightarrow> P c)"

definition noCommit :: "controllerEffect list \<Rightarrow> bool" where
  "noCommit es \<longleftrightarrow> (\<forall>c x. Committed c x \<notin> set es)"

definition commitCount :: "controllerEffect list \<Rightarrow> nat" where
  "commitCount es = length (filter (\<lambda>e. case e of Committed _ _ \<Rightarrow> True | _ \<Rightarrow> False) es)"

definition landed :: "controllerEffect list \<Rightarrow> bool" where
  "landed es \<longleftrightarrow> (\<exists>c. Committed c None \<in> set es)"

text \<open>A result with at most one commit that succeeds exactly when the commit landed.\<close>

definition settledOnce :: "cycleResult \<Rightarrow> bool" where
  "settledOnce r \<longleftrightarrow> commitCount (fst r) \<le> 1 \<and> (snd r = None \<longleftrightarrow> landed (fst r))"

lemma commitCount_simps [simp]:
  "commitCount [] = 0" "commitCount (xs @ ys) = commitCount xs + commitCount ys"
  "commitCount (Committed c x # es) = Suc (commitCount es)" "commitCount (Audited k i # es) = commitCount es"
  "commitCount (AppendedOutcome a e # es) = commitCount es" "commitCount (AppendedFacts f e # es) = commitCount es"
  "commitCount (BeganAttempt h b # es) = commitCount es" "commitCount (LoadedInput n # es) = commitCount es"
  by (simp_all add: commitCount_def)

lemma noCommit_count: "noCommit es \<Longrightarrow> commitCount es = 0 \<and> \<not> landed es"
  by (auto simp: noCommit_def commitCount_def landed_def filter_empty_conv split: controllerEffect.split)

lemma landed_append [simp]: "landed (xs @ ys) \<longleftrightarrow> landed xs \<or> landed ys"
  by (auto simp: landed_def)

lemma after_simps [simp]: "fst (after es r) = es @ fst r" "snd (after es r) = snd r"
  by (simp_all add: after_def)

lemma commitsSatisfy_after: "noCommit es \<Longrightarrow> commitsSatisfy P (after es r) = commitsSatisfy P r"
  by (auto simp: commitsSatisfy_def noCommit_def)

lemma settledOnce_after: "noCommit es \<Longrightarrow> settledOnce (after es r) = settledOnce r"
  using noCommit_count [of es] by (simp add: settledOnce_def)

lemma failure_settled: "noCommit es \<Longrightarrow> settledOnce (es, Some e) \<and> commitsSatisfy P (es, Some e)"
  using noCommit_count [of es] by (auto simp: settledOnce_def commitsSatisfy_def noCommit_def)

lemma audits_noCommit [simp]:
  "noCommit (auditCommitSuccess c)" "noCommit (observeHistoryCommit c)"
  by (auto simp: noCommit_def auditCommitSuccess_def observeHistoryCommit_def auditHistoryCommit_def split: option.splits if_splits)

lemma commitCycle_settled: "settledOnce (commitCycle f b c)"
  using noCommit_count [OF audits_noCommit(1)] noCommit_count [OF audits_noCommit(2)]
  by (auto simp: settledOnce_def commitCycle_def Let_def auditCommitFailed_def landed_def commitCount_def
      split: sum.split option.split)

lemma commitCycle_commits:
  assumes "\<And>h. P ((finalizeCheckpoint (overlaidCommit (cb_In b) (tUTC (env_CheckedAt (cb_Env b))) c)
      (tUTC (env_CheckedAt (cb_Env b))))\<lparr>cc_History := h\<rparr>)"
  shows "commitsSatisfy P (commitCycle f b c)"
  using assms audits_noCommit
  by (auto simp: commitsSatisfy_def noCommit_def commitCycle_def Let_def auditCommitFailed_def split: sum.splits option.splits)

section \<open>The dispatch loop, case by case\<close>

declare dispatchFrom.simps [simp del]

lemma validatedReply_usable:
  assumes "validatedReply env b n = Some r" and "accepted (vr_Outcome r)" and "vr_Proposal r = Some p"
  shows "usableProposal (db_Snapshot b) p"
  using assms ValidateAssessmentProposal_usable by (auto simp: validatedReply_def Let_def split: if_splits) (metis option.inject)

definition sentCall :: "controllerEnv \<Rightarrow> dispatchBasis \<Rightarrow> int \<Rightarrow> controllerEffect list" where
  "sentCall env b n = [RecordedCall (callOf env b n) None, Audited ''situation.assessment_call_dispatched'' (acl_ID (callOf env b n)),
     RequestedCompletion (acl_ID (callOf env b n))]"

definition failedCall :: "controllerEnv \<Rightarrow> dispatchBasis \<Rightarrow> int \<Rightarrow> dispatchResult \<Rightarrow> controllerEffect list" where
  "failedCall env b n res = sentCall env b n @
     [AppendedOutcome (outcomeOf env b n res) None, Audited (outcomeAuditKind (outcomeOf env b n res)) (acl_ID (callOf env b n))]"

lemma dispatchFrom_cases:
  obtains (over) "n > ccf_MaxL2CallsPerAttempt cfg" "dispatchFrom cfg env b n res = ([], Inr res)"
  | (unrecorded) e where "n \<le> ccf_MaxL2CallsPerAttempt cfg" "env_RecordCall env n = Some e"
      "dispatchFrom cfg env b n res = ([RecordedCall (callOf env b n) (Some e)], Inl (''situation: record assessment call: '' @ e))"
  | (accepted) r where "n \<le> ccf_MaxL2CallsPerAttempt cfg" "env_RecordCall env n = None"
      "validatedReply env b n = Some r" "accepted (vr_Outcome r)"
      "dispatchFrom cfg env b n res = (sentCall env b n, Inr ((afterReply env b n res)\<lparr>dr_proposal := vr_Proposal r\<rparr>))"
  | (unwritten) e where "n \<le> ccf_MaxL2CallsPerAttempt cfg" "env_AppendOutcome env n = Some e"
      "dispatchFrom cfg env b n res = (sentCall env b n @ [AppendedOutcome (outcomeOf env b n (afterReply env b n res)) (Some e)],
         Inl (''situation: append assessment outcome: '' @ e))"
  | (corrected) "n < ccf_MaxL2CallsPerAttempt cfg" "\<not> dr_correctionUsed res"
      "rp_ImmediateCorrection (policyOf (afterReply env b n res))"
      "dispatchFrom cfg env b n res =
         (failedCall env b n (afterReply env b n res) @ fst (dispatchFrom cfg env b (n + 1) ((afterReply env b n res)\<lparr>dr_correctionUsed := True\<rparr>)),
          snd (dispatchFrom cfg env b (n + 1) ((afterReply env b n res)\<lparr>dr_correctionUsed := True\<rparr>)))"
  | (stopped) "n \<le> ccf_MaxL2CallsPerAttempt cfg" "dispatchFrom cfg env b n res = (failedCall env b n (afterReply env b n res), Inr (afterReply env b n res))"
      "rp_Outcome (policyOf (afterReply env b n res)) \<notin> {L2OutcomeAccepted, L2OutcomeContradicted}"
proof -
  let ?res = "afterReply env b n res"
  note eq = dispatchFrom.simps [of cfg env b n res, unfolded Let_def, folded sentCall_def]
  have keep: "dr_correctionUsed ?res = dr_correctionUsed res" "dr_lastVR ?res = validatedReply env b n"
    by (simp_all add: afterReply_def Let_def)
  show thesis
  proof (cases "n > ccf_MaxL2CallsPerAttempt cfg")
    case True
    with over eq show thesis by simp
  next
    case False
    show thesis
    proof (cases "env_RecordCall env n")
      case (Some e)
      with False unrecorded eq show thesis by simp
    next
      case None
      show thesis
      proof (cases "rp_Outcome (policyOf ?res) = L2OutcomeAccepted \<or> rp_Outcome (policyOf ?res) = L2OutcomeContradicted")
        case True
        then obtain r where r: "validatedReply env b n = Some r" "accepted (vr_Outcome r)"
          using ClassifyL2Outcome_accepted_iff unfolding policyOf_def keep(2) by (metis insertI1 insertI2)
        with False None True accepted eq show thesis by (simp add: keep sentCall_def)
      next
        case rejected: False
        show thesis
        proof (cases "env_AppendOutcome env n")
          case (Some e)
          with False None rejected unwritten eq show thesis by (simp add: sentCall_def)
        next
          case written: None
          with False None rejected corrected stopped eq show thesis
            by (simp add: keep sentCall_def failedCall_def split: if_splits)
        qed
      qed
    qed
  qed
qed

lemma dispatch_induct [case_names call]:
  assumes "\<And>n res. (\<And>res'. n < ccf_MaxL2CallsPerAttempt cfg \<Longrightarrow> P (n + 1) res') \<Longrightarrow> P n res"
  shows "P (n :: int) (res :: dispatchResult)"
proof (induction "nat (ccf_MaxL2CallsPerAttempt cfg - n)" arbitrary: n res rule: less_induct)
  case less
  show ?case by (rule assms, rule less) simp
qed

lemma dispatchFrom_noCommit: "noCommit (fst (dispatchFrom cfg env b n res))"
proof (induction n res rule: dispatch_induct [where cfg = cfg])
  case (call n res)
  show ?case
    by (cases rule: dispatchFrom_cases [where cfg = cfg and env = env and b = b and n = n and res = res])
       (use call in \<open>auto simp: noCommit_def sentCall_def failedCall_def\<close>)
qed

lemma dispatchWorkBearing_noCommit: "noCommit (fst (dispatchWorkBearing cfg env b))"
  using dispatchFrom_noCommit by (simp add: dispatchWorkBearing_def noCommit_def split: option.split)

lemma commitPreserved_settled: "settledOnce (commitPreserved f b base triple)"
  by (cases triple) (simp add: commitPreserved_def commitCycle_settled)

lemma commitResult_parts:
  obtains c es where
    "commitResult f b base result callID epoch attempt dur usage = (fst (commitCycle f b c) @ es, snd (commitCycle f b c))"
    "noCommit es" "cc_Assessment c = ars_Assessment result" "aat_CallID (cc_Attempt c) = callID"
    "cc_EligibleReasons c = cc_EligibleReasons base" "cc_Lifecycle c = cc_Lifecycle base"
    "(\<exists>id. callID = Some id) \<and> snd (commitCycle f b c) \<noteq> None \<Longrightarrow> \<exists>o' e. AppendedOutcome o' e \<in> set es \<and> aat_CallID o' = callID"
proof -
  let ?attempt0 = "buildAuthoritativeAttempt (env_UUID (cb_Env b) AttemptUUID) (si_ID (cb_Claim b)) result callID
      epoch attempt dur (env_Now (cb_Env b))"
  let ?attempt = "case (callID, usage) of (Some _, Some u) \<Rightarrow> setAssessmentUsage ?attempt0 u | _ \<Rightarrow> ?attempt0"
  let ?c = "finalizeCheckpoint (base\<lparr>cc_Attempt := ?attempt, cc_Assessment := ars_Assessment result,
      cc_Coverage := ars_Coverage result, cc_Parked := \<lparr>pks_Touch = True, pks_At = zeroTime, pks_Reason = []\<rparr>,
      cc_RetryAt := None, cc_LastErrorClass := None\<rparr>) (env_Now (cb_Env b))"
  define es where "es = (case (snd (commitCycle f b ?c), callID) of
      (Some e, Some call) \<Rightarrow> [AppendedOutcome (buildStaleOutcome ?attempt call) (env_AppendStale (cb_Env b)),
         Audited ''situation.assessment_stale'' call] | _ \<Rightarrow> [])"
  have call: "aat_CallID ?attempt = callID"
    by (simp add: buildAuthoritativeAttempt_def setAssessmentUsage_def Let_def split: option.split)
  have "commitResult f b base result callID epoch attempt dur usage = (fst (commitCycle f b ?c) @ es, snd (commitCycle f b ?c))"
    unfolding es_def commitResult_def Let_def split_beta by (simp split: option.split)
  moreover have "noCommit es" by (auto simp: es_def noCommit_def split: option.splits)
  moreover have "(\<exists>id. callID = Some id) \<and> snd (commitCycle f b ?c) \<noteq> None \<Longrightarrow> \<exists>o' e. AppendedOutcome o' e \<in> set es \<and> aat_CallID o' = callID"
    by (auto simp: es_def buildStaleOutcome_def)
  ultimately show thesis using that [of ?c es] call by (simp add: finalizeCheckpoint_def)
qed

lemma settledOnce_append:
  assumes "settledOnce r" and "noCommit es"
  shows "settledOnce (fst r @ es, snd r)"
  using assms noCommit_count [OF assms(2)] by (simp add: settledOnce_def)

lemma commitResult_settled: "settledOnce (commitResult f b base result callID epoch attempt dur usage)"
proof -
  obtain c es where "commitResult f b base result callID epoch attempt dur usage =
      (fst (commitCycle f b c) @ es, snd (commitCycle f b c))" "noCommit es"
    by (rule commitResult_parts [of f b base result callID epoch attempt dur usage]) blast
  then show ?thesis using settledOnce_append [OF commitCycle_settled] by simp
qed

lemma commitDispatched_settled: "settledOnce (commitDispatched f b base state epoch attempt disp)"
  by (simp add: commitDispatched_def Let_def commitResult_settled commitBudgetDeferred_def commitPreserved_settled split: option.split)

lemma workBearing_settled: "settledOnce (workBearing f b base state)"
proof -
  have b: "noCommit [BeganAttempt h r]" for h r by (simp add: noCommit_def)
  show ?thesis
    using dispatchWorkBearing_noCommit
    by (auto simp: workBearing_def Let_def settledOnce_after [OF b] commitBlocked_def commitPreserved_settled
        failure_settled [where es = "[]", unfolded noCommit_def, simplified] settledOnce_after commitDispatched_settled
        dest: failure_settled split: sum.split beginFailure.split prod.split)
       (metis failure_settled fst_conv, metis commitDispatched_settled fst_conv settledOnce_after)
qed

lemma judgeCycle_settled: "settledOnce (judgeCycle f b base state)"
  by (simp add: judgeCycle_def Let_def commitResult_settled commitBudgetDeferred_def commitBlocked_def commitPreserved_settled
      workBearing_settled split: sum.split option.split)

section \<open>Laws of a cycle\<close>

text \<open>
  A law of a cycle is a property of its result that loading, preparing and recording evidence first does not disturb.
  What every law rests on is that the judging part, started from a Snapshot of the prepared input, obeys it.
\<close>

fun preliminary :: "controllerEffect \<Rightarrow> bool" where
  "preliminary (LoadedInput n) = True"
| "preliminary (PreparedEvidence p e) = True"
| "preliminary (AppendedFacts fs e) = True"
| "preliminary _ = False"

definition cycleStart ::
  "(snapshotInput \<Rightarrow> string) \<Rightarrow> controllerConfig \<Rightarrow> controllerEnv \<Rightarrow> situation \<Rightarrow> cycleBasis \<Rightarrow> controllerCommit
     \<Rightarrow> controllerState \<Rightarrow> bool" where
  "cycleStart od cfg env claim b base state \<longleftrightarrow>
     cb_Config b = cfg \<and> cb_Env b = env \<and> cb_Claim b = claim \<and>
     (\<exists>lc sl td. lc = resolveLifecycle cfg (sn_Situation (cb_In b)) (cb_In b) (BuildSnapshot (od (cb_In b)) (cb_In b)) sl (env_Now env) \<and>
        cb_Snap b = (BuildSnapshot (od (cb_In b)) (cb_In b))\<lparr>ss_Lifecycle := lr_Lifecycle lc\<rparr> \<and>
        td = DecideTriage (cb_Snap b) (cb_In b) (env_Now env) \<and> base = baseCommit claim (cb_In b) (cb_Snap b) lc td \<and>
        state = buildControllerState cfg (cb_Snap b) (cb_In b) lc td (env_Now env))"

lemma cycleStart_base:
  assumes "cycleStart od cfg env claim b base state"
  shows "cycleSnapshot od (cb_In b) (cb_Snap b)" and "cc_EligibleReasons base = ss_EligibleReasons (cb_Snap b)"
    and "cc_Lifecycle base = ss_Lifecycle (cb_Snap b)" and "pks_Reason (cc_Parked base) = []"
  using assms by (auto simp: cycleStart_def cycleSnapshot_def baseCommit_def)

text \<open>Preparation only ever hands on an input the store returned.\<close>

lemma prepareLifecyclePhase_cases:
  obtains (failed) es e where "prepareLifecyclePhase env inp = (es, Inl e)" "list_all preliminary es"
  | (prepared) es prepared where "prepareLifecyclePhase env inp = (es, Inr prepared)" "list_all preliminary es"
      "prepared = inp \<or> (\<exists>n. env_Load env n = Inr prepared)"
  by (cases "env_Load env 1"; cases "prepareLifecyclePhase env inp")
     (auto simp: prepareLifecyclePhase_def split: option.splits if_splits, blast)

lemma prepareAssessmentPhaseIfActive_cases:
  obtains (failed) es e where "prepareAssessmentPhaseIfActive cfg env inp sl = (es, Inl e)" "list_all preliminary es"
  | (prepared) es prepared sl' where "prepareAssessmentPhaseIfActive cfg env inp sl = (es, Inr (prepared, sl'))"
      "list_all preliminary es" "prepared = inp \<or> (\<exists>n. env_Load env n = Inr prepared)"
  by (cases "env_Load env 2"; cases "prepareAssessmentPhaseIfActive cfg env inp sl")
     (auto simp: prepareAssessmentPhaseIfActive_def split: option.splits if_splits, blast)

locale cycleLaw =
  fixes Q :: "cycleResult \<Rightarrow> bool"
  assumes extend: "list_all preliminary es \<Longrightarrow> Q r \<Longrightarrow> Q (after es r)"
    and failing: "list_all preliminary es \<Longrightarrow> Q (es, Some (CycleFailed e))"
begin

lemma projectCycle_law:
  assumes "\<And>b base state. cycleStart od cfg env claim b base state \<Longrightarrow> cb_In b = inp \<Longrightarrow> Q (judgeCycle f b base state)"
  shows "Q (projectCycle f od cfg env claim inp sl)"
proof -
  let ?snap0 = "BuildSnapshot (od inp) inp"
  let ?lc = "resolveLifecycle cfg (sn_Situation inp) inp ?snap0 sl (env_Now env)"
  let ?snap = "?snap0\<lparr>ss_Lifecycle := lr_Lifecycle ?lc\<rparr>"
  let ?td = "DecideTriage ?snap inp (env_Now env)"
  have "Q (judgeCycle f \<lparr>cb_Config = cfg, cb_Env = env, cb_Claim = claim, cb_In = inp, cb_Snap = ?snap\<rparr>
      (baseCommit claim inp ?snap ?lc ?td) (buildControllerState cfg ?snap inp ?lc ?td (env_Now env)))"
    by (intro assms) (auto simp: cycleStart_def)
  then show ?thesis
    unfolding projectCycle_def Let_def
    by (intro extend) (auto intro: failing split: option.split)
qed

lemma reconcile_law:
  assumes "\<And>b base state. cycleStart od cfg env claim b base state \<Longrightarrow> \<exists>n. env_Load env n = Inr (cb_In b) \<Longrightarrow> Q (judgeCycle f b base state)"
  shows "Q (reconcile f od cfg env claim)"
proof -
  have project: "Q (projectCycle f od cfg env claim inp sl)" if "\<exists>n. env_Load env n = Inr inp" for inp sl
    using that assms by (intro projectCycle_law) blast
  have rest: "Q (case prepareAssessmentPhaseIfActive cfg env inp sl of
      (effects', Inl e) \<Rightarrow> (effects', Some (CycleFailed e))
    | (effects', Inr (prepared, sl)) \<Rightarrow> after effects' (projectCycle f od cfg env claim prepared sl))"
    if "\<exists>n. env_Load env n = Inr inp" for inp sl
    by (rule prepareAssessmentPhaseIfActive_cases [where cfg = cfg and env = env and inp = inp and sl = sl])
       (use that in \<open>auto intro: failing extend project\<close>)
  have "Q (case prepareLifecyclePhase env inp of
      (effects, Inl e) \<Rightarrow> (effects, Some (CycleFailed e))
    | (effects, Inr inp) \<Rightarrow> after effects
        (case prepareAssessmentPhaseIfActive cfg env inp (reduceSourceLifecycle cfg inp (env_Now env)) of
           (effects', Inl e) \<Rightarrow> (effects', Some (CycleFailed e))
         | (effects', Inr (prepared, sl)) \<Rightarrow> after effects' (projectCycle f od cfg env claim prepared sl)))"
    if "\<exists>n. env_Load env n = Inr inp" for inp
    by (rule prepareLifecyclePhase_cases [where env = env and inp = inp]) (use that in \<open>auto intro: failing extend rest\<close>)
  then show ?thesis
    unfolding reconcile_def by (intro extend) (auto intro: failing split: sum.split)
qed

end

lemma preliminary_noCommit: "list_all preliminary es \<Longrightarrow> noCommit es"
  by (force simp: noCommit_def list_all_iff)

interpretation settled: cycleLaw settledOnce
  using preliminary_noCommit settledOnce_after failure_settled by unfold_locales blast+

interpretation commits: cycleLaw "commitsSatisfy P"
  using preliminary_noCommit commitsSatisfy_after failure_settled by unfold_locales blast+

section \<open>Every commit is sound\<close>

lemma soundCommit_History [simp]: "soundCommit snap (c\<lparr>cc_History := h\<rparr>) = soundCommit snap c"
  by (simp add: soundCommit_def)

definition deliveredCommit :: "snapshot \<Rightarrow> controllerCommit \<Rightarrow> bool" where
  "deliveredCommit snap c \<longleftrightarrow> soundCommit snap c \<and> cc_Attention c = as_Attention (cc_Assessment c)"

lemma commitCycle_delivered:
  assumes "soundCommit (cb_Snap b) c"
  shows "commitsSatisfy (deliveredCommit (cb_Snap b)) (commitCycle f b c)"
  using overlaidCommit_sound [OF assms]
  by (intro commitCycle_commits) (simp add: deliveredCommit_def, simp add: finalizeCheckpoint_def)

lemma commitPreserved_delivered:
  assumes "groundedAssessment (cb_Snap b) (fst triple)" and "cc_EligibleReasons base = ss_EligibleReasons (cb_Snap b)"
    and "cc_Lifecycle base = ss_Lifecycle (cb_Snap b)"
  shows "commitsSatisfy (deliveredCommit (cb_Snap b)) (commitPreserved f b base triple)"
proof (cases triple)
  case (fields a attempt coverage)
  with assms have "soundCommit (cb_Snap b) (base\<lparr>cc_Assessment := a, cc_Attempt := attempt, cc_Coverage := coverage\<rparr>)"
    by (simp add: soundCommit_def)
  then show ?thesis by (simp add: commitPreserved_def fields commitCycle_delivered)
qed

lemma commitResult_delivered:
  assumes "groundedAssessment (cb_Snap b) (ars_Assessment result)" and "cc_EligibleReasons base = ss_EligibleReasons (cb_Snap b)"
    and "cc_Lifecycle base = ss_Lifecycle (cb_Snap b)"
  shows "commitsSatisfy (deliveredCommit (cb_Snap b)) (commitResult f b base result callID epoch attempt dur usage)"
proof -
  obtain c es where "commitResult f b base result callID epoch attempt dur usage =
      (fst (commitCycle f b c) @ es, snd (commitCycle f b c))" "noCommit es"
    "soundCommit (cb_Snap b) c"
    by (rule commitResult_parts [of f b base result callID epoch attempt dur usage]) (use assms in \<open>simp add: soundCommit_def\<close>)
  then show ?thesis using commitCycle_delivered [of b c f] by (auto simp: commitsSatisfy_def noCommit_def)
qed

lemma dispatchFrom_reply:
  assumes "dr_proposal res = None" and "snd (dispatchFrom cfg env b n res) = Inr disp" and "dr_proposal disp = Some p"
  shows "\<exists>m r. validatedReply env b m = Some r \<and> accepted (vr_Outcome r) \<and> vr_Proposal r = Some p"
  using assms
proof (induction n res rule: dispatch_induct [where cfg = cfg])
  case (call n res)
  have keep: "dr_proposal (afterReply env b n res) = None" using call(2) by (simp add: afterReply_def Let_def)
  show ?case
  proof (cases rule: dispatchFrom_cases [where cfg = cfg and env = env and b = b and n = n and res = res])
    case (accepted r)
    with call(3,4) have "vr_Proposal r = Some p" by auto
    with accepted(3,4) show ?thesis by blast
  next
    case corrected
    show ?thesis
      by (rule call(1) [of "(afterReply env b n res)\<lparr>dr_correctionUsed := True\<rparr>"]) (use corrected call(2-4) keep in simp_all)
  qed (use call(2-4) keep in auto)
qed

lemma dispatchWorkBearing_reply:
  assumes "snd (dispatchWorkBearing cfg env b) = Inr disp" and "dr_proposal disp = Some p"
  shows "\<exists>m r. validatedReply env b m = Some r \<and> accepted (vr_Outcome r) \<and> vr_Proposal r = Some p"
  using assms dispatchFrom_reply [of zeroDispatch cfg env b 1]
  by (auto simp: dispatchWorkBearing_def zeroDispatch_def split: option.splits)

lemma dispatchWorkBearing_usable:
  assumes "snd (dispatchWorkBearing cfg env b) = Inr disp" and "dr_proposal disp = Some p"
  shows "usableProposal (db_Snapshot b) p"
  using dispatchWorkBearing_reply [OF assms] validatedReply_usable by blast

lemma commitDispatched_delivered:
  assumes "cycleSnapshot od (cb_In b) (cb_Snap b)" and "cc_EligibleReasons base = ss_EligibleReasons (cb_Snap b)"
    and "cc_Lifecycle base = ss_Lifecycle (cb_Snap b)" and "pred_option (usableProposal (cb_Snap b)) (dr_proposal disp)"
  shows "commitsSatisfy (deliveredCommit (cb_Snap b)) (commitDispatched f b base state epoch attempt disp)"
proof -
  have settle: "cc_EligibleReasons (settleFailure b base policy w) = cc_EligibleReasons base"
    "cc_Lifecycle (settleFailure b base policy w) = cc_Lifecycle base" for policy w
    by (simp_all add: settleFailure_def Let_def)
  show ?thesis
    using assms settle fallbackOrPreserve_grounded [OF assms(1)]
    by (auto simp: commitDispatched_def Let_def commitBudgetDeferred_def
        intro!: commitResult_delivered commitPreserved_delivered DeriveAssessment_grounded split: option.split)
qed

lemma workBearing_delivered:
  assumes "cycleSnapshot od (cb_In b) (cb_Snap b)" and "cc_EligibleReasons base = ss_EligibleReasons (cb_Snap b)"
    and "cc_Lifecycle base = ss_Lifecycle (cb_Snap b)"
  shows "commitsSatisfy (deliveredCommit (cb_Snap b)) (workBearing f b base state)"
proof -
  have began: "noCommit [BeganAttempt h r]" for h r by (simp add: noCommit_def)
  have blocked: "commitsSatisfy (deliveredCommit (cb_Snap b)) (commitBlocked f b base' state)"
    if "cc_EligibleReasons base' = cc_EligibleReasons base" "cc_Lifecycle base' = cc_Lifecycle base" for base'
    using assms that fallbackOrPreserve_grounded [OF assms(1)]
    by (auto simp: commitBlocked_def fallbackOrPreserveBlocked_def intro!: commitPreserved_delivered)
  have dispatched: "commitsSatisfy (deliveredCommit (cb_Snap b)) (case dispatchWorkBearing cfg env d of
      (effects, Inl e) \<Rightarrow> (effects, Some (CycleFailed (msg e)))
    | (effects, Inr disp) \<Rightarrow> after effects (commitDispatched f b base state epoch attempt disp))"
    if "db_Snapshot d = cb_Snap b" for cfg env d msg epoch attempt
  proof (cases "dispatchWorkBearing cfg env d")
    case (Pair es r)
    then have es: "noCommit es" using dispatchWorkBearing_noCommit [of cfg env d] by simp
    show ?thesis
    proof (cases r)
      case (Inl e)
      with Pair es failure_settled show ?thesis by auto
    next
      case (Inr disp)
      have "pred_option (usableProposal (cb_Snap b)) (dr_proposal disp)"
        using dispatchWorkBearing_usable [of cfg env d disp] Pair Inr that by (cases "dr_proposal disp") simp_all
      then show ?thesis using Pair Inr es assms by (simp add: commitsSatisfy_after commitDispatched_delivered)
    qed
  qed
  show ?thesis
  proof (cases "env_BeginAttempt (cb_Env b)")
    case (Inl failure)
    show ?thesis
    proof (cases failure)
      case AttemptsExhausted
      with Inl show ?thesis by (simp add: workBearing_def Let_def commitsSatisfy_after [OF began] blocked)
    next
      case (BeginFailed e)
      with Inl show ?thesis by (simp add: workBearing_def Let_def commitsSatisfy_def)
    qed
  next
    case (Inr x)
    with dispatched show ?thesis by (cases x) (simp add: workBearing_def Let_def commitsSatisfy_after [OF began])
  qed
qed

lemma judgeCycle_delivered:
  assumes "cycleStart od cfg env claim b base state"
  shows "commitsSatisfy (deliveredCommit (cb_Snap b)) (judgeCycle f b base state)"
proof -
  note start = cycleStart_base(1-3) [OF assms]
  note grounded = fallbackOrPreserve_grounded [OF start(1)] RevalidateReuse_grounded [OF start(1)]
  show ?thesis
    using start grounded workBearing_delivered [OF start]
    by (auto simp: judgeCycle_def Let_def commitBudgetDeferred_def commitBlocked_def fallbackOrPreserveBlocked_def
        intro!: commitPreserved_delivered commitResult_delivered split: sum.split option.split)
qed

section \<open>Calls\<close>

definition callCount :: "controllerEffect list \<Rightarrow> nat" where
  "callCount es = length (filter (\<lambda>e. case e of RequestedCompletion _ \<Rightarrow> True | _ \<Rightarrow> False) es)"

text \<open>Effects that start no work: no attempt begun, no call recorded, nothing requested.\<close>

fun quietEffect :: "controllerEffect \<Rightarrow> bool" where
  "quietEffect (BeganAttempt h r) = False"
| "quietEffect (RecordedCall c e) = False"
| "quietEffect (RequestedCompletion i) = False"
| "quietEffect _ = True"

lemma callCount_append [simp]: "callCount (xs @ ys) = callCount xs + callCount ys"
  by (simp add: callCount_def)

lemma quiet_no_calls: "list_all quietEffect es \<Longrightarrow> callCount es = 0 \<and> RequestedCompletion i \<notin> set es"
  by (auto simp: callCount_def list_all_iff filter_empty_conv split: controllerEffect.split)

lemma callCount_began: "callCount [BeganAttempt h r] = 0"
  by (simp add: callCount_def)

lemma callCount_call:
  "callCount [RecordedCall c e] = 0" "callCount (sentCall env b n) = 1" "callCount (failedCall env b n res) = 1"
  by (simp_all add: callCount_def sentCall_def failedCall_def)

lemma commitCycle_quiet: "list_all quietEffect (fst (commitCycle f b c))"
  by (auto simp: commitCycle_def Let_def auditCommitFailed_def auditCommitSuccess_def observeHistoryCommit_def
      auditHistoryCommit_def list_all_iff split: sum.splits option.splits if_splits)

lemma commitPreserved_quiet: "list_all quietEffect (fst (commitPreserved f b base triple))"
  by (cases triple) (simp add: commitPreserved_def commitCycle_quiet)

lemma commitResult_quiet: "list_all quietEffect (fst (commitResult f b base result callID epoch attempt dur usage))"
  using commitCycle_quiet by (auto simp: commitResult_def Let_def split_beta split: option.split)

lemma commitDispatched_quiet: "list_all quietEffect (fst (commitDispatched f b base state epoch attempt disp))"
  by (simp add: commitDispatched_def Let_def commitBudgetDeferred_def commitPreserved_quiet commitResult_quiet split: option.split)

lemma commitBlocked_quiet: "list_all quietEffect (fst (commitBlocked f b base state))"
  by (simp add: commitBlocked_def commitPreserved_quiet)

lemma dispatchFrom_calls:
  "callCount (fst (dispatchFrom cfg env b n res)) \<le> (if dr_correctionUsed res then 1 else 2) \<and>
   int (callCount (fst (dispatchFrom cfg env b n res))) \<le> max 0 (ccf_MaxL2CallsPerAttempt cfg + 1 - n)"
proof (induction n res rule: dispatch_induct [where cfg = cfg])
  case (call n res)
  show ?case
  proof (cases rule: dispatchFrom_cases [where cfg = cfg and env = env and b = b and n = n and res = res])
    case corrected
    with call [of "(afterReply env b n res)\<lparr>dr_correctionUsed := True\<rparr>"] show ?thesis by (simp add: callCount_call)
  qed (auto simp: callCount_call callCount_def [of "[]"] callCount_def [of "[AppendedOutcome o' e]" for o' e])
qed

lemma dispatchWorkBearing_calls:
  "callCount (fst (dispatchWorkBearing cfg env b)) \<le> 2 \<and>
   int (callCount (fst (dispatchWorkBearing cfg env b))) \<le> max 0 (ccf_MaxL2CallsPerAttempt cfg)"
  using dispatchFrom_calls [of cfg env b 1 zeroDispatch]
  by (simp add: dispatchWorkBearing_def zeroDispatch_def callCount_def split: option.split)

definition callsWithin :: "controllerConfig \<Rightarrow> cycleResult \<Rightarrow> bool" where
  "callsWithin cfg r \<longleftrightarrow> callCount (fst r) \<le> 2 \<and> int (callCount (fst r)) \<le> max 0 (ccf_MaxL2CallsPerAttempt cfg)"

lemma preliminary_quiet: "list_all preliminary es \<Longrightarrow> list_all quietEffect es"
  by (auto simp: list_all_iff elim!: preliminary.elims)

lemma quiet_callsWithin: "list_all quietEffect (fst r) \<Longrightarrow> callsWithin cfg r"
  using quiet_no_calls [of "fst r"] by (simp add: callsWithin_def)

interpretation calls: cycleLaw "callsWithin cfg"
  using preliminary_quiet quiet_no_calls by unfold_locales (auto simp: callsWithin_def)

lemma workBearing_calls:
  assumes "cb_Config b = cfg"
  shows "callsWithin cfg (workBearing f b base state)"
proof -
  have "callsWithin cfg (case dispatchWorkBearing cfg env d of
      (effects, Inl e) \<Rightarrow> (effects, Some (CycleFailed (msg e)))
    | (effects, Inr disp) \<Rightarrow> after effects (commitDispatched f b base state epoch attempt disp))" for env d msg epoch attempt
    using dispatchWorkBearing_calls [of cfg env d] quiet_no_calls [OF commitDispatched_quiet]
    by (auto simp: callsWithin_def split: prod.split sum.split)
  then show ?thesis
    using quiet_no_calls [OF commitBlocked_quiet] assms
    by (auto simp: workBearing_def Let_def callsWithin_def callCount_began callCount_def [of "[]"] simp del: append_Cons
        split: sum.split beginFailure.split)
qed

lemma judgeCycle_calls:
  assumes "cb_Config b = cfg"
  shows "callsWithin cfg (judgeCycle f b base state)"
  using workBearing_calls [OF assms]
  by (auto simp: judgeCycle_def Let_def commitBudgetDeferred_def quiet_callsWithin commitResult_quiet commitPreserved_quiet
      commitBlocked_quiet split: sum.split option.split)

section \<open>What becomes of a call\<close>

text \<open>
  A call that was sent has its own row.  Its outcome row was written, or the Attempt with its result landed, or the append of the
  outcome failed: then the cycle failed too, and the call row stays without an outcome for the crash recovery.
\<close>

definition callRecorded :: "controllerEffect list \<Rightarrow> string \<Rightarrow> bool" where
  "callRecorded es i \<longleftrightarrow> (\<exists>call. RecordedCall call None \<in> set es \<and> acl_ID call = i)"

definition outcomeWritten :: "controllerEffect list \<Rightarrow> string \<Rightarrow> bool" where
  "outcomeWritten es i \<longleftrightarrow> (\<exists>a. AppendedOutcome a None \<in> set es \<and> aat_CallID a = Some i)"

definition outcomeRefused :: "controllerEffect list \<Rightarrow> string \<Rightarrow> bool" where
  "outcomeRefused es i \<longleftrightarrow> (\<exists>a e. AppendedOutcome a (Some e) \<in> set es \<and> aat_CallID a = Some i)"

definition resultLanded :: "controllerEffect list \<Rightarrow> string \<Rightarrow> bool" where
  "resultLanded es i \<longleftrightarrow> (\<exists>c. Committed c None \<in> set es \<and> aat_CallID (cc_Attempt c) = Some i)"

definition callsAccounted :: "cycleResult \<Rightarrow> bool" where
  "callsAccounted r \<longleftrightarrow> (\<forall>i. RequestedCompletion i \<in> set (fst r) \<longrightarrow> callRecorded (fst r) i \<and>
     (outcomeWritten (fst r) i \<or> resultLanded (fst r) i \<or> outcomeRefused (fst r) i \<and> snd r \<noteq> None))"

lemma callRecorded_append [simp]: "callRecorded (xs @ ys) i \<longleftrightarrow> callRecorded xs i \<or> callRecorded ys i"
  by (auto simp: callRecorded_def)

lemma outcomeRefused_append [simp]: "outcomeRefused (xs @ ys) i \<longleftrightarrow> outcomeRefused xs i \<or> outcomeRefused ys i"
  by (auto simp: outcomeRefused_def)

lemma outcomeWritten_append [simp]: "outcomeWritten (xs @ ys) i \<longleftrightarrow> outcomeWritten xs i \<or> outcomeWritten ys i"
  by (auto simp: outcomeWritten_def)

lemma resultLanded_append [simp]: "resultLanded (xs @ ys) i \<longleftrightarrow> resultLanded xs i \<or> resultLanded ys i"
  by (auto simp: resultLanded_def)

lemma quiet_accounted: "list_all quietEffect (fst r) \<Longrightarrow> callsAccounted r"
  using quiet_no_calls by (auto simp: callsAccounted_def)

lemma accounted_after:
  "list_all quietEffect es \<Longrightarrow> callsAccounted r \<Longrightarrow> callsAccounted (after es r)"
  using quiet_no_calls by (auto simp: callsAccounted_def)

lemma outcomeOf_call [simp]: "aat_CallID (outcomeOf env b n (afterReply env b n res)) = Some (acl_ID (callOf env b n))"
  by (simp add: outcomeOf_def setAssessmentUsage_def buildOutcomeAttempt_def afterReply_def callOf_def Let_def)

lemma sentCall_requests:
  "RequestedCompletion i \<in> set (sentCall env b n) \<longleftrightarrow> i = acl_ID (callOf env b n)"
  "callRecorded (sentCall env b n) (acl_ID (callOf env b n))"
  by (auto simp: sentCall_def callRecorded_def)

lemma failedCall_requests:
  "RequestedCompletion i \<in> set (failedCall env b n res) \<longleftrightarrow> i = acl_ID (callOf env b n)"
  "outcomeWritten (failedCall env b n (afterReply env b n res)) (acl_ID (callOf env b n))"
  "callRecorded (failedCall env b n res) (acl_ID (callOf env b n))"
  by (auto simp: failedCall_def sentCall_requests outcomeWritten_def)

lemma dispatchFrom_accounted:
  assumes "RequestedCompletion i \<in> set (fst (dispatchFrom cfg env b n res))"
  shows "callRecorded (fst (dispatchFrom cfg env b n res)) i \<and>
    (outcomeWritten (fst (dispatchFrom cfg env b n res)) i \<or>
     outcomeRefused (fst (dispatchFrom cfg env b n res)) i \<and> (\<exists>e. snd (dispatchFrom cfg env b n res) = Inl e) \<or>
     (\<exists>disp p. snd (dispatchFrom cfg env b n res) = Inr disp \<and> dr_proposal disp = Some p \<and> dr_lastCallID disp = i))"
  using assms
proof (induction n res rule: dispatch_induct [where cfg = cfg])
  case (call n res)
  show ?case
  proof (cases rule: dispatchFrom_cases [where cfg = cfg and env = env and b = b and n = n and res = res])
    case (accepted r)
    obtain p where "vr_Proposal r = Some p"
      using accepted(3,4) ValidateAssessmentProposal_usable by (auto simp: validatedReply_def Let_def split: if_splits) metis
    with accepted call(2) sentCall_requests(2) [of env b n] show ?thesis
      by (auto simp: sentCall_requests(1) afterReply_def callOf_def Let_def)
  next
    case corrected
    from call(1) [of "(afterReply env b n res)\<lparr>dr_correctionUsed := True\<rparr>"] corrected call(2) show ?thesis
      by (auto simp: failedCall_requests)
  next
    case unwritten
    with call(2) show ?thesis by (auto simp: sentCall_requests outcomeRefused_def)
  qed (use call(2) failedCall_requests in \<open>auto simp: sentCall_requests outcomeWritten_def\<close>)
qed

lemma dispatchWorkBearing_accounted:
  assumes "dispatchWorkBearing cfg env b = (es, r)" and "RequestedCompletion i \<in> set es"
  shows "callRecorded es i \<and> (outcomeWritten es i \<or> outcomeRefused es i \<and> (\<exists>e. r = Inl e) \<or>
    (\<exists>disp p. r = Inr disp \<and> dr_proposal disp = Some p \<and> dr_lastCallID disp = i))"
  using assms dispatchFrom_accounted [of i cfg env b 1 zeroDispatch]
  by (auto simp: dispatchWorkBearing_def split: option.splits)

lemma finalize_frame [simp]:
  "cc_Attempt (finalizeCheckpoint c u) = cc_Attempt c" "cc_RetryAt (finalizeCheckpoint c u) = cc_RetryAt c"
  "cc_Parked (finalizeCheckpoint c u) = cc_Parked c"
  by (simp_all add: finalizeCheckpoint_def)

lemma overlaid_frame [simp]:
  "cc_Attempt (overlaidCommit inp t c) = cc_Attempt c" "cc_RetryAt (overlaidCommit inp t c) = cc_RetryAt c"
  "cc_Parked (overlaidCommit inp t c) = cc_Parked c"
  by (simp_all add: overlaidCommit_def ApplyExpectedBehaviorAuthority_def Let_def applyExpectedJudgment_frame split: option.split)

lemma commitCycle_landed:
  assumes "snd (commitCycle f b c) = None"
  shows "\<exists>d. Committed d None \<in> set (fst (commitCycle f b c)) \<and> cc_Attempt d = cc_Attempt c"
  using assms by (auto simp: commitCycle_def Let_def split: sum.splits option.splits)

lemma outcomeAppended: "AppendedOutcome a e \<in> set es \<Longrightarrow> aat_CallID a = Some i \<Longrightarrow> outcomeWritten es i \<or> outcomeRefused es i"
  by (cases e) (auto simp: outcomeWritten_def outcomeRefused_def)

lemma commitResult_accounted:
  "outcomeWritten (fst (commitResult f b base result (Some i) epoch attempt dur usage)) i \<or>
   resultLanded (fst (commitResult f b base result (Some i) epoch attempt dur usage)) i \<or>
   outcomeRefused (fst (commitResult f b base result (Some i) epoch attempt dur usage)) i \<and>
   snd (commitResult f b base result (Some i) epoch attempt dur usage) \<noteq> None"
proof -
  obtain c es where c: "commitResult f b base result (Some i) epoch attempt dur usage =
      (fst (commitCycle f b c) @ es, snd (commitCycle f b c))" "aat_CallID (cc_Attempt c) = Some i"
    "snd (commitCycle f b c) \<noteq> None \<Longrightarrow> \<exists>o' e. AppendedOutcome o' e \<in> set es \<and> aat_CallID o' = Some i"
    by (rule commitResult_parts [of f b base result "Some i" epoch attempt dur usage]) blast
  show ?thesis
  proof (cases "snd (commitCycle f b c)")
    case None
    from commitCycle_landed [OF this] c show ?thesis by (force simp: resultLanded_def)
  next
    case (Some e)
    then obtain a r where "AppendedOutcome a r \<in> set es" "aat_CallID a = Some i" using c(3) by auto
    with outcomeAppended [OF this] Some c(1) show ?thesis by auto
  qed
qed

lemma commitDispatched_accounted:
  assumes "dr_proposal disp = Some p"
  shows "outcomeWritten (fst (commitDispatched f b base state epoch attempt disp)) (dr_lastCallID disp) \<or>
    resultLanded (fst (commitDispatched f b base state epoch attempt disp)) (dr_lastCallID disp) \<or>
    outcomeRefused (fst (commitDispatched f b base state epoch attempt disp)) (dr_lastCallID disp) \<and>
    snd (commitDispatched f b base state epoch attempt disp) \<noteq> None"
  using assms commitResult_accounted by (simp add: commitDispatched_def Let_def)

interpretation accounted: cycleLaw callsAccounted
  using preliminary_quiet accounted_after quiet_accounted by unfold_locales (metis fst_conv)+

lemma dispatched_accounted:
  "callsAccounted (case dispatchWorkBearing cfg env d of
      (effects, Inl e) \<Rightarrow> (effects, Some (CycleFailed (msg e)))
    | (effects, Inr disp) \<Rightarrow> after effects (commitDispatched f b base state epoch attempt disp))"
proof (cases "dispatchWorkBearing cfg env d")
  case (Pair es r)
  note acc = dispatchWorkBearing_accounted [OF Pair]
  show ?thesis
  proof (cases r)
    case (Inl e)
    with acc Pair show ?thesis by (fastforce simp: callsAccounted_def)
  next
    case (Inr disp)
    have "RequestedCompletion i \<notin> set (fst (commitDispatched f b base state epoch attempt disp))" for i
      using quiet_no_calls [OF commitDispatched_quiet] by blast
    with acc Pair Inr commitDispatched_accounted show ?thesis
      by (fastforce simp: callsAccounted_def)
  qed
qed

lemma workBearing_accounted: "callsAccounted (workBearing f b base state)"
proof -
  have began: "callsAccounted (after [BeganAttempt h r] x) = callsAccounted x" for h r x
    by (simp add: callsAccounted_def callRecorded_def outcomeWritten_def outcomeRefused_def resultLanded_def)
  have empty: "callsAccounted ([], e)" for e by (simp add: callsAccounted_def)
  show ?thesis
    unfolding workBearing_def Let_def began
    using dispatched_accounted quiet_accounted [OF commitBlocked_quiet] empty
    by (auto simp del: append_Cons split: sum.split beginFailure.split)
qed

lemma judgeCycle_accounted: "callsAccounted (judgeCycle f b base state)"
  by (auto simp: judgeCycle_def Let_def commitBudgetDeferred_def quiet_accounted commitResult_quiet commitPreserved_quiet
      commitBlocked_quiet workBearing_accounted split: sum.split option.split)

section \<open>Retry or park\<close>

lemma retryBackoff_pos: "0 < rtc_Min cfg \<Longrightarrow> 0 < retryBackoff draw cfg n"
  by (simp add: retryBackoff_def Let_def not_le)

text \<open>
  After work was begun a commit either carries the result of a call and clears retry and park, or says when the
  work is tried again, or why it is parked.
\<close>

definition workSettled :: "gtime \<Rightarrow> controllerCommit \<Rightarrow> bool" where
  "workSettled now c \<longleftrightarrow>
     (if aat_CallID (cc_Attempt c) \<noteq> None
      then cc_RetryAt c = None \<and> pks_Touch (cc_Parked c) \<and> pks_Reason (cc_Parked c) = []
      else pks_Reason (cc_Parked c) \<noteq> [] \<and> pks_Touch (cc_Parked c) \<or>
        pks_Reason (cc_Parked c) = [] \<and> (\<exists>t. cc_RetryAt c = Some t \<and> tns now < tns t))"

lemma settled_frame [simp]:
  "workSettled now (overlaidCommit inp t c) = workSettled now c" "workSettled now (finalizeCheckpoint c u) = workSettled now c"
  by (simp_all only: workSettled_def overlaid_frame finalize_frame)

lemma workSettled_History [simp]: "workSettled now (c\<lparr>cc_History := h\<rparr>) = workSettled now c"
  by (simp add: workSettled_def)

lemma fallbackOrPreserve_call:
  "fallbackOrPreserve uuid sid snap inp state epoch attempt now = (a, att, cov) \<Longrightarrow> aat_CallID att = None"
  by (auto simp: fallbackOrPreserve_def Let_def zeroAttempt_def buildAuthoritativeAttempt_def split: option.splits)

lemma commitPreserved_settles:
  assumes "triple = fallbackOrPreserve uuid sid snap inp state epoch attempt u"
    and "pks_Reason (cc_Parked base) \<noteq> [] \<and> pks_Touch (cc_Parked base) \<or>
      pks_Reason (cc_Parked base) = [] \<and> (\<exists>t. cc_RetryAt base = Some t \<and> tns now < tns t)"
  shows "commitsSatisfy (workSettled now) (commitPreserved f b base triple)"
proof (cases triple)
  case (fields a att cov)
  from fallbackOrPreserve_call [of uuid sid snap inp state epoch attempt u a att cov] assms(1) fields
  have "aat_CallID att = None" by simp
  with assms(2) have "workSettled now (base\<lparr>cc_Assessment := a, cc_Attempt := att, cc_Coverage := cov\<rparr>)"
    by (simp add: workSettled_def)
  then show ?thesis by (simp add: commitPreserved_def fields commitCycle_commits)
qed

lemma commitResult_settles:
  "commitsSatisfy (workSettled now) (commitResult f b base result (Some i) epoch attempt dur usage)"
proof -
  have "workSettled now (finalizeCheckpoint (base\<lparr>cc_Attempt := att, cc_Assessment := a, cc_Coverage := cov,
      cc_Parked := \<lparr>pks_Touch = True, pks_At = zeroTime, pks_Reason = []\<rparr>, cc_RetryAt := None, cc_LastErrorClass := None\<rparr>) v)"
    if "aat_CallID att = Some i" for att a cov v
    unfolding settled_frame using that by (simp add: workSettled_def)
  moreover have "aat_CallID (setAssessmentUsage att u) = aat_CallID att" for att u
    by (simp add: setAssessmentUsage_def Let_def)
  ultimately have "commitsSatisfy (workSettled now) (commitCycle f b (finalizeCheckpoint (base\<lparr>cc_Attempt := case usage of
        None \<Rightarrow> buildAuthoritativeAttempt uuid sid result (Some i) epoch attempt dur w
      | Some u \<Rightarrow> setAssessmentUsage (buildAuthoritativeAttempt uuid sid result (Some i) epoch attempt dur w) u,
      cc_Assessment := a, cc_Coverage := cov, cc_Parked := \<lparr>pks_Touch = True, pks_At = zeroTime, pks_Reason = []\<rparr>,
      cc_RetryAt := None, cc_LastErrorClass := None\<rparr>) v))" for uuid sid w a cov v
    by (intro commitCycle_commits) (simp add: buildAuthoritativeAttempt_def split: option.split)
  then show ?thesis
    by (auto simp: commitResult_def Let_def split_beta commitsSatisfy_def split: option.split)
qed

lemma settleFailure_settles:
  assumes "pks_Reason (cc_Parked base) = []" and "0 < rtc_Min (ccf_Retry (cb_Config b))"
  shows "pks_Reason (cc_Parked (settleFailure b base policy n)) \<noteq> [] \<and> pks_Touch (cc_Parked (settleFailure b base policy n)) \<or>
      pks_Reason (cc_Parked (settleFailure b base policy n)) = [] \<and>
      (\<exists>t. cc_RetryAt (settleFailure b base policy n) = Some t \<and> tns (env_Now (cb_Env b)) < tns t)"
proof -
  have "parkedReasonForOutcome v \<noteq> []" for v
    by (cases v) (simp_all add: parkedReasonForOutcome_def parked_reasons)
  with assms retryBackoff_pos [OF assms(2)] show ?thesis
    by (simp add: settleFailure_def Let_def parkedAt_def tAdd_def)
qed

lemma commitDispatched_settles:
  assumes "pks_Reason (cc_Parked base) = []" and "0 < rtc_Min (ccf_Retry (cb_Config b))"
  shows "commitsSatisfy (workSettled (env_Now (cb_Env b))) (commitDispatched f b base state epoch attempt disp)"
proof (cases "dr_proposal disp")
  case (Some p)
  then show ?thesis by (simp add: commitDispatched_def Let_def commitResult_settles)
next
  case None
  then show ?thesis
    using settleFailure_settles [OF assms]
    by (auto simp: commitDispatched_def Let_def commitBudgetDeferred_def parkedAt_def ParkedReasonBudget_def
        intro!: commitPreserved_settles)
qed

definition workConcluded :: "gtime \<Rightarrow> cycleResult \<Rightarrow> bool" where
  "workConcluded now r \<longleftrightarrow> (\<forall>i. RequestedCompletion i \<in> set (fst r) \<longrightarrow> commitsSatisfy (workSettled now) r)"

lemma quiet_concluded: "list_all quietEffect (fst r) \<Longrightarrow> workConcluded now r"
  using quiet_no_calls by (auto simp: workConcluded_def)

interpretation concluded: cycleLaw "workConcluded now"
proof
  fix es r assume "list_all preliminary es" "workConcluded now r"
  then show "workConcluded now (after es r)"
    using preliminary_noCommit [of es] quiet_no_calls [OF preliminary_quiet, of es]
    by (auto simp: workConcluded_def commitsSatisfy_after)
next
  fix es e assume "list_all preliminary es"
  then show "workConcluded now (es, Some (CycleFailed e))" using preliminary_quiet quiet_concluded by simp
qed

lemma workBearing_concluded:
  assumes "pks_Reason (cc_Parked base) = []" and "0 < rtc_Min (ccf_Retry (cb_Config b))"
  shows "workConcluded (env_Now (cb_Env b)) (workBearing f b base state)"
proof (cases "env_BeginAttempt (cb_Env b)")
  case (Inl failure)
  then have "RequestedCompletion i \<notin> set (fst (workBearing f b base state))" for i
    using quiet_no_calls [OF commitBlocked_quiet]
    by (cases failure) (auto simp: workBearing_def Let_def)
  then show ?thesis by (simp add: workConcluded_def)
next
  case (Inr x)
  obtain epoch attempt where x: "x = (epoch, attempt)" by (cases x)
  obtain es r where d: "dispatchWorkBearing (cb_Config b) (cb_Env b) \<lparr>db_SituationID = si_ID (cb_Claim b),
      db_Snapshot = cb_Snap b, db_RetryEpoch = epoch, db_WorkAttempt = attempt\<rparr> = (es, r)" by fastforce
  have "noCommit (BeganAttempt (ss_MaterialFactHash (cb_Snap b)) (Inr (epoch, attempt)) # es)"
    using dispatchWorkBearing_noCommit [of "cb_Config b" "cb_Env b"] d by (metis (no_types, lifting) controllerEffect.distinct(49) fst_conv noCommit_def set_ConsD)
  then show ?thesis
    using commitDispatched_settles [OF assms] d
    by (cases r) (auto simp: workBearing_def Let_def Inr x workConcluded_def commitsSatisfy_def noCommit_def)
qed

lemma judgeCycle_concluded:
  assumes "pks_Reason (cc_Parked base) = []" and "0 < rtc_Min (ccf_Retry (cb_Config b))"
  shows "workConcluded (env_Now (cb_Env b)) (judgeCycle f b base state)"
  using workBearing_concluded [OF assms]
  by (auto simp: judgeCycle_def Let_def commitBudgetDeferred_def quiet_concluded commitResult_quiet commitPreserved_quiet
      commitBlocked_quiet split: sum.split option.split)

lemma withDefaults_retry: "0 < rtc_Min (ccf_Retry (ControllerConfig_withDefaults cfg))"
  by (simp add: ControllerConfig_withDefaults_def second_def)

section \<open>A permanent park starts no work\<close>

lemma judgeCycle_parked:
  assumes "controllerParkBlocksDispatch (sn_ControllerParked (cb_In b)) (ss_MaterialFactHash (cb_Snap b))"
  shows "list_all quietEffect (fst (judgeCycle f b base state))"
  using assms
  by (auto simp: judgeCycle_def Let_def commitBudgetDeferred_def commitResult_quiet commitPreserved_quiet commitBlocked_quiet
      split: sum.split option.split)

section \<open>What a commit takes over from the projection\<close>

text \<open>The columns of a commit that the cycle fixes before it judges, and no later step of it changes.\<close>

record projectedColumns =
  pc_Lifecycle :: lifecycle
  pc_RecoveryObservedAt :: "gtime option"
  pc_GraceUntil :: "gtime option"
  pc_TerminalAt :: "gtime option"
  pc_TerminalReason :: "terminalReason option"
  pc_MaterialFactHash :: string
  pc_AssessmentBasisHash :: string
  pc_EligibleReasons :: "reasonCandidate list"
  pc_TriageDecisions :: "triageDecision list"
  pc_PreparationCycleID :: string
  pc_PreparationGeneration :: int

definition columnsOf :: "controllerCommit \<Rightarrow> projectedColumns" where
  "columnsOf c = \<lparr>pc_Lifecycle = cc_Lifecycle c, pc_RecoveryObservedAt = cc_RecoveryObservedAt c, pc_GraceUntil = cc_GraceUntil c,
     pc_TerminalAt = cc_TerminalAt c, pc_TerminalReason = cc_TerminalReason c, pc_MaterialFactHash = cc_MaterialFactHash c,
     pc_AssessmentBasisHash = cc_AssessmentBasisHash c, pc_EligibleReasons = cc_EligibleReasons c,
     pc_TriageDecisions = cc_TriageDecisions c, 
     pc_PreparationCycleID = cc_PreparationCycleID c, pc_PreparationGeneration = cc_PreparationGeneration c\<rparr>"

lemma columnsOf_frame [simp]:
  "columnsOf (c\<lparr>cc_Attempt := x1\<rparr>) = columnsOf c" "columnsOf (c\<lparr>cc_Assessment := x2\<rparr>) = columnsOf c"
  "columnsOf (c\<lparr>cc_Coverage := x3\<rparr>) = columnsOf c" "columnsOf (c\<lparr>cc_Parked := x4\<rparr>) = columnsOf c"
  "columnsOf (c\<lparr>cc_RetryAt := x5\<rparr>) = columnsOf c" "columnsOf (c\<lparr>cc_LastErrorClass := x6\<rparr>) = columnsOf c"
  "columnsOf (c\<lparr>cc_BudgetDeniedCallID := x7\<rparr>) = columnsOf c" "columnsOf (c\<lparr>cc_History := x8\<rparr>) = columnsOf c"
  "columnsOf (c\<lparr>cc_ExpectedBehaviorEvaluation := x9\<rparr>) = columnsOf c"
  by (simp_all add: columnsOf_def)

lemma columnsOf_finalize [simp]: "columnsOf (finalizeCheckpoint c u) = columnsOf c"
  by (simp add: finalizeCheckpoint_def columnsOf_def)

lemma columnsOf_overlaid [simp]: "columnsOf (overlaidCommit inp t c) = columnsOf c"
proof -
  have "columnsOf (applyExpectedJudgment c inp t) = columnsOf c" for c
    by (simp add: columnsOf_def applyExpectedJudgment_def Let_def split: option.split)
  moreover have "columnsOf (ApplyExpectedBehaviorAuthority c ev) = columnsOf c" for c ev
    by (simp add: ApplyExpectedBehaviorAuthority_def Let_def split: option.split)
  ultimately show ?thesis by (simp add: overlaidCommit_def Let_def split: option.split)
qed

lemma commitCycle_columns: "columnsOf c = k \<Longrightarrow> commitsSatisfy (\<lambda>d. columnsOf d = k) (commitCycle f b c)"
  by (intro commitCycle_commits) simp

lemma commitPreserved_columns: "columnsOf base = k \<Longrightarrow> commitsSatisfy (\<lambda>d. columnsOf d = k) (commitPreserved f b base triple)"
  by (cases triple) (simp add: commitPreserved_def commitCycle_columns)

lemma commitResult_columns:
  assumes "columnsOf base = k"
  shows "commitsSatisfy (\<lambda>d. columnsOf d = k) (commitResult f b base result callID epoch attempt dur usage)"
proof -
  have "commitsSatisfy (\<lambda>d. columnsOf d = k) (commitCycle f b (finalizeCheckpoint (base\<lparr>cc_Attempt := att, cc_Assessment := a,
      cc_Coverage := cov, cc_Parked := pk, cc_RetryAt := None, cc_LastErrorClass := None\<rparr>) v))" for att a cov pk v
    by (rule commitCycle_columns) (simp add: assms)
  then show ?thesis
    by (auto simp: commitResult_def Let_def split_beta commitsSatisfy_def split: option.split)
qed

lemma settleFailure_columns [simp]: "columnsOf (settleFailure b base policy n) = columnsOf base"
  by (simp add: settleFailure_def Let_def)

lemma commitDispatched_columns:
  "columnsOf base = k \<Longrightarrow> commitsSatisfy (\<lambda>d. columnsOf d = k) (commitDispatched f b base state epoch attempt disp)"
  by (simp add: commitDispatched_def Let_def commitBudgetDeferred_def commitResult_columns commitPreserved_columns split: option.split)

lemma workBearing_columns:
  assumes "columnsOf base = k"
  shows "commitsSatisfy (\<lambda>d. columnsOf d = k) (workBearing f b base state)"
proof -
  have began: "noCommit [BeganAttempt h r]" for h r by (simp add: noCommit_def)
  have empty: "commitsSatisfy P ([], e)" for P e by (simp add: commitsSatisfy_def)
  have "commitsSatisfy (\<lambda>d. columnsOf d = k) (case dispatchWorkBearing cfg env d of
      (effects, Inl e) \<Rightarrow> (effects, Some (CycleFailed (msg e)))
    | (effects, Inr disp) \<Rightarrow> after effects (commitDispatched f b base state epoch attempt disp))" for cfg env d msg epoch attempt
  proof (cases "dispatchWorkBearing cfg env d")
    case (Pair es r)
    then have "noCommit es" using dispatchWorkBearing_noCommit [of cfg env d] by simp
    then show ?thesis using Pair failure_settled commitDispatched_columns [OF assms]
      by (cases r) (auto simp: commitsSatisfy_after)
  qed
  then show ?thesis
    unfolding workBearing_def Let_def commitsSatisfy_after [OF began]
    using assms by (auto simp: empty commitBlocked_def intro!: commitPreserved_columns split: sum.split beginFailure.split)
qed

lemma judgeCycle_columns:
  "columnsOf base = k \<Longrightarrow> commitsSatisfy (\<lambda>d. columnsOf d = k) (judgeCycle f b base state)"
  by (auto simp: judgeCycle_def Let_def commitBudgetDeferred_def commitBlocked_def
      intro!: commitResult_columns commitPreserved_columns workBearing_columns split: sum.split option.split)

text \<open>The columns of a cycle over an input: its hashes and reasons, the resolved lifecycle and the Triage decisions.\<close>

definition projectedFrom ::
  "(snapshotInput \<Rightarrow> string) \<Rightarrow> controllerConfig \<Rightarrow> gtime \<Rightarrow> snapshotInput \<Rightarrow> controllerCommit \<Rightarrow> bool" where
  "projectedFrom od cfg now inp c \<longleftrightarrow>
     (\<exists>sl. let snap = BuildSnapshot (od inp) inp; lc = resolveLifecycle cfg (sn_Situation inp) inp snap sl now in
        cc_Lifecycle c = lr_Lifecycle lc \<and> cc_RecoveryObservedAt c = lr_RecoveryObservedAt lc \<and>
        cc_GraceUntil c = lr_GraceUntil lc \<and> cc_TerminalAt c = lr_TerminalAt lc \<and> cc_TerminalReason c = lr_TerminalReason lc \<and>
        cc_MaterialFactHash c = ss_MaterialFactHash snap \<and> cc_AssessmentBasisHash c = ss_AssessmentBasisHash snap \<and>
        cc_EligibleReasons c = ss_EligibleReasons snap \<and>
        cc_TriageDecisions c = DecideTriage (snap\<lparr>ss_Lifecycle := lr_Lifecycle lc\<rparr>) inp now)"

lemma judgeCycle_projected:
  assumes "cycleStart od cfg env claim b base state"
  shows "commitsSatisfy (projectedFrom od cfg (env_Now env) (cb_In b)) (judgeCycle f b base state)"
proof -
  have "projectedFrom od cfg (env_Now env) (cb_In b) c" if "columnsOf c = columnsOf base" for c
    using assms that by (auto simp: cycleStart_def projectedFrom_def columnsOf_def baseCommit_def Let_def)
  then show ?thesis using judgeCycle_columns [OF refl, of base f b state] by (auto simp: commitsSatisfy_def)
qed

end
