(* ===== verification/Reconcile_Landing.thy ===== *)
theory Reconcile_Landing
  imports Reconcile_Trace
begin

text \<open>
  A cycle over well-formed rows lands: the predicates say what the store keeps of a Situation and when the answers during a
  cycle are healthy, the lemmas that every way through the cycle ends in a commit whose history can be derived.
\<close>

section \<open>Assessments that can be recorded\<close>

definition recordableReason :: "sufficientReason \<Rightarrow> bool" where
  "recordableReason r \<longleftrightarrow> \<not> blank (sr_CandidateID r) \<and> length (sr_Summary r) \<le> maxJournalDetailLength"

definition recordable :: "snapshot \<Rightarrow> assessment \<Rightarrow> bool" where
  "recordable snap a \<longleftrightarrow> groundedAssessment snap a \<and> pred_option recordableReason (as_SufficientReason a) \<and>
     pred_option tutc (ac_NextUpdateAt (as_ActionContract a))"

text \<open>The instants a controller state may wake at are in UTC.\<close>

definition stateInUTC :: "controllerState \<Rightarrow> bool" where
  "stateInUTC st \<longleftrightarrow> pred_option tutc (cst_SemanticRetryAt st) \<and> pred_option tutc (cst_RecoveryGraceUntil st) \<and>
     pred_option tutc (cst_LifecycleObservationDeadlineAt st) \<and> pred_option tutc (cst_EarliestPersistedCheckpoint st) \<and>
     pred_option tutc (cst_TriageDueAt st) \<and> pred_option tutc (cst_FutureTriageDueAt st)"

lemma earliestOf_utc: "tutc e \<Longrightarrow> list_all (pred_option tutc) cs \<Longrightarrow> tutc (earliestOf e cs)"
  by (induction e cs rule: earliestOf.induct) auto

lemma nextUpdateAt_utc:
  assumes "stateInUTC st" and "tutc now"
  shows "tutc (nextUpdateAt st cad now)"
proof -
  have "tutc (earliestOf (tAdd now (Interval (cst_Tempo st) cad)) (updateCandidates st now))"
    using assms by (intro earliestOf_utc) (auto simp: stateInUTC_def updateCandidates_def futureOnly_def split: option.split)
  with assms(2) show ?thesis by (simp add: nextUpdateAt_def Let_def)
qed

lemma DeriveAssessment_recordable:
  assumes "usableProposal snap p" and "pred_option recordableReason (ap_SufficientReason p)"
    and "stateInUTC st" and "tutc now"
  shows "recordable snap (ars_Assessment (DeriveAssessment p snap inp st der ru now))"
proof -
  have "stateInUTC (st\<lparr>cst_Lifecycle := l, cst_Attention := at', cst_OperatorActionRequired := x\<rparr>)" for l at' x
    using assms(3) by (simp add: stateInUTC_def)
  from nextUpdateAt_utc [OF this assms(4)] assms(2) DeriveAssessment_grounded [OF assms(1)] show ?thesis
    by (simp add: recordable_def DeriveAssessment_def Let_def DeriveActionContract_def)
qed

lemma candidate_recordable:
  assumes "cycleSnapshot od inp snap" and "c \<in> set (ss_EligibleReasons snap)"
  shows "\<not> blank (rc_ID c)" and "length (rc_Summary c) \<le> maxJournalDetailLength"
proof -
  have digest: "\<not> blank (canonicalDigest v)" for v
    unfolding canonicalDigest_def by (simp only: append_Cons append_Nil) (rule not_blank_ascii; simp add: byte_def asciiSpace_def)
  from assms have c: "c \<in> set (ss_EligibleReasons (BuildSnapshot (od inp) inp))" by (auto simp: cycleSnapshot_def)
  then show "\<not> blank (rc_ID c)"
    by (auto simp: EligibleReasons_def Let_def onlyIf_def newReasonCandidate_def reasonCandidateID_def digest split: if_splits)
  from c show "length (rc_Summary c) \<le> maxJournalDetailLength"
    by (auto simp: EligibleReasons_def Let_def onlyIf_def newReasonCandidate_def maxJournalDetailLength_def split: if_splits)
qed

lemma permitted_recordable:
  assumes "cycleSnapshot od inp snap" and "proposalPermitted p snap"
    and "pred_option (\<lambda>r. length (sr_Summary r) \<le> maxJournalDetailLength) (ap_SufficientReason p)"
  shows "pred_option recordableReason (ap_SufficientReason p)"
proof (cases "ap_SufficientReason p")
  case (Some r)
  with assms(2) obtain c where "findEligibleCandidateByID (ss_EligibleReasons snap) (sr_CandidateID r) = Some c"
    by (auto simp: proposalPermitted_def)
  then have "c \<in> set (ss_EligibleReasons snap)" "rc_ID c = sr_CandidateID r"
    by (auto simp: findEligibleCandidateByID_def find_Some_iff)
  then have "\<not> blank (sr_CandidateID r)" using candidate_recordable(1) [OF assms(1)] by metis
  with assms(3) Some show ?thesis by (simp add: recordableReason_def)
qed simp

lemma reply_recordable:
  assumes "cycleSnapshot od inp (db_Snapshot b)" and "validatedReply env b n = Some r" and "accepted (vr_Outcome r)"
    and "vr_Proposal r = Some p"
  shows "pred_option recordableReason (ap_SufficientReason p)"
proof -
  obtain q where q: "proposalTextBounded q" "accepted (vr_Outcome (validateProposalContent q (db_Snapshot b)))"
    "vr_Proposal (validateProposalContent q (db_Snapshot b)) = Some p"
    using assms(2-4)
    by (auto simp: validatedReply_def ValidateAssessmentProposal_def staleBasisResult_def malformedResult_def rejected_def accepted_def Let_def
        split: if_splits option.splits sum.splits)
  then have "ap_SufficientReason p = ap_SufficientReason q"
    using validateProposalContent_result [OF q(2)] by auto
  moreover have "pred_option recordableReason (ap_SufficientReason q)"
    using q(1) by (intro permitted_recordable [OF assms(1) accepted_permitted [OF q(2)]])
      (auto simp: proposalTextBounded_def maxBoundedTextLength_def maxJournalDetailLength_def pred_option_iff)
  ultimately show ?thesis by simp
qed

lemma rebound_recordable:
  assumes "cycleSnapshot od inp snap" and "rebindSufficientReason r (ss_EligibleReasons snap) = Some rebound"
    and "pred_option (\<lambda>r. length (sr_Summary r) \<le> maxJournalDetailLength) r"
  shows "pred_option recordableReason rebound"
proof (cases r)
  case (Some x)
  with assms(2) obtain c where c: "findEligibleCandidateByCode (ss_EligibleReasons snap) (sr_Code x) = Some c"
    "rebound = Some \<lparr>sr_Code = rc_Code c, sr_CandidateID = rc_ID c, sr_Summary = sr_Summary x, sr_EvidenceRefs = rc_EvidenceRefs c\<rparr>"
    by (auto simp: rebindSufficientReason_def split: option.splits)
  from c(1) have "c \<in> set (ss_EligibleReasons snap)" by (auto simp: findEligibleCandidateByCode_def find_Some_iff)
  with candidate_recordable(1) [OF assms(1)] assms(3) c(2) Some show ?thesis by (simp add: recordableReason_def)
qed (use assms(2) in \<open>simp add: rebindSufficientReason_def\<close>)

lemma fallback_recordable:
  assumes "cycleSnapshot od inp snap" and "stateInUTC state" and "tutc now"
  shows "recordable snap (ars_Assessment (DeterministicFallback snap inp state now))"
proof -
  let ?p = "deterministicProposal snap [fallbackLimitation]"
  have "pred_option recordableReason (ap_SufficientReason ?p)"
  proof (cases "findFloorCandidate (ss_EligibleReasons snap)")
    case (Some c)
    then have "c \<in> set (ss_EligibleReasons snap)" by (auto simp: findFloorCandidate_def find_Some_iff)
    with candidate_recordable [OF assms(1)] Some show ?thesis by (simp add: deterministicProposal_def recordableReason_def)
  qed (simp add: deterministicProposal_def)
  from DeriveAssessment_recordable [OF fallback_usable [OF assms(1)] this assms(2,3)] show ?thesis
    by (simp add: DeterministicFallback_def DeterministicAssessment_def)
qed

section \<open>What the store keeps\<close>

definition rowReady :: "situation \<Rightarrow> bool" where
  "rowReady s \<longleftrightarrow> situationRowOK s \<and> \<not> Terminal (si_Lifecycle s) \<and> boundedID (si_ID s) \<and> instantReady (si_EffectiveStartedAt s) \<and>
     si_EffectiveStartedAtBasis s \<in> {SourceTimeBasisSourcePayload, SourceTimeBasisSourceAPI, SourceTimeBasisReceiptFallback,
         SourceTimeBasisMissing, SourceTimeBasisMixed} \<and>
     pred_option (\<lambda>h. \<not> blank h) (si_PublicHandle s) \<and> pred_option tutc (si_RecoveryObservedAt s) \<and>
     pred_option tutc (si_GraceUntil s) \<and> pred_option tutc (si_RetryAt s)"

text \<open>The last Transition and the summary folded up to it, of an Episode that is still open.\<close>

definition ledgerReady :: "gtime \<Rightarrow> snapshotInput \<Rightarrow> bool" where
  "ledgerReady now inp \<longleftrightarrow>
     pred_option (\<lambda>v. v \<le> versionOf (sn_CurrentSummary inp)) (sn_LatestRootSyncVersion inp) \<and>
     (case (sn_PriorTransition inp, sn_CurrentSummary inp) of
        (None, None) \<Rightarrow> True
      | (Some p, Some s) \<Rightarrow>
          tr_SituationID p = si_ID (sn_Situation inp) \<and> boundedID (tr_ID p) \<and> briefingReady (pf_Briefing (tr_Projection p)) \<and>
          EpisodeSummary_Validate s = None \<and> es_SituationID s = si_ID (sn_Situation inp) \<and>
          es_SourceTransitionSequence s = tr_Sequence p \<and> tns (es_UpdatedAt s) \<le> tns now \<and> es_TerminalAt s = None
      | _ \<Rightarrow> False)"

text \<open>What operators recorded: artifacts, a judgment and schedules.\<close>

definition operatorReady :: "snapshotInput \<Rightarrow> bool" where
  "operatorReady inp \<longleftrightarrow> list_all artifactReady (sn_PendingArtifacts inp) \<and>
     pred_option (\<lambda>j. length (sj_AssertedOperator j) \<le> maxIdentifierLength \<and> \<not> tIsZero (sj_ValidUntil j)) (sn_Judgment inp) \<and>
     list_all (\<lambda>h. length (ebh_AssertedOperator h) \<le> maxIdentifierLength) (sn_ExpectedBehaviorHeads inp) \<and>
     pred_option (\<lambda>ev. pred_option (\<lambda>oc. \<not> tIsZero (ebo_Boundary oc)) (eev_Occurrence ev)) (sn_ExpectedBehavior inp)"

definition assessmentReady :: "authoritativeAssessment \<Rightarrow> bool" where
  "assessmentReady cur \<longleftrightarrow> \<not> blank (aa_ID cur) \<and> AssessmentDerivation_Validate (aa_Derivation cur) = None \<and>
     pred_option (\<lambda>r. length (sr_Summary r) \<le> maxJournalDetailLength) (as_SufficientReason (aa_Assessment cur))"

definition storedReady :: "gtime \<Rightarrow> snapshotInput \<Rightarrow> bool" where
  "storedReady now inp \<longleftrightarrow> rowReady (sn_Situation inp) \<and> ledgerReady now inp \<and> operatorReady inp \<and>
     pred_option assessmentReady (sn_CurrentAssessment inp) \<and>
     list_all (\<lambda>i. 0 \<le> inc_Occurrences i \<and> pred_option tutc (tst_NextAt (inc_Triage i))) (sn_Incidents inp) \<and>
     list_all (\<lambda>l. CoverageLimitation_Validate l = None) (coverageLimitationsOf
       (snd (ProjectObservations (sn_Prepared inp) (prs_PlansByID (sn_Prepared inp)) (sn_Now inp))))"

text \<open>Identities are non-blank and bounded, the store and the preparer answer, and the claimed row has a version.\<close>

definition healthyCycle :: "(string \<Rightarrow> string) \<Rightarrow> controllerConfig \<Rightarrow> controllerEnv \<Rightarrow> situation \<Rightarrow> bool" where
  "healthyCycle f cfg env claim \<longleftrightarrow>
     (\<forall>k. boundedID (f k)) \<and> instantReady (env_Now env) \<and> \<not> blank (env_UUID env AttemptUUID) \<and> 1 \<le> si_InputVersion claim \<and>
     (ccf_SlackFloor cfg = InterruptionPriorityOther [] \<or> InterruptionPriority_Validate (ccf_SlackFloor cfg) = None) \<and>
     0 \<le> ccf_RepageCooldown cfg \<and>
     (\<forall>n. \<exists>inp. env_Load env n = Inr inp \<and> storedReady (env_Now env) inp) \<and>
     pred_option (\<lambda>prepare. \<forall>phase. prepare phase = None) (env_Preparer env) \<and> env_AppendFacts env = None \<and>
     (\<forall>e. env_BeginAttempt env \<noteq> Inl (BeginFailed e)) \<and> env_PromptError env = None \<and>
     (\<forall>n. env_RecordCall env n = None) \<and> (\<forall>n. env_AppendOutcome env n = None) \<and>
     (\<forall>n. pred_option (\<lambda>e. pred_option (pred_option tutc) (ce_BudgetDeferred e)) (os_Err (env_Complete env n))) \<and>
     env_Commit env = None"

lemma preserved_recordable:
  assumes "cycleSnapshot od inp snap" and "storedReady now' inp" and "stateInUTC state" and "tutc now"
    and "revalidatedPreservedAssessment snap inp state now = Some a"
  shows "recordable snap a"
proof -
  obtain cur rebound p where c: "sn_CurrentAssessment inp = Some cur"
    "rebindSufficientReason (as_SufficientReason (aa_Assessment cur)) (ss_EligibleReasons snap) = Some rebound"
    "ap_SufficientReason p = rebound" "usableProposal snap p"
    "a = ars_Assessment (DeriveAssessment p snap inp state (aa_Derivation cur) (aa_ReusedFromAssessmentID cur) now)"
    using preserved_proposal [OF assms(1,5)] .
  have "pred_option recordableReason rebound"
    by (rule rebound_recordable [OF assms(1) c(2)]) (use assms(2) c(1) in \<open>simp add: storedReady_def assessmentReady_def\<close>)
  then show ?thesis unfolding c(5) using c(3,4) assms(3,4) by (intro DeriveAssessment_recordable) simp_all
qed

lemma reuse_recordable:
  assumes "cycleSnapshot od inp snap" and "storedReady now' inp" and "stateInUTC state" and "tutc now"
    and "sn_CurrentAssessment inp = Some cur" and "RevalidateReuse cur snap inp state now = Inr res"
  shows "recordable snap (ars_Assessment res)" and "ars_Derivation res = DerivationRevalidatedReuse"
proof -
  obtain rebound p where c: "rebindSufficientReason (as_SufficientReason (aa_Assessment cur)) (ss_EligibleReasons snap) = Some rebound"
    "ap_SufficientReason p = rebound" "usableProposal snap p"
    "res = DeriveAssessment p snap inp state DerivationRevalidatedReuse (Some (aa_ID cur)) now"
    using reuse_proposal [OF assms(1,6)] .
  have "pred_option recordableReason rebound"
    by (rule rebound_recordable [OF assms(1) c(1)]) (use assms(2,5) in \<open>simp add: storedReady_def assessmentReady_def\<close>)
  then show "recordable snap (ars_Assessment res)"
    unfolding c(4) using c(2,3) assms(3,4) by (intro DeriveAssessment_recordable) simp_all
  show "ars_Derivation res = DerivationRevalidatedReuse" by (simp add: c(4) DeriveAssessment_def Let_def)
qed

section \<open>The resolved lifecycle and the state in UTC\<close>

lemma resolveLifecycle_utc:
  assumes "rowReady s" and "instantReady now"
  shows "pred_option tutc (lr_RecoveryObservedAt (resolveLifecycle cfg s inp snap sl now))"
    and "pred_option tutc (lr_GraceUntil (resolveLifecycle cfg s inp snap sl now))"
    and "pred_option tutc (lr_TerminalAt (resolveLifecycle cfg s inp snap sl now))"
    and "pred_option (\<lambda>r. r \<in> {TerminalReasonResolutionMissing, TerminalReasonObservationDeadline})
       (lr_TerminalReason (resolveLifecycle cfg s inp snap sl now))"
  using assms
  by (cases "si_Lifecycle s"; simp add: rowReady_def instantReady_def resolveLifecycle_def Let_def ClosedUnknownReason_def
      situationRowOK_def lifecycleColumnsOK_def)+

lemma considerDue_utc:
  assumes "pred_prod (pred_option tutc) (pred_option tutc) acc" and "list_all tutc ts"
  shows "pred_prod (pred_option tutc) (pred_option tutc) (foldl (considerDue now) acc ts)"
proof -
  have "pred_prod (pred_option tutc) (pred_option tutc) (considerDue now acc t)"
    if "pred_prod (pred_option tutc) (pred_option tutc) acc" "tutc t" for acc t
    using that by (cases acc) (auto simp: considerDue_def pred_prod_beta split: option.split)
  with assms show ?thesis by (induction ts arbitrary: acc) simp_all
qed

lemma buildControllerState_utc:
  assumes "storedReady now inp" and "instantReady now" and "pred_option tutc (lr_GraceUntil lc)"
    and "ss_Incidents snap = sortIncidentsByID (sn_Incidents inp)"
  shows "stateInUTC (buildControllerState cfg snap inp lc td now)"
proof -
  have "set (ss_Incidents snap) = set (sn_Incidents inp)" by (simp add: assms(4) sortIncidentsByID_def)
  then have "list_all tutc (List.map_filter (incidentDueTime (decisionsByIncident td) now) (ss_Incidents snap))"
    using assms(1,2)
    by (auto simp: storedReady_def instantReady_def list_all_iff List.map_filter_def incidentDueTime_def pred_option_iff
        split: if_splits option.splits)
  from considerDue_utc [OF _ this, of "(None, None)" now] have
    "pred_option tutc (fst (triageDueTimes (ss_Incidents snap) td now))" "pred_option tutc (snd (triageDueTimes (ss_Incidents snap) td now))"
    by (simp_all add: triageDueTimes_def Let_def pred_prod_beta)
  with assms(1,3) show ?thesis
    by (simp add: stateInUTC_def buildControllerState_def Let_def storedReady_def rowReady_def instantReady_def ObservationDeadlineAt_def)
qed

section \<open>The history of a ready commit\<close>

definition attemptReady :: "controllerEnv \<Rightarrow> snapshotInput \<Rightarrow> assessmentAttempt \<Rightarrow> bool" where
  "attemptReady env inp att \<longleftrightarrow>
     (if aat_ID att = [] then aat_Derivation att = AssessmentDerivationOther [] \<and> sn_CurrentAssessment inp \<noteq> None
      else \<not> blank (aat_ID att) \<and> AssessmentDerivation_Validate (aat_Derivation att) = None)"

text \<open>What is known of a commit when its history is derived.\<close>

definition commitReady :: "cycleBasis \<Rightarrow> controllerCommit \<Rightarrow> bool" where
  "commitReady b c \<longleftrightarrow> recordable (cb_Snap b) (cc_Assessment c) \<and> cc_Attention c = as_Attention (cc_Assessment c) \<and>
     cc_Lifecycle c = ss_Lifecycle (cb_Snap b) \<and> \<not> blank (cc_MaterialFactHash c) \<and>
     lifecycleColumnsOK (cc_Lifecycle c) (cc_RecoveryObservedAt c) (cc_GraceUntil c) (cc_TerminalAt c) (cc_TerminalReason c) \<and>
     pred_option tutc (cc_RecoveryObservedAt c) \<and> pred_option tutc (cc_GraceUntil c) \<and> pred_option tutc (cc_TerminalAt c) \<and>
     pred_option (\<lambda>r. r \<in> {TerminalReasonResolutionMissing, TerminalReasonObservationDeadline}) (cc_TerminalReason c) \<and>
     attemptReady (cb_Env b) (cb_In b) (cc_Attempt c) \<and>
     pred_option (\<lambda>ev. pred_option (\<lambda>oc. \<not> tIsZero (ebo_Boundary oc)) (eev_Occurrence ev)) (cc_ExpectedBehaviorEvaluation c)"

lemma recordable_conclusion:
  assumes "recordable snap a" and "Lifecycle_Validate (ss_Lifecycle snap) = None"
  shows "AssessmentConclusion_Validate (assessmentConclusionOf a) = None"
    and "Attention_Validate (as_Attention a) = None"
    and "ActionContract_validate (Terminal (ss_Lifecycle snap)) (as_ActionContract a) = None"
proof -
  have "Assessment_validateShape a = None" and life: "as_Lifecycle a = ss_Lifecycle snap"
    using assms by (auto simp: recordable_def groundedAssessment_def Assessment_ValidateShape_def)
  then have shape: "assessmentCodesClosed a" "ActionContract_validate (Terminal (as_Lifecycle a)) (as_ActionContract a) = None"
    unfolding Assessment_validateShape_iff by blast+
  with life show "ActionContract_validate (Terminal (ss_Lifecycle snap)) (as_ActionContract a) = None" by simp
  from shape show "Attention_Validate (as_Attention a) = None" by (simp add: assessmentCodesClosed_def)
  from shape assms(1) show "AssessmentConclusion_Validate (assessmentConclusionOf a) = None"
    by (auto simp: AssessmentConclusion_Validate_def assessmentConclusionOf_def assessmentCodesClosed_def recordable_def recordableReason_def
        errWhen_None_iff wrapErr_None_iff pred_option_iff split: option.split)
qed

lemma ready_lifecycle:
  assumes "commitReady b c"
  shows "Lifecycle_Validate (cc_Lifecycle c) = None"
  using assms by (auto simp: commitReady_def lifecycleColumnsOK_def Lifecycle_Validate_def validateEnum_def)

lemma committedProjection_valid:
  assumes "commitReady b c" and "storedReady now (cb_In b)" and "sn_Situation inp = sn_Situation (cb_In b)"
    and "ss_CapabilityResults snap = snd (ProjectObservations (sn_Prepared (cb_In b)) (prs_PlansByID (sn_Prepared (cb_In b))) (sn_Now (cb_In b)))"
  shows "ProjectionFacts_Validate (committedProjection inp snap c) = None"
proof -
  have "AssessmentConclusion_Validate (assessmentConclusionOf (cc_Assessment c)) = None"
    using recordable_conclusion(1) [of "cb_Snap b" "cc_Assessment c"] ready_lifecycle [OF assms(1)] assms(1)
    by (simp add: commitReady_def)
  moreover have "length (coverageLimitationsOf xs) \<le> 32" for xs by (simp add: coverageLimitationsOf_def)
  ultimately show ?thesis
    using assms
    by (auto simp: ProjectionFacts_Validate_def committedProjection_def commitReady_def storedReady_def rowReady_def instantReady_def
        validate_simps firstErr_None_iff list_all_iff requireNonZeroUTC_def requireUTC_def validateEnum_def lifecycleColumnsOK_def
        pred_option_iff not_less split: option.split)
qed

lemma briefing_judgment:
  "judgmentOf (Some (CommittedOperatorBriefing inp c)) =
     (case sn_Judgment inp of None \<Rightarrow> None
      | Some j \<Rightarrow> if cc_JudgmentApplicable c
          then Some \<lparr>jp_Revision = sj_Revision j, jp_AssertedOperator = sj_AssertedOperator j, jp_ValidUntil = tUTC (sj_ValidUntil j)\<rparr>
          else None)"
  by (simp add: judgmentOf_def CommittedOperatorBriefing_def Let_def committedBriefingInput_def split: option.split)

lemma briefing_behavior:
  "behaviorOf (Some (CommittedOperatorBriefing inp c)) =
     (case cc_ExpectedBehaviorEvaluation c of None \<Rightarrow> None | Some ev \<Rightarrow> behaviorProjection ev (sn_ExpectedBehaviorHeads inp))"
  by (simp add: behaviorOf_def CommittedOperatorBriefing_def Let_def committedBriefingInput_def split: option.split)

lemma behaviorProjection_ready:
  assumes "list_all (\<lambda>h. length (ebh_AssertedOperator h) \<le> maxIdentifierLength) heads"
    and "pred_option (\<lambda>oc. \<not> tIsZero (ebo_Boundary oc)) (eev_Occurrence ev)"
  shows "pred_option behaviorReady (behaviorProjection ev heads)"
proof -
  have "length (ebh_AssertedOperator x) \<le> maxIdentifierLength" if "find P heads = Some x" for P x
    using that assms(1) by (auto simp: find_Some_iff list_all_length)
  moreover have "tIsZero (tUTC t) = tIsZero t" for t by (simp add: tIsZero_def tUTC_def)
  ultimately show ?thesis
    using assms(2)
    by (cases "chosenCandidate ev heads"; cases "eev_Occurrence ev")
       (simp_all add: behaviorProjection_def behaviorReady_def instantReady_def Let_def split: option.split)
qed

lemma committedBriefing_ready:
  assumes "commitReady b c" and "operatorReady inp"
  shows "briefingReady (Some (CommittedOperatorBriefing inp c))"
proof -
  have "tIsZero (tUTC t) = tIsZero t" for t by (simp add: tIsZero_def tUTC_def)
  then show ?thesis
    using assms behaviorProjection_ready
    unfolding briefingReady_def briefing_judgment briefing_behavior
    by (auto simp: operatorReady_def commitReady_def judgmentReady_def instantReady_def split: option.split)
qed

text \<open>The input as the history reads it: only the presentation facts are completed.\<close>

definition sameStored :: "snapshotInput \<Rightarrow> snapshotInput \<Rightarrow> bool" where
  "sameStored inp stored \<longleftrightarrow> sn_Situation inp = sn_Situation stored \<and> sn_CurrentAssessment inp = sn_CurrentAssessment stored \<and>
     sn_PriorTransition inp = sn_PriorTransition stored \<and> sn_CurrentSummary inp = sn_CurrentSummary stored \<and>
     sn_PendingArtifacts inp = sn_PendingArtifacts stored \<and> sn_Judgment inp = sn_Judgment stored \<and>
     sn_ExpectedBehavior inp = sn_ExpectedBehavior stored \<and> sn_ExpectedBehaviorHeads inp = sn_ExpectedBehaviorHeads stored \<and>
     sn_LatestRootSyncVersion inp = sn_LatestRootSyncVersion stored \<and> sn_PriorSituations inp = sn_PriorSituations stored \<and>
     sn_Incidents inp = sn_Incidents stored"

lemma committedSituation_columns:
  "si_ID (committedSituation v inp now c) = si_ID (sn_Situation inp)"
  "si_InputVersion (committedSituation v inp now c) = v"
  "si_Lifecycle (committedSituation v inp now c) = cc_Lifecycle c" "si_Attention (committedSituation v inp now c) = cc_Attention c"
  by (simp_all add: committedSituation_def)

lemma recurrence_nonneg:
  assumes "storedReady now stored" and "sameStored inp stored"
  shows "0 \<le> recurrenceCountOf inp"
proof -
  have "0 \<le> sum_list (map inc_Occurrences (sn_Incidents inp))"
    using assms by (intro sum_list_nonneg) (auto simp: storedReady_def sameStored_def list_all_iff)
  then show ?thesis by (simp add: recurrenceCountOf_def)
qed

lemma derivation_ready:
  assumes "commitReady b c" and "storedReady now (cb_In b)" and "sn_CurrentAssessment inp = sn_CurrentAssessment (cb_In b)"
  shows "AssessmentDerivation_Validate (ch_Derivation (authoritativeChangeOf v inp snap now c)) = None"
    and "pred_option (\<lambda>i. \<not> blank i) (ch_AssessmentID (authoritativeChangeOf v inp snap now c))"
proof -
  have "AssessmentDerivation_Validate (AssessmentDerivationOther []) \<noteq> None"
    by (simp add: AssessmentDerivation_Validate_def validateEnum_def)
  with assms show "AssessmentDerivation_Validate (ch_Derivation (authoritativeChangeOf v inp snap now c)) = None"
    by (auto simp: authoritativeChangeOf_def commitReady_def attemptReady_def storedReady_def assessmentReady_def pred_option_iff
        split: if_splits option.splits)
  from assms show "pred_option (\<lambda>i. \<not> blank i) (ch_AssessmentID (authoritativeChangeOf v inp snap now c))"
    by (auto simp: authoritativeChangeOf_def commitReady_def attemptReady_def storedReady_def assessmentReady_def pred_option_iff
        split: if_splits option.splits)
qed

lemma change_valid:
  assumes ready: "commitReady b c" and stored: "storedReady now (cb_In b)" and same: "sameStored inp (cb_In b)"
    and now: "instantReady now" and version: "1 \<le> v"
    and results: "ss_CapabilityResults snap = snd (ProjectObservations (sn_Prepared (cb_In b)) (prs_PlansByID (sn_Prepared (cb_In b))) (sn_Now (cb_In b)))"
  shows "validateChange (authoritativeChangeOf v inp snap now c) = None"
proof -
  let ?ch = "authoritativeChangeOf v inp snap now c"
  have fields: "ch_Situation ?ch = committedSituation v inp now c" "ch_Projection ?ch = committedProjection inp snap c"
    "ch_MaterialFactHash ?ch = cc_MaterialFactHash c" "ch_Now ?ch = now" "ch_RecurrenceCount ?ch = recurrenceCountOf inp"
    "ch_PriorTransition ?ch = sn_PriorTransition inp" "ch_PriorSummary ?ch = sn_CurrentSummary inp"
    "pf_TerminalAt (committedProjection inp snap c) = cc_TerminalAt c" "pf_TerminalReason (committedProjection inp snap c) = cc_TerminalReason c"
    by (simp_all add: authoritativeChangeOf_def committedProjection_def)
  have row: "\<not> blank (si_ID (sn_Situation inp))" "ledgerReady now (cb_In b)"
    using stored same by (auto simp: storedReady_def rowReady_def boundedID_def sameStored_def)
  have attention: "Attention_Validate (cc_Attention c) = None"
    using recordable_conclusion(2) [of "cb_Snap b"] ready ready_lifecycle [OF ready] by (simp add: commitReady_def)
  have projection: "ProjectionFacts_Validate (committedProjection inp snap c) = None"
    by (rule committedProjection_valid [OF ready stored _ results]) (use same in \<open>simp add: sameStored_def\<close>)
  have columns: "lifecycleColumnsOK (cc_Lifecycle c) (cc_RecoveryObservedAt c) (cc_GraceUntil c) (cc_TerminalAt c) (cc_TerminalReason c)"
    "\<not> blank (cc_MaterialFactHash c)" using ready by (auto simp: commitReady_def)
  have prior: "whenSome (sn_PriorTransition inp) (\<lambda>p. firstErr
        [errWhen (tr_SituationID p \<noteq> si_ID (sn_Situation inp)) e1,
         (case sn_CurrentSummary inp of None \<Rightarrow> Some e2 | Some s \<Rightarrow> errWhen (es_SituationID s \<noteq> si_ID (sn_Situation inp)) e3)]) = None" for e1 e2 e3
    using row(2) same by (auto simp: ledgerReady_def sameStored_def errWhen_def whenSome_def split: option.splits)
  show ?thesis
    unfolding validateChange_def Let_def fields committedSituation_columns firstErr_Cons_None prior
    using row attention projection columns ready_lifecycle [OF ready] recurrence_nonneg [OF stored same] now version
      derivation_ready(1) [OF ready stored, of inp v snap] same
    by (auto simp: errWhen_None_iff wrapErr_None_iff lifecycleColumnsOK_def instantReady_def sameStored_def)
qed

lemma change_ready:
  assumes ready: "commitReady b c" and stored: "storedReady now (cb_In b)" and same: "sameStored inp (cb_In b)"
    and now: "instantReady now" and version: "1 \<le> v" and ids: "\<forall>k. boundedID (f k)"
    and results: "ss_CapabilityResults snap = snd (ProjectObservations (sn_Prepared (cb_In b)) (prs_PlansByID (sn_Prepared (cb_In b))) (sn_Now (cb_In b)))"
  shows "changeReady f (authoritativeChangeOf v inp snap now c)" and "priorReady (authoritativeChangeOf v inp snap now c)"
proof -
  let ?ch = "authoritativeChangeOf v inp snap now c"
  have ledger: "ledgerReady now (cb_In b)" and operators: "operatorReady inp"
    using stored same by (auto simp: storedReady_def operatorReady_def sameStored_def)
  have sequence: "0 \<le> priorSequence ?ch"
    using ledger same
    by (auto simp: priorSequence_def authoritativeChangeOf_def ledgerReady_def sameStored_def EpisodeSummary_Validate_def
        errWhen_None_iff split: option.splits)
  have contract: "ActionContract_validate (Terminal (cc_Lifecycle c)) (as_ActionContract (cc_Assessment c)) = None"
    using recordable_conclusion(3) [of "cb_Snap b"] ready ready_lifecycle [OF ready] by (simp add: commitReady_def)
  show "changeReady f ?ch"
    using change_valid [OF ready stored same now version results] ids sequence derivation_ready(2) [OF ready stored, of inp v snap] contract
      committedBriefing_ready [OF ready operators] operators ledger same ready
    by (auto simp: changeReady_def authoritativeChangeOf_def committedSituation_columns committedProjection_def operatorReady_def
        ledgerReady_def sameStored_def commitReady_def recordable_def recordableReason_def pred_option_iff split: option.splits)
  show "priorReady ?ch"
    using ledger same
    by (auto simp: priorReady_def foldReady_def priorSequence_def authoritativeChangeOf_def committedSituation_columns
        ledgerReady_def sameStored_def split: option.splits)
qed

section \<open>Every commit path lands\<close>

lemma publication_ready:
  assumes ready: "commitReady b c" and stored: "storedReady now (cb_In b)" and same: "sameStored inp (cb_In b)" and now: "instantReady now"
    and cfg: "ccf_SlackFloor cfg = InterruptionPriorityOther [] \<or> InterruptionPriority_Validate (ccf_SlackFloor cfg) = None"
      "0 \<le> ccf_RepageCooldown cfg"
  shows "publicationReady (authoritativeChangeOf v inp snap now c) (publicationOf cfg inp now c (authoritativeChangeOf v inp snap now c))"
  using assms
  by (auto simp: publicationReady_def publicationOf_def authoritativeChangeOf_def checkPublication_def zeroSummary_def errWhen_def
      committedSituation_columns storedReady_def rowReady_def ledgerReady_def sameStored_def commitReady_def recordable_def instantReady_def
      tEqual_def pred_option_iff split: option.splits)

lemma buildHistory_total:
  assumes "commitReady b c" and "healthyCycle f cfg env claim" and "storedReady (env_Now env) (cb_In b)"
    and "cycleSnapshot od (cb_In b) snap"
  shows "\<exists>h. buildHistory f cfg (si_InputVersion claim) (cb_In b) snap (env_Now env) c = Inr h"
proof -
  let ?inp = "(cb_In b)\<lparr>sn_PresentationFacts := (sn_PresentationFacts (cb_In b))\<lparr>prf_SourceChecks :=
      mergePresentationSourceChecks (ccf_PresentationSources cfg) (prf_SourceChecks (sn_PresentationFacts (cb_In b)))\<rparr>\<rparr>"
  let ?ch = "authoritativeChangeOf (si_InputVersion claim) ?inp snap (env_Now env) c"
  have same: "sameStored ?inp (cb_In b)" by (simp add: sameStored_def)
  have results: "ss_CapabilityResults snap = snd (ProjectObservations (sn_Prepared (cb_In b)) (prs_PlansByID (sn_Prepared (cb_In b))) (sn_Now (cb_In b)))"
    using assms(4) by (auto simp: cycleSnapshot_def BuildSnapshot_def Let_def split_beta)
  from assms(2) have env: "instantReady (env_Now env)" "1 \<le> si_InputVersion claim" "\<forall>k. boundedID (f k)"
    "ccf_SlackFloor cfg = InterruptionPriorityOther [] \<or> InterruptionPriority_Validate (ccf_SlackFloor cfg) = None" "0 \<le> ccf_RepageCooldown cfg"
    by (simp_all add: healthyCycle_def)
  obtain ts summary intents where "BuildHistoryCommit f ?ch (publicationOf cfg ?inp (env_Now env) c ?ch) =
      Inr \<lparr>hc_Transitions = ts, hc_Summary = summary, hc_Intents = intents\<rparr>"
    by (rule BuildHistoryCommit_total [OF change_ready [OF assms(1,3) same env(1-3) results] publication_ready [OF assms(1,3) same env(1,4,5)]])
  then show ?thesis by (simp add: buildHistory_def Let_def)
qed

lemma overlaid_parts:
  "as_SufficientReason (cc_Assessment (overlaidCommit inp t c)) = as_SufficientReason (cc_Assessment c)"
  "pred_option tutc (ac_NextUpdateAt (as_ActionContract (cc_Assessment c))) \<Longrightarrow>
     pred_option tutc (ac_NextUpdateAt (as_ActionContract (cc_Assessment (overlaidCommit inp t c))))"
proof -
  let ?reason = "\<lambda>c. as_SufficientReason (cc_Assessment c)"
  let ?utc = "\<lambda>c. pred_option tutc (ac_NextUpdateAt (as_ActionContract (cc_Assessment c)))"
  have overlay: "?reason (applyExpectedJudgment c inp t) = ?reason c" "?utc c \<Longrightarrow> ?utc (applyExpectedJudgment c inp t)" for c
    by (simp_all add: applyExpectedJudgment_def Let_def overlayContract_def pred_option_iff split: option.split)
  have behavior: "?reason (ApplyExpectedBehaviorAuthority c ev) = ?reason c" "?utc c \<Longrightarrow> ?utc (ApplyExpectedBehaviorAuthority c ev)" for c ev
    by (simp_all add: ApplyExpectedBehaviorAuthority_def behaviorContract_def Let_def pred_option_iff split: option.split)
  show "?reason (overlaidCommit inp t c) = ?reason c"
    by (simp add: overlaidCommit_def Let_def overlay behavior split: option.split)
  show "?utc c \<Longrightarrow> ?utc (overlaidCommit inp t c)"
    using overlay(2) by (auto simp: overlaidCommit_def Let_def intro!: behavior(2) split: option.split)
qed

lemma overlaid_evaluation:
  assumes "operatorReady inp" and "cc_ExpectedBehaviorEvaluation c = None"
  shows "pred_option (\<lambda>ev. pred_option (\<lambda>oc. \<not> tIsZero (ebo_Boundary oc)) (eev_Occurrence ev))
    (cc_ExpectedBehaviorEvaluation (overlaidCommit inp t c))"
proof -
  have judged: "cc_ExpectedBehaviorEvaluation (applyExpectedJudgment c inp t) = None"
    using assms(2) by (simp add: applyExpectedJudgment_def Let_def split: option.split)
  have kept: "cc_ExpectedBehaviorEvaluation (ApplyExpectedBehaviorAuthority d ev) = cc_ExpectedBehaviorEvaluation d" for d ev
    by (simp add: ApplyExpectedBehaviorAuthority_def Let_def split: option.split)
  have "pred_option P (eev_Occurrence (RefreshExpectedBehaviorEvaluationForCommit ev urgent t))" if "pred_option P (eev_Occurrence ev)" for P ev urgent
    using that by (auto simp: RefreshExpectedBehaviorEvaluationForCommit_def Let_def stampHash_def split: option.split)
  with assms(1) judged kept show ?thesis
    by (cases "sn_ExpectedBehavior inp") (simp_all add: overlaidCommit_def Let_def operatorReady_def)
qed

lemma commitCycle_lands:
  assumes start: "cycleStart od cfg env claim b base state" and healthy: "healthyCycle f cfg env claim"
    and stored: "storedReady (env_Now env) (cb_In b)"
    and c: "columnsOf c = columnsOf base" "cc_ExpectedBehaviorEvaluation c = None"
      "recordable (cb_Snap b) (cc_Assessment c)" "attemptReady env (cb_In b) (cc_Attempt c)"
  shows "snd (commitCycle f b c) = None"
proof -
  let ?t = "tUTC (env_CheckedAt env)"
  let ?d = "finalizeCheckpoint (overlaidCommit (cb_In b) ?t c) ?t"
  have basis: "cb_Config b = cfg" "cb_Env b = env" "cb_Claim b = claim" using start by (simp_all add: cycleStart_def)
  have columns: "columnsOf ?d = columnsOf base" using c(1) by simp
  have "soundCommit (cb_Snap b) c"
    using c(1,3) cycleStart_base(2,3) [OF start] by (simp add: soundCommit_def recordable_def columnsOf_def)
  then have "soundCommit (cb_Snap b) (overlaidCommit (cb_In b) ?t c)" by (rule overlaidCommit_sound)
  then have recordable: "recordable (cb_Snap b) (cc_Assessment ?d)"
    using c(3) overlaid_parts [where c = c and inp = "cb_In b" and t = ?t] by (simp add: recordable_def soundCommit_def finalizeCheckpoint_def)
  obtain lc sl where lc: "lc = resolveLifecycle cfg (sn_Situation (cb_In b)) (cb_In b) (BuildSnapshot (od (cb_In b)) (cb_In b)) sl (env_Now env)"
    "cc_Lifecycle ?d = lr_Lifecycle lc" "cc_RecoveryObservedAt ?d = lr_RecoveryObservedAt lc" "cc_GraceUntil ?d = lr_GraceUntil lc"
    "cc_TerminalAt ?d = lr_TerminalAt lc" "cc_TerminalReason ?d = lr_TerminalReason lc"
    "cc_MaterialFactHash ?d = ss_MaterialFactHash (BuildSnapshot (od (cb_In b)) (cb_In b))" "ss_Lifecycle (cb_Snap b) = lr_Lifecycle lc"
    using start columns by (auto simp: cycleStart_def columnsOf_def baseCommit_def)
  have row: "rowReady (sn_Situation (cb_In b))" "operatorReady (cb_In b)" and now: "instantReady (env_Now env)"
    using stored healthy by (simp_all add: storedReady_def healthyCycle_def)
  have "\<not> blank (ss_MaterialFactHash (BuildSnapshot d inp))" for d inp
    unfolding BuildSnapshot_def Let_def split_beta MaterialFactHash_def canonicalDigest_def
    by (simp only: snapshot.select_convs append_Cons append_Nil) (rule not_blank_ascii; simp add: byte_def asciiSpace_def)
  moreover have "lifecycleColumnsOK (lr_Lifecycle lc) (lr_RecoveryObservedAt lc) (lr_GraceUntil lc) (lr_TerminalAt lc) (lr_TerminalReason lc)"
    unfolding lc(1) using resolveLifecycle_columns row(1) by (simp add: rowReady_def resolutionOK_def)
  ultimately have "commitReady b ?d"
    unfolding commitReady_def lc(2-8) unfolding lc(1)
    using recordable resolveLifecycle_utc [OF row(1) now] c(4) basis overlaid_evaluation [OF row(2) c(2)]
    by (simp add: finalizeCheckpoint_def)
  from buildHistory_total [OF this healthy stored cycleStart_base(1) [OF start]]
  obtain h where "buildHistory f cfg (si_InputVersion claim) (cb_In b) (cb_Snap b) (env_Now env) ?d = Inr h" by blast
  with basis healthy show ?thesis by (simp add: commitCycle_def Let_def healthyCycle_def)
qed

lemma commitPreserved_lands:
  assumes start: "cycleStart od cfg env claim b base0 state0" and healthy: "healthyCycle f cfg env claim"
    and stored: "storedReady (env_Now env) (cb_In b)" and state: "stateInUTC state"
    and base: "columnsOf base = columnsOf base0" "cc_ExpectedBehaviorEvaluation base = None"
  shows "snd (commitPreserved f b base (fallbackOrPreserve (env_UUID env AttemptUUID) sid (cb_Snap b) (cb_In b) state epoch attempt (env_Now env))) = None"
proof -
  note snap = cycleStart_base(1) [OF start]
  have now: "tutc (env_Now env)" and uuid: "\<not> blank (env_UUID env AttemptUUID)"
    using healthy by (simp_all add: healthyCycle_def instantReady_def)
  show ?thesis
  proof (cases "revalidatedPreservedAssessment (cb_Snap b) (cb_In b) state (env_Now env)")
    case (Some a)
    then have cur: "sn_CurrentAssessment (cb_In b) \<noteq> None" by (auto simp: revalidatedPreservedAssessment_def split: option.splits)
    have "recordable (cb_Snap b) a" using preserved_recordable [OF snap stored state now Some] .
    then show ?thesis
      using cur base
      by (simp add: commitPreserved_def fallbackOrPreserve_def Some)
         (intro commitCycle_lands [OF start healthy stored]; simp add: finalizeCheckpoint_def attemptReady_def zeroAttempt_def columnsOf_def)
  next
    case None
    have "recordable (cb_Snap b) (ars_Assessment (DeterministicFallback (cb_Snap b) (cb_In b) state (env_Now env)))"
      using fallback_recordable [OF snap state now] .
    then show ?thesis
      using uuid base
      by (simp add: commitPreserved_def fallbackOrPreserve_def None Let_def)
         (intro commitCycle_lands [OF start healthy stored]; auto simp: finalizeCheckpoint_def attemptReady_def columnsOf_def
            buildAuthoritativeAttempt_def DeterministicFallback_def DeterministicAssessment_def DeriveAssessment_def Let_def
            AssessmentDerivation_Validate_def validateEnum_def)
  qed
qed

lemma commitResult_lands:
  assumes start: "cycleStart od cfg env claim b base0 state0" and healthy: "healthyCycle f cfg env claim"
    and stored: "storedReady (env_Now env) (cb_In b)"
    and base: "columnsOf base = columnsOf base0" "cc_ExpectedBehaviorEvaluation base = None"
    and result: "recordable (cb_Snap b) (ars_Assessment result)" "AssessmentDerivation_Validate (ars_Derivation result) = None"
  shows "snd (commitResult f b base result callID epoch attempt dur usage) = None"
proof -
  have env: "cb_Env b = env" using start by (simp add: cycleStart_def)
  have uuid: "\<not> blank (env_UUID env AttemptUUID)" using healthy by (simp add: healthyCycle_def)
  have "snd (commitCycle f b (finalizeCheckpoint (base\<lparr>cc_Attempt := att, cc_Assessment := ars_Assessment result,
      cc_Coverage := cov, cc_Parked := pk, cc_RetryAt := None, cc_LastErrorClass := None\<rparr>) v)) = None"
    if "attemptReady env (cb_In b) att" for att cov pk v
    by (rule commitCycle_lands [OF start healthy stored]) (use that base result in \<open>simp_all add: finalizeCheckpoint_def columnsOf_def\<close>)
  moreover have "attemptReady env (cb_In b) (buildAuthoritativeAttempt (env_UUID env AttemptUUID) sid result callID epoch attempt dur now)"
    "attemptReady env (cb_In b) (setAssessmentUsage (buildAuthoritativeAttempt (env_UUID env AttemptUUID) sid result callID epoch attempt dur now) u)" for sid now u
    using uuid result(2) by (auto simp: attemptReady_def buildAuthoritativeAttempt_def setAssessmentUsage_def Let_def)
  ultimately show ?thesis
    by (auto simp: commitResult_def Let_def split_beta env split: option.split)
qed

lemma retryState_utc: "stateInUTC state \<Longrightarrow> pred_option tutc r \<Longrightarrow> stateInUTC (retryState state r)"
  by (auto simp: retryState_def stateInUTC_def split: option.split)

lemma commitBudgetDeferred_lands:
  assumes start: "cycleStart od cfg env claim b base0 state0" and healthy: "healthyCycle f cfg env claim"
    and stored: "storedReady (env_Now env) (cb_In b)" and state: "stateInUTC state" and retry: "pred_option tutc (cc_RetryAt base)"
    and base: "columnsOf base = columnsOf base0" "cc_ExpectedBehaviorEvaluation base = None"
  shows "snd (commitBudgetDeferred f b base state epoch attempt) = None"
proof -
  have "stateInUTC (retryState (state\<lparr>cst_SemanticRetryAt := None\<rparr>) (cc_RetryAt base))"
    using state retry by (intro retryState_utc) (simp_all add: stateInUTC_def)
  with start show ?thesis
    unfolding commitBudgetDeferred_def
    by (simp add: cycleStart_def) (rule commitPreserved_lands [OF start healthy stored], simp_all add: base)
qed

lemma commitBlocked_lands:
  assumes start: "cycleStart od cfg env claim b base0 state0" and healthy: "healthyCycle f cfg env claim"
    and stored: "storedReady (env_Now env) (cb_In b)" and state: "stateInUTC state"
    and base: "columnsOf base = columnsOf base0" "cc_ExpectedBehaviorEvaluation base = None"
  shows "snd (commitBlocked f b base state) = None"
proof -
  have "stateInUTC (state\<lparr>cst_SemanticRetry := SemanticRetryPhaseBlocked\<rparr>)" using state by (simp add: stateInUTC_def)
  moreover have "cb_Env b = env" using start by (simp add: cycleStart_def)
  ultimately show ?thesis
    by (simp add: commitBlocked_def fallbackOrPreserveBlocked_def commitPreserved_lands [OF start healthy stored _ base])
qed

text \<open>With a store that answers, the dispatch loop ends with a result, whose transport error is a reply of the client.\<close>

lemma dispatchFrom_total:
  assumes "\<forall>n. env_RecordCall env n = None" and "\<forall>n. env_AppendOutcome env n = None"
  shows "\<exists>disp. snd (dispatchFrom cfg env b n res) = Inr disp \<and>
    (dr_transportErr disp = dr_transportErr res \<or> (\<exists>m. dr_transportErr disp = os_Err (env_Complete env m)))"
proof (induction n res rule: dispatch_induct [where cfg = cfg])
  case (call n res)
  have reply: "dr_transportErr (afterReply env b n res) = os_Err (env_Complete env n)" by (simp add: afterReply_def Let_def)
  show ?case
  proof (cases rule: dispatchFrom_cases [where cfg = cfg and env = env and b = b and n = n and res = res])
    case corrected
    with call [of "(afterReply env b n res)\<lparr>dr_correctionUsed := True\<rparr>"] reply show ?thesis by auto
  qed (use assms reply in auto)
qed

lemma dispatchWorkBearing_total:
  assumes "healthyCycle f cfg env claim"
  obtains es disp where "dispatchWorkBearing cfg' env d = (es, Inr disp)"
    "pred_option (\<lambda>e. pred_option (pred_option tutc) (ce_BudgetDeferred e)) (dr_transportErr disp)"
proof -
  from assms have env: "env_PromptError env = None" "\<forall>n. env_RecordCall env n = None" "\<forall>n. env_AppendOutcome env n = None"
    "\<And>n. pred_option (\<lambda>e. pred_option (pred_option tutc) (ce_BudgetDeferred e)) (os_Err (env_Complete env n))"
    by (simp_all add: healthyCycle_def)
  from dispatchFrom_total [OF env(2,3), of cfg' d 1 zeroDispatch]
  obtain disp where disp: "snd (dispatchFrom cfg' env d 1 zeroDispatch) = Inr disp"
    "dr_transportErr disp = None \<or> (\<exists>m. dr_transportErr disp = os_Err (env_Complete env m))" by (auto simp: zeroDispatch_def)
  have "dispatchWorkBearing cfg' env d = (fst (dispatchFrom cfg' env d 1 zeroDispatch), Inr disp)"
    using env(1) disp(1) by (simp add: dispatchWorkBearing_def prod_eq_iff)
  moreover have "pred_option (\<lambda>e. pred_option (pred_option tutc) (ce_BudgetDeferred e)) (dr_transportErr disp)"
    using disp(2) env(4) by auto
  ultimately show thesis by (rule that)
qed

lemma commitDispatched_lands:
  assumes start: "cycleStart od cfg env claim b base0 state0" and healthy: "healthyCycle f cfg env claim"
    and stored: "storedReady (env_Now env) (cb_In b)" and state: "stateInUTC state"
    and base: "columnsOf base = columnsOf base0" "cc_ExpectedBehaviorEvaluation base = None" "cc_RetryAt base = None"
    and proposal: "pred_option (\<lambda>p. usableProposal (cb_Snap b) p \<and> pred_option recordableReason (ap_SufficientReason p)) (dr_proposal disp)"
    and deferral: "pred_option (\<lambda>e. pred_option (pred_option tutc) (ce_BudgetDeferred e)) (dr_transportErr disp)"
  shows "snd (commitDispatched f b base state epoch attempt disp) = None"
proof -
  have env: "cb_Env b = env" "tutc (env_Now env)"
    using start healthy by (simp_all add: cycleStart_def healthyCycle_def instantReady_def)
  show ?thesis
  proof (cases "dr_proposal disp")
    case (Some p)
    then have "recordable (cb_Snap b) (ars_Assessment (DeriveAssessment p (cb_Snap b) (cb_In b) state DerivationModelValidated None (env_Now env)))"
      using proposal state env(2) by (intro DeriveAssessment_recordable) simp_all
    with Some env(1) show ?thesis
      by (simp add: commitDispatched_def Let_def)
         (intro commitResult_lands [OF start healthy stored base(1,2)],
          simp_all add: DeriveAssessment_def Let_def AssessmentDerivation_Validate_def validateEnum_def)
  next
    case None
    show ?thesis
    proof (cases "dr_budgetDeniedBeforeDispatch disp")
      case True
      have "pred_option tutc (case dr_transportErr disp of None \<Rightarrow> cc_RetryAt base
          | Some e \<Rightarrow> (case ce_BudgetDeferred e of None \<Rightarrow> cc_RetryAt base | Some t \<Rightarrow> t))"
        using deferral base(3) by (auto simp: pred_option_iff split: option.split)
      with None True env show ?thesis
        by (simp add: commitDispatched_def Let_def)
           (intro commitBudgetDeferred_lands [OF start healthy stored state], simp_all add: base)
    next
      case False
      have "pred_option tutc (cc_RetryAt (settleFailure b base policy n))" "cc_ExpectedBehaviorEvaluation (settleFailure b base policy n) = None" for policy n
        using base(2,3) env by (simp_all add: settleFailure_def Let_def)
      with None False env show ?thesis
        by (simp add: commitDispatched_def Let_def)
           (intro commitPreserved_lands [OF start healthy stored retryState_utc [OF state]], simp_all add: base)
    qed
  qed
qed

lemma workBearing_lands:
  assumes start: "cycleStart od cfg env claim b base state" and healthy: "healthyCycle f cfg env claim"
    and stored: "storedReady (env_Now env) (cb_In b)" and state: "stateInUTC state"
  shows "snd (workBearing f b base state) = None"
proof -
  have env: "cb_Env b = env" and base: "cc_ExpectedBehaviorEvaluation base = None" "cc_RetryAt base = None"
    using start by (auto simp: cycleStart_def baseCommit_def)
  show ?thesis
  proof (cases "env_BeginAttempt env")
    case (Inl failure)
    with healthy have "failure = AttemptsExhausted" by (cases failure) (simp_all add: healthyCycle_def)
    with Inl env base show ?thesis
      by (simp add: workBearing_def Let_def commitBlocked_lands [OF start healthy stored state])
  next
    case (Inr x)
    obtain epoch attempt where x: "x = (epoch, attempt)" by (cases x)
    let ?d = "\<lparr>db_SituationID = si_ID (cb_Claim b), db_Snapshot = cb_Snap b, db_RetryEpoch = epoch, db_WorkAttempt = attempt\<rparr>"
    obtain es disp where d: "dispatchWorkBearing (cb_Config b) env ?d = (es, Inr disp)"
      "pred_option (\<lambda>e. pred_option (pred_option tutc) (ce_BudgetDeferred e)) (dr_transportErr disp)"
      by (rule dispatchWorkBearing_total [OF healthy])
    have "pred_option (\<lambda>p. usableProposal (cb_Snap b) p \<and> pred_option recordableReason (ap_SufficientReason p)) (dr_proposal disp)"
    proof (cases "dr_proposal disp")
      case (Some p)
      with dispatchWorkBearing_reply [of "cb_Config b" env ?d disp p] d(1)
      obtain m r where "validatedReply env ?d m = Some r" "accepted (vr_Outcome r)" "vr_Proposal r = Some p" by auto
      with validatedReply_usable [of env ?d] reply_recordable [of od "cb_In b" ?d env] cycleStart_base(1) [OF start] Some show ?thesis by auto
    qed simp
    from commitDispatched_lands [OF start healthy stored state refl base this d(2)] d(1) Inr x env show ?thesis
      by (simp add: workBearing_def Let_def)
  qed
qed

lemma judgeCycle_lands:
  assumes start: "cycleStart od cfg env claim b base state" and healthy: "healthyCycle f cfg env claim"
    and stored: "storedReady (env_Now env) (cb_In b)"
  shows "snd (judgeCycle f b base state) = None"
proof -
  note snap = cycleStart_base(1) [OF start]
  have env: "cb_Env b = env" and base: "cc_ExpectedBehaviorEvaluation base = None"
    using start by (auto simp: cycleStart_def baseCommit_def)
  have now: "instantReady (env_Now env)" "tutc (env_Now env)" using healthy by (simp_all add: healthyCycle_def instantReady_def)
  have row: "rowReady (sn_Situation (cb_In b))" "pred_option tutc (si_RetryAt (sn_Situation (cb_In b)))"
    using stored by (simp_all add: storedReady_def rowReady_def)
  have "ss_Incidents (BuildSnapshot d inp) = sortIncidentsByID (sn_Incidents inp)" for d inp
    by (simp add: BuildSnapshot_def Let_def split_beta)
  with snap have incidents: "ss_Incidents (cb_Snap b) = sortIncidentsByID (sn_Incidents (cb_In b))" by (auto simp: cycleSnapshot_def)
  obtain lc td where "state = buildControllerState cfg (cb_Snap b) (cb_In b) lc td (env_Now env)" "pred_option tutc (lr_GraceUntil lc)"
    using start resolveLifecycle_utc(2) [OF row(1) now(1)] unfolding cycleStart_def by blast
  with buildControllerState_utc [OF stored now(1) _ incidents] have state: "stateInUTC state" by simp
  have reuse: "snd (commitResult f b base result None 0 1 0 None) = None"
    if "sn_CurrentAssessment (cb_In b) = Some cur" "RevalidateReuse cur (cb_Snap b) (cb_In b) state (env_Now env) = Inr result" for cur result
    using reuse_recordable [OF snap stored state now(2) that] base
    by (intro commitResult_lands [OF start healthy stored]) (simp_all add: AssessmentDerivation_Validate_def validateEnum_def)
  have deferred: "snd (commitBudgetDeferred f b (base\<lparr>cc_RetryAt := si_RetryAt (sn_Situation (cb_In b))\<rparr>) state 0 1) = None"
    by (rule commitBudgetDeferred_lands [OF start healthy stored state]) (use row(2) base in simp_all)
  show ?thesis
    using reuse deferred workBearing_lands [OF start healthy stored state] commitBlocked_lands [OF start healthy stored state refl base]
    by (auto simp: judgeCycle_def Let_def env split: sum.split option.split)
qed

text \<open>The judging part alone cannot fail, so neither can a cycle whose loads and preparations succeed.\<close>

lemma projectCycle_lands:
  assumes "healthyCycle f cfg env claim" and "storedReady (env_Now env) inp"
  shows "snd (projectCycle f od cfg env claim inp sl) = None"
proof -
  have "env_AppendFacts env = None" using assms(1) by (simp add: healthyCycle_def)
  moreover have "snd (judgeCycle f \<lparr>cb_Config = cfg, cb_Env = env, cb_Claim = claim, cb_In = inp, cb_Snap = snap\<rparr>
      (baseCommit claim inp snap lc td) (buildControllerState cfg snap inp lc td (env_Now env))) = None"
    if "lc = resolveLifecycle cfg (sn_Situation inp) inp (BuildSnapshot (od inp) inp) sl (env_Now env)"
      "snap = (BuildSnapshot (od inp) inp)\<lparr>ss_Lifecycle := lr_Lifecycle lc\<rparr>" "td = DecideTriage snap inp (env_Now env)" for lc snap td
    by (rule judgeCycle_lands [OF _ assms(1)]) (use that assms(2) in \<open>auto simp: cycleStart_def\<close>)
  ultimately show ?thesis by (simp add: projectCycle_def Let_def)
qed

lemma reconcile_lands:
  assumes "healthyCycle f cfg env claim"
  shows "snd (reconcile f od cfg env claim) = None"
proof -
  have load: "\<exists>inp. env_Load env n = Inr inp \<and> storedReady (env_Now env) inp" for n
    using assms by (simp add: healthyCycle_def)
  have prepare: "pred_option (\<lambda>prepare. \<forall>phase. prepare phase = None) (env_Preparer env)" using assms by (simp add: healthyCycle_def)
  obtain i1 i2 where reload: "env_Load env 1 = Inr i1" "storedReady (env_Now env) i1" "env_Load env 2 = Inr i2" "storedReady (env_Now env) i2"
    using load by metis
  have prepared: "\<exists>es inp'. prepareLifecyclePhase env inp = (es, Inr inp') \<and> storedReady (env_Now env) inp'"
    "\<exists>es inp' sl'. prepareAssessmentPhaseIfActive cfg env inp sl = (es, Inr (inp', sl')) \<and> storedReady (env_Now env) inp'"
    if "storedReady (env_Now env) inp" for inp sl
    using that prepare reload
    by (auto simp: prepareLifecyclePhase_def prepareAssessmentPhaseIfActive_def split: option.split)
  obtain loaded where "env_Load env 0 = Inr loaded" "storedReady (env_Now env) loaded" using load by blast
  with prepared(1) [of loaded] obtain es inp where "env_Load env 0 = Inr loaded" "prepareLifecyclePhase env loaded = (es, Inr inp)"
    "storedReady (env_Now env) inp" by blast
  with prepared(2) [of inp "reduceSourceLifecycle cfg inp (env_Now env)"] projectCycle_lands [OF assms] show ?thesis
    by (auto simp: reconcile_def)
qed

end
