(* ===== verification/Reconcile_Properties.thy ===== *)
theory Reconcile_Properties
  imports Reconcile_Landing Samples
begin

text \<open>
  Properties of a whole reconciliation cycle, for every answer of the store, the evidence preparer and the model client.
\<close>

section \<open>Samples\<close>

definition sampleUsage :: completionUsage where
  "sampleUsage = \<lparr>cu_InputTokens = 10, cu_OutputTokens = 5, cu_CacheCreationInputTokens = 0, cu_CacheReadInputTokens = 0\<rparr>"

definition sampleReply :: oneShotCompletion where
  "sampleReply = \<lparr>os_Err = None, os_Keys = None, os_Decoded = Inr (sampleProposal AttentionObserve),
     os_RequestStarted = ProviderRequestStartedTrue, os_Latency = second, os_Usage = sampleUsage\<rparr>"

definition sampleEnv :: "snapshotInput \<Rightarrow> controllerEnv" where
  "sampleEnv inp = \<lparr>env_Now = sampleTime 200, env_CheckedAt = sampleTime 201, env_Draw = 0,
     env_UUID = (\<lambda>u. case u of CallUUID n \<Rightarrow> ''call'' | OutcomeUUID n \<Rightarrow> ''outcome'' | AttemptUUID \<Rightarrow> ''attempt''),
     env_Load = (\<lambda>n. Inr inp), env_Preparer = None, env_AppendFacts = None, env_BeginAttempt = Inr (0, 1),
     env_PromptError = None, env_RecordCall = (\<lambda>n. None), env_Complete = (\<lambda>n. sampleReply),
     env_AppendOutcome = (\<lambda>n. None), env_Commit = None, env_AppendStale = None\<rparr>"

definition sampleActive :: snapshotInput where
  "sampleActive = sampleInput [] (sampleSituation LifecycleActive None None)
     [sampleDelivery ''d1'' ''a1'' DeliveryStatusFiring 110] [] None"


lemma sampleActive_ok: "situationRowOK (sn_Situation sampleActive)"
  by (simp add: sampleActive_def sample_defs situationRowOK_def lifecycleColumnsOK_def)

lemma sampleConfig_calls: "1 \<le> ccf_MaxL2CallsPerAttempt (ControllerConfig_withDefaults cfg)"
  by (simp add: ControllerConfig_withDefaults_def)

lemma firstCall_sent:
  assumes "1 \<le> ccf_MaxL2CallsPerAttempt cfg" and "env_RecordCall env 1 = None" and "env_PromptError env = None"
  shows "RequestedCompletion (acl_ID (callOf env b 1)) \<in> set (fst (dispatchWorkBearing cfg env b))"
  using assms by (cases rule: dispatchFrom_cases [where cfg = cfg and env = env and b = b and n = 1 and res = zeroDispatch])
    (auto simp: dispatchWorkBearing_def sentCall_def failedCall_def)

lemma sampleActive_calls:
  "RequestedCompletion ''call'' \<in> set (fst (reconcile f od (ControllerConfig_withDefaults cfg) (sampleEnv sampleActive) claim))"
proof -
  let ?cfg = "ControllerConfig_withDefaults cfg"
  have "RequestedCompletion ''call'' \<in> set (fst (dispatchWorkBearing ?cfg (sampleEnv sampleActive) d))" for d
    using firstCall_sent [OF sampleConfig_calls, of "sampleEnv sampleActive" d cfg] by (simp add: sampleEnv_def callOf_def)
  then have "RequestedCompletion ''call'' \<in> set (fst (workBearing f \<lparr>cb_Config = ?cfg, cb_Env = sampleEnv sampleActive,
      cb_Claim = claim, cb_In = sampleActive, cb_Snap = snap\<rparr> base state))" for snap base state
    by (simp add: workBearing_def Let_def sampleEnv_def split: prod.split sum.split) (metis fst_conv)
  then show ?thesis
    by (simp add: reconcile_def sampleEnv_def prepareLifecyclePhase_def prepareAssessmentPhaseIfActive_def projectCycle_def
        Let_def judgeCycle_def sampleActive_def sampleInput_def controllerParkBlocksDispatch_def ParkedReasonBudget_def
        ParkedReasonPolicyRejected_def ParkedReasonCapabilityRejected_def)
qed

lemma not_blank_samples: "\<not> blank ''id''" "\<not> blank ''sit-1''" "\<not> blank ''attempt''"
  by (rule not_blank_ascii; simp add: byte_def asciiSpace_def)+

lemma sampleActive_stored: "storedReady (sampleTime 200) sampleActive"
  using sampleActive_ok not_blank_samples
  by (simp add: storedReady_def rowReady_def ledgerReady_def operatorReady_def sampleActive_def sample_defs boundedID_def
      maxIdentifierLength_def instantReady_def tIsZero_def tutc_def utcAt_def second_def coverageLimitationsOf_def ProjectObservations_def)

lemma sampleActive_healthy: "healthyCycle (\<lambda>k. ''id'') sampleConfig (sampleEnv sampleActive) (sn_Situation sampleActive)"
proof -
  have "instantReady (sampleTime 200)" by (simp add: instantReady_def tIsZero_def sampleTime_def utcAt_def second_def tutc_def)
  moreover have "1 \<le> si_InputVersion (sn_Situation sampleActive)" by (simp add: sampleActive_def sample_defs)
  moreover have "ccf_SlackFloor sampleConfig = InterruptionPriorityOther [] \<or> InterruptionPriority_Validate (ccf_SlackFloor sampleConfig) = None"
    "0 \<le> ccf_RepageCooldown sampleConfig"
    by (simp_all add: sampleConfig_def ControllerConfig_withDefaults_def InterruptionPriority_Validate_def validateEnum_def minute_def second_def)
  ultimately show ?thesis
    using sampleActive_stored not_blank_samples
    by (simp add: healthyCycle_def sampleEnv_def sampleReply_def boundedID_def maxIdentifierLength_def)
qed

section \<open>Commits\<close>

text \<open>
  C4. A cycle commits at most once, and it reports success exactly when its commit landed in the store.
\<close>

theorem cycle_settles_once:
  "commitCount (fst (reconcile f od cfg env claim)) \<le> 1 \<and>
   (snd (reconcile f od cfg env claim) = None \<longleftrightarrow> (\<exists>c. Committed c None \<in> set (fst (reconcile f od cfg env claim))))"
  using settled.reconcile_law [OF judgeCycle_settled, of f od cfg env claim]
  by (simp add: settledOnce_def landed_def)

text \<open>
  C2. A cycle over well-formed rows of an open Situation, with a store and a preparer that answer, always lands a commit, whatever the
  model replies: no reply, no outcome of the judgment and no recorded history makes the derivation of the new history fail.
\<close>

theorem healthy_cycle_lands:
  assumes "healthyCycle f cfg env claim"
  shows "snd (reconcile f od cfg env claim) = None \<and> (\<exists>c. Committed c None \<in> set (fst (reconcile f od cfg env claim)))"
  using reconcile_lands [OF assms, of od] settled.reconcile_law [OF judgeCycle_settled, of f od cfg env claim]
  by (simp add: settledOnce_def landed_def)

theorem healthy_cycle_lands_witness:
  "healthyCycle (\<lambda>k. ''id'') sampleConfig (sampleEnv sampleActive) (sn_Situation sampleActive) \<and>
   (\<exists>c. Committed c None \<in> set (fst (reconcile (\<lambda>k. ''id'') (\<lambda>inp. []) sampleConfig (sampleEnv sampleActive) (sn_Situation sampleActive))))"
  using sampleActive_healthy healthy_cycle_lands [OF sampleActive_healthy] by blast

text \<open>
  C3. When the rows the store loads satisfy the table's constraints, so do the columns of every commit of a cycle, and
  whichever way the cycle went (model, reuse, fallback, preservation, overlays) its Assessment is well formed, of the
  committed lifecycle, with the committed attention, and urgent exactly when a deterministic reason of the commit demands it.
\<close>

theorem commits_are_sound:
  assumes "\<And>n inp. env_Load env n = Inr inp \<Longrightarrow> situationRowOK (sn_Situation inp)"
  shows "commitsSatisfy (\<lambda>c. lifecycleColumnsOK (cc_Lifecycle c) (cc_RecoveryObservedAt c) (cc_GraceUntil c) (cc_TerminalAt c)
      (cc_TerminalReason c) \<and> Assessment_ValidateShape (cc_Assessment c) = None \<and>
      as_Lifecycle (cc_Assessment c) = cc_Lifecycle c \<and> cc_Attention c = as_Attention (cc_Assessment c) \<and>
      (cc_Attention c = AttentionUrgent \<longleftrightarrow> hasDeterministicFloor (cc_EligibleReasons c)))
    (reconcile f od cfg env claim)"
proof (rule commits.reconcile_law)
  fix b base state
  assume start: "cycleStart od cfg env claim b base state" and load: "\<exists>n. env_Load env n = Inr (cb_In b)"
  from load assms have row: "situationRowOK (sn_Situation (cb_In b))" by blast
  have sound: "lifecycleColumnsOK (cc_Lifecycle c) (cc_RecoveryObservedAt c) (cc_GraceUntil c) (cc_TerminalAt c)
      (cc_TerminalReason c) \<and> Assessment_ValidateShape (cc_Assessment c) = None \<and>
      as_Lifecycle (cc_Assessment c) = cc_Lifecycle c \<and> cc_Attention c = as_Attention (cc_Assessment c) \<and>
      (cc_Attention c = AttentionUrgent \<longleftrightarrow> hasDeterministicFloor (cc_EligibleReasons c))"
    if "projectedFrom od cfg (env_Now env) (cb_In b) c" and "deliveredCommit (cb_Snap b) c" for c
  proof -
    from that(1) have columns: "lifecycleColumnsOK (cc_Lifecycle c) (cc_RecoveryObservedAt c) (cc_GraceUntil c)
        (cc_TerminalAt c) (cc_TerminalReason c)"
      using resolveLifecycle_columns [OF row] by (auto simp: projectedFrom_def Let_def resolutionOK_def)
    then have "Lifecycle_Validate (cc_Lifecycle c) = None"
      by (auto simp: lifecycleColumnsOK_def Lifecycle_Validate_def validateEnum_def)
    with columns that(2) show ?thesis by (auto simp: deliveredCommit_def soundCommit_def groundedAssessment_def)
  qed
  show "commitsSatisfy (\<lambda>c. lifecycleColumnsOK (cc_Lifecycle c) (cc_RecoveryObservedAt c) (cc_GraceUntil c) (cc_TerminalAt c)
      (cc_TerminalReason c) \<and> Assessment_ValidateShape (cc_Assessment c) = None \<and>
      as_Lifecycle (cc_Assessment c) = cc_Lifecycle c \<and> cc_Attention c = as_Attention (cc_Assessment c) \<and>
      (cc_Attention c = AttentionUrgent \<longleftrightarrow> hasDeterministicFloor (cc_EligibleReasons c))) (judgeCycle f b base state)"
    using judgeCycle_projected [OF start, of f] judgeCycle_delivered [OF start, of f] sound
    unfolding commitsSatisfy_def by blast
qed

theorem commits_are_sound_witness:
  "situationRowOK (sn_Situation sampleActive) \<and>
   commitsSatisfy (\<lambda>c. lifecycleColumnsOK (cc_Lifecycle c) (cc_RecoveryObservedAt c) (cc_GraceUntil c) (cc_TerminalAt c)
      (cc_TerminalReason c) \<and> Assessment_ValidateShape (cc_Assessment c) = None \<and>
      as_Lifecycle (cc_Assessment c) = cc_Lifecycle c \<and> cc_Attention c = as_Attention (cc_Assessment c) \<and>
      (cc_Attention c = AttentionUrgent \<longleftrightarrow> hasDeterministicFloor (cc_EligibleReasons c)))
    (reconcile id (\<lambda>inp. []) sampleConfig (sampleEnv sampleActive) (sn_Situation sampleActive))"
  by (rule conjI [OF sampleActive_ok], rule commits_are_sound) (use sampleActive_ok in \<open>simp add: sampleEnv_def\<close>)

section \<open>Calls\<close>

text \<open>
  C5. A cycle asks the model at most twice, and never more often than its configuration allows, whatever the model answers.
\<close>

theorem model_calls_bounded:
  "callCount (fst (reconcile f od cfg env claim)) \<le> 2 \<and>
   int (callCount (fst (reconcile f od cfg env claim))) \<le> max 0 (ccf_MaxL2CallsPerAttempt cfg)"
proof -
  have "callsWithin cfg (reconcile f od cfg env claim)"
    by (rule calls.reconcile_law) (auto simp: cycleStart_def intro!: judgeCycle_calls)
  then show ?thesis by (simp add: callsWithin_def)
qed

text \<open>
  C6. No call to the model is lost: every call a cycle sent has a call row the store took, and an outcome row naming the call was
  written, or the Attempt that carries its result landed.  There is one exception: the store refused the outcome row; then the cycle
  ends in an error and lands no commit, and the call row without an outcome is what the crash recovery finds.
\<close>

theorem calls_accounted:
  assumes "RequestedCompletion i \<in> set (fst (reconcile f od cfg env claim))"
  shows "(\<exists>call. RecordedCall call None \<in> set (fst (reconcile f od cfg env claim)) \<and> acl_ID call = i) \<and>
    ((\<exists>a. AppendedOutcome a None \<in> set (fst (reconcile f od cfg env claim)) \<and> aat_CallID a = Some i) \<or>
     (\<exists>c. Committed c None \<in> set (fst (reconcile f od cfg env claim)) \<and> aat_CallID (cc_Attempt c) = Some i) \<or>
     (\<exists>a e. AppendedOutcome a (Some e) \<in> set (fst (reconcile f od cfg env claim)) \<and> aat_CallID a = Some i) \<and>
     snd (reconcile f od cfg env claim) \<noteq> None \<and> (\<nexists>c. Committed c None \<in> set (fst (reconcile f od cfg env claim))))"
  using accounted.reconcile_law [OF judgeCycle_accounted, of f od cfg env claim]
    settled.reconcile_law [OF judgeCycle_settled, of f od cfg env claim] assms
  unfolding callsAccounted_def callRecorded_def outcomeWritten_def outcomeRefused_def resultLanded_def settledOnce_def landed_def
  by blast

theorem calls_accounted_witness:
  "RequestedCompletion ''call'' \<in> set (fst (reconcile id (\<lambda>inp. []) (ControllerConfig_withDefaults sampleConfig)
     (sampleEnv sampleActive) (sn_Situation sampleActive))) \<and>
   (\<exists>call. RecordedCall call None \<in> set (fst (reconcile id (\<lambda>inp. []) (ControllerConfig_withDefaults sampleConfig)
     (sampleEnv sampleActive) (sn_Situation sampleActive))) \<and> acl_ID call = ''call'')"
  using sampleActive_calls calls_accounted [OF sampleActive_calls] by blast

text \<open>
  C7. After a call to the model the commit of the cycle is conclusive: it carries the result of a call and clears retry and park, or it is
  parked for a named reason, or the work is due again strictly later.
\<close>

theorem failed_work_is_settled:
  assumes "RequestedCompletion i \<in> set (fst (reconcile f od (ControllerConfig_withDefaults cfg) env claim))"
  shows "commitsSatisfy (\<lambda>c.
      if aat_CallID (cc_Attempt c) \<noteq> None then cc_RetryAt c = None \<and> pks_Reason (cc_Parked c) = []
      else if pks_Reason (cc_Parked c) = [] then \<exists>t. cc_RetryAt c = Some t \<and> tns (env_Now env) < tns t
      else pks_Touch (cc_Parked c))
    (reconcile f od (ControllerConfig_withDefaults cfg) env claim)"
proof -
  have "workConcluded (env_Now env) (reconcile f od (ControllerConfig_withDefaults cfg) env claim)"
  proof (rule concluded.reconcile_law)
    fix b base state assume start: "cycleStart od (ControllerConfig_withDefaults cfg) env claim b base state"
    then have "cb_Config b = ControllerConfig_withDefaults cfg" "cb_Env b = env" by (simp_all add: cycleStart_def)
    with judgeCycle_concluded [OF cycleStart_base(4) [OF start], of b f state] withDefaults_retry
    show "workConcluded (env_Now env) (judgeCycle f b base state)" by simp
  qed
  with assms have "commitsSatisfy (workSettled (env_Now env)) (reconcile f od (ControllerConfig_withDefaults cfg) env claim)"
    by (auto simp: workConcluded_def)
  then show ?thesis unfolding commitsSatisfy_def workSettled_def by (metis (no_types, lifting))
qed

theorem failed_work_is_settled_witness:
  "RequestedCompletion ''call'' \<in> set (fst (reconcile id (\<lambda>inp. []) (ControllerConfig_withDefaults sampleConfig)
     (sampleEnv sampleActive) (sn_Situation sampleActive))) \<and>
   commitsSatisfy (\<lambda>c.
      if aat_CallID (cc_Attempt c) \<noteq> None then cc_RetryAt c = None \<and> pks_Reason (cc_Parked c) = []
      else if pks_Reason (cc_Parked c) = [] then \<exists>t. cc_RetryAt c = Some t \<and> tns (env_Now (sampleEnv sampleActive)) < tns t
      else pks_Touch (cc_Parked c))
    (reconcile id (\<lambda>inp. []) (ControllerConfig_withDefaults sampleConfig) (sampleEnv sampleActive) (sn_Situation sampleActive))"
  using sampleActive_calls failed_work_is_settled [OF sampleActive_calls] by (rule conjI)

section \<open>Parks\<close>










end
