(* ===== verification/Observation_Plan.thy ===== *)
theory Observation_Plan
  imports Facts Briefing_Encoding
begin

text \<open>
  Package \<^verbatim>\<open>internal/observation\<close>: the fair allocation of one preparation cycle (\<^verbatim>\<open>budget.go\<close>) and the construction of
  its frozen plans (\<^verbatim>\<open>planner.go\<close>).  The planner ranges over the map of enabled capabilities, whose order is not fixed;
  \<open>plansOver\<close> takes that order as an argument.
\<close>

section \<open>Tiers and allocations\<close>

definition MaxPlansPerCycle :: nat where "MaxPlansPerCycle = 16"

definition TierTimeSensitive :: string where "TierTimeSensitive = ''time_sensitive''"
definition TierOptional :: string where "TierOptional = ''optional''"
definition TierRoutine :: string where "TierRoutine = ''routine''"
definition TierLocal :: string where "TierLocal = ''local''"

lemmas tier_defs = TierTimeSensitive_def TierOptional_def TierRoutine_def TierLocal_def TierReuse_def

record phaseAllocation =
  pa_TimeSensitiveRequests :: int
  pa_RoutineLifecycleRequests :: int
  pa_OptionalRequests :: int
  pa_OptionalPlanID :: string
  pa_OptionalWallMilliseconds :: int
  pa_Deferred :: "string list"

record candidate =
  cd_Subject :: string
  cd_Capability :: capability
  cd_Scope :: scope
  cd_Phase :: string
  cd_Start :: gtime
  cd_End :: gtime
  cd_Limit :: int
  cd_MaxRequests :: int
  cd_Purpose :: string
  cd_Parameters :: string
  cd_TimeSensitive :: bool
  cd_Deadline :: gtime
  cd_LastServedAt :: gtime
  cd_Optional :: bool
  cd_Tier :: string
  cd_ReuseRunID :: string

record allocation =
  al_PhaseAllocation :: phaseAllocation
  al_Admitted :: "candidate list"
  al_Deferred :: "candidate list"

section \<open>Fair allocation\<close>

definition optionalRequestCreditCost :: int where "optionalRequestCreditCost = 3"

definition candidateKey :: "candidate \<Rightarrow> string" where
  "candidateKey c = cd_Capability c @ '':'' @ cd_Subject c"

definition sortByDeadlineThenLastServed :: "candidate list \<Rightarrow> candidate list" where
  "sortByDeadlineThenLastServed = sort_key (\<lambda>c. (tns (cd_Deadline c), tns (cd_LastServedAt c), candidateKey c))"

definition sortByLastServed :: "candidate list \<Rightarrow> candidate list" where
  "sortByLastServed = sort_key (\<lambda>c. (tns (cd_LastServedAt c), candidateKey c))"

text \<open>There are two phases, so the comparison of the code orders lifecycle reads first.\<close>

definition sortRoutineByPhaseThenLastServed :: "candidate list \<Rightarrow> candidate list" where
  "sortRoutineByPhaseThenLastServed =
     sort_key (\<lambda>c. (if cd_Phase c = PhaseLifecycle then 0 else 1 :: nat, tns (cd_LastServedAt c), candidateKey c))"

text \<open>The three loops: admitted and deferred candidates.\<close>

fun admitTimeSensitive :: "int \<Rightarrow> int \<Rightarrow> candidate list \<Rightarrow> candidate list \<times> candidate list" where
  "admitTimeSensitive cycleCap used [] = ([], [])"
| "admitTimeSensitive cycleCap used (c # cs) =
     (if used + cd_MaxRequests c > cycleCap
      then let r = admitTimeSensitive cycleCap used cs in (fst r, c # snd r)
      else let r = admitTimeSensitive cycleCap (used + cd_MaxRequests c) cs in (c # fst r, snd r))"

fun admitOptional :: "int \<Rightarrow> int \<Rightarrow> candidate list \<Rightarrow> candidate option \<times> candidate list" where
  "admitOptional remaining affordable [] = (None, [])"
| "admitOptional remaining affordable (c # cs) =
     (if cd_MaxRequests c \<le> remaining \<and> cd_MaxRequests c \<le> affordable then (Some c, cs)
      else let r = admitOptional remaining affordable cs in (fst r, c # snd r))"

fun admitRoutine :: "int \<Rightarrow> candidate list \<Rightarrow> candidate list \<times> candidate list" where
  "admitRoutine remaining [] = ([], [])"
| "admitRoutine remaining (c # cs) =
     (if remaining \<le> 0 \<or> cd_MaxRequests c > remaining
      then let r = admitRoutine remaining cs in (fst r, c # snd r)
      else let r = admitRoutine (remaining - cd_MaxRequests c) cs in (c # fst r, snd r))"

definition requestsOf :: "candidate list \<Rightarrow> int" where
  "requestsOf cs = sum_list (map cd_MaxRequests cs)"

text \<open>Integer division truncates towards zero.\<close>

definition affordableRequests :: "int \<Rightarrow> int" where
  "affordableRequests credit = sgn credit * (\<bar>credit\<bar> div optionalRequestCreditCost)"

definition allocateFairly ::
  "int \<Rightarrow> int \<Rightarrow> candidate list \<Rightarrow> candidate list \<Rightarrow> candidate list \<Rightarrow> allocation" where
  "allocateFairly cycleCap credit timeSensitive optional routine =
     (let (tsAdmitted, tsDeferred) = admitTimeSensitive cycleCap 0 (sortByDeadlineThenLastServed timeSensitive);
          tsUsed = requestsOf tsAdmitted;
          (opt, optDeferred) = admitOptional (cycleCap - tsUsed) (affordableRequests credit) (sortByLastServed optional);
          optAdmitted = (case opt of None \<Rightarrow> [] | Some c \<Rightarrow> [c]);
          (rtAdmitted, rtDeferred) =
            admitRoutine (cycleCap - tsUsed - requestsOf optAdmitted) (sortRoutineByPhaseThenLastServed routine)
      in \<lparr>al_PhaseAllocation =
            \<lparr>pa_TimeSensitiveRequests = tsUsed, pa_RoutineLifecycleRequests = requestsOf rtAdmitted,
             pa_OptionalRequests = requestsOf optAdmitted,
             pa_OptionalPlanID = (case opt of None \<Rightarrow> [] | Some c \<Rightarrow> candidateKey c),
             pa_OptionalWallMilliseconds = 0, pa_Deferred = []\<rparr>,
          al_Admitted = tsAdmitted @ optAdmitted @ rtAdmitted,
          al_Deferred = tsDeferred @ optDeferred @ rtDeferred\<rparr>)"

definition AccrualDue :: "gtime option \<Rightarrow> gtime \<Rightarrow> duration \<Rightarrow> bool" where
  "AccrualDue lastAccruedAt now refreshInterval =
     (case lastAccruedAt of None \<Rightarrow> True | Some t \<Rightarrow> \<not> tBefore now (tAdd t refreshInterval))"

section \<open>The planner's input\<close>

record memberSubject =
  ms_SubjectID :: string
  ms_Source :: string
  ms_SourceInstanceID :: "string option"
  ms_Labels :: labels
  ms_SelectorLabels :: labels
  ms_ObservationDeadlineAt :: gtime
  ms_RecoveryGraceUntil :: "gtime option"
  ms_Firing :: bool

record capabilityDescriptor =
  cpd_Capability :: capability
  cpd_DefaultWindow :: duration
  cpd_DefaultLimit :: int
  cpd_MaxRequestsHint :: int

record refreshCursor =
  rf_Subject :: string
  rf_Capability :: capability
  rf_ScopeDigest :: string
  rf_NextRefreshAt :: gtime
  rf_LastRunID :: string

record plannerInput =
  pn_Anchor :: gtime
  pn_GroupKey :: string
  pn_SituationID :: string
  pn_Phase :: string
  pn_Members :: "memberSubject list"
  pn_Configured :: "capabilityDescriptor list"
  pn_ProfileGuidance :: "profileGuidance list"
  pn_RefreshCursors :: "refreshCursor list"
  pn_CycleCap :: int
  pn_InvestigationCredit :: int
  pn_RecoveryPending :: bool
  pn_RefreshInterval :: duration
  pn_PreparationWall :: duration

definition lifecycleCapabilities :: "capability \<Rightarrow> bool" where
  "lifecycleCapabilities c \<longleftrightarrow> c = CapabilityStoreRead \<or> c = CapabilityZabbixProblemHist"

definition PhaseForCapability :: "capability \<Rightarrow> string" where
  "PhaseForCapability c = (if lifecycleCapabilities c then PhaseLifecycle else PhaseAssessment)"

definition groupSubject :: "string \<Rightarrow> string" where
  "groupSubject groupKey = ''group:'' @ groupKey"

definition suggestedCapabilities :: "profileGuidance list \<Rightarrow> capability \<Rightarrow> bool" where
  "suggestedCapabilities guidance c = list_ex (\<lambda>g. c \<in> set (pg_UsefulCapabilities g)) guidance"

text \<open>\<^verbatim>\<open>memberTimeSensitivity\<close>: the earliest checkpoint of a member, and whether the next refresh would miss it.\<close>

definition earliestCheckpoint :: "memberSubject \<Rightarrow> gtime" where
  "earliestCheckpoint m =
     foldl (\<lambda>earliest t. if tIsZero t then earliest
        else if tIsZero earliest \<or> tBefore t earliest then t else earliest) zeroTime
       (ms_ObservationDeadlineAt m # (case ms_RecoveryGraceUntil m of None \<Rightarrow> [] | Some t \<Rightarrow> [t]))"

definition memberTimeSensitivity :: "memberSubject \<Rightarrow> gtime \<Rightarrow> duration \<Rightarrow> bool \<times> gtime" where
  "memberTimeSensitivity m anchor refreshInterval =
     (let earliest = earliestCheckpoint m in
      if tIsZero earliest then (False, zeroTime)
      else (\<not> tBefore (tAdd anchor (max 0 refreshInterval)) earliest, earliest))"

section \<open>Candidates\<close>

definition plannerWindowCap :: "capability \<Rightarrow> duration option" where
  "plannerWindowCap c =
     (if c \<in> {CapabilityPrometheusQuery, CapabilityLokiQuery, CapabilityZabbixMetricRange}
      then Some (MaxWindowHoursMetricsLogs * hour)
      else if c \<in> {CapabilityZabbixProblemHist, CapabilityChangeEvents, CapabilitySentryIssues}
      then Some (MaxWindowDaysHistory * 24 * hour)
      else None)"

definition firstLabel :: "labels \<Rightarrow> string list \<Rightarrow> string" where
  "firstLabel ls keys = (case find (\<lambda>k. labelAt ls k \<noteq> []) keys of None \<Rightarrow> [] | Some k \<Rightarrow> labelAt ls k)"

definition sentryProjectEnv :: "labels \<Rightarrow> string \<times> string" where
  "sentryProjectEnv ls =
     (firstLabel ls [''service'', ''project'', ''app'', ''job''], firstLabel ls [''environment'', ''env''])"

definition dereferenceString :: "string option \<Rightarrow> string" where
  "dereferenceString v = (case v of None \<Rightarrow> [] | Some s \<Rightarrow> s)"

text \<open>\<^verbatim>\<open>int(d.Seconds())\<close>.\<close>

definition wholeSeconds :: "duration \<Rightarrow> int" where
  "wholeSeconds d = (let x = durationSeconds d in if 0 \<le> x then \<lfloor>x\<rfloor> else \<lceil>x\<rceil>)"

definition storeReadParameters :: "plannerInput \<Rightarrow> string \<Rightarrow> json" where
  "storeReadParameters inp horizonTier = JObject
     ([(''group_key'', JString (pn_GroupKey inp))] @ jOmitString ''situation_id'' (pn_SituationID inp) @
      jOmitString ''exclude_situation_id'' (pn_SituationID inp) @ jOmitString ''horizon_tier'' horizonTier)"

definition capabilityParameters :: "plannerInput \<Rightarrow> capability \<Rightarrow> memberSubject \<Rightarrow> string \<Rightarrow> string" where
  "capabilityParameters inp c m horizonTier =
     (let lbl = labelAt (ms_Labels m) in
      if c = CapabilityStoreRead then marshal (storeReadParameters inp horizonTier)
      else if c = CapabilityZabbixMetricRange
      then (if lbl ''host'' = [] \<or> lbl ''item_key'' = [] then []
            else marshal (JObject [(''host'', JString (lbl ''host'')), (''item_key'', JString (lbl ''item_key''))]))
      else if c = CapabilityZabbixProblemHist
      then (if lbl ''host'' = [] \<or> lbl ''zabbix_trigger_id'' = [] then []
            else marshal (JObject
              ([(''host'', JString (lbl ''host'')), (''trigger_id'', JString (lbl ''zabbix_trigger_id''))] @
               jOmitString ''source_instance_id'' (dereferenceString (ms_SourceInstanceID m)) @
               jOmitInt ''fresh_for_seconds'' (wholeSeconds (pn_RefreshInterval inp)))))
      else if c = CapabilitySentryIssues
      then (case sentryProjectEnv (ms_Labels m) of (project, env) \<Rightarrow>
              if project = [] then []
              else marshal (JObject ([(''project'', JString project)] @ jOmitString ''environment'' env)))
      else if c = CapabilityPrometheusQuery
      then (if ms_Source m = ''alertmanager'' \<and> lbl ''alertname'' \<noteq> []
            then marshal (JObject [(''alert_name'', JString (lbl ''alertname''))]) else [])
      else [])"

definition maxRequestsFor :: "plannerInput \<Rightarrow> capability \<Rightarrow> capabilityDescriptor \<Rightarrow> string \<Rightarrow> int" where
  "maxRequestsFor inp c desc params =
     (let hint = max 0 (cpd_MaxRequestsHint desc);
          requests = (if hint = 0 \<and> c \<noteq> CapabilityStoreRead \<and> c \<noteq> CapabilityChangeEvents then 1 else hint)
      in if c = CapabilityPrometheusQuery
         then (if params = [] then 1 else if requests > pn_CycleCap inp then pn_CycleCap inp else requests)
         else requests)"

definition buildCandidate ::
  "plannerInput \<Rightarrow> memberSubject \<Rightarrow> string \<Rightarrow> capability \<Rightarrow> capabilityDescriptor \<Rightarrow> string \<Rightarrow> string \<Rightarrow> string + candidate" where
  "buildCandidate inp m subject c desc phase horizonTier =
     (if ms_SubjectID m = [] \<or> ms_Source m = [] then Inl ''observation: member subject requires id and source''
      else if pn_GroupKey inp = [] then Inl ''observation: planner input requires the situation group key''
      else let window = (case plannerWindowCap c of None \<Rightarrow> cpd_DefaultWindow desc
               | Some capped \<Rightarrow> min (cpd_DefaultWindow desc) capped);
             params = capabilityParameters inp c m horizonTier
        in Inr \<lparr>cd_Subject = subject, cd_Capability = c,
             cd_Scope = \<lparr>sp_GroupKey = pn_GroupKey inp, sp_Source = ms_Source m, sp_SubjectID = subject,
               sp_Labels = ms_SelectorLabels m\<rparr>,
             cd_Phase = phase, cd_Start = tAdd (pn_Anchor inp) (- window), cd_End = pn_Anchor inp,
             cd_Limit = (if cpd_DefaultLimit desc \<le> 0 then 1 else cpd_DefaultLimit desc),
             cd_MaxRequests = maxRequestsFor inp c desc params,
             cd_Purpose = (if phase = PhaseLifecycle then ''lifecycle_watch'' else ''corroborate_member''),
             cd_Parameters = params, cd_TimeSensitive = False, cd_Deadline = zeroTime, cd_LastServedAt = zeroTime,
             cd_Optional = False, cd_Tier = [], cd_ReuseRunID = []\<rparr>)"

text \<open>The last cursor written under a key wins.\<close>

definition cursorFor :: "refreshCursor list \<Rightarrow> string \<Rightarrow> capability \<Rightarrow> refreshCursor option" where
  "cursorFor cursors subject c = find (\<lambda>r. rf_Subject r @ ''|'' @ rf_Capability r = subject @ ''|'' @ c) (rev cursors)"

text \<open>The body of the loop for one member and capability, after the group read is dealt with.\<close>

definition classify :: "plannerInput \<Rightarrow> memberSubject \<Rightarrow> string \<Rightarrow> capability \<Rightarrow> capabilityDescriptor \<Rightarrow> candidate option" where
  "classify inp m subject c desc =
     (let phase = PhaseForCapability c;
          cursor = cursorFor (pn_RefreshCursors inp) subject c;
          due = (case cursor of None \<Rightarrow> True | Some r \<Rightarrow> \<not> tBefore (pn_Anchor inp) (rf_NextRefreshAt r))
      in case buildCandidate inp m subject c desc phase (WidestHorizonTier (pn_ProfileGuidance inp)) of
           Inl _ \<Rightarrow> None
         | Inr built \<Rightarrow>
           (let served = built\<lparr>cd_LastServedAt := (case cursor of None \<Rightarrow> zeroTime | Some r \<Rightarrow> rf_NextRefreshAt r),
                  cd_ReuseRunID := (case cursor of None \<Rightarrow> [] | Some r \<Rightarrow> rf_LastRunID r)\<rparr>
            in if \<not> due
               then (if cd_ReuseRunID served \<noteq> [] then Some (served\<lparr>cd_Tier := TierReuse\<rparr>) else None)
               else let (timeSens, deadline) = memberTimeSensitivity m (pn_Anchor inp) (pn_RefreshInterval inp);
                      timed = served\<lparr>cd_TimeSensitive := (timeSens \<and> phase = PhaseLifecycle), cd_Deadline := deadline\<rparr>
                 in if cd_MaxRequests timed = 0 then Some (timed\<lparr>cd_Tier := TierLocal\<rparr>)
                    else if cd_TimeSensitive timed then Some (timed\<lparr>cd_Tier := TierTimeSensitive\<rparr>)
                    else if phase = PhaseLifecycle then Some (timed\<lparr>cd_Tier := TierRoutine\<rparr>)
                    else if suggestedCapabilities (pn_ProfileGuidance inp) c \<and> \<not> pn_RecoveryPending inp
                    then Some (timed\<lparr>cd_Optional := True, cd_Tier := TierOptional\<rparr>)
                    else if \<not> pn_RecoveryPending inp \<or> phase = PhaseLifecycle then Some (timed\<lparr>cd_Tier := TierRoutine\<rparr>)
                    else None))"

type_synonym enabledCapabilities = "(capability \<times> capabilityDescriptor) list"

text \<open>The capabilities of one member; the flag says whether the group read is planned already.\<close>

fun memberCandidates ::
  "plannerInput \<Rightarrow> memberSubject \<Rightarrow> bool \<Rightarrow> enabledCapabilities \<Rightarrow> candidate list \<times> bool" where
  "memberCandidates inp m seen [] = ([], seen)"
| "memberCandidates inp m seen ((c, desc) # rest) =
     (if pn_Phase inp \<noteq> [] \<and> PhaseForCapability c \<noteq> pn_Phase inp then memberCandidates inp m seen rest
      else if c = CapabilityStoreRead
      then (if seen then memberCandidates inp m seen rest
            else let r = memberCandidates inp m True rest in
              ((case classify inp m (groupSubject (pn_GroupKey inp)) c desc of None \<Rightarrow> [] | Some x \<Rightarrow> [x]) @ fst r, snd r))
      else let r = memberCandidates inp m seen rest in
        ((case classify inp m (ms_SubjectID m) c desc of None \<Rightarrow> [] | Some x \<Rightarrow> [x]) @ fst r, snd r))"

fun allCandidates :: "plannerInput \<Rightarrow> enabledCapabilities \<Rightarrow> bool \<Rightarrow> memberSubject list \<Rightarrow> candidate list" where
  "allCandidates inp enabled seen [] = []"
| "allCandidates inp enabled seen (m # ms) =
     (let r = memberCandidates inp m seen enabled in fst r @ allCandidates inp enabled (snd r) ms)"

definition enabledOf :: "capabilityDescriptor list \<Rightarrow> enabledCapabilities" where
  "enabledOf configured =
     foldl (\<lambda>en d. if ValidCapability (cpd_Capability d) then AList.update (cpd_Capability d) d en else en) [] configured"

section \<open>Plans\<close>

definition tierRank :: "string \<Rightarrow> nat" where
  "tierRank t =
     (if t = TierLocal then 0 else if t = TierTimeSensitive then 1 else if t = TierOptional then 2
      else if t = TierRoutine \<or> t = [] then 3 else if t = TierReuse then 4 else 5)"

definition sortByTierThenKey :: "candidate list \<Rightarrow> candidate list" where
  "sortByTierThenKey =
     sort_key (\<lambda>c. (tierRank (cd_Tier c), if tierRank (cd_Tier c) = tierRank TierTimeSensitive then tns (cd_Deadline c) else 0, candidateKey c))"

definition splitDeferredCandidates :: "candidate list \<Rightarrow> candidate list \<Rightarrow> candidate list \<times> candidate list" where
  "splitDeferredCandidates reuse deferred =
     (reuse @ map (\<lambda>c. c\<lparr>cd_Tier := TierReuse, cd_Optional := False\<rparr>) (filter (\<lambda>c. cd_ReuseRunID c \<noteq> []) deferred),
      filter (\<lambda>c. cd_ReuseRunID c = []) deferred)"

definition candidateToPlan :: "candidate \<Rightarrow> plan" where
  "candidateToPlan c =
     \<lparr>pl_ID = [], pl_CycleID = [], pl_Capability = cd_Capability c, pl_Phase = cd_Phase c, pl_Scope = cd_Scope c,
      pl_Parameters = cd_Parameters c, pl_Start = cd_Start c, pl_End = cd_End c, pl_EligibleAt = cd_End c,
      pl_Limit = cd_Limit c, pl_MaxRequests = (if cd_Tier c = TierReuse then 0 else cd_MaxRequests c),
      pl_Purpose = cd_Purpose c, pl_ReconsiderOn = [], pl_StopOn = [], pl_Tier = cd_Tier c,
      pl_ReuseRunID = (if cd_Tier c = TierReuse then cd_ReuseRunID c else [])\<rparr>"

definition inTier :: "string \<Rightarrow> candidate list \<Rightarrow> candidate list" where
  "inTier t = filter (\<lambda>c. cd_Tier c = t)"

text \<open>\<^verbatim>\<open>(d / 3).Milliseconds()\<close>.\<close>

definition thirdMilliseconds :: "duration \<Rightarrow> int" where
  "thirdMilliseconds d = (d div 3) div 1000000"

definition plansOver :: "plannerInput \<Rightarrow> enabledCapabilities \<Rightarrow> plan list \<times> allocation" where
  "plansOver inp enabled =
     (let cs = allCandidates inp enabled False (pn_Members inp);
          fair = allocateFairly (pn_CycleCap inp) (pn_InvestigationCredit inp)
            (inTier TierTimeSensitive cs) (inTier TierOptional cs) (inTier TierRoutine cs);
          (reuse, bare) = splitDeferredCandidates (inTier TierReuse cs) (al_Deferred fair);
          ordered = sortByTierThenKey (inTier TierLocal cs @ al_Admitted fair @ reuse);
          admitted = take MaxPlansPerCycle ordered;
          deferred = bare @ drop MaxPlansPerCycle ordered;
          phase = al_PhaseAllocation fair
      in (map candidateToPlan admitted,
          \<lparr>al_PhaseAllocation = phase\<lparr>
             pa_OptionalWallMilliseconds := (if pa_OptionalPlanID phase \<noteq> [] \<and> pn_PreparationWall inp > 0
               then thirdMilliseconds (pn_PreparationWall inp) else pa_OptionalWallMilliseconds phase),
             pa_Deferred := map candidateKey (take MaxPlansPerCycle deferred)\<rparr>,
           al_Admitted = admitted, al_Deferred = deferred\<rparr>))"

definition BuildPlans :: "plannerInput \<Rightarrow> string + plan list \<times> allocation" where
  "BuildPlans inp =
     (if pn_Members inp = [] then Inl ''observation: planner input requires at least one member''
      else if pn_CycleCap inp \<le> 0 then Inl ''observation: planner input requires a positive cycle cap''
      else Inr (plansOver inp (enabledOf (pn_Configured inp))))"

section \<open>Admission loops\<close>

text \<open>
  The contract the three loops share: they split the candidates, and what they admit stays within the budget they are given.
\<close>

locale admission =
  fixes admit :: "int \<Rightarrow> candidate list \<Rightarrow> candidate list \<times> candidate list"
  assumes splits: "mset (fst (admit b cs)) + mset (snd (admit b cs)) = mset cs"
    and within: "list_all (\<lambda>c. 0 \<le> cd_MaxRequests c) cs \<Longrightarrow> requestsOf (fst (admit b cs)) \<le> max 0 b"
begin

lemma admitted_subset: "set (fst (admit b cs)) \<subseteq> set cs"
  using arg_cong [OF splits [of b cs], of set_mset] by auto

lemma sorted_splits: "mset (fst (admit b (sort_key k cs))) + mset (snd (admit b (sort_key k cs))) = mset cs"
  by (simp add: splits)

end

lemma requestsOf_simps [simp]:
  "requestsOf [] = 0" "requestsOf (c # cs) = cd_MaxRequests c + requestsOf cs" "requestsOf (cs @ ds) = requestsOf cs + requestsOf ds"
  by (simp_all add: requestsOf_def)

lemma requestsOf_nonneg: "list_all (\<lambda>c. 0 \<le> cd_MaxRequests c) cs \<Longrightarrow> 0 \<le> requestsOf cs"
  by (induction cs) auto

lemma admitTimeSensitive_splits:
  "mset (fst (admitTimeSensitive cycleCap used cs)) + mset (snd (admitTimeSensitive cycleCap used cs)) = mset cs"
  by (induction cycleCap used cs rule: admitTimeSensitive.induct) (simp_all add: Let_def)

lemma admitTimeSensitive_within:
  "list_all (\<lambda>c. 0 \<le> cd_MaxRequests c) cs \<Longrightarrow> requestsOf (fst (admitTimeSensitive cycleCap used cs)) \<le> max 0 (cycleCap - used)"
proof (induction cycleCap used cs rule: admitTimeSensitive.induct)
  case (2 cycleCap used c cs)
  then show ?case by (cases "used + cd_MaxRequests c > cycleCap") (auto simp: Let_def)
qed simp

definition optionalAdmission :: "int \<Rightarrow> int \<Rightarrow> candidate list \<Rightarrow> candidate list \<times> candidate list" where
  "optionalAdmission affordable remaining cs =
     (case admitOptional remaining affordable cs of (opt, deferred) \<Rightarrow> (case opt of None \<Rightarrow> [] | Some c \<Rightarrow> [c], deferred))"

lemma admitOptional_splits:
  "mset (case fst (admitOptional r a cs) of None \<Rightarrow> [] | Some c \<Rightarrow> [c]) + mset (snd (admitOptional r a cs)) = mset cs"
  by (induction r a cs rule: admitOptional.induct) (simp_all add: Let_def)

lemma admitOptional_fits:
  "fst (admitOptional r a cs) = Some c \<Longrightarrow> c \<in> set cs \<and> cd_MaxRequests c \<le> r \<and> cd_MaxRequests c \<le> a"
  by (induction r a cs rule: admitOptional.induct) (auto simp: Let_def split: if_splits)

lemma admitRoutine_splits: "mset (fst (admitRoutine r cs)) + mset (snd (admitRoutine r cs)) = mset cs"
  by (induction r cs rule: admitRoutine.induct) (simp_all add: Let_def)

lemma admitRoutine_within:
  "list_all (\<lambda>c. 0 \<le> cd_MaxRequests c) cs \<Longrightarrow> requestsOf (fst (admitRoutine r cs)) \<le> max 0 r"
proof (induction r cs rule: admitRoutine.induct)
  case (2 r c cs)
  then show ?case by (cases "r \<le> 0 \<or> cd_MaxRequests c > r") (auto simp: Let_def)
qed simp

interpretation timely: admission "\<lambda>b. admitTimeSensitive b 0"
  using admitTimeSensitive_splits admitTimeSensitive_within [where used = 0] by unfold_locales simp_all

interpretation optional: admission "optionalAdmission affordable"
proof
  fix b cs
  show "mset (fst (optionalAdmission affordable b cs)) + mset (snd (optionalAdmission affordable b cs)) = mset cs"
    using admitOptional_splits [of b affordable cs] by (simp add: optionalAdmission_def split_beta)
  show "requestsOf (fst (optionalAdmission affordable b cs)) \<le> max 0 b"
    using admitOptional_fits [of b affordable cs] by (auto simp: optionalAdmission_def split_beta split: option.split)
qed

interpretation routine: admission admitRoutine
  using admitRoutine_splits admitRoutine_within by unfold_locales simp_all

section \<open>What an allocation keeps\<close>

lemma allocateFairly_parts:
  obtains ts tsd opt optd rt rtd where
    "admitTimeSensitive cap 0 (sortByDeadlineThenLastServed timeSensitive) = (ts, tsd)"
    "optionalAdmission (affordableRequests credit) (cap - requestsOf ts) (sortByLastServed optional) = (opt, optd)"
    "admitRoutine (cap - requestsOf ts - requestsOf opt) (sortRoutineByPhaseThenLastServed routine) = (rt, rtd)"
    "al_Admitted (allocateFairly cap credit timeSensitive optional routine) = ts @ opt @ rt"
    "al_Deferred (allocateFairly cap credit timeSensitive optional routine) = tsd @ optd @ rtd"
    "pa_TimeSensitiveRequests (al_PhaseAllocation (allocateFairly cap credit timeSensitive optional routine)) = requestsOf ts"
    "pa_OptionalRequests (al_PhaseAllocation (allocateFairly cap credit timeSensitive optional routine)) = requestsOf opt"
    "pa_RoutineLifecycleRequests (al_PhaseAllocation (allocateFairly cap credit timeSensitive optional routine)) = requestsOf rt"
proof -
  obtain ts tsd where t: "admitTimeSensitive cap 0 (sortByDeadlineThenLastServed timeSensitive) = (ts, tsd)" by fastforce
  obtain o1 o2 where o': "admitOptional (cap - requestsOf ts) (affordableRequests credit) (sortByLastServed optional) = (o1, o2)" by fastforce
  let ?opt = "case o1 of None \<Rightarrow> [] | Some c \<Rightarrow> [c]"
  obtain rt rtd where r: "admitRoutine (cap - requestsOf ts - requestsOf ?opt) (sortRoutineByPhaseThenLastServed routine) = (rt, rtd)" by fastforce
  show thesis
    by (rule that [OF t _ r, of o2]) (simp_all add: optionalAdmission_def allocateFairly_def Let_def t o' r)
qed

lemma allocateFairly_splits:
  "mset (al_Admitted (allocateFairly cap credit ts opt rt)) + mset (al_Deferred (allocateFairly cap credit ts opt rt)) =
   mset ts + mset opt + mset rt"
proof (rule allocateFairly_parts [of cap ts credit opt rt])
  fix a ad b bd c cd
  assume parts: "admitTimeSensitive cap 0 (sortByDeadlineThenLastServed ts) = (a, ad)"
    "optionalAdmission (affordableRequests credit) (cap - requestsOf a) (sortByLastServed opt) = (b, bd)"
    "admitRoutine (cap - requestsOf a - requestsOf b) (sortRoutineByPhaseThenLastServed rt) = (c, cd)"
    "al_Admitted (allocateFairly cap credit ts opt rt) = a @ b @ c" "al_Deferred (allocateFairly cap credit ts opt rt) = ad @ bd @ cd"
  have "mset a + mset ad = mset ts" "mset b + mset bd = mset opt" "mset c + mset cd = mset rt"
    using timely.splits [of cap "sortByDeadlineThenLastServed ts"] optional.splits [of "affordableRequests credit" "cap - requestsOf a" "sortByLastServed opt"]
      routine.splits [of "cap - requestsOf a - requestsOf b" "sortRoutineByPhaseThenLastServed rt"] parts(1-3)
    by (simp_all add: sortByDeadlineThenLastServed_def sortByLastServed_def sortRoutineByPhaseThenLastServed_def)
  then show ?thesis by (simp add: parts(4,5) ac_simps)
qed

lemma allocateFairly_within:
  assumes "0 \<le> cap" and "list_all (\<lambda>c. 0 \<le> cd_MaxRequests c) (ts @ opt @ rt)"
  shows "requestsOf (al_Admitted (allocateFairly cap credit ts opt rt)) \<le> cap"
    and "3 * pa_OptionalRequests (al_PhaseAllocation (allocateFairly cap credit ts opt rt)) \<le> max 0 credit"
proof -
  obtain a ad b bd c cd where parts: "admitTimeSensitive cap 0 (sortByDeadlineThenLastServed ts) = (a, ad)"
    "optionalAdmission (affordableRequests credit) (cap - requestsOf a) (sortByLastServed opt) = (b, bd)"
    "admitRoutine (cap - requestsOf a - requestsOf b) (sortRoutineByPhaseThenLastServed rt) = (c, cd)"
    "al_Admitted (allocateFairly cap credit ts opt rt) = a @ b @ c"
    "pa_OptionalRequests (al_PhaseAllocation (allocateFairly cap credit ts opt rt)) = requestsOf b"
    by (rule allocateFairly_parts [of cap ts credit opt rt])
  have "list_all (\<lambda>c. 0 \<le> cd_MaxRequests c) (sortByDeadlineThenLastServed ts)"
    "list_all (\<lambda>c. 0 \<le> cd_MaxRequests c) (sortByLastServed opt)" "list_all (\<lambda>c. 0 \<le> cd_MaxRequests c) (sortRoutineByPhaseThenLastServed rt)"
    using assms(2) by (simp_all add: list_all_iff sortByDeadlineThenLastServed_def sortByLastServed_def sortRoutineByPhaseThenLastServed_def)
  from timely.within [OF this(1), of cap] optional.within [OF this(2), of "affordableRequests credit" "cap - requestsOf a"]
    routine.within [OF this(3), of "cap - requestsOf a - requestsOf b"]
  show "requestsOf (al_Admitted (allocateFairly cap credit ts opt rt)) \<le> cap"
    using assms(1) by (simp add: parts)
  have "requestsOf b \<le> max 0 (affordableRequests credit)"
    using parts(2) admitOptional_fits [of "cap - requestsOf a" "affordableRequests credit" "sortByLastServed opt"]
    by (auto simp: optionalAdmission_def split_beta split: option.splits)
  then show "3 * pa_OptionalRequests (al_PhaseAllocation (allocateFairly cap credit ts opt rt)) \<le> max 0 credit"
    by (auto simp: parts(5) affordableRequests_def optionalRequestCreditCost_def sgn_if split: if_splits)
qed

section \<open>The candidates of a cycle\<close>

lemma maxRequestsFor_nonneg: "0 < pn_CycleCap inp \<Longrightarrow> 0 \<le> maxRequestsFor inp c desc params"
  by (simp add: maxRequestsFor_def Let_def)

definition candidateTiers :: "string set" where
  "candidateTiers = {TierReuse, TierLocal, TierTimeSensitive, TierRoutine, TierOptional}"

text \<open>What is known of a candidate for capability \<open>c\<close> on \<open>subject\<close>.\<close>

definition candidateFor :: "plannerInput \<Rightarrow> string \<Rightarrow> capability \<Rightarrow> candidate \<Rightarrow> bool" where
  "candidateFor inp subject c x \<longleftrightarrow>
     cd_Subject x = subject \<and> cd_Capability x = c \<and> cd_Phase x = PhaseForCapability c \<and> cd_Tier x \<in> candidateTiers \<and>
     (cd_Tier x = TierReuse \<longrightarrow> cd_ReuseRunID x \<noteq> []) \<and> (cd_Tier x = TierLocal \<longrightarrow> cd_MaxRequests x = 0) \<and>
     (0 < pn_CycleCap inp \<longrightarrow> 0 \<le> cd_MaxRequests x) \<and>
     sp_GroupKey (cd_Scope x) = pn_GroupKey inp \<and> pn_GroupKey inp \<noteq> [] \<and> sp_Source (cd_Scope x) \<noteq> [] \<and>
     cd_Purpose x \<noteq> [] \<and> 1 \<le> cd_Limit x \<and> cd_End x = pn_Anchor inp \<and>
     pred_option (\<lambda>bound. tns (pn_Anchor inp) - tns (cd_Start x) \<le> bound) (plannerWindowCap c)"

lemma classify_candidate:
  assumes "classify inp m subject c desc = Some x"
  shows "candidateFor inp subject c x"
proof -
  obtain built where built: "buildCandidate inp m subject c desc (PhaseForCapability c) (WidestHorizonTier (pn_ProfileGuidance inp)) = Inr built"
    using assms by (cases "buildCandidate inp m subject c desc (PhaseForCapability c) (WidestHorizonTier (pn_ProfileGuidance inp))")
      (simp_all add: classify_def Let_def)
  then have core: "cd_Subject built = subject" "cd_Capability built = c" "cd_Phase built = PhaseForCapability c"
    "0 < pn_CycleCap inp \<Longrightarrow> 0 \<le> cd_MaxRequests built" "sp_GroupKey (cd_Scope built) = pn_GroupKey inp" "pn_GroupKey inp \<noteq> []"
    "sp_Source (cd_Scope built) \<noteq> []" "cd_Purpose built \<noteq> []" "1 \<le> cd_Limit built" "cd_End built = pn_Anchor inp"
    "pred_option (\<lambda>bound. tns (pn_Anchor inp) - tns (cd_Start built) \<le> bound) (plannerWindowCap c)"
    by (auto simp: buildCandidate_def Let_def maxRequestsFor_nonneg tAdd_def split: if_splits option.split)
  have distinct: "TierReuse \<noteq> TierLocal" "TierTimeSensitive \<noteq> TierLocal" "TierRoutine \<noteq> TierLocal" "TierOptional \<noteq> TierLocal"
    "TierLocal \<noteq> TierReuse" "TierTimeSensitive \<noteq> TierReuse" "TierRoutine \<noteq> TierReuse" "TierOptional \<noteq> TierReuse"
    by (simp_all add: tier_defs)
  let ?cursor = "cursorFor (pn_RefreshCursors inp) subject c"
  let ?due = "case ?cursor of None \<Rightarrow> True | Some r \<Rightarrow> \<not> tBefore (pn_Anchor inp) (rf_NextRefreshAt r)"
  let ?sens = "memberTimeSensitivity m (pn_Anchor inp) (pn_RefreshInterval inp)"
  define served where "served = built\<lparr>cd_LastServedAt := (case ?cursor of None \<Rightarrow> zeroTime | Some r \<Rightarrow> rf_NextRefreshAt r),
                  cd_ReuseRunID := (case ?cursor of None \<Rightarrow> [] | Some r \<Rightarrow> rf_LastRunID r)\<rparr>"
  define timed where "timed = served\<lparr>cd_TimeSensitive := (fst ?sens \<and> PhaseForCapability c = PhaseLifecycle), cd_Deadline := snd ?sens\<rparr>"
  have same: "candidateFor inp subject c (served\<lparr>cd_Tier := t\<rparr>)" "candidateFor inp subject c (timed\<lparr>cd_Tier := t\<rparr>)"
    "candidateFor inp subject c (timed\<lparr>cd_Optional := v, cd_Tier := t\<rparr>)"
    if "t \<in> candidateTiers" "t = TierReuse \<Longrightarrow> cd_ReuseRunID served \<noteq> []" "t = TierLocal \<Longrightarrow> cd_MaxRequests timed = 0" for t v
    using that core by (simp_all add: candidateFor_def served_def timed_def)
  have tiers: "TierReuse \<in> candidateTiers" "TierLocal \<in> candidateTiers" "TierTimeSensitive \<in> candidateTiers"
    "TierRoutine \<in> candidateTiers" "TierOptional \<in> candidateTiers"
    by (simp_all add: candidateTiers_def)
  have "(if \<not> ?due then (if cd_ReuseRunID served \<noteq> [] then Some (served\<lparr>cd_Tier := TierReuse\<rparr>) else None)
      else if cd_MaxRequests timed = 0 then Some (timed\<lparr>cd_Tier := TierLocal\<rparr>)
      else if cd_TimeSensitive timed then Some (timed\<lparr>cd_Tier := TierTimeSensitive\<rparr>)
      else if PhaseForCapability c = PhaseLifecycle then Some (timed\<lparr>cd_Tier := TierRoutine\<rparr>)
      else if suggestedCapabilities (pn_ProfileGuidance inp) c \<and> \<not> pn_RecoveryPending inp
      then Some (timed\<lparr>cd_Optional := True, cd_Tier := TierOptional\<rparr>)
      else if \<not> pn_RecoveryPending inp \<or> PhaseForCapability c = PhaseLifecycle then Some (timed\<lparr>cd_Tier := TierRoutine\<rparr>)
      else None) = Some x"
    using assms unfolding classify_def Let_def split_beta built sum.case served_def timed_def .
  then show ?thesis
    by (simp only: split: if_split_asm) (auto intro!: same tiers simp: distinct)
qed

end
