(* ===== verification/Observation_Candidates.thy ===== *)
theory Observation_Candidates
  imports Observation_Plan
begin

text \<open>
  What the planner keeps of the candidates of a cycle: one per member and capability, each either planned or deferred, within
  the request budget, whatever the order in which the map of enabled capabilities is visited.
\<close>

section \<open>One candidate per entry\<close>

definition entryCandidate ::
  "plannerInput \<Rightarrow> memberSubject \<Rightarrow> bool \<Rightarrow> capability \<times> capabilityDescriptor \<Rightarrow> candidate option" where
  "entryCandidate inp m seen e =
     (if pn_Phase inp \<noteq> [] \<and> PhaseForCapability (fst e) \<noteq> pn_Phase inp then None
      else if fst e = CapabilityStoreRead
      then (if seen then None else classify inp m (groupSubject (pn_GroupKey inp)) (fst e) (snd e))
      else classify inp m (ms_SubjectID m) (fst e) (snd e))"

lemmas entryCandidate_pair = entryCandidate_def [where e = "(c, d)" for c d, simplified fst_conv snd_conv]

definition readsGroup :: "plannerInput \<Rightarrow> enabledCapabilities \<Rightarrow> bool" where
  "readsGroup inp en \<longleftrightarrow>
     CapabilityStoreRead \<in> fst ` set en \<and> (pn_Phase inp = [] \<or> PhaseForCapability CapabilityStoreRead = pn_Phase inp)"

lemma map_filter_cong_on: "(\<And>x. x \<in> set xs \<Longrightarrow> f x = g x) \<Longrightarrow> List.map_filter f xs = List.map_filter g xs"
  by (induction xs) (auto simp: List.map_filter_simps split: option.split)

lemma memberCandidates_entries:
  assumes "distinct (map fst en)"
  shows "memberCandidates inp m seen en = (List.map_filter (entryCandidate inp m seen) en, seen \<or> readsGroup inp en)"
  using assms
proof (induction inp m seen en rule: memberCandidates.induct)
  case (1 inp m seen)
  then show ?case by (simp add: readsGroup_def List.map_filter_simps)
next
  case (2 inp m seen c desc rest)
  have later: "List.map_filter (entryCandidate inp m b) rest = List.map_filter (entryCandidate inp m b') rest"
    if "c = CapabilityStoreRead" for b b'
    using 2(5) that by (intro map_filter_cong_on) (force simp: entryCandidate_def)
  show ?case
  proof (cases "pn_Phase inp \<noteq> [] \<and> PhaseForCapability c \<noteq> pn_Phase inp")
    case True
    then show ?thesis using 2(1,5) by (auto simp: List.map_filter_simps entryCandidate_pair readsGroup_def)
  next
    case False
    consider "c = CapabilityStoreRead" "seen" | "c = CapabilityStoreRead" "\<not> seen" | "c \<noteq> CapabilityStoreRead" by blast
    then show ?thesis
    proof cases
      case 1
      then show ?thesis using False 2(2,5) by (auto simp: List.map_filter_simps entryCandidate_pair)
    next
      case c: 2
      then show ?thesis using False 2(3,5) later [of True False]
        by (auto simp: List.map_filter_simps entryCandidate_pair readsGroup_def split: option.split)
    next
      case 3
      then show ?thesis using False 2(4,5) by (auto simp: List.map_filter_simps entryCandidate_pair readsGroup_def split: option.split)
    qed
  qed
qed

lemma allCandidates_Cons:
  "distinct (map fst en) \<Longrightarrow> allCandidates inp en seen (m # ms) =
     List.map_filter (entryCandidate inp m seen) en @ allCandidates inp en (seen \<or> readsGroup inp en) ms"
  by (simp add: memberCandidates_entries Let_def)

lemma mset_map_filter_perm: "mset xs = mset ys \<Longrightarrow> mset (List.map_filter f xs) = mset (List.map_filter f ys)"
  by (simp add: List.map_filter_def)

text \<open>The candidates are the same in every order of the map.\<close>

lemma allCandidates_perm:
  assumes "mset en = mset en'" and "distinct (map fst en)"
  shows "mset (allCandidates inp en seen ms) = mset (allCandidates inp en' seen ms)"
proof -
  have "mset (map fst en) = mset (map fst en')" using assms(1) by simp
  then have "distinct (map fst en')" using assms(2) mset_eq_imp_distinct_iff by blast
  moreover have "readsGroup inp en = readsGroup inp en'" using mset_eq_setD [OF assms(1)] by (simp add: readsGroup_def)
  ultimately show ?thesis
  proof (induction ms arbitrary: seen)
    case (Cons m ms)
    show ?case
      unfolding allCandidates_Cons [OF assms(2)] allCandidates_Cons [OF Cons.prems(1)] mset_append
        mset_map_filter_perm [OF assms(1), of "entryCandidate inp m seen"] Cons.prems(2)
      using Cons.IH [OF Cons.prems] by simp
  qed simp
qed

section \<open>Keys\<close>

lemma entryCandidate_for:
  assumes "entryCandidate inp m seen e = Some x"
  shows "candidateFor inp (if fst e = CapabilityStoreRead then groupSubject (pn_GroupKey inp) else ms_SubjectID m) (fst e) x"
    and "fst e = CapabilityStoreRead \<Longrightarrow> \<not> seen \<and> readsGroup inp [e]"
  using assms classify_candidate by (auto simp: entryCandidate_def readsGroup_def split: if_splits)

lemma in_map_filter: "x \<in> set (List.map_filter f xs) \<longleftrightarrow> (\<exists>y \<in> set xs. f y = Some x)"
  by (force simp: List.map_filter_def)

text \<open>Every candidate is one of an enabled capability, on a member or on the group.\<close>

lemma allCandidates_for:
  assumes "x \<in> set (allCandidates inp en seen ms)" and "distinct (map fst en)"
  shows "cd_Capability x \<in> fst ` set en" and "candidateFor inp (cd_Subject x) (cd_Capability x) x"
    and "cd_Capability x \<noteq> CapabilityStoreRead \<Longrightarrow> cd_Subject x \<in> ms_SubjectID ` set ms"
    and "cd_Capability x = CapabilityStoreRead \<Longrightarrow> \<not> seen \<and> cd_Subject x = groupSubject (pn_GroupKey inp)"
proof -
  have "cd_Capability x \<in> fst ` set en \<and> candidateFor inp (cd_Subject x) (cd_Capability x) x \<and>
      (cd_Capability x \<noteq> CapabilityStoreRead \<longrightarrow> cd_Subject x \<in> ms_SubjectID ` set ms) \<and>
      (cd_Capability x = CapabilityStoreRead \<longrightarrow> \<not> seen \<and> cd_Subject x = groupSubject (pn_GroupKey inp))"
    using assms(1)
  proof (induction ms arbitrary: seen)
    case (Cons m ms)
    show ?case
    proof (cases "x \<in> set (allCandidates inp en (seen \<or> readsGroup inp en) ms)")
      case True
      then show ?thesis using Cons.IH by fastforce
    next
      case False
      then obtain e where e: "e \<in> set en" "entryCandidate inp m seen e = Some x"
        using Cons.prems assms(2) by (auto simp: allCandidates_Cons in_map_filter simp del: allCandidates.simps(2))
      from entryCandidate_for [OF e(2)] show ?thesis using e(1) by (auto simp: candidateFor_def)
    qed
  qed simp
  then show "cd_Capability x \<in> fst ` set en" "candidateFor inp (cd_Subject x) (cd_Capability x) x"
    "cd_Capability x \<noteq> CapabilityStoreRead \<Longrightarrow> cd_Subject x \<in> ms_SubjectID ` set ms"
    "cd_Capability x = CapabilityStoreRead \<Longrightarrow> \<not> seen \<and> cd_Subject x = groupSubject (pn_GroupKey inp)" by auto
qed

lemma distinct_map_filter:
  "distinct (map k xs) \<Longrightarrow> (\<And>x y. f x = Some y \<Longrightarrow> g y = k x) \<Longrightarrow> distinct (map g (List.map_filter f xs))"
  by (induction xs) (force simp: List.map_filter_simps in_map_filter split: option.split)+

lemma allCandidates_distinct:
  assumes "distinct (map ms_SubjectID ms)" and "distinct (map fst en)"
  shows "distinct (map (\<lambda>x. (cd_Capability x, cd_Subject x)) (allCandidates inp en seen ms))"
  using assms(1)
proof (induction ms arbitrary: seen)
  case (Cons m ms)
  let ?key = "\<lambda>x. (cd_Capability x, cd_Subject x)"
  have here: "distinct (map ?key (List.map_filter (entryCandidate inp m seen) en))"
  proof -
    have "distinct (map cd_Capability (List.map_filter (entryCandidate inp m seen) en))"
      using assms(2) entryCandidate_for(1) by (intro distinct_map_filter [where k = fst]) (auto simp: candidateFor_def)
    then show ?thesis by (auto simp: distinct_map inj_on_def)
  qed
  have apart: "?key x \<noteq> ?key y"
    if x: "x \<in> set (List.map_filter (entryCandidate inp m seen) en)" and y: "y \<in> set (allCandidates inp en (seen \<or> readsGroup inp en) ms)" for x y
  proof -
    from x obtain e where e: "e \<in> set en" "entryCandidate inp m seen e = Some x" by (auto simp: in_map_filter)
    note x' = entryCandidate_for [OF e(2)] and y' = allCandidates_for [OF y assms(2)]
    show ?thesis
    proof (cases "fst e = CapabilityStoreRead")
      case True
      then have "readsGroup inp en" using x'(2) e(1) by (force simp: readsGroup_def)
      then show ?thesis using y'(4) x'(1) True by (auto simp: candidateFor_def)
    next
      case False
      then show ?thesis using x'(1) y'(3) Cons.prems by (auto simp: candidateFor_def)
    qed
  qed
  show ?case
    using here Cons apart by (auto simp: allCandidates_Cons [OF assms(2)] simp del: allCandidates.simps(2))
qed simp

lemma capability_no_colon: "ValidCapability c \<Longrightarrow> CHR '':'' \<notin> set c"
  by (auto simp: ValidCapability_def Capabilities_def capability_defs)

lemma candidateKey_inj:
  assumes "ValidCapability (cd_Capability x)" "ValidCapability (cd_Capability y)" "candidateKey x = candidateKey y"
  shows "cd_Capability x = cd_Capability y \<and> cd_Subject x = cd_Subject y"
proof -
  have "takeWhile (\<lambda>c. c \<noteq> CHR '':'') (candidateKey z) = cd_Capability z" if "ValidCapability (cd_Capability z)" for z
    using capability_no_colon [OF that] by (subst candidateKey_def, subst takeWhile_append2) auto
  from this [of x] this [of y] assms have "cd_Capability x = cd_Capability y" by simp
  then show ?thesis using assms(3) by (simp add: candidateKey_def)
qed

section \<open>The plan set\<close>

lemma sum_map_0: "(\<And>x. x \<in> set xs \<Longrightarrow> f x = (0 :: int)) \<Longrightarrow> sum_list (map f xs) = 0"
  by (induction xs) simp_all

lemma sum_take_drop: "sum_list (map f xs) = sum_list (map f (take n xs)) + sum_list (map f (drop n xs))"
  using sum_list_append [of "map f (take n xs)" "map f (drop n xs)"] by (simp flip: map_append)

lemma update_keys: "fst ` set (AList.update k v en) = insert k (fst ` set en)"
  by (induction en) auto

lemma enabledOf_distinct: "distinct (map fst (enabledOf ds))" and enabledOf_valid: "list_all (ValidCapability \<circ> fst) (enabledOf ds)"
proof -
  let ?step = "\<lambda>en d. if ValidCapability (cpd_Capability d) then AList.update (cpd_Capability d) d en else en"
  have "distinct (map fst (foldl ?step en ds)) \<and> list_all (ValidCapability \<circ> fst) (foldl ?step en ds)"
    if "distinct (map fst en)" "list_all (ValidCapability \<circ> fst) en" for en
    using that
  proof (induction ds arbitrary: en)
    case (Cons d ds)
    have valid: "list_all (ValidCapability \<circ> fst) ys \<longleftrightarrow> fst ` set ys \<subseteq> Collect ValidCapability" for ys :: enabledCapabilities
      by (auto simp: list_all_iff)
    have "list_all (ValidCapability \<circ> fst) (?step en d)" using Cons.prems(2) unfolding valid by (simp add: update_keys)
    moreover have "distinct (map fst (?step en d))" using Cons.prems(1) by (simp add: distinct_update)
    ultimately show ?case unfolding foldl_Cons by (intro Cons.IH)
  qed simp
  from this [of "[]"] show "distinct (map fst (enabledOf ds))" "list_all (ValidCapability \<circ> fst) (enabledOf ds)"
    by (simp_all add: enabledOf_def)
qed

text \<open>The tiers partition the candidates.\<close>

lemma tiers_partition:
  assumes "list_all (\<lambda>c. cd_Tier c \<in> candidateTiers) cs"
  shows "mset cs = mset (inTier TierLocal cs) + mset (inTier TierTimeSensitive cs) + mset (inTier TierOptional cs) +
    mset (inTier TierRoutine cs) + mset (inTier TierReuse cs)"
  using assms by (induction cs) (auto simp: inTier_def candidateTiers_def tier_defs)

lemma splitDeferred_keys:
  "mset (map candidateKey (fst (splitDeferredCandidates reuse deferred))) + mset (map candidateKey (snd (splitDeferredCandidates reuse deferred))) =
   mset (map candidateKey reuse) + mset (map candidateKey deferred)"
  by (induction deferred) (auto simp: splitDeferredCandidates_def candidateKey_def)

lemma distinct_submset:
  assumes "mset xs \<subseteq># mset ys" and "distinct ys"
  shows "distinct xs"
proof -
  obtain zs where "mset ys = mset (xs @ zs)" using assms(1) by (metis mset_append mset_subset_eq_exists_conv ex_mset)
  then show ?thesis using assms(2) mset_eq_imp_distinct_iff [of ys "xs @ zs"] by simp
qed

lemma candidateFor_reuse:
  assumes "candidateFor inp subject c x" and "cd_ReuseRunID x \<noteq> []"
  shows "candidateFor inp subject c (x\<lparr>cd_Tier := TierReuse, cd_Optional := v\<rparr>)"
proof -
  have "TierReuse \<in> candidateTiers" "TierReuse \<noteq> TierLocal" by (simp_all add: candidateTiers_def tier_defs)
  then show ?thesis using assms by (simp add: candidateFor_def)
qed

locale planning =
  fixes inp :: plannerInput and en :: enabledCapabilities
  assumes distinct_enabled: "distinct (map fst en)"
    and valid_enabled: "list_all (ValidCapability \<circ> fst) en"
begin

abbreviation "cs \<equiv> allCandidates inp en False (pn_Members inp)"

abbreviation "fair \<equiv> allocateFairly (pn_CycleCap inp) (pn_InvestigationCredit inp)
   (inTier TierTimeSensitive cs) (inTier TierOptional cs) (inTier TierRoutine cs)"

abbreviation "split \<equiv> splitDeferredCandidates (inTier TierReuse cs) (al_Deferred fair)"

abbreviation "ordered \<equiv> sortByTierThenKey (inTier TierLocal cs @ al_Admitted fair @ fst split)"

lemma plans_eq: "plansOver inp en =
    (map candidateToPlan (take MaxPlansPerCycle ordered),
     \<lparr>al_PhaseAllocation = (al_PhaseAllocation fair)\<lparr>
        pa_OptionalWallMilliseconds := (if pa_OptionalPlanID (al_PhaseAllocation fair) \<noteq> [] \<and> pn_PreparationWall inp > 0
          then thirdMilliseconds (pn_PreparationWall inp) else pa_OptionalWallMilliseconds (al_PhaseAllocation fair)),
        pa_Deferred := map candidateKey (take MaxPlansPerCycle (snd split @ drop MaxPlansPerCycle ordered))\<rparr>,
      al_Admitted = take MaxPlansPerCycle ordered, al_Deferred = snd split @ drop MaxPlansPerCycle ordered\<rparr>)"
  by (simp add: plansOver_def Let_def split_beta)

lemma candidates_for: "c \<in> set cs \<Longrightarrow> candidateFor inp (cd_Subject c) (cd_Capability c) c \<and> ValidCapability (cd_Capability c)"
  using allCandidates_for(1,2) [OF _ distinct_enabled] valid_enabled by (fastforce simp: list_all_iff)

lemma keys_conserved: "mset (map candidateKey (take MaxPlansPerCycle ordered)) + mset (map candidateKey (snd split @ drop MaxPlansPerCycle ordered)) =
    mset (map candidateKey cs)"
proof -
  have "list_all (\<lambda>c. cd_Tier c \<in> candidateTiers) cs"
    using candidates_for by (auto simp: list_all_iff candidateFor_def)
  from arg_cong [OF tiers_partition [OF this], of "image_mset candidateKey"]
  have whole: "mset (map candidateKey cs) = mset (map candidateKey (inTier TierLocal cs)) +
      image_mset candidateKey (mset (inTier TierTimeSensitive cs) + mset (inTier TierOptional cs) + mset (inTier TierRoutine cs)) +
      mset (map candidateKey (inTier TierReuse cs))" by (simp add: ac_simps)
  have "mset (map candidateKey (take MaxPlansPerCycle ordered)) + mset (map candidateKey (drop MaxPlansPerCycle ordered)) = mset (map candidateKey ordered)"
    by (simp only: mset_append [symmetric] map_append [symmetric] append_take_drop_id)
  then show ?thesis
    using splitDeferred_keys [of "inTier TierReuse cs" "al_Deferred fair"]
      arg_cong [OF allocateFairly_splits [of "pn_CycleCap inp" "pn_InvestigationCredit inp" "inTier TierTimeSensitive cs" "inTier TierOptional cs" "inTier TierRoutine cs"], of "image_mset candidateKey"]
    unfolding whole by (simp add: sortByTierThenKey_def ac_simps)
qed

text \<open>A deferred candidate with a retained run is projected by reuse, unless the plan limit cut it.\<close>

lemma deferred_bare: "c \<in> set (snd split) \<Longrightarrow> cd_ReuseRunID c = []"
  by (simp add: splitDeferredCandidates_def)

lemma ordered_from:
  assumes "c \<in> set ordered"
  shows "\<exists>d \<in> set cs. c = d \<or> cd_ReuseRunID d \<noteq> [] \<and> c = d\<lparr>cd_Tier := TierReuse, cd_Optional := False\<rparr>"
proof -
  have sub: "set (al_Admitted fair) \<union> set (al_Deferred fair) \<subseteq> set cs" "set (inTier t cs) \<subseteq> set cs" for t
    using arg_cong [OF allocateFairly_splits [of "pn_CycleCap inp" "pn_InvestigationCredit inp" "inTier TierTimeSensitive cs" "inTier TierOptional cs" "inTier TierRoutine cs"], of set_mset]
    by (auto simp: inTier_def)
  have "set ordered = set (inTier TierLocal cs) \<union> set (al_Admitted fair) \<union> set (fst split)"
    unfolding sortByTierThenKey_def set_sort set_append by (simp only: Un_assoc)
  moreover have "set (fst split) = set (inTier TierReuse cs) \<union>
      (\<lambda>d. d\<lparr>cd_Tier := TierReuse, cd_Optional := False\<rparr>) ` {d \<in> set (al_Deferred fair). cd_ReuseRunID d \<noteq> []}"
    by (simp only: splitDeferredCandidates_def fst_conv set_append set_map set_filter)
  ultimately consider "c \<in> set cs" | d where "d \<in> set cs" "cd_ReuseRunID d \<noteq> []" "c = d\<lparr>cd_Tier := TierReuse, cd_Optional := False\<rparr>"
    using assms sub by blast
  then show ?thesis by cases blast+
qed

lemma ordered_for:
  assumes "c \<in> set ordered"
  shows "candidateFor inp (cd_Subject c) (cd_Capability c) c" and "ValidCapability (cd_Capability c)"
proof -
  obtain d where d: "d \<in> set cs" "c = d \<or> cd_ReuseRunID d \<noteq> [] \<and> c = d\<lparr>cd_Tier := TierReuse, cd_Optional := False\<rparr>"
    using ordered_from [OF assms] by blast
  have ids: "cd_Subject c = cd_Subject d" "cd_Capability c = cd_Capability d" using d(2) by auto
  show "ValidCapability (cd_Capability c)" unfolding ids using candidates_for [OF d(1)] by (rule conjunct2)
  show "candidateFor inp (cd_Subject c) (cd_Capability c) c"
    unfolding ids using d(2) candidates_for [OF d(1), THEN conjunct1] candidateFor_reuse by blast
qed

lemma planRequests_within:
  assumes "0 < pn_CycleCap inp"
  shows "sum_list (map pl_MaxRequests (map candidateToPlan ordered)) \<le> pn_CycleCap inp"
proof -
  let ?r = "\<lambda>c. pl_MaxRequests (candidateToPlan c)"
  have nonneg: "list_all (\<lambda>c. 0 \<le> cd_MaxRequests c) (inTier t cs)" for t
    using candidates_for assms by (auto simp: list_all_iff inTier_def candidateFor_def)
  have reuse: "sum_list (map ?r (fst split)) = 0"
    by (rule sum_map_0) (auto simp: splitDeferredCandidates_def inTier_def candidateToPlan_def)
  have locals: "sum_list (map ?r (inTier TierLocal cs)) = 0"
    using candidates_for by (intro sum_map_0) (auto simp: inTier_def candidateToPlan_def candidateFor_def)
  have fairly: "sum_list (map ?r (al_Admitted fair)) \<le> requestsOf (al_Admitted fair)"
    unfolding requestsOf_def
  proof (rule sum_list_mono)
    fix c
    assume "c \<in> set (al_Admitted fair)"
    then have "c \<in> set ordered" by (simp add: sortByTierThenKey_def)
    from ordered_for(1) [OF this] show "?r c \<le> cd_MaxRequests c"
      using assms by (simp add: candidateToPlan_def candidateFor_def)
  qed
  have "sum_list (map ?r ordered) = sum_mset (image_mset ?r (mset ordered))" by (simp flip: sum_mset_sum_list)
  also have "\<dots> = sum_list (map ?r (inTier TierLocal cs)) + sum_list (map ?r (al_Admitted fair)) + sum_list (map ?r (fst split))"
    by (simp add: sortByTierThenKey_def sum_mset_sum_list flip: mset_map)
  also have "\<dots> \<le> pn_CycleCap inp"
    using reuse locals fairly allocateFairly_within(1) [of "pn_CycleCap inp" "inTier TierTimeSensitive cs" "inTier TierOptional cs" "inTier TierRoutine cs" "pn_InvestigationCredit inp"]
      assms nonneg by simp
  finally show ?thesis by (simp add: comp_def)
qed

lemma plan_valid:
  assumes "c \<in> set ordered" and "0 < pn_CycleCap inp" and "cd_Capability c \<noteq> CapabilityZabbixProblemState"
    and "tns (cd_Start c) \<noteq> 0" and "tns (pn_Anchor inp) \<noteq> 0" and "tns (cd_Start c) \<le> tns (pn_Anchor inp)"
    and "int (length (cd_Parameters c)) \<le> MaxPlanParametersBytes"
  shows "ValidatePlan (candidateToPlan c) = None"
proof -
  have "windowCapFor (cd_Capability c) = plannerWindowCap (cd_Capability c)"
    using assms(3) by (auto simp: windowCapFor_def plannerWindowCap_def)
  moreover have "validPhase (PhaseForCapability (cd_Capability c))" by (simp add: validPhase_def PhaseForCapability_def)
  moreover have "ValidTier (cd_Tier c)"
    using ordered_for(1) [OF assms(1)] by (auto simp: candidateFor_def candidateTiers_def ValidTier_def tier_defs)
  ultimately show ?thesis
    using ordered_for [OF assms(1)] assms(2-7)
    by (auto simp: ValidatePlan_iff planWellFormed_def candidateToPlan_def candidateFor_def ValidCapability_def list_ex_iff)
qed

lemma planRequests_taken:
  assumes "0 < pn_CycleCap inp"
  shows "sum_list (map pl_MaxRequests (map candidateToPlan (take n ordered))) \<le> pn_CycleCap inp"
proof -
  let ?r = "\<lambda>c. pl_MaxRequests (candidateToPlan c)"
  have "0 \<le> ?r c" if "c \<in> set (drop n ordered)" for c
    using ordered_for(1) [OF in_set_dropD [OF that]] assms by (simp add: candidateToPlan_def candidateFor_def)
  then have "0 \<le> sum_list (map ?r (drop n ordered))" by (intro sum_list_nonneg) auto
  moreover have "sum_list (map ?r ordered) = sum_list (map ?r (take n ordered)) + sum_list (map ?r (drop n ordered))"
    by (rule sum_take_drop)
  ultimately show ?thesis using planRequests_within [OF assms] by (simp add: comp_def)
qed

text \<open>At most one optional plan is admitted.\<close>

lemma one_optional: "length (filter (\<lambda>c. cd_Tier c = TierOptional) ordered) \<le> 1"
proof (rule allocateFairly_parts [of "pn_CycleCap inp" "inTier TierTimeSensitive cs" "pn_InvestigationCredit inp" "inTier TierOptional cs" "inTier TierRoutine cs"])
  fix a ad b bd c cd
  assume parts: "admitTimeSensitive (pn_CycleCap inp) 0 (sortByDeadlineThenLastServed (inTier TierTimeSensitive cs)) = (a, ad)"
    "optionalAdmission (affordableRequests (pn_InvestigationCredit inp)) (pn_CycleCap inp - requestsOf a) (sortByLastServed (inTier TierOptional cs)) = (b, bd)"
    "admitRoutine (pn_CycleCap inp - requestsOf a - requestsOf b) (sortRoutineByPhaseThenLastServed (inTier TierRoutine cs)) = (c, cd)"
    "al_Admitted fair = a @ b @ c"
  let ?opt = "filter (\<lambda>c. cd_Tier c = TierOptional)"
  have none: "?opt xs = []" if "set xs \<subseteq> {x. cd_Tier x = t}" "t \<noteq> TierOptional" for xs t
    using that by (auto simp: filter_empty_conv)
  have "set a \<subseteq> {x. cd_Tier x = TierTimeSensitive}" "set c \<subseteq> {x. cd_Tier x = TierRoutine}"
    using timely.admitted_subset [of "pn_CycleCap inp" "sortByDeadlineThenLastServed (inTier TierTimeSensitive cs)"]
      routine.admitted_subset [of "pn_CycleCap inp - requestsOf a - requestsOf b" "sortRoutineByPhaseThenLastServed (inTier TierRoutine cs)"] parts(1,3)
    by (auto simp: sortByDeadlineThenLastServed_def sortRoutineByPhaseThenLastServed_def inTier_def)
  moreover have "set (inTier TierLocal cs) \<subseteq> {x. cd_Tier x = TierLocal}" "set (fst split) \<subseteq> {x. cd_Tier x = TierReuse}"
    by (auto simp: inTier_def splitDeferredCandidates_def)
  moreover have "TierTimeSensitive \<noteq> TierOptional" "TierRoutine \<noteq> TierOptional" "TierLocal \<noteq> TierOptional" "TierReuse \<noteq> TierOptional"
    by (simp_all add: tier_defs)
  ultimately have "?opt a = []" "?opt c = []" "?opt (inTier TierLocal cs) = []" "?opt (fst split) = []" using none by blast+
  then have "length (?opt (inTier TierLocal cs @ al_Admitted fair @ fst split)) = length (?opt b)" by (simp only: parts(4) filter_append, simp)
  also have "\<dots> \<le> length b" by (rule length_filter_le)
  also have "\<dots> \<le> 1" using parts(2) by (auto simp: optionalAdmission_def split_beta split: option.splits)
  finally show ?thesis
    unfolding sortByTierThenKey_def by (simp only: filter_sort length_sort)
qed

text \<open>Members with their own subject give keys that tell the candidates, and so the plans, apart.\<close>

lemma keys_distinct:
  assumes "distinct (map ms_SubjectID (pn_Members inp))"
  shows "distinct (map candidateKey cs)" and "distinct (map candidateKey ordered)"
proof -
  have pairs: "distinct (map (\<lambda>x. (cd_Capability x, cd_Subject x)) cs)" by (rule allCandidates_distinct [OF assms distinct_enabled])
  moreover have "inj_on candidateKey (set cs)"
  proof (rule inj_onI)
    fix x y
    assume xy: "x \<in> set cs" "y \<in> set cs" "candidateKey x = candidateKey y"
    then have "(cd_Capability x, cd_Subject x) = (cd_Capability y, cd_Subject y)"
      using candidateKey_inj candidates_for by (metis (no_types, lifting))
    then show "x = y" using pairs xy(1,2) unfolding distinct_map inj_on_def by blast
  qed
  ultimately show cs: "distinct (map candidateKey cs)" by (simp add: distinct_map)
  have "mset (map candidateKey ordered) \<subseteq># mset (map candidateKey cs)"
    unfolding keys_conserved [symmetric]
    by (subst append_take_drop_id [of MaxPlansPerCycle ordered, symmetric]) (simp only: map_append mset_append, simp)
  then show "distinct (map candidateKey ordered)"
    using cs by (rule distinct_submset)
qed

end

interpretation planned: planning inp "enabledOf (pn_Configured inp)" for inp
  by unfold_locales (rule enabledOf_distinct enabledOf_valid)+

section \<open>The order of the map\<close>

lemma inTier_perm: "mset cs = mset cs' \<Longrightarrow> mset (inTier t cs) = mset (inTier t cs')"
  by (simp add: inTier_def)

lemma sort_by_key_perm:
  assumes "mset xs = mset ys" and "distinct (map candidateKey xs)"
  shows "sort_key (\<lambda>c. (f c, candidateKey c)) xs = sort_key (\<lambda>c. (f c, candidateKey c)) ys"
  using assms by (intro sort_key_perm) (auto simp: inj_on_def distinct_map)

lemma sort_by_key_perm2:
  assumes "mset xs = mset ys" and "distinct (map candidateKey xs)"
  shows "sort_key (\<lambda>c. (f c, g c, candidateKey c)) xs = sort_key (\<lambda>c. (f c, g c, candidateKey c)) ys"
  using assms by (intro sort_key_perm) (auto simp: inj_on_def distinct_map)

lemma allocateFairly_perm:
  assumes "mset ts = mset ts'" "mset opt = mset opt'" "mset rt = mset rt'"
    and "distinct (map candidateKey ts)" "distinct (map candidateKey opt)" "distinct (map candidateKey rt)"
  shows "allocateFairly cap credit ts opt rt = allocateFairly cap credit ts' opt' rt'"
proof -
  have "sortByDeadlineThenLastServed ts = sortByDeadlineThenLastServed ts'" "sortByLastServed opt = sortByLastServed opt'"
    "sortRoutineByPhaseThenLastServed rt = sortRoutineByPhaseThenLastServed rt'"
    unfolding sortByDeadlineThenLastServed_def sortByLastServed_def sortRoutineByPhaseThenLastServed_def
    using assms by (auto intro: sort_by_key_perm sort_by_key_perm2)
  then show ?thesis by (simp only: allocateFairly_def)
qed

lemma plansOver_perm:
  assumes perm: "mset en' = mset en" and "distinct (map fst en)" "list_all (ValidCapability \<circ> fst) en"
    and subjects: "distinct (map ms_SubjectID (pn_Members inp))"
  shows "plansOver inp en' = plansOver inp en"
proof -
  have here: "planning en" by unfold_locales (fact assms(2,3))+
  have en': "distinct (map fst en')" "list_all (ValidCapability \<circ> fst) en'"
    using assms(2,3) mset_eq_setD [OF perm] mset_eq_imp_distinct_iff [of "map fst en'" "map fst en"] perm
    by (simp_all add: list_all_iff)
  then have there: "planning en'" by unfold_locales
  let ?cs = "allCandidates inp en False (pn_Members inp)" and ?cs' = "allCandidates inp en' False (pn_Members inp)"
  let ?fair = "allocateFairly (pn_CycleCap inp) (pn_InvestigationCredit inp)
    (inTier TierTimeSensitive ?cs) (inTier TierOptional ?cs) (inTier TierRoutine ?cs)"
  let ?fair' = "allocateFairly (pn_CycleCap inp) (pn_InvestigationCredit inp)
    (inTier TierTimeSensitive ?cs') (inTier TierOptional ?cs') (inTier TierRoutine ?cs')"
  have same: "mset ?cs' = mset ?cs" by (rule allCandidates_perm [OF perm en'(1)])
  have "distinct (map candidateKey (inTier t ?cs'))" for t
    using planning.keys_distinct(1) [OF there subjects] by (auto simp: inTier_def distinct_map inj_on_def)
  then have fair: "?fair' = ?fair" by (intro allocateFairly_perm inTier_perm same)
  let ?split = "splitDeferredCandidates (inTier TierReuse ?cs) (al_Deferred ?fair)"
  let ?split' = "splitDeferredCandidates (inTier TierReuse ?cs') (al_Deferred ?fair')"
  have parts: "snd ?split' = snd ?split" "mset (fst ?split') = mset (fst ?split)"
    unfolding fair using inTier_perm [OF same, of TierReuse] by (simp_all add: splitDeferredCandidates_def)
  have ordered: "sortByTierThenKey (inTier TierLocal ?cs' @ al_Admitted ?fair' @ fst ?split') = sortByTierThenKey (inTier TierLocal ?cs @ al_Admitted ?fair @ fst ?split)"
    unfolding sortByTierThenKey_def
  proof (rule sort_by_key_perm2)
    show "mset (inTier TierLocal ?cs' @ al_Admitted ?fair' @ fst ?split') = mset (inTier TierLocal ?cs @ al_Admitted ?fair @ fst ?split)"
      using inTier_perm [OF same, of TierLocal] parts(2) by (simp add: fair)
    show "distinct (map candidateKey (inTier TierLocal ?cs' @ al_Admitted ?fair' @ fst ?split'))"
      using planning.keys_distinct(2) [OF there subjects] by (rule distinct_submset [rotated]) (simp add: sortByTierThenKey_def)
  qed
  show ?thesis
    unfolding planning.plans_eq [OF here] planning.plans_eq [OF there]
    unfolding ordered parts(1)
    unfolding fair ..
qed

end
