(* ===== verification/Observation_Properties.thy ===== *)
theory Observation_Properties
  imports Observation_Candidates Samples
begin

text \<open>Properties of the observation planner.\<close>

section \<open>Samples\<close>

definition sampleSubject :: "string \<Rightarrow> memberSubject" where
  "sampleSubject s = \<lparr>ms_SubjectID = s, ms_Source = ''alertmanager'', ms_SourceInstanceID = None, ms_Labels = [(''alertname'', ''Down'')],
     ms_SelectorLabels = [], ms_ObservationDeadlineAt = zeroTime, ms_RecoveryGraceUntil = None, ms_Firing = True\<rparr>"

definition sampleDescriptor :: "capability \<Rightarrow> capabilityDescriptor" where
  "sampleDescriptor c = \<lparr>cpd_Capability = c, cpd_DefaultWindow = hour, cpd_DefaultLimit = 10, cpd_MaxRequestsHint = 1\<rparr>"

definition samplePlanner :: plannerInput where
  "samplePlanner = \<lparr>pn_Anchor = sampleTime 90000, pn_GroupKey = ''g'', pn_SituationID = ''s'', pn_Phase = [],
     pn_Members = [sampleSubject ''a'', sampleSubject ''b''],
     pn_Configured = [sampleDescriptor CapabilityLokiQuery, sampleDescriptor CapabilityChangeEvents], pn_ProfileGuidance = [],
     pn_RefreshCursors = [], pn_CycleCap = 3, pn_InvestigationCredit = 3, pn_RecoveryPending = False,
     pn_RefreshInterval = minute, pn_PreparationWall = 0\<rparr>"

lemmas planner_samples = samplePlanner_def sampleSubject_def sampleDescriptor_def sampleTime_def



text \<open>Every plan of the sample is built.\<close>

lemma samplePlanner_shape:
  "case BuildPlans samplePlanner of Inl _ \<Rightarrow> False
   | Inr (plans, alloc) \<Rightarrow> length plans = 3 \<and> length (al_Deferred alloc) = 1 \<and> map pl_MaxRequests plans = [1, 1, 1] \<and>
       pl_Capability (hd plans) = CapabilityChangeEvents \<and> pl_Parameters (hd plans) = [] \<and> tns (pl_Start (hd plans)) = 86400 * second"
  by code_simp

lemma samplePlanner_built:
  obtains plans alloc where "BuildPlans samplePlanner = Inr (plans, alloc)" "length plans = 3" "length (al_Deferred alloc) = 1"
    "map pl_MaxRequests plans = [1, 1, 1]" "pl_Capability (hd plans) = CapabilityChangeEvents" "pl_Parameters (hd plans) = []"
    "tns (pl_Start (hd plans)) = 86400 * second"
  using samplePlanner_shape by (auto split: sum.splits)

section \<open>Properties\<close>

lemma BuildPlans_parts:
  assumes "BuildPlans inp = Inr (plans, alloc)"
  shows "0 < pn_CycleCap inp" and "plansOver inp (enabledOf (pn_Configured inp)) = (plans, alloc)"
  using assms by (auto simp: BuildPlans_def split: if_splits)

text \<open>
  C13. A plan set stays within its budgets: its plans together may issue at most the requests of the cycle, there are at most
  sixteen of them, at most one is optional, and the optional requests cost no more than the saved investigation credit.
\<close>

theorem plans_within_budget:
  assumes "BuildPlans inp = Inr (plans, alloc)"
  shows "sum_list (map pl_MaxRequests plans) \<le> pn_CycleCap inp \<and> length plans \<le> 16 \<and>
    length (filter (\<lambda>p. pl_Tier p = TierOptional) plans) \<le> 1 \<and>
    3 * pa_OptionalRequests (al_PhaseAllocation alloc) \<le> max 0 (pn_InvestigationCredit inp)"
proof -
  note parts = BuildPlans_parts [OF assms]
  note eq = parts(2) [unfolded planned.plans_eq prod.inject]
  have plans: "plans = map candidateToPlan (take MaxPlansPerCycle (planned.ordered inp))" using eq by simp
  have "sum_list (map pl_MaxRequests plans) \<le> pn_CycleCap inp"
    unfolding plans by (rule planned.planRequests_taken [OF parts(1)])
  moreover have "length plans \<le> 16" unfolding plans by (simp add: MaxPlansPerCycle_def)
  moreover have "length (filter (\<lambda>c. cd_Tier c = TierOptional) (take MaxPlansPerCycle (planned.ordered inp))) \<le>
      length (filter (\<lambda>c. cd_Tier c = TierOptional) (planned.ordered inp))"
    by (subst append_take_drop_id [of MaxPlansPerCycle, symmetric], subst filter_append) simp
  then have "length (filter (\<lambda>p. pl_Tier p = TierOptional) plans) \<le> 1"
    using planned.one_optional [of inp] unfolding plans by (simp add: filter_map comp_def candidateToPlan_def)
  moreover have "3 * pa_OptionalRequests (al_PhaseAllocation alloc) \<le> max 0 (pn_InvestigationCredit inp)"
  proof -
    have "pa_OptionalRequests (al_PhaseAllocation alloc) = pa_OptionalRequests (al_PhaseAllocation (planned.fair inp))"
      using eq by auto
    moreover have "list_all (\<lambda>c. 0 \<le> cd_MaxRequests c) (inTier t (planned.cs inp))" for t
      using planned.candidates_for [of _ inp] parts(1) by (auto simp: list_all_iff inTier_def candidateFor_def)
    ultimately show ?thesis
      using parts(1) by (simp add: allocateFairly_within(2))
  qed
  ultimately show ?thesis by blast
qed

theorem plans_within_budget_witness:
  "\<exists>plans alloc. BuildPlans samplePlanner = Inr (plans, alloc) \<and> sum_list (map pl_MaxRequests plans) = 3 \<and> 3 \<le> pn_CycleCap samplePlanner"
proof (rule samplePlanner_built)
  fix plans alloc
  assume built: "BuildPlans samplePlanner = Inr (plans, alloc)" "map pl_MaxRequests plans = [1, 1, 1]"
  then show ?thesis using plans_within_budget [OF built(1)] by auto
qed

text \<open>
  C14. Nothing a member calls for is lost or planned twice: every candidate is either planned or reported as deferred, and no
  candidate that has a retained run to show is deferred unless the plan limit was reached.
\<close>

theorem planning_conserves:
  assumes "BuildPlans inp = Inr (plans, alloc)"
  shows "plans = map candidateToPlan (al_Admitted alloc) \<and>
    mset (map candidateKey (al_Admitted alloc)) + mset (map candidateKey (al_Deferred alloc)) =
         mset (map candidateKey (allCandidates inp (enabledOf (pn_Configured inp)) False (pn_Members inp))) \<and>
    (length plans < 16 \<longrightarrow> list_all (\<lambda>c. cd_ReuseRunID c = []) (al_Deferred alloc))"
proof -
  note eq = BuildPlans_parts(2) [OF assms, unfolded planned.plans_eq prod.inject]
  have alloc: "al_Admitted alloc = take MaxPlansPerCycle (planned.ordered inp)"
    "al_Deferred alloc = snd (planned.split inp) @ drop MaxPlansPerCycle (planned.ordered inp)"
    using eq by auto
  show ?thesis
  proof (intro conjI impI)
    show "plans = map candidateToPlan (al_Admitted alloc)" using eq alloc(1) by simp
    show "mset (map candidateKey (al_Admitted alloc)) + mset (map candidateKey (al_Deferred alloc)) = mset (map candidateKey (planned.cs inp))"
      unfolding alloc by (rule planned.keys_conserved)
    assume "length plans < 16"
    then have "drop MaxPlansPerCycle (planned.ordered inp) = []" using eq by (auto simp: MaxPlansPerCycle_def)
    then show "list_all (\<lambda>c. cd_ReuseRunID c = []) (al_Deferred alloc)"
      unfolding alloc list_all_iff using planned.deferred_bare by simp
  qed
qed

theorem planning_conserves_witness:
  "\<exists>plans alloc. BuildPlans samplePlanner = Inr (plans, alloc) \<and> list_all (\<lambda>c. cd_ReuseRunID c = []) (al_Deferred alloc) \<and>
     size (mset (map candidateKey (al_Admitted alloc))) = 3"
proof (rule samplePlanner_built)
  fix plans alloc
  assume built: "BuildPlans samplePlanner = Inr (plans, alloc)" "length plans = 3"
  then show ?thesis using planning_conserves [OF built(1)] by auto
qed

text \<open>
  C15. The plan set does not depend on the order in which the map of enabled capabilities is visited, as long as the members have
  distinct subjects.
\<close>

theorem planning_ignores_map_order:
  assumes "mset enabled = mset (enabledOf (pn_Configured inp))" and "distinct (map ms_SubjectID (pn_Members inp))"
  shows "plansOver inp enabled = plansOver inp (enabledOf (pn_Configured inp))"
  using assms by (intro plansOver_perm enabledOf_distinct enabledOf_valid)

theorem planning_ignores_map_order_witness:
  "plansOver samplePlanner (rev (enabledOf (pn_Configured samplePlanner))) = plansOver samplePlanner (enabledOf (pn_Configured samplePlanner)) \<and>
   rev (enabledOf (pn_Configured samplePlanner)) \<noteq> enabledOf (pn_Configured samplePlanner)"
proof
  show "plansOver samplePlanner (rev (enabledOf (pn_Configured samplePlanner))) = plansOver samplePlanner (enabledOf (pn_Configured samplePlanner))"
    by (rule planning_ignores_map_order) (simp_all add: samplePlanner_def sampleSubject_def)
  show "rev (enabledOf (pn_Configured samplePlanner)) \<noteq> enabledOf (pn_Configured samplePlanner)" by code_simp
qed

text \<open>
  C16. Every plan the planner builds is accepted by the plan validator, given an anchor and a window that is not in the future, a
  parameter document within its limit, and a capability other than the exact Zabbix problem state, whose window the planner
  does not cap.
\<close>

theorem built_plans_valid:
  assumes "BuildPlans inp = Inr (plans, alloc)" and "p \<in> set plans" and "pl_Capability p \<noteq> CapabilityZabbixProblemState"
    and "\<not> tIsZero (pn_Anchor inp)" and "\<not> tIsZero (pl_Start p)" and "\<not> tAfter (pl_Start p) (pn_Anchor inp)"
    and "int (length (pl_Parameters p)) \<le> MaxPlanParametersBytes"
  shows "ValidatePlan p = None"
proof -
  note parts = BuildPlans_parts [OF assms(1)]
  obtain c where c: "c \<in> set (planned.ordered inp)" "p = candidateToPlan c"
    using assms(2) parts(2) [unfolded planned.plans_eq prod.inject] in_set_takeD by fastforce
  show ?thesis unfolding c(2)
    by (rule planned.plan_valid [OF c(1) parts(1)]) (use assms c(2) in \<open>simp_all add: candidateToPlan_def time_defs\<close>)
qed

theorem built_plans_valid_witness:
  "\<exists>plans alloc. BuildPlans samplePlanner = Inr (plans, alloc) \<and> ValidatePlan (hd plans) = None"
proof (rule samplePlanner_built)
  fix plans alloc
  assume built: "BuildPlans samplePlanner = Inr (plans, alloc)" "length plans = 3" "pl_Capability (hd plans) = CapabilityChangeEvents"
    "pl_Parameters (hd plans) = []" "tns (pl_Start (hd plans)) = 86400 * second"
  have "hd plans \<in> set plans" using built(2) by (cases plans) simp_all
  have "ValidatePlan (hd plans) = None"
    by (rule built_plans_valid [OF built(1) \<open>hd plans \<in> set plans\<close>])
      (use built in \<open>auto simp: time_defs capability_defs samplePlanner_def sampleTime_def second_def MaxPlanParametersBytes_def\<close>)
  then show ?thesis using built by blast
qed

end
