(* ===== verification/Preparation_Store.thy ===== *)
theory Preparation_Store
  imports Observation_Plan
begin

text \<open>
  Package \<^verbatim>\<open>internal/store\<close>, \<^verbatim>\<open>situation_preparation.go\<close>: the frozen preparation cycles, their plans, the durable request
  reservations and outcomes, the committed runs with their facts, the refresh cursors and the references that protect
  fact payloads.  A table is the list of its rows in insertion order; a transaction is a function from the tables to an
  error, which leaves them unchanged, or to the new tables.  A column that holds a time in the canonical text form
  holds the instant here, except where the code compares the texts; a JSON column holds the decoded value.

  What the code reads from elsewhere is an argument: the canonical form, the compact form and the validity of raw JSON, and
  the tables of the source definitions with the wake-up a changed definition causes (\<^verbatim>\<open>zabbix_source_provenance.go\<close>).
\<close>

section \<open>Results\<close>

definition andThen :: "'e + 'a \<Rightarrow> ('a \<Rightarrow> 'e + 'b) \<Rightarrow> 'e + 'b" where
  "andThen x f = (case x of Inl e \<Rightarrow> Inl e | Inr v \<Rightarrow> f v)"

definition failIf :: "bool \<Rightarrow> string \<Rightarrow> string + unit" where
  "failIf b e = (if b then Inl e else Inr ())"

definition failWith :: "goerror \<Rightarrow> string + unit" where
  "failWith e = (case e of None \<Rightarrow> Inr () | Some m \<Rightarrow> Inl m)"

definition orFail :: "'a option \<Rightarrow> string \<Rightarrow> string + 'a" where
  "orFail x e = (case x of None \<Rightarrow> Inl e | Some v \<Rightarrow> Inr v)"

lemma andThen_Inr [simp]: "andThen x f = Inr y \<longleftrightarrow> (\<exists>v. x = Inr v \<and> f v = Inr y)"
  by (simp add: andThen_def split: sum.split)

lemma failIf_Inr [simp]: "failIf b e = Inr u \<longleftrightarrow> \<not> b"
  by (simp add: failIf_def)

lemma failWith_Inr [simp]: "failWith e = Inr u \<longleftrightarrow> e = None"
  by (simp add: failWith_def split: option.split)

lemma orFail_Inr [simp]: "orFail x e = Inr v \<longleftrightarrow> x = Some v"
  by (simp add: orFail_def split: option.split)

lemmas result_defs = andThen_def failIf_def failWith_def orFail_def

section \<open>Rows\<close>

record fence =
  fn_SituationID :: string
  fn_InputVersion :: int
  fn_Owner :: string
  fn_Token :: int

record cycleDraft =
  cyd_Anchor :: gtime
  cyd_ConfigDigest :: string
  cyd_RefreshInterval :: duration
  cyd_ProfileVersionIDs :: "string list"
  cyd_ProfileGuidance :: "profileGuidance list"
  cyd_Plans :: "plan list"
  cyd_Allocation :: phaseAllocation

record cycle =
  cyc_ID :: string
  cyc_Fence :: fence
  cyc_Generation :: int
  cyc_Draft :: cycleDraft
  cyc_MaxRequests :: int
  cyc_Sealed :: bool

record requestReservation =
  rsv_ID :: string
  rsv_CycleID :: string
  rsv_PlanID :: string
  rsv_Ordinal :: int
  rsv_ReservedAt :: gtime

record requestOutcome =
  rqo_ReservationID :: string
  rqo_RequestStarted :: string
  rqo_Code :: string
  rqo_CompletedAt :: gtime

text \<open>The columns of \<^verbatim>\<open>situations\<close> that preparation reads and writes.\<close>

record situationColumns =
  stc_ID :: string
  stc_InputVersion :: int
  stc_LeaseOwner :: "string option"
  stc_ClaimToken :: int
  stc_LeaseExpiresAt :: "string option"
  stc_PreparationGeneration :: int
  stc_CurrentPreparationCycleID :: "string option"
  stc_InvestigationCredit :: int
  stc_InvestigationCreditAccruedAt :: "gtime option"

record cycleRow =
  cyr_ID :: string
  cyr_SituationID :: string
  cyr_InputVersion :: int
  cyr_Generation :: int
  cyr_Anchor :: gtime
  cyr_ConfigDigest :: string
  cyr_ProfileVersionIDs :: "string list"
  cyr_ProfileGuidance :: "profileGuidance list"
  cyr_MaxRequests :: int
  cyr_Allocation :: phaseAllocation
  cyr_OptionalCreditSpent :: int
  cyr_Sealed :: bool
  cyr_SealedAt :: "gtime option"
  cyr_RefreshSeconds :: int

record refreshRow =
  rfw_SituationID :: string
  rfw_Subject :: string
  rfw_Capability :: capability
  rfw_ScopeDigest :: string
  rfw_LastServedAt :: gtime
  rfw_NextRefreshAt :: gtime
  rfw_AdmittedCycleID :: string
  rfw_LastRunID :: "string option"

record referenceRow =
  rfr_ID :: string
  rfr_RunID :: string
  rfr_Kind :: string
  rfr_OwnerID :: string
  rfr_Permanent :: bool
  rfr_Superseded :: bool
  rfr_CreatedAt :: gtime
  rfr_MetadataOnly :: bool

text \<open>
  A run row is the run without its facts; a fact row carries its run's ID and no value; the payloads hold the values.
\<close>

record 'x prepStore =
  tb_Situations :: "situationColumns list"
  tb_Cycles :: "cycleRow list"
  tb_Plans :: "plan list"
  tb_Requests :: "requestReservation list"
  tb_Outcomes :: "requestOutcome list"
  tb_Runs :: "run list"
  tb_Facts :: "observationFact list"
  tb_Payloads :: "(string \<times> string) list"
  tb_Refresh :: "refreshRow list"
  tb_References :: "referenceRow list"
  tb_Expirations :: "(string \<times> gtime) list"
  tb_Source :: 'x

record 'x storeEnv =
  sve_CanonicalJSON :: "string \<Rightarrow> string + string"
  sve_Compact :: "string \<Rightarrow> string"
  sve_JSONValid :: "string \<Rightarrow> bool"
  sve_RecordSource :: "string \<Rightarrow> string \<Rightarrow> observationFact \<Rightarrow> gtime \<Rightarrow> 'x \<Rightarrow> string + 'x \<times> bool"
  sve_WakeForSource :: "string \<Rightarrow> gtime \<Rightarrow> 'x \<Rightarrow> string + 'x"

definition updateWhere :: "('a \<Rightarrow> bool) \<Rightarrow> ('a \<Rightarrow> 'a) \<Rightarrow> 'a list \<Rightarrow> 'a list" where
  "updateWhere p f xs = map (\<lambda>x. if p x then f x else x) xs"

definition canonicalTime :: "gtime \<Rightarrow> string" where
  "canonicalTime t = formatTime True (tUTC t)"

definition observationDetailRetention :: duration where "observationDetailRetention = 10 * 24 * hour"
definition investigationCreditCostPerRequest :: int where "investigationCreditCostPerRequest = 3"

definition ErrSituationLeaseLost :: string where "ErrSituationLeaseLost = ''store: situation lease lost''"
definition ErrSituationVersionConflict :: string where "ErrSituationVersionConflict = ''store: situation version conflict''"
definition ErrPreparationCycleSealed :: string where
  "ErrPreparationCycleSealed = ''store: preparation cycle is already sealed''"
definition ErrPreparationCycleNotCurrent :: string where
  "ErrPreparationCycleNotCurrent = ''store: preparation cycle is not the situation's current cycle for this input''"
definition ErrBudgetExhausted :: string where "ErrBudgetExhausted = ''observation: request budget exhausted''"
definition ErrConflictingReplay :: string where
  "ErrConflictingReplay = ''observation: conflicting replay for an already-committed run''"

section \<open>Fences\<close>

definition situationOf :: "'x prepStore \<Rightarrow> string \<Rightarrow> situationColumns option" where
  "situationOf st i = find (\<lambda>s. stc_ID s = i) (tb_Situations st)"

definition verifyFence :: "'x prepStore \<Rightarrow> fence \<Rightarrow> gtime \<Rightarrow> goerror" where
  "verifyFence st f now =
     (case find (\<lambda>s. stc_ID s = fn_SituationID f \<and> stc_LeaseOwner s = Some (fn_Owner f) \<and> stc_ClaimToken s = fn_Token f)
             (tb_Situations st) of
        None \<Rightarrow> Some ErrSituationLeaseLost
      | Some s \<Rightarrow>
          (case stc_LeaseExpiresAt s of None \<Rightarrow> Some ErrSituationLeaseLost
           | Some expires \<Rightarrow>
               if expires \<le> canonicalTime now then Some ErrSituationLeaseLost
               else if stc_InputVersion s \<noteq> fn_InputVersion f then Some ErrSituationVersionConflict
               else None))"

definition openCycleForWrite :: "'x prepStore \<Rightarrow> fence \<Rightarrow> string \<Rightarrow> string + cycleRow" where
  "openCycleForWrite st f cycleID =
     (case find (\<lambda>c. cyr_ID c = cycleID \<and> situationOf st (cyr_SituationID c) \<noteq> None) (tb_Cycles st) of
        None \<Rightarrow> Inl ''store: unknown cycle''
      | Some c \<Rightarrow>
          if cyr_SituationID c \<noteq> fn_SituationID f then Inl ''store: cycle does not belong to situation''
          else if cyr_InputVersion c \<noteq> fn_InputVersion f then Inl ErrSituationVersionConflict
          else if (case situationOf st (cyr_SituationID c) of None \<Rightarrow> None | Some s \<Rightarrow> stc_CurrentPreparationCycleID s) \<noteq> Some cycleID
          then Inl ErrPreparationCycleNotCurrent
          else Inr c)"

section \<open>Plan identity\<close>

definition planIDSchemaVersion :: int where "planIDSchemaVersion = 1"

definition scopeJSON :: "scope \<Rightarrow> json" where
  "scopeJSON s = JObject
     ([(''group_key'', JString (sp_GroupKey s)), (''source'', JString (sp_Source s)), (''subject_id'', JString (sp_SubjectID s))] @
      (if sp_Labels s = [] then [] else [(''labels'', JObject (map (\<lambda>(k, v). (k, JString v)) (sort_key fst (sp_Labels s))))]))"

definition planJSON :: "plan \<Rightarrow> json" where
  "planJSON p = JObject
     ([(''id'', JString (pl_ID p)), (''cycle_id'', JString (pl_CycleID p)), (''capability'', JString (pl_Capability p)),
       (''phase'', JString (pl_Phase p)), (''scope'', scopeJSON (pl_Scope p))] @
      (if pl_Parameters p = [] then [] else [(''parameters'', JRaw (pl_Parameters p))]) @
      [(''start'', jTime (pl_Start p)), (''end'', jTime (pl_End p)), (''eligible_at'', jTime (pl_EligibleAt p)),
       (''limit'', JInt (pl_Limit p)), (''max_requests'', JInt (pl_MaxRequests p)), (''purpose'', JString (pl_Purpose p))] @
      jOmitList ''reconsider_on'' JString (pl_ReconsiderOn p) @ jOmitList ''stop_on'' JString (pl_StopOn p) @
      jOmitString ''tier'' (pl_Tier p) @ jOmitString ''reuse_run_id'' (pl_ReuseRunID p))"

definition CanonicalPlanID :: "(string \<Rightarrow> string + string) \<Rightarrow> string \<Rightarrow> plan \<Rightarrow> string + string" where
  "CanonicalPlanID canonicalJSON cycleID p =
     andThen (failIf (cycleID = []) ''observation/model: cycle id required'') (\<lambda>_.
     andThen (failWith (ValidatePlan p)) (\<lambda>_.
     andThen (if blank (pl_Parameters p) then Inr ''null'' else canonicalJSON (pl_Parameters p)) (\<lambda>params.
       Inr (''plan:sha256:'' @ sha256hex (marshal (JObject
         [(''schema'', JInt planIDSchemaVersion), (''cycle'', JString cycleID),
          (''plan'', planJSON (p\<lparr>pl_ID := [], pl_CycleID := [], pl_Start := tUTC (pl_Start p), pl_End := tUTC (pl_End p),
             pl_EligibleAt := tUTC (pl_EligibleAt p), pl_Parameters := params\<rparr>))]))))))"

definition scopeDigest :: "scope \<Rightarrow> string" where
  "scopeDigest s = sha256hex (marshal (scopeJSON s))"

definition deterministicCycleID :: "string \<Rightarrow> int \<Rightarrow> int \<Rightarrow> string" where
  "deterministicCycleID situationID inputVersion generation =
     ''cycle:sha256:'' @ sha256hex (situationID @ ''|'' @ itoa inputVersion @ ''|'' @ itoa generation)"

section \<open>Freezing a cycle\<close>

definition planTier :: "plan \<Rightarrow> string" where
  "planTier p = (if pl_Tier p \<noteq> [] then pl_Tier p else if pl_MaxRequests p = 0 then TierLocal else TierRoutine)"

text \<open>The row of a plan, and so the plan a later load returns.\<close>

definition storedPlan :: "string \<Rightarrow> plan \<Rightarrow> plan" where
  "storedPlan cycleID p =
     p\<lparr>pl_CycleID := cycleID, pl_Parameters := (if pl_Parameters p = [] then ''null'' else pl_Parameters p),
       pl_Start := tUTC (pl_Start p), pl_End := tUTC (pl_End p), pl_EligibleAt := tUTC (pl_EligibleAt p), pl_Tier := planTier p\<rparr>"

definition insertObservationPlan :: "'x storeEnv \<Rightarrow> string \<Rightarrow> plan \<Rightarrow> 'x prepStore \<Rightarrow> string + 'x prepStore" where
  "insertObservationPlan env cycleID p st =
     andThen (failIf (pl_ID p \<in> pl_ID ` set (tb_Plans st)) ''store: insert observation plan'') (\<lambda>_.
     andThen (failIf (pl_ReuseRunID p \<noteq> [] \<and> pl_ReuseRunID p \<notin> rn_ID ` set (tb_Runs st)) ''store: insert observation plan'') (\<lambda>_.
     andThen (failIf (\<not> sve_JSONValid env (pl_Parameters (storedPlan cycleID p))) ''store: insert observation plan'') (\<lambda>_.
       Inr (st\<lparr>tb_Plans := tb_Plans st @ [storedPlan cycleID p]\<rparr>))))"

definition detailExpired :: "'x prepStore \<Rightarrow> string \<Rightarrow> bool" where
  "detailExpired st runID \<longleftrightarrow> runID \<in> fst ` set (tb_Expirations st)"

definition cycleSituation :: "'x prepStore \<Rightarrow> string \<Rightarrow> string option" where
  "cycleSituation st cycleID = map_option cyr_SituationID (find (\<lambda>c. cyr_ID c = cycleID) (tb_Cycles st))"

definition runSituation :: "'x prepStore \<Rightarrow> string \<Rightarrow> string option" where
  "runSituation st runID =
     (case find (\<lambda>r. rn_ID r = runID) (tb_Runs st) of None \<Rightarrow> None | Some r \<Rightarrow> cycleSituation st (rn_CycleID r))"

text \<open>\<^verbatim>\<open>INSERT OR IGNORE\<close> of a temporary reference.\<close>

definition addReference :: "string \<Rightarrow> string \<Rightarrow> string \<Rightarrow> string \<Rightarrow> gtime \<Rightarrow> 'x prepStore \<Rightarrow> 'x prepStore" where
  "addReference i runID kind owner now st =
     (if i \<in> rfr_ID ` set (tb_References st) then st
      else st\<lparr>tb_References := tb_References st @
        [\<lparr>rfr_ID = i, rfr_RunID = runID, rfr_Kind = kind, rfr_OwnerID = owner, rfr_Permanent = False,
          rfr_Superseded = False, rfr_CreatedAt = now, rfr_MetadataOnly = False\<rparr>]\<rparr>)"

definition currentCycleReference :: "string \<Rightarrow> string \<Rightarrow> string" where
  "currentCycleReference cycleID runID = ''ref:current_cycle:'' @ cycleID @ '':'' @ runID"

definition insertCurrentCycleReference :: "string \<Rightarrow> string \<Rightarrow> string \<Rightarrow> gtime \<Rightarrow> 'x prepStore \<Rightarrow> string + 'x prepStore" where
  "insertCurrentCycleReference situationID cycleID runID now st =
     andThen (orFail (runSituation st runID) ''store: reusable run does not exist'') (\<lambda>owner.
     andThen (failIf (owner \<noteq> situationID) ''store: reusable run belongs to another situation'') (\<lambda>_.
       Inr (if detailExpired st runID then st
            else addReference (currentCycleReference cycleID runID) runID ''current_cycle'' cycleID now st)))"

definition loadObservationPlans :: "'x prepStore \<Rightarrow> string \<Rightarrow> plan list" where
  "loadObservationPlans st cycleID = sort_key pl_ID (filter (\<lambda>p. pl_CycleID p = cycleID) (tb_Plans st))"

definition loadCycleByKey :: "'x prepStore \<Rightarrow> string \<Rightarrow> int \<Rightarrow> int \<Rightarrow> cycle option" where
  "loadCycleByKey st situationID inputVersion generation =
     (case (situationOf st situationID, find (\<lambda>c. cyr_SituationID c = situationID \<and> cyr_InputVersion c = inputVersion \<and>
              cyr_Generation c = generation) (tb_Cycles st)) of
        (Some s, Some c) \<Rightarrow> Some
          \<lparr>cyc_ID = cyr_ID c,
           cyc_Fence = \<lparr>fn_SituationID = situationID, fn_InputVersion = inputVersion,
             fn_Owner = (case stc_LeaseOwner s of None \<Rightarrow> [] | Some owner \<Rightarrow> owner), fn_Token = stc_ClaimToken s\<rparr>,
           cyc_Generation = generation,
           cyc_Draft = \<lparr>cyd_Anchor = cyr_Anchor c, cyd_ConfigDigest = cyr_ConfigDigest c,
             cyd_RefreshInterval = cyr_RefreshSeconds c * second, cyd_ProfileVersionIDs = cyr_ProfileVersionIDs c,
             cyd_ProfileGuidance = cyr_ProfileGuidance c, cyd_Plans = loadObservationPlans st (cyr_ID c),
             cyd_Allocation = cyr_Allocation c\<rparr>,
           cyc_MaxRequests = cyr_MaxRequests c, cyc_Sealed = cyr_Sealed c\<rparr>
      | _ \<Rightarrow> None)"

definition pointAt :: "string \<Rightarrow> string \<Rightarrow> 'x prepStore \<Rightarrow> 'x prepStore" where
  "pointAt situationID cycleID st =
     st\<lparr>tb_Situations := updateWhere (\<lambda>s. stc_ID s = situationID) (\<lambda>s. s\<lparr>stc_CurrentPreparationCycleID := Some cycleID\<rparr>) (tb_Situations st)\<rparr>"

fun identifyPlans :: "'x storeEnv \<Rightarrow> string \<Rightarrow> plan list \<Rightarrow> phaseAllocation \<Rightarrow> string + plan list \<times> phaseAllocation" where
  "identifyPlans env cycleID [] alloc = Inr ([], alloc)"
| "identifyPlans env cycleID (p # ps) alloc =
     andThen (CanonicalPlanID (sve_CanonicalJSON env) cycleID p) (\<lambda>i.
     andThen (identifyPlans env cycleID ps
         (if pl_Tier p = TierOptional \<and> pa_OptionalPlanID alloc = pl_Capability p @ '':'' @ sp_SubjectID (pl_Scope p)
          then alloc\<lparr>pa_OptionalPlanID := i\<rparr> else alloc)) (\<lambda>(rest, alloc').
       Inr (p\<lparr>pl_ID := i, pl_CycleID := cycleID\<rparr> # rest, alloc')))"

fun insertPlans :: "'x storeEnv \<Rightarrow> string \<Rightarrow> string \<Rightarrow> gtime \<Rightarrow> plan list \<Rightarrow> 'x prepStore \<Rightarrow> string + 'x prepStore" where
  "insertPlans env situationID cycleID now [] st = Inr st"
| "insertPlans env situationID cycleID now (p # ps) st =
     andThen (insertObservationPlan env cycleID p st) (\<lambda>st1.
     andThen (if pl_Tier p = TierReuse then insertCurrentCycleReference situationID cycleID (pl_ReuseRunID p) now st1 else Inr st1) (\<lambda>st2.
       insertPlans env situationID cycleID now ps st2))"

text \<open>A new cycle supersedes the temporary references of the Situation's earlier cycles.\<close>

definition supersedeEarlier :: "string \<Rightarrow> string \<Rightarrow> 'x prepStore \<Rightarrow> 'x prepStore" where
  "supersedeEarlier situationID cycleID st =
     st\<lparr>tb_References := updateWhere
        (\<lambda>r. \<not> rfr_Superseded r \<and> rfr_Kind r \<in> {''current_cycle'', ''open_cycle''} \<and> rfr_OwnerID r \<noteq> cycleID \<and>
             runSituation st (rfr_RunID r) = Some situationID)
        (\<lambda>r. r\<lparr>rfr_Superseded := True\<rparr>) (tb_References st)\<rparr>"

definition refreshSecondsOf :: "duration \<Rightarrow> int" where
  "refreshSecondsOf d = (if d < second then 1 else d div second)"

definition createCycle :: "'x storeEnv \<Rightarrow> fence \<Rightarrow> cycleDraft \<Rightarrow> int \<Rightarrow> int \<Rightarrow> 'x prepStore \<Rightarrow> string + 'x prepStore \<times> cycle" where
  "createCycle env f draft maxRequests generation st =
     (let cycleID = deterministicCycleID (fn_SituationID f) (fn_InputVersion f) generation;
          createdAt = tUTC (cyd_Anchor draft);
          interval = (if cyd_RefreshInterval draft \<le> 0 then 5 * minute else cyd_RefreshInterval draft)
      in andThen (identifyPlans env cycleID (cyd_Plans draft) (cyd_Allocation draft)) (\<lambda>(plans, alloc).
         let row = \<lparr>cyr_ID = cycleID, cyr_SituationID = fn_SituationID f, cyr_InputVersion = fn_InputVersion f,
               cyr_Generation = generation, cyr_Anchor = createdAt, cyr_ConfigDigest = cyd_ConfigDigest draft,
               cyr_ProfileVersionIDs = cyd_ProfileVersionIDs draft, cyr_ProfileGuidance = cyd_ProfileGuidance draft,
               cyr_MaxRequests = maxRequests, cyr_Allocation = alloc, cyr_OptionalCreditSpent = 0, cyr_Sealed = False,
               cyr_SealedAt = None, cyr_RefreshSeconds = refreshSecondsOf interval\<rparr>
         in andThen (failIf (cycleID \<in> cyr_ID ` set (tb_Cycles st) \<or> fn_InputVersion f < 1 \<or> generation < 1 \<or> cyd_ConfigDigest draft = [])
                ''store: insert preparation cycle'') (\<lambda>_.
            andThen (insertPlans env (fn_SituationID f) cycleID createdAt plans (st\<lparr>tb_Cycles := tb_Cycles st @ [row]\<rparr>)) (\<lambda>st1.
              Inr (pointAt (fn_SituationID f) cycleID (supersedeEarlier (fn_SituationID f) cycleID st1),
                \<lparr>cyc_ID = cycleID, cyc_Fence = f, cyc_Generation = generation,
                 cyc_Draft = draft\<lparr>cyd_Plans := plans, cyd_Allocation := alloc, cyd_RefreshInterval := interval\<rparr>,
                 cyc_MaxRequests = maxRequests, cyc_Sealed = False\<rparr>)))))"

definition BeginPreparation :: "'x storeEnv \<Rightarrow> fence \<Rightarrow> cycleDraft \<Rightarrow> int \<Rightarrow> 'x prepStore \<Rightarrow> string + 'x prepStore \<times> cycle" where
  "BeginPreparation env f draft maxRequests st =
     andThen (failIf (maxRequests < 1) ''store: begin preparation requires a positive max requests'') (\<lambda>_.
     andThen (failIf (length (cyd_Plans draft) > MaxPlansPerCycle) ''store: cycle draft exceeds the plan cap'') (\<lambda>_.
     andThen (failWith (verifyFence st f (cyd_Anchor draft))) (\<lambda>_.
     andThen (orFail (situationOf st (fn_SituationID f)) ''store: read preparation generation'') (\<lambda>s.
       let generation = stc_PreparationGeneration s + 1 in
       case loadCycleByKey st (fn_SituationID f) (fn_InputVersion f) generation of
         Some existing \<Rightarrow> Inr (pointAt (fn_SituationID f) (cyc_ID existing) st, existing)
       | None \<Rightarrow> createCycle env f draft maxRequests generation st))))"

section \<open>Reservations and outcomes\<close>

definition admitRefresh :: "string \<Rightarrow> cycleRow \<Rightarrow> scope \<Rightarrow> capability \<Rightarrow> string \<Rightarrow> 'x prepStore \<Rightarrow> string + 'x prepStore" where
  "admitRefresh situationID c scope capability lastRunID st =
     (let digest = scopeDigest scope;
          key = (\<lambda>r. rfw_SituationID r = situationID \<and> rfw_Subject r = sp_SubjectID scope \<and> rfw_Capability r = capability \<and>
            rfw_ScopeDigest r = digest);
          served = cyr_Anchor c; due = tAdd (cyr_Anchor c) (cyr_RefreshSeconds c * second);
          run = (if lastRunID = [] then None else Some lastRunID)
      in andThen (failIf (sp_SubjectID scope = [] \<or> capability = []) ''store: upsert observation refresh cursor'') (\<lambda>_.
         Inr (if list_ex key (tb_Refresh st)
              then st\<lparr>tb_Refresh := updateWhere key (\<lambda>r. r\<lparr>
                 rfw_LastServedAt := (if rfw_AdmittedCycleID r = cyr_ID c then rfw_LastServedAt r else served),
                 rfw_NextRefreshAt := (if rfw_AdmittedCycleID r = cyr_ID c then rfw_NextRefreshAt r else due),
                 rfw_LastRunID := (case run of None \<Rightarrow> rfw_LastRunID r | Some _ \<Rightarrow> run),
                 rfw_AdmittedCycleID := cyr_ID c\<rparr>) (tb_Refresh st)\<rparr>
              else st\<lparr>tb_Refresh := tb_Refresh st @
                [\<lparr>rfw_SituationID = situationID, rfw_Subject = sp_SubjectID scope, rfw_Capability = capability,
                  rfw_ScopeDigest = digest, rfw_LastServedAt = served, rfw_NextRefreshAt = due,
                  rfw_AdmittedCycleID = cyr_ID c, rfw_LastRunID = run\<rparr>]\<rparr>)))"

definition requestsIn :: "'x prepStore \<Rightarrow> string \<Rightarrow> requestReservation list" where
  "requestsIn st cycleID = filter (\<lambda>q. rsv_CycleID q = cycleID) (tb_Requests st)"

definition requestsFor :: "'x prepStore \<Rightarrow> string \<Rightarrow> requestReservation list" where
  "requestsFor st planID = filter (\<lambda>q. rsv_PlanID q = planID) (tb_Requests st)"

definition planInCycle :: "'x prepStore \<Rightarrow> string \<Rightarrow> string \<Rightarrow> plan option" where
  "planInCycle st planID cycleID = find (\<lambda>p. pl_ID p = planID \<and> pl_CycleID p = cycleID) (tb_Plans st)"

definition spendsCredit :: "cycleRow \<Rightarrow> plan \<Rightarrow> bool" where
  "spendsCredit c p \<longleftrightarrow>
     pl_Tier p = TierOptional \<or> (pa_OptionalPlanID (cyr_Allocation c) \<noteq> [] \<and> pa_OptionalPlanID (cyr_Allocation c) = pl_ID p)"

definition debitCredit :: "string \<Rightarrow> cycleRow \<Rightarrow> 'x prepStore \<Rightarrow> string + 'x prepStore" where
  "debitCredit situationID c st =
     andThen (orFail (situationOf st situationID) ''store: read investigation credit'') (\<lambda>s.
     andThen (failIf (stc_InvestigationCredit s < investigationCreditCostPerRequest) ErrBudgetExhausted) (\<lambda>_.
       Inr (st\<lparr>tb_Situations := updateWhere (\<lambda>s. stc_ID s = situationID)
                 (\<lambda>s. s\<lparr>stc_InvestigationCredit := stc_InvestigationCredit s - investigationCreditCostPerRequest\<rparr>) (tb_Situations st),
               tb_Cycles := updateWhere (\<lambda>x. cyr_ID x = cyr_ID c)
                 (\<lambda>x. x\<lparr>cyr_OptionalCreditSpent := cyr_OptionalCreditSpent x + investigationCreditCostPerRequest\<rparr>) (tb_Cycles st)\<rparr>)))"

text \<open>The reservation row, with the refresh admission of a plan's first one.\<close>

definition placeReservation :: "fence \<Rightarrow> cycleRow \<Rightarrow> plan \<Rightarrow> int \<Rightarrow> requestReservation \<Rightarrow> 'x prepStore \<Rightarrow> string + 'x prepStore" where
  "placeReservation f c p planCount q st =
     andThen (failIf (rsv_ID q \<in> rsv_ID ` set (tb_Requests st)) ''store: insert observation request reservation'') (\<lambda>_.
       let st1 = st\<lparr>tb_Requests := tb_Requests st @ [q]\<rparr> in
       if planCount = 0 then admitRefresh (fn_SituationID f) c (pl_Scope p) (pl_Capability p) [] st1 else Inr st1)"

definition ReserveObservationRequest ::
  "fence \<Rightarrow> string \<Rightarrow> string \<Rightarrow> gtime \<Rightarrow> 'x prepStore \<Rightarrow> string + 'x prepStore \<times> requestReservation" where
  "ReserveObservationRequest f cycleID planID now st =
     andThen (failWith (verifyFence st f now)) (\<lambda>_.
     andThen (openCycleForWrite st f cycleID) (\<lambda>c.
     andThen (failIf (cyr_Sealed c) ErrPreparationCycleSealed) (\<lambda>_.
     andThen (orFail (planInCycle st planID cycleID) ''store: unknown plan in cycle'') (\<lambda>p.
     let cycleCount = int (length (requestsIn st cycleID)); planCount = int (length (requestsFor st planID)) in
     andThen (failIf (cycleCount \<ge> cyr_MaxRequests c \<or> planCount \<ge> pl_MaxRequests p) ErrBudgetExhausted) (\<lambda>_.
     andThen (if spendsCredit c p then debitCredit (fn_SituationID f) c st else Inr st) (\<lambda>st1.
     let ordinal = cycleCount + 1;
         q = \<lparr>rsv_ID = ''request:'' @ cycleID @ '':'' @ itoa ordinal, rsv_CycleID = cycleID, rsv_PlanID = planID,
              rsv_Ordinal = ordinal, rsv_ReservedAt = tUTC now\<rparr> in
     andThen (placeReservation f c p planCount q st1) (\<lambda>st2. Inr (st2, q))))))))"

definition CompleteObservationRequest :: "requestOutcome \<Rightarrow> 'x prepStore \<Rightarrow> string + 'x prepStore" where
  "CompleteObservationRequest x st =
     andThen (failIf (rqo_ReservationID x = [] \<or> rqo_Code x = []) ''store: complete observation request requires a reservation id and code'') (\<lambda>_.
     andThen (failIf (rqo_RequestStarted x \<notin> {''true'', ''false'', ''unknown''}) ''store: unknown request_started'') (\<lambda>_.
     andThen (failIf (rqo_ReservationID x \<notin> rsv_ID ` set (tb_Requests st)) ''store: unknown observation reservation'') (\<lambda>_.
       case find (\<lambda>y. rqo_ReservationID y = rqo_ReservationID x) (tb_Outcomes st) of
         Some y \<Rightarrow> if rqo_RequestStarted y = rqo_RequestStarted x \<and> rqo_Code y = rqo_Code x then Inr st else Inl ErrConflictingReplay
       | None \<Rightarrow> Inr (st\<lparr>tb_Outcomes := tb_Outcomes st @ [x\<lparr>rqo_CompletedAt := tUTC (rqo_CompletedAt x)\<rparr>]\<rparr>))))"

section \<open>Committing a run\<close>

definition LimitationCycleBytesCapped :: string where "LimitationCycleBytesCapped = ''cycle_bytes_capped''"
definition MaxNormalizedBytesPerCycle :: int where "MaxNormalizedBytesPerCycle = 256 * 1024"

definition ResultTruncated :: resultStatus where "ResultTruncated = ''truncated''"

text \<open>\<^verbatim>\<open>LENGTH\<close> of a text counts its characters, that is the bytes that do not continue a UTF-8 sequence.\<close>

definition sqlLength :: "string \<Rightarrow> int" where
  "sqlLength v = int (length (filter (\<lambda>c. byte c < 128 \<or> 192 \<le> byte c) v))"

definition nullIfEmpty :: "string \<Rightarrow> string" where
  "nullIfEmpty v = (if v = [] then ''null'' else v)"

definition payloadOf :: "'x prepStore \<Rightarrow> string \<Rightarrow> string" where
  "payloadOf st factID = (case map_of (tb_Payloads st) factID of None \<Rightarrow> ''null'' | Some v \<Rightarrow> v)"

text \<open>The length of the payloads that other runs of the cycle committed.\<close>

definition cycleBytes :: "'x prepStore \<Rightarrow> string \<Rightarrow> string \<Rightarrow> int" where
  "cycleBytes st cycleID runID =
     (let others = rn_ID ` set (filter (\<lambda>r. rn_CycleID r = cycleID \<and> rn_ID r \<noteq> runID) (tb_Runs st))
      in sum_list (map (\<lambda>(k, v). if list_ex (\<lambda>x. xf_ID x = k \<and> xf_RunID x \<in> others) (tb_Facts st) then sqlLength v else 0) (tb_Payloads st)))"

definition capCycleBytes :: "'x prepStore \<Rightarrow> run \<Rightarrow> run" where
  "capCycleBytes st r =
     (if rn_Facts r = [] \<or>
         cycleBytes st (rn_CycleID r) (rn_ID r) + sum_list (map (\<lambda>x. int (length (nullIfEmpty (xf_Value x)))) (rn_Facts r)) \<le> MaxNormalizedBytesPerCycle
      then r
      else r\<lparr>rn_Facts := [], rn_Status := ResultTruncated, rn_Coverage := (rn_Coverage r)\<lparr>cv_Complete := False\<rparr>,
        rn_LimitationCodes := rn_LimitationCodes r @ [LimitationCycleBytesCapped]\<rparr>)"

definition runFactPayload :: "'x storeEnv \<Rightarrow> observationFact \<Rightarrow> json" where
  "runFactPayload env x = JObject
     [(''id'', JString (xf_ID x)), (''kind'', JString (xf_Kind x)), (''subject'', JString (xf_Subject x)),
      (''digest'', JString (xf_Digest x)), (''schema_version'', JInt (xf_SchemaVersion x)),
      (''value'', JRaw (sve_Compact env (nullIfEmpty (xf_Value x)))), (''result_status'', JString (xf_ResultStatus x)),
      (''freshness'', JString (xf_Freshness x)), (''material'', JBool (xf_Material x))]"

definition runPayloadShape :: "run \<Rightarrow> json \<Rightarrow> json" where
  "runPayloadShape r facts = JObject
     [(''plan_id'', JString (rn_PlanID r)), (''status'', JString (rn_Status r)),
      (''coverage_start'', JString (canonicalTime (cv_Start (rn_Coverage r)))),
      (''coverage_end'', JString (canonicalTime (cv_End (rn_Coverage r)))), (''complete'', JBool (cv_Complete (rn_Coverage r))),
      (''returned'', JInt (cv_Returned (rn_Coverage r))), (''omitted'', JInt (cv_Omitted (rn_Coverage r))),
      (''limitation_codes'', jStrings (rn_LimitationCodes r)), (''facts'', facts)]"

definition canonicalRunPayload :: "'x storeEnv \<Rightarrow> run \<Rightarrow> string" where
  "canonicalRunPayload env r = marshal (runPayloadShape r (JArray (map (runFactPayload env) (rn_Facts r))))"

definition loadFactsForRun :: "'x prepStore \<Rightarrow> string \<Rightarrow> observationFact list" where
  "loadFactsForRun st runID =
     map (\<lambda>x. x\<lparr>xf_Value := payloadOf st (xf_ID x)\<rparr>) (sort_key xf_ID (filter (\<lambda>x. xf_RunID x = runID) (tb_Facts st)))"

text \<open>The slice of the loaded facts is nil when no row is read, and a nil slice is encoded as null.\<close>

definition loadRunCanonical :: "'x storeEnv \<Rightarrow> 'x prepStore \<Rightarrow> string \<Rightarrow> string option" where
  "loadRunCanonical env st runID =
     (case find (\<lambda>r. rn_ID r = runID) (tb_Runs st) of None \<Rightarrow> None
      | Some r \<Rightarrow> Some (let facts = loadFactsForRun st runID in
          marshal (runPayloadShape r (if facts = [] then JNull else JArray (map (runFactPayload env) facts)))))"

definition factKinds :: "string set" where
  "factKinds = {''metric_summary'', ''log_summary'', ''error_issue'', ''change_event'', ''problem_episode'', ''source_lifecycle'',
     ''source_definition'', ''capability_result''}"

definition storedFact :: "string \<Rightarrow> observationFact \<Rightarrow> observationFact" where
  "storedFact runID x =
     x\<lparr>xf_RunID := runID, xf_Value := [], xf_ObservedAt := tUTC (xf_ObservedAt x), xf_ExpiresAt := tUTC (xf_ExpiresAt x)\<rparr>"

definition insertObservationFact :: "'x storeEnv \<Rightarrow> string \<Rightarrow> observationFact \<Rightarrow> 'x prepStore \<Rightarrow> string + 'x prepStore" where
  "insertObservationFact env runID x st =
     andThen (failIf (xf_ID x = [] \<or> xf_ID x \<in> xf_ID ` set (tb_Facts st) \<or> xf_Kind x \<notin> factKinds \<or> xf_Subject x = [] \<or>
         xf_Digest x = [] \<or> xf_SchemaVersion x < 1) ''store: insert observation fact'') (\<lambda>_.
     andThen (failIf (xf_ID x \<in> fst ` set (tb_Payloads st) \<or> \<not> sve_JSONValid env (nullIfEmpty (xf_Value x)))
         ''store: insert observation fact payload'') (\<lambda>_.
       Inr (st\<lparr>tb_Facts := tb_Facts st @ [storedFact runID x], tb_Payloads := tb_Payloads st @ [(xf_ID x, nullIfEmpty (xf_Value x))]\<rparr>)))"

text \<open>The loop over the facts: each is inserted and offered to the source definitions; the flag says whether one changed.\<close>

fun insertFacts :: "'x storeEnv \<Rightarrow> string \<Rightarrow> string \<Rightarrow> gtime \<Rightarrow> observationFact list \<Rightarrow> 'x prepStore \<Rightarrow> string + 'x prepStore \<times> bool" where
  "insertFacts env situationID runID now [] st = Inr (st, False)"
| "insertFacts env situationID runID now (x # xs) st =
     andThen (insertObservationFact env runID x st) (\<lambda>st1.
     andThen (sve_RecordSource env situationID runID x now (tb_Source st1)) (\<lambda>(src, changed).
     andThen (insertFacts env situationID runID now xs (st1\<lparr>tb_Source := src\<rparr>)) (\<lambda>(st2, later).
       Inr (st2, changed \<or> later))))"

definition runRow :: "run \<Rightarrow> gtime \<Rightarrow> run" where
  "runRow r now =
     r\<lparr>rn_Facts := [], rn_Coverage := (rn_Coverage r)\<lparr>cv_Start := tUTC (cv_Start (rn_Coverage r)), cv_End := tUTC (cv_End (rn_Coverage r))\<rparr>,
       rn_ObservedAt := tUTC (rn_ObservedAt r), rn_ExpiresAt := tUTC (rn_ExpiresAt r), rn_CompletedAt := tUTC now\<rparr>"

definition insertRun :: "run \<Rightarrow> gtime \<Rightarrow> 'x prepStore \<Rightarrow> string + 'x prepStore" where
  "insertRun r now st =
     andThen (failIf (rn_ID r \<in> rn_ID ` set (tb_Runs st) \<or> rn_PlanID r \<in> rn_PlanID ` set (tb_Runs st) \<or>
         (case rn_ReusedFromRunID r of None \<Rightarrow> False | Some i \<Rightarrow> i \<notin> rn_ID ` set (tb_Runs st))) ''store: insert observation run'') (\<lambda>_.
       Inr (st\<lparr>tb_Runs := tb_Runs st @ [runRow r now]\<rparr>))"

definition openCycleReference :: "string \<Rightarrow> string" where
  "openCycleReference runID = ''ref:open_cycle:'' @ runID"

definition insertOpenCycleReference :: "run \<Rightarrow> gtime \<Rightarrow> 'x prepStore \<Rightarrow> string + 'x prepStore" where
  "insertOpenCycleReference r now st =
     andThen (failIf (openCycleReference (rn_ID r) \<in> rfr_ID ` set (tb_References st) \<or> detailExpired st (rn_ID r))
         ''store: insert open-cycle reference'') (\<lambda>_.
       Inr (addReference (openCycleReference (rn_ID r)) (rn_ID r) ''open_cycle'' (rn_CycleID r) (tUTC now) st))"

text \<open>A run of the open cycle whose ID is new.\<close>

definition insertNewRun :: "'x storeEnv \<Rightarrow> fence \<Rightarrow> cycleRow \<Rightarrow> plan \<Rightarrow> run \<Rightarrow> gtime \<Rightarrow> 'x prepStore \<Rightarrow> string + 'x prepStore" where
  "insertNewRun env f c p r now st =
     andThen (failIf (cyr_Sealed c) ErrPreparationCycleSealed) (\<lambda>_.
     andThen (insertRun r now st) (\<lambda>st1.
     andThen (insertFacts env (cyr_SituationID c) (rn_ID r) now (rn_Facts r) st1) (\<lambda>(st2, changed).
     andThen (insertOpenCycleReference r now st2) (\<lambda>st3.
     andThen (case rn_ReusedFromRunID r of
                Some i \<Rightarrow> insertCurrentCycleReference (fn_SituationID f) (rn_CycleID r) i (tUTC now) st3
              | None \<Rightarrow> admitRefresh (fn_SituationID f) c (pl_Scope p) (pl_Capability p) (rn_ID r) st3) (\<lambda>st4.
       if changed
       then andThen (sve_WakeForSource env (cyr_SituationID c) now (tb_Source st4)) (\<lambda>src. Inr (st4\<lparr>tb_Source := src\<rparr>))
       else Inr st4)))))"

definition CommitObservationRun :: "'x storeEnv \<Rightarrow> fence \<Rightarrow> run \<Rightarrow> gtime \<Rightarrow> 'x prepStore \<Rightarrow> string + 'x prepStore" where
  "CommitObservationRun env f r now st =
     andThen (failWith (ValidateRun r)) (\<lambda>_.
     andThen (failIf (rn_ReusedFromRunID r \<noteq> None \<and> rn_Facts r \<noteq> [])
         ''store: a reused run projects its source run's facts and carries none of its own'') (\<lambda>_.
     andThen (failWith (verifyFence st f now)) (\<lambda>_.
     andThen (openCycleForWrite st f (rn_CycleID r)) (\<lambda>c.
     andThen (orFail (planInCycle st (rn_PlanID r) (rn_CycleID r)) ''store: unknown plan in cycle'') (\<lambda>p.
     let capped = capCycleBytes st r in
     case loadRunCanonical env st (rn_ID capped) of
       Some existing \<Rightarrow> if existing = canonicalRunPayload env capped then Inr st else Inl ErrConflictingReplay
     | None \<Rightarrow> insertNewRun env f c p capped now st)))))"

section \<open>Reading runs\<close>

definition HasObservationRun :: "'x prepStore \<Rightarrow> string \<Rightarrow> bool" where
  "HasObservationRun st planID \<longleftrightarrow> list_ex (\<lambda>r. rn_PlanID r = planID) (tb_Runs st)"

definition DetailStateRetained :: string where "DetailStateRetained = ''retained''"
definition DetailStateExpired :: string where "DetailStateExpired = ''expired''"

record runRecord =
  rcd_Run :: run
  rcd_DetailState :: string
  rcd_DetailExpiredAt :: "gtime option"
  rcd_Capability :: capability
  rcd_Subject :: string
  rcd_Phase :: string
  rcd_Tier :: string
  rcd_RequestsReserved :: int
  rcd_RequestsCompleted :: int
  rcd_RequestsUnknown :: int

definition buildRunRecord :: "'x prepStore \<Rightarrow> run \<Rightarrow> runRecord" where
  "buildRunRecord st r =
     (let p = find (\<lambda>p. pl_ID p = rn_PlanID r) (tb_Plans st);
          reserved = requestsFor st (rn_PlanID r);
          completed = filter (\<lambda>q. list_ex (\<lambda>x. rqo_ReservationID x = rsv_ID q) (tb_Outcomes st)) reserved;
          factsRun = (case rn_ReusedFromRunID r of None \<Rightarrow> rn_ID r | Some i \<Rightarrow> i);
          own = map_of (tb_Expirations st) (rn_ID r);
          expired = (case own of Some t \<Rightarrow> Some t | None \<Rightarrow> map_of (tb_Expirations st) factsRun)
      in \<lparr>rcd_Run = r\<lparr>rn_Facts := map (\<lambda>x. x\<lparr>xf_RunID := rn_ID r\<rparr>) (loadFactsForRun st factsRun)\<rparr>,
          rcd_DetailState = (if expired = None then DetailStateRetained else DetailStateExpired), rcd_DetailExpiredAt = expired,
          rcd_Capability = (case p of None \<Rightarrow> [] | Some p \<Rightarrow> pl_Capability p),
          rcd_Subject = (case p of None \<Rightarrow> [] | Some p \<Rightarrow> sp_SubjectID (pl_Scope p)),
          rcd_Phase = (case p of None \<Rightarrow> [] | Some p \<Rightarrow> pl_Phase p), rcd_Tier = (case p of None \<Rightarrow> [] | Some p \<Rightarrow> pl_Tier p),
          rcd_RequestsReserved = int (length reserved), rcd_RequestsCompleted = int (length completed),
          rcd_RequestsUnknown = int (length reserved) - int (length completed)\<rparr>)"

definition LoadObservationRun :: "'x prepStore \<Rightarrow> string \<Rightarrow> runRecord option" where
  "LoadObservationRun st runID = map_option (buildRunRecord st) (find (\<lambda>r. rn_ID r = runID) (tb_Runs st))"

definition LoadObservationRefreshCursors :: "'x prepStore \<Rightarrow> string \<Rightarrow> refreshCursor list" where
  "LoadObservationRefreshCursors st situationID =
     map (\<lambda>r. \<lparr>rf_Subject = rfw_Subject r, rf_Capability = rfw_Capability r, rf_ScopeDigest = rfw_ScopeDigest r,
         rf_NextRefreshAt = rfw_NextRefreshAt r,
         rf_LastRunID = (case rfw_LastRunID r of None \<Rightarrow> [] | Some i \<Rightarrow> if detailExpired st i then [] else i)\<rparr>)
       (filter (\<lambda>r. rfw_SituationID r = situationID) (tb_Refresh st))"

section \<open>Credit and sealing\<close>

definition AccrueInvestigationCredit :: "string \<Rightarrow> gtime \<Rightarrow> duration \<Rightarrow> int \<Rightarrow> 'x prepStore \<Rightarrow> string + 'x prepStore \<times> int" where
  "AccrueInvestigationCredit situationID now refreshInterval cycleCap st =
     andThen (failIf (cycleCap < 0) ''store: accrue investigation credit requires a non-negative cycle cap'') (\<lambda>_.
     andThen (orFail (situationOf st situationID) ''store: read investigation credit'') (\<lambda>s.
       if \<not> AccrualDue (stc_InvestigationCreditAccruedAt s) now refreshInterval then Inr (st, stc_InvestigationCredit s)
       else let credit = min (stc_InvestigationCredit s + cycleCap) (3 * cycleCap) in
         Inr (st\<lparr>tb_Situations := updateWhere (\<lambda>s. stc_ID s = situationID)
                (\<lambda>s. s\<lparr>stc_InvestigationCredit := credit, stc_InvestigationCreditAccruedAt := Some (tUTC now)\<rparr>) (tb_Situations st)\<rparr>,
              credit)))"

definition sealedRunIDs :: "'x prepStore \<Rightarrow> string \<Rightarrow> string list" where
  "sealedRunIDs st cycleID =
     remdups (filter (\<lambda>i. \<not> detailExpired st i)
       (map (\<lambda>r. case rn_ReusedFromRunID r of None \<Rightarrow> rn_ID r | Some i \<Rightarrow> i) (filter (\<lambda>r. rn_CycleID r = cycleID) (tb_Runs st))))"

definition sealPreparationCycle :: "string \<Rightarrow> string \<Rightarrow> gtime \<Rightarrow> 'x prepStore \<Rightarrow> 'x prepStore" where
  "sealPreparationCycle situationID cycleID now st =
     (case find (\<lambda>c. cyr_ID c = cycleID \<and> cyr_SituationID c = situationID) (tb_Cycles st) of
        None \<Rightarrow> st
      | Some c \<Rightarrow>
          if cycleID = [] \<or> cyr_Sealed c then st
          else let st1 = st\<lparr>tb_Cycles := updateWhere (\<lambda>x. cyr_ID x = cycleID)
                       (\<lambda>x. x\<lparr>cyr_Sealed := True, cyr_SealedAt := Some (tUTC now)\<rparr>) (tb_Cycles st),
                     tb_Situations := updateWhere (\<lambda>s. stc_ID s = situationID \<and> stc_PreparationGeneration s < cyr_Generation c)
                       (\<lambda>s. s\<lparr>stc_PreparationGeneration := cyr_Generation c\<rparr>) (tb_Situations st),
                     tb_References := updateWhere (\<lambda>r. rfr_Kind r = ''open_cycle'' \<and> rfr_OwnerID r = cycleID \<and> \<not> rfr_Superseded r)
                       (\<lambda>r. r\<lparr>rfr_Superseded := True\<rparr>) (tb_References st)\<rparr>
               in fold (\<lambda>i. addReference (currentCycleReference cycleID i) i ''current_cycle'' cycleID (tUTC now)) (sealedRunIDs st cycleID) st1)"

end
