(* ===== verification/Observation_Run.thy ===== *)
theory Observation_Run
  imports Preparation_Store
begin

text \<open>
  Package \<^verbatim>\<open>internal/observation\<close>, \<^verbatim>\<open>runner.go\<close>: one phase of a frozen cycle executed over the preparation store.  A
  connector is a script: it may reserve a request, record an outcome, look at the answers, and finally returns a run or an
  error.  The clock, the preparation wall and failing reads and writes of the database are arguments.
\<close>

section \<open>Connectors\<close>

datatype execError = ExecutionFailed | FailedRunWithEvidence

datatype script =
    Finish run "execError option"
  | BeforeRequest gtime "string + requestReservation \<Rightarrow> script"
  | AfterRequest requestOutcome "goerror \<Rightarrow> script"

text \<open>The recorder writes every reservation and outcome through to the store.\<close>

primrec runScript :: "fence \<Rightarrow> string \<Rightarrow> string \<Rightarrow> script \<Rightarrow> 'x prepStore \<Rightarrow> 'x prepStore \<times> run \<times> execError option" where
  "runScript f cycleID planID (Finish r e) st = (st, r, e)"
| "runScript f cycleID planID (BeforeRequest now k) st =
     (case ReserveObservationRequest f cycleID planID now st of
        Inl e \<Rightarrow> runScript f cycleID planID (k (Inl e)) st
      | Inr (st', q) \<Rightarrow> runScript f cycleID planID (k (Inr q)) st')"
| "runScript f cycleID planID (AfterRequest x k) st =
     (case CompleteObservationRequest x st of
        Inl e \<Rightarrow> runScript f cycleID planID (k (Some e)) st
      | Inr st' \<Rightarrow> runScript f cycleID planID (k None) st')"

datatype planContext = ControllerContext | WallContext "gtime option"

datatype storeCall = CheckRunCall | LoadRunCall | CommitRunCall

record 'x runnerEnv =
  rx_Store :: "'x storeEnv"
  rx_Executors :: "capability \<Rightarrow> (plan \<Rightarrow> planContext \<Rightarrow> script) option"
  rx_Clock :: "string \<Rightarrow> gtime"
  rx_CommitClock :: "string \<Rightarrow> gtime"
  rx_WallExpired :: "string \<Rightarrow> bool"
  rx_WallDeadline :: "gtime option"
  rx_Fault :: "storeCall \<Rightarrow> string \<Rightarrow> goerror"

section \<open>Runs the runner makes itself\<close>

definition LimitationWallExhausted :: string where "LimitationWallExhausted = ''preparation_wall_exhausted''"
definition LimitationReuseExpired :: string where "LimitationReuseExpired = ''reuse_expired''"
definition LimitationReuseMissing :: string where "LimitationReuseMissing = ''reuse_missing''"

definition ResultUnavailable :: resultStatus where "ResultUnavailable = ''unavailable''"
definition ResultFailed :: resultStatus where "ResultFailed = ''failed''"
definition ResultWithheldByBudget :: resultStatus where "ResultWithheldByBudget = ''withheld_by_budget''"
definition ResultVocabularyUnresolved :: resultStatus where "ResultVocabularyUnresolved = ''vocabulary_unresolved''"

lemmas result_status_defs = ResultUnavailable_def ResultFailed_def ResultWithheldByBudget_def ResultVocabularyUnresolved_def
  ResultStale_def ResultTruncated_def

definition planRun :: "plan \<Rightarrow> resultStatus \<Rightarrow> string list \<Rightarrow> gtime \<Rightarrow> gtime \<Rightarrow> run" where
  "planRun p status codes observed expires =
     \<lparr>rn_ScopeKey = [], rn_Capability = [], rn_Scope = None, rn_Parameters = [], rn_ID = ''run:'' @ pl_ID p, rn_CycleID = pl_CycleID p,
      rn_PlanID = pl_ID p, rn_Status = status,
      rn_Coverage = \<lparr>cv_Start = pl_Start p, cv_End = pl_End p, cv_Complete = False, cv_Returned = 0, cv_Omitted = 0\<rparr>,
      rn_Facts = [], rn_LimitationCodes = codes, rn_ObservedAt = observed, rn_ExpiresAt = expires, rn_CompletedAt = zeroTime,
      rn_ReusedFromRunID = None\<rparr>"

definition unresolvedRun :: "plan \<Rightarrow> gtime \<Rightarrow> run" where
  "unresolvedRun p now = planRun p ResultVocabularyUnresolved [''capability_unresolved''] now (tAdd now (MaxWindowHoursMetricsLogs * hour))"

definition failedRun :: "plan \<Rightarrow> gtime \<Rightarrow> run" where
  "failedRun p now = planRun p ResultFailed [''execution_failed''] now (tAdd now (MaxWindowHoursMetricsLogs * hour))"

definition withheldByWallRun :: "plan \<Rightarrow> gtime \<Rightarrow> run" where
  "withheldByWallRun p now = planRun p ResultWithheldByBudget [LimitationWallExhausted] now now"

definition reuseRun :: "'x runnerEnv \<Rightarrow> 'x prepStore \<Rightarrow> plan \<Rightarrow> string + run" where
  "reuseRun env st p =
     (let now = rx_Clock env (pl_ID p) in
      case rx_Fault env LoadRunCall (pl_ID p) of
        Some e \<Rightarrow> Inl (''observation: load reusable run: '' @ e)
      | None \<Rightarrow>
        (case LoadObservationRun st (pl_ReuseRunID p) of
           None \<Rightarrow> Inr (planRun p ResultUnavailable [LimitationReuseMissing] now now)
         | Some src \<Rightarrow>
             let r = rcd_Run src;
                 projected = (planRun p (rn_Status r) (rn_LimitationCodes r) (rn_ObservedAt r) (rn_ExpiresAt r))
                   \<lparr>rn_Coverage := rn_Coverage r, rn_ReusedFromRunID := Some (rn_ID r)\<rparr>
             in Inr (if rcd_DetailState src = DetailStateExpired \<or> \<not> tBefore now (rn_ExpiresAt r)
                     then projected\<lparr>rn_Status := ResultStale, rn_LimitationCodes := rn_LimitationCodes r @ [LimitationReuseExpired]\<rparr>
                     else projected)))"

section \<open>A phase\<close>

definition runOne :: "'x runnerEnv \<Rightarrow> fence \<Rightarrow> cycle \<Rightarrow> planContext \<Rightarrow> plan \<Rightarrow> 'x prepStore \<Rightarrow> 'x prepStore \<times> run" where
  "runOne env f c ctx p st =
     (case rx_Executors env (pl_Capability p) of
        None \<Rightarrow> (st, unresolvedRun p (rx_Clock env (pl_ID p)))
      | Some execute \<Rightarrow>
          (case runScript f (cyc_ID c) (pl_ID p) (execute p ctx) st of
             (st', r, None) \<Rightarrow> (st', r)
           | (st', r, Some FailedRunWithEvidence) \<Rightarrow> (st', r)
           | (st', r, Some ExecutionFailed) \<Rightarrow> (st', failedRun p (rx_Clock env (pl_ID p)))))"

definition contextFor :: "'x runnerEnv \<Rightarrow> bool \<Rightarrow> duration \<Rightarrow> plan \<Rightarrow> planContext" where
  "contextFor env optionalPending optionalWall p =
     (if pl_Tier p = TierLocal then ControllerContext
      else if optionalPending \<and> pl_Tier p = TierTimeSensitive \<and> optionalWall > 0
      then WallContext (map_option (\<lambda>d. tAdd d (- optionalWall)) (rx_WallDeadline env))
      else WallContext (rx_WallDeadline env))"

definition planOutcome :: "'x runnerEnv \<Rightarrow> fence \<Rightarrow> cycle \<Rightarrow> bool \<Rightarrow> plan \<Rightarrow> 'x prepStore \<Rightarrow> string + 'x prepStore \<times> run" where
  "planOutcome env f c optionalPending p st =
     (if pl_Tier p = TierReuse then andThen (reuseRun env st p) (\<lambda>r. Inr (st, r))
      else if pl_Tier p \<noteq> TierLocal \<and> rx_WallExpired env (pl_ID p)
      then Inr (st, withheldByWallRun p (rx_Clock env (pl_ID p)))
      else Inr (runOne env f c (contextFor env optionalPending
             (pa_OptionalWallMilliseconds (cyd_Allocation (cyc_Draft c)) * 1000000) p) p st))"

fun runPlans :: "'x runnerEnv \<Rightarrow> fence \<Rightarrow> cycle \<Rightarrow> bool \<Rightarrow> plan list \<Rightarrow> 'x prepStore \<Rightarrow> 'x prepStore \<times> goerror" where
  "runPlans env f c optionalPending [] st = (st, None)"
| "runPlans env f c optionalPending (p # ps) st =
     (case rx_Fault env CheckRunCall (pl_ID p) of
        Some e \<Rightarrow> (st, Some (''observation: check existing run: '' @ e))
      | None \<Rightarrow>
        (let pending = (optionalPending \<and> pl_Tier p \<noteq> TierOptional) in
         if HasObservationRun st (pl_ID p) then runPlans env f c pending ps st
         else case planOutcome env f c optionalPending p st of
           Inl e \<Rightarrow> (st, Some e)
         | Inr (st1, r) \<Rightarrow>
             (case rx_Fault env CommitRunCall (pl_ID p) of
                Some e \<Rightarrow> (st1, Some (''observation: commit run: '' @ e))
              | None \<Rightarrow>
                (case CommitObservationRun (rx_Store env) f r (rx_CommitClock env (pl_ID p)) st1 of
                   Inl e \<Rightarrow> (st1, Some (''observation: commit run: '' @ e))
                 | Inr st2 \<Rightarrow> runPlans env f c pending ps st2))))"

definition phasePlans :: "cycle \<Rightarrow> string \<Rightarrow> plan list" where
  "phasePlans c phase =
     sort_key (\<lambda>p. (tierRank (pl_Tier p), pl_ID p)) (filter (\<lambda>p. pl_Phase p = phase) (cyd_Plans (cyc_Draft c)))"

definition RunPhaseBounded :: "'x runnerEnv \<Rightarrow> fence \<Rightarrow> cycle \<Rightarrow> string \<Rightarrow> 'x prepStore \<Rightarrow> 'x prepStore \<times> goerror" where
  "RunPhaseBounded env f c phase st =
     (let plans = phasePlans c phase in runPlans env f c (list_ex (\<lambda>p. pl_Tier p = TierOptional) plans) plans st)"

end
