(* ===== verification/Observation_Retention.thy ===== *)
theory Observation_Retention
  imports Preparation_Store
begin

text \<open>
  \<^verbatim>\<open>situation_preparation.go\<close>, retention: the fact payloads of runs that completed ten days ago and that nothing refers
  to any more expire in short pages.  The pages are read from the index of pending runs, which holds the completed time and
  ID of every run whose detail has not expired; how many rows a page examines before its time is up is an argument.
  The storage retention reaches \<open>pruneObservationDetails\<close> through \<^verbatim>\<open>PruneObservationRetentionBefore\<close>, which then deletes
  old cycles (not modelled); \<open>PruneUnusedObservationDetails\<close> is the entry the tests use.
\<close>

section \<open>Pages\<close>

definition observationDetailPageExpiries :: nat where "observationDetailPageExpiries = 100"
definition observationRetentionPageRows :: nat where "observationRetentionPageRows = 512"

type_synonym detailCursor = "string \<times> string"

text \<open>The first text form past the second of the cutoff, a bound of the index; the exact test compares the instants.\<close>

definition retentionUpperBound :: "gtime \<Rightarrow> string" where
  "retentionUpperBound cutoff =
     take 19 (canonicalTime (utcAt (tns cutoff div second * second + second))) @ ''.000000000Z''"

definition liveReference :: "'x prepStore \<Rightarrow> string \<Rightarrow> bool" where
  "liveReference st runID \<longleftrightarrow>
     list_ex (\<lambda>r. rfr_RunID r = runID \<and> \<not> rfr_Superseded r \<and> \<not> rfr_MetadataOnly r) (tb_References st)"

text \<open>A run protects its detail itself or through a run that projects it.\<close>

definition detailProtected :: "'x prepStore \<Rightarrow> string \<Rightarrow> bool" where
  "detailProtected st runID \<longleftrightarrow>
     liveReference st runID \<or> list_ex (\<lambda>p. rn_ReusedFromRunID p = Some runID \<and> liveReference st (rn_ID p)) (tb_Runs st)"

definition prunable :: "'x prepStore \<Rightarrow> gtime \<Rightarrow> run \<Rightarrow> bool" where
  "prunable st cutoff r \<longleftrightarrow>
     tns (rn_CompletedAt r) \<le> tns cutoff \<and> \<not> detailExpired st (rn_ID r) \<and> \<not> detailProtected st (rn_ID r)"

definition detailKey :: "run \<Rightarrow> detailCursor" where
  "detailKey r = (canonicalTime (rn_CompletedAt r), rn_ID r)"

definition pendingDetails :: "'x prepStore \<Rightarrow> gtime \<Rightarrow> detailCursor \<Rightarrow> run list" where
  "pendingDetails st cutoff after =
     take observationRetentionPageRows (sort_key detailKey
       (filter (\<lambda>r. \<not> detailExpired st (rn_ID r) \<and> fst (detailKey r) < retentionUpperBound cutoff \<and> after < detailKey r) (tb_Runs st)))"

text \<open>The scan of a page: the prunable runs, the last row examined, and whether the page was read to its end.\<close>

fun scanDetails :: "'x prepStore \<Rightarrow> gtime \<Rightarrow> nat \<Rightarrow> nat \<Rightarrow> string list \<Rightarrow> detailCursor \<Rightarrow> run list \<Rightarrow> string list \<times> detailCursor \<times> bool" where
  "scanDetails st cutoff limit rowsInTime found next [] = (found, next, True)"
| "scanDetails st cutoff limit rowsInTime found next (r # rs) =
     (let found' = (if prunable st cutoff r then found @ [rn_ID r] else found) in
      if length found' = limit \<or> rowsInTime \<le> 1 then (found', detailKey r, False)
      else scanDetails st cutoff limit (rowsInTime - 1) found' (detailKey r) rs)"

definition expireRun :: "gtime \<Rightarrow> string \<Rightarrow> 'x prepStore \<Rightarrow> 'x prepStore" where
  "expireRun now runID st =
     st\<lparr>tb_Expirations := tb_Expirations st @ [(runID, tUTC now)],
        tb_Payloads := filter (\<lambda>(k, v). \<not> list_ex (\<lambda>x. xf_ID x = k \<and> xf_RunID x = runID) (tb_Facts st)) (tb_Payloads st)\<rparr>"

definition pruneDetailsPage ::
  "gtime \<Rightarrow> gtime \<Rightarrow> detailCursor \<Rightarrow> nat \<Rightarrow> nat \<Rightarrow> 'x prepStore \<Rightarrow> 'x prepStore \<times> nat \<times> detailCursor \<times> bool" where
  "pruneDetailsPage now cutoff after limit rowsInTime st =
     (let rows = pendingDetails st cutoff after;
          (ids, next, whole) = scanDetails st cutoff limit rowsInTime [] after rows
      in (fold (expireRun now) ids st, length ids, next, whole \<and> length rows < observationRetentionPageRows))"

section \<open>The loop over the pages\<close>

text \<open>The rows left behind the cursor.\<close>

definition rowsAfter :: "'x prepStore \<Rightarrow> detailCursor \<Rightarrow> run list" where
  "rowsAfter st after = filter (\<lambda>r. after < detailKey r) (tb_Runs st)"

lemma fold_expireRun_frame:
  "\<exists>pays exps. fold (expireRun now) ids st = st\<lparr>tb_Payloads := pays, tb_Expirations := exps\<rparr>"
proof (induction ids arbitrary: st)
  case Nil
  have "fold (expireRun now) [] st = st\<lparr>tb_Payloads := tb_Payloads st, tb_Expirations := tb_Expirations st\<rparr>" by simp
  then show ?case by blast
next
  case (Cons i ids)
  obtain pays exps where "fold (expireRun now) ids (expireRun now i st) = (expireRun now i st)\<lparr>tb_Payloads := pays, tb_Expirations := exps\<rparr>"
    using Cons.IH by blast
  moreover have "expireRun now i st = st\<lparr>tb_Payloads := tb_Payloads (expireRun now i st), tb_Expirations := tb_Expirations (expireRun now i st)\<rparr>"
    by (simp add: expireRun_def)
  moreover have "st\<lparr>tb_Payloads := p, tb_Expirations := e\<rparr>\<lparr>tb_Payloads := pays, tb_Expirations := exps\<rparr> = st\<lparr>tb_Payloads := pays, tb_Expirations := exps\<rparr>" for p e
    by simp
  ultimately have "fold (expireRun now) (i # ids) st = st\<lparr>tb_Payloads := pays, tb_Expirations := exps\<rparr>" by (metis fold_simps(2))
  then show ?case by blast
qed

lemma scanDetails_next:
  "scanDetails st cutoff limit n found next rs = (ids, next', whole) \<Longrightarrow> rs \<noteq> [] \<Longrightarrow> next' \<in> detailKey ` set rs"
proof (induction st cutoff limit n found "next" rs rule: scanDetails.induct)
  case (2 st cutoff limit n found "next" r rs)
  show ?case
  proof (cases "length (if prunable st cutoff r then found @ [rn_ID r] else found) = limit \<or> n \<le> 1")
    case True
    then show ?thesis using 2(2) by (auto simp: Let_def)
  next
    case False
    then have rest: "scanDetails st cutoff limit (n - 1) (if prunable st cutoff r then found @ [rn_ID r] else found) (detailKey r) rs = (ids, next', whole)"
      using 2(2) by (simp only: scanDetails.simps Let_def if_False)
    show ?thesis
    proof (cases "rs = []")
      case True
      then show ?thesis using rest by auto
    next
      case False
      then show ?thesis using 2(1) [OF refl _ rest] \<open>\<not> (length _ = limit \<or> n \<le> 1)\<close> by auto
    qed
  qed
qed simp

lemma scanDetails_none: "scanDetails st cutoff limit n found next [] = (found, next, True)" by simp

lemma pruneDetailsPage_advances:
  assumes "pruneDetailsPage now cutoff after limit n st = (st', k, next, done)" and "\<not> done"
  shows "length (rowsAfter st' next) < length (rowsAfter st after)"
proof -
  let ?rows = "pendingDetails st cutoff after"
  obtain ids whole where scan: "scanDetails st cutoff limit n [] after ?rows = (ids, next, whole)" and st': "st' = fold (expireRun now) ids st"
    using assms(1) by (auto simp: pruneDetailsPage_def Let_def split: prod.splits)
  have "?rows \<noteq> []"
  proof
    assume "?rows = []"
    then show False using assms by (auto simp: pruneDetailsPage_def Let_def observationRetentionPageRows_def)
  qed
  then obtain r where r: "r \<in> set ?rows" "next = detailKey r" using scanDetails_next [OF scan] by blast
  have in_runs: "r \<in> set (tb_Runs st)" "after < detailKey r"
    using in_set_takeD [OF r(1) [unfolded pendingDetails_def]] by auto
  have "tb_Runs st' = tb_Runs st" using fold_expireRun_frame [of now ids st] st' by auto
  then have "rowsAfter st' next = filter (\<lambda>r. next < detailKey r) (rowsAfter st after)"
    using in_runs(2) r(2) by (auto simp: rowsAfter_def intro!: filter_cong)
  moreover have "r \<in> set (rowsAfter st after)" "\<not> next < detailKey r" using in_runs r(2) by (auto simp: rowsAfter_def)
  ultimately show ?thesis by (metis length_filter_less)
qed

text \<open>
  The loop runs until no pending run past the cutoff is left or enough runs have expired.  Its pages only move forward,
  so it ends.  A limit of zero runs means no limit.
\<close>

function pruneObservationDetails ::
  "(nat \<Rightarrow> nat) \<Rightarrow> gtime \<Rightarrow> gtime \<Rightarrow> nat \<Rightarrow> nat \<Rightarrow> nat \<Rightarrow> detailCursor \<Rightarrow> 'x prepStore \<Rightarrow> 'x prepStore \<times> nat" where
  "pruneObservationDetails rowsInTime now cutoff upTo page sofar after st =
     (let limit = (if 0 < upTo \<and> upTo - sofar < observationDetailPageExpiries then upTo - sofar else observationDetailPageExpiries);
          r = pruneDetailsPage now cutoff after limit (rowsInTime page) st;
          sofar' = sofar + fst (snd r)
      in if snd (snd (snd r)) \<or> (0 < upTo \<and> upTo \<le> sofar') then (fst r, sofar')
         else pruneObservationDetails rowsInTime now cutoff upTo (page + 1) sofar' (fst (snd (snd r))) (fst r))"
  by pat_completeness auto

termination
proof (relation "measure (\<lambda>(_, _, _, _, _, _, after, st). length (rowsAfter st after))", goal_cases)
  case 1
  show ?case by (rule wf_measure)
next
  case (2 rowsInTime now cutoff upTo page sofar after st limit r sofar')
  have "pruneDetailsPage now cutoff after limit (rowsInTime page) st = (fst r, fst (snd r), fst (snd (snd r)), snd (snd (snd r)))"
    using 2(2) by simp
  then have "length (rowsAfter (fst r) (fst (snd (snd r)))) < length (rowsAfter st after)"
    by (rule pruneDetailsPage_advances) (use 2(4) in simp)
  then show ?case by simp
qed

definition PruneUnusedObservationDetails :: "(nat \<Rightarrow> nat) \<Rightarrow> gtime \<Rightarrow> int \<Rightarrow> 'x prepStore \<Rightarrow> 'x prepStore \<times> nat" where
  "PruneUnusedObservationDetails rowsInTime now limit st =
     pruneObservationDetails rowsInTime now (tAdd now (- observationDetailRetention))
       (if limit \<le> 0 \<or> 100 < limit then 100 else nat limit) 0 0 ([], []) st"

declare pruneObservationDetails.simps [simp del]

end
