(* ===== verification/Preparation_Invariants.thy ===== *)
theory Preparation_Invariants
  imports Observation_Run Observation_Retention
begin

text \<open>
  The invariant of the preparation tables: request budgets, the accounting of the optional credit, and the immutability of
  frozen cycles.  It is kept by every transaction of \<^verbatim>\<open>situation_preparation.go\<close> and so by every phase the runner
  executes.
\<close>

section \<open>What each step changes\<close>

lemma updateWhere_set: "x \<in> set (updateWhere p f xs) \<longleftrightarrow> (\<exists>y \<in> set xs. x = (if p y then f y else y))"
  by (auto simp: updateWhere_def)

lemma map_updateWhere: "(\<And>x. p x \<Longrightarrow> k (f x) = k x) \<Longrightarrow> map k (updateWhere p f xs) = map k xs"
  by (simp add: updateWhere_def)

lemma find_some: "find p xs = Some x \<Longrightarrow> x \<in> set xs \<and> p x"
  by (auto simp: find_Some_iff)

lemma find_unique: "\<lbrakk>distinct (map k xs); x \<in> set xs\<rbrakk> \<Longrightarrow> find (\<lambda>y. k y = k x) xs = Some x"
  by (induction xs) (auto simp: image_iff)

lemma admitRefresh_frame: "admitRefresh s c sc cap r st = Inr st' \<Longrightarrow> \<exists>rows. st' = st\<lparr>tb_Refresh := rows\<rparr>"
  by (auto simp: admitRefresh_def Let_def)

lemma addReference_frame: "\<exists>rows. addReference i r k ow now st = st\<lparr>tb_References := rows\<rparr>"
  unfolding addReference_def by (cases "i \<in> rfr_ID ` set (tb_References st)") (auto intro: exI [of _ "tb_References st"])

lemma insertCurrentCycleReference_frame:
  "insertCurrentCycleReference s c r now st = Inr st' \<Longrightarrow> \<exists>rows. st' = st\<lparr>tb_References := rows\<rparr>"
  using addReference_frame [of "currentCycleReference c r" r "''current_cycle''" c now st]
  by (auto simp: insertCurrentCycleReference_def split: if_splits intro: exI [of _ "tb_References st"])

lemma insertOpenCycleReference_frame:
  "insertOpenCycleReference r now st = Inr st' \<Longrightarrow> \<exists>rows. st' = st\<lparr>tb_References := rows\<rparr>"
  using addReference_frame [of "openCycleReference (rn_ID r)" "rn_ID r" "''open_cycle''" "rn_CycleID r" "tUTC now" st]
  by (auto simp: insertOpenCycleReference_def)

lemma insertPlans_frame:
  "insertPlans env s c now ps st = Inr st' \<Longrightarrow>
     (\<exists>rows. st' = st\<lparr>tb_Plans := tb_Plans st @ map (storedPlan c) ps, tb_References := rows\<rparr>) \<and>
     (distinct (map pl_ID (tb_Plans st)) \<longrightarrow> distinct (map pl_ID (tb_Plans st @ ps)))"
proof (induction ps arbitrary: st)
  case Nil
  then show ?case by (auto intro: exI [of _ "tb_References st"])
next
  case (Cons p ps)
  from Cons.prems obtain st1 st2 where st1: "insertObservationPlan env c p st = Inr st1"
    and st2: "(if pl_Tier p = TierReuse then insertCurrentCycleReference s c (pl_ReuseRunID p) now st1 else Inr st1) = Inr st2"
    and rest: "insertPlans env s c now ps st2 = Inr st'" by auto
  have a: "st1 = st\<lparr>tb_Plans := tb_Plans st @ [storedPlan c p]\<rparr>" "pl_ID p \<notin> pl_ID ` set (tb_Plans st)"
    using st1 by (auto simp: insertObservationPlan_def)
  obtain rows where b: "st2 = st1\<lparr>tb_References := rows\<rparr>"
    using st2 insertCurrentCycleReference_frame by (fastforce split: if_splits intro: exI [of _ "tb_References st1"])
  have "pl_ID (storedPlan c p) = pl_ID p" by (simp add: storedPlan_def)
  then show ?case using Cons.IH [OF rest] a b by auto
qed

lemma identifyPlans_valid:
  "identifyPlans env c ps alloc = Inr (qs, alloc') \<Longrightarrow> list_all (\<lambda>q. 0 \<le> pl_MaxRequests q \<and> pl_CycleID q = c) qs"
proof (induction env c ps alloc arbitrary: qs alloc' rule: identifyPlans.induct)
  case (2 env c p ps alloc)
  from 2(2) obtain i rest alloc1 where i: "CanonicalPlanID (sve_CanonicalJSON env) c p = Inr i"
    and rest: "identifyPlans env c ps (if pl_Tier p = TierOptional \<and> pa_OptionalPlanID alloc = pl_Capability p @ '':'' @ sp_SubjectID (pl_Scope p)
          then alloc\<lparr>pa_OptionalPlanID := i\<rparr> else alloc) = Inr (rest, alloc1)"
    and qs: "qs = p\<lparr>pl_ID := i, pl_CycleID := c\<rparr> # rest" by (auto split: prod.splits)
  have "ValidatePlan p = None" using i by (auto simp: CanonicalPlanID_def)
  then have "0 \<le> pl_MaxRequests p" by (simp add: ValidatePlan_iff planWellFormed_def)
  then show ?case using 2(1) [OF rest] qs by auto
qed simp

lemma insertFacts_frame:
  "insertFacts env s r now xs st = Inr (st', changed) \<Longrightarrow>
     \<exists>src. st' = st\<lparr>tb_Facts := tb_Facts st @ map (storedFact r) xs,
        tb_Payloads := tb_Payloads st @ map (\<lambda>x. (xf_ID x, nullIfEmpty (xf_Value x))) xs, tb_Source := src\<rparr>"
proof (induction xs arbitrary: st changed)
  case Nil
  then show ?case by (auto intro: exI [of _ "tb_Source st"])
next
  case (Cons x xs)
  from Cons.prems obtain st1 src later where st1: "insertObservationFact env r x st = Inr st1"
    and rest: "insertFacts env s r now xs (st1\<lparr>tb_Source := src\<rparr>) = Inr (st', later)" by (auto split: prod.splits)
  show ?case using Cons.IH [OF rest] st1 by (auto simp: insertObservationFact_def)
qed

lemma insertNewRun_frame:
  assumes "insertNewRun env f c p r now st = Inr st'"
  shows "\<not> cyr_Sealed c" and "rn_ID r \<notin> rn_ID ` set (tb_Runs st)" and "rn_PlanID r \<notin> rn_PlanID ` set (tb_Runs st)"
    and "\<exists>refs cursors src. st' = st\<lparr>tb_Runs := tb_Runs st @ [runRow r now], tb_Facts := tb_Facts st @ map (storedFact (rn_ID r)) (rn_Facts r),
        tb_Payloads := tb_Payloads st @ map (\<lambda>x. (xf_ID x, nullIfEmpty (xf_Value x))) (rn_Facts r), tb_Refresh := cursors,
        tb_References := refs, tb_Source := src\<rparr>"
proof -
  from assms obtain st1 st2 changed st3 st4 where st1: "insertRun r now st = Inr st1"
    and st2: "insertFacts env (cyr_SituationID c) (rn_ID r) now (rn_Facts r) st1 = Inr (st2, changed)"
    and st3: "insertOpenCycleReference r now st2 = Inr st3"
    and st4: "(case rn_ReusedFromRunID r of
                Some i \<Rightarrow> insertCurrentCycleReference (fn_SituationID f) (rn_CycleID r) i (tUTC now) st3
              | None \<Rightarrow> admitRefresh (fn_SituationID f) c (pl_Scope p) (pl_Capability p) (rn_ID r) st3) = Inr st4"
    and st5: "(if changed then andThen (sve_WakeForSource env (cyr_SituationID c) now (tb_Source st4)) (\<lambda>src. Inr (st4\<lparr>tb_Source := src\<rparr>))
       else Inr st4) = Inr st'" and open': "\<not> cyr_Sealed c"
    unfolding insertNewRun_def by (auto split: prod.splits)
  show "\<not> cyr_Sealed c" by (rule open')
  have a: "st1 = st\<lparr>tb_Runs := tb_Runs st @ [runRow r now]\<rparr>" using st1 by (auto simp: insertRun_def)
  show "rn_ID r \<notin> rn_ID ` set (tb_Runs st)" "rn_PlanID r \<notin> rn_PlanID ` set (tb_Runs st)" using st1 by (auto simp: insertRun_def)
  obtain src where b: "st2 = st1\<lparr>tb_Facts := tb_Facts st1 @ map (storedFact (rn_ID r)) (rn_Facts r),
      tb_Payloads := tb_Payloads st1 @ map (\<lambda>x. (xf_ID x, nullIfEmpty (xf_Value x))) (rn_Facts r), tb_Source := src\<rparr>"
    using insertFacts_frame [OF st2] by blast
  obtain refs where c: "st3 = st2\<lparr>tb_References := refs\<rparr>" using insertOpenCycleReference_frame [OF st3] by blast
  obtain refs' cursors where d: "st4 = st3\<lparr>tb_Refresh := cursors, tb_References := refs'\<rparr>"
  proof (cases "rn_ReusedFromRunID r")
    case None
    then obtain rows where "st4 = st3\<lparr>tb_Refresh := rows\<rparr>" using st4 admitRefresh_frame by fastforce
    then show ?thesis using that [of "tb_References st3" rows] by simp
  next
    case (Some i)
    then obtain rows where "st4 = st3\<lparr>tb_References := rows\<rparr>" using st4 insertCurrentCycleReference_frame by fastforce
    then show ?thesis using that [of rows "tb_Refresh st3"] by simp
  qed
  obtain src' where e: "st' = st4\<lparr>tb_Source := src'\<rparr>"
    using st5 by (cases changed) (auto intro: that [of "tb_Source st4"])
  show "\<exists>refs cursors src. st' = st\<lparr>tb_Runs := tb_Runs st @ [runRow r now], tb_Facts := tb_Facts st @ map (storedFact (rn_ID r)) (rn_Facts r),
        tb_Payloads := tb_Payloads st @ map (\<lambda>x. (xf_ID x, nullIfEmpty (xf_Value x))) (rn_Facts r), tb_Refresh := cursors,
        tb_References := refs, tb_Source := src\<rparr>"
    by (intro exI [of _ refs'] exI [of _ cursors] exI [of _ src']) (simp add: a b c d e)
qed

text \<open>A successful commit replays a committed run or adds one row for a plan of the open cycle that has none.\<close>

lemma CommitObservationRun_cases:
  assumes "CommitObservationRun env f r now st = Inr st'"
  obtains (replay) x where "st' = st" "x \<in> set (tb_Runs st)" "rn_ID x = rn_ID r" "loadRunCanonical env st (rn_ID r) = Some (canonicalRunPayload env (capCycleBytes st r))"
    | (inserted) c p where "openCycleForWrite st f (rn_CycleID r) = Inr c" "planInCycle st (rn_PlanID r) (rn_CycleID r) = Some p"
        "insertNewRun env f c p (capCycleBytes st r) now st = Inr st'"
proof -
  have same: "rn_ID (capCycleBytes st r) = rn_ID r" by (simp add: capCycleBytes_def)
  from assms obtain c p where c: "openCycleForWrite st f (rn_CycleID r) = Inr c" and p: "planInCycle st (rn_PlanID r) (rn_CycleID r) = Some p"
    and result: "(case loadRunCanonical env st (rn_ID (capCycleBytes st r)) of
        Some existing \<Rightarrow> if existing = canonicalRunPayload env (capCycleBytes st r) then Inr st else Inl ErrConflictingReplay
      | None \<Rightarrow> insertNewRun env f c p (capCycleBytes st r) now st) = Inr st'"
    unfolding CommitObservationRun_def Let_def by (simp only: andThen_Inr orFail_Inr) blast
  show thesis
  proof (cases "loadRunCanonical env st (rn_ID (capCycleBytes st r))")
    case None
    then show ?thesis using inserted [OF c p] result by simp
  next
    case (Some e)
    then obtain x where x: "find (\<lambda>x. rn_ID x = rn_ID r) (tb_Runs st) = Some x"
      by (auto simp: loadRunCanonical_def same split: option.splits)
    show ?thesis using replay [of x] find_some [OF x] Some result same by (auto split: if_splits)
  qed
qed

lemma openCycleForWrite_row:
  assumes "openCycleForWrite st f cycleID = Inr c"
  shows "c \<in> set (tb_Cycles st)" and "cyr_ID c = cycleID" and "cyr_SituationID c = fn_SituationID f" and "cyr_InputVersion c = fn_InputVersion f"
  using assms by (auto simp: openCycleForWrite_def split: option.splits if_splits dest: find_some)

lemma planInCycle_row: "planInCycle st i c = Some p \<Longrightarrow> p \<in> set (tb_Plans st) \<and> pl_ID p = i \<and> pl_CycleID p = c"
  by (auto simp: planInCycle_def dest: find_some)

text \<open>A successful reservation adds one request and, for an optional plan, pays for it.\<close>

lemma placeReservation_frame:
  assumes "placeReservation f c p n q st = Inr st'"
  shows "\<exists>cursors. st' = st\<lparr>tb_Requests := tb_Requests st @ [q], tb_Refresh := cursors\<rparr>"
proof (cases "n = 0")
  case True
  then have "admitRefresh (fn_SituationID f) c (pl_Scope p) (pl_Capability p) [] (st\<lparr>tb_Requests := tb_Requests st @ [q]\<rparr>) = Inr st'"
    using assms by (simp add: placeReservation_def Let_def)
  from admitRefresh_frame [OF this] show ?thesis by simp
next
  case False
  then show ?thesis using assms by (auto simp: placeReservation_def Let_def intro: exI [of _ "tb_Refresh st"])
qed

lemma ReserveObservationRequest_parts:
  assumes "ReserveObservationRequest f cycleID planID now st = Inr (st', q)"
  obtains c p st1 cursors where "openCycleForWrite st f cycleID = Inr c" "\<not> cyr_Sealed c" "planInCycle st planID cycleID = Some p"
    "int (length (requestsIn st cycleID)) < cyr_MaxRequests c" "int (length (requestsFor st planID)) < pl_MaxRequests p"
    "(if spendsCredit c p then debitCredit (fn_SituationID f) c st else Inr st) = Inr st1"
    "rsv_CycleID q = cycleID" "rsv_PlanID q = planID" "rsv_Ordinal q = int (length (requestsIn st cycleID)) + 1"
    "st' = st1\<lparr>tb_Requests := tb_Requests st1 @ [q], tb_Refresh := cursors\<rparr>"
proof -
  let ?n = "int (length (requestsIn st cycleID))"
  let ?q = "\<lparr>rsv_ID = ''request:'' @ cycleID @ '':'' @ itoa (?n + 1), rsv_CycleID = cycleID, rsv_PlanID = planID,
              rsv_Ordinal = ?n + 1, rsv_ReservedAt = tUTC now\<rparr>"
  from assms obtain c p st1 where facts: "openCycleForWrite st f cycleID = Inr c" "\<not> cyr_Sealed c" "planInCycle st planID cycleID = Some p"
    "\<not> (?n \<ge> cyr_MaxRequests c \<or> int (length (requestsFor st planID)) \<ge> pl_MaxRequests p)"
    "(if spendsCredit c p then debitCredit (fn_SituationID f) c st else Inr st) = Inr st1"
    and last: "placeReservation f c p (int (length (requestsFor st planID))) ?q st1 = Inr st'" and q: "q = ?q"
    unfolding ReserveObservationRequest_def Let_def by (auto simp only: andThen_Inr orFail_Inr failIf_Inr sum.inject prod.inject)
  obtain cursors where "st' = st1\<lparr>tb_Requests := tb_Requests st1 @ [q], tb_Refresh := cursors\<rparr>"
    using placeReservation_frame [OF last] unfolding q by blast
  then show thesis using that [OF facts(1-3) _ _ facts(5), of cursors] facts(4) q by simp
qed

section \<open>The invariant\<close>

definition paidRequests :: "'x prepStore \<Rightarrow> cycleRow \<Rightarrow> requestReservation list" where
  "paidRequests st c =
     filter (\<lambda>q. \<exists>p \<in> set (tb_Plans st). pl_ID p = rsv_PlanID q \<and> spendsCredit c p) (requestsIn st (cyr_ID c))"

text \<open>The ordinals of the first \<open>n\<close> requests of a cycle.\<close>

definition ordinals :: "nat \<Rightarrow> int list" where
  "ordinals n = map int [1..<Suc n]"

lemma ordinals_0 [simp]: "ordinals 0 = []" and ordinals_Suc [simp]: "ordinals (Suc n) = ordinals n @ [int n + 1]"
  by (simp_all add: ordinals_def)

definition cycleBudgetOK :: "'x prepStore \<Rightarrow> cycleRow \<Rightarrow> bool" where
  "cycleBudgetOK st c \<longleftrightarrow>
     int (length (requestsIn st (cyr_ID c))) \<le> max 0 (cyr_MaxRequests c) \<and>
     map rsv_Ordinal (requestsIn st (cyr_ID c)) = ordinals (length (requestsIn st (cyr_ID c))) \<and>
     cyr_OptionalCreditSpent c = investigationCreditCostPerRequest * int (length (paidRequests st c))"

definition planBudgetOK :: "'x prepStore \<Rightarrow> plan \<Rightarrow> bool" where
  "planBudgetOK st p \<longleftrightarrow>
     0 \<le> pl_MaxRequests p \<and> int (length (requestsFor st (pl_ID p))) \<le> pl_MaxRequests p \<and> pl_CycleID p \<in> cyr_ID ` set (tb_Cycles st)"

definition keysOK :: "'x prepStore \<Rightarrow> bool" where
  "keysOK st \<longleftrightarrow>
     distinct (map stc_ID (tb_Situations st)) \<and> distinct (map cyr_ID (tb_Cycles st)) \<and> distinct (map pl_ID (tb_Plans st)) \<and>
     distinct (map rn_ID (tb_Runs st)) \<and> distinct (map rn_PlanID (tb_Runs st))"

definition ownsPlan :: "'x prepStore \<Rightarrow> string \<Rightarrow> string \<Rightarrow> bool" where
  "ownsPlan st planID cycleID \<longleftrightarrow> (\<exists>p \<in> set (tb_Plans st). pl_ID p = planID \<and> pl_CycleID p = cycleID)"

definition prepInv :: "'x prepStore \<Rightarrow> bool" where
  "prepInv st \<longleftrightarrow>
     keysOK st \<and> list_all (\<lambda>s. 0 \<le> stc_InvestigationCredit s) (tb_Situations st) \<and>
     list_all (planBudgetOK st) (tb_Plans st) \<and> list_all (cycleBudgetOK st) (tb_Cycles st) \<and>
     list_all (\<lambda>q. ownsPlan st (rsv_PlanID q) (rsv_CycleID q)) (tb_Requests st) \<and>
     list_all (\<lambda>r. ownsPlan st (rn_PlanID r) (rn_CycleID r)) (tb_Runs st)"

lemma budget_frame:
  assumes "tb_Requests st1 = tb_Requests st" "tb_Plans st1 = tb_Plans st" "tb_Cycles st1 = tb_Cycles st"
  shows "cycleBudgetOK st1 = cycleBudgetOK st" and "planBudgetOK st1 = planBudgetOK st" and "ownsPlan st1 = ownsPlan st"
  using assms by (simp_all add: requestsIn_def requestsFor_def cycleBudgetOK_def paidRequests_def planBudgetOK_def ownsPlan_def fun_eq_iff)

text \<open>Tables the invariant does not look at may change freely; situation rows as long as their IDs stay distinct and no credit is negative.\<close>

lemma prepInv_change:
  assumes "prepInv st" and "tb_Requests st1 = tb_Requests st" "tb_Plans st1 = tb_Plans st" "tb_Cycles st1 = tb_Cycles st" "tb_Runs st1 = tb_Runs st"
    and "distinct (map stc_ID (tb_Situations st1))" and "list_all (\<lambda>s. 0 \<le> stc_InvestigationCredit s) (tb_Situations st1)"
  shows "prepInv st1"
  using assms budget_frame [OF assms(2-4)] by (simp add: prepInv_def keysOK_def)

lemma prepInv_situation_rows:
  "prepInv st \<Longrightarrow> distinct (map stc_ID (tb_Situations st)) \<and> list_all (\<lambda>s. 0 \<le> stc_InvestigationCredit s) (tb_Situations st)"
  by (simp add: prepInv_def keysOK_def)

lemma prepInv_frame:
  assumes "prepInv st" and "tb_Requests st1 = tb_Requests st" "tb_Plans st1 = tb_Plans st" "tb_Cycles st1 = tb_Cycles st"
    "tb_Runs st1 = tb_Runs st" "tb_Situations st1 = tb_Situations st"
  shows "prepInv st1"
  using prepInv_situation_rows [OF assms(1)] by (intro prepInv_change [OF assms(1-5)]) (simp_all add: assms(6))

lemma prepInv_pointAt: "prepInv st \<Longrightarrow> prepInv (pointAt s c st)"
  using prepInv_situation_rows [of st]
  by (auto intro!: prepInv_change [of st] simp: pointAt_def list_all_iff updateWhere_set map_updateWhere)

text \<open>Flags of a cycle row that neither budget nor plan refers to.\<close>

lemma prepInv_seal:
  assumes "prepInv st" and "\<And>c. cyr_ID (g c) = cyr_ID c \<and> cyr_MaxRequests (g c) = cyr_MaxRequests c \<and>
     cyr_Allocation (g c) = cyr_Allocation c \<and> cyr_OptionalCreditSpent (g c) = cyr_OptionalCreditSpent c"
  shows "prepInv (st\<lparr>tb_Cycles := map g (tb_Cycles st)\<rparr>)"
proof -
  let ?st = "st\<lparr>tb_Cycles := map g (tb_Cycles st)\<rparr>"
  have "requestsIn ?st = requestsIn st" "requestsFor ?st = requestsFor st" "ownsPlan ?st = ownsPlan st"
    by (simp_all add: requestsIn_def requestsFor_def ownsPlan_def fun_eq_iff)
  moreover have "map cyr_ID (map g (tb_Cycles st)) = map cyr_ID (tb_Cycles st)" using assms(2) by simp
  moreover have "spendsCredit (g c) = spendsCredit c" for c using assms(2) by (simp add: spendsCredit_def fun_eq_iff)
  moreover have "cyr_ID ` set (map g (tb_Cycles st)) = cyr_ID ` set (tb_Cycles st)" using assms(2) by (force simp: image_iff)
  ultimately show ?thesis
    using assms by (auto simp: prepInv_def keysOK_def cycleBudgetOK_def paidRequests_def planBudgetOK_def list_all_iff comp_def)
qed

section \<open>Transactions keep the invariant\<close>

lemma requests_owned:
  assumes "prepInv st" and "q \<in> set (tb_Requests st)"
  shows "rsv_CycleID q \<in> cyr_ID ` set (tb_Cycles st)" and "rsv_PlanID q \<in> pl_ID ` set (tb_Plans st)"
proof -
  have "ownsPlan st (rsv_PlanID q) (rsv_CycleID q)" "\<And>p. p \<in> set (tb_Plans st) \<Longrightarrow> planBudgetOK st p"
    using assms by (simp_all add: prepInv_def list_all_iff)
  then obtain p where "p \<in> set (tb_Plans st)" "pl_ID p = rsv_PlanID q" "pl_CycleID p = rsv_CycleID q" "planBudgetOK st p"
    by (auto simp: ownsPlan_def)
  then show "rsv_CycleID q \<in> cyr_ID ` set (tb_Cycles st)" "rsv_PlanID q \<in> pl_ID ` set (tb_Plans st)"
    by (auto simp: planBudgetOK_def rev_image_eqI)
qed

lemma no_requests_elsewhere:
  assumes "prepInv st"
  shows "c \<notin> cyr_ID ` set (tb_Cycles st) \<Longrightarrow> requestsIn st c = []" and "i \<notin> pl_ID ` set (tb_Plans st) \<Longrightarrow> requestsFor st i = []"
  using requests_owned [OF assms] by (auto simp: requestsIn_def requestsFor_def filter_empty_conv)

lemma prepInv_addCycle:
  assumes "prepInv st" and "cyr_ID row \<notin> cyr_ID ` set (tb_Cycles st)" and "cyr_OptionalCreditSpent row = 0"
  shows "prepInv (st\<lparr>tb_Cycles := tb_Cycles st @ [row]\<rparr>)"
proof -
  let ?st = "st\<lparr>tb_Cycles := tb_Cycles st @ [row]\<rparr>"
  have same: "requestsIn ?st = requestsIn st" "requestsFor ?st = requestsFor st" "ownsPlan ?st = ownsPlan st" "paidRequests ?st = paidRequests st"
    by (simp_all add: requestsIn_def requestsFor_def ownsPlan_def paidRequests_def fun_eq_iff)
  have "cycleBudgetOK ?st row"
    using no_requests_elsewhere(1) [OF assms(1,2)] assms(3) by (simp add: cycleBudgetOK_def same paidRequests_def)
  moreover have "cycleBudgetOK ?st = cycleBudgetOK st" by (simp add: cycleBudgetOK_def same fun_eq_iff)
  moreover have "planBudgetOK st p \<Longrightarrow> planBudgetOK ?st p" for p by (simp add: planBudgetOK_def same)
  ultimately show ?thesis using assms(1,2) by (auto simp: prepInv_def keysOK_def list_all_iff same)
qed

lemma prepInv_addPlans:
  assumes "prepInv st" and "distinct (map pl_ID (tb_Plans st @ ps))"
    and "list_all (\<lambda>p. 0 \<le> pl_MaxRequests p \<and> pl_CycleID p \<in> cyr_ID ` set (tb_Cycles st)) ps"
  shows "prepInv (st\<lparr>tb_Plans := tb_Plans st @ ps\<rparr>)"
proof -
  let ?st = "st\<lparr>tb_Plans := tb_Plans st @ ps\<rparr>"
  have same: "requestsIn ?st = requestsIn st" "requestsFor ?st = requestsFor st"
    by (simp_all add: requestsIn_def requestsFor_def fun_eq_iff)
  have new: "requestsFor st (pl_ID p) = []" if "p \<in> set ps" for p
    using that assms(2) by (intro no_requests_elsewhere(2) [OF assms(1)]) auto
  have "paidRequests ?st c = paidRequests st c" for c
    unfolding paidRequests_def same
  proof (rule filter_cong [OF refl])
    fix q
    assume "q \<in> set (requestsIn st (cyr_ID c))"
    then have "rsv_PlanID q \<in> pl_ID ` set (tb_Plans st)" using requests_owned(2) [OF assms(1)] by (simp add: requestsIn_def)
    then have "rsv_PlanID q \<notin> pl_ID ` set ps" using assms(2) by auto
    then have "p \<notin> set ps" if "pl_ID p = rsv_PlanID q" for p using that imageI [of p "set ps" pl_ID] by metis
    then show "(\<exists>p\<in>set (tb_Plans ?st). pl_ID p = rsv_PlanID q \<and> spendsCredit c p) =
        (\<exists>p\<in>set (tb_Plans st). pl_ID p = rsv_PlanID q \<and> spendsCredit c p)" by auto
  qed
  then have "cycleBudgetOK ?st = cycleBudgetOK st" by (simp add: cycleBudgetOK_def same fun_eq_iff)
  moreover have "planBudgetOK ?st = planBudgetOK st" by (simp add: planBudgetOK_def same fun_eq_iff)
  moreover have "planBudgetOK st p" if "p \<in> set ps" for p
    using that assms(3) new by (simp add: planBudgetOK_def list_all_iff)
  moreover have "ownsPlan st i c \<Longrightarrow> ownsPlan ?st i c" for i c by (auto simp: ownsPlan_def)
  ultimately show ?thesis using assms(1,2) by (auto simp: prepInv_def keysOK_def list_all_iff)
qed

lemma createCycle_frame:
  assumes "createCycle env f draft n g st = Inr (st', c)"
  obtains plans row refs where "tb_Cycles st' = tb_Cycles st @ [row]" "tb_Plans st' = tb_Plans st @ map (storedPlan (cyr_ID row)) plans"
    "cyr_ID row \<notin> cyr_ID ` set (tb_Cycles st)" "cyr_OptionalCreditSpent row = 0" "cyr_ID row = cyc_ID c" "\<not> cyr_Sealed row"
    "distinct (map pl_ID (tb_Plans st)) \<Longrightarrow> distinct (map pl_ID (tb_Plans st @ plans))"
    "list_all (\<lambda>p. 0 \<le> pl_MaxRequests p \<and> pl_CycleID p = cyr_ID row) plans"
    "st' = pointAt (fn_SituationID f) (cyr_ID row)
       (st\<lparr>tb_Cycles := tb_Cycles st @ [row], tb_Plans := tb_Plans st @ map (storedPlan (cyr_ID row)) plans, tb_References := refs\<rparr>)"
    "cyr_SituationID row = fn_SituationID f" "cyr_InputVersion row = fn_InputVersion f" "cyr_Generation row = g" "cyr_MaxRequests row = n"
    "cyr_Allocation row = cyd_Allocation (cyc_Draft c)" "cyd_Plans (cyc_Draft c) = plans" "cyr_ConfigDigest row = cyd_ConfigDigest (cyc_Draft c)"
    "cyr_Anchor row = tUTC (cyd_Anchor (cyc_Draft c))" "cyc_MaxRequests c = n" "cyc_Generation c = g" "cyc_Fence c = f"
proof -
  let ?id = "deterministicCycleID (fn_SituationID f) (fn_InputVersion f) g"
  let ?int = "if cyd_RefreshInterval draft \<le> 0 then 5 * minute else cyd_RefreshInterval draft"
  let ?row = "\<lambda>alloc. \<lparr>cyr_ID = ?id, cyr_SituationID = fn_SituationID f, cyr_InputVersion = fn_InputVersion f,
               cyr_Generation = g, cyr_Anchor = tUTC (cyd_Anchor draft), cyr_ConfigDigest = cyd_ConfigDigest draft,
               cyr_ProfileVersionIDs = cyd_ProfileVersionIDs draft, cyr_ProfileGuidance = cyd_ProfileGuidance draft,
               cyr_MaxRequests = n, cyr_Allocation = alloc, cyr_OptionalCreditSpent = 0, cyr_Sealed = False,
               cyr_SealedAt = None, cyr_RefreshSeconds = refreshSecondsOf ?int\<rparr>"
  from assms obtain plans alloc st1 where ids: "identifyPlans env ?id (cyd_Plans draft) (cyd_Allocation draft) = Inr (plans, alloc)"
    and fresh: "?id \<notin> cyr_ID ` set (tb_Cycles st)"
    and ins: "insertPlans env (fn_SituationID f) ?id (tUTC (cyd_Anchor draft)) plans (st\<lparr>tb_Cycles := tb_Cycles st @ [?row alloc]\<rparr>) = Inr st1"
    and result: "st' = pointAt (fn_SituationID f) ?id (supersedeEarlier (fn_SituationID f) ?id st1)"
      "c = \<lparr>cyc_ID = ?id, cyc_Fence = f, cyc_Generation = g,
           cyc_Draft = draft\<lparr>cyd_Plans := plans, cyd_Allocation := alloc, cyd_RefreshInterval := ?int\<rparr>, cyc_MaxRequests = n, cyc_Sealed = False\<rparr>"
    unfolding createCycle_def Let_def by (auto split: prod.splits)
  obtain refs where refs: "st1 = st\<lparr>tb_Cycles := tb_Cycles st @ [?row alloc], tb_Plans := tb_Plans st @ map (storedPlan ?id) plans, tb_References := refs\<rparr>"
    and dist: "distinct (map pl_ID (tb_Plans st)) \<Longrightarrow> distinct (map pl_ID (tb_Plans st @ plans))"
    using insertPlans_frame [OF ins] by auto
  show thesis
    by (rule that [of "?row alloc" plans])
      (use fresh dist identifyPlans_valid [OF ids] in \<open>auto simp: result refs pointAt_def supersedeEarlier_def\<close>)
qed

lemma storedPlan_simps [simp]: "pl_ID (storedPlan c p) = pl_ID p" "pl_CycleID (storedPlan c p) = c" "pl_MaxRequests (storedPlan c p) = pl_MaxRequests p"
  by (simp_all add: storedPlan_def)

lemma prepInv_begin:
  assumes "prepInv st" and "BeginPreparation env f draft n st = Inr (st', c)"
  shows "prepInv st'"
proof -
  consider existing where "st' = pointAt (fn_SituationID f) existing st" | g where "createCycle env f draft n g st = Inr (st', c)"
    using assms(2) by (auto simp: BeginPreparation_def Let_def split: option.splits)
  then show ?thesis
  proof cases
    case 1
    then show ?thesis using prepInv_pointAt [OF assms(1)] by simp
  next
    case 2
    then show ?thesis
    proof (rule createCycle_frame, goal_cases)
      case (1 plans row refs)
      have "prepInv (st\<lparr>tb_Cycles := tb_Cycles st @ [row]\<rparr>)" using assms(1) 1(3,4) by (rule prepInv_addCycle)
      then have "prepInv (st\<lparr>tb_Cycles := tb_Cycles st @ [row]\<rparr>\<lparr>tb_Plans := tb_Plans (st\<lparr>tb_Cycles := tb_Cycles st @ [row]\<rparr>) @ map (storedPlan (cyr_ID row)) plans\<rparr>)"
      proof (rule prepInv_addPlans)
        have "distinct (map pl_ID (tb_Plans st @ plans))" using assms(1) by (intro 1(7)) (simp add: prepInv_def keysOK_def)
        then show "distinct (map pl_ID (tb_Plans (st\<lparr>tb_Cycles := tb_Cycles st @ [row]\<rparr>) @ map (storedPlan (cyr_ID row)) plans))"
          by (simp add: comp_def)
        show "list_all (\<lambda>p. 0 \<le> pl_MaxRequests p \<and> pl_CycleID p \<in> cyr_ID ` set (tb_Cycles (st\<lparr>tb_Cycles := tb_Cycles st @ [row]\<rparr>)))
            (map (storedPlan (cyr_ID row)) plans)"
          using 1(8) by (simp add: list_all_iff)
      qed
      from prepInv_pointAt [OF prepInv_frame [OF this, of "st\<lparr>tb_Cycles := tb_Cycles st @ [row], tb_Plans := tb_Plans st @ map (storedPlan (cyr_ID row)) plans, tb_References := refs\<rparr>"]]
      show ?case unfolding 1(9) by simp
    qed
  qed
qed

lemma distinct_key_unique: "\<lbrakk>distinct (map k xs); x \<in> set xs; y \<in> set xs; k x = k y\<rbrakk> \<Longrightarrow> x = y"
  by (auto simp: distinct_map inj_on_def)

lemma situationOf_row: "situationOf st i = Some row \<Longrightarrow> row \<in> set (tb_Situations st) \<and> stc_ID row = i"
  using find_some [of "\<lambda>s. stc_ID s = i"] by (simp add: situationOf_def)

lemma debitCredit_result:
  assumes "debitCredit s c st = Inr st1"
  shows "st1 = st\<lparr>tb_Situations := updateWhere (\<lambda>x. stc_ID x = s)
             (\<lambda>x. x\<lparr>stc_InvestigationCredit := stc_InvestigationCredit x - investigationCreditCostPerRequest\<rparr>) (tb_Situations st),
           tb_Cycles := updateWhere (\<lambda>x. cyr_ID x = cyr_ID c)
             (\<lambda>x. x\<lparr>cyr_OptionalCreditSpent := cyr_OptionalCreditSpent x + investigationCreditCostPerRequest\<rparr>) (tb_Cycles st)\<rparr>"
    and "\<exists>row. situationOf st s = Some row \<and> investigationCreditCostPerRequest \<le> stc_InvestigationCredit row"
  using assms by (auto simp: debitCredit_def)

text \<open>The optional spending of the cycle of a new request, and nothing else, moves with the request.\<close>

definition chargedRow :: "bool \<Rightarrow> string \<Rightarrow> cycleRow \<Rightarrow> cycleRow" where
  "chargedRow paid cycleID c =
     (if paid \<and> cyr_ID c = cycleID then c\<lparr>cyr_OptionalCreditSpent := cyr_OptionalCreditSpent c + investigationCreditCostPerRequest\<rparr> else c)"

lemma chargedRow_simps [simp]:
  "cyr_ID (chargedRow b i c) = cyr_ID c" "cyr_MaxRequests (chargedRow b i c) = cyr_MaxRequests c"
  "cyr_Allocation (chargedRow b i c) = cyr_Allocation c" "spendsCredit (chargedRow b i c) = spendsCredit c"
  by (simp_all add: chargedRow_def spendsCredit_def fun_eq_iff)

lemma paidRequests_charged [simp]: "paidRequests st (chargedRow b i c) = paidRequests st c"
  by (simp add: paidRequests_def)

lemma chargedRow_spent:
  "cyr_OptionalCreditSpent (chargedRow b i c) = cyr_OptionalCreditSpent c + (if b \<and> cyr_ID c = i then investigationCreditCostPerRequest else 0)"
  by (simp add: chargedRow_def)

lemma ReserveObservationRequest_frame:
  assumes "prepInv st" and "ReserveObservationRequest f cycleID planID now st = Inr (st', q)"
  obtains c p ss cursors where "openCycleForWrite st f cycleID = Inr c" "\<not> cyr_Sealed c" "planInCycle st planID cycleID = Some p"
    "int (length (requestsIn st cycleID)) < cyr_MaxRequests c" "int (length (requestsFor st planID)) < pl_MaxRequests p"
    "rsv_CycleID q = cycleID" "rsv_PlanID q = planID" "rsv_Ordinal q = int (length (requestsIn st cycleID)) + 1"
    "st' = st\<lparr>tb_Situations := ss, tb_Cycles := map (chargedRow (spendsCredit c p) cycleID) (tb_Cycles st),
       tb_Requests := tb_Requests st @ [q], tb_Refresh := cursors\<rparr>"
    "distinct (map stc_ID ss)" "list_all (\<lambda>s. 0 \<le> stc_InvestigationCredit s) ss"
proof (rule ReserveObservationRequest_parts [OF assms(2)], goal_cases)
  case (1 c p st1 cursors)
  note rows = prepInv_situation_rows [OF assms(1)]
  show ?case
  proof (cases "spendsCredit c p")
    case False
    then have "map (chargedRow (spendsCredit c p) cycleID) (tb_Cycles st) = tb_Cycles st" by (intro map_idI) (simp add: chargedRow_def)
    then show ?thesis using that [where ss = "tb_Situations st"] 1(2-11) False rows by simp
  next
    case True
    then have debit: "debitCredit (fn_SituationID f) c st = Inr st1" using 1(7) by simp
    note result = debitCredit_result [OF debit]
    let ?ss = "updateWhere (\<lambda>x. stc_ID x = fn_SituationID f)
      (\<lambda>x. x\<lparr>stc_InvestigationCredit := stc_InvestigationCredit x - investigationCreditCostPerRequest\<rparr>) (tb_Situations st)"
    obtain row where row: "situationOf st (fn_SituationID f) = Some row" "investigationCreditCostPerRequest \<le> stc_InvestigationCredit row"
      using result(2) by blast
    have "stc_InvestigationCredit x \<ge> investigationCreditCostPerRequest" if "x \<in> set (tb_Situations st)" "stc_ID x = fn_SituationID f" for x
      using distinct_key_unique [of stc_ID "tb_Situations st" x row] that row(2) rows situationOf_row [OF row(1)] by simp
    then have "list_all (\<lambda>s. 0 \<le> stc_InvestigationCredit s) ?ss" using rows by (auto simp: list_all_iff updateWhere_set)
    moreover have "distinct (map stc_ID ?ss)" using rows by (simp add: map_updateWhere)
    moreover have "tb_Cycles st1 = map (chargedRow (spendsCredit c p) cycleID) (tb_Cycles st)"
      using openCycleForWrite_row(2) [OF 1(2)] True by (simp add: result(1) updateWhere_def chargedRow_def)
    ultimately show ?thesis using that [where ss = ?ss] 1(2-6,8-11) by (simp add: result(1))
  qed
qed

lemma prepInv_reserve:
  assumes inv: "prepInv st" and "ReserveObservationRequest f cycleID planID now st = Inr (st', q)"
  shows "prepInv st'"
proof (rule ReserveObservationRequest_frame [OF assms], goal_cases)
  case (1 c p ss cursors)
  note c = openCycleForWrite_row [OF 1(1)] and p = planInCycle_row [OF 1(3)]
  have keys: "distinct (map cyr_ID (tb_Cycles st))" "distinct (map pl_ID (tb_Plans st))" using inv by (simp_all add: prepInv_def keysOK_def)
  have ins: "requestsIn st' i = requestsIn st i @ (if i = cycleID then [q] else [])" for i
    using 1(6) by (simp add: 1(9) requestsIn_def)
  have fors: "requestsFor st' i = requestsFor st i @ (if i = planID then [q] else [])" for i
    using 1(7) by (simp add: 1(9) requestsFor_def)
  have owns: "ownsPlan st' = ownsPlan st" by (simp add: 1(9) ownsPlan_def fun_eq_iff)
  have paid: "(\<exists>p' \<in> set (tb_Plans st). pl_ID p' = rsv_PlanID q \<and> spendsCredit x p') = spendsCredit x p" for x
  proof -
    have "p' = p" if "p' \<in> set (tb_Plans st)" "pl_ID p' = rsv_PlanID q" for p'
      using distinct_key_unique [OF keys(2) that(1), of p] that(2) p 1(7) by simp
    moreover have "p \<in> set (tb_Plans st)" "pl_ID p = rsv_PlanID q" using p 1(7) by simp_all
    ultimately show ?thesis by metis
  qed
  have cycle: "cycleBudgetOK st' (chargedRow (spendsCredit c p) cycleID x)" if x: "x \<in> set (tb_Cycles st)" for x
  proof -
    have old: "cycleBudgetOK st x" using inv x by (simp add: prepInv_def list_all_iff)
    have paids: "paidRequests st' x = paidRequests st x @ (if cyr_ID x = cycleID \<and> spendsCredit x p then [q] else [])"
    proof -
      have "filter (\<lambda>q. \<exists>p' \<in> set (tb_Plans st). pl_ID p' = rsv_PlanID q \<and> spendsCredit x p') [q] = (if spendsCredit x p then [q] else [])"
        by (simp only: filter.simps paid)
      moreover have "tb_Plans st' = tb_Plans st" by (simp add: 1(9))
      ultimately show ?thesis by (auto simp only: paidRequests_def ins chargedRow_simps filter_append filter.simps append_Nil2 if_True if_False split: if_splits)
    qed
    show ?thesis
    proof (cases "cyr_ID x = cycleID")
      case True
      then have "x = c" using distinct_key_unique [OF keys(1)] x c by simp
      then show ?thesis using old paids 1(4,8) True
        by (auto simp: cycleBudgetOK_def ins chargedRow_spent algebra_simps)
    next
      case False
      then show ?thesis using old by (simp add: cycleBudgetOK_def ins paids chargedRow_spent)
    qed
  qed
  have plan: "planBudgetOK st' x" if x: "x \<in> set (tb_Plans st)" for x
  proof -
    have "planBudgetOK st x" using inv x by (simp add: prepInv_def list_all_iff)
    moreover have "pl_ID x = planID \<Longrightarrow> x = p" using distinct_key_unique [OF keys(2)] x p by simp
    moreover have "cyr_ID ` set (tb_Cycles st') = cyr_ID ` set (tb_Cycles st)" by (simp add: 1(9) image_image)
    ultimately show ?thesis using 1(5) by (auto simp: planBudgetOK_def fors)
  qed
  have "ownsPlan st (rsv_PlanID q) (rsv_CycleID q)" using p 1(6,7) by (auto simp: ownsPlan_def)
  then show ?case
    using inv cycle plan 1(10,11) by (simp add: prepInv_def keysOK_def list_all_iff owns, simp add: 1(9) comp_def)
qed

lemma capCycleBytes_simps [simp]:
  "rn_ID (capCycleBytes st r) = rn_ID r" "rn_PlanID (capCycleBytes st r) = rn_PlanID r" "rn_CycleID (capCycleBytes st r) = rn_CycleID r"
  "rn_ReusedFromRunID (capCycleBytes st r) = rn_ReusedFromRunID r"
  by (simp_all add: capCycleBytes_def)

lemma runRow_simps [simp]:
  "rn_ID (runRow r t) = rn_ID r" "rn_PlanID (runRow r t) = rn_PlanID r" "rn_CycleID (runRow r t) = rn_CycleID r"
  by (simp_all add: runRow_def)

lemma prepInv_commit:
  assumes inv: "prepInv st" and "CommitObservationRun env f r now st = Inr st'"
  shows "prepInv st'"
proof (cases rule: CommitObservationRun_cases [OF assms(2)])
  case (1 x)
  then show ?thesis using inv by simp
next
  case (2 c p)
  note frame = insertNewRun_frame [OF 2(3)]
  obtain facts pays cursors refs src where st': "st' = st\<lparr>tb_Runs := tb_Runs st @ [runRow (capCycleBytes st r) now], tb_Facts := facts,
      tb_Payloads := pays, tb_Refresh := cursors, tb_References := refs, tb_Source := src\<rparr>" using frame(4) by blast
  have "tb_Requests st' = tb_Requests st" "tb_Plans st' = tb_Plans st" "tb_Cycles st' = tb_Cycles st" by (simp_all add: st')
  note same = budget_frame [OF this]
  have "ownsPlan st (rn_PlanID r) (rn_CycleID r)" using planInCycle_row [OF 2(2)] by (auto simp: ownsPlan_def)
  then show ?thesis using inv same frame(2,3) by (simp add: prepInv_def keysOK_def st')
qed

lemma prepInv_accrue:
  assumes "prepInv st" and "AccrueInvestigationCredit s now i cap st = Inr (st', credit)"
  shows "prepInv st'"
proof -
  consider "st' = st" | ss where "st' = st\<lparr>tb_Situations := ss\<rparr>" "map stc_ID ss = map stc_ID (tb_Situations st)"
    "list_all (\<lambda>s. 0 \<le> stc_InvestigationCredit s) ss"
  proof -
    have cap: "0 \<le> cap" using assms(2) by (rule contrapos_pp) (simp add: AccrueInvestigationCredit_def andThen_def failIf_def)
    obtain row where row: "0 \<le> cap" "situationOf st s = Some row"
      using assms(2) cap by (cases "situationOf st s") (simp_all add: AccrueInvestigationCredit_def)
    then have result: "(if \<not> AccrualDue (stc_InvestigationCreditAccruedAt row) now i then (Inr (st, stc_InvestigationCredit row) :: string + _)
         else let credit = min (stc_InvestigationCredit row + cap) (3 * cap) in
         Inr (st\<lparr>tb_Situations := updateWhere (\<lambda>s'. stc_ID s' = s)
                (\<lambda>s. s\<lparr>stc_InvestigationCredit := credit, stc_InvestigationCreditAccruedAt := Some (tUTC now)\<rparr>) (tb_Situations st)\<rparr>, credit)) = Inr (st', credit)"
      using assms(2) by (simp add: AccrueInvestigationCredit_def split del: if_split)
    have "0 \<le> stc_InvestigationCredit row"
      using prepInv_situation_rows [OF assms(1)] situationOf_row [OF row(2)] by (simp add: list_all_iff)
    note credit = this
    show thesis
    proof (cases "AccrualDue (stc_InvestigationCreditAccruedAt row) now i")
      case False
      then show ?thesis using that(1) result by simp
    next
      case True
      let ?c = "min (stc_InvestigationCredit row + cap) (3 * cap)"
      let ?ss = "updateWhere (\<lambda>s'. stc_ID s' = s)
                (\<lambda>s. s\<lparr>stc_InvestigationCredit := ?c, stc_InvestigationCreditAccruedAt := Some (tUTC now)\<rparr>) (tb_Situations st)"
      have "0 \<le> ?c" using credit row(1) by simp
      then have "list_all (\<lambda>s. 0 \<le> stc_InvestigationCredit s) ?ss"
        using prepInv_situation_rows [OF assms(1)] by (auto simp: list_all_iff updateWhere_set)
      moreover have "st' = st\<lparr>tb_Situations := ?ss\<rparr>" using result True by (auto simp: Let_def)
      ultimately show ?thesis using that(2) [of ?ss] by (simp add: map_updateWhere)
    qed
  qed
  then show ?thesis
  proof cases
    case 2
    then show ?thesis using prepInv_situation_rows [OF assms(1)] by (intro prepInv_change [OF assms(1)]) simp_all
  qed (use assms(1) in simp)
qed

lemma sealPreparationCycle_frame:
  obtains g ss refs where "sealPreparationCycle s c now st = st\<lparr>tb_Cycles := map g (tb_Cycles st), tb_Situations := ss, tb_References := refs\<rparr>"
    "\<And>x. cyr_ID (g x) = cyr_ID x \<and> cyr_MaxRequests (g x) = cyr_MaxRequests x \<and> cyr_Allocation (g x) = cyr_Allocation x \<and>
        cyr_OptionalCreditSpent (g x) = cyr_OptionalCreditSpent x \<and> (cyr_Sealed x \<longrightarrow> g x = x \<or> cyr_Sealed (g x))"
    "map stc_ID ss = map stc_ID (tb_Situations st)" "map stc_InvestigationCredit ss = map stc_InvestigationCredit (tb_Situations st)"
proof -
  have folded: "\<exists>refs. fold (\<lambda>i. addReference (k i) i kind c now) ids st = st\<lparr>tb_References := refs\<rparr>"
    for ids k kind c now and st :: "'a prepStore"
  proof (induction ids arbitrary: st)
    case Nil
    have "fold (\<lambda>i. addReference (k i) i kind c now) [] st = st\<lparr>tb_References := tb_References st\<rparr>" by simp
    then show ?case by blast
  next
    case (Cons i ids)
    obtain rows where "addReference (k i) i kind c now st = st\<lparr>tb_References := rows\<rparr>" using addReference_frame by blast
    moreover obtain refs where "fold (\<lambda>i. addReference (k i) i kind c now) ids (st\<lparr>tb_References := rows\<rparr>) = st\<lparr>tb_References := rows\<rparr>\<lparr>tb_References := refs\<rparr>"
      using Cons.IH by blast
    ultimately have "fold (\<lambda>i. addReference (k i) i kind c now) (i # ids) st = st\<lparr>tb_References := refs\<rparr>" by simp
    then show ?case by blast
  qed
  show thesis
  proof (cases "find (\<lambda>x. cyr_ID x = c \<and> cyr_SituationID x = s) (tb_Cycles st)")
    case None
    then show ?thesis using that [where ss = "tb_Situations st" and g = id and refs = "tb_References st"] by (simp add: sealPreparationCycle_def)
  next
    case (Some row)
    show ?thesis
    proof (cases "c = [] \<or> cyr_Sealed row")
      case True
      then show ?thesis using that [where ss = "tb_Situations st" and g = id and refs = "tb_References st"] Some by (simp add: sealPreparationCycle_def)
    next
      case False
      let ?g = "\<lambda>x. if cyr_ID x = c then x\<lparr>cyr_Sealed := True, cyr_SealedAt := Some (tUTC now)\<rparr> else x"
      let ?ss = "updateWhere (\<lambda>x. stc_ID x = s \<and> stc_PreparationGeneration x < cyr_Generation row)
          (\<lambda>x. x\<lparr>stc_PreparationGeneration := cyr_Generation row\<rparr>) (tb_Situations st)"
      obtain refs where "sealPreparationCycle s c now st = st\<lparr>tb_Cycles := map ?g (tb_Cycles st), tb_Situations := ?ss, tb_References := refs\<rparr>"
        using folded [of "currentCycleReference c" "''current_cycle''" c "tUTC now" "sealedRunIDs st c"
            "st\<lparr>tb_Cycles := map ?g (tb_Cycles st), tb_Situations := ?ss,
               tb_References := updateWhere (\<lambda>r. rfr_Kind r = ''open_cycle'' \<and> rfr_OwnerID r = c \<and> \<not> rfr_Superseded r)
                 (\<lambda>r. r\<lparr>rfr_Superseded := True\<rparr>) (tb_References st)\<rparr>"] Some False
        by (auto simp: sealPreparationCycle_def Let_def updateWhere_def)
      then show ?thesis by (rule that) (simp_all add: map_updateWhere)
    qed
  qed
qed

lemma prepInv_sealed: "prepInv st \<Longrightarrow> prepInv (sealPreparationCycle s c now st)"
proof (rule sealPreparationCycle_frame [of s c now st], goal_cases)
  case (1 g ss refs)
  have "prepInv (st\<lparr>tb_Cycles := map g (tb_Cycles st)\<rparr>)" by (rule prepInv_seal [OF 1(1)]) (use 1(3) in blast)
  then show ?case
  proof (rule prepInv_change)
    have "list_all (\<lambda>v. 0 \<le> v) (map stc_InvestigationCredit ss)" unfolding 1(5)
      using prepInv_situation_rows [OF 1(1)] by (simp add: list_all_iff)
    then show "list_all (\<lambda>s. 0 \<le> stc_InvestigationCredit s) (tb_Situations (sealPreparationCycle s c now st))"
      by (simp add: 1(2) list_all_iff)
    show "distinct (map stc_ID (tb_Situations (sealPreparationCycle s c now st)))"
      using prepInv_situation_rows [OF 1(1)] by (simp add: 1(2,4))
  qed (simp_all add: 1(2))
qed

lemma pruneDetailsPage_frame:
  "\<exists>pays exps. fst (pruneDetailsPage now cutoff after limit n st) = st\<lparr>tb_Payloads := pays, tb_Expirations := exps\<rparr>"
  using fold_expireRun_frame by (fastforce simp: pruneDetailsPage_def Let_def split: prod.split)

section \<open>Histories of the store\<close>

text \<open>
  What the rest of the program does to the situation rows: rows appear without a preparation, and their lease, claim and
  input version change.
  The steps of \<open>prepStep\<close> are these changes, the transactions of \<^verbatim>\<open>situation_preparation.go\<close> and the pages
  that expire payloads; the transactions of \<^verbatim>\<open>observation_metadata_retention.go\<close> that delete old cycles, plans, runs and
  requests are not steps of it.
\<close>

definition preparationColumns :: "situationColumns \<Rightarrow> string \<times> int \<times> string option \<times> int \<times> gtime option" where
  "preparationColumns s = (stc_ID s, stc_PreparationGeneration s, stc_CurrentPreparationCycleID s, stc_InvestigationCredit s,
     stc_InvestigationCreditAccruedAt s)"

definition claimStep :: "situationColumns list \<Rightarrow> situationColumns list \<Rightarrow> bool" where
  "claimStep ss ss' \<longleftrightarrow>
     (\<exists>xs new. ss' = xs @ new \<and> map preparationColumns xs = map preparationColumns ss \<and> distinct (map stc_ID ss') \<and>
        list_all (\<lambda>s. stc_PreparationGeneration s = 0 \<and> stc_CurrentPreparationCycleID s = None \<and> stc_InvestigationCredit s = 0) new)"

inductive prepStep :: "'x storeEnv \<Rightarrow> 'x prepStore \<Rightarrow> 'x prepStore \<Rightarrow> bool" for env where
  begins: "BeginPreparation env f draft n st = Inr (st', c) \<Longrightarrow> prepStep env st st'"
| reserves: "ReserveObservationRequest f cycleID planID now st = Inr (st', q) \<Longrightarrow> prepStep env st st'"
| completes: "CompleteObservationRequest x st = Inr st' \<Longrightarrow> prepStep env st st'"
| commits: "CommitObservationRun env f r now st = Inr st' \<Longrightarrow> prepStep env st st'"
| accrues: "AccrueInvestigationCredit s now i cap st = Inr (st', credit) \<Longrightarrow> prepStep env st st'"
| seals: "prepStep env st (sealPreparationCycle s cycleID now st)"
| prunes: "prepStep env st (fst (pruneDetailsPage now cutoff after limit rowsInTime st))"
| claims: "claimStep (tb_Situations st) ss \<Longrightarrow> prepStep env st (st\<lparr>tb_Situations := ss\<rparr>)"

abbreviation prepSteps :: "'x storeEnv \<Rightarrow> 'x prepStore \<Rightarrow> 'x prepStore \<Rightarrow> bool" where
  "prepSteps env \<equiv> (prepStep env)\<^sup>*\<^sup>*"

lemma CompleteObservationRequest_frame:
  "CompleteObservationRequest x st = Inr st' \<Longrightarrow> \<exists>rows. st' = st\<lparr>tb_Outcomes := rows\<rparr>"
  by (auto simp: CompleteObservationRequest_def split: option.splits if_splits intro: exI [of _ "tb_Outcomes st"])

lemma prepInv_claims:
  assumes "prepInv st" and "claimStep (tb_Situations st) ss"
  shows "prepInv (st\<lparr>tb_Situations := ss\<rparr>)"
proof (rule prepInv_change [OF assms(1)])
  obtain xs new where ss: "ss = xs @ new" "map preparationColumns xs = map preparationColumns (tb_Situations st)" "distinct (map stc_ID ss)"
    "list_all (\<lambda>s. stc_InvestigationCredit s = 0) new" using assms(2) by (auto simp: claimStep_def list_all_iff)
  have "map stc_InvestigationCredit xs = map (\<lambda>t. fst (snd (snd (snd t)))) (map preparationColumns xs)" by (simp add: preparationColumns_def comp_def)
  also have "\<dots> = map stc_InvestigationCredit (tb_Situations st)" unfolding ss(2) by (simp add: preparationColumns_def comp_def)
  finally have "list_all (\<lambda>v. 0 \<le> v) (map stc_InvestigationCredit xs)"
    using prepInv_situation_rows [OF assms(1)] by (simp add: list_all_iff)
  then show "list_all (\<lambda>s. 0 \<le> stc_InvestigationCredit s) (tb_Situations (st\<lparr>tb_Situations := ss\<rparr>))"
    using ss(1,4) by (auto simp: list_all_iff)
  show "distinct (map stc_ID (tb_Situations (st\<lparr>tb_Situations := ss\<rparr>)))" using ss(3) by simp
qed simp_all

lemma prepStep_inv:
  assumes "prepStep env st st'" and "prepInv st"
  shows "prepInv st'"
  using assms
proof (induction rule: prepStep.induct)
  case (completes x st st')
  then show ?case using CompleteObservationRequest_frame [OF completes(1)] by (auto intro: prepInv_frame)
next
  case (prunes st now cutoff after limit n)
  then show ?case using pruneDetailsPage_frame [of now cutoff after limit n st] by (auto intro: prepInv_frame)
qed (auto intro: prepInv_begin prepInv_reserve prepInv_commit prepInv_accrue prepInv_sealed prepInv_claims)

lemma prepSteps_inv: "prepSteps env st st' \<Longrightarrow> prepInv st \<Longrightarrow> prepInv st'"
  by (induction rule: rtranclp_induct) (auto intro: prepStep_inv)

text \<open>A phase of the runner is a sequence of steps of the store.\<close>

lemma runScript_steps: "prepSteps env st (fst (runScript f c p s st))"
proof (induction s arbitrary: st)
  case (BeforeRequest now k)
  show ?case
  proof (cases "ReserveObservationRequest f c p now st")
    case (Inr r)
    then obtain st1 q where r: "ReserveObservationRequest f c p now st = Inr (st1, q)" by (cases r) auto
    have "prepSteps env st1 (fst (runScript f c p (k (Inr q)) st1))" by (rule BeforeRequest) simp
    then show ?thesis using converse_rtranclp_into_rtranclp [of "prepStep env", OF reserves [OF r]] by (simp add: r)
  qed (use BeforeRequest in simp)
next
  case (AfterRequest x k)
  show ?case
  proof (cases "CompleteObservationRequest x st")
    case (Inr st1)
    have "prepSteps env st1 (fst (runScript f c p (k None) st1))" by (rule AfterRequest) simp
    then show ?thesis using converse_rtranclp_into_rtranclp [of "prepStep env", OF completes [OF Inr]] by (simp add: Inr)
  qed (use AfterRequest in simp)
qed simp

lemma planOutcome_steps: "planOutcome env f c pending p st = Inr (st', r) \<Longrightarrow> prepSteps (rx_Store env) st st'"
  using runScript_steps [of "rx_Store env" st f "cyc_ID c" "pl_ID p"]
  by (auto simp: planOutcome_def runOne_def split: if_splits option.splits prod.splits execError.splits) (metis fst_conv)+

lemma runPlans_steps: "runPlans env f c pending ps st = (st', e) \<Longrightarrow> prepSteps (rx_Store env) st st'"
proof (induction ps arbitrary: pending st)
  case (Cons p ps)
  show ?case
  proof (cases "rx_Fault env CheckRunCall (pl_ID p) = None \<and> \<not> HasObservationRun st (pl_ID p)")
    case False
    then show ?thesis using Cons by (auto simp: Let_def split: option.splits)
  next
    case True
    show ?thesis
    proof (cases "planOutcome env f c pending p st")
      case (Inl m)
      then show ?thesis using Cons.prems True by (simp add: Let_def)
    next
      case (Inr x)
      then obtain st1 r where out: "planOutcome env f c pending p st = Inr (st1, r)" by (cases x) auto
      note steps = planOutcome_steps [OF out]
      show ?thesis
      proof (cases "CommitObservationRun (rx_Store env) f r (rx_CommitClock env (pl_ID p)) st1")
        case (Inl m)
        then show ?thesis using Cons.prems True out steps by (auto simp: Let_def split: option.splits)
      next
        case (Inr st2)
        have "prepSteps (rx_Store env) st st2" using steps commits [OF Inr] by (rule rtranclp.rtrancl_into_rtrancl)
        then show ?thesis using Cons.prems Cons.IH True out steps Inr
          by (auto simp: Let_def split: option.splits intro: rtranclp_trans)
      qed
    qed
  qed
qed simp

end
