(* ===== verification/Preparation_History.thy ===== *)
theory Preparation_History
  imports Preparation_Invariants
begin

text \<open>
  How the preparation tables grow: cycles, plans, requests and runs are only appended, a cycle row keeps its frozen columns,
  and a sealed cycle stays sealed and receives neither requests nor runs.
\<close>

section \<open>Growth\<close>

definition frozenColumns :: "cycleRow \<Rightarrow> cycleRow" where
  "frozenColumns c = c\<lparr>cyr_OptionalCreditSpent := 0, cyr_Sealed := False, cyr_SealedAt := None\<rparr>"

definition laterRow :: "cycleRow \<Rightarrow> cycleRow \<Rightarrow> bool" where
  "laterRow c d \<longleftrightarrow> frozenColumns d = frozenColumns c \<and> cyr_OptionalCreditSpent c \<le> cyr_OptionalCreditSpent d \<and> (cyr_Sealed c \<longrightarrow> cyr_Sealed d)"

definition openCycleIDs :: "'x prepStore \<Rightarrow> string set" where
  "openCycleIDs st = {cyr_ID c | c. c \<in> set (tb_Cycles st) \<and> \<not> cyr_Sealed c}"

definition grows :: "'x prepStore \<Rightarrow> 'x prepStore \<Rightarrow> bool" where
  "grows st st' \<longleftrightarrow>
     (\<exists>rows new. tb_Cycles st' = rows @ new \<and> list_all2 laterRow (tb_Cycles st) rows) \<and>
     (\<exists>new. tb_Plans st' = tb_Plans st @ new \<and> list_all (\<lambda>p. pl_CycleID p \<notin> cyr_ID ` set (tb_Cycles st)) new) \<and>
     (\<exists>new. tb_Requests st' = tb_Requests st @ new \<and> list_all (\<lambda>q. rsv_CycleID q \<in> openCycleIDs st \<or> rsv_CycleID q \<notin> cyr_ID ` set (tb_Cycles st)) new) \<and>
     (\<exists>new. tb_Runs st' = tb_Runs st @ new \<and> list_all (\<lambda>r. rn_CycleID r \<in> openCycleIDs st \<or> rn_CycleID r \<notin> cyr_ID ` set (tb_Cycles st)) new)"

lemma laterRow_refl: "laterRow c c" by (simp add: laterRow_def)

lemma laterRow_trans: "laterRow a b \<Longrightarrow> laterRow b c \<Longrightarrow> laterRow a c" by (auto simp: laterRow_def)

lemma frozenColumns_id: "frozenColumns c = frozenColumns d \<Longrightarrow> cyr_ID c = cyr_ID d \<and> cyr_SituationID c = cyr_SituationID d \<and>
    cyr_InputVersion c = cyr_InputVersion d \<and> cyr_Generation c = cyr_Generation d \<and> cyr_Anchor c = cyr_Anchor d \<and>
    cyr_ConfigDigest c = cyr_ConfigDigest d \<and> cyr_ProfileVersionIDs c = cyr_ProfileVersionIDs d \<and>
    cyr_ProfileGuidance c = cyr_ProfileGuidance d \<and> cyr_MaxRequests c = cyr_MaxRequests d \<and> cyr_Allocation c = cyr_Allocation d \<and>
    cyr_RefreshSeconds c = cyr_RefreshSeconds d"
  by (cases c; cases d) (simp add: frozenColumns_def)

lemma laterRow_id:
  assumes "laterRow c d"
  shows "cyr_ID d = cyr_ID c"
  using assms frozenColumns_id [of d c] by (simp add: laterRow_def)

lemma laterRows_ids: "list_all2 laterRow cs ds \<Longrightarrow> map cyr_ID ds = map cyr_ID cs"
  by (induction rule: list_all2_induct) (auto simp: laterRow_id)

lemma laterRows_trans:
  assumes "list_all2 laterRow as bs" and "list_all2 laterRow bs cs"
  shows "list_all2 laterRow as cs"
  by (rule list_all2_trans [OF _ assms]) (erule (1) laterRow_trans)

lemma growsI:
  assumes "list_all2 laterRow (tb_Cycles st) rows" "tb_Cycles st' = rows @ cs"
    and "tb_Plans st' = tb_Plans st @ ps" "list_all (\<lambda>p. pl_CycleID p \<notin> cyr_ID ` set (tb_Cycles st)) ps"
    and "tb_Requests st' = tb_Requests st @ qs" "list_all (\<lambda>q. rsv_CycleID q \<in> openCycleIDs st \<or> rsv_CycleID q \<notin> cyr_ID ` set (tb_Cycles st)) qs"
    and "tb_Runs st' = tb_Runs st @ rs" "list_all (\<lambda>r. rn_CycleID r \<in> openCycleIDs st \<or> rn_CycleID r \<notin> cyr_ID ` set (tb_Cycles st)) rs"
  shows "grows st st'"
  unfolding grows_def
proof (intro conjI)
  show "\<exists>rows new. tb_Cycles st' = rows @ new \<and> list_all2 laterRow (tb_Cycles st) rows" using assms(1,2) by blast
qed (use assms(3-8) in blast)+

lemma grows_rows:
  assumes "list_all2 laterRow (tb_Cycles st) rows" and "tb_Cycles st' = rows @ new"
  shows "cyr_ID ` set (tb_Cycles st) \<subseteq> cyr_ID ` set (tb_Cycles st')"
    and "i \<in> openCycleIDs st' \<Longrightarrow> i \<in> cyr_ID ` set (tb_Cycles st) \<Longrightarrow> distinct (map cyr_ID (tb_Cycles st')) \<Longrightarrow> i \<in> openCycleIDs st"
proof -
  have "cyr_ID ` set rows = cyr_ID ` set (tb_Cycles st)" using laterRows_ids [OF assms(1)] by (metis list.set_map)
  then show "cyr_ID ` set (tb_Cycles st) \<subseteq> cyr_ID ` set (tb_Cycles st')" unfolding assms(2) by auto
  assume i: "i \<in> openCycleIDs st'" "i \<in> cyr_ID ` set (tb_Cycles st)" and dist: "distinct (map cyr_ID (tb_Cycles st'))"
  obtain c where c: "c \<in> set (tb_Cycles st)" "cyr_ID c = i" using i(2) by blast
  obtain d where d: "d \<in> set rows" "laterRow c d" using assms(1) c(1) by (metis in_set_conv_nth list_all2_conv_all_nth)
  obtain e where e: "e \<in> set (tb_Cycles st')" "cyr_ID e = i" "\<not> cyr_Sealed e" using i(1) by (auto simp: openCycleIDs_def)
  have "e = d" using distinct_key_unique [OF dist, of e d] d e laterRow_id [OF d(2)] c(2) by (simp add: assms(2))
  then show "i \<in> openCycleIDs st" using c d(2) e(3) by (auto simp: openCycleIDs_def laterRow_def)
qed

lemma grows_refl: "grows st st"
  by (rule growsI [of st "tb_Cycles st" st "[]" "[]" "[]" "[]"]) (simp_all add: list_all2_refl laterRow_refl)

lemma grows_trans:
  assumes "grows a b" and "grows b c" and "distinct (map cyr_ID (tb_Cycles b))"
  shows "grows a c"
proof -
  obtain ra na where ra: "tb_Cycles b = ra @ na" "list_all2 laterRow (tb_Cycles a) ra" using assms(1) by (auto simp: grows_def)
  obtain rb nb where rb: "tb_Cycles c = rb @ nb" "list_all2 laterRow (tb_Cycles b) rb" using assms(2) by (auto simp: grows_def)
  note up = grows_rows [OF ra(2,1)]
  have cycles: "\<exists>rows new. tb_Cycles c = rows @ new \<and> list_all2 laterRow (tb_Cycles a) rows"
  proof (intro exI conjI)
    show "tb_Cycles c = take (length ra) rb @ (drop (length ra) rb @ nb)" by (simp add: rb(1))
    have "list_all2 laterRow (take (length ra) (tb_Cycles b)) (take (length ra) rb)" using rb(2) by (rule list_all2_takeI)
    then have "list_all2 laterRow ra (take (length ra) rb)" by (simp add: ra(1))
    then show "list_all2 laterRow (tb_Cycles a) (take (length ra) rb)" by (rule laterRows_trans [OF ra(2)])
  qed
  have later: "i \<in> openCycleIDs b \<or> i \<notin> cyr_ID ` set (tb_Cycles b) \<Longrightarrow> i \<in> openCycleIDs a \<or> i \<notin> cyr_ID ` set (tb_Cycles a)" for i
    using up(1) up(2) [OF _ _ assms(3)] by blast
  obtain p1 p2 where ps: "tb_Plans b = tb_Plans a @ p1" "list_all (\<lambda>p. pl_CycleID p \<notin> cyr_ID ` set (tb_Cycles a)) p1"
    "tb_Plans c = tb_Plans b @ p2" "list_all (\<lambda>p. pl_CycleID p \<notin> cyr_ID ` set (tb_Cycles b)) p2"
    using assms(1,2) unfolding grows_def by blast
  have "list_all (\<lambda>p. pl_CycleID p \<notin> cyr_ID ` set (tb_Cycles a)) p2"
    using ps(4) by (rule list.pred_mono_strong) (use up(1) in \<open>rule contra_subsetD\<close>)
  with ps have plans: "\<exists>new. tb_Plans c = tb_Plans a @ new \<and> list_all (\<lambda>p. pl_CycleID p \<notin> cyr_ID ` set (tb_Cycles a)) new"
    by (intro exI [of _ "p1 @ p2"]) simp
  obtain q1 q2 where qs: "tb_Requests b = tb_Requests a @ q1" "list_all (\<lambda>q. rsv_CycleID q \<in> openCycleIDs a \<or> rsv_CycleID q \<notin> cyr_ID ` set (tb_Cycles a)) q1"
    "tb_Requests c = tb_Requests b @ q2" "list_all (\<lambda>q. rsv_CycleID q \<in> openCycleIDs b \<or> rsv_CycleID q \<notin> cyr_ID ` set (tb_Cycles b)) q2"
    using assms(1,2) unfolding grows_def by blast
  have "list_all (\<lambda>q. rsv_CycleID q \<in> openCycleIDs a \<or> rsv_CycleID q \<notin> cyr_ID ` set (tb_Cycles a)) q2"
    using qs(4) by (rule list.pred_mono_strong) (erule later)
  with qs have requests: "\<exists>new. tb_Requests c = tb_Requests a @ new \<and> list_all (\<lambda>q. rsv_CycleID q \<in> openCycleIDs a \<or> rsv_CycleID q \<notin> cyr_ID ` set (tb_Cycles a)) new"
    by (intro exI [of _ "q1 @ q2"]) simp
  obtain r1 r2 where rs: "tb_Runs b = tb_Runs a @ r1" "list_all (\<lambda>r. rn_CycleID r \<in> openCycleIDs a \<or> rn_CycleID r \<notin> cyr_ID ` set (tb_Cycles a)) r1"
    "tb_Runs c = tb_Runs b @ r2" "list_all (\<lambda>r. rn_CycleID r \<in> openCycleIDs b \<or> rn_CycleID r \<notin> cyr_ID ` set (tb_Cycles b)) r2"
    using assms(1,2) unfolding grows_def by blast
  have "list_all (\<lambda>r. rn_CycleID r \<in> openCycleIDs a \<or> rn_CycleID r \<notin> cyr_ID ` set (tb_Cycles a)) r2"
    using rs(4) by (rule list.pred_mono_strong) (erule later)
  with rs have "\<exists>new. tb_Runs c = tb_Runs a @ new \<and> list_all (\<lambda>r. rn_CycleID r \<in> openCycleIDs a \<or> rn_CycleID r \<notin> cyr_ID ` set (tb_Cycles a)) new"
    by (intro exI [of _ "r1 @ r2"]) simp
  then show ?thesis using cycles plans requests unfolding grows_def by blast
qed

section \<open>Every step grows\<close>

text \<open>A step that leaves the cycles, plans, requests and runs alone.\<close>

lemma grows_frame:
  assumes "tb_Requests st' = tb_Requests st" "tb_Plans st' = tb_Plans st" "tb_Runs st' = tb_Runs st"
    and "list_all2 laterRow (tb_Cycles st) (tb_Cycles st')"
  shows "grows st st'"
  by (rule growsI [of st "tb_Cycles st'" st' "[]" "[]" "[]" "[]"]) (simp_all add: assms)

lemma laterRows_map: "(\<And>x. laterRow x (g x)) \<Longrightarrow> list_all2 laterRow xs (map g xs)"
  by (simp add: list_all2_map2 list_all2_refl)

lemma laterRow_charged: "laterRow c (chargedRow b i c)"
  by (simp add: laterRow_def chargedRow_def frozenColumns_def investigationCreditCostPerRequest_def)

lemma grows_pointAt: "grows st (pointAt s c st)"
  by (rule grows_frame) (simp_all add: pointAt_def list_all2_refl laterRow_refl)

lemma grows_begin:
  assumes "BeginPreparation env f draft n st = Inr (st', c)"
  shows "grows st st'"
proof -
  consider existing where "st' = pointAt (fn_SituationID f) existing st" | g where "createCycle env f draft n g st = Inr (st', c)"
    using assms by (auto simp: BeginPreparation_def Let_def split: option.splits)
  then show ?thesis
  proof cases
    case 1
    then show ?thesis by (simp add: grows_pointAt)
  next
    case 2
    then show ?thesis
    proof (rule createCycle_frame, goal_cases)
      case (1 plans row refs)
      have "list_all (\<lambda>p. pl_CycleID p \<notin> cyr_ID ` set (tb_Cycles st)) (map (storedPlan (cyr_ID row)) plans)"
        using 1(3) by (simp add: list_all_iff)
      moreover have "tb_Requests st' = tb_Requests st" "tb_Runs st' = tb_Runs st" by (simp_all add: 1(9) pointAt_def)
      moreover have "list_all2 laterRow (tb_Cycles st) (tb_Cycles st)" by (simp add: list_all2_refl laterRow_refl)
      ultimately show ?case unfolding grows_def using 1(1,2) by auto
    qed
  qed
qed

lemma open_row: "c \<in> set (tb_Cycles st) \<Longrightarrow> \<not> cyr_Sealed c \<Longrightarrow> cyr_ID c \<in> openCycleIDs st"
  by (auto simp: openCycleIDs_def)

lemma grows_reserve:
  assumes "prepInv st" and "ReserveObservationRequest f cycleID planID now st = Inr (st', q)"
  shows "grows st st'"
proof (rule ReserveObservationRequest_frame [OF assms], goal_cases)
  case (1 c p ss cursors)
  have "rsv_CycleID q \<in> openCycleIDs st" using open_row openCycleForWrite_row [OF 1(1)] 1(2,6) by metis
  moreover have "list_all2 laterRow (tb_Cycles st) (tb_Cycles st')" by (simp add: 1(9) laterRows_map laterRow_charged)
  moreover have "tb_Plans st' = tb_Plans st" "tb_Runs st' = tb_Runs st" "tb_Requests st' = tb_Requests st @ [q]" by (simp_all add: 1(9))
  ultimately show ?case by (intro growsI [of st "tb_Cycles st'" st' "[]" "[]" "[q]" "[]"]) simp_all
qed

lemma grows_commit:
  assumes "CommitObservationRun env f r now st = Inr st'"
  shows "grows st st'"
proof (cases rule: CommitObservationRun_cases [OF assms])
  case (1 x)
  then show ?thesis by (simp add: grows_refl)
next
  case (2 c p)
  note frame = insertNewRun_frame [OF 2(3)]
  have "rn_CycleID (runRow (capCycleBytes st r) now) \<in> openCycleIDs st"
    using open_row openCycleForWrite_row [OF 2(1)] frame(1) by (metis capCycleBytes_simps(3) runRow_simps(3))
  moreover have "list_all2 laterRow (tb_Cycles st) (tb_Cycles st)" by (simp add: list_all2_refl laterRow_refl)
  ultimately show ?thesis
    using frame(4) by (intro growsI [of st "tb_Cycles st" st' "[]" "[]" "[]" "[runRow (capCycleBytes st r) now]"]) auto
qed

lemma grows_seal: "grows st (sealPreparationCycle s c now st)"
proof (cases "find (\<lambda>x. cyr_ID x = c \<and> cyr_SituationID x = s) (tb_Cycles st)")
  case None
  then show ?thesis by (simp add: sealPreparationCycle_def grows_refl)
next
  case (Some row)
  have folded: "tb_Requests (fold (\<lambda>i. addReference (k i) i kind o' now) ids st) = tb_Requests st \<and> tb_Plans (fold (\<lambda>i. addReference (k i) i kind o' now) ids st) = tb_Plans st \<and>
      tb_Runs (fold (\<lambda>i. addReference (k i) i kind o' now) ids st) = tb_Runs st \<and> tb_Cycles (fold (\<lambda>i. addReference (k i) i kind o' now) ids st) = tb_Cycles st"
    for ids k kind o' now and st :: "'a prepStore"
    by (induction ids arbitrary: st) (simp_all add: addReference_def)
  have "laterRow x (if cyr_ID x = c then x\<lparr>cyr_Sealed := True, cyr_SealedAt := Some (tUTC now)\<rparr> else x)" for x
    by (simp add: laterRow_def frozenColumns_def)
  then show ?thesis
    using Some by (auto simp: sealPreparationCycle_def Let_def updateWhere_def folded grows_refl laterRows_map intro!: grows_frame)
qed

lemma prepStep_grows:
  assumes "prepStep env st st'" and "prepInv st"
  shows "grows st st'"
  using assms
proof (induction rule: prepStep.induct)
  case (completes x st st')
  then show ?case using CompleteObservationRequest_frame [OF completes(1)] by (auto intro!: grows_frame simp: list_all2_refl laterRow_refl)
next
  case (accrues s now i cap st st' credit)
  then have "\<exists>ss. st' = st\<lparr>tb_Situations := ss\<rparr>"
    by (auto simp: AccrueInvestigationCredit_def Let_def split: if_splits intro: exI [of _ "tb_Situations st"])
  then show ?case by (auto intro!: grows_frame simp: list_all2_refl laterRow_refl)
next
  case (prunes st now cutoff after limit n)
  then show ?case using pruneDetailsPage_frame [of now cutoff after limit n st] by (auto intro!: grows_frame simp: list_all2_refl laterRow_refl)
next
  case (claims st ss)
  show ?case by (rule grows_frame) (simp_all add: list_all2_refl laterRow_refl)
qed (auto intro: grows_begin grows_reserve grows_commit grows_seal)

lemma prepSteps_grow: "prepSteps env st st' \<Longrightarrow> prepInv st \<Longrightarrow> grows st st'"
proof (induction rule: rtranclp_induct)
  case base
  show ?case by (rule grows_refl)
next
  case (step b c)
  have "prepInv b" by (rule prepSteps_inv [OF step(1,4)])
  then show ?case using grows_trans [OF step(3) [OF step(4)] prepStep_grows [OF step(2)]] by (simp add: prepInv_def keysOK_def)
qed


section \<open>The cycle of a key\<close>

definition cycleKey :: "string \<Rightarrow> int \<Rightarrow> int \<Rightarrow> cycleRow \<Rightarrow> bool" where
  "cycleKey s v g c \<longleftrightarrow> cyr_SituationID c = s \<and> cyr_InputVersion c = v \<and> cyr_Generation c = g"

text \<open>What the caller of \<open>BeginPreparation\<close> is told of a cycle row.\<close>

definition describes :: "cycle \<Rightarrow> cycleRow \<Rightarrow> bool" where
  "describes c r \<longleftrightarrow>
     cyr_ID r = cyc_ID c \<and> cyr_MaxRequests r = cyc_MaxRequests c \<and> cyr_Allocation r = cyd_Allocation (cyc_Draft c) \<and>
     cyr_ConfigDigest r = cyd_ConfigDigest (cyc_Draft c)"

lemma laterRow_key: "laterRow c d \<Longrightarrow> cycleKey s v g d \<longleftrightarrow> cycleKey s v g c"
  using frozenColumns_id [of d c] by (simp add: laterRow_def cycleKey_def)

lemma laterRow_describes: "laterRow r r' \<Longrightarrow> describes c r' \<longleftrightarrow> describes c r"
  using frozenColumns_id [of r' r] by (simp add: laterRow_def describes_def)

lemma find_later:
  "list_all2 laterRow xs ys \<Longrightarrow> find (cycleKey s v g) xs = Some x \<Longrightarrow> \<exists>y. find (cycleKey s v g) (ys @ zs) = Some y \<and> laterRow x y"
  by (induction rule: list_all2_induct) (auto simp: laterRow_key split: if_splits)

lemma find_snoc: "find p xs = None \<Longrightarrow> p x \<Longrightarrow> find p (xs @ [x]) = Some x"
  by (induction xs) (auto split: if_splits)

lemma grows_key:
  assumes "grows st st'" and "find (cycleKey s v g) (tb_Cycles st) = Some x"
  shows "\<exists>y. find (cycleKey s v g) (tb_Cycles st') = Some y \<and> laterRow x y"
  using assms find_later unfolding grows_def by metis

lemma loadCycleByKey_iff:
  "loadCycleByKey st s v g = Some c \<Longrightarrow>
     \<exists>row. find (cycleKey s v g) (tb_Cycles st) = Some row \<and> describes c row \<and> cyc_Generation c = g \<and>
       cyd_Plans (cyc_Draft c) = loadObservationPlans st (cyc_ID c)"
  by (auto simp: loadCycleByKey_def cycleKey_def [abs_def] describes_def split: option.splits)

lemma loadCycleByKey_none: "situationOf st s = Some row \<Longrightarrow> loadCycleByKey st s v g = None \<longleftrightarrow> find (cycleKey s v g) (tb_Cycles st) = None"
  by (simp add: loadCycleByKey_def cycleKey_def [abs_def] split: option.split)

lemma BeginPreparation_cases:
  assumes "BeginPreparation env f draft n st = Inr (st', c)"
  obtains (existing) row where "find (cycleKey (fn_SituationID f) (fn_InputVersion f) (cyc_Generation c)) (tb_Cycles st) = Some row"
      "describes c row" "cyd_Plans (cyc_Draft c) = loadObservationPlans st (cyc_ID c)" "st' = pointAt (fn_SituationID f) (cyc_ID c) st"
    | (created) "find (cycleKey (fn_SituationID f) (fn_InputVersion f) (cyc_Generation c)) (tb_Cycles st) = None"
      "createCycle env f draft n (cyc_Generation c) st = Inr (st', c)"
proof -
  from assms obtain s where s: "situationOf st (fn_SituationID f) = Some s"
    and result: "(case loadCycleByKey st (fn_SituationID f) (fn_InputVersion f) (stc_PreparationGeneration s + 1) of
         Some existing \<Rightarrow> Inr (pointAt (fn_SituationID f) (cyc_ID existing) st, existing)
       | None \<Rightarrow> createCycle env f draft n (stc_PreparationGeneration s + 1) st) = Inr (st', c)"
    unfolding BeginPreparation_def Let_def by (simp only: andThen_Inr orFail_Inr) blast
  show thesis
  proof (cases "loadCycleByKey st (fn_SituationID f) (fn_InputVersion f) (stc_PreparationGeneration s + 1)")
    case None
    have create: "createCycle env f draft n (stc_PreparationGeneration s + 1) st = Inr (st', c)" using result None by simp
    have "cyc_Generation c = stc_PreparationGeneration s + 1" by (rule createCycle_frame [OF create])
    then show ?thesis using created None create loadCycleByKey_none [OF s] by simp
  next
    case (Some x)
    then have x: "x = c" "st' = pointAt (fn_SituationID f) (cyc_ID c) st" using result by auto
    obtain row where "find (cycleKey (fn_SituationID f) (fn_InputVersion f) (stc_PreparationGeneration s + 1)) (tb_Cycles st) = Some row"
      "describes c row" "cyc_Generation c = stc_PreparationGeneration s + 1" "cyd_Plans (cyc_Draft c) = loadObservationPlans st (cyc_ID c)"
      using loadCycleByKey_iff [OF Some] unfolding x(1) by blast
    then show ?thesis using existing x(2) by simp
  qed
qed

text \<open>After a begin the key of its cycle leads to the row the caller was told of.\<close>

lemma BeginPreparation_row:
  assumes "BeginPreparation env f draft n st = Inr (st', c)"
  shows "\<exists>row. find (cycleKey (fn_SituationID f) (fn_InputVersion f) (cyc_Generation c)) (tb_Cycles st') = Some row \<and> describes c row"
proof (cases rule: BeginPreparation_cases [OF assms])
  case (1 row)
  then show ?thesis by (simp add: pointAt_def)
next
  case 2
  from 2(2) show ?thesis
  proof (rule createCycle_frame, goal_cases)
    case (1 plans row refs)
    have "find (cycleKey (fn_SituationID f) (fn_InputVersion f) (cyc_Generation c)) (tb_Cycles st @ [row]) = Some row"
      using 1(10-12) by (intro find_snoc [OF 2(1)]) (simp add: cycleKey_def)
    then show ?case using 1(1,5,13,14,16,18) by (simp add: describes_def)
  qed
qed

end
