(* ===== verification/Retention_Pages.thy ===== *)
theory Retention_Pages
  imports Observation_Retention
begin

text \<open>
  What the pages of the retention expire: only runs that the exact test found prunable, at most as many as asked for, and no
  payload of any other run.
\<close>

section \<open>Pages and payloads\<close>

lemma map_of_filtered: "P k \<Longrightarrow> map_of (filter (\<lambda>(k, v). P k) xs) k = map_of xs k"
  by (induction xs) auto

lemma fold_expireRun_payload:
  "list_all (\<lambda>i. \<not> list_ex (\<lambda>x. xf_ID x = k \<and> xf_RunID x = i) (tb_Facts st)) ids \<Longrightarrow> payloadOf (fold (expireRun now) ids st) k = payloadOf st k"
proof (induction ids arbitrary: st)
  case (Cons i ids)
  have "tb_Facts (expireRun now i st) = tb_Facts st" by (simp add: expireRun_def)
  then have "payloadOf (fold (expireRun now) ids (expireRun now i st)) k = payloadOf (expireRun now i st) k"
    using Cons by simp
  also have "map_of (tb_Payloads (expireRun now i st)) k = map_of (tb_Payloads st) k"
    using Cons.prems by (simp add: expireRun_def map_of_filtered)
  then have "payloadOf (expireRun now i st) k = payloadOf st k" by (simp add: payloadOf_def)
  finally show ?case by simp
qed simp

lemma fold_expireRun_expirations: "map fst (tb_Expirations (fold (expireRun now) ids st)) = map fst (tb_Expirations st) @ ids"
  by (induction ids arbitrary: st) (simp_all add: expireRun_def)

lemma scanDetails_prunable:
  "scanDetails st cutoff limit n found next rs = (ids, next', whole) \<Longrightarrow>
     set ids \<subseteq> set found \<union> {rn_ID r | r. r \<in> set rs \<and> prunable st cutoff r}"
  by (induction st cutoff limit n found "next" rs rule: scanDetails.induct)
    (fastforce simp: Let_def split: if_splits)+

lemma scanDetails_limit:
  "scanDetails st cutoff limit n found next rs = (ids, next', whole) \<Longrightarrow> length found < limit \<Longrightarrow> length ids \<le> limit"
proof (induction st cutoff limit n found "next" rs rule: scanDetails.induct)
  case (2 st cutoff limit n found "next" r rs)
  let ?found = "if prunable st cutoff r then found @ [rn_ID r] else found"
  have len: "length ?found \<le> limit" using 2(3) by simp
  show ?case
  proof (cases "length ?found = limit \<or> n \<le> 1")
    case True
    then show ?thesis using 2(2) len by (auto simp: Let_def)
  next
    case False
    then have rest: "scanDetails st cutoff limit (n - 1) ?found (detailKey r) rs = (ids, next', whole)"
      using 2(2) by (simp only: scanDetails.simps Let_def if_False)
    show ?thesis by (rule 2(1) [OF refl _ rest]) (use False len in auto)
  qed
qed simp

text \<open>What one page and then the loop expire.\<close>

definition expiresOnly :: "gtime \<Rightarrow> 'x prepStore \<Rightarrow> 'x prepStore \<Rightarrow> bool" where
  "expiresOnly cutoff st st' \<longleftrightarrow>
     (\<exists>pays exps. st' = st\<lparr>tb_Payloads := pays, tb_Expirations := exps\<rparr>) \<and>
     (\<exists>ids. map fst (tb_Expirations st') = map fst (tb_Expirations st) @ ids \<and> set ids \<subseteq> {rn_ID r | r. r \<in> set (tb_Runs st) \<and> prunable st cutoff r}) \<and>
     (\<forall>k. payloadOf st' k = payloadOf st k \<or>
        list_ex (\<lambda>x. xf_ID x = k \<and> list_ex (\<lambda>r. rn_ID r = xf_RunID x \<and> prunable st cutoff r) (tb_Runs st)) (tb_Facts st))"

lemma pruneDetailsPage_only:
  assumes "pruneDetailsPage now cutoff after limit n st = (st', k, next, whole)"
  shows "expiresOnly cutoff st st'" and "0 < limit \<Longrightarrow> k \<le> limit"
proof -
  obtain ids w where scan: "scanDetails st cutoff limit n [] after (pendingDetails st cutoff after) = (ids, next, w)"
    and st': "st' = fold (expireRun now) ids st" and k: "k = length ids"
    using assms by (auto simp: pruneDetailsPage_def Let_def split: prod.splits)
  have "set (pendingDetails st cutoff after) \<subseteq> set (tb_Runs st)"
    unfolding pendingDetails_def by (rule subset_trans [OF set_take_subset]) auto
  moreover have "set ids \<subseteq> {rn_ID r | r. r \<in> set (pendingDetails st cutoff after) \<and> prunable st cutoff r}"
    using scanDetails_prunable [OF scan] by simp
  ultimately have ids: "set ids \<subseteq> {rn_ID r | r. r \<in> set (tb_Runs st) \<and> prunable st cutoff r}" by blast
  have "payloadOf st' x = payloadOf st x \<or>
        list_ex (\<lambda>f. xf_ID f = x \<and> list_ex (\<lambda>r. rn_ID r = xf_RunID f \<and> prunable st cutoff r) (tb_Runs st)) (tb_Facts st)" for x
  proof (cases "list_all (\<lambda>i. \<not> list_ex (\<lambda>f. xf_ID f = x \<and> xf_RunID f = i) (tb_Facts st)) ids")
    case True
    then show ?thesis using fold_expireRun_payload st' by blast
  next
    case False
    then obtain i f where i: "i \<in> set ids" "f \<in> set (tb_Facts st)" "xf_ID f = x" "xf_RunID f = i" by (auto simp: list_all_iff list_ex_iff)
    have "i \<in> {rn_ID r | r. r \<in> set (tb_Runs st) \<and> prunable st cutoff r}" using ids i(1) by (rule subsetD)
    then obtain r where "r \<in> set (tb_Runs st)" "rn_ID r = i" "prunable st cutoff r" by auto
    then show ?thesis using i by (auto simp: list_ex_iff)
  qed
  then show "expiresOnly cutoff st st'"
    unfolding expiresOnly_def
  proof (intro conjI allI)
    show "\<exists>pays exps. st' = st\<lparr>tb_Payloads := pays, tb_Expirations := exps\<rparr>" unfolding st' by (rule fold_expireRun_frame)
    show "\<exists>ids. map fst (tb_Expirations st') = map fst (tb_Expirations st) @ ids \<and> set ids \<subseteq> {rn_ID r | r. r \<in> set (tb_Runs st) \<and> prunable st cutoff r}"
      using ids fold_expireRun_expirations [of now ids st] unfolding st' by (intro exI [of _ ids] conjI)
  qed
  show "0 < limit \<Longrightarrow> k \<le> limit" using scanDetails_limit [OF scan] by (simp add: k)
qed

lemma expiresOnly_trans:
  assumes "expiresOnly cutoff a b" and "expiresOnly cutoff b c"
  shows "expiresOnly cutoff a c"
proof -
  obtain pays exps where b: "b = a\<lparr>tb_Payloads := pays, tb_Expirations := exps\<rparr>" using assms(1) by (auto simp: expiresOnly_def)
  obtain pays' exps' where c: "c = b\<lparr>tb_Payloads := pays', tb_Expirations := exps'\<rparr>" using assms(2) by (auto simp: expiresOnly_def)
  have same: "tb_Runs b = tb_Runs a" "tb_Facts b = tb_Facts a" by (simp_all add: b)
  obtain ids where ids: "map fst (tb_Expirations b) = map fst (tb_Expirations a) @ ids" "set ids \<subseteq> {rn_ID r | r. r \<in> set (tb_Runs a) \<and> prunable a cutoff r}"
    using assms(1) by (auto simp: expiresOnly_def)
  have "fst ` set (tb_Expirations b) = set (map fst (tb_Expirations b))" by simp
  then have "detailExpired a i \<Longrightarrow> detailExpired b i" for i unfolding detailExpired_def ids(1) by simp
  then have less: "prunable b cutoff r \<Longrightarrow> prunable a cutoff r" for r
    by (auto simp: prunable_def detailProtected_def liveReference_def b)
  obtain ids' where ids': "map fst (tb_Expirations c) = map fst (tb_Expirations b) @ ids'" "set ids' \<subseteq> {rn_ID r | r. r \<in> set (tb_Runs a) \<and> prunable b cutoff r}"
    using assms(2) by (auto simp: expiresOnly_def same)
  show ?thesis unfolding expiresOnly_def
  proof (intro conjI allI)
    have "c = a\<lparr>tb_Payloads := pays', tb_Expirations := exps'\<rparr>" by (simp add: b c)
    then show "\<exists>pays exps. c = a\<lparr>tb_Payloads := pays, tb_Expirations := exps\<rparr>" by blast
    show "\<exists>ids. map fst (tb_Expirations c) = map fst (tb_Expirations a) @ ids \<and> set ids \<subseteq> {rn_ID r | r. r \<in> set (tb_Runs a) \<and> prunable a cutoff r}"
    proof (intro exI conjI)
      show "map fst (tb_Expirations c) = map fst (tb_Expirations a) @ (ids @ ids')" using ids(1) ids'(1) by simp
      have "set ids' \<subseteq> {rn_ID r | r. r \<in> set (tb_Runs a) \<and> prunable a cutoff r}" using ids'(2) less by blast
      then show "set (ids @ ids') \<subseteq> {rn_ID r | r. r \<in> set (tb_Runs a) \<and> prunable a cutoff r}" using ids(2) by simp
    qed
    fix k
    show "payloadOf c k = payloadOf a k \<or>
        list_ex (\<lambda>x. xf_ID x = k \<and> list_ex (\<lambda>r. rn_ID r = xf_RunID x \<and> prunable a cutoff r) (tb_Runs a)) (tb_Facts a)"
    proof (cases "payloadOf c k = payloadOf b k \<and> payloadOf b k = payloadOf a k")
      case False
      then consider "payloadOf b k \<noteq> payloadOf a k" | "payloadOf c k \<noteq> payloadOf b k" by blast
      then show ?thesis
      proof cases
        case 1
        then show ?thesis using assms(1) unfolding expiresOnly_def by blast
      next
        case 2
        then have "list_ex (\<lambda>x. xf_ID x = k \<and> list_ex (\<lambda>r. rn_ID r = xf_RunID x \<and> prunable b cutoff r) (tb_Runs a)) (tb_Facts a)"
          using assms(2) unfolding expiresOnly_def same by blast
        then show ?thesis using less by (auto simp: list_ex_iff)
      qed
    qed simp
  qed
qed

lemma pruneObservationDetails_only:
  "pruneObservationDetails rowsInTime now cutoff upTo page sofar after st = (st', n) \<Longrightarrow> sofar < upTo \<Longrightarrow> expiresOnly cutoff st st' \<and> n \<le> upTo"
proof (induction rowsInTime now cutoff upTo page sofar after st rule: pruneObservationDetails.induct)
  case (1 rowsInTime now cutoff upTo page sofar after st)
  let ?limit = "if 0 < upTo \<and> upTo - sofar < observationDetailPageExpiries then upTo - sofar else observationDetailPageExpiries"
  obtain st1 k nxt whole where page: "pruneDetailsPage now cutoff after ?limit (rowsInTime page) st = (st1, k, nxt, whole)" by (metis prod_cases4)
  note only = pruneDetailsPage_only [OF page]
  have k: "sofar + k \<le> upTo" 
  proof -
    have "0 < ?limit" "?limit \<le> upTo - sofar" using 1(3) by (auto simp: observationDetailPageExpiries_def)
    then show ?thesis using only(2) 1(3) by linarith
  qed
  have result: "(if whole \<or> (0 < upTo \<and> upTo \<le> sofar + k) then (st1, sofar + k)
       else pruneObservationDetails rowsInTime now cutoff upTo (page + 1) (sofar + k) nxt st1) = (st', n)"
    using 1(2) [unfolded pruneObservationDetails.simps [of rowsInTime now cutoff upTo page sofar after st] Let_def page fst_conv snd_conv] .
  show ?case
  proof (cases "whole \<or> (0 < upTo \<and> upTo \<le> sofar + k)")
    case True
    then show ?thesis using result only(1) k by auto
  next
    case False
    then have rest: "pruneObservationDetails rowsInTime now cutoff upTo (page + 1) (sofar + k) nxt st1 = (st', n)" using result by (simp only: if_False)
    have "expiresOnly cutoff st1 st' \<and> n \<le> upTo"
      by (rule 1(1) [OF refl refl refl, unfolded page fst_conv snd_conv, OF False rest]) (use False 1(3) in auto)
    then show ?thesis using expiresOnly_trans [OF only(1)] by blast
  qed
qed

end
