(* ===== verification/Preparation_Properties.thy ===== *)
theory Preparation_Properties
  imports Preparation_History Retention_Pages Samples
begin

text \<open>Properties of the preparation store, the phase runner and the retention of payloads.\<close>

section \<open>Samples\<close>

definition sampleStoreEnv :: "unit storeEnv" where
  "sampleStoreEnv = \<lparr>sve_CanonicalJSON = Inr, sve_Compact = (\<lambda>s. s), sve_JSONValid = (\<lambda>_. True),
     sve_RecordSource = (\<lambda>_ _ _ _ u. Inr (u, False)), sve_WakeForSource = (\<lambda>_ _ u. Inr u)\<rparr>"

definition sampleFence :: fence where
  "sampleFence = \<lparr>fn_SituationID = ''s'', fn_InputVersion = 1, fn_Owner = ''w'', fn_Token = 1\<rparr>"

definition sampleColumns :: situationColumns where
  "sampleColumns = \<lparr>stc_ID = ''s'', stc_InputVersion = 1, stc_LeaseOwner = Some ''w'', stc_ClaimToken = 1,
     stc_LeaseExpiresAt = Some ''2026-01-01T00:00:00Z'', stc_PreparationGeneration = 0, stc_CurrentPreparationCycleID = None,
     stc_InvestigationCredit = 3, stc_InvestigationCreditAccruedAt = None\<rparr>"

definition emptyPrep :: "unit prepStore" where
  "emptyPrep = \<lparr>tb_Situations = [sampleColumns], tb_Cycles = [], tb_Plans = [], tb_Requests = [], tb_Outcomes = [], tb_Runs = [],
     tb_Facts = [], tb_Payloads = [], tb_Refresh = [], tb_References = [], tb_Expirations = [], tb_Source = ()\<rparr>"

definition samplePlan :: plan where
  "samplePlan = \<lparr>pl_ID = [], pl_CycleID = [], pl_Capability = ''change_events'', pl_Phase = PhaseLifecycle,
     pl_Scope = \<lparr>sp_GroupKey = ''g'', sp_Source = ''x'', sp_SubjectID = ''a'', sp_Labels = []\<rparr>,
     pl_Parameters = [], pl_Start = sampleTime 60, pl_End = sampleTime 3660, pl_EligibleAt = sampleTime 60, pl_Limit = 1,
     pl_MaxRequests = 1, pl_Purpose = ''p'', pl_ReconsiderOn = [], pl_StopOn = [], pl_Tier = TierOptional, pl_ReuseRunID = []\<rparr>"

definition sampleDraft :: "plan list \<Rightarrow> cycleDraft" where
  "sampleDraft ps = \<lparr>cyd_Anchor = sampleTime 60, cyd_ConfigDigest = ''d'', cyd_RefreshInterval = minute, cyd_ProfileVersionIDs = [],
     cyd_ProfileGuidance = [], cyd_Plans = ps,
     cyd_Allocation = \<lparr>pa_TimeSensitiveRequests = 0, pa_RoutineLifecycleRequests = 0, pa_OptionalRequests = 1, pa_OptionalPlanID = [],
       pa_OptionalWallMilliseconds = 0, pa_Deferred = []\<rparr>\<rparr>"

text \<open>A store as the migrations leave it: Situations that own credit, and no preparation yet.\<close>

definition unprepared :: "'x prepStore \<Rightarrow> bool" where
  "unprepared st \<longleftrightarrow>
     tb_Cycles st = [] \<and> tb_Plans st = [] \<and> tb_Requests st = [] \<and> tb_Runs st = [] \<and> distinct (map stc_ID (tb_Situations st)) \<and>
     list_all (\<lambda>s. 0 \<le> stc_InvestigationCredit s) (tb_Situations st)"

lemma unprepared_inv: "unprepared st \<Longrightarrow> prepInv st"
  by (simp add: unprepared_def prepInv_def keysOK_def)

lemma emptyPrep_unprepared: "unprepared emptyPrep"
  by (simp add: unprepared_def emptyPrep_def sampleColumns_def)

lemmas prep_samples = sampleStoreEnv_def sampleFence_def sampleColumns_def emptyPrep_def samplePlan_def sampleDraft_def

lemma sample_times: "\<not> ''2026-01-01T00:00:00Z'' \<le> canonicalTime (sampleTime 60)" "\<not> ''2026-01-01T00:00:00Z'' \<le> canonicalTime (sampleTime 61)"
  by code_simp+

lemma samplePlan_valid: "ValidatePlan samplePlan = None"
  by code_simp

definition sampleCycleID :: string where "sampleCycleID = deterministicCycleID ''s'' 1 1"

definition samplePlanID :: string where
  "samplePlanID = (case CanonicalPlanID Inr sampleCycleID samplePlan of Inl e \<Rightarrow> e | Inr i \<Rightarrow> i)"

lemma samplePlan_identified: "CanonicalPlanID Inr sampleCycleID samplePlan = Inr samplePlanID"
proof -
  have "blank (pl_Parameters samplePlan)" by (simp add: samplePlan_def blank_def)
  then show ?thesis
    by (simp add: samplePlanID_def CanonicalPlanID_def samplePlan_valid result_defs sampleCycleID_def deterministicCycleID_def)
qed

text \<open>The sample after its cycle has begun.\<close>

definition sampleRow :: cycleRow where
  "sampleRow = \<lparr>cyr_ID = sampleCycleID, cyr_SituationID = ''s'', cyr_InputVersion = 1, cyr_Generation = 1, cyr_Anchor = sampleTime 60,
     cyr_ConfigDigest = ''d'', cyr_ProfileVersionIDs = [], cyr_ProfileGuidance = [], cyr_MaxRequests = 2,
     cyr_Allocation = cyd_Allocation (sampleDraft []), cyr_OptionalCreditSpent = 0, cyr_Sealed = False, cyr_SealedAt = None,
     cyr_RefreshSeconds = 60\<rparr>"

definition begunPrep :: "unit prepStore" where
  "begunPrep = emptyPrep\<lparr>tb_Situations := [sampleColumns\<lparr>stc_CurrentPreparationCycleID := Some sampleCycleID\<rparr>],
     tb_Cycles := [sampleRow], tb_Plans := [storedPlan sampleCycleID (samplePlan\<lparr>pl_ID := samplePlanID\<rparr>)]\<rparr>"

definition begunCycle :: cycle where
  "begunCycle = \<lparr>cyc_ID = sampleCycleID, cyc_Fence = sampleFence, cyc_Generation = 1,
     cyc_Draft = sampleDraft [samplePlan\<lparr>pl_ID := samplePlanID, pl_CycleID := sampleCycleID\<rparr>], cyc_MaxRequests = 2, cyc_Sealed = False\<rparr>"

lemma samplePlan_fields [simp]: "pl_Tier samplePlan = TierOptional" "pl_ReuseRunID samplePlan = []" "pl_MaxRequests samplePlan = 1"
  "pl_Capability samplePlan = ''change_events''" "sp_SubjectID (pl_Scope samplePlan) = ''a''"
  by (simp_all add: samplePlan_def)

lemma storedPlan_again [simp]: "storedPlan c (p\<lparr>pl_ID := i, pl_CycleID := d\<rparr>) = storedPlan c (p\<lparr>pl_ID := i\<rparr>)"
  by (simp add: storedPlan_def planTier_def)

lemma storedPlan_kept [simp]: "pl_ReuseRunID (storedPlan c p) = pl_ReuseRunID p" "pl_Capability (storedPlan c p) = pl_Capability p"
  "pl_Scope (storedPlan c p) = pl_Scope p" "pl_Tier (storedPlan c p) = planTier p"
  by (simp_all add: storedPlan_def)

lemma sample_begins: "BeginPreparation sampleStoreEnv sampleFence (sampleDraft [samplePlan]) 2 emptyPrep = Inr (begunPrep, begunCycle)"
proof -
  have "verifyFence emptyPrep sampleFence (sampleTime 60) = None"
    using sample_times(1) by (simp add: verifyFence_def emptyPrep_def sampleColumns_def sampleFence_def)
  moreover have "createCycle sampleStoreEnv sampleFence (sampleDraft [samplePlan]) 2 1 emptyPrep = Inr (begunPrep, begunCycle)"
    using samplePlan_identified
    by (simp add: createCycle_def sampleDraft_def sampleFence_def sampleStoreEnv_def sampleCycleID_def [symmetric] emptyPrep_def
        sampleColumns_def result_defs insertObservationPlan_def pointAt_def supersedeEarlier_def updateWhere_def begunPrep_def begunCycle_def
        sampleRow_def refreshSecondsOf_def sampleTime_def utcAt_def tUTC_def minute_def second_def Let_def
        TierOptional_def TierReuse_def)
  ultimately show ?thesis
    by (simp add: BeginPreparation_def MaxPlansPerCycle_def loadCycleByKey_def situationOf_def result_defs
        sampleDraft_def sampleFence_def emptyPrep_def sampleColumns_def Let_def)
qed

definition sampleReservation :: requestReservation where
  "sampleReservation = \<lparr>rsv_ID = ''request:'' @ sampleCycleID @ '':'' @ itoa 1, rsv_CycleID = sampleCycleID, rsv_PlanID = samplePlanID,
     rsv_Ordinal = 1, rsv_ReservedAt = sampleTime 61\<rparr>"

definition sampleCursor :: refreshRow where
  "sampleCursor = \<lparr>rfw_SituationID = ''s'', rfw_Subject = ''a'', rfw_Capability = ''change_events'',
     rfw_ScopeDigest = scopeDigest (pl_Scope samplePlan), rfw_LastServedAt = sampleTime 60, rfw_NextRefreshAt = sampleTime 120,
     rfw_AdmittedCycleID = sampleCycleID, rfw_LastRunID = None\<rparr>"

definition reservedPrep :: "unit prepStore" where
  "reservedPrep = begunPrep\<lparr>tb_Situations := [sampleColumns\<lparr>stc_CurrentPreparationCycleID := Some sampleCycleID, stc_InvestigationCredit := 0\<rparr>],
     tb_Cycles := [sampleRow\<lparr>cyr_OptionalCreditSpent := 3\<rparr>], tb_Requests := [sampleReservation], tb_Refresh := [sampleCursor]\<rparr>"

lemma sample_reserves:
  "ReserveObservationRequest sampleFence sampleCycleID samplePlanID (sampleTime 61) begunPrep = Inr (reservedPrep, sampleReservation)"
proof -
  have "verifyFence begunPrep sampleFence (sampleTime 61) = None"
    using sample_times(2) by (simp add: verifyFence_def begunPrep_def emptyPrep_def sampleColumns_def sampleFence_def)
  moreover have "planInCycle begunPrep samplePlanID sampleCycleID = Some (storedPlan sampleCycleID (samplePlan\<lparr>pl_ID := samplePlanID\<rparr>))"
    by (simp add: planInCycle_def begunPrep_def)
  moreover have "openCycleForWrite begunPrep sampleFence sampleCycleID = Inr sampleRow"
    by (simp add: openCycleForWrite_def begunPrep_def sampleRow_def situationOf_def sampleColumns_def sampleFence_def)
  ultimately show ?thesis
    by (simp add: ReserveObservationRequest_def Let_def result_defs requestsIn_def requestsFor_def begunPrep_def emptyPrep_def
        sampleRow_def spendsCredit_def planTier_def TierOptional_def debitCredit_def situationOf_def
        sampleFence_def sampleColumns_def investigationCreditCostPerRequest_def placeReservation_def admitRefresh_def updateWhere_def
        reservedPrep_def sampleReservation_def sampleCursor_def sampleTime_def utcAt_def tUTC_def tAdd_def second_def)
qed

lemma sample_steps: "prepSteps sampleStoreEnv emptyPrep begunPrep" "prepSteps sampleStoreEnv begunPrep reservedPrep"
  using prepStep.begins [OF sample_begins] prepStep.reserves [OF sample_reserves] by blast+


section \<open>Budgets\<close>

text \<open>
  C9. Whatever transactions of preparation and retention of payloads ran on a store that began without a preparation, no cycle has more requests than its maximum, its
  requests are numbered from one without a gap, the credit it spent is three for every request of its optional plan, no
  plan has more requests than it may issue, and no Situation owes credit.
\<close>

theorem request_budgets_hold:
  assumes "unprepared st" and "prepSteps env st st'"
  shows "(\<forall>c \<in> set (tb_Cycles st').
        int (length (requestsIn st' (cyr_ID c))) \<le> max 0 (cyr_MaxRequests c) \<and>
        map rsv_Ordinal (requestsIn st' (cyr_ID c)) = map int [1..<length (requestsIn st' (cyr_ID c)) + 1] \<and>
        cyr_OptionalCreditSpent c = 3 * int (length (paidRequests st' c))) \<and>
    (\<forall>p \<in> set (tb_Plans st'). int (length (requestsFor st' (pl_ID p))) \<le> pl_MaxRequests p) \<and>
    (\<forall>s \<in> set (tb_Situations st'). 0 \<le> stc_InvestigationCredit s)"
proof -
  have inv: "prepInv st'" using prepSteps_inv [OF assms(2) unprepared_inv [OF assms(1)]] .
  then have "list_all (cycleBudgetOK st') (tb_Cycles st')" "list_all (planBudgetOK st') (tb_Plans st')"
    "list_all (\<lambda>s. 0 \<le> stc_InvestigationCredit s) (tb_Situations st')"
    by (simp_all add: prepInv_def)
  then show ?thesis
    by (simp add: list_all_iff cycleBudgetOK_def planBudgetOK_def ordinals_def investigationCreditCostPerRequest_def)
qed

lemma sample_reserved_steps: "prepSteps sampleStoreEnv emptyPrep reservedPrep"
  using sample_steps by (rule rtranclp_trans)

theorem request_budgets_hold_witness:
  "int (length (requestsIn reservedPrep sampleCycleID)) \<le> 2 \<and> int (length (paidRequests reservedPrep (hd (tb_Cycles reservedPrep)))) = 1 \<and>
   int (length (requestsFor reservedPrep samplePlanID)) \<le> 1"
proof -
  have rows: "hd (tb_Cycles reservedPrep) \<in> set (tb_Cycles reservedPrep)" "hd (tb_Plans reservedPrep) \<in> set (tb_Plans reservedPrep)"
    "cyr_ID (hd (tb_Cycles reservedPrep)) = sampleCycleID" "cyr_MaxRequests (hd (tb_Cycles reservedPrep)) = 2"
    "cyr_OptionalCreditSpent (hd (tb_Cycles reservedPrep)) = 3" "pl_ID (hd (tb_Plans reservedPrep)) = samplePlanID"
    "pl_MaxRequests (hd (tb_Plans reservedPrep)) = 1"
    by (simp_all add: reservedPrep_def begunPrep_def sampleRow_def)
  note budgets = request_budgets_hold [OF emptyPrep_unprepared sample_reserved_steps]
  show ?thesis
    using bspec [OF conjunct1 [OF budgets] rows(1)] bspec [OF conjunct1 [OF conjunct2 [OF budgets]] rows(2)] rows(3-7) by simp
qed

section \<open>Frozen cycles\<close>

lemma grows_requests:
  assumes "grows st st'" and "c \<in> set (tb_Cycles st)" and "distinct (map cyr_ID (tb_Cycles st))" and "cyr_Sealed c"
  shows "requestsIn st' (cyr_ID c) = requestsIn st (cyr_ID c)"
    and "filter (\<lambda>r. rn_CycleID r = cyr_ID c) (tb_Runs st') = filter (\<lambda>r. rn_CycleID r = cyr_ID c) (tb_Runs st)"
proof -
  have closed: "cyr_ID c \<notin> openCycleIDs st \<and> cyr_ID c \<in> cyr_ID ` set (tb_Cycles st)"
  proof
    show "cyr_ID c \<notin> openCycleIDs st"
    proof
      assume "cyr_ID c \<in> openCycleIDs st"
      then obtain d where "d \<in> set (tb_Cycles st)" "cyr_ID d = cyr_ID c" "\<not> cyr_Sealed d" unfolding openCycleIDs_def by auto
      moreover from distinct_key_unique [OF assms(3) this(1) assms(2) this(2)] have "d = c" .
      ultimately show False using assms(4) by simp
    qed
  qed (use assms(2) in simp)
  obtain qs where "tb_Requests st' = tb_Requests st @ qs" "list_all (\<lambda>q. rsv_CycleID q \<in> openCycleIDs st \<or> rsv_CycleID q \<notin> cyr_ID ` set (tb_Cycles st)) qs"
    using assms(1) unfolding grows_def by blast
  then show "requestsIn st' (cyr_ID c) = requestsIn st (cyr_ID c)"
    using closed by (auto simp: requestsIn_def filter_empty_conv list_all_iff)
  obtain rs where "tb_Runs st' = tb_Runs st @ rs" "list_all (\<lambda>r. rn_CycleID r \<in> openCycleIDs st \<or> rn_CycleID r \<notin> cyr_ID ` set (tb_Cycles st)) rs"
    using assms(1) unfolding grows_def by blast
  then show "filter (\<lambda>r. rn_CycleID r = cyr_ID c) (tb_Runs st') = filter (\<lambda>r. rn_CycleID r = cyr_ID c) (tb_Runs st)"
    using closed by (auto simp: filter_empty_conv list_all_iff)
qed

lemma grows_plans:
  assumes "grows st st'" and "i \<in> cyr_ID ` set (tb_Cycles st)"
  shows "loadObservationPlans st' i = loadObservationPlans st i"
proof -
  obtain ps where "tb_Plans st' = tb_Plans st @ ps" "list_all (\<lambda>p. pl_CycleID p \<notin> cyr_ID ` set (tb_Cycles st)) ps"
    using assms(1) unfolding grows_def by blast
  moreover from this have "filter (\<lambda>p. pl_CycleID p = i) ps = []" using assms(2) by (auto simp: filter_empty_conv list_all_iff)
  ultimately show ?thesis by (simp add: loadObservationPlans_def)
qed

text \<open>
  C10. A cycle is frozen when it begins.  Whatever transactions of preparation, of the phase runner and of the expiry of payloads (the
  steps of \<open>prepStep\<close>) run afterwards, its row keeps every column but the optional spending and the seal, its plans stay the plans
  it began with, and once it is sealed it stays sealed and no request and no run is added to it.  The deletion of old cycles, plans and
  runs by \<^verbatim>\<open>observation_metadata_retention.go\<close> is not among these steps.
\<close>

theorem frozen_cycles_stay:
  assumes "unprepared st0" and "prepSteps env st0 st" and "prepSteps env st st'" and "c \<in> set (tb_Cycles st)"
  shows "(\<exists>d \<in> set (tb_Cycles st'). cyr_ID d = cyr_ID c \<and> frozenColumns d = frozenColumns c \<and> cyr_OptionalCreditSpent c \<le> cyr_OptionalCreditSpent d) \<and>
    loadObservationPlans st' (cyr_ID c) = loadObservationPlans st (cyr_ID c) \<and>
    (cyr_Sealed c \<longrightarrow> list_ex (\<lambda>d. cyr_ID d = cyr_ID c \<and> cyr_Sealed d) (tb_Cycles st') \<and> requestsIn st' (cyr_ID c) = requestsIn st (cyr_ID c) \<and>
      filter (\<lambda>r. rn_CycleID r = cyr_ID c) (tb_Runs st') = filter (\<lambda>r. rn_CycleID r = cyr_ID c) (tb_Runs st))"
proof -
  have inv: "prepInv st" by (rule prepSteps_inv [OF assms(2) unprepared_inv [OF assms(1)]])
  note g = prepSteps_grow [OF assms(3) inv]
  have dist: "distinct (map cyr_ID (tb_Cycles st))" using inv by (simp add: prepInv_def keysOK_def)
  obtain rows new where rows: "tb_Cycles st' = rows @ new" "list_all2 laterRow (tb_Cycles st) rows" using g unfolding grows_def by blast
  obtain d where d: "d \<in> set (tb_Cycles st')" "laterRow c d"
  proof -
    obtain i where i: "i < length (tb_Cycles st)" "c = tb_Cycles st ! i" using assms(4) by (auto simp: in_set_conv_nth)
    then have "laterRow c (rows ! i)" "rows ! i \<in> set rows" using rows(2) by (auto simp: list_all2_conv_all_nth)
    then show ?thesis using that [of "rows ! i"] rows(1) by simp
  qed
  show ?thesis
  proof (intro conjI impI)
    show "\<exists>d \<in> set (tb_Cycles st'). cyr_ID d = cyr_ID c \<and> frozenColumns d = frozenColumns c \<and> cyr_OptionalCreditSpent c \<le> cyr_OptionalCreditSpent d"
      using d laterRow_id [OF d(2)] by (auto simp: laterRow_def)
    show "loadObservationPlans st' (cyr_ID c) = loadObservationPlans st (cyr_ID c)" using assms(4) by (intro grows_plans [OF g]) simp
    assume sealed: "cyr_Sealed c"
    show "list_ex (\<lambda>d. cyr_ID d = cyr_ID c \<and> cyr_Sealed d) (tb_Cycles st')"
      using sealed d laterRow_id [OF d(2)] by (auto simp: list_ex_iff laterRow_def)
    show "requestsIn st' (cyr_ID c) = requestsIn st (cyr_ID c)"
      and "filter (\<lambda>r. rn_CycleID r = cyr_ID c) (tb_Runs st') = filter (\<lambda>r. rn_CycleID r = cyr_ID c) (tb_Runs st)"
      by (rule grows_requests [OF g assms(4) dist sealed])+
  qed
qed

definition sealedPrep :: "unit prepStore" where
  "sealedPrep = sealPreparationCycle ''s'' sampleCycleID (sampleTime 90) reservedPrep"

lemma sealedPrep_cycles: "list_ex (\<lambda>c. cyr_ID c = sampleCycleID \<and> cyr_Sealed c) (tb_Cycles sealedPrep)"
  by (simp add: sealedPrep_def sealPreparationCycle_def reservedPrep_def sampleRow_def updateWhere_def Let_def sealedRunIDs_def
      begunPrep_def emptyPrep_def sampleCycleID_def deterministicCycleID_def)

theorem frozen_cycles_stay_witness:
  "list_ex (\<lambda>c. cyr_ID c = sampleCycleID \<and> cyr_Sealed c) (tb_Cycles (sealPreparationCycle ''s'' sampleCycleID (sampleTime 99) sealedPrep)) \<and>
   length (loadObservationPlans reservedPrep sampleCycleID) = length (loadObservationPlans begunPrep sampleCycleID)"
proof
  have steps: "prepSteps sampleStoreEnv emptyPrep sealedPrep"
    unfolding sealedPrep_def using sample_reserved_steps prepStep.seals by (rule rtranclp.rtrancl_into_rtrancl)
  have again: "prepSteps sampleStoreEnv sealedPrep (sealPreparationCycle ''s'' sampleCycleID (sampleTime 99) sealedPrep)"
    using prepStep.seals by (rule r_into_rtranclp)
  obtain c where c: "c \<in> set (tb_Cycles sealedPrep)" "cyr_ID c = sampleCycleID" "cyr_Sealed c"
    using sealedPrep_cycles unfolding list_ex_iff by blast
  show "list_ex (\<lambda>c. cyr_ID c = sampleCycleID \<and> cyr_Sealed c) (tb_Cycles (sealPreparationCycle ''s'' sampleCycleID (sampleTime 99) sealedPrep))"
    using frozen_cycles_stay [OF emptyPrep_unprepared steps again c(1)] c(2,3) by simp
  have "sampleRow \<in> set (tb_Cycles begunPrep)" by (simp add: begunPrep_def)
  from conjunct1 [OF conjunct2 [OF frozen_cycles_stay [OF emptyPrep_unprepared sample_steps this]]]
  show "length (loadObservationPlans reservedPrep sampleCycleID) = length (loadObservationPlans begunPrep sampleCycleID)"
    by (simp add: sampleRow_def)
qed


text \<open>
  C11. A worker that begins a preparation again, after a crash or with another draft, gets the cycle that is already frozen
  under the key: the same cycle with the same maximum, allocation and configuration, the plans it was frozen with, and no
  new cycle and no new plan.  This holds whatever steps of \<open>prepStep\<close> ran in between.
\<close>

theorem retry_resumes_cycle:
  assumes "unprepared st0" and "prepSteps env st0 st" and "BeginPreparation env f draft n st = Inr (st1, c)" and "prepSteps env st1 st2"
    and "BeginPreparation env f' draft' n' st2 = Inr (st3, c')" and "fn_SituationID f' = fn_SituationID f"
    and "fn_InputVersion f' = fn_InputVersion f" and "cyc_Generation c' = cyc_Generation c"
  shows "cyc_ID c' = cyc_ID c \<and> cyc_MaxRequests c' = cyc_MaxRequests c \<and>
    cyd_Allocation (cyc_Draft c') = cyd_Allocation (cyc_Draft c) \<and> cyd_ConfigDigest (cyc_Draft c') = cyd_ConfigDigest (cyc_Draft c) \<and>
    cyd_Plans (cyc_Draft c') = loadObservationPlans st1 (cyc_ID c) \<and>
    tb_Cycles st3 = tb_Cycles st2 \<and> tb_Plans st3 = tb_Plans st2"
proof -
  have inv: "prepInv st1" by (rule prepInv_begin [OF prepSteps_inv [OF assms(2) unprepared_inv [OF assms(1)]] assms(3)])
  note g = prepSteps_grow [OF assms(4) inv]
  let ?key = "cycleKey (fn_SituationID f) (fn_InputVersion f) (cyc_Generation c)"
  obtain row where row: "find ?key (tb_Cycles st1) = Some row" "describes c row" using BeginPreparation_row [OF assms(3)] by blast
  obtain row' where row': "find ?key (tb_Cycles st2) = Some row'" "laterRow row row'" using grows_key [OF g row(1)] by blast
  have "describes c row'" using row(2) row'(2) by (simp add: laterRow_describes)
  moreover have resumed: "describes c' row' \<and> cyd_Plans (cyc_Draft c') = loadObservationPlans st2 (cyc_ID c') \<and> st3 = pointAt (fn_SituationID f') (cyc_ID c') st2"
    by (rule BeginPreparation_cases [OF assms(5)]) (use row'(1) assms(6-8) in auto)
  ultimately have same: "cyc_ID c' = cyc_ID c" "cyc_MaxRequests c' = cyc_MaxRequests c"
    "cyd_Allocation (cyc_Draft c') = cyd_Allocation (cyc_Draft c)" "cyd_ConfigDigest (cyc_Draft c') = cyd_ConfigDigest (cyc_Draft c)"
    by (simp_all add: describes_def)
  have "cyc_ID c \<in> cyr_ID ` set (tb_Cycles st1)" using row(2) find_some [OF row(1)] by (metis describes_def imageI)
  then have "cyd_Plans (cyc_Draft c') = loadObservationPlans st1 (cyc_ID c)" using resumed same(1) grows_plans [OF g] by simp
  moreover have "tb_Cycles st3 = tb_Cycles st2 \<and> tb_Plans st3 = tb_Plans st2" using resumed by (simp add: pointAt_def)
  ultimately show ?thesis using same by blast
qed

text \<open>Another worker of the same claim comes with an empty draft and a larger budget.\<close>

lemma sample_begins_again:
  obtains c st where "BeginPreparation sampleStoreEnv sampleFence (sampleDraft []) 9 reservedPrep = Inr (st, c)" "cyc_Generation c = 1"
proof -
  have fence: "verifyFence reservedPrep sampleFence (sampleTime 60) = None"
    using sample_times(1) by (simp add: verifyFence_def reservedPrep_def begunPrep_def emptyPrep_def sampleColumns_def sampleFence_def)
  have s: "situationOf reservedPrep ''s'' = Some (sampleColumns\<lparr>stc_CurrentPreparationCycleID := Some sampleCycleID, stc_InvestigationCredit := 0\<rparr>)"
    by (simp add: situationOf_def reservedPrep_def sampleColumns_def)
  obtain c where c: "loadCycleByKey reservedPrep ''s'' 1 1 = Some c" "cyc_Generation c = 1"
    by (simp add: loadCycleByKey_def s) (simp add: reservedPrep_def sampleRow_def)
  have "BeginPreparation sampleStoreEnv sampleFence (sampleDraft []) 9 reservedPrep = Inr (pointAt ''s'' (cyc_ID c) reservedPrep, c)"
    using fence c(1) by (simp add: BeginPreparation_def result_defs sampleFence_def s) (simp add: sampleDraft_def MaxPlansPerCycle_def sampleColumns_def)
  then show thesis using that c(2) by blast
qed

theorem retry_resumes_cycle_witness:
  "\<exists>c st. BeginPreparation sampleStoreEnv sampleFence (sampleDraft []) 9 reservedPrep = Inr (st, c) \<and> cyc_MaxRequests c = 2 \<and>
     cyd_Plans (cyc_Draft c) = [storedPlan sampleCycleID (samplePlan\<lparr>pl_ID := samplePlanID\<rparr>)]"
proof -
  obtain c st where c: "BeginPreparation sampleStoreEnv sampleFence (sampleDraft []) 9 reservedPrep = Inr (st, c)" "cyc_Generation c = 1"
    by (rule sample_begins_again)
  have gen: "cyc_Generation c = cyc_Generation begunCycle" using c(2) by (simp add: begunCycle_def)
  note same = retry_resumes_cycle [OF emptyPrep_unprepared rtranclp.rtrancl_refl sample_begins sample_steps(2) c(1) refl refl gen]
  have "loadObservationPlans begunPrep sampleCycleID = [storedPlan sampleCycleID (samplePlan\<lparr>pl_ID := samplePlanID\<rparr>)]"
    by (simp add: loadObservationPlans_def begunPrep_def)
  then show ?thesis using c(1) same by (auto simp: begunCycle_def)
qed


section \<open>Running a phase\<close>

















lemma samplePlanID_nonempty: "samplePlanID \<noteq> [] \<and> sampleCycleID \<noteq> []"
proof -
  have "blank (pl_Parameters samplePlan)" by (simp add: samplePlan_def blank_def)
  then show ?thesis
    by (simp add: samplePlanID_def CanonicalPlanID_def samplePlan_valid result_defs sampleCycleID_def deterministicCycleID_def)
qed

definition sampleRun :: run where
  "sampleRun = unresolvedRun (samplePlan\<lparr>pl_ID := samplePlanID, pl_CycleID := sampleCycleID\<rparr>) (sampleTime 61)"

lemma sampleRun_fields [simp]: "rn_ID sampleRun = ''run:'' @ samplePlanID" "rn_CycleID sampleRun = sampleCycleID" "rn_PlanID sampleRun = samplePlanID"
  "rn_Facts sampleRun = []" "rn_ReusedFromRunID sampleRun = None"
  by (simp_all add: sampleRun_def unresolvedRun_def planRun_def)

lemma sampleRun_valid: "ValidateRun sampleRun = None"
  using samplePlanID_nonempty
  by (simp add: ValidateRun_def validate_simps sampleRun_def unresolvedRun_def planRun_def ValidResultStatus_def result_status_defs
      MaxFactsPerRun_def ResultStatuses_def samplePlan_def sampleTime_def time_defs second_def)

lemma sample_commits: "\<exists>st. CommitObservationRun sampleStoreEnv sampleFence sampleRun (sampleTime 61) begunPrep = Inr st"
proof -
  have "verifyFence begunPrep sampleFence (sampleTime 61) = None"
    using sample_times(2) by (simp add: verifyFence_def begunPrep_def emptyPrep_def sampleColumns_def sampleFence_def)
  moreover have "planInCycle begunPrep samplePlanID sampleCycleID = Some (storedPlan sampleCycleID (samplePlan\<lparr>pl_ID := samplePlanID\<rparr>))"
    by (simp add: planInCycle_def begunPrep_def)
  moreover have "openCycleForWrite begunPrep sampleFence sampleCycleID = Inr sampleRow"
    by (simp add: openCycleForWrite_def begunPrep_def sampleRow_def situationOf_def sampleColumns_def sampleFence_def)
  moreover have "insertNewRun sampleStoreEnv sampleFence sampleRow (storedPlan sampleCycleID (samplePlan\<lparr>pl_ID := samplePlanID\<rparr>)) sampleRun (sampleTime 61) begunPrep \<noteq> Inl e" for e
    by (simp add: insertNewRun_def result_defs insertRun_def insertOpenCycleReference_def admitRefresh_def Let_def detailExpired_def
        begunPrep_def emptyPrep_def sampleRow_def)
  then obtain st where "insertNewRun sampleStoreEnv sampleFence sampleRow (storedPlan sampleCycleID (samplePlan\<lparr>pl_ID := samplePlanID\<rparr>)) sampleRun (sampleTime 61) begunPrep = Inr st"
    by (cases "insertNewRun sampleStoreEnv sampleFence sampleRow (storedPlan sampleCycleID (samplePlan\<lparr>pl_ID := samplePlanID\<rparr>)) sampleRun (sampleTime 61) begunPrep") auto
  moreover have "capCycleBytes begunPrep sampleRun = sampleRun" by (simp add: capCycleBytes_def)
  moreover have "loadRunCanonical sampleStoreEnv begunPrep (''run:'' @ samplePlanID) = None" by (simp add: loadRunCanonical_def begunPrep_def emptyPrep_def)
  ultimately show ?thesis using sampleRun_valid by (simp add: CommitObservationRun_def result_defs Let_def)
qed



section \<open>Replays\<close>

lemma tUTC_again [simp]: "canonicalTime (tUTC t) = canonicalTime t"
  by (simp add: canonicalTime_def tUTC_def)

lemma factless_payloads_differ:
  "marshal (runPayloadShape r JNull) \<noteq> marshal (runPayloadShape r' (JArray []))"
proof
  assume "marshal (runPayloadShape r JNull) = marshal (runPayloadShape r' (JArray []))"
  then have "last (butlast (marshal (runPayloadShape r JNull))) = last (butlast (marshal (runPayloadShape r' (JArray []))))" by simp
  then show False by (simp add: runPayloadShape_def butlast_append)
qed

text \<open>
  C18. A run without facts cannot be repeated: the very same run, committed again under its ID by the same worker, is refused as a
  conflicting replay, because the stored run is encoded with null facts and the new one with an empty list.
\<close>

theorem factless_replay_conflicts:
  assumes "CommitObservationRun env f r now st = Inr st'" and "rn_Facts r = []" and "rn_ID r \<notin> rn_ID ` set (tb_Runs st)"
    and "rn_ID r \<notin> xf_RunID ` set (tb_Facts st)"
  shows "CommitObservationRun env f r now st' = Inl ErrConflictingReplay"
proof (cases rule: CommitObservationRun_cases [OF assms(1)])
  case (1 x)
  then show ?thesis using assms(3) by (metis imageI)
next
  case (2 c p)
  have r: "capCycleBytes s r = r" for s :: "'a prepStore" using assms(2) by (simp add: capCycleBytes_def)
  obtain refs cursors src where st': "st' = st\<lparr>tb_Runs := tb_Runs st @ [runRow r now], tb_Refresh := cursors, tb_References := refs, tb_Source := src\<rparr>"
    using insertNewRun_frame(4) [OF 2(3)] assms(2) by (auto simp: r)
  have "find (\<lambda>x. rn_ID x = rn_ID r) (tb_Runs st) = None"
    unfolding find_None_iff
  proof
    assume "\<exists>x. x \<in> set (tb_Runs st) \<and> rn_ID x = rn_ID r"
    then obtain x where "x \<in> set (tb_Runs st)" "rn_ID r = rn_ID x" by auto
    then have "rn_ID r \<in> rn_ID ` set (tb_Runs st)" by (rule rev_image_eqI)
    then show False using assms(3) by simp
  qed
  then have row: "find (\<lambda>x. rn_ID x = rn_ID r) (tb_Runs st') = Some (runRow r now)" by (simp add: st' find_snoc)
  have "xf_RunID x \<noteq> rn_ID r" if "x \<in> set (tb_Facts st)" for x using assms(4) imageI [OF that, of xf_RunID] by metis
  then have "filter (\<lambda>x. xf_RunID x = rn_ID r) (tb_Facts st') = []" by (simp add: st' filter_empty_conv)
  then have "loadRunCanonical env st' (rn_ID r) = Some (marshal (runPayloadShape (runRow r now) JNull))"
    by (simp add: loadRunCanonical_def row loadFactsForRun_def)
  moreover have "canonicalRunPayload env r = marshal (runPayloadShape r (JArray []))" using assms(2) by (simp add: canonicalRunPayload_def)
  moreover have "ValidateRun r = None" "verifyFence st f now = None" using assms(1) unfolding CommitObservationRun_def by simp_all
  moreover have same: "situationOf st' = situationOf st" "tb_Cycles st' = tb_Cycles st" "tb_Plans st' = tb_Plans st" "tb_Situations st' = tb_Situations st"
    by (simp_all add: st' situationOf_def fun_eq_iff)
  have "verifyFence st' f now = verifyFence st f now" "openCycleForWrite st' f (rn_CycleID r) = openCycleForWrite st f (rn_CycleID r)"
    "planInCycle st' (rn_PlanID r) (rn_CycleID r) = planInCycle st (rn_PlanID r) (rn_CycleID r)"
    unfolding verifyFence_def openCycleForWrite_def planInCycle_def same by (rule refl)+
  ultimately show ?thesis
    using 2(1,2) assms(2) factless_payloads_differ by (simp add: CommitObservationRun_def result_defs Let_def r)
qed

theorem factless_replay_conflicts_witness:
  "\<exists>st. CommitObservationRun sampleStoreEnv sampleFence sampleRun (sampleTime 61) begunPrep = Inr st \<and>
     CommitObservationRun sampleStoreEnv sampleFence sampleRun (sampleTime 61) st = Inl ErrConflictingReplay"
proof -
  obtain st where st: "CommitObservationRun sampleStoreEnv sampleFence sampleRun (sampleTime 61) begunPrep = Inr st" using sample_commits by blast
  have "CommitObservationRun sampleStoreEnv sampleFence sampleRun (sampleTime 61) st = Inl ErrConflictingReplay"
    by (rule factless_replay_conflicts [OF st]) (simp_all add: begunPrep_def emptyPrep_def)
  with st show ?thesis by blast
qed

section \<open>Fences\<close>

definition leasedUntil :: "gtime \<Rightarrow> unit prepStore" where
  "leasedUntil t = emptyPrep\<lparr>tb_Situations := [sampleColumns\<lparr>stc_LeaseExpiresAt := Some (canonicalTime t)\<rparr>]\<rparr>"

text \<open>The text of an instant is the text of its second, then the fraction without trailing zeros, then the zone.\<close>

lemma nonzero_digit: "1 \<le> n \<Longrightarrow> \<exists>c \<in> set (posDigits n). c \<noteq> CHR ''0''"
proof (induction n rule: posDigits.induct)
  case (1 n)
  show ?case
  proof (cases "n < 10")
    case True
    have "digitChar n \<noteq> CHR ''0''"
    proof
      assume "digitChar n = CHR ''0''"
      then have "(of_char (CHR ''0'') :: int) = 48 + n" using of_digitChar [of n] True 1(2) by simp
      then show False using 1(2) by simp
    qed
    then show ?thesis using True by (simp add: posDigits.simps [of n])
  next
    case False
    then show ?thesis using 1 by (auto simp: posDigits.simps [of n])
  qed
qed

lemma fraction_text_empty: "0 \<le> k \<Longrightarrow> dropTrailingZeros (pad 9 (itoa k)) = [] \<longleftrightarrow> k = 0"
proof
  assume k: "0 \<le> k" "dropTrailingZeros (pad 9 (itoa k)) = []"
  show "k = 0"
  proof (rule ccontr)
    assume "k \<noteq> 0"
    with k(1) nonzero_digit [of k] obtain c where "c \<in> set (pad 9 (itoa k))" "c \<noteq> CHR ''0''" by (auto simp: itoa_def pad_def)
    with k(2) show False by (auto simp: dropTrailingZeros_def)
  qed
next
  have "dropTrailingZeros (pad 9 (itoa 0)) = []" by code_simp
  then show "k = 0 \<Longrightarrow> dropTrailingZeros (pad 9 (itoa k)) = []" by simp
qed

lemma canonicalTime_fraction:
  obtains lead where "\<And>t. tns t div second = secs \<Longrightarrow> tns t mod second = 0 \<Longrightarrow> canonicalTime t = lead @ ''Z''"
    and "\<And>t. tns t div second = secs \<Longrightarrow> tns t mod second \<noteq> 0 \<Longrightarrow> \<exists>digits. canonicalTime t = lead @ ''.'' @ digits"
proof -
  have frac: "0 \<le> n mod second" for n :: int by (simp add: second_def)
  define lead where "lead = (let date = civilDate (secs div 86400); s = secs mod 86400
      in pad 4 (itoa (fst date)) @ ''-'' @ pad 2 (itoa (fst (snd date))) @ ''-'' @ pad 2 (itoa (snd (snd date))) @ ''T'' @
         pad 2 (itoa (s div 3600)) @ '':'' @ pad 2 (itoa (s div 60 mod 60)) @ '':'' @ pad 2 (itoa (s mod 60)))"
  have rendered: "canonicalTime t = lead @ (if dropTrailingZeros (pad 9 (itoa (tns t mod second))) \<noteq> []
      then ''.'' @ dropTrailingZeros (pad 9 (itoa (tns t mod second))) else []) @ ''Z''" if "tns t div second = secs" for t
    using that by (simp add: canonicalTime_def formatTime_def Let_def tUTC_def zoneOffset_def zoneSuffix_def lead_def)
  show thesis
  proof (rule that)
    show "canonicalTime t = lead @ ''Z''" if "tns t div second = secs" "tns t mod second = 0" for t
      using rendered [OF that(1)] fraction_text_empty [of 0] that(2) by simp
    show "\<exists>digits. canonicalTime t = lead @ ''.'' @ digits" if "tns t div second = secs" "tns t mod second \<noteq> 0" for t
      using rendered [OF that(1)] fraction_text_empty [OF frac, of "tns t"] that(2) by simp
  qed
qed

lemma string_le_append: "(p @ x :: string) \<le> p @ y \<longleftrightarrow> x \<le> y"
  by (induction p) simp_all

text \<open>Within one second a whole instant sorts after every fraction.\<close>

lemma canonicalTime_within_second:
  assumes "tns a div second = tns b div second" and "tns a mod second = 0" and "tns b mod second \<noteq> 0"
  shows "tBefore a b" and "canonicalTime b \<le> canonicalTime a" and "\<not> canonicalTime a \<le> canonicalTime b"
proof -
  obtain p where p: "\<And>t. tns t div second = tns a div second \<Longrightarrow> tns t mod second = 0 \<Longrightarrow> canonicalTime t = p @ ''Z''"
    "\<And>t. tns t div second = tns a div second \<Longrightarrow> tns t mod second \<noteq> 0 \<Longrightarrow> \<exists>digits. canonicalTime t = p @ ''.'' @ digits"
    by (rule canonicalTime_fraction [of "tns a div second"]) blast
  obtain digits where texts: "canonicalTime a = p @ ''Z''" "canonicalTime b = p @ ''.'' @ digits"
    using p(1) [OF refl assms(2)] p(2) [OF assms(1) [symmetric] assms(3)] by blast
  have "''.'' @ digits \<le> ''Z''" "\<not> ''Z'' \<le> ''.'' @ digits" by (simp_all add: less_char_def)
  then show "canonicalTime b \<le> canonicalTime a" "\<not> canonicalTime a \<le> canonicalTime b"
    by (simp_all only: texts string_le_append not_False_eq_True)
  have "0 \<le> tns b mod second" by (simp add: second_def)
  then show "tBefore a b"
    using assms(2,3) mult_div_mod_eq [of second "tns a"] mult_div_mod_eq [of second "tns b"]
    unfolding tBefore_def assms(1) by linarith
qed

text \<open>
  C19. The fence compares the texts of the two instants, whose fractions have no fixed width.  So for a lease found under the fence
  that ends within the second of the clock: when the clock is on the whole second and the lease ends in a fraction of it, the lease is
  still live and is judged lost; when the lease ended on the whole second and the clock is a fraction past it, the lease has expired
  and the fence passes it.
\<close>

theorem fence_misjudges_leases:
  assumes "find (\<lambda>s. stc_ID s = fn_SituationID f \<and> stc_LeaseOwner s = Some (fn_Owner f) \<and> stc_ClaimToken s = fn_Token f)
      (tb_Situations st) = Some s"
    and "stc_LeaseExpiresAt s = Some (canonicalTime expires)" and "tns expires div second = tns now div second"
  shows "(tns now mod second = 0 \<and> tns expires mod second \<noteq> 0 \<longrightarrow>
        tBefore now expires \<and> verifyFence st f now = Some ErrSituationLeaseLost) \<and>
    (tns expires mod second = 0 \<and> tns now mod second \<noteq> 0 \<longrightarrow>
        tBefore expires now \<and>
        verifyFence st f now = (if stc_InputVersion s = fn_InputVersion f then None else Some ErrSituationVersionConflict))"
  using canonicalTime_within_second [OF assms(3)] canonicalTime_within_second [OF assms(3) [symmetric]] assms(1,2)
  by (simp add: verifyFence_def)

theorem fence_misjudges_leases_witness:
  "verifyFence (leasedUntil (utcAt (65 * second + 500))) sampleFence (utcAt (65 * second)) = Some ErrSituationLeaseLost \<and>
   verifyFence (leasedUntil (utcAt (65 * second))) sampleFence (utcAt (65 * second + 500)) = None"
proof
  have row: "find (\<lambda>s. stc_ID s = fn_SituationID sampleFence \<and> stc_LeaseOwner s = Some (fn_Owner sampleFence) \<and> stc_ClaimToken s = fn_Token sampleFence)
      (tb_Situations (leasedUntil t)) = Some (sampleColumns\<lparr>stc_LeaseExpiresAt := Some (canonicalTime t)\<rparr>)" for t
    by (simp add: leasedUntil_def emptyPrep_def sampleFence_def sampleColumns_def)
  show "verifyFence (leasedUntil (utcAt (65 * second + 500))) sampleFence (utcAt (65 * second)) = Some ErrSituationLeaseLost"
    using fence_misjudges_leases [OF row [of "utcAt (65 * second + 500)"], where expires = "utcAt (65 * second + 500)" and
      now = "utcAt (65 * second)"] by (simp add: second_def)
  show "verifyFence (leasedUntil (utcAt (65 * second))) sampleFence (utcAt (65 * second + 500)) = None"
    using fence_misjudges_leases [OF row [of "utcAt (65 * second)"], where expires = "utcAt (65 * second)" and
      now = "utcAt (65 * second + 500)"] by (simp add: second_def sampleColumns_def sampleFence_def)
qed


section \<open>Retention\<close>






end
