(* ===== verification/Spec2Isabelle.thy ===== *)
theory Spec2Isabelle
  imports Lifecycle_Properties Notification_Properties Assessment_Properties Model_Properties
    History_Properties Expected_Properties Reconcile_Properties
    Observation_Properties Preparation_Properties
begin

text \<open>
  A verification development of AlertINT's Situation engine.

  \<^bold>\<open>The program.\<close>  AlertINT groups the alerts of an alert storm into one \<^emph>\<open>Situation\<close>,
  investigates it with read-only evidence and tells an operator about it in an evolving thread.  The
  core is the package \<^verbatim>\<open>src/internal/situation\<close> with its data model \<^verbatim>\<open>src/internal/situation/model\<close>.  A
  controller reads the rows of one Situation from the store, projects them into a Snapshot of facts and
  eligible reasons, decides which Incidents need Acute Triage, asks a language model for a proposal or
  falls back to a deterministic one, resolves the lifecycle from the source evidence, overlays an
  operator's expected judgment and commits the result, from which Transitions and notification intents are planned.

  \<^bold>\<open>Theories and the code they model\<close>, in the order of their imports:

  \<^item> \<^theory_text>\<open>Go_Prelude\<close>: the conventions of the translation (errors as optional strings, pointers as options,
    strings as byte lists, maps as association lists, 64-bit wrap-around, instants), the list, option
    and sorting lemmas and the collections the components share.
  \<^item> \<^theory_text>\<open>Severity\<close>, \<^theory_text>\<open>Grouping\<close>: \<^verbatim>\<open>internal/severity\<close> and \<^verbatim>\<open>internal/grouping\<close>.
  \<^item> \<^theory_text>\<open>Situation_Model\<close>, \<^theory_text>\<open>Assessment_Model\<close>, \<^theory_text>\<open>Briefing_Model\<close>, \<^theory_text>\<open>History_Model\<close>,
    \<^theory_text>\<open>Expected_Behavior_Model\<close>: the records, enumerations and validators of \<^verbatim>\<open>situation/model\<close>.  A validator
    is characterised by a predicate, through the locale \<open>validator\<close> where several share the contract.
  \<^item> \<^theory_text>\<open>Encoding\<close>: what the code uses of the standard library for digests: RFC 3339 times, JSON marshalling and SHA-256.
  \<^item> \<^theory_text>\<open>Delivery\<close>: \<^verbatim>\<open>incident_digest.go\<close> and the symptom and duration part of \<^verbatim>\<open>snapshot.go\<close>.  The locales
    \<open>keyed_fold\<close> and \<open>best_per_key\<close> state the contract of the recurring map-building loop that keeps the
    best element per key; its interpretations are the loops of the code.
  \<^item> \<^theory_text>\<open>Lifecycle\<close>, \<^theory_text>\<open>Source_Lifecycle\<close>: \<^verbatim>\<open>lifecycle.go\<close> (the machine, as a function and as a step relation)
    and \<^verbatim>\<open>source_lifecycle.go\<close> (the fold of source observations).
  \<^item> \<^theory_text>\<open>Observation_Model\<close>: the validators of observation plans and runs in \<^verbatim>\<open>internal/observation/model\<close>.
  \<^item> \<^theory_text>\<open>Priority\<close>, \<^theory_text>\<open>Notification_Plan\<close>: \<^verbatim>\<open>priority.go\<close> and \<^verbatim>\<open>notification_plan.go\<close>, whole.
  \<^item> \<^theory_text>\<open>Snapshot\<close>, \<^theory_text>\<open>Facts\<close>: \<^verbatim>\<open>snapshot.go\<close>, \<^verbatim>\<open>facts.go\<close>, \<^verbatim>\<open>reasons.go\<close>, \<^verbatim>\<open>observation_evidence.go\<close>,
    \<^verbatim>\<open>observation_projection.go\<close>: facts, reasons, the material and the basis hash, \<open>BuildSnapshot\<close>.
  \<^item> \<^theory_text>\<open>Assessment\<close>: \<^verbatim>\<open>assessment.go\<close>: cadence, action contract, derivation, proposal policy, fallback, reuse, call outcomes.
  \<^item> \<^theory_text>\<open>Triage\<close>, \<^theory_text>\<open>Judgment\<close>: \<^verbatim>\<open>triage.go\<close> and \<^verbatim>\<open>judgment.go\<close>.
  \<^item> \<^theory_text>\<open>Controller_Lifecycle\<close>: \<open>resolveLifecycle\<close> and \<open>reduceSourceLifecycle\<close> of \<^verbatim>\<open>controller.go\<close>, the CHECK
    constraints of the situations table, and the relation \<open>cycle_run\<close> of one or more controller cycles with
    arbitrary inputs, which the invariants are about.  \<^theory_text>\<open>Lifecycle_Trace\<close>: the same runs with what each cycle saw (\<open>cycle_trace\<close>) and
    the events its evidence raises, which the refinement of the lifecycle machine is about.
  \<^item> \<^theory_text>\<open>Work_Projection\<close>: \<open>BuildWorkProjection\<close> of \<^verbatim>\<open>controller.go\<close>, the one line of work shown for all Incidents.
  \<^item> \<^theory_text>\<open>Expected_Schedule\<close>, \<^theory_text>\<open>Expected_Behavior\<close>: \<^verbatim>\<open>expected_behavior_schedule.go\<close> (policies, wall clocks, occurrences) and
    \<^verbatim>\<open>expected_behavior.go\<close> (evaluation of the schedules, commit-time refresh, authority over a commit).
  \<^item> \<^theory_text>\<open>Briefing_Encoding\<close>, \<^theory_text>\<open>Briefing\<close>: the JSON of the projections, and \<^verbatim>\<open>briefing.go\<close>: the operator briefing, the material
    candidates of a Transition and the delta between two briefings.
  \<^item> \<^theory_text>\<open>Observation_Coverage\<close>: \<^verbatim>\<open>observation_coverage.go\<close>.
  \<^item> \<^theory_text>\<open>Transitions\<close>, \<^theory_text>\<open>Episode\<close>: \<^verbatim>\<open>history.go\<close>: the Transitions a commit records, the summary folded over them and
    \<open>BuildHistoryCommit\<close>.  The relation \<open>episodeOf\<close> holds of a ledger and the summary folded over it; the locale
    \<open>ledgerDigest\<close> is the contract of a summary column that is a function of the whole ledger, interpreted for six columns.
  \<^item> \<^theory_text>\<open>Controller_Commit\<close>: the rows of \<^verbatim>\<open>controller.go\<close> around a model call (attempts, outcomes, parks, backoff, usage), preservation
    and fallback, the controller state, and the history derived for a commit.
  \<^item> \<^theory_text>\<open>Reconcile\<close>: \<^verbatim>\<open>reconcile\<close>, \<^verbatim>\<open>dispatchWorkBearing\<close>, \<^verbatim>\<open>commit\<close> and every commit path of \<^verbatim>\<open>controller.go\<close> and
    \<^verbatim>\<open>controller_budget.go\<close>.  A cycle maps the answers of its surroundings (\<open>controllerEnv\<close>) to the list of its calls on store,
    preparer, client and audit log, in order, and its error.
  \<^item> \<^theory_text>\<open>Reconcile_Trace\<close>, \<^theory_text>\<open>Reconcile_Landing\<close>: lemmas on the traces of a cycle.  The locale \<open>cycleLaw\<close> is the contract of a property of
    results that evidence gathering does not disturb; it lifts such a property from the judging part to the whole cycle and is
    interpreted for six laws.
  \<^item> \<^theory_text>\<open>Observation_Plan\<close>, \<^theory_text>\<open>Observation_Candidates\<close>: \<^verbatim>\<open>internal/observation\<close>, \<^verbatim>\<open>planner.go\<close> and \<^verbatim>\<open>budget.go\<close>: the candidate
    reads of every member, their fair admission to the request budget, and the plan set.  The locale \<open>admission\<close> is the contract of
    the three admission loops, \<open>planning\<close> derives the laws of a plan set once; both are interpreted on the code's model.
  \<^item> \<^theory_text>\<open>Preparation_Store\<close>: \<^verbatim>\<open>internal/store/situation_preparation.go\<close>: the tables of frozen cycles, plans, request reservations and
    outcomes, runs with their facts and payloads, refresh cursors and references; every transaction is a function from tables to an
    error or new tables.  \<^theory_text>\<open>Observation_Run\<close>: \<^verbatim>\<open>runner.go\<close>, a phase of plans whose connectors are scripts over the recorder.
    \<^theory_text>\<open>Observation_Retention\<close>: the ten-day retention of payloads (\<open>pruneObservationDetails\<close>, which the storage retention calls through
    \<^verbatim>\<open>PruneObservationRetentionBefore\<close> and the tests through \<open>PruneUnusedObservationDetails\<close>).
  \<^item> \<^theory_text>\<open>Preparation_Invariants\<close>, \<^theory_text>\<open>Preparation_History\<close>, \<^theory_text>\<open>Retention_Pages\<close>: the step relation \<open>prepStep\<close> of the preparation tables,
    the invariant its steps keep, the order \<open>grows\<close> in which they only append, and what a retention page expires.  The transactions of
    \<^verbatim>\<open>observation_metadata_retention.go\<close> that delete old cycles, plans, runs and requests are not steps of it.
  \<^item> \<^theory_text>\<open>Samples\<close>: small concrete rows on which the witnesses evaluate the definitions.

  \<^bold>\<open>What the theorems show.\<close>  \<^theory_text>\<open>Lifecycle_Properties\<close>: cycles keep the table's constraints, never reopen an ended
  Situation, refine the lifecycle machine (a recovery is the all-clear one cycle saw and the grace a later one found over) and respect the
  grace; exact conditions of recovery and closure; the
  source fold's verdicts, bounds and deadlines; digests and symptoms independent of reading order.
  \<^theory_text>\<open>Notification_Properties\<close>: planning succeeds on valid Transitions, interrupts at most once, for
  the most important escalation, withholds exactly below the operator's floor without losing information, and
  creates distinct idempotency keys.  \<^theory_text>\<open>Assessment_Properties\<close>: the proposal policy equals its
  specification, urgency is decided by deterministic evidence only, derived and fallback Assessments are
  valid, reuse and skipped Triage need proof, a judgment's overlay changes the operator request and what follows from it and nothing else.
  \<^theory_text>\<open>History_Properties\<close>: a history commit succeeds on ready inputs, orders its Transitions, is silent on a repeated
  state, names the first change in the order of precedence, credits the model only for what it newly concluded; the summary is the digest of its ledger and a
  closed Episode never reopens.  \<^theory_text>\<open>Expected_Properties\<close>: a matched schedule is sound, its authority removes the operator request
  and touches nothing but the contract, occurrences are bounded, wall clocks invert, and briefing and work projection agree with the rows.
  \<^theory_text>\<open>Reconcile_Properties\<close>: a cycle over well-formed rows lands its commit whatever the model replies, commits at most once and
  reports it truthfully; every commit keeps the table's constraints and a grounded Assessment; calls to the model are bounded and accounted
  for (a call without an outcome is left only by a cycle that failed), failed work is retried or parked, and a park for a rejected policy or
  capability starts none while the facts stay.
  \<^theory_text>\<open>Observation_Properties\<close>: a plan set keeps its budgets, loses no candidate, does not depend on map order and passes the plan validator.
  \<^theory_text>\<open>Preparation_Properties\<close>: request and credit budgets hold after any transactions, a cycle is frozen and final once sealed
  under the steps of \<open>prepStep\<close>, a retry resumes it, a finished phase is idle when run again, the expiry of payloads spares protected
  evidence; two error behaviours of replays and fences.
  \<^theory_text>\<open>Model_Properties\<close>: label rendering and text bounds.

  \<^bold>\<open>Parameters.\<close>  The name-based UUID of the imported package is a function argument \<open>f\<close>; where a property needs
  anything of it, it is that identities are non-blank and bounded.  The digest of observation facts, which
  re-encodes raw JSON values, is a function argument \<open>od\<close> of the hashes, about which nothing is assumed.
  SHA-256 is defined and free of assumptions; only the exact choice of a Transition's reason assumes that the pairs of values it compares
  do not collide (\<open>digestsTellApart\<close>).  The time zone database is a function argument \<open>tz\<close> from zone names to offsets in force at an instant, about which nothing is assumed.
  The answers of the store, the evidence preparer and the model client, the clock, fresh identifiers and the random draw of a backoff are the record
  \<open>controllerEnv\<close>; only the liveness property assumes anything of them (\<open>healthyCycle\<close>: the store answers and its rows are well formed).
  For the preparation store the canonical, compact and valid forms of raw JSON and the tables of source definitions are the record
  \<open>storeEnv\<close>, and the connectors, clocks, wall and failing calls of the runner the record \<open>runnerEnv\<close>; nothing is assumed of them but that a
  connector names its run after its plan, where idleness needs it.

  \<^bold>\<open>Recursion and fuel.\<close>  Nearly all loops of the code range over finite slices and maps; they are structural
  recursions or folds.  The dispatch loop is a recursion on the call number with a measure, the distance to the configured maximum; the
  retention loop is one with the number of runs behind its cursor.  So every definition is total and no fuel is needed.  How many rows a
  retention page reads before its time is up, and the order in which the map of enabled capabilities is visited, are arguments.

  \<^bold>\<open>Not modelled.\<close>  SQL over SQLite (\<^verbatim>\<open>internal/store\<close>) beyond the preparation tables, the deletion of old cycles and their metadata (\<^verbatim>\<open>observation_metadata_retention.go\<close>), HTTP clients and servers, the prompt texts, process wiring
  and metrics: effects outside the kernel's reach.  JSON decoding of a proposal: the model starts from the decoded
  value.
\<close>

end
